(* ===== verification/Js_Prelude.thy ===== *)
theory Js_Prelude
  imports Main "HOL-Library.AList" "HOL-Library.Multiset" "HOL-Library.Sublist"
begin

text \<open>
  The part of JavaScript that the modelled modules of \<^verbatim>\<open>ui-v2/src\<close> use.

  \<^item> A JavaScript string whose UTF-16 code units are all below 256 is the HOL \<open>string\<close> of the
    same code units. On these strings \<open>toLowerCase\<close> and \<open>trim\<close> below are exact (ASCII and the
    Latin-1 letters, the Latin-1 white space).
  \<^item> A \<open>Map\<close>, or a plain object used as a dictionary with keys that are not array indices, is
    an association list in insertion order: \<open>set\<close> is \<open>AList.update\<close>, \<open>get\<close> is \<open>map_of\<close>,
    \<open>delete\<close> is \<open>AList.delete\<close>. A \<open>Set\<close> is the list of its elements in insertion order.
  \<^item> A thrown exception is the left value of a sum.
  \<^item> \<open>Array.prototype.sort\<close> is a stable sort by a comparator; \<open>js_sort\<close> is the stable
    insertion sort, which gives the same list for every consistent comparator.
  \<^item> Numbers are integers: the modules below only use them as versions, counts, indices and
    epoch milliseconds.
\<close>

subsection \<open>Strings\<close>

definition is_upper_latin1 :: "char \<Rightarrow> bool" where
  "is_upper_latin1 c \<longleftrightarrow>
     (let n = (of_char c :: nat) in
        (65 \<le> n \<and> n \<le> 90) \<or> (192 \<le> n \<and> n \<le> 222 \<and> n \<noteq> 215))"

definition lower_char :: "char \<Rightarrow> char" where
  "lower_char c = (if is_upper_latin1 c then char_of ((of_char c :: nat) + 32) else c)"

definition toLowerCase :: "string \<Rightarrow> string" where
  "toLowerCase s = map lower_char s"

definition is_space :: "char \<Rightarrow> bool" where
  "is_space c \<longleftrightarrow> (let n = (of_char c :: nat) in (9 \<le> n \<and> n \<le> 13) \<or> n = 32 \<or> n = 160)"

definition trim :: "string \<Rightarrow> string" where
  "trim s = rev (dropWhile is_space (rev (dropWhile is_space s)))"

fun split_on :: "char \<Rightarrow> string \<Rightarrow> string list" where
  "split_on d [] = [[]]"
| "split_on d (c # cs) =
     (if c = d then [] # split_on d cs
      else (case split_on d cs of [] \<Rightarrow> [[c]] | w # ws \<Rightarrow> (c # w) # ws))"

fun join_with :: "string \<Rightarrow> string list \<Rightarrow> string" where
  "join_with sep [] = []"
| "join_with sep [w] = w"
| "join_with sep (w # ws) = w @ sep @ join_with sep ws"

fun includes_str :: "string \<Rightarrow> string \<Rightarrow> bool" where
  "includes_str [] pat = (pat = [])"
| "includes_str (c # cs) pat = (prefix pat (c # cs) \<or> includes_str cs pat)"

fun show_nat :: "nat \<Rightarrow> string" where
  "show_nat n =
     (if n < 10 then [char_of (48 + n)] else show_nat (n div 10) @ [char_of (48 + n mod 10)])"

declare show_nat.simps [simp del]

definition show_int :: "int \<Rightarrow> string" where
  "show_int i = (if i < 0 then ''-'' @ show_nat (nat (- i)) else show_nat (nat i))"

definition show_bool :: "bool \<Rightarrow> string" where
  "show_bool b = (if b then ''true'' else ''false'')"

subsection \<open>Truthiness and optional values\<close>

text \<open>
  A string is falsy when it is empty, an optional string also when it is missing; \<open>a || b\<close> takes
  \<open>b\<close> for a falsy \<open>a\<close> and \<open>a ?? b\<close> only for a missing one.
\<close>

definition truthy_str :: "string \<Rightarrow> bool" where
  "truthy_str s \<longleftrightarrow> s \<noteq> []"

definition truthy_opt :: "string option \<Rightarrow> bool" where
  "truthy_opt s \<longleftrightarrow> (case s of None \<Rightarrow> False | Some v \<Rightarrow> v \<noteq> [])"

definition or_str :: "string option \<Rightarrow> string \<Rightarrow> string" where
  "or_str s d = (case s of None \<Rightarrow> d | Some v \<Rightarrow> if v = [] then d else v)"

definition nullish :: "'a option \<Rightarrow> 'a \<Rightarrow> 'a" where
  "nullish x d = (case x of None \<Rightarrow> d | Some v \<Rightarrow> v)"

definition orElse :: "'a option \<Rightarrow> 'a option \<Rightarrow> 'a option" where
  "orElse x y = (case x of None \<Rightarrow> y | Some v \<Rightarrow> Some v)"

definition drop_falsy :: "string option \<Rightarrow> string option" where
  "drop_falsy s = (if truthy_opt s then s else None)"

subsection \<open>Exceptions\<close>

datatype js_error =
    TypeError \<comment> \<open>reading a property of \<open>undefined\<close>\<close>
  | Err string \<comment> \<open>\<open>throw new Error(message)\<close>\<close>

type_synonym 'a res = "js_error + 'a"

definition bind_res :: "'a res \<Rightarrow> ('a \<Rightarrow> 'b res) \<Rightarrow> 'b res" where
  "bind_res x f = (case x of Inl e \<Rightarrow> Inl e | Inr v \<Rightarrow> f v)"

fun map_res :: "('a \<Rightarrow> 'b res) \<Rightarrow> 'a list \<Rightarrow> 'b list res" where
  "map_res f [] = Inr []"
| "map_res f (x # xs) = bind_res (f x) (\<lambda>y. bind_res (map_res f xs) (\<lambda>ys. Inr (y # ys)))"

fun each_res :: "('a \<Rightarrow> unit res) \<Rightarrow> 'a list \<Rightarrow> unit res" where
  "each_res f [] = Inr ()"
| "each_res f (x # xs) = bind_res (f x) (\<lambda>_. each_res f xs)"

subsection \<open>Sets and sorting\<close>

definition set_add :: "'a list \<Rightarrow> 'a \<Rightarrow> 'a list" where
  "set_add xs x = (if x \<in> set xs then xs else xs @ [x])"

definition set_delete :: "'a list \<Rightarrow> 'a \<Rightarrow> 'a list" where
  "set_delete xs x = filter (\<lambda>y. y \<noteq> x) xs"

definition set_of :: "'a list \<Rightarrow> 'a list" where
  "set_of xs = foldl set_add [] xs"

fun insort_cmp :: "('a \<Rightarrow> 'a \<Rightarrow> int) \<Rightarrow> 'a \<Rightarrow> 'a list \<Rightarrow> 'a list" where
  "insort_cmp cmp x [] = [x]"
| "insort_cmp cmp x (y # ys) = (if cmp x y \<le> 0 then x # y # ys else y # insort_cmp cmp x ys)"

fun js_sort :: "('a \<Rightarrow> 'a \<Rightarrow> int) \<Rightarrow> 'a list \<Rightarrow> 'a list" where
  "js_sort cmp [] = []"
| "js_sort cmp (x # xs) = insort_cmp cmp x (js_sort cmp xs)"

subsection \<open>JSON values\<close>

datatype json =
    JNull
  | JBool bool
  | JNum int
  | JStr string
  | JArr "json list"
  | JObj "(string \<times> json) list"

text \<open>The host's \<open>JSON.parse\<close>, which has no value where it throws, and \<open>JSON.stringify\<close>.\<close>

record json_lib =
  json_parse :: "string \<Rightarrow> json option"
  json_stringify :: "json \<Rightarrow> string"

text \<open>Property access, \<open>typeof\<close> tests, truthiness and \<open>String(value)\<close> of JSON values.\<close>

definition get_prop :: "json \<Rightarrow> string \<Rightarrow> json option" where
  "get_prop v k = (case v of JObj ps \<Rightarrow> map_of ps k | _ \<Rightarrow> None)"

definition as_string :: "json option \<Rightarrow> string option" where
  "as_string v = (case v of Some (JStr s) \<Rightarrow> Some s | _ \<Rightarrow> None)"

definition as_number :: "json option \<Rightarrow> int option" where
  "as_number v = (case v of Some (JNum n) \<Rightarrow> Some n | _ \<Rightarrow> None)"

definition as_array :: "json option \<Rightarrow> json list option" where
  "as_array v = (case v of Some (JArr xs) \<Rightarrow> Some xs | _ \<Rightarrow> None)"

definition truthy_json :: "json option \<Rightarrow> bool" where
  "truthy_json v = (case v of
       None \<Rightarrow> False | Some JNull \<Rightarrow> False | Some (JBool b) \<Rightarrow> b | Some (JNum n) \<Rightarrow> n \<noteq> 0
     | Some (JStr s) \<Rightarrow> s \<noteq> [] | Some _ \<Rightarrow> True)"

fun js_text :: "json \<Rightarrow> string" where
  "js_text JNull = ''null''"
| "js_text (JBool b) = show_bool b"
| "js_text (JNum n) = show_int n"
| "js_text (JStr s) = s"
| "js_text (JArr xs) = join_with '','' (map (\<lambda>x. if x = JNull then [] else js_text x) xs)"
| "js_text (JObj ps) = ''[object Object]''"

section \<open>Shared lemmas\<close>

declare Let_def [simp]

named_theorems js_opt \<open>unfolding of the truthiness and default operators\<close>

declare truthy_str_def [js_opt] truthy_opt_def [js_opt] or_str_def [js_opt]
  nullish_def [js_opt] orElse_def [js_opt] drop_falsy_def [js_opt]

lemma bind_res_simps [simp]:
  "bind_res (Inl e) f = Inl e" "bind_res (Inr v) f = f v"
  by (simp_all add: bind_res_def)

lemma bind_res_Inr [simp]: "bind_res x f = Inr y \<longleftrightarrow> (\<exists>v. x = Inr v \<and> f v = Inr y)"
  by (cases x) auto

lemma bind_res_Inl [simp]:
  "bind_res x f = Inl e \<longleftrightarrow> x = Inl e \<or> (\<exists>v. x = Inr v \<and> f v = Inl e)"
  by (cases x) auto

lemma map_res_Inr: "map_res f xs = Inr ys \<longleftrightarrow> list_all2 (\<lambda>x y. f x = Inr y) xs ys"
  by (induction xs arbitrary: ys) (auto simp: list_all2_Cons1)

lemma list_all2_member: "list_all2 P xs ys \<Longrightarrow> x \<in> set xs \<Longrightarrow> \<exists>y \<in> set ys. P x y"
  by (induction rule: list_all2_induct) auto

lemma map_res_total: "(\<And>x. x \<in> set xs \<Longrightarrow> \<exists>y. f x = Inr y) \<Longrightarrow> \<exists>ys. map_res f xs = Inr ys"
  by (induction xs) (simp, fastforce)

lemma map_res_pure: "(\<And>x. x \<in> set xs \<Longrightarrow> f x = Inr (g x)) \<Longrightarrow> map_res f xs = Inr (map g xs)"
  by (induction xs) auto

lemma get_prop_JObj [simp]: "get_prop (JObj ps) k = map_of ps k"
  by (simp add: get_prop_def)

lemma each_res_Inr [simp]: "each_res f xs = Inr u \<longleftrightarrow> (\<forall>x \<in> set xs. f x = Inr ())"
  by (induction xs) auto

lemma set_set_add [simp]: "set (set_add xs x) = insert x (set xs)"
  by (auto simp: set_add_def)

lemma distinct_set_add [simp]: "distinct (set_add xs x) = distinct xs"
  by (auto simp: set_add_def)

lemma set_set_delete [simp]: "set (set_delete xs x) = set xs - {x}"
  by (auto simp: set_delete_def)

lemma set_foldl_set_add [simp]: "set (foldl set_add acc xs) = set acc \<union> set xs"
  by (induction xs arbitrary: acc) auto

lemma set_set_of [simp]: "set (set_of xs) = set xs"
  by (simp add: set_of_def)

lemma distinct_foldl_set_add: "distinct acc \<Longrightarrow> distinct (foldl set_add acc xs)"
  by (induction xs arbitrary: acc) auto

lemma distinct_set_of [simp]: "distinct (set_of xs)"
  by (simp add: set_of_def distinct_foldl_set_add)

lemma foldl_set_add_distinct:
  "distinct (acc @ xs) \<Longrightarrow> foldl set_add acc xs = acc @ xs"
proof (induction xs arbitrary: acc)
  case (Cons x xs)
  then have "set_add acc x = acc @ [x]" by (simp add: set_add_def)
  with Cons show ?case by (simp add: insert_commute)
qed simp

lemma set_of_distinct: "distinct xs \<Longrightarrow> set_of xs = xs"
  by (simp add: set_of_def foldl_set_add_distinct)

lemma length_set_of: "length (set_of xs) = card (set xs)"
  by (metis distinct_card distinct_set_of set_set_of)

lemma set_of_size_iff: "length (set_of xs) = length xs \<longleftrightarrow> distinct xs"
  by (metis card_distinct distinct_card length_set_of)

subsection \<open>Objects and maps as association lists\<close>

lemma update_member: "p \<in> set (AList.update k v m) \<Longrightarrow> p = (k, v) \<or> p \<in> set m"
  by (induction m) (auto split: if_splits)

lemma update_fresh: "k \<notin> fst ` set m \<Longrightarrow> AList.update k v m = m @ [(k, v)]"
  by (induction m) auto

lemma find_key: "distinct (map f xs) \<Longrightarrow> x \<in> set xs \<Longrightarrow> List.find (\<lambda>y. f y = f x) xs = Some x"
  by (induction xs) (auto simp: image_iff)

subsection \<open>The stable sort\<close>

lemma mset_insort_cmp [simp]: "mset (insort_cmp cmp x xs) = add_mset x (mset xs)"
  by (induction xs) auto

lemma mset_js_sort [simp]: "mset (js_sort cmp xs) = mset xs"
  by (induction xs) auto

lemma set_js_sort [simp]: "set (js_sort cmp xs) = set xs"
  by (metis mset_js_sort set_mset_mset)

lemma length_js_sort [simp]: "length (js_sort cmp xs) = length xs"
  by (metis mset_js_sort size_mset)

lemma distinct_js_sort [simp]: "distinct (js_sort cmp xs) = distinct xs"
  using mset_eq_imp_distinct_iff mset_js_sort by blast

text \<open>
  A comparator the standard calls consistent: its sign is a total preorder. Every comparator of
  the program is shown to be one where it is used; the client facts of \<open>js_sort\<close> are proved
  once, here.
\<close>

locale js_comparator =
  fixes cmp :: "'a \<Rightarrow> 'a \<Rightarrow> int"
  assumes cmp_total: "cmp x y \<le> 0 \<or> cmp y x \<le> 0"
    and cmp_trans: "cmp x y \<le> 0 \<Longrightarrow> cmp y z \<le> 0 \<Longrightarrow> cmp x z \<le> 0"
begin

lemma insort_cmp_sorted:
  "sorted_wrt (\<lambda>a b. cmp a b \<le> 0) xs \<Longrightarrow> sorted_wrt (\<lambda>a b. cmp a b \<le> 0) (insort_cmp cmp x xs)"
proof (induction xs)
  case (Cons y ys)
  have "set (insort_cmp cmp x ys) = insert x (set ys)"
    by (metis mset_insort_cmp set_mset_add_mset_insert set_mset_mset)
  with Cons show ?case
    using cmp_total [of x y] by (auto intro: cmp_trans)
qed simp

lemma js_sort_sorted: "sorted_wrt (\<lambda>a b. cmp a b \<le> 0) (js_sort cmp xs)"
  by (induction xs) (auto intro: insort_cmp_sorted)

lemma js_sort_idle: "sorted_wrt (\<lambda>a b. cmp a b \<le> 0) xs \<Longrightarrow> js_sort cmp xs = xs"
proof (induction xs)
  case (Cons x xs)
  then have "js_sort cmp xs = xs" by simp
  with Cons.prems show ?case by (cases xs) auto
qed simp

lemma filter_insort_cmp:
  "sorted_wrt (\<lambda>a b. cmp a b \<le> 0) xs \<Longrightarrow>
   filter P (insort_cmp cmp x xs) = (if P x then insort_cmp cmp x (filter P xs) else filter P xs)"
proof (induction xs)
  case (Cons y ys)
  have "insort_cmp cmp x (filter P ys) = x # filter P ys" if "cmp x y \<le> 0"
    using Cons.prems that by (cases "filter P ys") (auto dest: cmp_trans [OF that] simp: filter_eq_Cons_iff)
  with Cons show ?case by auto
qed simp

lemma filter_js_sort: "filter P (js_sort cmp xs) = js_sort cmp (filter P xs)"
  by (induction xs) (simp_all add: filter_insort_cmp js_sort_sorted)

lemma js_sort_twice: "js_sort cmp (js_sort cmp xs) = js_sort cmp xs"
  by (rule js_sort_idle [OF js_sort_sorted])

text \<open>Elements that compare as equal keep their order.\<close>

lemma insort_cmp_stable:
  "filter (\<lambda>a. cmp a k \<le> 0 \<and> cmp k a \<le> 0) (insort_cmp cmp x xs) =
   filter (\<lambda>a. cmp a k \<le> 0 \<and> cmp k a \<le> 0) (x # xs)"
proof (induction xs)
  case (Cons y ys)
  have "cmp x y \<le> 0" if "cmp x k \<le> 0" "cmp k y \<le> 0"
    using that by (rule cmp_trans)
  with Cons show ?case by auto
qed simp

lemma js_sort_stable:
  "filter (\<lambda>a. cmp a k \<le> 0 \<and> cmp k a \<le> 0) (js_sort cmp xs) =
   filter (\<lambda>a. cmp a k \<le> 0 \<and> cmp k a \<le> 0) xs"
  by (induction xs) (auto simp: insort_cmp_stable)

end

subsection \<open>Maps from keys to values\<close>

text \<open>
  \<open>new Map(xs.map(x => [key(x), x]))\<close> and its loop form: one entry per key, in the order of first occurrence,
  with the last value.
\<close>

definition latest_by :: "('a \<Rightarrow> 'k) \<Rightarrow> 'a list \<Rightarrow> ('k \<times> 'a) list" where
  "latest_by key xs = foldl (\<lambda>m x. AList.update (key x) x m) [] xs"

lemma latest_by_snoc: "latest_by key (xs @ [x]) = AList.update (key x) x (latest_by key xs)"
  by (simp add: latest_by_def)

lemma latest_by_keys:
  "distinct (map fst (latest_by key xs)) \<and> list_all (\<lambda>p. fst p = key (snd p)) (latest_by key xs)"
proof (induction xs rule: rev_induct)
  case Nil
  then show ?case by (simp add: latest_by_def)
next
  case (snoc x xs)
  then show ?case by (auto simp: latest_by_snoc distinct_update list_all_iff dest!: update_member)
qed

lemma latest_by_lookup:
  "map_of (latest_by key xs) k =
   (case filter (\<lambda>x. key x = k) xs of [] \<Rightarrow> None | ys \<Rightarrow> Some (last (filter (\<lambda>x. key x = k) xs)))"
proof (induction xs rule: rev_induct)
  case Nil
  then show ?case by (simp add: latest_by_def)
next
  case (snoc x xs)
  then show ?case by (auto simp: latest_by_snoc update_conv' split: list.splits)
qed

lemma keys_of_values: "list_all (\<lambda>p. fst p = f (snd p)) m \<Longrightarrow> map f (map snd m) = map fst m"
  by (induction m) auto

lemma latest_by_distinct: "distinct (map key (map snd (latest_by key xs)))"
  using latest_by_keys [of key xs] keys_of_values [of key "latest_by key xs"] by metis

lemma latest_by_member:
  "x \<in> snd ` set (latest_by key xs) \<longleftrightarrow> x \<in> set xs \<and> last (filter (\<lambda>y. key y = key x) xs) = x"
proof -
  define ys where "ys = filter (\<lambda>y. key y = key x) xs"
  have ys: "x \<in> set ys \<longleftrightarrow> x \<in> set xs" by (simp add: ys_def)
  have "x \<in> snd ` set (latest_by key xs) \<longleftrightarrow> map_of (latest_by key xs) (key x) = Some x"
    using latest_by_keys [of key xs] by (auto simp: list_all_iff intro!: map_of_is_SomeI dest: map_of_SomeD) force+
  also have "\<dots> \<longleftrightarrow> ys \<noteq> [] \<and> last ys = x"
    by (auto simp: latest_by_lookup ys_def split: list.splits)
  also have "\<dots> \<longleftrightarrow> x \<in> set xs \<and> last ys = x"
    using last_in_set [of ys] ys by (metis empty_iff empty_set)
  finally show ?thesis by (simp add: ys_def)
qed

subsection \<open>Decimal numerals\<close>

lemma char_of_nat_inj: "a < 256 \<Longrightarrow> b < 256 \<Longrightarrow> char_of a = char_of (b::nat) \<longleftrightarrow> a = b"
  by (metis mod_less of_char_of)

lemma show_nat_nonempty [simp]: "show_nat n \<noteq> []"
  by (subst show_nat.simps) simp

lemma show_nat_length_1: "length (show_nat n) = 1 \<Longrightarrow> n < 10"
proof (rule ccontr)
  assume "length (show_nat n) = 1" and "\<not> n < 10"
  then have "length (show_nat (n div 10)) = 0" by (subst (asm) show_nat.simps) simp
  then show False by simp
qed

lemma show_nat_inj: "show_nat m = show_nat n \<Longrightarrow> m = n"
proof (induction m arbitrary: n rule: show_nat.induct)
  case (1 m)
  show ?case
  proof (cases "m < 10 \<or> n < 10")
    case True
    then have "length (show_nat m) = 1"
      using "1.prems" by (metis One_nat_def length_Cons list.size(3) show_nat.simps)
    then have "m < 10" "n < 10" using "1.prems" show_nat_length_1 by auto
    with "1.prems" show ?thesis
      by (simp add: show_nat.simps [of m] show_nat.simps [of n] char_of_nat_inj)
  next
    case False
    with "1.prems" have eq: "show_nat (m div 10) = show_nat (n div 10)"
      and last: "char_of (48 + m mod 10) = char_of (48 + n mod 10)"
      by (simp_all add: show_nat.simps [of m] show_nat.simps [of n])
    have "48 + m mod 10 < 256" "48 + n mod 10 < 256"
      using mod_less_divisor [of 10 m] mod_less_divisor [of 10 n] by linarith+
    then have "m mod 10 = n mod 10" using last char_of_nat_inj by fastforce
    moreover have "m div 10 = n div 10" using "1.IH" False eq by simp
    ultimately show ?thesis by (metis div_mult_mod_eq)
  qed
qed

end
