(* ===== verification/Flow_Types.thy ===== *)
theory Flow_Types
  imports Js_Prelude
begin

text \<open>
  The data model of \<^verbatim>\<open>src/ui-v2/src/modules/workflow/types/react-flow-cots.ts\<close>: the workflow
  graph (nodes, edges), the scenarios with their tests, the service and test configurations sent
  to the runner, and the run statuses. An optional property is an \<open>option\<close>; properties that the
  code itself checks for presence (a node's service, an expectation's request) are optional even
  where the TypeScript type says otherwise, because values come from parsed JSON.
\<close>

subsection \<open>Services\<close>

datatype service_type =
    Postgres | MySQL | Generic | MariaDB | Redis | Memcached | Kafka | RabbitMQ | MongoDB
  | Nginx | MockServer

record expectation_request =
  req_method :: "string option"
  req_path :: "string option"
  req_headers :: "(string \<times> string) list option"
  req_body :: "string option"

record expectation_response =
  rsp_statusCode :: "int option"
  rsp_headers :: "(string \<times> string) list option"
  rsp_body :: "string option"

record mock_expectation =
  exp_id :: "string option"
  exp_request :: "expectation_request option"
  exp_response :: "expectation_response option"

record port_mapping =
  pm_id :: string
  pm_hostPort :: string
  pm_containerPort :: string

record env_var =
  ev_id :: string
  ev_key :: string
  ev_value :: string

record init_script =
  is_id :: string
  is_order :: int
  is_script :: string
  is_description :: "string option"

datatype wait_type = WaitLog | WaitPort | WaitExec

record wait_strategy =
  ws_enabled :: bool
  ws_type :: wait_type
  ws_target :: "string option"
  ws_timeout :: "int option"

record node_service =
  svc_type :: service_type
  svc_image :: "string option"
  svc_command :: "string list option"
  svc_ports :: "port_mapping list option"
  svc_env :: "env_var list option"
  svc_wait :: "wait_strategy option"
  svc_initScripts :: "init_script list option"
  svc_mockServer :: "mock_expectation list option"
  svc_registry :: "(string \<times> string) option"

subsection \<open>Tests\<close>

datatype test_type = TDatabase | TDocument | THttp | TShell | TCache | TQueue | TDelay

text \<open>The mode is a string because imported bundles are checked for other values.\<close>

record retry_policy =
  rp_mode :: string
  rp_idempotencyConfirmed :: bool

record database_config =
  dbc_driver :: string
  dbc_database :: string
  dbc_user :: string
  dbc_password :: string
  dbc_query :: string
  dbc_expectedResult :: "json option"

record document_config =
  doc_service :: string
  doc_database :: string
  doc_collection :: string
  doc_operation :: string
  doc_document :: "json option"
  doc_filter :: "json option"
  doc_update :: "json option"
  doc_expectedDocument :: "json option"
  doc_expectedDocuments :: "json option"
  doc_expectedCount :: "int option"
  doc_expectedExists :: "bool option"

record http_expected_body =
  heb_mode :: string
  heb_value :: json

record http_config =
  http_method :: string
  http_path :: string
  http_port :: string
  http_headers :: "(string \<times> string) list option"
  http_body :: "string option"
  http_expectedStatus :: "int option"
  http_expectedBody :: "http_expected_body option"

record shell_config =
  sh_command :: string
  sh_env :: "(string \<times> string) list option"
  sh_expectedOutput :: "string option"
  sh_expectedExitCode :: "int option"

record cache_config =
  cc_service :: string
  cc_cacheType :: string
  cc_operation :: string
  cc_key :: "string option"
  cc_value :: "json option"
  cc_expectedValue :: "json option"
  cc_expectedExists :: "bool option"
  cc_ttl :: "int option"
  cc_db :: "int option"
  cc_password :: "string option"

record queue_config =
  qc_service :: string
  qc_brokerType :: string
  qc_operation :: string
  qc_topic :: "string option"
  qc_message :: "json option"
  qc_key :: "string option"
  qc_partition :: "int option"
  qc_timeout :: "int option"
  qc_fromBeginning :: "bool option"
  qc_expectedCount :: "int option"
  qc_expectedMessage :: "json option"
  qc_expectedExists :: "bool option"

record scenario_test =
  st_id :: string
  st_name :: string
  st_type :: test_type
  st_targetServices :: "string list option"
  st_dependsOnTestIds :: "string list option"
  st_retryPolicy :: "retry_policy option"
  st_databaseConfig :: "database_config option"
  st_documentConfig :: "document_config option"
  st_httpConfig :: "http_config option"
  st_shellConfig :: "shell_config option"
  st_cacheConfig :: "cache_config option"
  st_queueConfig :: "queue_config option"
  st_delayMs :: "int option"

subsection \<open>The workflow graph\<close>

record node_data =
  nd_label :: string
  nd_description :: "string option"
  nd_service :: "node_service option"
  nd_tests :: "scenario_test list option"

text \<open>\<open>fn_attrs\<close> holds the React Flow properties of a node other than the ones named here.\<close>

record flow_node =
  fn_id :: string
  fn_position :: "int \<times> int"
  fn_attrs :: "(string \<times> json) list"
  fn_data :: node_data

record edge_data =
  ed_label :: "string option"
  ed_description :: "string option"
  ed_protocol :: "string option"
  ed_relation :: "string option"
  ed_readiness :: "string option"
  ed_needsReview :: "bool option"
  ed_showLabel :: "bool option"
  ed_layoutPoints :: "(int \<times> int) list option"

record flow_edge =
  fe_id :: string
  fe_source :: string
  fe_target :: string
  fe_type :: "string option"
  fe_attrs :: "(string \<times> json) list"
  fe_data :: "edge_data option"

subsection \<open>What is sent to the runner\<close>

record wait_strategy_config =
  wc_type :: wait_type
  wc_target :: "string option"
  wc_timeout :: "int option"

record mock_expectation_config =
  mc_id :: "string option"
  mc_request :: "expectation_request option"
  mc_status_code :: "int option"
  mc_headers :: "(string \<times> string) list option"
  mc_body :: "string option"

record registry_config =
  rg_url :: string
  rg_auth_type :: string
  rg_username :: "string option"
  rg_password :: "string option"
  rg_token :: "string option"

record service_config =
  cf_name :: string
  cf_type :: service_type
  cf_image :: "string option"
  cf_command :: "string list option"
  cf_env :: "(string \<times> string) list option"
  cf_ports :: "string list option"
  cf_depends_on :: "string list option"
  cf_wait_strategy :: "wait_strategy_config option"
  cf_init_scripts :: "string list option"
  cf_mockserver_expectations :: "mock_expectation_config list option"
  cf_registry :: "registry_config option"

record test_config =
  tc_name :: string
  tc_type :: test_type
  tc_depends_on :: "string list"
  tc_retry_policy :: "retry_policy option"
  tc_config :: "(string \<times> json) list"

record translation_error =
  te_nodeId :: "string option"
  te_message :: string
  te_field :: "string option"

record validation_result =
  vr_valid :: bool
  vr_errors :: "translation_error list"
  vr_warnings :: "string list"

record translation_result =
  tr_services :: "service_config list"
  tr_tests :: "test_config list"

type_synonym node_map = "(string \<times> flow_node) list"
type_synonym dependency_graph = "(string \<times> string list) list"

subsection \<open>Run statuses\<close>

datatype workflow_run_status =
    W_pending | W_running | W_cancelling | W_cancelled | W_completed | W_failed
  | W_partial_failed | W_cleanup_failed

datatype scenario_run_status =
    S_pending | S_running | S_cancelling | S_cancelled | S_completed | S_failed | S_cleanup_failed

datatype test_result_status = R_pending | R_running | R_passed | R_failed

end
