(* ===== verification/Edge_Model.thy ===== *)
theory Edge_Model
  imports Flow_Types
begin

text \<open>
  \<^verbatim>\<open>src/ui-v2/src/modules/workflow/lib/edge-model.ts\<close>: the relation and readiness metadata of
  graph edges, its inference for new edges and its normalisation for stored or imported ones.
\<close>

definition EDGE_RELATIONS :: "string list" where
  "EDGE_RELATIONS = [''calls'', ''reads'', ''writes'', ''publishes'', ''consumes'']"

definition EDGE_READINESS_OPTIONS :: "string list" where
  "EDGE_READINESS_OPTIONS = [''none'', ''source_requires_target'', ''target_requires_source'']"

definition queueTypes :: "service_type list" where
  "queueTypes = [Kafka, RabbitMQ]"

definition storeTypes :: "service_type list" where
  "storeTypes = [Postgres, MySQL, MariaDB, Redis, Memcached, MongoDB]"

definition defaultReadiness :: "string \<Rightarrow> string" where
  "defaultReadiness relation =
     (if relation = ''reads'' \<or> relation = ''consumes'' then ''target_requires_source''
      else ''source_requires_target'')"

definition no_edge_data :: edge_data where
  "no_edge_data = \<lparr>ed_label = None, ed_description = None, ed_protocol = None,
     ed_relation = None, ed_readiness = None, ed_needsReview = None, ed_showLabel = None,
     ed_layoutPoints = None\<rparr>"

definition infer_relation :: "service_type \<Rightarrow> service_type \<Rightarrow> string" where
  "infer_relation sourceType targetType =
     (if sourceType \<in> set queueTypes \<and> targetType = Generic then ''consumes''
      else if sourceType = Generic \<and> targetType \<in> set queueTypes then ''publishes''
      else if sourceType \<in> set storeTypes \<and> targetType = Generic then ''reads''
      else if sourceType = Generic \<and> targetType \<in> set storeTypes then ''writes''
      else ''calls'')"

definition inferEdgeData :: "flow_node \<Rightarrow> flow_node \<Rightarrow> edge_data res" where
  "inferEdgeData source target =
     (case (nd_service (fn_data source), nd_service (fn_data target)) of
        (Some s, Some t) \<Rightarrow>
          (let relation = infer_relation (svc_type s) (svc_type t)
           in Inr (no_edge_data\<lparr>ed_relation := Some relation,
                                ed_readiness := Some (defaultReadiness relation)\<rparr>))
      | _ \<Rightarrow> Inl TypeError)"

text \<open>The edge's data, with every property of a missing \<open>data\<close> object absent (\<open>edge.data?.p\<close>).\<close>

definition data_of :: "flow_edge \<Rightarrow> edge_data" where
  "data_of e = nullish (fe_data e) no_edge_data"

definition edge_migrated :: "flow_edge \<Rightarrow> bool" where
  "edge_migrated e \<longleftrightarrow>
     \<not> truthy_opt (ed_relation (data_of e)) \<or> \<not> truthy_opt (ed_readiness (data_of e))"

definition valid_or :: "string list \<Rightarrow> string option \<Rightarrow> string \<Rightarrow> string" where
  "valid_or options v d = (case v of Some s \<Rightarrow> if s \<in> set options then s else d | None \<Rightarrow> d)"

definition normalizeEdge :: "flow_edge \<Rightarrow> bool \<Rightarrow> flow_edge" where
  "normalizeEdge e legacy =
     (let d = data_of e;
          migrated = (legacy \<or> edge_migrated e)
      in e\<lparr>fe_type := Some ''dataFlow'',
           fe_data := Some
             \<lparr>ed_label = ed_label d, ed_description = ed_description d, ed_protocol = ed_protocol d,
              ed_relation = Some (valid_or EDGE_RELATIONS (ed_relation d) ''calls''),
              ed_readiness =
                Some (valid_or EDGE_READINESS_OPTIONS (ed_readiness d) ''source_requires_target''),
              ed_needsReview = (if migrated \<or> ed_needsReview d = Some True then Some True else None),
              ed_showLabel = ed_showLabel d, ed_layoutPoints = ed_layoutPoints d\<rparr>\<rparr>)"

definition normalizeEdges :: "flow_edge list \<Rightarrow> bool \<Rightarrow> flow_edge list" where
  "normalizeEdges edges legacy = map (\<lambda>e. normalizeEdge e (legacy \<or> edge_migrated e)) edges"

definition relationLabel :: "edge_data option \<Rightarrow> string" where
  "relationLabel d =
     or_str (map_option trim (Option.bind d ed_label)) (or_str (Option.bind d ed_relation) ''calls'')"

definition invalidateRoutesForMovedNodes :: "flow_edge list \<Rightarrow> string list \<Rightarrow> flow_edge list" where
  "invalidateRoutesForMovedNodes edges moved =
     (if moved = [] then edges
      else map (\<lambda>e. if fe_source e \<in> set moved \<or> fe_target e \<in> set moved
                    then e\<lparr>fe_data := map_option (\<lambda>d. d\<lparr>ed_layoutPoints := None\<rparr>) (fe_data e)\<rparr>
                    else e) edges)"

section \<open>Properties\<close>

definition edge_wf :: "flow_edge \<Rightarrow> bool" where
  "edge_wf e \<longleftrightarrow>
     (\<exists>d r s. fe_data e = Some d \<and> ed_relation d = Some r \<and> r \<in> set EDGE_RELATIONS \<and>
              ed_readiness d = Some s \<and> s \<in> set EDGE_READINESS_OPTIONS)"

lemma valid_or_in: "d \<in> set options \<Longrightarrow> valid_or options v d \<in> set options"
  by (auto simp: valid_or_def split: option.splits)

lemma valid_or_idem: "d \<in> set options \<Longrightarrow> valid_or options (Some (valid_or options v d)) d = valid_or options v d"
  using valid_or_in [of d options v] by (auto simp: valid_or_def)

lemma normalizeEdge_wf: "edge_wf (normalizeEdge e legacy)"
  by (auto simp: edge_wf_def normalizeEdge_def intro!: valid_or_in)
     (auto simp: EDGE_RELATIONS_def EDGE_READINESS_OPTIONS_def)

lemma edge_wf_not_migrated: "edge_wf e \<Longrightarrow> \<not> edge_migrated e"
  by (auto simp: edge_wf_def edge_migrated_def data_of_def js_opt EDGE_RELATIONS_def
      EDGE_READINESS_OPTIONS_def)

lemma normalizeEdge_endpoints [simp]:
  "fe_source (normalizeEdge e l) = fe_source e" "fe_target (normalizeEdge e l) = fe_target e"
  "fe_id (normalizeEdge e l) = fe_id e"
  by (simp_all add: normalizeEdge_def)

lemma normalizeEdge_twice: "normalizeEdge (normalizeEdge e l) False = normalizeEdge e l"
proof -
  let ?e = "normalizeEdge e l"
  have "\<not> edge_migrated ?e" by (rule edge_wf_not_migrated [OF normalizeEdge_wf])
  moreover have "''calls'' \<in> set EDGE_RELATIONS"
    and "''source_requires_target'' \<in> set EDGE_READINESS_OPTIONS"
    by (simp_all add: EDGE_RELATIONS_def EDGE_READINESS_OPTIONS_def)
  ultimately show ?thesis
    by (simp add: normalizeEdge_def [of ?e] data_of_def)
       (simp add: normalizeEdge_def nullish_def valid_or_idem)
qed

text \<open>
  Normalising stored or imported edges is safe and stable: every edge of the result has a
  known relation and a known readiness and keeps its id and end points, edges without complete
  metadata are marked for review, and normalising again changes nothing.
\<close>

theorem normalizeEdges_stable:
  "list_all edge_wf (normalizeEdges edges legacy) \<and>
   map (\<lambda>e. (fe_id e, fe_source e, fe_target e)) (normalizeEdges edges legacy) =
     map (\<lambda>e. (fe_id e, fe_source e, fe_target e)) edges \<and>
   list_all2 (\<lambda>e e'. edge_migrated e \<longrightarrow> ed_needsReview (data_of e') = Some True)
     edges (normalizeEdges edges legacy) \<and>
   normalizeEdges (normalizeEdges edges legacy) False = normalizeEdges edges legacy"
proof (intro conjI)
  show "list_all edge_wf (normalizeEdges edges legacy)"
    by (simp add: normalizeEdges_def list_all_iff normalizeEdge_wf)
  show "map (\<lambda>e. (fe_id e, fe_source e, fe_target e)) (normalizeEdges edges legacy) =
     map (\<lambda>e. (fe_id e, fe_source e, fe_target e)) edges"
    by (simp add: normalizeEdges_def)
  show "list_all2 (\<lambda>e e'. edge_migrated e \<longrightarrow> ed_needsReview (data_of e') = Some True)
     edges (normalizeEdges edges legacy)"
    by (auto simp: normalizeEdges_def list_all2_conv_all_nth normalizeEdge_def data_of_def nullish_def)
  show "normalizeEdges (normalizeEdges edges legacy) False = normalizeEdges edges legacy"
    using edge_wf_not_migrated [OF normalizeEdge_wf]
    by (simp add: normalizeEdges_def normalizeEdge_twice)
qed

definition sample_edge :: flow_edge where
  "sample_edge = \<lparr>fe_id = ''e1'', fe_source = ''a'', fe_target = ''b'', fe_type = None,
     fe_attrs = [], fe_data = Some (no_edge_data\<lparr>ed_relation := Some ''bogus''\<rparr>)\<rparr>"

theorem normalizeEdges_stable_witness:
  "ed_needsReview (data_of (hd (normalizeEdges [sample_edge] False))) = Some True"
proof -
  have "edge_migrated sample_edge"
    by (simp add: edge_migrated_def data_of_def sample_edge_def no_edge_data_def js_opt)
  with normalizeEdges_stable [of "[sample_edge]" False] show ?thesis
    by (cases "normalizeEdges [sample_edge] False") auto
qed

lemma infer_relation_cases:
  "s \<in> set (queueTypes @ storeTypes) \<Longrightarrow> infer_relation s Generic \<in> {''consumes'', ''reads''}"
  "t \<in> set (queueTypes @ storeTypes) \<Longrightarrow> infer_relation Generic t \<in> {''publishes'', ''writes''}"
  by (auto simp: infer_relation_def queueTypes_def storeTypes_def)

text \<open>
  The readiness inferred for an edge between an application and a broker or a store always
  makes the application wait: whichever way the edge is drawn, the application requires the
  infrastructure service and never the other way round.
\<close>

theorem inferEdgeData_application_waits:
  assumes "nd_service (fn_data a) = Some sa" "svc_type sa = Generic"
    and "nd_service (fn_data i) = Some si" "svc_type si \<in> set (queueTypes @ storeTypes)"
  shows "(\<exists>d. inferEdgeData a i = Inr d \<and> ed_readiness d = Some ''source_requires_target'') \<and>
    (\<exists>d. inferEdgeData i a = Inr d \<and> ed_readiness d = Some ''target_requires_source'')"
  using assms infer_relation_cases [of "svc_type si"]
  by (auto simp: inferEdgeData_def defaultReadiness_def)

definition sample_service :: "service_type \<Rightarrow> node_service" where
  "sample_service t = \<lparr>svc_type = t, svc_image = Some ''image:1'', svc_command = None,
     svc_ports = None, svc_env = None, svc_wait = None, svc_initScripts = None,
     svc_mockServer = None, svc_registry = None\<rparr>"

definition sample_node :: "string \<Rightarrow> service_type \<Rightarrow> flow_node" where
  "sample_node name t = \<lparr>fn_id = name, fn_position = (0, 0), fn_attrs = [],
     fn_data = \<lparr>nd_label = name, nd_description = None, nd_service = Some (sample_service t),
                nd_tests = None\<rparr>\<rparr>"

lemma sample_node_simps [simp]:
  "fn_id (sample_node n t) = n" "nd_label (fn_data (sample_node n t)) = n"
  "nd_service (fn_data (sample_node n t)) = Some (sample_service t)"
  "svc_type (sample_service t) = t" "svc_mockServer (sample_service t) = None"
  "svc_image (sample_service t) = Some ''image:1''"
  by (simp_all add: sample_node_def sample_service_def)

theorem inferEdgeData_application_waits_witness:
  "\<exists>d. inferEdgeData (sample_node ''cache'' Redis) (sample_node ''app'' Generic) = Inr d \<and>
       ed_readiness d = Some ''target_requires_source''"
  using inferEdgeData_application_waits
    [of "sample_node ''app'' Generic" "sample_service Generic" "sample_node ''cache'' Redis"
        "sample_service Redis"]
  by (simp add: queueTypes_def storeTypes_def)

end
