(* ===== verification/Names.thy ===== *)
theory Names
  imports Flow_Types
begin

text \<open>
  \<open>sanitizeName\<close> of \<^verbatim>\<open>src/ui-v2/src/modules/utils/scenario-translator.ts\<close>: the service name made
  from a node's label, used as the key of the dependency graph, as the name sent to the runner and
  in runtime references.
\<close>

definition name_char :: "char \<Rightarrow> bool" where
  "name_char c \<longleftrightarrow>
     (let n = (of_char c :: nat) in
        (97 \<le> n \<and> n \<le> 122) \<or> (48 \<le> n \<and> n \<le> 57) \<or> n = 95 \<or> n = 45)"

fun collapse_underscores :: "string \<Rightarrow> string" where
  "collapse_underscores (c # d # cs) =
     (if c = CHR ''_'' \<and> d = CHR ''_'' then collapse_underscores (d # cs)
      else c # collapse_underscores (d # cs))"
| "collapse_underscores cs = cs"

definition strip_underscore_ends :: "string \<Rightarrow> string" where
  "strip_underscore_ends s =
     (let t = (case s of c # cs \<Rightarrow> if c = CHR ''_'' then cs else s | [] \<Rightarrow> [])
      in if t \<noteq> [] \<and> last t = CHR ''_'' then butlast t else t)"

definition sanitizeName :: "string \<Rightarrow> string" where
  "sanitizeName label =
     strip_underscore_ends
       (collapse_underscores
         (map (\<lambda>c. if name_char c then c else CHR ''_'') (toLowerCase label)))"

section \<open>Properties\<close>

fun no_double :: "string \<Rightarrow> bool" where
  "no_double (c # d # cs) \<longleftrightarrow> \<not> (c = CHR ''_'' \<and> d = CHR ''_'') \<and> no_double (d # cs)"
| "no_double cs \<longleftrightarrow> True"

definition clean_name :: "string \<Rightarrow> bool" where
  "clean_name s \<longleftrightarrow> list_all name_char s \<and> no_double s \<and>
     (s \<noteq> [] \<longrightarrow> hd s \<noteq> CHR ''_'' \<and> last s \<noteq> CHR ''_'')"

lemma name_char_underscore [simp]: "name_char CHR ''_''"
  by (simp add: name_char_def)

lemma lower_char_name: "name_char c \<Longrightarrow> lower_char c = c"
  by (auto simp: name_char_def lower_char_def is_upper_latin1_def)

lemma collapse_Cons: "\<exists>ds. collapse_underscores (c # cs) = c # ds"
  by (induction cs arbitrary: c) auto

lemma collapse_no_double: "no_double (collapse_underscores s)"
proof (induction s rule: collapse_underscores.induct)
  case (1 c d cs)
  then show ?case using collapse_Cons [of d cs] by auto
qed simp_all

lemma collapse_id: "no_double s \<Longrightarrow> collapse_underscores s = s"
  by (induction s rule: collapse_underscores.induct) auto

lemma collapse_chars: "list_all P s \<Longrightarrow> list_all P (collapse_underscores s)"
  by (induction s rule: collapse_underscores.induct) auto

lemma no_double_tl: "no_double s \<Longrightarrow> no_double (tl s)"
  by (induction s rule: no_double.induct) auto

lemma no_double_butlast: "no_double s \<Longrightarrow> no_double (butlast s)"
proof (induction s rule: no_double.induct)
  case (1 c d cs)
  then show ?case by (cases cs) auto
qed auto

lemma no_double_hd: "no_double (CHR ''_'' # s) \<Longrightarrow> s \<noteq> [] \<Longrightarrow> hd s \<noteq> CHR ''_''"
  by (cases s) auto

lemma no_double_last: "no_double s \<Longrightarrow> last s = CHR ''_'' \<Longrightarrow> butlast s \<noteq> [] \<Longrightarrow> last (butlast s) \<noteq> CHR ''_''"
proof (induction s rule: no_double.induct)
  case (1 c d cs)
  then show ?case by (cases cs) auto
qed auto

lemma strip_clean:
  assumes "list_all name_char s" "no_double s"
  shows "clean_name (strip_underscore_ends s)"
proof -
  define t where "t = (case s of c # cs \<Rightarrow> if c = CHR ''_'' then cs else s | [] \<Rightarrow> [])"
  have t: "list_all name_char t" "no_double t" "t \<noteq> [] \<Longrightarrow> hd t \<noteq> CHR ''_''"
    using assms no_double_tl [of s] no_double_hd [of "tl s"] unfolding t_def
    by (auto split: list.splits)
  have r: "strip_underscore_ends s = (if t \<noteq> [] \<and> last t = CHR ''_'' then butlast t else t)"
    by (simp add: strip_underscore_ends_def t_def)
  have b: "list_all name_char (butlast t)" "no_double (butlast t)"
    using t no_double_butlast by (auto simp: list_all_iff dest: in_set_butlastD)
  have h: "butlast t \<noteq> [] \<Longrightarrow> hd (butlast t) \<noteq> CHR ''_''"
    using t(3) by (cases t) (auto split: if_splits)
  show ?thesis
    unfolding r clean_name_def using t b h no_double_last [of t] by auto
qed

lemma sanitizeName_clean: "clean_name (sanitizeName s)"
  unfolding sanitizeName_def
  by (intro strip_clean collapse_chars collapse_no_double) (auto simp: list_all_iff)

lemma clean_name_fixed:
  assumes "clean_name s"
  shows "sanitizeName s = s"
proof -
  have "map (\<lambda>c. if name_char c then c else CHR ''_'') (toLowerCase s) = s"
    using assms by (auto simp: clean_name_def toLowerCase_def list_all_iff lower_char_name intro!: map_idI)
  with assms show ?thesis
    by (auto simp: sanitizeName_def clean_name_def collapse_id strip_underscore_ends_def split: list.splits)
qed

lemma sanitizeName_idem [simp]: "sanitizeName (sanitizeName s) = sanitizeName s"
  by (rule clean_name_fixed [OF sanitizeName_clean])

text \<open>
  \<open>sanitizeName\<close> is a normal form: its results use only \<open>a-z0-9_-\<close>, never two underscores in a
  row and none at either end; it leaves exactly such names unchanged, so it is idempotent.
\<close>

theorem sanitizeName_normal_form:
  "clean_name (sanitizeName s) \<and> (sanitizeName s = s \<longleftrightarrow> clean_name s)"
  using sanitizeName_clean [of s] clean_name_fixed [of s] by metis

end
