(* ===== verification/Dependency_Graph.thy ===== *)
theory Dependency_Graph
  imports Edge_Model Names
begin

text \<open>
  The service dependency graph of \<^verbatim>\<open>src/ui-v2/src/modules/utils/scenario-translator.ts\<close>: how it is
  built from nodes and edges (\<open>buildNodeMap\<close>, \<open>buildServiceDependencies\<close>), the depth-first cycle
  search \<open>detectCycles\<close>, and the depth-first closure that \<open>expandScenarioServiceSubset\<close> and
  \<open>validateRuntimeReferenceReadiness\<close> both run as a local function \<open>visit\<close>. The searches are total
  functions; their termination rests on the finite set of keys of the graph.
\<close>

definition buildNodeMap :: "flow_node list \<Rightarrow> node_map" where
  "buildNodeMap nodes = foldl (\<lambda>m n. AList.update (fn_id n) n m) [] nodes"

definition uniqueAppend :: "string list option \<Rightarrow> string \<Rightarrow> string list" where
  "uniqueAppend values value =
     (case values of
        None \<Rightarrow> [value]
      | Some vs \<Rightarrow> if value \<in> set vs then vs else vs @ [value])"

definition node_name :: "flow_node \<Rightarrow> string" where
  "node_name n = sanitizeName (nd_label (fn_data n))"

definition add_edge :: "node_map \<Rightarrow> dependency_graph \<Rightarrow> flow_edge \<Rightarrow> dependency_graph" where
  "add_edge nodeMap graph rawEdge =
     (let edge = normalizeEdge rawEdge False in
      case (map_of nodeMap (fe_source edge), map_of nodeMap (fe_target edge)) of
        (Some source, Some target) \<Rightarrow>
          (let sourceName = node_name source; targetName = node_name target;
               readiness = ed_readiness (data_of edge)
           in if readiness = Some ''source_requires_target''
              then AList.update sourceName (uniqueAppend (map_of graph sourceName) targetName) graph
              else if readiness = Some ''target_requires_source''
              then AList.update targetName (uniqueAppend (map_of graph targetName) sourceName) graph
              else graph)
      | _ \<Rightarrow> graph)"

definition buildServiceDependencies ::
  "flow_node list \<Rightarrow> flow_edge list \<Rightarrow> node_map \<Rightarrow> dependency_graph" where
  "buildServiceDependencies nodes edges nodeMap =
     foldl (add_edge nodeMap) (foldl (\<lambda>g n. AList.update (node_name n) [] g) [] nodes) edges"

subsection \<open>Searches\<close>

definition deps :: "dependency_graph \<Rightarrow> string \<Rightarrow> string list" where
  "deps graph name = nullish (map_of graph name) []"

text \<open>
  The local function \<open>visit\<close>, run on every name of a list: a name not seen yet is recorded and its
  dependencies are visited before the rest of the list.
\<close>

function visit_all :: "dependency_graph \<Rightarrow> string list \<Rightarrow> string list \<Rightarrow> string list" where
  "visit_all graph [] seen = seen"
| "visit_all graph (name # names) seen =
     (if name \<in> set seen then visit_all graph names seen
      else visit_all graph names (visit_all graph (deps graph name) (set_add seen name)))"
  by pat_completeness auto

lemma deps_outside: "name \<notin> dom (map_of graph) \<Longrightarrow> deps graph name = []"
  by (auto simp: deps_def nullish_def split: option.splits)

lemma visit_all_grows_dom:
  "visit_all_dom (graph, names, seen) \<Longrightarrow> set seen \<subseteq> set (visit_all graph names seen)"
proof (induction graph names seen rule: visit_all.pinduct)
  case (2 graph name names seen)
  then show ?case by (auto simp: visit_all.psimps)
qed (simp add: visit_all.psimps)

termination visit_all
proof (relation "inv_image (finite_psubset <*lex*> less_than)
    (\<lambda>(graph, names, seen). (dom (map_of graph) - set seen, length names))", goal_cases)
  case (3 graph name names seen)
  then show ?case
    by (cases "name \<in> dom (map_of graph)")
       (auto simp: finite_psubset_def finite_dom_map_of deps_outside)
next
  case (4 graph name names seen)
  have "set (set_add seen name) \<subseteq> set (visit_all graph (deps graph name) (set_add seen name))"
    by (rule visit_all_grows_dom [OF 4(2)])
  then have "dom (map_of graph) - set (visit_all graph (deps graph name) (set_add seen name))
      \<subseteq> dom (map_of graph) - set seen"
    by auto
  then show ?case
    by (auto simp: finite_psubset_def finite_dom_map_of psubset_eq)
qed auto

text \<open>
  \<open>detectCycles\<close>: the state holds the sets \<open>visited\<close> and \<open>visiting\<close> and the cycles found; \<open>dfs_all\<close>
  runs \<open>dfs\<close> on every neighbour in the list with the same path. The helper keeps the source's
  tests in order: a node on the current path closes a cycle, a finished node is skipped.
\<close>

record dfs_state =
  visited :: "string list"
  visiting :: "string list"
  cycles :: "string list list"

fun index_of :: "string \<Rightarrow> string list \<Rightarrow> nat" where
  "index_of x [] = 0"
| "index_of x (y # ys) = (if x = y then 0 else Suc (index_of x ys))"

definition close_cycle :: "string \<Rightarrow> string list \<Rightarrow> dfs_state \<Rightarrow> dfs_state" where
  "close_cycle node path st = st\<lparr>cycles := cycles st @ [drop (index_of node path) path @ [node]]\<rparr>"

definition enter :: "string \<Rightarrow> dfs_state \<Rightarrow> dfs_state" where
  "enter node st = st\<lparr>visiting := set_add (visiting st) node\<rparr>"

definition leave :: "string \<Rightarrow> dfs_state \<Rightarrow> dfs_state" where
  "leave node st =
     st\<lparr>visiting := set_delete (visiting st) node, visited := set_add (visited st) node\<rparr>"

function dfs_all :: "dependency_graph \<Rightarrow> string list \<Rightarrow> string list \<Rightarrow> dfs_state \<Rightarrow> dfs_state" where
  "dfs_all graph [] path st = st"
| "dfs_all graph (node # nodes) path st =
     (if node \<in> set (visiting st) then dfs_all graph nodes path (close_cycle node path st)
      else if node \<in> set (visited st) then dfs_all graph nodes path st
      else dfs_all graph nodes path
             (leave node (dfs_all graph (deps graph node) (path @ [node]) (enter node st))))"
  by pat_completeness auto

lemma close_cycle_simps [simp]:
  "visiting (close_cycle n p st) = visiting st" "visited (close_cycle n p st) = visited st"
  "cycles (close_cycle n p st) = cycles st @ [drop (index_of n p) p @ [n]]"
  by (simp_all add: close_cycle_def)

lemma enter_leave_simps [simp]:
  "set (visiting (enter n st)) = insert n (set (visiting st))"
  "visited (enter n st) = visited st" "cycles (enter n st) = cycles st"
  "set (visiting (leave n st)) = set (visiting st) - {n}"
  "set (visited (leave n st)) = insert n (set (visited st))" "cycles (leave n st) = cycles st"
  by (simp_all add: enter_def leave_def)

text \<open>A search leaves the set of nodes on the current path as it found it.\<close>

lemma dfs_all_visiting_dom:
  "dfs_all_dom (graph, nodes, path, st) \<Longrightarrow>
   set (visiting (dfs_all graph nodes path st)) = set (visiting st)"
proof (induction graph nodes path st rule: dfs_all.pinduct)
  case (2 graph node nodes path st)
  then show ?case by (auto simp: dfs_all.psimps)
qed (simp add: dfs_all.psimps)

termination dfs_all
proof (relation "inv_image (finite_psubset <*lex*> less_than)
    (\<lambda>(graph, nodes, path, st). (dom (map_of graph) - set (visiting st), length nodes))", goal_cases)
  case (4 graph node nodes path st)
  then show ?case
    by (cases "node \<in> dom (map_of graph)")
       (auto simp: finite_psubset_def finite_dom_map_of deps_outside)
next
  case (5 graph node nodes path st)
  have "set (visiting (dfs_all graph (deps graph node) (path @ [node]) (enter node st))) =
      insert node (set (visiting st))"
    using dfs_all_visiting_dom [OF 5(3)] by simp
  with 5(1) show ?case by (simp add: finite_psubset_def insert_Diff_if)
qed auto

definition detectCycles :: "dependency_graph \<Rightarrow> string list list" where
  "detectCycles graph =
     cycles (dfs_all graph (map fst graph) [] \<lparr>visited = [], visiting = [], cycles = []\<rparr>)"


section \<open>The depth-first closure\<close>

definition edge_rel :: "dependency_graph \<Rightarrow> (string \<times> string) set" where
  "edge_rel graph = {(a, b). b \<in> set (deps graph a)}"

lemma visit_all_grows: "set seen \<subseteq> set (visit_all graph names seen)"
proof (induction graph names seen rule: visit_all.induct)
  case (2 graph name names seen)
  then show ?case by auto
qed simp

lemma visit_all_has: "set names \<subseteq> set (visit_all graph names seen)"
proof (induction graph names seen rule: visit_all.induct)
  case (2 graph name names seen)
  then show ?case
    using visit_all_grows [of seen graph names]
      visit_all_grows [of "set_add seen name" graph "deps graph name"]
      visit_all_grows [of "visit_all graph (deps graph name) (set_add seen name)" graph names]
    by auto
qed simp

lemma visit_all_sound: "set (visit_all graph names seen) \<subseteq> set seen \<union> (edge_rel graph)\<^sup>* `` set names"
proof (induction graph names seen rule: visit_all.induct)
  case (2 graph name names seen)
  define A where "A = (edge_rel graph)\<^sup>* `` {name}"
  define N where "N = (edge_rel graph)\<^sup>* `` set names"
  define D where "D = (edge_rel graph)\<^sup>* `` set (deps graph name)"
  have "D \<subseteq> A"
    by (auto simp: edge_rel_def A_def D_def intro: converse_rtrancl_into_rtrancl)
  moreover have "(edge_rel graph)\<^sup>* `` set (name # names) = insert name (A \<union> N)"
    by (auto simp: A_def N_def)
  ultimately show ?case
    using 2 unfolding N_def [symmetric] D_def [symmetric] by (cases "name \<in> set seen") auto
qed simp

lemma visit_all_closed:
  "x \<in> set (visit_all graph names seen) \<Longrightarrow> x \<notin> set seen \<Longrightarrow>
   set (deps graph x) \<subseteq> set (visit_all graph names seen)"
proof (induction graph names seen rule: visit_all.induct)
  case (2 graph name names seen)
  show ?case
  proof (cases "name \<in> set seen")
    case True
    with 2 show ?thesis by simp
  next
    case False
    let ?mid = "visit_all graph (deps graph name) (set_add seen name)"
    have "set (deps graph x) \<subseteq> set ?mid" if "x \<in> set ?mid"
      using that 2 False visit_all_has [of "deps graph name" graph "set_add seen name"] by auto
    then show ?thesis
      using 2 False visit_all_grows [of ?mid graph names] by (cases "x \<in> set ?mid") auto
  qed
qed simp

lemma Image_rtrancl_closed: "R `` X \<subseteq> X \<Longrightarrow> Y \<subseteq> X \<Longrightarrow> R\<^sup>* `` Y \<subseteq> X"
  by (metis Image_closed_trancl Image_mono equalityE subset_trans order_refl)

lemma visit_all_eq: "set (visit_all graph names []) = (edge_rel graph)\<^sup>* `` set names"
proof
  show "set (visit_all graph names []) \<subseteq> (edge_rel graph)\<^sup>* `` set names"
    using visit_all_sound [of graph names "[]"] by simp
  show "(edge_rel graph)\<^sup>* `` set names \<subseteq> set (visit_all graph names [])"
    using visit_all_closed [of _ graph names "[]"] visit_all_has
    by (intro Image_rtrancl_closed) (auto simp: edge_rel_def)
qed

lemma distinct_visit_all: "distinct seen \<Longrightarrow> distinct (visit_all graph names seen)"
  by (induction graph names seen rule: visit_all.induct) simp_all

section \<open>The cycle search\<close>

definition is_cycle :: "dependency_graph \<Rightarrow> string list \<Rightarrow> bool" where
  "is_cycle graph c \<longleftrightarrow>
     2 \<le> length c \<and> hd c = last c \<and> successively (\<lambda>a b. b \<in> set (deps graph a)) c"

lemma dfs_all_visiting [simp]: "set (visiting (dfs_all graph nodes path st)) = set (visiting st)"
proof (induction graph nodes path st rule: dfs_all.induct)
  case (2 graph node nodes path st)
  then show ?case by auto
qed simp

lemma dfs_all_cycles_grow: "\<exists>zs. cycles (dfs_all graph nodes path st) = cycles st @ zs"
proof (induction graph nodes path st rule: dfs_all.induct)
  case (2 graph node nodes path st)
  then show ?case by auto
qed simp

subsection \<open>A search that reports nothing has seen an acyclic part\<close>

definition dfs_ok :: "dependency_graph \<Rightarrow> dfs_state \<Rightarrow> bool" where
  "dfs_ok graph st \<longleftrightarrow>
     set (visited st) \<inter> set (visiting st) = {} \<and>
     (\<forall>v \<in> set (visited st). set (deps graph v) \<subseteq> set (visited st) \<and> (v, v) \<notin> (edge_rel graph)\<^sup>+)"

lemma dfs_ok_leave:
  assumes ok: "dfs_ok graph st" and node: "node \<in> set (visiting st)"
    and nbrs: "set (deps graph node) \<subseteq> set (visited st)"
  shows "dfs_ok graph (leave node st)"
proof -
  have closed: "edge_rel graph `` set (visited st) \<subseteq> set (visited st)"
    using ok by (auto simp: dfs_ok_def edge_rel_def)
  have fresh: "node \<notin> set (visited st)" using ok node by (auto simp: dfs_ok_def)
  have "(node, node) \<notin> (edge_rel graph)\<^sup>+"
  proof
    assume "(node, node) \<in> (edge_rel graph)\<^sup>+"
    then obtain n where "(node, n) \<in> edge_rel graph" "(n, node) \<in> (edge_rel graph)\<^sup>*"
      by (meson tranclD)
    then have "node \<in> (edge_rel graph)\<^sup>* `` set (visited st)"
      using nbrs by (auto simp: edge_rel_def)
    with Image_rtrancl_closed [OF closed] fresh show False by blast
  qed
  with ok nbrs show ?thesis by (auto simp: dfs_ok_def)
qed

lemma dfs_all_complete:
  "cycles (dfs_all graph nodes path st) = cycles st \<Longrightarrow> dfs_ok graph st \<Longrightarrow>
   dfs_ok graph (dfs_all graph nodes path st) \<and>
   set nodes \<union> set (visited st) \<subseteq> set (visited (dfs_all graph nodes path st))"
proof (induction graph nodes path st rule: dfs_all.induct)
  case (2 graph node nodes path st)
  consider "node \<in> set (visiting st)" | "node \<notin> set (visiting st)" "node \<in> set (visited st)"
    | "node \<notin> set (visiting st)" "node \<notin> set (visited st)" by blast
  then show ?case
  proof cases
    case 1
    then show ?thesis
      using "2.prems" dfs_all_cycles_grow [of graph nodes path "close_cycle node path st"] by auto
  next
    case 2
    then show ?thesis using "2.prems" "2.IH"(2) by auto
  next
    case 3
    let ?st1 = "dfs_all graph (deps graph node) (path @ [node]) (enter node st)"
    obtain ys zs where "cycles ?st1 = cycles st @ ys"
      "cycles (dfs_all graph nodes path (leave node ?st1)) = cycles ?st1 @ zs"
      using dfs_all_cycles_grow [of graph "deps graph node" "path @ [node]" "enter node st"]
        dfs_all_cycles_grow [of graph nodes path "leave node ?st1"] by auto
    with "2.prems" 3 have nocyc: "cycles ?st1 = cycles (enter node st)"
      "cycles (dfs_all graph nodes path (leave node ?st1)) = cycles (leave node ?st1)" by auto
    have "dfs_ok graph (enter node st)" using "2.prems" 3 by (auto simp: dfs_ok_def)
    with "2.IH"(3) 3 nocyc have one: "dfs_ok graph ?st1"
      "set (deps graph node) \<union> set (visited st) \<subseteq> set (visited ?st1)" by auto
    then have "dfs_ok graph (leave node ?st1)" by (intro dfs_ok_leave) auto
    with "2.IH"(4) 3 nocyc one show ?thesis by auto
  qed
qed simp

subsection \<open>Every reported cycle is one\<close>

lemma index_of_nth: "x \<in> set xs \<Longrightarrow> index_of x xs < length xs \<and> xs ! index_of x xs = x"
  by (induction xs) auto

lemma close_cycle_is_cycle:
  assumes walk: "successively (\<lambda>a b. b \<in> set (deps graph a)) (path @ [node])"
    and node: "node \<in> set path"
  shows "is_cycle graph (drop (index_of node path) path @ [node])"
proof -
  let ?i = "index_of node path"
  have i: "?i < length path" "path ! ?i = node" using index_of_nth [OF node] by auto
  have "drop ?i (path @ [node]) = drop ?i path @ [node]" using i by simp
  moreover have "successively (\<lambda>a b. b \<in> set (deps graph a)) (drop ?i (path @ [node]))"
    using walk by (metis append_take_drop_id successively_append_iff)
  moreover have "hd (drop ?i path @ [node]) = node" using i by (simp add: hd_append hd_drop_conv_nth)
  ultimately show ?thesis using i by (auto simp: is_cycle_def)
qed

lemma dfs_all_sound:
  "set (visiting st) = set path \<Longrightarrow>
   (\<And>n. n \<in> set nodes \<Longrightarrow> successively (\<lambda>a b. b \<in> set (deps graph a)) (path @ [n])) \<Longrightarrow>
   c \<in> set (cycles (dfs_all graph nodes path st)) \<Longrightarrow> c \<in> set (cycles st) \<or> is_cycle graph c"
proof (induction graph nodes path st rule: dfs_all.induct)
  case (2 graph node nodes path st)
  have walk: "successively (\<lambda>a b. b \<in> set (deps graph a)) (path @ [node])" using "2.prems" by simp
  then have "successively (\<lambda>a b. b \<in> set (deps graph a)) ((path @ [node]) @ [n])"
    if "n \<in> set (deps graph node)" for n
    using that by (subst successively_append_iff) simp
  note deeper = this
  show ?case
  proof (cases "node \<in> set (visiting st)")
    case True
    with close_cycle_is_cycle [OF walk] "2.prems"(1)
    have "is_cycle graph (drop (index_of node path) path @ [node])" by simp
    with "2.IH"(1) "2.prems" True show ?thesis by auto
  next
    case False
    show ?thesis
    proof (cases "node \<in> set (visited st)")
      case True
      with "2.IH"(2) "2.prems" False show ?thesis by auto
    next
      case new: False
      let ?st1 = "dfs_all graph (deps graph node) (path @ [node]) (enter node st)"
      have "c \<in> set (cycles ?st1) \<or> is_cycle graph c"
        using "2.IH"(4) [OF False new] "2.prems" False new by auto
      then show ?thesis using "2.IH"(3) [OF False new] "2.prems"(1) deeper by auto
    qed
  qed
qed simp

lemma cycle_in_trancl:
  "successively (\<lambda>a b. b \<in> set (deps graph a)) (a # xs) \<Longrightarrow> xs \<noteq> [] \<Longrightarrow>
   (a, last xs) \<in> (edge_rel graph)\<^sup>+"
proof (induction xs arbitrary: a)
  case (Cons b xs)
  then have "(a, b) \<in> edge_rel graph" by (simp add: edge_rel_def)
  with Cons show ?case by (cases "xs = []") (auto intro: trancl_into_trancl2)
qed simp

lemma detectCycles_sound: "c \<in> set (detectCycles graph) \<Longrightarrow> is_cycle graph c"
  using dfs_all_sound [of "\<lparr>visited = [], visiting = [], cycles = []\<rparr>" "[]" "map fst graph" graph c]
  by (simp add: detectCycles_def)

lemma is_cycle_not_acyclic: "is_cycle graph c \<Longrightarrow> \<not> acyclic (edge_rel graph)"
  using cycle_in_trancl [of graph "hd c" "tl c"]
  by (cases c) (auto simp: is_cycle_def acyclic_def split: if_splits)

lemma detectCycles_complete:
  assumes "detectCycles graph = []"
  shows "acyclic (edge_rel graph)"
proof -
  let ?st = "\<lparr>visited = [], visiting = [], cycles = []\<rparr>"
  let ?final = "dfs_all graph (map fst graph) [] ?st"
  have ok: "dfs_ok graph ?final" and all: "fst ` set graph \<subseteq> set (visited ?final)"
    using dfs_all_complete [of graph "map fst graph" "[]" ?st] assms
    by (auto simp: detectCycles_def dfs_ok_def)
  have "(v, v) \<notin> (edge_rel graph)\<^sup>+" for v
  proof
    assume cyc: "(v, v) \<in> (edge_rel graph)\<^sup>+"
    then obtain w where "w \<in> set (deps graph v)" by (auto simp: edge_rel_def dest: tranclD)
    then have "v \<in> fst ` set graph"
      using deps_outside [of v graph]
      by (cases "v \<in> fst ` set graph") (auto simp: dom_map_of_conv_image_fst)
    with ok all cyc show False by (auto simp: dfs_ok_def)
  qed
  then show ?thesis by (simp add: acyclic_def)
qed

text \<open>
  C13. The cycle search is exact: \<open>detectCycles\<close> reports nothing precisely when the dependency
  relation is acyclic, and every list of names it reports is a closed walk of the graph.
\<close>

theorem detectCycles_correct:
  "(detectCycles graph = [] \<longleftrightarrow> acyclic (edge_rel graph)) \<and>
   list_all (is_cycle graph) (detectCycles graph)"
  using detectCycles_complete detectCycles_sound is_cycle_not_acyclic
  by (metis list.set_intros(1) list_all_iff neq_Nil_conv)


section \<open>The graph that is built\<close>

text \<open>The dependencies one edge asks for: the waiting service and the service it waits for.\<close>

definition edge_requires :: "node_map \<Rightarrow> flow_edge \<Rightarrow> string \<Rightarrow> string \<Rightarrow> bool" where
  "edge_requires nodeMap e a b \<longleftrightarrow>
     (\<exists>source target.
        map_of nodeMap (fe_source e) = Some source \<and> map_of nodeMap (fe_target e) = Some target \<and>
        (let readiness = ed_readiness (data_of (normalizeEdge e False)) in
           (readiness = Some ''source_requires_target'' \<and> a = node_name source \<and> b = node_name target) \<or>
           (readiness = Some ''target_requires_source'' \<and> a = node_name target \<and> b = node_name source)))"

lemma deps_update: "deps (AList.update k v graph) a = (if a = k then v else deps graph a)"
  by (simp add: deps_def nullish_def update_conv)

lemma set_uniqueAppend: "set (uniqueAppend (map_of graph k) v) = insert v (set (deps graph k))"
  by (auto simp: uniqueAppend_def deps_def nullish_def split: option.splits)

lemma distinct_uniqueAppend: "distinct (deps graph k) \<Longrightarrow> distinct (uniqueAppend (map_of graph k) v)"
  by (auto simp: uniqueAppend_def deps_def nullish_def split: option.splits)

lemma add_edge_deps:
  "b \<in> set (deps (add_edge nodeMap graph e) a) \<longleftrightarrow>
   b \<in> set (deps graph a) \<or> edge_requires nodeMap e a b"
  by (cases "map_of nodeMap (fe_source e)"; cases "map_of nodeMap (fe_target e)")
     (auto simp: add_edge_def edge_requires_def deps_update set_uniqueAppend)

lemma add_edge_distinct:
  "(\<And>x. distinct (deps graph x)) \<Longrightarrow> distinct (deps (add_edge nodeMap graph e) a)"
  by (auto simp: add_edge_def deps_update distinct_uniqueAppend split: option.splits)

lemma foldl_add_edge:
  "b \<in> set (deps (foldl (add_edge nodeMap) graph edges) a) \<longleftrightarrow>
   b \<in> set (deps graph a) \<or> (\<exists>e \<in> set edges. edge_requires nodeMap e a b)"
  by (induction edges arbitrary: graph) (auto simp: add_edge_deps)

lemma foldl_add_edge_distinct:
  "(\<And>x. distinct (deps graph x)) \<Longrightarrow> distinct (deps (foldl (add_edge nodeMap) graph edges) a)"
  by (induction edges arbitrary: graph) (auto simp: add_edge_distinct)

lemma init_deps:
  "deps g a = [] \<Longrightarrow> deps (foldl (\<lambda>g n. AList.update (node_name n) [] g) g nodes) a = []"
  by (induction nodes arbitrary: g) (auto simp: deps_update)

lemma init_keys:
  "fst ` set (foldl (\<lambda>g n. AList.update (node_name n) [] g) g nodes) =
   fst ` set g \<union> node_name ` set nodes"
  by (induction nodes arbitrary: g) (auto simp: dom_update)

lemma buildNodeMap_nodes: "n \<in> snd ` set (buildNodeMap nodes) \<Longrightarrow> n \<in> set nodes"
proof -
  have "snd ` set (foldl (\<lambda>m n. AList.update (fn_id n) n m) m nodes) \<subseteq> snd ` set m \<union> set nodes" for m
  proof (induction nodes arbitrary: m)
    case (Cons a nodes)
    have "snd ` set (AList.update (fn_id a) a m) \<subseteq> insert a (snd ` set m)"
      by (induction m) auto
    with Cons [of "AList.update (fn_id a) a m"] show ?case by auto
  qed simp
  then show "n \<in> snd ` set (buildNodeMap nodes) \<Longrightarrow> n \<in> set nodes"
    by (fastforce simp: buildNodeMap_def)
qed

lemma add_edge_keys:
  assumes "node_name ` snd ` set nodeMap \<subseteq> fst ` set graph"
  shows "fst ` set (add_edge nodeMap graph e) = fst ` set graph"
proof -
  have "node_name n \<in> fst ` set graph" if "map_of nodeMap k = Some n" for k n
    using map_of_SomeD [OF that] assms by force
  then show ?thesis by (auto simp: add_edge_def dom_update split: option.splits)
qed

lemma buildServiceDependencies_keys:
  "fst ` set (buildServiceDependencies nodes edges (buildNodeMap nodes)) = node_name ` set nodes"
proof -
  have "fst ` set (foldl (add_edge (buildNodeMap nodes)) g edges) = node_name ` set nodes"
    if "fst ` set g = node_name ` set nodes" for g
    using that
  proof (induction edges arbitrary: g)
    case (Cons e edges)
    have "node_name ` snd ` set (buildNodeMap nodes) \<subseteq> fst ` set g"
      using Cons.prems buildNodeMap_nodes by fastforce
    from add_edge_keys [OF this] Cons show ?case by simp
  qed simp
  then show ?thesis by (simp add: buildServiceDependencies_def init_keys)
qed

text \<open>
  The dependency graph has exactly the nodes' service names as keys, and a service depends on
  another exactly when some edge between two known nodes asks for it in its readiness metadata
  (after normalisation); no dependency is listed twice.
\<close>

theorem buildServiceDependencies_correct:
  "fst ` set (buildServiceDependencies nodes edges (buildNodeMap nodes)) = node_name ` set nodes \<and>
   (b \<in> set (deps (buildServiceDependencies nodes edges (buildNodeMap nodes)) a) \<longleftrightarrow>
      list_ex (\<lambda>e. edge_requires (buildNodeMap nodes) e a b) edges) \<and>
   distinct (deps (buildServiceDependencies nodes edges (buildNodeMap nodes)) a)"
proof -
  have nil: "deps (foldl (\<lambda>g n. AList.update (node_name n) [] g) [] nodes) x = []" for x
    by (rule init_deps) (simp add: deps_def nullish_def)
  show ?thesis
    unfolding buildServiceDependencies_keys
    by (simp add: buildServiceDependencies_def foldl_add_edge foldl_add_edge_distinct nil list_ex_iff)
qed

end
