(* ===== verification/Service_References.thy ===== *)
theory Service_References
  imports Dependency_Graph
begin

text \<open>
  Runtime references \<open>${service.value}\<close> in commands, environment values and init scripts:
  \<open>buildServiceAliasMap\<close>, \<open>normalizeServiceReferences\<close> and \<open>validateRuntimeReferenceReadiness\<close> of
  \<^verbatim>\<open>src/ui-v2/src/modules/utils/scenario-translator.ts\<close>. The two regular expressions are scanners:
  \<open>ref_at\<close> is one attempt to match at a position, and the search goes on after a match or one
  character further.
\<close>

definition set_aliases :: "string \<Rightarrow> (string \<times> string) list \<Rightarrow> string \<Rightarrow> (string \<times> string) list" where
  "set_aliases sanitized aliases candidate =
     (if candidate = [] then aliases
      else AList.update (toLowerCase candidate) sanitized (AList.update candidate sanitized aliases))"

definition add_node_aliases :: "(string \<times> string) list \<Rightarrow> flow_node \<Rightarrow> (string \<times> string) list" where
  "add_node_aliases aliases node =
     (let label = nd_label (fn_data node);
          sanitized = sanitizeName (if label = [] then fn_id node else label);
          candidates = [label, fn_id node, sanitized, trim label, trim (fn_id node)]
      in foldl (set_aliases sanitized) aliases candidates)"

definition buildServiceAliasMap :: "flow_node list \<Rightarrow> (string \<times> string) list" where
  "buildServiceAliasMap nodes = foldl add_node_aliases [] nodes"

subsection \<open>Replacing references\<close>

text \<open>The expression \<open>\$\{([^}]+)\}\<close> at the start of a string: the captured text and the rest.\<close>

definition ref_at :: "string \<Rightarrow> (string \<times> string) option" where
  "ref_at s =
     (case s of
        c # d # cs \<Rightarrow>
          (let cap = takeWhile (\<lambda>x. x \<noteq> CHR ''}'') cs; rest = dropWhile (\<lambda>x. x \<noteq> CHR ''}'') cs
           in if c = CHR ''$'' \<and> d = CHR ''{'' \<and> cap \<noteq> [] \<and> rest \<noteq> [] then Some (cap, tl rest) else None)
      | _ \<Rightarrow> None)"

lemma ref_at_shorter: "ref_at s = Some (cap, rest) \<Longrightarrow> length rest < length s"
  using length_dropWhile_le [of "\<lambda>x. x \<noteq> CHR ''}''" "drop 2 s"]
  by (auto simp: ref_at_def split: list.splits if_splits)

function replace_refs :: "(string \<Rightarrow> string) \<Rightarrow> string \<Rightarrow> string" where
  "replace_refs f s =
     (case s of [] \<Rightarrow> []
      | c # cs \<Rightarrow> (case ref_at s of Some (cap, rest) \<Rightarrow> f cap @ replace_refs f rest
                              | None \<Rightarrow> c # replace_refs f cs))"
  by pat_completeness auto
termination
  by (relation "measure (length o snd)") (auto dest: ref_at_shorter)

declare replace_refs.simps [simp del]

definition normalize_ref :: "(string \<times> string) list \<Rightarrow> string \<Rightarrow> string" where
  "normalize_ref aliases rawRef =
     (case split_on CHR ''.'' rawRef of
        serviceToken # rest \<Rightarrow>
          (if serviceToken = [] \<or> rest = [] then ''${'' @ rawRef @ ''}''
           else
             (let normalizedService =
                nullish (orElse (map_of aliases serviceToken)
                           (orElse (map_of aliases (trim serviceToken))
                              (map_of aliases (toLowerCase serviceToken))))
                        (sanitizeName serviceToken)
              in ''${'' @ normalizedService @ ''.'' @ join_with ''.'' rest @ ''}''))
      | [] \<Rightarrow> ''${'' @ rawRef @ ''}'')"

definition normalizeServiceReferences :: "string \<Rightarrow> (string \<times> string) list \<Rightarrow> string" where
  "normalizeServiceReferences value aliases = replace_refs (normalize_ref aliases) value"

subsection \<open>References that need a readiness prerequisite\<close>

text \<open>The expression \<open>\$\{([^}.]+)\.[^}]+\}\<close> at the start of a string: the service token and the rest.\<close>

definition runtime_ref_at :: "string \<Rightarrow> (string \<times> string) option" where
  "runtime_ref_at s =
     (case s of
        c # d # cs \<Rightarrow>
          (let stop = (\<lambda>x. x \<noteq> CHR ''}'' \<and> x \<noteq> CHR ''.'');
               token = takeWhile stop cs; after = dropWhile stop cs
           in if c = CHR ''$'' \<and> d = CHR ''{'' \<and> token \<noteq> [] \<and> after \<noteq> [] \<and> hd after = CHR ''.'' then
                (let body = takeWhile (\<lambda>x. x \<noteq> CHR ''}'') (tl after);
                     rest = dropWhile (\<lambda>x. x \<noteq> CHR ''}'') (tl after)
                 in if body \<noteq> [] \<and> rest \<noteq> [] then Some (token, tl rest) else None)
              else None)
      | _ \<Rightarrow> None)"

lemma runtime_ref_at_shorter: "runtime_ref_at s = Some (t, rest) \<Longrightarrow> length rest < length s"
proof -
  assume "runtime_ref_at s = Some (t, rest)"
  then obtain c d cs where s: "s = c # d # cs"
    and r: "rest = tl (dropWhile (\<lambda>x. x \<noteq> CHR ''}'') (tl (dropWhile (\<lambda>x. x \<noteq> CHR ''}'' \<and> x \<noteq> CHR ''.'') cs)))"
    by (auto simp: runtime_ref_at_def split: list.splits if_splits)
  have "length rest \<le> length (dropWhile (\<lambda>x. x \<noteq> CHR ''}'' \<and> x \<noteq> CHR ''.'') cs)"
    using length_dropWhile_le [of "\<lambda>x. x \<noteq> CHR ''}''" "tl (dropWhile (\<lambda>x. x \<noteq> CHR ''}'' \<and> x \<noteq> CHR ''.'') cs)"]
    by (simp add: r)
  also have "\<dots> \<le> length cs" by (rule length_dropWhile_le)
  finally show ?thesis by (simp add: s)
qed

function runtime_tokens :: "string \<Rightarrow> string list" where
  "runtime_tokens s =
     (case s of [] \<Rightarrow> []
      | c # cs \<Rightarrow> (case runtime_ref_at s of Some (token, rest) \<Rightarrow> token # runtime_tokens rest
                                      | None \<Rightarrow> runtime_tokens cs))"
  by pat_completeness auto
termination
  by (relation "measure length") (auto dest: runtime_ref_at_shorter)

declare runtime_tokens.simps [simp del]

definition runtime_values :: "node_service \<Rightarrow> string list" where
  "runtime_values service =
     nullish (svc_command service) [] @
     map ev_value (nullish (svc_env service) []) @
     map is_script (nullish (svc_initScripts service) [])"

text \<open>The services a node's runtime values refer to, in the order they are found.\<close>

definition referenced_services :: "(string \<times> string) list \<Rightarrow> node_service \<Rightarrow> string list" where
  "referenced_services aliases service =
     map (\<lambda>token. nullish (orElse (map_of aliases token) (map_of aliases (toLowerCase token))) [])
       (concat (map runtime_tokens (runtime_values service)))"

definition reference_errors ::
  "(string \<times> string) list \<Rightarrow> dependency_graph \<Rightarrow> flow_node \<Rightarrow> translation_error list res" where
  "reference_errors aliases graph node =
     (case nd_service (fn_data node) of
        None \<Rightarrow> Inl TypeError
      | Some service \<Rightarrow>
          (let serviceName = sanitizeName (nd_label (fn_data node));
               reachable = visit_all graph (deps graph serviceName) []
           in Inr (map (\<lambda>referenced.
                     \<lparr>te_nodeId = Some (fn_id node),
                      te_message = ''Service \"'' @ serviceName @ ''\" references runtime values from \"'' @
                        referenced @ ''\" without a readiness prerequisite.'',
                      te_field = Some ''service''\<rparr>)
                   (filter (\<lambda>referenced. referenced \<noteq> [] \<and> referenced \<noteq> serviceName \<and>
                                         referenced \<notin> set reachable)
                     (referenced_services aliases service)))))"

definition validateRuntimeReferenceReadiness ::
  "flow_node list \<Rightarrow> dependency_graph \<Rightarrow> translation_error list res" where
  "validateRuntimeReferenceReadiness nodes graph =
     (let aliases = buildServiceAliasMap nodes
      in bind_res (map_res (reference_errors aliases graph) nodes) (\<lambda>ess. Inr (concat ess)))"

end
