(* ===== verification/Graph_Validation.thy ===== *)
theory Graph_Validation
  imports Service_References
begin

text \<open>
  \<open>validateWorkflowGraph\<close> and \<open>validateScenario\<close> of
  \<^verbatim>\<open>src/ui-v2/src/modules/utils/scenario-translator.ts\<close>, with every error and warning they can
  report, in the order they report them.
\<close>

definition graph_error :: "string \<Rightarrow> translation_error" where
  "graph_error message = \<lparr>te_nodeId = None, te_message = message, te_field = None\<rparr>"

definition field_error :: "string \<Rightarrow> string \<Rightarrow> translation_error" where
  "field_error message field = \<lparr>te_nodeId = None, te_message = message, te_field = Some field\<rparr>"

definition node_error :: "flow_node \<Rightarrow> string \<Rightarrow> string \<Rightarrow> translation_error" where
  "node_error node message field =
     \<lparr>te_nodeId = Some (fn_id node), te_message = message, te_field = Some field\<rparr>"

subsection \<open>MockServer expectations\<close>

definition HTTP_METHODS :: "string list" where
  "HTTP_METHODS = [''GET'', ''POST'', ''PUT'', ''PATCH'', ''DELETE'', ''HEAD'', ''OPTIONS'']"

definition header_char :: "char \<Rightarrow> bool" where
  "header_char c \<longleftrightarrow>
     (let n = (of_char c :: nat) in
        (48 \<le> n \<and> n \<le> 57) \<or> (65 \<le> n \<and> n \<le> 90) \<or> (97 \<le> n \<and> n \<le> 122) \<or>
        c \<in> set (CHR 0x27 # CHR 0x60 # ''!#$%&*+-.^_|~''))"

definition header_name_ok :: "string \<Rightarrow> bool" where
  "header_name_ok name \<longleftrightarrow> name \<noteq> [] \<and> list_all header_char name"

definition show_undefined :: "string option \<Rightarrow> string" where
  "show_undefined s = nullish s ''undefined''"

definition header_names :: "(string \<times> string) list option \<Rightarrow> string list" where
  "header_names h = map fst (nullish h [])"

definition expectation_errors ::
  "flow_node \<Rightarrow> string option list \<Rightarrow> mock_expectation \<Rightarrow> translation_error list" where
  "expectation_errors node seen e =
     (let err = (\<lambda>m. node_error node m ''service.mockServer.expectations'');
          prefix = ''MockServer expectation \"'' @ show_undefined (exp_id e) @ ''\"'';
          status = Option.bind (exp_response e) rsp_statusCode
      in (if \<not> truthy_opt (map_option trim (exp_id e)) \<or> exp_id e \<in> set seen
          then [err ''MockServer expectations must have unique ids''] else []) @
         (if Option.bind (exp_request e) req_method \<in> set (map Some HTTP_METHODS) then []
          else [err (prefix @ '' has an invalid HTTP method'')]) @
         (case Option.bind (exp_request e) req_path of
            Some (c # _) \<Rightarrow> if c = CHR ''/'' then [] else [err (prefix @ '' path must start with /'')]
          | _ \<Rightarrow> [err (prefix @ '' path must start with /'')]) @
         (case status of
            Some s \<Rightarrow> if s < 100 \<or> s > 599
                      then [err (prefix @ '' status must be between 100 and 599'')] else []
          | None \<Rightarrow> []) @
         map (\<lambda>name. err (prefix @ '' has invalid header name \"'' @ name @ ''\"''))
           (filter (\<lambda>name. \<not> header_name_ok name)
             (header_names (Option.bind (exp_request e) req_headers) @
              header_names (Option.bind (exp_response e) rsp_headers))))"

fun expectations_errors ::
  "flow_node \<Rightarrow> string option list \<Rightarrow> mock_expectation list \<Rightarrow> translation_error list" where
  "expectations_errors node seen [] = []"
| "expectations_errors node seen (e # es) =
     expectation_errors node seen e @ expectations_errors node (set_add seen (exp_id e)) es"

subsection \<open>The workflow graph\<close>

definition node_errors :: "flow_node \<Rightarrow> translation_error list" where
  "node_errors node =
     (if nd_label (fn_data node) = [] then [node_error node ''Node must have a label'' ''label''] else []) @
     (case nd_service (fn_data node) of
        None \<Rightarrow> [node_error node ''Node must have service definition'' ''service'']
      | Some service \<Rightarrow>
          (if svc_type service = Generic \<and> \<not> truthy_opt (svc_image service)
           then [node_error node ''Generic service must specify the docker image'' ''service.image'']
           else []) @
          (if svc_mockServer service \<noteq> None \<and> svc_type service \<noteq> MockServer
           then [node_error node ''MockServer expectations can only be used by MockServer services''
                   ''service.mockServer'']
           else []) @
          expectations_errors node [] (nullish (svc_mockServer service) []))"

definition cycle_errors :: "dependency_graph \<Rightarrow> translation_error list" where
  "cycle_errors graph =
     (let cs = detectCycles graph
      in if cs = [] then []
         else [graph_error (''Circular dependencies detected: '' @
                 join_with '', '' (map (join_with ''->'') cs))])"

definition connection_warnings :: "flow_node list \<Rightarrow> flow_edge list \<Rightarrow> string list" where
  "connection_warnings nodes edges =
     map (\<lambda>n. ''Node \"'' @ nd_label (fn_data n) @ ''\" has no connections'')
       (filter (\<lambda>n. \<not> list_ex (\<lambda>e. fe_source e = fn_id n) edges \<and>
                    \<not> list_ex (\<lambda>e. fe_target e = fn_id n) edges \<and> 1 < length nodes) nodes)"

definition migration_warnings :: "flow_edge list \<Rightarrow> string list" where
  "migration_warnings edges =
     (let n = length (filter (\<lambda>e. edge_migrated e \<or> ed_needsReview (data_of e) = Some True) edges)
      in if n = 0 then []
         else [show_nat n @ '' migrated edge'' @ (if n = 1 then '' needs'' else ''s need'') @ '' review.''])"

definition validateWorkflowGraph ::
  "flow_node list \<Rightarrow> flow_edge list \<Rightarrow> validation_result res" where
  "validateWorkflowGraph nodes edges =
     (let empty_errors = (if nodes = [] then [graph_error ''Flow must contain at least one node.''] else []);
          graph = buildServiceDependencies nodes edges (buildNodeMap nodes)
      in bind_res (validateRuntimeReferenceReadiness nodes graph) (\<lambda>reference_errs.
           let errors = empty_errors @ concat (map node_errors nodes) @ cycle_errors graph @ reference_errs
           in Inr \<lparr>vr_valid = (errors = []), vr_errors = errors,
                   vr_warnings = connection_warnings nodes edges @ migration_warnings edges\<rparr>))"

subsection \<open>A scenario against the service graph\<close>

record workflow_service_graph =
  wg_nodeMap :: node_map
  wg_serviceDeps :: dependency_graph
  wg_services :: "service_config list"

fun duplicate_errors :: "string list \<Rightarrow> scenario_test list \<Rightarrow> translation_error list" where
  "duplicate_errors seen [] = []"
| "duplicate_errors seen (t # ts) =
     (if st_id t \<in> set seen
      then [field_error (''Duplicate test id in scenario: '' @ st_id t) (''tests.'' @ st_id t)] else []) @
     duplicate_errors (set_add seen (st_id t)) ts"

definition test_errors :: "string list \<Rightarrow> scenario_test list \<Rightarrow> scenario_test \<Rightarrow> translation_error list" where
  "test_errors nodeNames tests t =
     (if trim (st_name t) = []
      then [field_error ''Scenario test must have a name'' (''tests.'' @ st_id t @ ''.name'')] else []) @
     (case st_targetServices t of
        Some (s # ss) \<Rightarrow>
          map (\<lambda>serviceName. field_error
                 (''Scenario test \"'' @ st_name t @ ''\" references unknown service \"'' @ serviceName @ ''\"'')
                 (''tests.'' @ st_id t @ ''.targetServices''))
            (filter (\<lambda>serviceName. serviceName \<notin> set nodeNames) (s # ss)) @
          map (\<lambda>depId. field_error
                 (''Scenario test \"'' @ st_name t @ ''\" depends on missing test \"'' @ depId @ ''\"'')
                 (''tests.'' @ st_id t @ ''.dependsOnTestIds''))
            (filter (\<lambda>depId. \<not> list_ex (\<lambda>c. st_id c = depId) tests) (nullish (st_dependsOnTestIds t) []))
      | _ \<Rightarrow> [field_error (''Scenario test \"'' @ st_name t @ ''\" must target at least one service'')
               (''tests.'' @ st_id t @ ''.targetServices'')])"

definition validateScenario ::
  "workflow_service_graph \<Rightarrow> string \<Rightarrow> scenario_test list \<Rightarrow> string list \<Rightarrow> validation_result" where
  "validateScenario graph name tests testOrder =
     (let nodeNames = map cf_name (wg_services graph);
          errors =
            (if trim name = [] then [field_error ''Scenario must have a name'' ''name''] else []) @
            (if tests = [] then [graph_error ''Scenario must contain at least one test''] else []) @
            duplicate_errors [] tests @
            concat (map (test_errors nodeNames tests) tests);
          ordered = filter (\<lambda>i. list_ex (\<lambda>t. st_id t = i) tests) testOrder
      in \<lparr>vr_valid = (errors = []), vr_errors = errors,
          vr_warnings =
            (if length ordered \<noteq> length tests
             then [''Scenario test order does not include every test. Missing tests will run after ordered tests.'']
             else [])\<rparr>)"

section \<open>What a valid graph guarantees\<close>

lemma reference_errors_total:
  "nd_service (fn_data n) = Some s \<Longrightarrow> \<exists>es. reference_errors aliases graph n = Inr es"
  by (simp add: reference_errors_def)

lemma validateRuntimeReferenceReadiness_total:
  "(\<And>n. n \<in> set nodes \<Longrightarrow> nd_service (fn_data n) \<noteq> None) \<Longrightarrow>
   \<exists>es. validateRuntimeReferenceReadiness nodes graph = Inr es"
  using map_res_total [of nodes "reference_errors (buildServiceAliasMap nodes) graph"]
  by (fastforce simp: validateRuntimeReferenceReadiness_def intro: reference_errors_total)

lemma reference_errors_none:
  assumes "validateRuntimeReferenceReadiness nodes graph = Inr []" and "n \<in> set nodes"
  shows "reference_errors (buildServiceAliasMap nodes) graph n = Inr []"
proof -
  obtain ess where all: "list_all2 (\<lambda>x y. reference_errors (buildServiceAliasMap nodes) graph x = Inr y) nodes ess"
    and none: "concat ess = []"
    using assms(1) by (auto simp: validateRuntimeReferenceReadiness_def map_res_Inr)
  from list_all2_member [OF all assms(2)] obtain es where "es \<in> set ess"
    "reference_errors (buildServiceAliasMap nodes) graph n = Inr es"
    by blast
  with none show ?thesis by auto
qed

lemma reference_reachable:
  assumes "reference_errors aliases graph n = Inr []" "nd_service (fn_data n) = Some s"
    and "r \<in> set (referenced_services aliases s)" "r \<noteq> []" "r \<noteq> node_name n"
  shows "(node_name n, r) \<in> (edge_rel graph)\<^sup>+"
proof -
  have "r \<in> set (visit_all graph (deps graph (node_name n)) [])"
    using assms by (auto simp: reference_errors_def node_name_def filter_empty_conv)
  then show ?thesis
    by (auto simp: visit_all_eq edge_rel_def intro: rtrancl_into_trancl2)
qed

lemma validateWorkflowGraph_valid:
  assumes "validateWorkflowGraph nodes edges = Inr r" "vr_valid r"
  shows "nodes \<noteq> []" "\<And>n. n \<in> set nodes \<Longrightarrow> node_errors n = []"
    "detectCycles (buildServiceDependencies nodes edges (buildNodeMap nodes)) = []"
    "validateRuntimeReferenceReadiness nodes
       (buildServiceDependencies nodes edges (buildNodeMap nodes)) = Inr []"
  using assms
  by (auto simp: validateWorkflowGraph_def cycle_errors_def split: if_splits)

lemma node_errors_none:
  "node_errors n = [] \<Longrightarrow>
   nd_label (fn_data n) \<noteq> [] \<and>
   (\<exists>s. nd_service (fn_data n) = Some s \<and> (svc_type s = Generic \<longrightarrow> truthy_opt (svc_image s)) \<and>
        (svc_mockServer s \<noteq> None \<longrightarrow> svc_type s = MockServer))"
  by (auto simp: node_errors_def split: if_splits option.splits)



definition env_service :: "service_type \<Rightarrow> string \<Rightarrow> node_service" where
  "env_service t value = (sample_service t)
     \<lparr>svc_env := Some [\<lparr>ev_id = ''env'', ev_key = ''DEPENDENCY'', ev_value = value\<rparr>]\<rparr>"

definition env_node :: "string \<Rightarrow> service_type \<Rightarrow> string \<Rightarrow> flow_node" where
  "env_node name t value = (sample_node name t)
     \<lparr>fn_data := (fn_data (sample_node name t))\<lparr>nd_service := Some (env_service t value)\<rparr>\<rparr>"

definition readiness_edge :: "string \<Rightarrow> string \<Rightarrow> string \<Rightarrow> flow_edge" where
  "readiness_edge source target readiness =
     \<lparr>fe_id = source @ ''-'' @ target, fe_source = source, fe_target = target,
      fe_type = Some ''dataFlow'', fe_attrs = [],
      fe_data = Some (no_edge_data\<lparr>ed_relation := Some ''calls'', ed_readiness := Some readiness\<rparr>)\<rparr>"

definition demo_nodes :: "flow_node list" where
  "demo_nodes = [env_node ''app'' Generic ''${DB.host}'', sample_node ''db'' Postgres]"

definition demo_edges :: "flow_edge list" where
  "demo_edges = [readiness_edge ''app'' ''db'' ''source_requires_target'']"

lemma demo_valid:
  "validateWorkflowGraph demo_nodes demo_edges =
     Inr \<lparr>vr_valid = True, vr_errors = [], vr_warnings = []\<rparr>"
  by code_simp


text \<open>
  \<open>validateWorkflowGraph\<close> returns a result exactly when every node has a service definition; a
  node without one makes it throw a \<open>TypeError\<close> (from \<open>validateRuntimeReferenceReadiness\<close>) although
  the loop before reports "Node must have service definition" and goes on.
\<close>

theorem validateWorkflowGraph_returns_iff:
  "(\<exists>r. validateWorkflowGraph nodes edges = Inr r) = list_all (\<lambda>n. nd_service (fn_data n) \<noteq> None) nodes \<and>
   (validateWorkflowGraph nodes edges = Inl TypeError) = list_ex (\<lambda>n. nd_service (fn_data n) = None) nodes"
proof -
  let ?g = "buildServiceDependencies nodes edges (buildNodeMap nodes)"
  let ?v = "validateRuntimeReferenceReadiness nodes ?g"
  have eq: "(\<exists>r. validateWorkflowGraph nodes edges = Inr r) = (\<exists>es. ?v = Inr es)"
    "(validateWorkflowGraph nodes edges = Inl TypeError) = (?v = Inl TypeError)"
    by (auto simp: validateWorkflowGraph_def)
  have fail: "map_res (reference_errors a g) ns = Inl TypeError"
    if "list_ex (\<lambda>n. nd_service (fn_data n) = None) ns" for a g ns
    using that by (induction ns) (auto simp: reference_errors_def split: option.splits)
  show ?thesis
  proof (cases "list_ex (\<lambda>n. nd_service (fn_data n) = None) nodes")
    case True
    then have "?v = Inl TypeError" by (simp add: validateRuntimeReferenceReadiness_def fail)
    with True show ?thesis unfolding eq by (auto simp: list_all_iff list_ex_iff)
  next
    case False
    then have "\<exists>es. ?v = Inr es"
      by (intro validateRuntimeReferenceReadiness_total) (auto simp: list_ex_iff)
    with False show ?thesis unfolding eq by (auto simp: list_all_iff list_ex_iff)
  qed
qed

subsection \<open>Valid scenarios\<close>

lemma duplicate_errors_none:
  "duplicate_errors seen ts = [] \<longleftrightarrow> distinct (map st_id ts) \<and> set (map st_id ts) \<inter> set seen = {}"
  by (induction ts arbitrary: seen) auto

lemma test_errors_none:
  "test_errors names tests t = [] \<longleftrightarrow>
   trim (st_name t) \<noteq> [] \<and>
   (\<exists>s ss. st_targetServices t = Some (s # ss) \<and> set (s # ss) \<subseteq> set names) \<and>
   set (nullish (st_dependsOnTestIds t) []) \<subseteq> st_id ` set tests"
  by (auto simp: test_errors_def filter_empty_conv list_ex_iff split: option.splits list.splits)

text \<open>
  C31. \<open>validateScenario\<close> accepts exactly the scenarios it should: a non-blank name, at least one
  test, no test id used twice, and for every test a non-blank name, at least one target, only
  services of the graph as targets and only tests of the scenario as dependencies.
\<close>

theorem validateScenario_valid_iff:
  "vr_valid (validateScenario graph name tests testOrder) \<longleftrightarrow>
   trim name \<noteq> [] \<and> tests \<noteq> [] \<and> distinct (map st_id tests) \<and>
   list_all (\<lambda>t. trim (st_name t) \<noteq> [] \<and>
     (\<exists>s ss. st_targetServices t = Some (s # ss) \<and> set (s # ss) \<subseteq> cf_name ` set (wg_services graph)) \<and>
     set (nullish (st_dependsOnTestIds t) []) \<subseteq> st_id ` set tests) tests"
  by (auto simp: validateScenario_def duplicate_errors_none test_errors_none list_all_iff)

end
