(* ===== verification/Service_Translation.thy ===== *)
theory Service_Translation
  imports Graph_Validation
begin

text \<open>
  The translation to the runner's configuration in
  \<^verbatim>\<open>src/ui-v2/src/modules/utils/scenario-translator.ts\<close> (\<open>translateServices\<close>,
  \<open>translateWorkflowGraphToServiceGraph\<close>, \<open>expandScenarioServiceSubset\<close>, \<open>translateScenarioTests\<close>,
  \<open>buildTestConfig\<close>, \<open>translateScenarioToExecutionBundle\<close>) and its legacy entry point in
  \<^verbatim>\<open>react-flow-translator.ts\<close>.

  \<open>localeCompare\<close> (whose order the host's locale data decides) and the JSON functions of the host are
  arguments; a property of \<open>undefined\<close> value is absent from the configuration.
\<close>

record registry_secret =
  rs_url :: "string option"
  rs_auth_type :: string
  rs_username :: "string option"
  rs_password :: "string option"
  rs_token :: "string option"

subsection \<open>Services\<close>

definition translate_expectation :: "mock_expectation \<Rightarrow> mock_expectation_config res" where
  "translate_expectation e =
     (case exp_response e of
        None \<Rightarrow> Inl TypeError
      | Some response \<Rightarrow>
          Inr \<lparr>mc_id = exp_id e, mc_request = exp_request e, mc_status_code = rsp_statusCode response,
               mc_headers = rsp_headers response, mc_body = rsp_body response\<rparr>)"

definition init_script_order :: "init_script \<Rightarrow> init_script \<Rightarrow> int" where
  "init_script_order left right = is_order left - is_order right"

definition nonempty :: "'a list option \<Rightarrow> 'a list option" where
  "nonempty xs = (case xs of Some (y # ys) \<Rightarrow> Some (y # ys) | _ \<Rightarrow> None)"

definition env_record :: "(string \<times> string) list \<Rightarrow> env_var list \<Rightarrow> (string \<times> string) list" where
  "env_record aliases env =
     foldl (\<lambda>m v. AList.update (trim (ev_key v)) (normalizeServiceReferences (ev_value v) aliases) m) []
       (filter (\<lambda>v. trim (ev_key v) \<noteq> []) env)"

definition translate_service ::
  "(string \<times> string) list \<Rightarrow> dependency_graph \<Rightarrow> (string \<times> registry_secret) list option \<Rightarrow> flow_node \<Rightarrow>
   service_config res" where
  "translate_service aliases serviceDeps registrySecrets node =
     (case nd_service (fn_data node) of
        None \<Rightarrow> Inl TypeError
      | Some service \<Rightarrow>
          bind_res
            (if svc_type service = MockServer
             then bind_res (map_res translate_expectation (nullish (svc_mockServer service) []))
                    (\<lambda>es. Inr (Some es))
             else Inr None)
            (\<lambda>expectations.
               let serviceName = sanitizeName (nd_label (fn_data node));
                   norm = (\<lambda>v. normalizeServiceReferences v aliases);
                   dependencies = deps serviceDeps serviceName
               in Inr
                 \<lparr>cf_name = serviceName, cf_type = svc_type service,
                  cf_image = drop_falsy (svc_image service),
                  cf_command = map_option (map norm) (nonempty (svc_command service)),
                  cf_env = map_option (env_record aliases) (nonempty (svc_env service)),
                  cf_ports = map_option (map (\<lambda>p. pm_hostPort p @ '':'' @ pm_containerPort p))
                               (nonempty (svc_ports service)),
                  cf_depends_on = (if dependencies = [] then None else Some dependencies),
                  cf_wait_strategy =
                    (case svc_wait service of
                       Some w \<Rightarrow> if ws_enabled w
                                 then Some \<lparr>wc_type = ws_type w, wc_target = ws_target w,
                                            wc_timeout = ws_timeout w\<rparr>
                                 else None
                     | None \<Rightarrow> None),
                  cf_init_scripts =
                    map_option (\<lambda>scripts. map (\<lambda>s. norm (is_script s)) (js_sort init_script_order scripts))
                      (nonempty (svc_initScripts service)),
                  cf_mockserver_expectations = expectations,
                  cf_registry =
                    (case Option.bind registrySecrets (\<lambda>m. map_of m serviceName) of
                       Some r \<Rightarrow>
                         (case drop_falsy (rs_url r) of
                            Some url \<Rightarrow> Some \<lparr>rg_url = url, rg_auth_type = rs_auth_type r,
                                              rg_username = rs_username r, rg_password = rs_password r,
                                              rg_token = rs_token r\<rparr>
                          | None \<Rightarrow> None)
                     | None \<Rightarrow> None)\<rparr>))"

definition translateServices ::
  "(string \<Rightarrow> string \<Rightarrow> int) \<Rightarrow> flow_node list \<Rightarrow> dependency_graph \<Rightarrow>
   (string \<times> registry_secret) list option \<Rightarrow> service_config list res" where
  "translateServices localeCompare nodes serviceDeps registrySecrets =
     bind_res (map_res (translate_service (buildServiceAliasMap nodes) serviceDeps registrySecrets) nodes)
       (\<lambda>services. Inr (js_sort (\<lambda>left right. localeCompare (cf_name left) (cf_name right)) services))"

definition translateWorkflowGraphToServiceGraph ::
  "(string \<Rightarrow> string \<Rightarrow> int) \<Rightarrow> flow_node list \<Rightarrow> flow_edge list \<Rightarrow>
   (string \<times> registry_secret) list option \<Rightarrow> workflow_service_graph res" where
  "translateWorkflowGraphToServiceGraph localeCompare nodes edges registrySecrets =
     (let nodeMap = buildNodeMap nodes;
          serviceDeps = buildServiceDependencies nodes edges nodeMap
      in bind_res (translateServices localeCompare nodes serviceDeps registrySecrets)
           (\<lambda>services. Inr \<lparr>wg_nodeMap = nodeMap, wg_serviceDeps = serviceDeps, wg_services = services\<rparr>))"

subsection \<open>Tests\<close>

definition expandScenarioServiceSubset ::
  "workflow_service_graph \<Rightarrow> scenario_test list \<Rightarrow> string list res" where
  "expandScenarioServiceSubset graph tests =
     bind_res (map_res (\<lambda>t. case st_targetServices t of None \<Rightarrow> Inl TypeError | Some ss \<Rightarrow> Inr ss) tests)
       (\<lambda>targets. Inr (visit_all (wg_serviceDeps graph) (concat targets) []))"

definition translateExpectedHttpBody :: "json_lib \<Rightarrow> http_expected_body option \<Rightarrow> json" where
  "translateExpectedHttpBody J expectedBody =
     (case expectedBody of
        None \<Rightarrow> JNull
      | Some b \<Rightarrow>
          (if heb_mode b = ''contains''
           then (case heb_value b of JStr s \<Rightarrow> JStr s | v \<Rightarrow> JStr (json_stringify J v))
           else (case heb_value b of
                   JStr s \<Rightarrow> nullish (json_parse J s) (JObj [])
                 | v \<Rightarrow> v)))"

definition opt_field :: "string \<Rightarrow> string option \<Rightarrow> (string \<times> json) list" where
  "opt_field k v = (case v of None \<Rightarrow> [] | Some s \<Rightarrow> [(k, JStr s)])"

definition str_record :: "(string \<times> string) list \<Rightarrow> json" where
  "str_record r = JObj (map (\<lambda>(k, v). (k, JStr v)) r)"

text \<open>\<open>cfg?.p || d\<close>, \<open>cfg?.p ?? d\<close> for a property of an optional configuration.\<close>

definition cfg_str :: "'c option \<Rightarrow> ('c \<Rightarrow> string) \<Rightarrow> string \<Rightarrow> json" where
  "cfg_str c f d = JStr (or_str (map_option f c) d)"

definition cfg_ostr :: "'c option \<Rightarrow> ('c \<Rightarrow> string option) \<Rightarrow> string \<Rightarrow> json" where
  "cfg_ostr c f d = JStr (or_str (Option.bind c f) d)"

definition cfg_num :: "'c option \<Rightarrow> ('c \<Rightarrow> int option) \<Rightarrow> json \<Rightarrow> json" where
  "cfg_num c f d = (case Option.bind c f of None \<Rightarrow> d | Some n \<Rightarrow> JNum n)"

definition cfg_bool :: "'c option \<Rightarrow> ('c \<Rightarrow> bool option) \<Rightarrow> json \<Rightarrow> json" where
  "cfg_bool c f d = (case Option.bind c f of None \<Rightarrow> d | Some b \<Rightarrow> JBool b)"

definition cfg_json :: "'c option \<Rightarrow> ('c \<Rightarrow> json option) \<Rightarrow> json \<Rightarrow> json" where
  "cfg_json c f d = nullish (Option.bind c f) d"

definition buildTestConfig ::
  "json_lib \<Rightarrow> scenario_test \<Rightarrow> string option \<Rightarrow> string list \<Rightarrow> (string \<times> json) list" where
  "buildTestConfig J t defaultService requiredServices =
     (let targetService =
            (case defaultService of
               Some s \<Rightarrow> if s \<in> set requiredServices then Some s
                         else (case requiredServices of [] \<Rightarrow> None | r # _ \<Rightarrow> Some r)
             | None \<Rightarrow> (case requiredServices of [] \<Rightarrow> None | r # _ \<Rightarrow> Some r));
          own_or_target = (\<lambda>own. if truthy_opt own then own else targetService)
      in case st_type t of
        TDatabase \<Rightarrow> (let c = st_databaseConfig t in
          opt_field ''service'' targetService @
          [(''driver'', cfg_str c dbc_driver ''postgres''),
           (''database'', cfg_str c dbc_database []),
           (''user'', cfg_str c dbc_user []),
           (''password'', cfg_str c dbc_password []),
           (''query'', cfg_str c dbc_query []),
           (''expected_result'', cfg_json c dbc_expectedResult JNull)])
      | TDocument \<Rightarrow> (let c = st_documentConfig t in
          opt_field ''service'' (own_or_target (map_option doc_service c)) @
          [(''database'', cfg_str c doc_database []),
           (''collection'', cfg_str c doc_collection []),
           (''operation'', cfg_str c doc_operation ''find_one''),
           (''document'', cfg_json c doc_document JNull),
           (''filter'', cfg_json c doc_filter JNull),
           (''update'', cfg_json c doc_update JNull),
           (''expected_document'', cfg_json c doc_expectedDocument JNull),
           (''expected_documents'', cfg_json c doc_expectedDocuments JNull),
           (''expected_count'', cfg_num c doc_expectedCount JNull),
           (''expected_exists'', cfg_bool c doc_expectedExists JNull)])
      | THttp \<Rightarrow> (let c = st_httpConfig t in
          opt_field ''service'' targetService @
          [(''method'', cfg_str c http_method ''GET''),
           (''path'', cfg_str c http_path ''/''),
           (''port'', cfg_str c http_port ''80''),
           (''headers'', str_record (nullish (Option.bind c http_headers) [])),
           (''body'', cfg_ostr c http_body []),
           (''expected_status'', cfg_num c http_expectedStatus (JNum 200)),
           (''expected_body'', translateExpectedHttpBody J (Option.bind c http_expectedBody))])
      | TShell \<Rightarrow> (let c = st_shellConfig t in
          [(''command'', cfg_str c sh_command []),
           (''env'', str_record (nullish (Option.bind c sh_env) [])),
           (''expected_output'', cfg_ostr c sh_expectedOutput []),
           (''expected_exit_code'', cfg_num c sh_expectedExitCode (JNum 0))])
      | TCache \<Rightarrow> (let c = st_cacheConfig t in
          opt_field ''service'' (own_or_target (map_option cc_service c)) @
          [(''cache_type'', cfg_str c cc_cacheType ''redis''),
           (''operation'', cfg_str c cc_operation ''ping''),
           (''key'', cfg_ostr c cc_key []),
           (''value'', cfg_json c cc_value (JStr [])),
           (''expected_value'', cfg_json c cc_expectedValue (JStr [])),
           (''expected_exists'', cfg_bool c cc_expectedExists (JBool False)),
           (''ttl'', cfg_num c cc_ttl (JNum 0)),
           (''db'', cfg_num c cc_db (JNum 0)),
           (''password'', cfg_ostr c cc_password [])])
      | TQueue \<Rightarrow> (let c = st_queueConfig t in
          opt_field ''service'' (own_or_target (map_option qc_service c)) @
          [(''broker_type'', cfg_str c qc_brokerType ''kafka''),
           (''operation'', cfg_str c qc_operation ''produce''),
           (''topic'', cfg_ostr c qc_topic []),
           (''message'', cfg_json c qc_message (JStr [])),
           (''key'', cfg_ostr c qc_key []),
           (''partition'', cfg_num c qc_partition (JNum 0)),
           (''timeout'', cfg_num c qc_timeout (JNum 10)),
           (''from_beginning'', cfg_bool c qc_fromBeginning (JBool False)),
           (''expected_count'', cfg_num c qc_expectedCount (JNum 1)),
           (''expected_message'', cfg_json c qc_expectedMessage (JStr [])),
           (''expected_exists'', cfg_bool c qc_expectedExists (JBool True))])
      | TDelay \<Rightarrow>
          [(''duration_ms'', JNum (nullish (st_delayMs t) 1000))])"

text \<open>The tests in the order they are sent: first those the order lists, then the others.\<close>

definition ordered_tests :: "scenario_test list \<Rightarrow> string list \<Rightarrow> scenario_test list" where
  "ordered_tests tests testOrder =
     (let orderedIds = filter (\<lambda>i. list_ex (\<lambda>t. st_id t = i) tests) testOrder
      in concat (map (\<lambda>i. case find (\<lambda>t. st_id t = i) tests of None \<Rightarrow> [] | Some t \<Rightarrow> [t]) orderedIds) @
         filter (\<lambda>t. st_id t \<notin> set orderedIds) tests)"

definition translate_test ::
  "json_lib \<Rightarrow> string list \<Rightarrow> scenario_test list \<Rightarrow> nat \<Rightarrow> scenario_test \<Rightarrow> test_config res" where
  "translate_test J requiredServices tests index t =
     (case st_targetServices t of
        None \<Rightarrow> Inl TypeError
      | Some targets \<Rightarrow>
          (let defaultService = (case targets of [] \<Rightarrow> None | s # _ \<Rightarrow> Some s);
               own = set_of (nullish (st_dependsOnTestIds t) []);
               dependsOn = (if 0 < index then set_add own (st_name (tests ! (index - 1))) else own)
           in Inr \<lparr>tc_name = st_name t, tc_type = st_type t, tc_depends_on = dependsOn,
                   tc_retry_policy = st_retryPolicy t,
                   tc_config = buildTestConfig J t defaultService requiredServices\<rparr>))"

definition translateScenarioTests ::
  "json_lib \<Rightarrow> scenario_test list \<Rightarrow> string list \<Rightarrow> string list \<Rightarrow> test_config list res" where
  "translateScenarioTests J tests0 testOrder requiredServices =
     (let tests = ordered_tests tests0 testOrder
      in map_res (\<lambda>(index, t). translate_test J requiredServices tests index t) (enumerate 0 tests))"

definition translateScenarioToExecutionBundle ::
  "json_lib \<Rightarrow> workflow_service_graph \<Rightarrow> scenario_test list \<Rightarrow> string list \<Rightarrow> translation_result res" where
  "translateScenarioToExecutionBundle J graph tests testOrder =
     bind_res (expandScenarioServiceSubset graph tests) (\<lambda>requiredServices.
     bind_res (translateScenarioTests J tests testOrder requiredServices) (\<lambda>cfgs.
       Inr \<lparr>tr_services = filter (\<lambda>s. cf_name s \<in> set requiredServices) (wg_services graph),
            tr_tests = cfgs\<rparr>))"

subsection \<open>The legacy entry point\<close>

definition legacy_tests :: "flow_node \<Rightarrow> scenario_test list" where
  "legacy_tests node =
     map (\<lambda>t. t\<lparr>st_targetServices :=
                  Some (case st_targetServices t of
                          Some (s # ss) \<Rightarrow> s # ss
                        | _ \<Rightarrow> [sanitizeName (nd_label (fn_data node))])\<rparr>)
       (nullish (nd_tests (fn_data node)) [])"

definition translateReactFlowToCotsConfig ::
  "json_lib \<Rightarrow> (string \<Rightarrow> string \<Rightarrow> int) \<Rightarrow> flow_node list \<Rightarrow> flow_edge list \<Rightarrow>
   (string \<times> string list) list option \<Rightarrow> (string \<times> registry_secret) list option \<Rightarrow> translation_result res" where
  "translateReactFlowToCotsConfig J localeCompare nodes edges customTestOrder registrySecrets =
     (let tests = concat (map legacy_tests nodes);
          testOrder = (case customTestOrder of Some m \<Rightarrow> concat (map snd m) | None \<Rightarrow> map st_id tests)
      in bind_res (translateWorkflowGraphToServiceGraph localeCompare nodes edges registrySecrets) (\<lambda>graph.
           let validation = validateScenario graph ''Legacy Node Tests'' tests testOrder
           in if vr_valid validation then translateScenarioToExecutionBundle J graph tests testOrder
              else Inl (Err (join_with '', '' (map te_message (vr_errors validation))))))"

subsection \<open>The order of init scripts\<close>

interpretation init_cmp: js_comparator init_script_order
  by unfold_locales (auto simp: init_script_order_def)

end
