(* ===== verification/Translation_Props.thy ===== *)
theory Translation_Props
  imports Service_Translation
begin

text \<open>
  What the translation to the runner's configuration guarantees: the services of a bundle are the
  dependency closure of the tests' targets and form a self-contained configuration, the tests are
  sent once each in the authored order, chained one after the other.
\<close>

subsection \<open>Services\<close>

lemma translate_service_fields:
  assumes "translate_service aliases g secrets n = Inr c"
  shows "cf_name c = node_name n" "nullish (cf_depends_on c) [] = deps g (node_name n)"
  using assms
  by (auto simp: translate_service_def node_name_def nullish_def split: option.splits if_splits)

lemma translateServices_configs:
  assumes "translateServices lc nodes g secrets = Inr services"
  shows "c \<in> set services \<longleftrightarrow>
    (\<exists>n \<in> set nodes. translate_service (buildServiceAliasMap nodes) g secrets n = Inr c)"
proof -
  obtain cs where cs: "list_all2 (\<lambda>n c. translate_service (buildServiceAliasMap nodes) g secrets n = Inr c) nodes cs"
    and s: "services = js_sort (\<lambda>l r. lc (cf_name l) (cf_name r)) cs"
    using assms by (auto simp: translateServices_def map_res_Inr)
  have "list_all2 (\<lambda>c n. translate_service (buildServiceAliasMap nodes) g secrets n = Inr c) cs nodes"
    using cs by (simp add: list_all2_conv_all_nth)
  with cs show ?thesis
    using list_all2_member [OF cs] list_all2_member [of _ cs nodes c] s by fastforce
qed

lemma translateServices_names:
  assumes "translateServices lc nodes g secrets = Inr services"
  shows "mset (map cf_name services) = mset (map node_name nodes)"
proof -
  obtain cs where cs: "list_all2 (\<lambda>n c. translate_service (buildServiceAliasMap nodes) g secrets n = Inr c) nodes cs"
    and s: "services = js_sort (\<lambda>l r. lc (cf_name l) (cf_name r)) cs"
    using assms by (auto simp: translateServices_def map_res_Inr)
  have "map cf_name cs = map node_name nodes"
    using cs by (induction rule: list_all2_induct) (auto dest: translate_service_fields)
  then show ?thesis by (metis mset_js_sort mset_map s)
qed

lemma deps_are_nodes:
  "b \<in> set (deps (buildServiceDependencies nodes edges (buildNodeMap nodes)) a) \<Longrightarrow> b \<in> node_name ` set nodes"
proof -
  let ?m = "buildNodeMap nodes"
  have in_nodes: "n \<in> set nodes" if "map_of ?m k = Some n" for k n
    using map_of_SomeD [OF that] buildNodeMap_nodes by force
  have nil: "deps (foldl (\<lambda>g n. AList.update (node_name n) [] g) [] nodes) x = []" for x
    by (rule init_deps) (simp add: deps_def nullish_def)
  assume "b \<in> set (deps (buildServiceDependencies nodes edges ?m) a)"
  then obtain e where "edge_requires ?m e a b"
    by (auto simp: buildServiceDependencies_def foldl_add_edge nil)
  then show ?thesis using in_nodes by (auto simp: edge_requires_def)
qed

lemma targets_or_throw:
  "(case x of None \<Rightarrow> Inl TypeError | Some ss \<Rightarrow> Inr ss) = Inr y \<longleftrightarrow> x = Some y"
  by (auto split: option.splits)

lemma expand_eq:
  assumes "expandScenarioServiceSubset graph tests = Inr required"
  shows "set required = (edge_rel (wg_serviceDeps graph))\<^sup>* `` (\<Union>t \<in> set tests. set (nullish (st_targetServices t) []))"
proof -
  obtain ts where ts: "list_all2 (\<lambda>t ss. st_targetServices t = Some ss) tests ts"
    and r: "required = visit_all (wg_serviceDeps graph) (concat ts) []"
    using assms by (auto simp: expandScenarioServiceSubset_def map_res_Inr targets_or_throw)
  have "set (concat ts) = (\<Union>t \<in> set tests. set (nullish (st_targetServices t) []))"
    using ts by (induction rule: list_all2_induct) (auto simp: nullish_def)
  then show ?thesis by (simp add: r visit_all_eq)
qed

text \<open>
  C15. An execution bundle is self-contained and minimal: its services are exactly the services of
  the workflow that some test targets or that such a service (transitively) requires, and whatever
  a service of the bundle depends on is in the bundle.
\<close>

theorem bundle_services_closed:
  assumes graph: "translateWorkflowGraphToServiceGraph lc nodes edges secrets = Inr graph"
    and tb: "translateScenarioToExecutionBundle J graph tests testOrder = Inr r"
  shows "cf_name ` set (tr_services r) =
      node_name ` set nodes \<inter>
      (edge_rel (wg_serviceDeps graph))\<^sup>* `` (\<Union>t \<in> set tests. set (nullish (st_targetServices t) [])) \<and>
    list_all (\<lambda>s. set (nullish (cf_depends_on s) []) \<subseteq> cf_name ` set (tr_services r)) (tr_services r)"
proof -
  define g where "g = buildServiceDependencies nodes edges (buildNodeMap nodes)"
  have sd: "wg_serviceDeps graph = g" and sv: "translateServices lc nodes g secrets = Inr (wg_services graph)"
    using graph by (auto simp: translateWorkflowGraphToServiceGraph_def g_def)
  obtain required where req: "expandScenarioServiceSubset graph tests = Inr required"
    and ts: "tr_services r = filter (\<lambda>s. cf_name s \<in> set required) (wg_services graph)"
    using tb by (auto simp: translateScenarioToExecutionBundle_def)
  have all: "cf_name ` set (wg_services graph) = node_name ` set nodes"
    using arg_cong [OF translateServices_names [OF sv], of set_mset] by simp
  then have names: "cf_name ` set (tr_services r) = node_name ` set nodes \<inter> set required"
    unfolding all [symmetric] by (auto simp: ts)
  have "set (nullish (cf_depends_on s) []) \<subseteq> cf_name ` set (tr_services r)" if "s \<in> set (tr_services r)" for s
  proof
    fix d assume "d \<in> set (nullish (cf_depends_on s) [])"
    moreover have "s \<in> set (wg_services graph)" "cf_name s \<in> set required" using that by (auto simp: ts)
    ultimately have d: "d \<in> set (deps g (cf_name s))"
      using translateServices_configs [OF sv, of s] translate_service_fields by metis
    then have "d \<in> node_name ` set nodes" unfolding g_def by (rule deps_are_nodes)
    moreover have "d \<in> set required"
      using \<open>cf_name s \<in> set required\<close> d
      by (auto simp: expand_eq [OF req] sd edge_rel_def intro: rtrancl_into_rtrancl)
    ultimately show "d \<in> cf_name ` set (tr_services r)" by (simp add: names)
  qed
  then show ?thesis
    using expand_eq [OF req] by (simp add: names list_all_iff)
qed

text \<open>A concrete run: one HTTP test against the application, which needs the database.\<close>

definition demo_json :: json_lib where
  "demo_json = \<lparr>json_parse = (\<lambda>s. if s = ''null'' then Some JNull else None), json_stringify = (\<lambda>_. ''null'')\<rparr>"

definition http_test :: "string \<Rightarrow> string \<Rightarrow> scenario_test" where
  "http_test i name = \<lparr>st_id = i, st_name = name, st_type = THttp, st_targetServices = Some [''app''],
     st_dependsOnTestIds = None, st_retryPolicy = None, st_databaseConfig = None, st_documentConfig = None,
     st_httpConfig = None, st_shellConfig = None, st_cacheConfig = None, st_queueConfig = None,
     st_delayMs = None\<rparr>"

definition demo_bundle :: "(workflow_service_graph \<times> translation_result) res" where
  "demo_bundle =
     bind_res (translateWorkflowGraphToServiceGraph (\<lambda>_ _. 0) demo_nodes demo_edges None) (\<lambda>graph.
     bind_res (translateScenarioToExecutionBundle demo_json graph [http_test ''1'' ''first''] []) (\<lambda>r.
       Inr (graph, r)))"

lemma demo_bundle_services:
  "(case demo_bundle of Inl _ \<Rightarrow> False
    | Inr (graph, r) \<Rightarrow> map cf_name (tr_services r) = [''app'', ''db''])"
  by code_simp

theorem bundle_services_closed_witness:
  "\<exists>graph r. demo_bundle = Inr (graph, r) \<and> map cf_name (tr_services r) = [''app'', ''db''] \<and>
     list_all (\<lambda>s. set (nullish (cf_depends_on s) []) \<subseteq> {''app'', ''db''}) (tr_services r)"
proof -
  obtain graph r where r: "demo_bundle = Inr (graph, r)"
      and names: "map cf_name (tr_services r) = [''app'', ''db'']"
    using demo_bundle_services by (auto split: sum.splits prod.splits)
  have "translateWorkflowGraphToServiceGraph (\<lambda>_ _. 0) demo_nodes demo_edges None = Inr graph"
    "translateScenarioToExecutionBundle demo_json graph [http_test ''1'' ''first''] [] = Inr r"
    using r by (auto simp: demo_bundle_def)
  note closed = bundle_services_closed [OF this]
  have "cf_name ` set (tr_services r) = {''app'', ''db''}"
    using arg_cong [OF names, of set] by simp
  then have "list_all (\<lambda>s. set (nullish (cf_depends_on s) []) \<subseteq> {''app'', ''db''}) (tr_services r)"
    using conjunct2 [OF closed] by simp
  with r names show ?thesis by (intro exI [of _ graph] exI [of _ r] conjI)
qed

subsection \<open>Tests\<close>

lemma ordered_tests_mset:
  assumes ids: "distinct (map st_id tests)" and ord: "distinct testOrder"
  shows "mset (ordered_tests tests testOrder) = mset tests"
proof -
  define os where "os = filter (\<lambda>i. list_ex (\<lambda>t. st_id t = i) tests) testOrder"
  have look: "\<exists>t. find (\<lambda>t. st_id t = i) tests = Some t \<and> t \<in> set tests \<and> st_id t = i" if "i \<in> set os" for i
    using that by (cases "find (\<lambda>t. st_id t = i) tests")
      (auto simp: os_def list_ex_iff find_None_iff find_Some_iff)
  then obtain pick where pick: "\<And>i. i \<in> set os \<Longrightarrow>
      find (\<lambda>t. st_id t = i) tests = Some (pick i) \<and> pick i \<in> set tests \<and> st_id (pick i) = i"
    by metis
  have "concat (map (\<lambda>i. case find (\<lambda>t. st_id t = i) tests of None \<Rightarrow> [] | Some t \<Rightarrow> [t]) os) = map pick os"
    using pick by (induction os) auto
  then have eq: "ordered_tests tests testOrder = map pick os @ filter (\<lambda>t. st_id t \<notin> set os) tests"
    by (simp add: ordered_tests_def os_def)
  have "set (map pick os) = {t \<in> set tests. st_id t \<in> set os}"
    using pick ids by (auto simp: distinct_map inj_on_def image_iff) metis
  moreover have "inj_on pick (set os)" using pick by (metis inj_onI)
  then have "distinct (map pick os)" using ord by (simp add: distinct_map os_def)
  moreover have "distinct tests" using ids by (simp add: distinct_map)
  ultimately have "mset (map pick os) = mset (filter (\<lambda>t. st_id t \<in> set os) tests)"
    by (subst set_eq_iff_mset_eq_distinct [symmetric]) auto
  then show ?thesis by (simp add: eq)
qed

lemma translateScenarioTests_nth:
  assumes "translateScenarioTests J tests testOrder required = Inr cfgs"
  shows "length cfgs = length (ordered_tests tests testOrder)"
    and "i < length cfgs \<Longrightarrow>
      translate_test J required (ordered_tests tests testOrder) i (ordered_tests tests testOrder ! i) =
        Inr (cfgs ! i)"
  using assms
  by (auto simp: translateScenarioTests_def map_res_Inr list_all2_conv_all_nth nth_enumerate_eq)

lemma translate_test_fields:
  assumes "translate_test J required ts i t = Inr c"
  shows "tc_name c = st_name t" "0 < i \<Longrightarrow> st_name (ts ! (i - 1)) \<in> set (tc_depends_on c)"
  using assms by (auto simp: translate_test_def split: option.splits)


lemma demo_tests:
  "(case translateScenarioTests demo_json [http_test ''1'' ''first'', http_test ''2'' ''second''] [''2''] [''app'']
    of Inl _ \<Rightarrow> False | Inr cfgs \<Rightarrow> map tc_name cfgs = [''second'', ''first''])"
  by code_simp


end
