(* ===== verification/Workflow_Bundle.thy ===== *)
theory Workflow_Bundle
  imports Translation_Props
begin

text \<open>
  \<^verbatim>\<open>src/ui-v2/src/modules/workflow/lib/workflow-bundle.ts\<close>: exporting a workflow with its
  scenarios as a bundle, validating and importing bundles, cloning workflows. A parsed bundle is a
  record whose fields are options: \<open>None\<close> for a value that is missing or not of the kind the code
  tests for. \<open>JSON.parse\<close> and \<open>localeCompare\<close> (used by the service translation) are arguments;
  \<open>generateId\<close> is a supply of ids indexed by the number of calls made; \<open>structuredClone\<close> is the
  identity on values.
\<close>

definition WORKFLOW_BUNDLE_SCHEMA_VERSION :: int where
  "WORKFLOW_BUNDLE_SCHEMA_VERSION = 2"

definition WORKFLOW_BUNDLE_KIND :: string where
  "WORKFLOW_BUNDLE_KIND = ''cots.workflow-bundle''"

record bundle_scenario =
  bs_name :: "string option"
  bs_description :: "string option"
  bs_tests :: "scenario_test list option"
  bs_testOrder :: "string list option"

record bundle_workflow =
  bw_name :: "string option"
  bw_description :: "string option"
  bw_nodes :: "flow_node list option"
  bw_edges :: "flow_edge list option"

record workflow_bundle =
  wb_schemaVersion :: "int option"
  wb_kind :: "string option"
  wb_workflow :: "bundle_workflow option"
  wb_scenarios :: "bundle_scenario option list option"

subsection \<open>Validation\<close>

definition quoted :: "string \<Rightarrow> string" where
  "quoted s = ''\"'' @ s @ ''\"''"

definition fail :: "string \<Rightarrow> 'a res" where
  "fail message = Inl (Err message)"

definition check :: "bool \<Rightarrow> string \<Rightarrow> unit res" where
  "check ok message = (if ok then Inr () else fail message)"

definition validate_retry_policy :: "scenario_test \<Rightarrow> unit res" where
  "validate_retry_policy t =
     (case st_retryPolicy t of
        None \<Rightarrow> Inr ()
      | Some policy \<Rightarrow>
          if rp_mode policy \<noteq> ''transient'' \<and> rp_mode policy \<noteq> ''never''
          then fail (''Test '' @ quoted (st_name t) @ '' has an invalid retry mode.'')
          else if rp_mode policy = ''never'' \<and> rp_idempotencyConfirmed policy
          then fail (''Test '' @ quoted (st_name t) @ '' cannot confirm idempotency when retries are disabled.'')
          else if st_type t = TDelay \<and> rp_idempotencyConfirmed policy
          then fail (''Delay test '' @ quoted (st_name t) @ '' cannot enable retries.'')
          else Inr ())"

definition validateBundleScenario :: "bundle_scenario option \<Rightarrow> nat \<Rightarrow> unit res" where
  "validateBundleScenario scenario0 index =
     (case scenario0 of
        None \<Rightarrow> fail (''Scenario '' @ show_nat (index + 1) @ '' must be an object.'')
      | Some scenario \<Rightarrow>
          if \<not> truthy_opt (map_option trim (bs_name scenario))
          then fail (''Scenario '' @ show_nat (index + 1) @ '' must include a name.'')
          else let name = nullish (bs_name scenario) [] in
            case bs_tests scenario of
              Some (t # ts) \<Rightarrow>
                (case bs_testOrder scenario of
                   None \<Rightarrow> fail (''Scenario '' @ quoted name @ '' must include a testOrder array.'')
                 | Some orderIds \<Rightarrow>
                     (let testIds = map st_id (t # ts); uniqueTestIds = set_of testIds in
                      bind_res (check (length uniqueTestIds = length testIds)
                        (''Scenario '' @ quoted name @ '' contains duplicate test ids.'')) (\<lambda>_.
                      bind_res (check (length (set_of orderIds) = length orderIds)
                        (''Scenario '' @ quoted name @ '' contains duplicate testOrder ids.'')) (\<lambda>_.
                      bind_res (check (length orderIds = length testIds)
                        (''Scenario '' @ quoted name @ '' testOrder must include every test exactly once.'')) (\<lambda>_.
                      bind_res (each_res (\<lambda>testId. check (testId \<in> set uniqueTestIds)
                        (''Scenario '' @ quoted name @ '' testOrder references unknown test '' @ quoted testId @ ''.''))
                        orderIds) (\<lambda>_.
                      each_res validate_retry_policy (t # ts)))))))
            | _ \<Rightarrow> fail (''Scenario '' @ quoted name @ '' must include at least one test.''))"

definition validate_edge_metadata :: "flow_edge \<Rightarrow> unit res" where
  "validate_edge_metadata edge =
     bind_res (check (\<not> truthy_opt (Option.bind (fe_data edge) ed_relation) \<or>
                      nullish (Option.bind (fe_data edge) ed_relation) [] \<in> set EDGE_RELATIONS)
       (''Edge '' @ quoted (fe_id edge) @ '' has an invalid relation.'')) (\<lambda>_.
     check (\<not> truthy_opt (Option.bind (fe_data edge) ed_readiness) \<or>
            nullish (Option.bind (fe_data edge) ed_readiness) [] \<in> set EDGE_READINESS_OPTIONS)
       (''Edge '' @ quoted (fe_id edge) @ '' has invalid readiness metadata.''))"

definition joined_errors :: "validation_result \<Rightarrow> string" where
  "joined_errors r = join_with ''; '' (map te_message (vr_errors r))"

definition validate_scenario_at ::
  "workflow_service_graph \<Rightarrow> nat \<times> bundle_scenario option \<Rightarrow> unit res" where
  "validate_scenario_at graph is =
     bind_res (validateBundleScenario (snd is) (fst is)) (\<lambda>_.
       case snd is of
         None \<Rightarrow> Inl TypeError
       | Some scenario \<Rightarrow>
           let v = validateScenario graph (nullish (bs_name scenario) []) (nullish (bs_tests scenario) [])
                     (nullish (bs_testOrder scenario) [])
           in check (vr_valid v) (joined_errors v))"

definition validateWorkflowBundle ::
  "(string \<Rightarrow> string \<Rightarrow> int) \<Rightarrow> workflow_bundle option \<Rightarrow> unit res" where
  "validateWorkflowBundle localeCompare value =
     (case value of
        None \<Rightarrow> fail ''Workflow bundle must be a JSON object.''
      | Some b \<Rightarrow>
          if wb_schemaVersion b \<noteq> Some 1 \<and> wb_schemaVersion b \<noteq> Some 2
          then fail (''Unsupported workflow bundle schema version: '' @
            (case wb_schemaVersion b of Some v \<Rightarrow> show_int v | None \<Rightarrow> ''undefined'') @ ''.'')
          else if wb_kind b \<noteq> Some WORKFLOW_BUNDLE_KIND
          then fail ''Workflow bundle kind must be cots.workflow-bundle.''
          else case wb_workflow b of
            None \<Rightarrow> fail ''Workflow bundle must include a workflow definition.''
          | Some workflow \<Rightarrow>
              if \<not> truthy_opt (map_option trim (bw_name workflow))
              then fail ''Workflow bundle must include a workflow name.''
              else case bw_nodes workflow of
                None \<Rightarrow> fail ''Workflow bundle workflow.nodes must be an array.''
              | Some nodes \<Rightarrow>
                  (case bw_edges workflow of
                     None \<Rightarrow> fail ''Workflow bundle workflow.edges must be an array.''
                   | Some edges \<Rightarrow>
                       bind_res (each_res validate_edge_metadata edges) (\<lambda>_.
                       case wb_scenarios b of
                         Some (s # ss) \<Rightarrow>
                           bind_res (validateWorkflowGraph nodes edges) (\<lambda>workflowValidation.
                           bind_res (check (vr_valid workflowValidation) (joined_errors workflowValidation)) (\<lambda>_.
                           bind_res (translateWorkflowGraphToServiceGraph localeCompare nodes edges None) (\<lambda>graph.
                             each_res (validate_scenario_at graph) (enumerate 0 (s # ss)))))
                       | _ \<Rightarrow> fail ''Workflow bundle must include at least one scenario.'')))"

subsection \<open>Exporting\<close>

definition bundle_node_attrs :: "string list" where
  "bundle_node_attrs =
     [''type'', ''selected'', ''dragging'', ''zIndex'', ''hidden'', ''deletable'', ''draggable'', ''selectable'',
      ''connectable'', ''resizing'', ''width'', ''height'', ''parentId'', ''extent'', ''expandParent'',
      ''sourcePosition'', ''targetPosition'', ''style'', ''className'', ''ariaLabel'', ''focusable'']"

definition sanitize_node :: "flow_node \<Rightarrow> flow_node res" where
  "sanitize_node node =
     (case nd_service (fn_data node) of
        None \<Rightarrow> Inl TypeError
      | Some service \<Rightarrow>
          Inr \<lparr>fn_id = fn_id node, fn_position = fn_position node,
               fn_attrs = filter (\<lambda>(k, v). k \<in> set bundle_node_attrs) (fn_attrs node),
               fn_data = \<lparr>nd_label = nd_label (fn_data node), nd_description = nd_description (fn_data node),
                 nd_service = Some \<lparr>svc_type = svc_type service, svc_image = svc_image service,
                   svc_command = svc_command service, svc_ports = svc_ports service, svc_env = svc_env service,
                   svc_wait = svc_wait service, svc_initScripts = svc_initScripts service,
                   svc_mockServer = svc_mockServer service, svc_registry = None\<rparr>,
                 nd_tests = None\<rparr>\<rparr>)"

definition sanitizeNodesForBundle :: "flow_node list \<Rightarrow> flow_node list res" where
  "sanitizeNodesForBundle nodes = map_res sanitize_node nodes"

definition bundle_edge_data :: "edge_data \<Rightarrow> edge_data" where
  "bundle_edge_data d =
     \<lparr>ed_label = ed_label d, ed_description = ed_description d, ed_protocol = ed_protocol d,
      ed_relation = ed_relation d, ed_readiness = ed_readiness d, ed_needsReview = ed_needsReview d,
      ed_showLabel = None, ed_layoutPoints = None\<rparr>"

definition sanitizeEdgesForBundle :: "flow_edge list \<Rightarrow> flow_edge list" where
  "sanitizeEdgesForBundle edges =
     map (\<lambda>e. e\<lparr>fe_data := map_option bundle_edge_data (fe_data e)\<rparr>) (normalizeEdges edges False)"

record exportable_workflow =
  ew_name :: string
  ew_description :: "string option"
  ew_nodes :: "flow_node list"
  ew_edges :: "flow_edge list"

record exportable_scenario =
  es_name :: string
  es_description :: "string option"
  es_tests :: "scenario_test list"
  es_testOrder :: "string list"

definition export_scenario :: "exportable_scenario \<Rightarrow> bundle_scenario" where
  "export_scenario s = \<lparr>bs_name = Some (es_name s), bs_description = Some (or_str (es_description s) []),
     bs_tests = Some (es_tests s), bs_testOrder = Some (es_testOrder s)\<rparr>"

definition createWorkflowBundle ::
  "(string \<Rightarrow> string \<Rightarrow> int) \<Rightarrow> exportable_workflow \<Rightarrow> exportable_scenario list \<Rightarrow> workflow_bundle res" where
  "createWorkflowBundle localeCompare workflow scenarios =
     bind_res (sanitizeNodesForBundle (ew_nodes workflow)) (\<lambda>nodes.
       let b = \<lparr>wb_schemaVersion = Some WORKFLOW_BUNDLE_SCHEMA_VERSION, wb_kind = Some WORKFLOW_BUNDLE_KIND,
             wb_workflow = Some \<lparr>bw_name = Some (ew_name workflow),
               bw_description = Some (or_str (ew_description workflow) []), bw_nodes = Some nodes,
               bw_edges = Some (sanitizeEdgesForBundle (ew_edges workflow))\<rparr>,
             wb_scenarios = Some (map (\<lambda>s. Some (export_scenario s)) scenarios)\<rparr>
       in bind_res (validateWorkflowBundle localeCompare (Some b)) (\<lambda>_. Inr b))"

subsection \<open>Importing\<close>

definition normalizeWorkflowBundle :: "workflow_bundle \<Rightarrow> workflow_bundle" where
  "normalizeWorkflowBundle b =
     b\<lparr>wb_schemaVersion := Some WORKFLOW_BUNDLE_SCHEMA_VERSION,
       wb_workflow := map_option (\<lambda>w. w\<lparr>bw_edges :=
         map_option (\<lambda>es. normalizeEdges es (wb_schemaVersion b = Some 1)) (bw_edges w)\<rparr>) (wb_workflow b)\<rparr>"

text \<open>\<open>parse\<close> is \<open>JSON.parse\<close> with the bundle's reading of the value: \<open>None\<close> for invalid JSON.\<close>

definition parseWorkflowBundle ::
  "(string \<Rightarrow> string \<Rightarrow> int) \<Rightarrow> (string \<Rightarrow> workflow_bundle option option) \<Rightarrow> string \<Rightarrow> workflow_bundle res" where
  "parseWorkflowBundle localeCompare parse raw =
     (case parse raw of
        None \<Rightarrow> fail ''Workflow bundle is not valid JSON.''
      | Some parsed \<Rightarrow>
          bind_res (validateWorkflowBundle localeCompare parsed) (\<lambda>_.
            case parsed of None \<Rightarrow> Inl TypeError | Some b \<Rightarrow> Inr (normalizeWorkflowBundle b)))"

function unique_suffix :: "string list \<Rightarrow> string \<Rightarrow> nat \<Rightarrow> nat" where
  "unique_suffix existing trimmed n =
     (if trimmed @ '' '' @ show_nat n \<in> set existing then unique_suffix existing trimmed (n + 1)
      else n)"
  by auto

definition name_of_suffix :: "string \<Rightarrow> nat \<Rightarrow> string" where
  "name_of_suffix trimmed n = trimmed @ '' '' @ show_nat n"

lemma finite_taken: "finite {n. name_of_suffix trimmed n \<in> set existing}"
proof (rule finite_imageD)
  show "finite (name_of_suffix trimmed ` {n. name_of_suffix trimmed n \<in> set existing})"
    by (rule finite_subset [of _ "set existing"]) auto
  show "inj_on (name_of_suffix trimmed) {n. name_of_suffix trimmed n \<in> set existing}"
    by (auto simp: inj_on_def name_of_suffix_def dest: show_nat_inj)
qed

termination unique_suffix
proof (relation "measure (\<lambda>(existing, trimmed, n).
    card {m. n \<le> m \<and> name_of_suffix trimmed m \<in> set existing})")
  fix existing :: "string list" and trimmed :: string and n :: nat
  assume taken: "trimmed @ '' '' @ show_nat n \<in> set existing"
  have "{m. n + 1 \<le> m \<and> name_of_suffix trimmed m \<in> set existing} \<subset>
      {m. n \<le> m \<and> name_of_suffix trimmed m \<in> set existing}"
  proof (rule psubsetI)
    have "n \<in> {m. n \<le> m \<and> name_of_suffix trimmed m \<in> set existing}" using taken by (simp add: name_of_suffix_def)
    then show "{m. n + 1 \<le> m \<and> name_of_suffix trimmed m \<in> set existing} \<noteq>
        {m. n \<le> m \<and> name_of_suffix trimmed m \<in> set existing}" by (metis (no_types, lifting) Suc_eq_plus1 mem_Collect_eq not_less_eq_eq order_refl)
  qed auto
  then show "((existing, trimmed, n + 1), existing, trimmed, n) \<in>
      measure (\<lambda>(existing, trimmed, n). card {m. n \<le> m \<and> name_of_suffix trimmed m \<in> set existing})"
    by (simp add: psubset_card_mono finite_subset [OF _ finite_taken [of trimmed existing]])
qed simp

declare unique_suffix.simps [simp del]

definition getUniqueWorkflowName :: "string \<Rightarrow> string list \<Rightarrow> string" where
  "getUniqueWorkflowName baseName existing =
     (let trimmed = or_str (Some (trim baseName)) ''Imported Workflow''
      in if trimmed \<notin> set existing then trimmed
         else trimmed @ '' '' @ show_nat (unique_suffix existing trimmed 2))"

text \<open>\<open>generateId\<close> as a supply: the id returned by each call, and the number of calls made so far.\<close>

definition id_map :: "(nat \<Rightarrow> string) \<Rightarrow> nat \<Rightarrow> scenario_test list \<Rightarrow> (string \<times> string) list" where
  "id_map fresh n tests = foldl (\<lambda>m (k, t). AList.update (st_id t) (fresh k) m) [] (enumerate n tests)"

definition cloneScenarioForImport ::
  "(nat \<Rightarrow> string) \<Rightarrow> nat \<Rightarrow> bundle_scenario \<Rightarrow> bundle_scenario \<times> nat" where
  "cloneScenarioForImport fresh n scenario =
     (let old = nullish (bs_tests scenario) [];
          idMap = map_of (id_map fresh n old);
          look = (\<lambda>ids. concat (map (\<lambda>i. case drop_falsy (idMap i) of Some j \<Rightarrow> [j] | None \<Rightarrow> []) ids));
          tests = map (\<lambda>t. t\<lparr>st_id := or_str (idMap (st_id t)) (fresh (n + length old)),
                            st_dependsOnTestIds := Some (look (nullish (st_dependsOnTestIds t) []))\<rparr>) old
      in (\<lparr>bs_name = bs_name scenario, bs_description = Some (or_str (bs_description scenario) []),
           bs_tests = Some tests, bs_testOrder = Some (look (nullish (bs_testOrder scenario) []))\<rparr>,
          n + length old))"

text \<open>Validation, which comes first, refuses entries that are not objects.\<close>

fun clone_scenarios ::
  "(nat \<Rightarrow> string) \<Rightarrow> nat \<Rightarrow> bundle_scenario option list \<Rightarrow> bundle_scenario list \<times> nat" where
  "clone_scenarios fresh n [] = ([], n)"
| "clone_scenarios fresh n (None # ss) = clone_scenarios fresh n ss"
| "clone_scenarios fresh n (Some s # ss) =
     (case cloneScenarioForImport fresh n s of (s', n') \<Rightarrow>
        case clone_scenarios fresh n' ss of (ss', n'') \<Rightarrow> (s' # ss', n''))"

record imported_bundle =
  ib_workflow :: exportable_workflow
  ib_scenarios :: "bundle_scenario list"

definition materializeWorkflowBundle ::
  "(string \<Rightarrow> string \<Rightarrow> int) \<Rightarrow> (nat \<Rightarrow> string) \<Rightarrow> workflow_bundle \<Rightarrow> string list \<Rightarrow> imported_bundle res" where
  "materializeWorkflowBundle localeCompare fresh b existingWorkflowNames =
     bind_res (validateWorkflowBundle localeCompare (Some b)) (\<lambda>_.
       case wb_workflow b of
         None \<Rightarrow> Inl TypeError
       | Some w \<Rightarrow>
           bind_res (sanitizeNodesForBundle (nullish (bw_nodes w) [])) (\<lambda>nodes.
             Inr \<lparr>ib_workflow = \<lparr>ew_name = getUniqueWorkflowName (nullish (bw_name w) []) existingWorkflowNames,
                    ew_description = Some (or_str (bw_description w) []), ew_nodes = nodes,
                    ew_edges = normalizeEdges (nullish (bw_edges w) []) (wb_schemaVersion b = Some 1)\<rparr>,
                  ib_scenarios = fst (clone_scenarios fresh 0 (nullish (wb_scenarios b) []))\<rparr>))"

definition createClonedWorkflowBundle ::
  "(string \<Rightarrow> string \<Rightarrow> int) \<Rightarrow> (nat \<Rightarrow> string) \<Rightarrow> exportable_workflow \<Rightarrow> exportable_scenario list \<Rightarrow> string list \<Rightarrow>
   imported_bundle res" where
  "createClonedWorkflowBundle localeCompare fresh workflow scenarios existingWorkflowNames =
     bind_res (createWorkflowBundle localeCompare workflow scenarios) (\<lambda>b.
     bind_res (materializeWorkflowBundle localeCompare fresh b existingWorkflowNames) (\<lambda>materialized.
       Inr (materialized\<lparr>ib_workflow := (ib_workflow materialized)\<lparr>ew_name :=
         getUniqueWorkflowName (ew_name workflow @ '' Copy'') existingWorkflowNames\<rparr>\<rparr>)))"

section \<open>Unique names\<close>

lemma unique_suffix_free: "name_of_suffix trimmed (unique_suffix existing trimmed n) \<notin> set existing"
  by (induction existing trimmed n rule: unique_suffix.induct)
    (subst unique_suffix.simps, simp add: name_of_suffix_def)

lemma unique_suffix_first:
  "n \<le> unique_suffix existing trimmed n \<and>
   list_all (\<lambda>m. name_of_suffix trimmed m \<in> set existing) [n..<unique_suffix existing trimmed n]"
proof (induction existing trimmed n rule: unique_suffix.induct)
  case (1 existing trimmed n)
  show ?case
  proof (cases "name_of_suffix trimmed n \<in> set existing")
    case True
    then have step: "unique_suffix existing trimmed n = unique_suffix existing trimmed (n + 1)"
      by (subst unique_suffix.simps) (simp add: name_of_suffix_def)
    have IH: "n + 1 \<le> unique_suffix existing trimmed (n + 1)"
      "list_all (\<lambda>m. name_of_suffix trimmed m \<in> set existing) [n + 1..<unique_suffix existing trimmed (n + 1)]"
      using 1 True by (simp_all add: name_of_suffix_def)
    then show ?thesis unfolding step using True by (simp add: upt_conv_Cons)
  next
    case False
    then show ?thesis by (subst (1 2) unique_suffix.simps) (simp add: name_of_suffix_def)
  qed
qed

text \<open>
  An imported or cloned workflow gets a name no existing workflow has: the trimmed name
  itself when it is free, otherwise that name with the first free number from 2 on. The search ends
  for every list of existing names.
\<close>

theorem unique_workflow_name:
  "getUniqueWorkflowName baseName existing \<notin> set existing \<and>
   (let trimmed = or_str (Some (trim baseName)) ''Imported Workflow''
    in getUniqueWorkflowName baseName existing =
         (if trimmed \<notin> set existing then trimmed
          else name_of_suffix trimmed (unique_suffix existing trimmed 2)) \<and>
       list_all (\<lambda>m. name_of_suffix trimmed m \<in> set existing) [2..<unique_suffix existing trimmed 2])"
  using unique_suffix_free [of "or_str (Some (trim baseName)) ''Imported Workflow''" existing 2]
    unique_suffix_first [of 2 existing "or_str (Some (trim baseName)) ''Imported Workflow''"]
  by (auto simp: getUniqueWorkflowName_def name_of_suffix_def)

section \<open>Exported bundles\<close>

lemma sanitize_node_idem: "sanitize_node n = Inr n' \<Longrightarrow> sanitize_node n' = Inr n'"
  by (auto simp: sanitize_node_def split: option.splits)

lemma sanitize_nodes_idem:
  "sanitizeNodesForBundle nodes = Inr nodes' \<Longrightarrow> sanitizeNodesForBundle nodes' = Inr nodes'"
proof -
  assume "sanitizeNodesForBundle nodes = Inr nodes'"
  then have "list_all2 (\<lambda>n n'. sanitize_node n = Inr n') nodes nodes'" by (simp add: sanitizeNodesForBundle_def map_res_Inr)
  then have "list_all2 (\<lambda>n n'. sanitize_node n = Inr n') nodes' nodes'"
    by (induction rule: list_all2_induct) (auto dest: sanitize_node_idem)
  then show ?thesis by (simp add: sanitizeNodesForBundle_def map_res_Inr)
qed

definition strip_edge :: "flow_edge \<Rightarrow> flow_edge" where
  "strip_edge e = e\<lparr>fe_data := map_option bundle_edge_data (fe_data e)\<rparr>"

lemma strip_edge_migrated: "edge_migrated (strip_edge e) = edge_migrated e"
  by (cases "fe_data e") (simp_all add: edge_migrated_def data_of_def strip_edge_def nullish_def bundle_edge_data_def)

lemma normalizeEdge_strip: "normalizeEdge (strip_edge (normalizeEdge e l)) False = strip_edge (normalizeEdge e l)"
proof -
  have "normalizeEdge (strip_edge x) False = strip_edge (normalizeEdge x False)" if "fe_data x \<noteq> None" for x
    using that strip_edge_migrated [of x]
    by (auto simp: normalizeEdge_def strip_edge_def data_of_def nullish_def bundle_edge_data_def)
  moreover have "fe_data (normalizeEdge e l) \<noteq> None" by (simp add: normalizeEdge_def)
  ultimately show ?thesis by (simp add: normalizeEdge_twice)
qed

lemma sanitized_edges_normal: "normalizeEdges (sanitizeEdgesForBundle edges) False = sanitizeEdgesForBundle edges"
  using edge_wf_not_migrated [OF normalizeEdge_wf]
  by (auto simp: sanitizeEdgesForBundle_def normalizeEdges_def strip_edge_def [symmetric] strip_edge_migrated normalizeEdge_strip)

lemma createWorkflowBundle_Inr:
  assumes "createWorkflowBundle lc w ss = Inr b"
  shows "\<exists>nodes. sanitizeNodesForBundle (ew_nodes w) = Inr nodes \<and>
    b = \<lparr>wb_schemaVersion = Some 2, wb_kind = Some WORKFLOW_BUNDLE_KIND,
         wb_workflow = Some \<lparr>bw_name = Some (ew_name w), bw_description = Some (or_str (ew_description w) []),
           bw_nodes = Some nodes, bw_edges = Some (sanitizeEdgesForBundle (ew_edges w))\<rparr>,
         wb_scenarios = Some (map (\<lambda>s. Some (export_scenario s)) ss)\<rparr> \<and>
    validateWorkflowBundle lc (Some b) = Inr ()"
  using assms by (auto simp: createWorkflowBundle_def WORKFLOW_BUNDLE_SCHEMA_VERSION_def)

text \<open>
  C28. Exporting and parsing is a round trip: if the text of an exported bundle reads back as that
  bundle, parsing accepts it and returns the very same bundle (no migration, no further
  normalisation).
\<close>

theorem exported_bundle_parses_back:
  assumes "createWorkflowBundle lc w ss = Inr b" and "parse raw = Some (Some b)"
  shows "parseWorkflowBundle lc parse raw = Inr b"
proof -
  obtain nodes where b: "b = \<lparr>wb_schemaVersion = Some 2, wb_kind = Some WORKFLOW_BUNDLE_KIND,
         wb_workflow = Some \<lparr>bw_name = Some (ew_name w), bw_description = Some (or_str (ew_description w) []),
           bw_nodes = Some nodes, bw_edges = Some (sanitizeEdgesForBundle (ew_edges w))\<rparr>,
         wb_scenarios = Some (map (\<lambda>s. Some (export_scenario s)) ss)\<rparr>"
    and v: "validateWorkflowBundle lc (Some b) = Inr ()"
    using createWorkflowBundle_Inr [OF assms(1)] by blast
  have "normalizeWorkflowBundle b = b"
    by (simp add: b normalizeWorkflowBundle_def WORKFLOW_BUNDLE_SCHEMA_VERSION_def sanitized_edges_normal)
  then show ?thesis using assms(2) v by (simp add: parseWorkflowBundle_def)
qed

text \<open>
  A bundle carries no registry references and no node-level tests, and otherwise the
  services as authored: names, types, images, environments and mock expectations are those of the
  workflow, node by node.
\<close>

theorem bundle_has_no_registry_references:
  assumes "createWorkflowBundle lc w ss = Inr b"
  shows "\<exists>bw nodes. wb_workflow b = Some bw \<and> bw_nodes bw = Some nodes \<and>
    list_all2 (\<lambda>n n'. \<exists>svc. nd_service (fn_data n) = Some svc \<and>
        nd_service (fn_data n') = Some (svc\<lparr>svc_registry := None\<rparr>) \<and>
        nd_tests (fn_data n') = None \<and> node_name n' = node_name n \<and> fn_id n' = fn_id n) (ew_nodes w) nodes"
proof -
  obtain nodes where n: "sanitizeNodesForBundle (ew_nodes w) = Inr nodes"
    and b: "wb_workflow b = Some \<lparr>bw_name = Some (ew_name w), bw_description = Some (or_str (ew_description w) []),
           bw_nodes = Some nodes, bw_edges = Some (sanitizeEdgesForBundle (ew_edges w))\<rparr>"
    using createWorkflowBundle_Inr [OF assms] by auto
  have "list_all2 (\<lambda>n n'. sanitize_node n = Inr n') (ew_nodes w) nodes"
    using n by (simp add: sanitizeNodesForBundle_def map_res_Inr)
  then have "list_all2 (\<lambda>n n'. \<exists>svc. nd_service (fn_data n) = Some svc \<and>
        nd_service (fn_data n') = Some (svc\<lparr>svc_registry := None\<rparr>) \<and>
        nd_tests (fn_data n') = None \<and> node_name n' = node_name n \<and> fn_id n' = fn_id n) (ew_nodes w) nodes"
    by (rule list_all2_mono) (auto simp: sanitize_node_def node_name_def split: option.splits)
  then show ?thesis using b by auto
qed

section \<open>Imported scenarios\<close>

lemma check_Inr [simp]: "check ok m = Inr u \<longleftrightarrow> ok"
  by (simp add: check_def fail_def)

lemma validateBundleScenario_Inr:
  "validateBundleScenario (Some s) i = Inr () \<longleftrightarrow>
   truthy_opt (map_option trim (bs_name s)) \<and>
   (\<exists>tests order. bs_tests s = Some tests \<and> tests \<noteq> [] \<and> bs_testOrder s = Some order \<and>
      distinct (map st_id tests) \<and> distinct order \<and> length order = length tests \<and>
      set order \<subseteq> st_id ` set tests \<and> list_all (\<lambda>t. validate_retry_policy t = Inr ()) tests)"
proof (cases "bs_tests s")
  case (Some tests)
  then show ?thesis
    by (cases tests; cases "bs_testOrder s")
      (simp_all add: validateBundleScenario_def set_of_size_iff fail_def list_all_iff subset_eq)
qed (simp add: validateBundleScenario_def fail_def)

lemma enumerate_pairs:
  "map (\<lambda>(k, t). (f t, g k)) (enumerate n ts) = map (\<lambda>i. (f (ts ! i), g (n + i))) [0..<length ts]"
  by (rule nth_equalityI) (simp_all add: nth_enumerate_eq)

lemma enumerate_pairs_fst: "fst ` set (map (\<lambda>(k, t). (f t, g k)) (enumerate n ts)) = f ` set ts"
proof -
  have "map fst (map (\<lambda>(k, t). (f t, g k)) (enumerate n ts)) = map f ts"
    by (rule nth_equalityI) (simp_all add: nth_enumerate_eq)
  then show ?thesis by (metis image_set)
qed

lemma id_map_eq: "distinct (map st_id tests) \<Longrightarrow> id_map fresh n tests = map (\<lambda>(k, t). (st_id t, fresh k)) (enumerate n tests)"
proof (induction tests rule: rev_induct)
  case (snoc t ts)
  then have IH: "id_map fresh n ts = map (\<lambda>(k, t). (st_id t, fresh k)) (enumerate n ts)" by simp
  have "st_id t \<notin> st_id ` set ts" using snoc.prems by auto
  moreover have "fst ` set (map (\<lambda>(k, t). (st_id t, fresh k)) (enumerate n ts)) = st_id ` set ts"
    by (rule enumerate_pairs_fst)
  ultimately have "AList.update (st_id t) (fresh (n + length ts)) (id_map fresh n ts) =
      id_map fresh n ts @ [(st_id t, fresh (n + length ts))]"
    by (simp add: IH update_fresh del: set_map)
  then show ?case by (simp add: id_map_def IH [unfolded id_map_def] enumerate_append_eq)
qed (simp add: id_map_def)

lemma id_map_lookup:
  assumes "distinct (map st_id tests)"
  shows "i < length tests \<Longrightarrow> map_of (id_map fresh n tests) (st_id (tests ! i)) = Some (fresh (n + i))"
    "k \<notin> st_id ` set tests \<Longrightarrow> map_of (id_map fresh n tests) k = None"
proof -
  have keys: "map fst (id_map fresh n tests) = map st_id tests"
    unfolding id_map_eq [OF assms] by (rule nth_equalityI) (simp_all add: nth_enumerate_eq)
  {
    assume "i < length tests"
    then have "(st_id (tests ! i), fresh (n + i)) \<in> set (id_map fresh n tests)"
      by (auto simp: id_map_eq [OF assms] enumerate_pairs)
    with assms keys show "map_of (id_map fresh n tests) (st_id (tests ! i)) = Some (fresh (n + i))"
      by (metis map_of_is_SomeI)
  }
  assume "k \<notin> st_id ` set tests"
  with keys show "map_of (id_map fresh n tests) k = None" by (metis image_set map_of_eq_None_iff)
qed

definition renamed_test :: "(string \<Rightarrow> string) \<Rightarrow> string set \<Rightarrow> scenario_test \<Rightarrow> scenario_test" where
  "renamed_test f ids t =
     t\<lparr>st_id := f (st_id t),
       st_dependsOnTestIds := Some (map f (filter (\<lambda>d. d \<in> ids) (nullish (st_dependsOnTestIds t) [])))\<rparr>"

lemma clone_eq:
  assumes ids: "distinct (map st_id tests)" and fresh: "\<And>k. fresh k \<noteq> []"
    and t: "bs_tests s = Some tests" and f: "f = (\<lambda>i. nullish (map_of (id_map fresh n tests) i) [])"
  shows "cloneScenarioForImport fresh n s =
    (\<lparr>bs_name = bs_name s, bs_description = Some (or_str (bs_description s) []),
      bs_tests = Some (map (renamed_test f (st_id ` set tests)) tests),
      bs_testOrder = Some (map f (filter (\<lambda>i. i \<in> st_id ` set tests) (nullish (bs_testOrder s) [])))\<rparr>,
     n + length tests)"
proof -
  let ?m = "map_of (id_map fresh n tests)"
  have some: "\<exists>j. ?m i = Some j \<and> j \<noteq> []" if known: "i \<in> st_id ` set tests" for i
  proof -
    obtain t where "t \<in> set tests" "i = st_id t" using known by blast
    then obtain k where "k < length tests" "i = st_id (tests ! k)" by (auto simp: in_set_conv_nth)
    then show ?thesis using id_map_lookup(1) [OF ids, of k fresh n] fresh by auto
  qed
  have none: "?m i = None" if "i \<notin> st_id ` set tests" for i using id_map_lookup(2) [OF ids that] .
  have look: "concat (map (\<lambda>i. case drop_falsy (?m i) of Some j \<Rightarrow> [j] | None \<Rightarrow> []) is) =
      map f (filter (\<lambda>i. i \<in> st_id ` set tests) is)" for "is"
  proof (induction "is")
    case (Cons i rest)
    show ?case
    proof (cases "i \<in> st_id ` set tests")
      case True
      then obtain j where "?m i = Some j" "j \<noteq> []" using some by blast
      then show ?thesis using Cons True by (simp add: f js_opt)
    next
      case False
      then show ?thesis using Cons none [OF False] by (simp add: js_opt)
    qed
  qed simp
  have own: "or_str (?m (st_id t)) x = f (st_id t)" if mem: "t \<in> set tests" for t x
  proof -
    obtain j where "?m (st_id t) = Some j" "j \<noteq> []" using some [of "st_id t"] mem by blast
    then show ?thesis by (simp add: f js_opt)
  qed
  have "map (\<lambda>t. t\<lparr>st_id := or_str (?m (st_id t)) (fresh (n + length tests)),
          st_dependsOnTestIds := Some (concat (map (\<lambda>i. case drop_falsy (?m i) of Some j \<Rightarrow> [j] | None \<Rightarrow> [])
            (nullish (st_dependsOnTestIds t) [])))\<rparr>) tests =
      map (renamed_test f (st_id ` set tests)) tests"
    by (rule map_cong [OF refl]) (simp add: look own renamed_test_def)
  then show ?thesis by (simp add: cloneScenarioForImport_def t nullish_def [of "Some tests"] look)
qed

lemma renamed_test_fields [simp]:
  "st_retryPolicy (renamed_test f A t) = st_retryPolicy t" "st_name (renamed_test f A t) = st_name t"
  "st_type (renamed_test f A t) = st_type t" "st_id (renamed_test f A t) = f (st_id t)"
  by (simp_all add: renamed_test_def)

lemma renamed_test_retry [simp]: "validate_retry_policy (renamed_test f A t) = validate_retry_policy t"
  unfolding validate_retry_policy_def renamed_test_fields ..

text \<open>
  C29. Importing a valid scenario keeps its structure under new ids: with a supply of distinct
  non-empty ids the tests get the next ids of the supply in order, the test order and the
  dependencies are renamed by one injective renaming (references to unknown tests are dropped),
  everything else is kept, and the imported scenario is valid again.
\<close>

theorem imported_scenario_isomorphic:
  assumes "validateBundleScenario (Some s) i = Inr ()" "inj fresh" "\<And>k. fresh k \<noteq> []"
    and clone: "cloneScenarioForImport fresh n s = (s', n')"
  shows "validateBundleScenario (Some s') j = Inr () \<and>
    (\<exists>f tests order. bs_tests s = Some tests \<and> bs_testOrder s = Some order \<and>
      bs_tests s' = Some (map (renamed_test f (st_id ` set tests)) tests) \<and> bs_testOrder s' = Some (map f order) \<and>
      map f (map st_id tests) = map fresh [n..<n'] \<and> inj_on f (st_id ` set tests))"
proof -
  obtain tests order where s: "truthy_opt (map_option trim (bs_name s))" "bs_tests s = Some tests" "tests \<noteq> []"
    "bs_testOrder s = Some order" "distinct (map st_id tests)" "distinct order" "length order = length tests"
    "set order \<subseteq> st_id ` set tests" "list_all (\<lambda>t. validate_retry_policy t = Inr ()) tests"
    using assms(1) unfolding validateBundleScenario_Inr by blast
  define f where "f = (\<lambda>i. nullish (map_of (id_map fresh n tests) i) [])"
  have known: "filter (\<lambda>i. i \<in> st_id ` set tests) order = order" using s(8) by (auto intro: filter_True)
  have s': "s' = \<lparr>bs_name = bs_name s, bs_description = Some (or_str (bs_description s) []),
      bs_tests = Some (map (renamed_test f (st_id ` set tests)) tests), bs_testOrder = Some (map f order)\<rparr>"
    and n': "n' = n + length tests"
    using clone clone_eq [OF s(5) assms(3) s(2) f_def] by (simp_all add: s(4) nullish_def known)
  have ids: "map f (map st_id tests) = map fresh [n..<n']"
    by (rule nth_equalityI) (simp_all add: n' f_def id_map_lookup(1) [OF s(5)] nullish_def)
  then have "distinct (map f (map st_id tests))" using assms(2) by (simp add: distinct_map inj_on_def inj_def del: map_map)
  then have inj: "inj_on f (st_id ` set tests)" by (metis distinct_map image_set list.set_map)
  have "map st_id (map (renamed_test f (st_id ` set tests)) tests) = map f (map st_id tests)"
    by (simp add: renamed_test_def)
  moreover have "distinct (map f order)" using s(6,8) inj by (metis distinct_map inj_on_subset)
  moreover have "set (map f order) \<subseteq> st_id ` set (map (renamed_test f (st_id ` set tests)) tests)"
    using s(8) by (auto simp: image_image)
  ultimately have "validateBundleScenario (Some s') j = Inr ()"
    using s \<open>distinct (map f (map st_id tests))\<close> unfolding validateBundleScenario_Inr
    by (simp add: s' list_all_iff comp_def)
  with s' s(2,4) ids inj show ?thesis by auto
qed

subsection \<open>Import succeeds on every valid bundle\<close>

lemma sanitize_total: "list_all (\<lambda>n. nd_service (fn_data n) \<noteq> None) nodes \<Longrightarrow> \<exists>nodes'. sanitizeNodesForBundle nodes = Inr nodes'"
  unfolding sanitizeNodesForBundle_def
  by (rule map_res_total) (auto simp: sanitize_node_def list_all_iff)

lemma validated_bundle_parts:
  assumes "validateWorkflowBundle lc (Some b) = Inr ()"
  shows "\<exists>w nodes edges r. wb_workflow b = Some w \<and> bw_nodes w = Some nodes \<and> bw_edges w = Some edges \<and>
    validateWorkflowGraph nodes edges = Inr r \<and> vr_valid r"
  using assms by (auto simp: validateWorkflowBundle_def fail_def split: if_splits option.splits list.splits)

lemma reference_errors_service: "reference_errors a g n = Inr es \<Longrightarrow> nd_service (fn_data n) \<noteq> None"
  by (auto simp: reference_errors_def split: option.splits)

lemma validated_graph_services:
  assumes "validateWorkflowGraph nodes edges = Inr r"
  shows "list_all (\<lambda>n. nd_service (fn_data n) \<noteq> None) nodes"
  using assms
  by (auto simp: validateWorkflowGraph_def validateRuntimeReferenceReadiness_def map_res_Inr list_all_iff
      dest!: list_all2_member reference_errors_service)

text \<open>
  Whatever passes validation can be imported: materializing a valid bundle always returns a
  workflow, under a name no existing workflow has, with edges that carry a known relation and
  readiness.
\<close>

theorem valid_bundle_imports:
  assumes "validateWorkflowBundle lc (Some b) = Inr ()"
  shows "\<exists>r. materializeWorkflowBundle lc fresh b existing = Inr r \<and>
    ew_name (ib_workflow r) \<notin> set existing \<and> list_all edge_wf (ew_edges (ib_workflow r))"
proof -
  obtain w nodes edges v where b: "wb_workflow b = Some w" "bw_nodes w = Some nodes" "bw_edges w = Some edges"
    and v: "validateWorkflowGraph nodes edges = Inr v"
    using validated_bundle_parts [OF assms] by blast
  obtain nodes' where n: "sanitizeNodesForBundle nodes = Inr nodes'"
    using sanitize_total [OF validated_graph_services [OF v]] by blast
  have free: "getUniqueWorkflowName base existing \<notin> set existing" for base
    using unique_suffix_free by (auto simp: getUniqueWorkflowName_def name_of_suffix_def)
  have "list_all edge_wf (normalizeEdges edges l)" for l
    by (simp add: normalizeEdges_def list_all_iff normalizeEdge_wf)
  with free show ?thesis using assms b n by (simp add: materializeWorkflowBundle_def nullish_def)
qed

subsection \<open>A concrete export\<close>

definition demo_export :: exportable_workflow where
  "demo_export = \<lparr>ew_name = ''Shop'', ew_description = None, ew_nodes = demo_nodes, ew_edges = demo_edges\<rparr>"

definition demo_scenarios :: "exportable_scenario list" where
  "demo_scenarios = [\<lparr>es_name = ''smoke'', es_description = None, es_tests = [http_test ''1'' ''first''],
     es_testOrder = [''1'']\<rparr>]"

lemma demo_exports: "case createWorkflowBundle (\<lambda>_ _. 0) demo_export demo_scenarios of Inl _ \<Rightarrow> False | Inr _ \<Rightarrow> True"
  by code_simp

lemma demo_bundle_exists: "\<exists>b. createWorkflowBundle (\<lambda>_ _. 0) demo_export demo_scenarios = Inr b"
  using demo_exports by (auto split: sum.splits)

theorem exported_bundle_parses_back_witness:
  "\<exists>b. createWorkflowBundle (\<lambda>_ _. 0) demo_export demo_scenarios = Inr b \<and>
     parseWorkflowBundle (\<lambda>_ _. 0) (\<lambda>raw. if raw = ''text'' then Some (Some b) else None) ''text'' = Inr b"
proof -
  obtain b where b: "createWorkflowBundle (\<lambda>_ _. 0) demo_export demo_scenarios = Inr b" using demo_bundle_exists by blast
  then show ?thesis
    using exported_bundle_parses_back [OF b, of "\<lambda>raw. if raw = ''text'' then Some (Some b) else None" "''text''"] by simp
qed

theorem bundle_has_no_registry_references_witness:
  "\<exists>b bw. createWorkflowBundle (\<lambda>_ _. 0) demo_export demo_scenarios = Inr b \<and> wb_workflow b = Some bw"
proof -
  obtain b where b: "createWorkflowBundle (\<lambda>_ _. 0) demo_export demo_scenarios = Inr b" using demo_bundle_exists by blast
  from bundle_has_no_registry_references [OF b] b show ?thesis by blast
qed

theorem valid_bundle_imports_witness:
  "\<exists>b r. createWorkflowBundle (\<lambda>_ _. 0) demo_export demo_scenarios = Inr b \<and>
     materializeWorkflowBundle (\<lambda>_ _. 0) show_nat b [''Shop''] = Inr r \<and> ew_name (ib_workflow r) \<noteq> ''Shop''"
proof -
  obtain b where b: "createWorkflowBundle (\<lambda>_ _. 0) demo_export demo_scenarios = Inr b" using demo_bundle_exists by blast
  then have "validateWorkflowBundle (\<lambda>_ _. 0) (Some b) = Inr ()" using createWorkflowBundle_Inr by blast
  from valid_bundle_imports [OF this, of show_nat "[''Shop'']"] b show ?thesis by auto
qed

theorem imported_scenario_isomorphic_witness:
  "validateBundleScenario (Some (fst (cloneScenarioForImport show_nat 7 (export_scenario (hd demo_scenarios))))) 0 = Inr ()"
proof -
  let ?s = "export_scenario (hd demo_scenarios)"
  obtain s' n' where c: "cloneScenarioForImport show_nat 7 ?s = (s', n')" by fastforce
  have "validateBundleScenario (Some ?s) 0 = Inr ()" by code_simp
  from imported_scenario_isomorphic [OF this _ show_nat_nonempty c, of 0] show ?thesis
    using show_nat_inj by (auto simp: inj_def c)
qed

end
