(* ===== verification/Sync_Types.thy ===== *)
theory Sync_Types
  imports Js_Prelude
begin

text \<open>
  \<^verbatim>\<open>src/ui-v2/src/modules/sync/sync-types.ts\<close>: the changes the client sends and the replies of
  the sync endpoint. Optional fields are options; payloads are JSON values.
\<close>

datatype entity_type = Workflow | Scenario | Workflow_Run | Scenario_Run | Test_Result

datatype change_type = Insert | Update | Delete

record sync_change =
  sc_entity_type :: entity_type
  sc_entity_id :: string
  sc_change_type :: change_type
  sc_data :: json
  sc_client_time :: string
  sc_client_version :: int

record sync_batch_request =
  rq_user_id :: string
  rq_project_id :: string
  rq_client_id :: string
  rq_timestamp :: string
  rq_changes :: "sync_change list"

datatype conflict_resolution = Server_Wins | Client_Wins | Manual

record conflict_info =
  ci_entity_type :: entity_type
  ci_entity_id :: string
  ci_resolution :: conflict_resolution
  ci_message :: string
  ci_client_version :: int
  ci_current_version :: int
  ci_current_data :: "json option"
  ci_local_data :: "json option"

record sync_error =
  se_entity_type :: "entity_type option"
  se_entity_id :: "string option"
  se_message :: string

record sync_batch_response =
  sr_success :: bool
  sr_processed_count :: nat
  sr_conflicts :: "conflict_info list option"
  sr_errors :: "sync_error list option"
  sr_server_version :: int

text \<open>What a change is about.\<close>

type_synonym entity_key = "entity_type \<times> string"

definition change_key :: "sync_change \<Rightarrow> entity_key" where
  "change_key c = (sc_entity_type c, sc_entity_id c)"

definition change_payload :: "sync_change \<Rightarrow> entity_key \<times> json" where
  "change_payload c = (change_key c, sc_data c)"

definition entity_name :: "entity_type \<Rightarrow> string" where
  "entity_name t =
     (case t of Workflow \<Rightarrow> ''workflow'' | Scenario \<Rightarrow> ''scenario'' | Workflow_Run \<Rightarrow> ''workflow_run''
      | Scenario_Run \<Rightarrow> ''scenario_run'' | Test_Result \<Rightarrow> ''test_result'')"

text \<open>A member of a JSON object; \<open>None\<close> for \<open>undefined\<close>.\<close>

definition json_member :: "string \<Rightarrow> json \<Rightarrow> json option" where
  "json_member k j = (case j of JObj members \<Rightarrow> map_of members k | _ \<Rightarrow> None)"

end
