(* ===== verification/Fast_Queue.thy ===== *)
theory Fast_Queue
  imports Js_Prelude
begin

text \<open>
  \<^verbatim>\<open>src/ui-v2/src/modules/sync/fast-queue.ts\<close>: the double-ended queue on a circular buffer
  that holds the changes waiting to be synced. The record has the class's fields, one definition
  per method. The theory shows that the buffer refines a list: \<open>toArray\<close> is the abstraction
  function, \<open>fq_inv\<close> the representation invariant, and every sequence of method calls returns
  what the same calls on a list return.

  An absent array element (a hole, or \<open>undefined\<close>) is \<open>None\<close>. The queue's element type has no
  \<open>undefined\<close> of its own, as in its only use, \<open>FastQueue<SyncChange>\<close>.
\<close>

subsection \<open>JavaScript arrays read and written by index\<close>

definition arr_get :: "'a option list \<Rightarrow> nat \<Rightarrow> 'a option" where
  "arr_get xs i = (if i < length xs then xs ! i else None)"

definition arr_set :: "'a option list \<Rightarrow> nat \<Rightarrow> 'a option \<Rightarrow> 'a option list" where
  "arr_set xs i v =
     (if i < length xs then xs[i := v] else xs @ replicate (i - length xs) None @ [v])"

subsection \<open>The class\<close>

record 'a fast_queue =
  fq_buffer :: "'a option list"
  fq_head :: nat
  fq_tail :: nat
  fq_size :: nat
  fq_capacity :: nat

definition new_FastQueue :: "nat \<Rightarrow> 'a fast_queue" where
  "new_FastQueue initialCapacity =
     \<lparr>fq_buffer = replicate initialCapacity None, fq_head = 0, fq_tail = 0, fq_size = 0,
      fq_capacity = initialCapacity\<rparr>"

text \<open>The copy loop of \<open>resize\<close>: \<open>n\<close> elements from \<open>index\<close> on, wrapping at \<open>capacity\<close>.\<close>

fun copy_loop :: "'a option list \<Rightarrow> nat \<Rightarrow> nat \<Rightarrow> nat \<Rightarrow> 'a option list" where
  "copy_loop buffer capacity index 0 = []"
| "copy_loop buffer capacity index (Suc n) =
     arr_get buffer index # copy_loop buffer capacity ((index + 1) mod capacity) n"

definition resize :: "'a fast_queue \<Rightarrow> 'a fast_queue" where
  "resize q =
     (let newCapacity = fq_capacity q * 2;
          copied = copy_loop (fq_buffer q) (fq_capacity q) (fq_head q) (fq_size q)
      in q\<lparr>fq_buffer := copied @ replicate (newCapacity - fq_size q) None,
           fq_head := 0, fq_tail := fq_size q, fq_capacity := newCapacity\<rparr>)"

definition enqueue :: "'a fast_queue \<Rightarrow> 'a \<Rightarrow> 'a fast_queue" where
  "enqueue q0 item =
     (let q = (if fq_size q0 = fq_capacity q0 then resize q0 else q0)
      in q\<lparr>fq_buffer := arr_set (fq_buffer q) (fq_tail q) (Some item),
           fq_tail := (fq_tail q + 1) mod fq_capacity q,
           fq_size := fq_size q + 1\<rparr>)"

definition unshift :: "'a fast_queue \<Rightarrow> 'a \<Rightarrow> 'a fast_queue" where
  "unshift q0 item =
     (let q = (if fq_size q0 = fq_capacity q0 then resize q0 else q0);
          h = (fq_head q + fq_capacity q - 1) mod fq_capacity q
      in q\<lparr>fq_head := h, fq_buffer := arr_set (fq_buffer q) h (Some item),
           fq_size := fq_size q + 1\<rparr>)"

definition unshiftMany :: "'a fast_queue \<Rightarrow> 'a list \<Rightarrow> 'a fast_queue" where
  "unshiftMany q items = foldl unshift q (rev items)"

definition dequeue :: "'a fast_queue \<Rightarrow> 'a option \<times> 'a fast_queue" where
  "dequeue q =
     (if fq_size q = 0 then (None, q)
      else (arr_get (fq_buffer q) (fq_head q),
            q\<lparr>fq_buffer := arr_set (fq_buffer q) (fq_head q) None,
              fq_head := (fq_head q + 1) mod fq_capacity q,
              fq_size := fq_size q - 1\<rparr>))"

fun dequeue_loop :: "nat \<Rightarrow> 'a fast_queue \<Rightarrow> 'a list \<Rightarrow> 'a list \<times> 'a fast_queue" where
  "dequeue_loop 0 q items = (items, q)"
| "dequeue_loop (Suc n) q items =
     (case dequeue q of (item, q') \<Rightarrow>
        dequeue_loop n q' (case item of None \<Rightarrow> items | Some x \<Rightarrow> items @ [x]))"

definition dequeueMany :: "'a fast_queue \<Rightarrow> nat \<Rightarrow> 'a list \<times> 'a fast_queue" where
  "dequeueMany q n = dequeue_loop (min n (fq_size q)) q []"

definition peek :: "'a fast_queue \<Rightarrow> 'a option" where
  "peek q = (if fq_size q = 0 then None else arr_get (fq_buffer q) (fq_head q))"

definition getSize :: "'a fast_queue \<Rightarrow> nat" where
  "getSize q = fq_size q"

definition isEmpty :: "'a fast_queue \<Rightarrow> bool" where
  "isEmpty q \<longleftrightarrow> fq_size q = 0"

definition clear :: "'a fast_queue \<Rightarrow> 'a fast_queue" where
  "clear q = q\<lparr>fq_buffer := replicate (fq_capacity q) None, fq_head := 0, fq_tail := 0,
               fq_size := 0\<rparr>"

fun toArray_loop :: "'a option list \<Rightarrow> nat \<Rightarrow> nat \<Rightarrow> nat \<Rightarrow> 'a list" where
  "toArray_loop buffer capacity index 0 = []"
| "toArray_loop buffer capacity index (Suc n) =
     (case arr_get buffer index of None \<Rightarrow> [] | Some x \<Rightarrow> [x]) @
     toArray_loop buffer capacity ((index + 1) mod capacity) n"

definition toArray :: "'a fast_queue \<Rightarrow> 'a list" where
  "toArray q = toArray_loop (fq_buffer q) (fq_capacity q) (fq_head q) (fq_size q)"

section \<open>The representation invariant and the abstraction\<close>

text \<open>
  The slots \<open>head, head + 1, \<dots>, head + size - 1\<close> (modulo the capacity) are occupied, all others
  are empty, and \<open>tail\<close> is the first slot after the occupied ones.
\<close>

definition fq_inv :: "'a fast_queue \<Rightarrow> bool" where
  "fq_inv q \<longleftrightarrow>
     0 < fq_capacity q \<and> length (fq_buffer q) = fq_capacity q \<and>
     fq_head q < fq_capacity q \<and> fq_size q \<le> fq_capacity q \<and>
     fq_tail q = (fq_head q + fq_size q) mod fq_capacity q \<and>
     (\<forall>i < fq_capacity q.
        (fq_buffer q ! ((fq_head q + i) mod fq_capacity q) \<noteq> None) = (i < fq_size q))"

lemma copy_loop_eq:
  "i < c \<Longrightarrow> length b = c \<Longrightarrow> copy_loop b c i n = map (\<lambda>k. b ! ((i + k) mod c)) [0..<n]"
proof (induction n arbitrary: i)
  case (Suc n)
  then have "copy_loop b c ((i + 1) mod c) n = map (\<lambda>k. b ! (((i + 1) mod c + k) mod c)) [0..<n]"
    by (simp add: mod_less_divisor)
  also have "\<dots> = map (\<lambda>k. b ! ((i + k) mod c)) [1..<Suc n]"
    by (simp add: map_Suc_upt [symmetric] o_def mod_simps del: upt_Suc)
  finally show ?case
    using Suc.prems by (simp add: arr_get_def upt_conv_Cons del: upt_Suc)
qed simp

lemma toArray_loop_eq:
  "toArray_loop b c i n = map the (filter (\<lambda>x. x \<noteq> None) (copy_loop b c i n))"
  by (induction n arbitrary: i) (auto split: option.splits)

lemma fq_copy:
  assumes "fq_inv q"
  shows "copy_loop (fq_buffer q) (fq_capacity q) (fq_head q) (fq_size q) = map Some (toArray q)"
proof -
  let ?c = "copy_loop (fq_buffer q) (fq_capacity q) (fq_head q) (fq_size q)"
  have eq: "?c = map (\<lambda>k. fq_buffer q ! ((fq_head q + k) mod fq_capacity q)) [0..<fq_size q]"
    using assms by (intro copy_loop_eq) (auto simp: fq_inv_def)
  have "\<forall>x \<in> set ?c. x \<noteq> None"
    unfolding eq using assms by (auto simp: fq_inv_def)
  then show ?thesis
    unfolding toArray_def toArray_loop_eq by (induction ?c) (auto intro!: map_idI [symmetric])
qed


lemma toArray_nth:
  assumes "fq_inv q"
  shows "toArray q = map (\<lambda>k. the (fq_buffer q ! ((fq_head q + k) mod fq_capacity q))) [0..<fq_size q]"
proof -
  have "map Some (toArray q) =
        map (\<lambda>k. fq_buffer q ! ((fq_head q + k) mod fq_capacity q)) [0..<fq_size q]"
    using assms by (subst fq_copy [symmetric]) (auto simp: fq_inv_def intro!: copy_loop_eq)
  then have "map the (map Some (toArray q)) =
        map the (map (\<lambda>k. fq_buffer q ! ((fq_head q + k) mod fq_capacity q)) [0..<fq_size q])"
    by simp
  then show ?thesis by (simp add: o_def)
qed

lemma length_toArray: "fq_inv q \<Longrightarrow> length (toArray q) = fq_size q"
  by (simp add: toArray_nth)

lemma toArray_iff:
  assumes "fq_inv q" and "length xs = fq_size q"
    and "\<And>k. k < fq_size q \<Longrightarrow> fq_buffer q ! ((fq_head q + k) mod fq_capacity q) = Some (xs ! k)"
  shows "toArray q = xs"
  using assms by (auto simp: toArray_nth intro!: nth_equalityI)

lemma fq_slot:
  assumes "fq_inv q" and "k < fq_size q"
  shows "fq_buffer q ! ((fq_head q + k) mod fq_capacity q) = Some (toArray q ! k)"
proof -
  have "k < fq_capacity q" using assms by (auto simp: fq_inv_def)
  then have "fq_buffer q ! ((fq_head q + k) mod fq_capacity q) \<noteq> None"
    using assms by (auto simp: fq_inv_def)
  with assms show ?thesis by (auto simp: toArray_nth)
qed

lemma fq_slot_empty:
  "fq_inv q \<Longrightarrow> fq_size q \<le> k \<Longrightarrow> k < fq_capacity q \<Longrightarrow>
   fq_buffer q ! ((fq_head q + k) mod fq_capacity q) = None"
  by (auto simp: fq_inv_def)

lemma slot_inj:
  assumes "(h + i) mod c = (h + j) mod c" "i < c" "j < (c::nat)"
  shows "i = j"
proof -
  have "(i + h) mod c = (j + h) mod c" using assms by (simp add: add.commute)
  then have "i mod c = j mod c" by (simp add: nat_mod_eq_iff)
  with assms show ?thesis by simp
qed

subsection \<open>Each operation keeps the invariant and acts on the list\<close>

lemma new_FastQueue_correct:
  "0 < c \<Longrightarrow> fq_inv (new_FastQueue c)" "toArray (new_FastQueue c) = []"
  by (auto simp: fq_inv_def new_FastQueue_def toArray_def mod_less_divisor)

lemma resize_inv:
  assumes "fq_inv q"
  shows "fq_inv (resize q)"
proof -
  have "length (toArray q) = fq_size q" by (rule length_toArray [OF assms])
  with assms show ?thesis
    by (auto simp: fq_inv_def resize_def fq_copy [OF assms] nth_append)
qed

lemma resize_toArray:
  assumes "fq_inv q"
  shows "toArray (resize q) = toArray q"
proof (rule toArray_iff [OF resize_inv [OF assms]])
  show "length (toArray q) = fq_size (resize q)"
    using assms by (simp add: length_toArray resize_def)
  fix k assume "k < fq_size (resize q)"
  with assms show "fq_buffer (resize q) ! ((fq_head (resize q) + k) mod fq_capacity (resize q)) =
      Some (toArray q ! k)"
    by (auto simp: resize_def fq_copy nth_append length_toArray fq_inv_def)
qed

lemma resize_room: "fq_inv q \<Longrightarrow> fq_size (resize q) < fq_capacity (resize q)"
  by (auto simp: resize_def fq_inv_def)

text \<open>After the resize test there is room for one more element and the list is the same.\<close>

lemma ensure_room:
  assumes "fq_inv q0" and "q = (if fq_size q0 = fq_capacity q0 then resize q0 else q0)"
  shows "fq_inv q" "toArray q = toArray q0" "fq_size q < fq_capacity q"
proof -
  have "fq_size q0 \<le> fq_capacity q0" using assms(1) by (simp add: fq_inv_def)
  then show "fq_inv q" "toArray q = toArray q0" "fq_size q < fq_capacity q"
    using assms resize_inv [OF assms(1)] resize_toArray [OF assms(1)] resize_room [OF assms(1)]
    by auto
qed

text \<open>Writing a slot outside the occupied ones.\<close>

lemma enqueue_slots:
  assumes inv: "fq_inv q" and room: "fq_size q < fq_capacity q"
    and q': "q' = q\<lparr>fq_buffer := arr_set (fq_buffer q) (fq_tail q) (Some x),
                     fq_tail := (fq_tail q + 1) mod fq_capacity q, fq_size := fq_size q + 1\<rparr>"
  shows "fq_inv q' \<and> toArray q' = toArray q @ [x]"
proof -
  let ?c = "fq_capacity q" and ?h = "fq_head q" and ?s = "fq_size q"
  have tl: "fq_tail q = (?h + ?s) mod ?c" and len: "length (fq_buffer q) = ?c" and c: "0 < ?c"
    and hd: "?h < ?c"
    using inv by (auto simp: fq_inv_def)
  have slot: "fq_buffer q' ! ((?h + k) mod ?c) =
      (if k = ?s then Some x else fq_buffer q ! ((?h + k) mod ?c))" if "k < ?c" for k
    using that room slot_inj [of ?h k ?c ?s] c by (auto simp: q' arr_set_def len tl nth_list_update)
  have inv': "fq_inv q'"
    unfolding fq_inv_def
  proof (intro conjI allI impI)
    fix i assume "i < fq_capacity q'"
    then have i: "i < ?c" by (simp add: q')
    have "(fq_buffer q ! ((?h + i) mod ?c) \<noteq> None) = (i < ?s)"
      using inv i by (auto simp: fq_inv_def)
    then show "(fq_buffer q' ! ((fq_head q' + i) mod fq_capacity q') \<noteq> None) = (i < fq_size q')"
      using slot [OF i] by (auto simp: q')
  qed (use room c hd in \<open>auto simp: q' tl len arr_set_def mod_simps\<close>)
  have "toArray q' = toArray q @ [x]"
  proof (rule toArray_iff [OF inv'])
    show "length (toArray q @ [x]) = fq_size q'" by (simp add: q' length_toArray inv)
    fix k assume k: "k < fq_size q'"
    show "fq_buffer q' ! ((fq_head q' + k) mod fq_capacity q') = Some ((toArray q @ [x]) ! k)"
      using slot [of k] k room fq_slot [OF inv, of k]
      by (auto simp: q' nth_append length_toArray inv)
  qed
  with inv' show ?thesis by simp
qed

lemma enqueue_correct:
  assumes "fq_inv q0"
  shows "fq_inv (enqueue q0 x) \<and> toArray (enqueue q0 x) = toArray q0 @ [x]"
proof -
  define q where "q = (if fq_size q0 = fq_capacity q0 then resize q0 else q0)"
  show ?thesis
    using enqueue_slots [OF ensure_room(1,3) [OF assms q_def] refl, of x]
      ensure_room(2) [OF assms q_def]
    by (simp add: enqueue_def q_def [symmetric])
qed

lemma unshift_slots:
  assumes inv: "fq_inv q" and room: "fq_size q < fq_capacity q"
    and h: "h = (fq_head q + fq_capacity q - 1) mod fq_capacity q"
    and q': "q' = q\<lparr>fq_head := h, fq_buffer := arr_set (fq_buffer q) h (Some x),
                     fq_size := fq_size q + 1\<rparr>"
  shows "fq_inv q' \<and> toArray q' = x # toArray q"
proof -
  let ?c = "fq_capacity q" and ?s = "fq_size q"
  have len: "length (fq_buffer q) = ?c" and c: "0 < ?c" and hc: "h < ?c" and hd: "fq_head q < ?c"
    using inv h by (auto simp: fq_inv_def)
  have nxt: "(h + Suc k) mod ?c = (fq_head q + k) mod ?c" for k
  proof -
    have "(h + Suc k) mod ?c = (fq_head q + ?c - 1 + Suc k) mod ?c"
      by (simp only: h mod_add_left_eq)
    also have "fq_head q + ?c - 1 + Suc k = fq_head q + k + ?c" using c by simp
    finally show ?thesis by simp
  qed
  have slot: "fq_buffer q' ! ((h + k) mod ?c) =
      (case k of 0 \<Rightarrow> Some x | Suc j \<Rightarrow> fq_buffer q ! ((fq_head q + j) mod ?c))" if "k < ?c" for k
    using that slot_inj [of h k ?c 0] hc nxt
    by (cases k) (auto simp: q' arr_set_def len nth_list_update)
  have inv': "fq_inv q'"
    unfolding fq_inv_def
  proof (intro conjI allI impI)
    fix i assume "i < fq_capacity q'"
    then have i: "i < ?c" by (simp add: q')
    show "(fq_buffer q' ! ((fq_head q' + i) mod fq_capacity q') \<noteq> None) = (i < fq_size q')"
      using slot [OF i] i inv by (cases i) (auto simp: q' fq_inv_def)
  next
    have "fq_tail q = (fq_head q + ?s) mod ?c" using inv by (simp add: fq_inv_def)
    then show "fq_tail q' = (fq_head q' + fq_size q') mod fq_capacity q'"
      using nxt [of ?s] by (simp add: q')
  qed (use room c hc in \<open>auto simp: q' len arr_set_def\<close>)
  have "toArray q' = x # toArray q"
  proof (rule toArray_iff [OF inv'])
    show "length (x # toArray q) = fq_size q'" by (simp add: q' length_toArray inv)
    fix k assume k: "k < fq_size q'"
    show "fq_buffer q' ! ((fq_head q' + k) mod fq_capacity q') = Some ((x # toArray q) ! k)"
      using slot [of k] k room fq_slot [OF inv] by (auto simp: q' split: nat.splits)
  qed
  with inv' show ?thesis by simp
qed

lemma unshift_correct:
  assumes "fq_inv q0"
  shows "fq_inv (unshift q0 x) \<and> toArray (unshift q0 x) = x # toArray q0"
proof -
  define q where "q = (if fq_size q0 = fq_capacity q0 then resize q0 else q0)"
  show ?thesis
    using unshift_slots [OF ensure_room(1,3) [OF assms q_def] refl refl, of x]
      ensure_room(2) [OF assms q_def]
    by (simp add: unshift_def q_def [symmetric])
qed

lemma dequeue_empty: "fq_inv q \<Longrightarrow> toArray q = [] \<Longrightarrow> dequeue q = (None, q)"
  using length_toArray [of q] by (simp add: dequeue_def)

lemma dequeue_slots:
  assumes inv: "fq_inv q" and ne: "0 < fq_size q"
    and q': "q' = q\<lparr>fq_buffer := arr_set (fq_buffer q) (fq_head q) None,
                     fq_head := (fq_head q + 1) mod fq_capacity q, fq_size := fq_size q - 1\<rparr>"
  shows "fq_inv q' \<and> toArray q' = tl (toArray q)"
proof -
  let ?c = "fq_capacity q" and ?h = "fq_head q" and ?s = "fq_size q"
  have len: "length (fq_buffer q) = ?c" and c: "0 < ?c" and hd: "?h < ?c" and sc: "?s \<le> ?c"
    using inv by (auto simp: fq_inv_def)
  have nxt: "((?h + 1) mod ?c + k) mod ?c = (?h + Suc k) mod ?c" for k
    by (simp add: mod_simps)
  have slot: "fq_buffer q' ! ((fq_head q' + k) mod ?c) =
      (if Suc k = ?c then None else fq_buffer q ! ((?h + Suc k) mod ?c))" if "k < ?c" for k
    using that slot_inj [of ?h "Suc k" ?c 0] hd nxt [of k] c
    by (cases "Suc k = ?c") (auto simp: q' arr_set_def len nth_list_update)
  have occ: "(fq_buffer q ! ((?h + i) mod ?c) \<noteq> None) = (i < ?s)" if "i < ?c" for i
    using inv that by (auto simp: fq_inv_def)
  have inv': "fq_inv q'"
    unfolding fq_inv_def
  proof (intro conjI allI impI)
    fix i assume "i < fq_capacity q'"
    then have i: "i < ?c" by (simp add: q')
    show "(fq_buffer q' ! ((fq_head q' + i) mod fq_capacity q') \<noteq> None) = (i < fq_size q')"
      using slot [OF i] i occ [of "Suc i"] sc ne by (cases "Suc i = ?c") (auto simp: q')
  next
    have "fq_tail q = (?h + ?s) mod ?c" using inv by (simp add: fq_inv_def)
    then show "fq_tail q' = (fq_head q' + fq_size q') mod fq_capacity q'"
      using nxt [of "?s - 1"] ne by (simp add: q')
  qed (use sc c hd in \<open>auto simp: q' len arr_set_def\<close>)
  have "toArray q' = tl (toArray q)"
  proof (rule toArray_iff [OF inv'])
    show "length (tl (toArray q)) = fq_size q'" by (simp add: q' length_toArray inv)
    fix k assume k: "k < fq_size q'"
    then have "Suc k < ?s" by (simp add: q')
    then show "fq_buffer q' ! ((fq_head q' + k) mod fq_capacity q') = Some (tl (toArray q) ! k)"
      using slot [of k] fq_slot [OF inv, of "Suc k"] sc
      by (auto simp: q' nth_tl length_toArray inv)
  qed
  with inv' show ?thesis by simp
qed

lemma dequeue_correct:
  assumes inv: "fq_inv q" and xs: "toArray q = x # xs"
  shows "fst (dequeue q) = Some x" "fq_inv (snd (dequeue q))" "toArray (snd (dequeue q)) = xs"
proof -
  have ne: "0 < fq_size q" using length_toArray [OF inv] xs by simp
  then have "fst (dequeue q) = Some (toArray q ! 0)"
    using fq_slot [OF inv ne] inv by (auto simp: dequeue_def arr_get_def fq_inv_def)
  then show "fst (dequeue q) = Some x" by (simp add: xs)
  show "fq_inv (snd (dequeue q))" "toArray (snd (dequeue q)) = xs"
    using dequeue_slots [OF inv ne refl] ne xs by (auto simp: dequeue_def)
qed

lemma clear_correct:
  "fq_inv q \<Longrightarrow> fq_inv (clear q) \<and> toArray (clear q) = []"
  by (auto simp: fq_inv_def clear_def toArray_def)

lemma peek_correct: "fq_inv q \<Longrightarrow> peek q = (case toArray q of [] \<Rightarrow> None | x # _ \<Rightarrow> Some x)"
  using length_toArray [of q] dequeue_correct(1) [of q]
  by (auto simp: peek_def dequeue_def split: list.splits if_splits)

lemma getSize_correct: "fq_inv q \<Longrightarrow> getSize q = length (toArray q)"
  by (simp add: getSize_def length_toArray)

lemma isEmpty_correct: "fq_inv q \<Longrightarrow> isEmpty q \<longleftrightarrow> toArray q = []"
  using length_toArray [of q] by (auto simp: isEmpty_def)


section \<open>The queue as an interface\<close>

text \<open>
  What the sync service relies on: the laws of a double-ended queue over its list of elements.
  The facts about the loops over these operations are proved from the laws alone.
\<close>

locale deque_laws =
  fixes list :: "'q \<Rightarrow> 'a list"
    and inv :: "'q \<Rightarrow> bool"
    and enq :: "'q \<Rightarrow> 'a \<Rightarrow> 'q"
    and push :: "'q \<Rightarrow> 'a \<Rightarrow> 'q"
    and deq :: "'q \<Rightarrow> 'a option \<times> 'q"
    and wipe :: "'q \<Rightarrow> 'q"
  assumes enq_law: "inv q \<Longrightarrow> inv (enq q x) \<and> list (enq q x) = list q @ [x]"
    and push_law: "inv q \<Longrightarrow> inv (push q x) \<and> list (push q x) = x # list q"
    and deq_empty: "inv q \<Longrightarrow> list q = [] \<Longrightarrow> deq q = (None, q)"
    and deq_law: "inv q \<Longrightarrow> list q = x # xs \<Longrightarrow>
       fst (deq q) = Some x \<and> inv (snd (deq q)) \<and> list (snd (deq q)) = xs"
    and wipe_law: "inv q \<Longrightarrow> inv (wipe q) \<and> list (wipe q) = []"
begin

lemma enq_all: "inv q \<Longrightarrow> inv (foldl enq q xs) \<and> list (foldl enq q xs) = list q @ xs"
  using enq_law by (induction xs arbitrary: q) auto

lemma push_all: "inv q \<Longrightarrow> inv (foldl push q xs) \<and> list (foldl push q xs) = rev xs @ list q"
  using push_law by (induction xs arbitrary: q) auto

text \<open>Emptying the queue and adding all of a list makes that list its content.\<close>

lemma refill: "inv q \<Longrightarrow> inv (foldl enq (wipe q) xs) \<and> list (foldl enq (wipe q) xs) = xs"
  using enq_all [of "wipe q" xs] wipe_law [of q] by simp

end

interpretation fastq: deque_laws toArray fq_inv enqueue unshift dequeue clear
  by unfold_locales
    (simp_all add: enqueue_correct unshift_correct dequeue_empty dequeue_correct clear_correct)

lemma unshiftMany_correct:
  "fq_inv q \<Longrightarrow> fq_inv (unshiftMany q xs) \<and> toArray (unshiftMany q xs) = xs @ toArray q"
  using fastq.push_all [of q "rev xs"] by (simp add: unshiftMany_def)

lemma dequeue_loop_correct:
  "fq_inv q \<Longrightarrow> n \<le> length (toArray q) \<Longrightarrow>
   fst (dequeue_loop n q items) = items @ take n (toArray q) \<and>
   fq_inv (snd (dequeue_loop n q items)) \<and>
   toArray (snd (dequeue_loop n q items)) = drop n (toArray q)"
proof (induction n arbitrary: q items)
  case (Suc n)
  then obtain x xs where xs: "toArray q = x # xs" by (cases "toArray q") auto
  obtain it q' where d: "dequeue q = (it, q')" by (cases "dequeue q")
  have "it = Some x" "fq_inv q'" "toArray q' = xs"
    using dequeue_correct [OF Suc.prems(1) xs] d by auto
  with Suc.IH [of q' "items @ [x]"] Suc.prems xs d show ?case by simp
qed simp

lemma dequeueMany_correct:
  assumes "fq_inv q"
  shows "fst (dequeueMany q n) = take n (toArray q)"
    "fq_inv (snd (dequeueMany q n))"
    "toArray (snd (dequeueMany q n)) = drop n (toArray q)"
  using dequeue_loop_correct [OF assms, of "min n (fq_size q)" "[]"]
  by (auto simp: dequeueMany_def length_toArray assms min_def)

section \<open>Refinement of a list\<close>

text \<open>The method calls a client can make, with their results.\<close>

datatype 'a fq_call =
    Enqueue 'a | Unshift 'a | UnshiftMany "'a list" | Dequeue | DequeueMany nat
  | Peek | GetSize | IsEmpty | Clear | ToArray

datatype 'a fq_result = RNone | RItem "'a option" | RItems "'a list" | RNum nat | RBool bool

fun fq_exec :: "'a fq_call \<Rightarrow> 'a fast_queue \<Rightarrow> 'a fq_result \<times> 'a fast_queue" where
  "fq_exec (Enqueue x) q = (RNone, enqueue q x)"
| "fq_exec (Unshift x) q = (RNone, unshift q x)"
| "fq_exec (UnshiftMany xs) q = (RNone, unshiftMany q xs)"
| "fq_exec Dequeue q = (RItem (fst (dequeue q)), snd (dequeue q))"
| "fq_exec (DequeueMany n) q = (RItems (fst (dequeueMany q n)), snd (dequeueMany q n))"
| "fq_exec Peek q = (RItem (peek q), q)"
| "fq_exec GetSize q = (RNum (getSize q), q)"
| "fq_exec IsEmpty q = (RBool (isEmpty q), q)"
| "fq_exec Clear q = (RNone, clear q)"
| "fq_exec ToArray q = (RItems (toArray q), q)"

fun list_exec :: "'a fq_call \<Rightarrow> 'a list \<Rightarrow> 'a fq_result \<times> 'a list" where
  "list_exec (Enqueue x) xs = (RNone, xs @ [x])"
| "list_exec (Unshift x) xs = (RNone, x # xs)"
| "list_exec (UnshiftMany ys) xs = (RNone, ys @ xs)"
| "list_exec Dequeue xs = (case xs of [] \<Rightarrow> (RItem None, []) | y # ys \<Rightarrow> (RItem (Some y), ys))"
| "list_exec (DequeueMany n) xs = (RItems (take n xs), drop n xs)"
| "list_exec Peek xs = (RItem (case xs of [] \<Rightarrow> None | y # _ \<Rightarrow> Some y), xs)"
| "list_exec GetSize xs = (RNum (length xs), xs)"
| "list_exec IsEmpty xs = (RBool (xs = []), xs)"
| "list_exec Clear xs = (RNone, [])"
| "list_exec ToArray xs = (RItems xs, xs)"

fun run_calls :: "('c \<Rightarrow> 's \<Rightarrow> 'r \<times> 's) \<Rightarrow> 'c list \<Rightarrow> 's \<Rightarrow> 'r list \<times> 's" where
  "run_calls exec [] s = ([], s)"
| "run_calls exec (c # cs) s =
     (case exec c s of (r, s') \<Rightarrow> case run_calls exec cs s' of (rs, s'') \<Rightarrow> (r # rs, s''))"

lemma dequeue_list:
  assumes "fq_inv q"
  shows "fst (dequeue q) = (case toArray q of [] \<Rightarrow> None | y # _ \<Rightarrow> Some y)"
    "fq_inv (snd (dequeue q))" "toArray (snd (dequeue q)) = tl (toArray q)"
  using assms dequeue_empty [of q] dequeue_correct [of q] by (cases "toArray q"; simp)+

lemmas fq_calls_correct = enqueue_correct unshift_correct unshiftMany_correct dequeue_list
  dequeueMany_correct peek_correct getSize_correct isEmpty_correct clear_correct

lemma fq_exec_refines:
  "fq_inv q \<Longrightarrow> fst (fq_exec c q) = fst (list_exec c (toArray q))"
  "fq_inv q \<Longrightarrow> fq_inv (snd (fq_exec c q))"
  "fq_inv q \<Longrightarrow> toArray (snd (fq_exec c q)) = snd (list_exec c (toArray q))"
  by (cases c; simp add: fq_calls_correct split: list.splits)+

lemma run_calls_refines:
  assumes "fq_inv q"
  shows "fst (run_calls fq_exec cs q) = fst (run_calls list_exec cs (toArray q)) \<and>
    fq_inv (snd (run_calls fq_exec cs q)) \<and>
    toArray (snd (run_calls fq_exec cs q)) = snd (run_calls list_exec cs (toArray q))"
  using assms
proof (induction cs arbitrary: q)
  case (Cons c cs)
  obtain r q' where e: "fq_exec c q = (r, q')" by (cases "fq_exec c q")
  have "list_exec c (toArray q) = (r, toArray q')" "fq_inv q'"
    using fq_exec_refines [OF Cons.prems, of c] e by (auto simp: prod_eq_iff)
  with Cons.IH [of q'] e show ?case by (auto split: prod.splits)
qed simp

text \<open>
  C10. The circular buffer refines a list: whatever sequence of method calls is made on a new
  queue of positive capacity (resizes included), every call returns what the same call on a plain
  list returns, the representation invariant holds at the end, and the content is the list's.
\<close>

theorem fast_queue_refines_list:
  assumes "0 < c"
  shows "fst (run_calls fq_exec cs (new_FastQueue c)) = fst (run_calls list_exec cs []) \<and>
    fq_inv (snd (run_calls fq_exec cs (new_FastQueue c))) \<and>
    toArray (snd (run_calls fq_exec cs (new_FastQueue c))) = snd (run_calls list_exec cs [])"
  using run_calls_refines [OF new_FastQueue_correct(1) [OF assms], of cs]
  by (simp add: new_FastQueue_correct(2))

theorem fast_queue_refines_list_witness:
  "fst (run_calls fq_exec [Enqueue (1::nat), Enqueue 2, Unshift 0, DequeueMany 2, ToArray]
          (new_FastQueue 2)) = [RNone, RNone, RNone, RItems [0, 1], RItems [2]]"
  using fast_queue_refines_list [of 2 "[Enqueue (1::nat), Enqueue 2, Unshift 0, DequeueMany 2, ToArray]"]
  by simp

end
