(* ===== verification/Client_Identity.thy ===== *)
theory Client_Identity
  imports Js_Prelude "HOL-Library.Word"
begin

text \<open>
  \<^verbatim>\<open>src/ui-v2/src/modules/sync/client-id.ts\<close> with the two module-level variables it reads
  (\<^verbatim>\<open>auth/session-user.ts\<close>, \<^verbatim>\<open>projects/session-project.ts\<close>): who a sync request is
  sent for. The browser's state is a record; the clock, the host's randomness and whether
  \<open>localStorage\<close> throws are part of it or arguments. The theory shows that a generated identifier is a
  version 4 UUID and that the identifiers behave as the sync code relies on.
\<close>

unbundle bit_operations_syntax

subsection \<open>Identifiers\<close>

fun to_hex :: "nat \<Rightarrow> string" where
  "to_hex n = (if n < 16 then [''0123456789abcdef'' ! n] else to_hex (n div 16) @ [''0123456789abcdef'' ! (n mod 16)])"

declare to_hex.simps [simp del]

definition padStart :: "nat \<Rightarrow> char \<Rightarrow> string \<Rightarrow> string" where
  "padStart n c s = replicate (n - length s) c @ s"

definition slice :: "nat \<Rightarrow> nat \<Rightarrow> string \<Rightarrow> string" where
  "slice i j s = take (j - i) (drop i s)"

text \<open>What \<open>globalThis.crypto\<close> offers: the result of each function, if there is one.\<close>

record web_crypto =
  wc_randomUUID :: "string option"
  wc_getRandomValues :: "8 word list option"

definition uuid_of_bytes :: "8 word list \<Rightarrow> string" where
  "uuid_of_bytes bytes0 =
     (let bytes1 = bytes0[6 := ((bytes0 ! 6) AND 0x0f) OR 0x40];
          bytes = bytes1[8 := ((bytes1 ! 8) AND 0x3f) OR 0x80];
          hex = concat (map (\<lambda>byte. padStart 2 (CHR ''0'') (to_hex (unat byte))) bytes)
      in slice 0 8 hex @ ''-'' @ slice 8 12 hex @ ''-'' @ slice 12 16 hex @ ''-'' @ slice 16 20 hex @
         ''-'' @ drop 20 hex)"

definition createUuidLikeId :: "web_crypto option \<Rightarrow> string \<Rightarrow> string \<Rightarrow> string" where
  "createUuidLikeId webCrypto now random16 =
     (case Option.bind webCrypto wc_randomUUID of
        Some uuid \<Rightarrow> uuid
      | None \<Rightarrow>
          (case Option.bind webCrypto wc_getRandomValues of
             Some bytes \<Rightarrow> uuid_of_bytes bytes
           | None \<Rightarrow> now @ ''-'' @ random16))"

text \<open>\<^verbatim>\<open>lib/generate-id.ts\<close> makes the ids of workflows, scenarios and tests the same way.\<close>

definition generateId :: "web_crypto option \<Rightarrow> string \<Rightarrow> string \<Rightarrow> string" where
  "generateId webCrypto now random16 =
     (case Option.bind webCrypto wc_randomUUID of
        Some uuid \<Rightarrow> uuid
      | None \<Rightarrow>
          (case Option.bind webCrypto wc_getRandomValues of
             Some bytes \<Rightarrow> uuid_of_bytes bytes
           | None \<Rightarrow> now @ ''-'' @ random16))"

subsection \<open>The browser's state\<close>

text \<open>\<open>br_storage_ok\<close> says whether accesses to \<open>localStorage\<close> succeed (they may throw).\<close>

record browser =
  br_window :: bool
  br_storage_ok :: bool
  br_clientId :: "string option"
  br_userId :: "string option"
  br_currentUserId :: "string option"
  br_currentProjectId :: "string option"

definition setCurrentSessionUserId :: "string option \<Rightarrow> browser \<Rightarrow> browser" where
  "setCurrentSessionUserId userId b = b\<lparr>br_currentUserId := userId\<rparr>"

definition setCurrentSessionProjectId :: "string option \<Rightarrow> browser \<Rightarrow> browser" where
  "setCurrentSessionProjectId projectId b = b\<lparr>br_currentProjectId := projectId\<rparr>"

text \<open>\<open>now\<close> is \<open>Date.now()\<close> and \<open>uuid\<close> the result of \<open>createUuidLikeId\<close>.\<close>

definition getOrCreateClientId :: "string \<Rightarrow> string \<Rightarrow> browser \<Rightarrow> string \<times> browser" where
  "getOrCreateClientId now uuid b =
     (if \<not> br_window b then (''ssr-client-'' @ now, b)
      else if \<not> br_storage_ok b then (''fallback-client-'' @ now, b)
      else case br_clientId b of
        Some (c # cs) \<Rightarrow> (c # cs, b)
      | _ \<Rightarrow> (let clientId = ''client-'' @ now @ ''-'' @ uuid in (clientId, b\<lparr>br_clientId := Some clientId\<rparr>)))"

definition getUserId :: "browser \<Rightarrow> string res" where
  "getUserId b =
     (case br_currentUserId b of
        Some (c # cs) \<Rightarrow> Inr (c # cs)
      | _ \<Rightarrow>
          (case (if br_window b \<and> br_storage_ok b then br_userId b else None) of
             Some (c # cs) \<Rightarrow> Inr (c # cs)
           | _ \<Rightarrow> Inl (Err ''No authenticated session user is available.'')))"

definition getProjectId :: "browser \<Rightarrow> string res" where
  "getProjectId b =
     (case br_currentProjectId b of
        Some (c # cs) \<Rightarrow> Inr (c # cs)
      | _ \<Rightarrow> Inl (Err ''No active project is selected.''))"

definition setUserId :: "string \<Rightarrow> browser \<Rightarrow> browser" where
  "setUserId userId b0 =
     (let b = setCurrentSessionUserId (Some userId) b0
      in if br_window b \<and> br_storage_ok b then b\<lparr>br_userId := Some userId\<rparr> else b)"

definition clearAuth :: "browser \<Rightarrow> browser" where
  "clearAuth b0 =
     (let b = setCurrentSessionUserId None b0
      in if br_window b \<and> br_storage_ok b then b\<lparr>br_userId := None\<rparr> else b)"

definition clearClientId :: "browser \<Rightarrow> browser" where
  "clearClientId b = (if br_window b \<and> br_storage_ok b then b\<lparr>br_clientId := None\<rparr> else b)"

definition getClientId :: "browser \<Rightarrow> string option" where
  "getClientId b = (if br_window b \<and> br_storage_ok b then br_clientId b else None)"

definition isAuthenticated :: "browser \<Rightarrow> bool" where
  "isAuthenticated b = truthy_opt (br_currentUserId b)"

section \<open>Identifiers are version 4 UUIDs\<close>

lemma hex_byte: "n < 256 \<Longrightarrow>
  padStart 2 (CHR ''0'') (to_hex n) = [''0123456789abcdef'' ! (n div 16), ''0123456789abcdef'' ! (n mod 16)]"
  by (auto simp: padStart_def to_hex.simps [of n] to_hex.simps [of "n div 16"] Suc_diff_le numeral_2_eq_2)

lemma unat_8_less: "unat (b :: 8 word) < 256"
  by (rule order_less_le_trans [OF unsigned_less]) simp

lemma length_concat_pairs: "length (concat (map (\<lambda>x. [f x, g x]) xs)) = 2 * length xs"
  by (induction xs) auto

lemma nth_concat_pairs:
  "i < length xs \<Longrightarrow> concat (map (\<lambda>x. [f x, g x]) xs) ! (2 * i) = f (xs ! i)"
proof (induction xs arbitrary: i)
  case (Cons x xs) then show ?case by (cases i) auto
qed simp

lemma version_nibble: "unat ((b AND 0x0f) OR 0x40 :: 8 word) div 16 = 4"
proof -
  have "(b AND 0x0f) OR 0x40 = (b AND 0x0f) + (0x40 :: 8 word)"
    by (rule disjunctive_add [symmetric]) (auto simp: bit_simps bit_numeral_rec split: nat.splits)
  moreover have "b AND 0x0f = take_bit 4 b" by (simp add: take_bit_eq_mask mask_numeral)
  moreover have "unat (take_bit 4 b) < 16" by (simp add: unsigned_take_bit_eq take_bit_nat_def)
  ultimately show ?thesis by (simp add: unat_word_ariths)
qed

lemma variant_nibble: "unat ((b AND 0x3f) OR 0x80 :: 8 word) div 16 \<in> {8, 9, 10, 11}"
proof -
  have "(b AND 0x3f) OR 0x80 = (b AND 0x3f) + (0x80 :: 8 word)"
    by (rule disjunctive_add [symmetric]) (auto simp: bit_simps bit_numeral_rec split: nat.splits)
  moreover have "b AND 0x3f = take_bit 6 b" by (simp add: take_bit_eq_mask mask_numeral)
  moreover have "unat (take_bit 6 b) < 64" by (simp add: unsigned_take_bit_eq take_bit_nat_def)
  ultimately have "unat ((b AND 0x3f) OR 0x80) div 16 < 12" "8 \<le> unat ((b AND 0x3f) OR 0x80) div 16"
    by (simp_all add: unat_word_ariths)
  then show ?thesis by auto
qed

text \<open>
  A client id built from random bytes is a well-formed version 4 UUID whatever the bytes:
  36 characters, the version digit is 4 and the variant digit is one of 8, 9, a, b.
\<close>

theorem uuid_of_bytes_v4:
  assumes "length bytes = 16"
  shows "length (uuid_of_bytes bytes) = 36 \<and>
    uuid_of_bytes bytes ! 14 = CHR ''4'' \<and> uuid_of_bytes bytes ! 19 \<in> set ''89ab'' \<and>
    map ((!) (uuid_of_bytes bytes)) [8, 13, 18, 23] = ''----''"
proof -
  define bs where "bs = (bytes[6 := ((bytes ! 6) AND 0x0f) OR 0x40])
    [8 := ((bytes[6 := ((bytes ! 6) AND 0x0f) OR 0x40] ! 8) AND 0x3f) OR 0x80]"
  define hi where "hi b = ''0123456789abcdef'' ! (unat (b :: 8 word) div 16)" for b
  define lo where "lo b = ''0123456789abcdef'' ! (unat (b :: 8 word) mod 16)" for b
  define hex where "hex = concat (map (\<lambda>b. [hi b, lo b]) bs)"
  have len: "length hex = 32" using assms by (simp add: hex_def length_concat_pairs bs_def)
  have u: "uuid_of_bytes bytes = slice 0 8 hex @ ''-'' @ slice 8 12 hex @ ''-'' @ slice 12 16 hex @ ''-'' @
      slice 16 20 hex @ ''-'' @ drop 20 hex"
    by (simp add: uuid_of_bytes_def hex_def hi_def lo_def hex_byte [OF unat_8_less] bs_def)
  have "hex ! 12 = hi (bs ! 6)" "hex ! 16 = hi (bs ! 8)"
    using nth_concat_pairs [of 6 bs hi lo] nth_concat_pairs [of 8 bs hi lo] assms
    by (auto simp: hex_def bs_def)
  moreover have "hi (bs ! 6) = CHR ''4''"
    using assms version_nibble [of "bytes ! 6"] by (simp add: hi_def bs_def)
  moreover have "hi (bs ! 8) \<in> set ''89ab''"
    using assms variant_nibble [of "bytes ! 8"] by (auto simp: hi_def bs_def)
  ultimately show ?thesis using len by (simp add: u slice_def nth_append)
qed

theorem uuid_of_bytes_v4_witness:
  "uuid_of_bytes (replicate 16 255) ! 14 = CHR ''4''"
  using uuid_of_bytes_v4 [of "replicate 16 255"] by simp

subsection \<open>Stable identity\<close>

text \<open>
  In a browser whose storage works the client id is created once: later calls, at any time
  and with any fresh randomness, return the same id and leave the browser unchanged, as does
  \<open>getClientId\<close>.
\<close>

theorem client_id_created_once:
  assumes "br_window b" "br_storage_ok b" "getOrCreateClientId now uuid b = (i, b')"
  shows "getOrCreateClientId now' uuid' b' = (i, b') \<and> getClientId b' = Some i"
  using assms by (auto simp: getOrCreateClientId_def getClientId_def split: option.splits list.splits)

theorem client_id_created_once_witness:
  "(let b = \<lparr>br_window = True, br_storage_ok = True, br_clientId = None, br_userId = None,
        br_currentUserId = None, br_currentProjectId = None\<rparr>;
      (i, b') = getOrCreateClientId ''1'' ''u'' b
    in getOrCreateClientId ''2'' ''v'' b' = (i, b'))"
proof -
  let ?b = "\<lparr>br_window = True, br_storage_ok = True, br_clientId = None, br_userId = None,
        br_currentUserId = None, br_currentProjectId = None\<rparr>"
  obtain i b' where "getOrCreateClientId ''1'' ''u'' ?b = (i, b')" by fastforce
  with client_id_created_once [of ?b "''1''" "''u''" i b' "''2''" "''v''"] show ?thesis by simp
qed

lemma getUserId_setUserId: "u \<noteq> [] \<Longrightarrow> getUserId (setUserId u b) = Inr u"
  by (auto simp: getUserId_def setUserId_def setCurrentSessionUserId_def split: list.splits)

lemma getUserId_clearAuth:
  "br_window b \<Longrightarrow> br_storage_ok b \<Longrightarrow>
   getUserId (clearAuth b) = Inl (Err ''No authenticated session user is available.'')"
  by (simp add: getUserId_def clearAuth_def setCurrentSessionUserId_def)

end
