(* ===== verification/Sync_Service.thy ===== *)
theory Sync_Service
  imports Sync_Types Fast_Queue Client_Identity
begin

text \<open>
  \<^verbatim>\<open>src/ui-v2/src/modules/sync/sync-service.ts\<close> and \<^verbatim>\<open>sync-init.ts\<close>: the queue of local
  changes and its delivery to the sync endpoint. The class's fields are a record, with the content
  of \<open>localStorage\<close> under the queue's key; one definition per method. An \<open>async\<close> method is split at
  its awaits: the part before the await and the continuation for each reply are definitions of
  their own, so that the step relation of \<open>Sync_Protocol\<close> can interleave them, and the method itself
  is their composition over a server.

  Logging has no effect on the state and is left out. The version of a payload, where it has one,
  is a number, as every serializer of the stores writes it.
\<close>

subsection \<open>State\<close>

text \<open>The text under \<open>PERSISTED_SYNC_QUEUE_KEY\<close>, as reading it back finds it.\<close>

datatype stored_queue = Stored "sync_change list" | Garbled

record sync_host =
  h_window :: bool
  h_sendBeacon :: bool
  h_setItem_ok :: "sync_change list \<Rightarrow> bool"

record sync_service =
  ss_baseUrl :: string
  ss_syncQueue :: "sync_change fast_queue"
  ss_syncInterval :: nat
  ss_maxBatchSize :: nat
  ss_requestTimeoutMs :: nat
  ss_interval :: "nat option"
  ss_enabled :: bool
  ss_flushCount :: nat
  ss_storage :: "stored_queue option"

abbreviation ss_items :: "sync_service \<Rightarrow> sync_change list" where
  "ss_items s \<equiv> toArray (ss_syncQueue s)"

definition persistQueue :: "sync_host \<Rightarrow> sync_service \<Rightarrow> sync_service" where
  "persistQueue H s =
     (if \<not> h_window H then s
      else let items = ss_items s
           in if items = [] then s\<lparr>ss_storage := None\<rparr>
              else if h_setItem_ok H items then s\<lparr>ss_storage := Some (Stored items)\<rparr>
              else s)"

definition restoreQueue :: "sync_host \<Rightarrow> sync_service \<Rightarrow> sync_service" where
  "restoreQueue H s =
     (if \<not> h_window H then s
      else case ss_storage s of
        None \<Rightarrow> s
      | Some (Stored items) \<Rightarrow> s\<lparr>ss_syncQueue := foldl enqueue (ss_syncQueue s) items\<rparr>
      | Some Garbled \<Rightarrow> s\<lparr>ss_storage := None\<rparr>)"

definition new_SyncService :: "sync_host \<Rightarrow> string \<Rightarrow> stored_queue option \<Rightarrow> sync_service" where
  "new_SyncService H url storage =
     restoreQueue H \<lparr>ss_baseUrl = url, ss_syncQueue = new_FastQueue 1024, ss_syncInterval = 3000,
       ss_maxBatchSize = 100, ss_requestTimeoutMs = 8000, ss_interval = None, ss_enabled = True,
       ss_flushCount = 0, ss_storage = storage\<rparr>"

subsection \<open>Timer and settings\<close>

text \<open>The period of the running timer is kept in \<open>ss_interval\<close>; \<open>None\<close> when there is no timer.\<close>

definition start :: "sync_service \<Rightarrow> sync_service" where
  "start s = (case ss_interval s of Some _ \<Rightarrow> s | None \<Rightarrow> s\<lparr>ss_interval := Some (ss_syncInterval s)\<rparr>)"

definition stop :: "sync_service \<Rightarrow> sync_service" where
  "stop s = s\<lparr>ss_interval := None\<rparr>"

definition isRunning :: "sync_service \<Rightarrow> bool" where
  "isRunning s \<longleftrightarrow> ss_interval s \<noteq> None"

definition set_syncInterval :: "nat \<Rightarrow> sync_service \<Rightarrow> sync_service" where
  "set_syncInterval interval s0 =
     (let s = s0\<lparr>ss_syncInterval := interval\<rparr> in if isRunning s then start (stop s) else s)"

definition set_maxBatchSize :: "nat \<Rightarrow> sync_service \<Rightarrow> sync_service" where
  "set_maxBatchSize maxSize s = s\<lparr>ss_maxBatchSize := maxSize\<rparr>"

definition set_baseUrl :: "string \<Rightarrow> sync_service \<Rightarrow> sync_service" where
  "set_baseUrl url s = s\<lparr>ss_baseUrl := url\<rparr>"

definition setEnabled :: "bool \<Rightarrow> sync_service \<Rightarrow> sync_service" where
  "setEnabled enabled s = s\<lparr>ss_enabled := enabled\<rparr>"

record sync_config =
  cfg_baseUrl :: "string option"
  cfg_syncInterval :: "nat option"
  cfg_maxBatchSize :: "nat option"
  cfg_enabled :: "bool option"
  cfg_autoStart :: "bool option"

definition initSync :: "sync_config \<Rightarrow> sync_service \<Rightarrow> sync_service" where
  "initSync config s0 =
     (let url = nullish (cfg_baseUrl config) [];
          interval = nullish (cfg_syncInterval config) 3000;
          maxSize = nullish (cfg_maxBatchSize config) 100;
          enabled = nullish (cfg_enabled config) True;
          autoStart = nullish (cfg_autoStart config) True;
          s1 = (if url \<noteq> ss_baseUrl s0 then set_baseUrl url s0 else s0);
          s2 = (if interval \<noteq> ss_syncInterval s1 then set_syncInterval interval s1 else s1);
          s3 = (if maxSize \<noteq> ss_maxBatchSize s2 then set_maxBatchSize maxSize s2 else s2);
          s4 = setEnabled enabled s3
      in if autoStart \<and> enabled then start s4 else s4)"

subsection \<open>Queueing a change\<close>

definition replaceQueue :: "sync_change list \<Rightarrow> sync_service \<Rightarrow> sync_service" where
  "replaceQueue changes s = s\<lparr>ss_syncQueue := foldl enqueue (clear (ss_syncQueue s)) changes\<rparr>"

fun findIndex :: "('a \<Rightarrow> bool) \<Rightarrow> 'a list \<Rightarrow> nat option" where
  "findIndex P [] = None"
| "findIndex P (x # xs) = (if P x then Some 0 else map_option Suc (findIndex P xs))"

definition coalesceQueuedChange ::
  "sync_host \<Rightarrow> sync_change \<Rightarrow> sync_service \<Rightarrow> bool \<times> sync_service" where
  "coalesceQueuedChange H incoming s =
     (let current = ss_items s
      in case findIndex (\<lambda>change. sc_entity_type change = sc_entity_type incoming \<and>
                                  sc_entity_id change = sc_entity_id incoming) current of
           None \<Rightarrow> (False, s)
         | Some index \<Rightarrow>
             if sc_change_type (current ! index) = Insert \<and> sc_change_type incoming = Update
             then (True, persistQueue H (replaceQueue
                     (current[index := incoming\<lparr>sc_change_type := Insert, sc_client_version := 0\<rparr>]) s))
             else (False, s))"

definition serialized_version :: "json \<Rightarrow> int" where
  "serialized_version data = (case json_member ''version'' data of Some (JNum v) \<Rightarrow> v | _ \<Rightarrow> 0)"

definition full_change :: "string \<Rightarrow> entity_type \<Rightarrow> string \<Rightarrow> change_type \<Rightarrow> json \<Rightarrow> sync_change" where
  "full_change now entity_type entity_id change_type data =
     \<lparr>sc_entity_type = entity_type, sc_entity_id = entity_id, sc_change_type = change_type, sc_data = data,
      sc_client_time = now,
      sc_client_version = (if change_type = Insert then 0 else max 0 (serialized_version data - 1))\<rparr>"

definition queueChange ::
  "sync_host \<Rightarrow> string \<Rightarrow> entity_type \<Rightarrow> string \<Rightarrow> change_type \<Rightarrow> json \<Rightarrow> sync_service \<Rightarrow> sync_service" where
  "queueChange H now entity_type entity_id change_type data s =
     (if \<not> ss_enabled s then s
      else let fullChange = full_change now entity_type entity_id change_type data;
               (coalesced, s') = coalesceQueuedChange H fullChange s
           in if coalesced then s'
              else persistQueue H (s'\<lparr>ss_syncQueue := enqueue (ss_syncQueue s') fullChange\<rparr>))"

subsection \<open>Committing a batch\<close>

definition isDeletedPayload :: "json \<Rightarrow> bool" where
  "isDeletedPayload data \<longleftrightarrow> json_member ''is_deleted'' data = Some (JBool True)"

definition missing_updates :: "sync_error list \<Rightarrow> string list" where
  "missing_updates errors =
     set_of (map (\<lambda>e. (case se_entity_type e of Some t \<Rightarrow> entity_name t | None \<Rightarrow> ''undefined'') @ '':'' @
                      nullish (se_entity_id e) ''undefined'')
       (filter (\<lambda>e. (se_entity_type e = Some Workflow \<or> se_entity_type e = Some Scenario) \<and>
                    truthy_opt (se_entity_id e) \<and> includes_str (se_message e) ''no longer exists'') errors))"

definition needs_repair :: "string list \<Rightarrow> sync_change \<Rightarrow> bool" where
  "needs_repair missing change \<longleftrightarrow>
     sc_change_type change = Update \<and>
     entity_name (sc_entity_type change) @ '':'' @ sc_entity_id change \<in> set missing \<and>
     \<not> isDeletedPayload (sc_data change)"

definition repair_change :: "string list \<Rightarrow> sync_change \<Rightarrow> sync_change" where
  "repair_change missing change =
     (if needs_repair missing change then change\<lparr>sc_change_type := Insert, sc_client_version := 0\<rparr>
      else change)"

definition repairMissingEntityUpdates ::
  "sync_change list \<Rightarrow> sync_error list option \<Rightarrow> sync_change list option" where
  "repairMissingEntityUpdates batch errors =
     (let missing = missing_updates (nullish errors [])
      in if missing = [] then None
         else if list_ex (needs_repair missing) batch then Some (map (repair_change missing) batch)
         else None)"

definition dispatchConflicts ::
  "sync_host \<Rightarrow> sync_batch_response \<Rightarrow> sync_change list \<Rightarrow> conflict_info list option" where
  "dispatchConflicts H response batch =
     (let conflicts = nullish (sr_conflicts response) []
      in if conflicts = [] \<or> \<not> h_window H then None
         else Some (map (\<lambda>conflict. conflict\<lparr>ci_local_data :=
                map_option sc_data (find (\<lambda>change. sc_entity_type change = ci_entity_type conflict \<and>
                                                   sc_entity_id change = ci_entity_id conflict) batch)\<rparr>)
              conflicts))"

definition rolled_back :: "sync_batch_response \<Rightarrow> bool" where
  "rolled_back response \<longleftrightarrow> \<not> sr_success response \<or> nullish (sr_errors response) [] \<noteq> []"

definition requeue :: "sync_host \<Rightarrow> sync_change list \<Rightarrow> sync_service \<Rightarrow> sync_service" where
  "requeue H batch s = persistQueue H (s\<lparr>ss_syncQueue := unshiftMany (ss_syncQueue s) batch\<rparr>)"

text \<open>
  What \<open>commitBatch\<close> does next: it ends with a response and a conflict event, it ends with \<open>null\<close>
  after putting the changes back, or it sends a repaired batch.
\<close>

datatype commit_outcome =
    Committed sync_batch_response "conflict_info list option"
  | Requeued
  | Resend "sync_change list"

text \<open>The continuation for the first reply; \<open>Inl\<close> is the exception that \<open>sendBatch\<close> threw.\<close>

definition commit_reply ::
  "sync_host \<Rightarrow> sync_change list \<Rightarrow> sync_batch_response res \<Rightarrow> sync_service \<Rightarrow> commit_outcome \<times> sync_service" where
  "commit_reply H batch reply s =
     (case reply of
        Inl _ \<Rightarrow> (Requeued, requeue H batch s)
      | Inr response \<Rightarrow>
          (case repairMissingEntityUpdates batch (sr_errors response) of
             Some repairedBatch \<Rightarrow> (Resend repairedBatch, s)
           | None \<Rightarrow>
               if rolled_back response then (Requeued, requeue H batch s)
               else (Committed response (dispatchConflicts H response batch), s)))"

text \<open>The continuation for the reply to the repaired batch.\<close>

definition commit_retry_reply ::
  "sync_host \<Rightarrow> sync_change list \<Rightarrow> sync_change list \<Rightarrow> sync_batch_response res \<Rightarrow> sync_service \<Rightarrow>
   commit_outcome \<times> sync_service" where
  "commit_retry_reply H batch repairedBatch reply s =
     (case reply of
        Inl _ \<Rightarrow> (Requeued, requeue H batch s)
      | Inr retryResponse \<Rightarrow>
          if rolled_back retryResponse then (Requeued, requeue H repairedBatch s)
          else (Committed retryResponse (dispatchConflicts H retryResponse repairedBatch), s))"

subsection \<open>Sending\<close>

definition entity_order :: "entity_type \<Rightarrow> int" where
  "entity_order t =
     (case t of Workflow \<Rightarrow> 0 | Scenario \<Rightarrow> 1 | Workflow_Run \<Rightarrow> 2 | Scenario_Run \<Rightarrow> 3 | Test_Result \<Rightarrow> 4)"

definition sync_order :: "nat \<times> sync_change \<Rightarrow> nat \<times> sync_change \<Rightarrow> int" where
  "sync_order left right =
     (let d = entity_order (sc_entity_type (snd left)) - entity_order (sc_entity_type (snd right))
      in if d \<noteq> 0 then d else int (fst left) - int (fst right))"

definition orderSyncChanges :: "sync_change list \<Rightarrow> sync_change list" where
  "orderSyncChanges changes = map snd (js_sort sync_order (enumerate 0 changes))"

text \<open>The ids of a request; \<open>getUserId\<close> and \<open>getProjectId\<close> throw without a session.\<close>

definition sync_request ::
  "browser \<Rightarrow> string \<Rightarrow> string \<Rightarrow> sync_change list \<Rightarrow> sync_batch_request res" where
  "sync_request b now uuid changes =
     bind_res (getUserId b) (\<lambda>userId.
     bind_res (getProjectId b) (\<lambda>projectId.
       Inr \<lparr>rq_user_id = userId, rq_project_id = projectId,
            rq_client_id = fst (getOrCreateClientId now uuid b), rq_timestamp = now, rq_changes = changes\<rparr>))"

datatype http_reply = Fetch_Threw js_error | Http_Error nat string | Http_Ok sync_batch_response

text \<open>The server is a function of its own state, the address and the request.\<close>

type_synonym 'w sync_server = "'w \<Rightarrow> string \<Rightarrow> sync_batch_request \<Rightarrow> http_reply \<times> 'w"

definition sendBatch ::
  "'w sync_server \<Rightarrow> browser \<Rightarrow> string \<Rightarrow> string \<Rightarrow> sync_service \<Rightarrow> sync_change list \<Rightarrow> 'w \<Rightarrow>
   sync_batch_response res \<times> 'w" where
  "sendBatch server b now uuid s changes w =
     (case sync_request b now uuid (orderSyncChanges changes) of
        Inl e \<Rightarrow> (Inl e, w)
      | Inr request \<Rightarrow>
          (case server w (ss_baseUrl s @ ''/api/v1/sync/batch'') request of (reply, w') \<Rightarrow>
             (case reply of
                Fetch_Threw e \<Rightarrow> Inl e
              | Http_Error status text \<Rightarrow> Inl (Err (show_nat status @ '': '' @ text))
              | Http_Ok response \<Rightarrow> Inr response, w')))"

text \<open>
  \<open>commitBatch\<close> when nothing else runs while it waits. The first component is the value it
  returns.
\<close>

definition commitBatch ::
  "sync_host \<Rightarrow> (sync_service \<Rightarrow> sync_change list \<Rightarrow> 'w \<Rightarrow> sync_batch_response res \<times> 'w) \<Rightarrow>
   sync_change list \<Rightarrow> sync_service \<times> 'w \<Rightarrow> sync_batch_response option \<times> sync_service \<times> 'w" where
  "commitBatch H send batch sw =
     (case sw of (s, w) \<Rightarrow> case send s batch w of (reply, w1) \<Rightarrow>
        case commit_reply H batch reply s of
          (Committed response _, s1) \<Rightarrow> (Some response, s1, w1)
        | (Requeued, s1) \<Rightarrow> (None, s1, w1)
        | (Resend repairedBatch, s1) \<Rightarrow>
            (case send s1 repairedBatch w1 of (reply2, w2) \<Rightarrow>
               case commit_retry_reply H batch repairedBatch reply2 s1 of
                 (Committed response _, s2) \<Rightarrow> (Some response, s2, w2)
               | (_, s2) \<Rightarrow> (None, s2, w2)))"

subsection \<open>Flushing\<close>

text \<open>The part of \<open>flush\<close> before the first await: the batch to commit, if any.\<close>

definition flush_take :: "sync_host \<Rightarrow> sync_service \<Rightarrow> sync_change list option \<times> sync_service" where
  "flush_take H s =
     (if \<not> ss_enabled s \<or> isEmpty (ss_syncQueue s) then (None, s)
      else let (batch, queue) = dequeueMany (ss_syncQueue s) (ss_maxBatchSize s);
               s' = persistQueue H (s\<lparr>ss_syncQueue := queue\<rparr>)
           in if batch = [] then (None, s') else (Some batch, s'))"

definition flush ::
  "sync_host \<Rightarrow> (sync_service \<Rightarrow> sync_change list \<Rightarrow> 'w \<Rightarrow> sync_batch_response res \<times> 'w) \<Rightarrow>
   sync_service \<times> 'w \<Rightarrow> sync_batch_response option \<times> sync_service \<times> 'w" where
  "flush H send sw =
     (case flush_take H (fst sw) of
        (None, s) \<Rightarrow> (None, s, snd sw)
      | (Some batch, s) \<Rightarrow> commitBatch H send batch (s, snd sw))"

text \<open>The timer's callback.\<close>

definition tick :: "sync_host \<Rightarrow> sync_service \<Rightarrow> sync_change list option \<times> sync_service" where
  "tick H s = flush_take H (s\<lparr>ss_flushCount := ss_flushCount s + 1\<rparr>)"

text \<open>The loop of \<open>flushPending\<close>, entered once the pending microtasks have run; \<open>attempts\<close> left.\<close>

fun flushPending ::
  "sync_host \<Rightarrow> (sync_service \<Rightarrow> sync_change list \<Rightarrow> 'w \<Rightarrow> sync_batch_response res \<times> 'w) \<Rightarrow>
   nat \<Rightarrow> sync_service \<times> 'w \<Rightarrow> sync_service \<times> 'w" where
  "flushPending H send 0 sw = sw"
| "flushPending H send (Suc attempts) sw =
     (if isEmpty (ss_syncQueue (fst sw)) then sw
      else case flush H send sw of
        (None, sw') \<Rightarrow> sw'
      | (Some _, sw') \<Rightarrow> flushPending H send attempts sw')"

definition pre_run :: "sync_change \<Rightarrow> bool" where
  "pre_run change \<longleftrightarrow> sc_entity_type change \<in> {Workflow, Scenario}"

definition hasPendingPreRunChanges :: "sync_service \<Rightarrow> bool" where
  "hasPendingPreRunChanges s \<longleftrightarrow> list_ex pre_run (ss_items s)"

definition hasBlockingPreRunChanges :: "string \<Rightarrow> sync_service \<Rightarrow> bool" where
  "hasBlockingPreRunChanges workflowId s \<longleftrightarrow>
     list_ex (\<lambda>change. sc_entity_type change = Workflow \<and> sc_entity_id change = workflowId \<and>
                       (sc_change_type change = Insert \<or> sc_change_type change = Delete)) (ss_items s)"

definition getPendingPreRunChanges :: "sync_service \<Rightarrow> sync_change list" where
  "getPendingPreRunChanges s = filter pre_run (ss_items s)"

fun split_matching ::
  "(sync_change \<Rightarrow> bool) \<Rightarrow> nat \<Rightarrow> sync_change list \<Rightarrow> sync_change list \<Rightarrow> sync_change list \<Rightarrow>
   sync_change list \<times> sync_change list" where
  "split_matching P maxSize [] batch remaining = (batch, remaining)"
| "split_matching P maxSize (change # rest) batch remaining =
     (if P change \<and> length batch < maxSize then split_matching P maxSize rest (batch @ [change]) remaining
      else split_matching P maxSize rest batch (remaining @ [change]))"

definition dequeueMatching ::
  "sync_host \<Rightarrow> (sync_change \<Rightarrow> bool) \<Rightarrow> sync_service \<Rightarrow> sync_change list \<times> sync_service" where
  "dequeueMatching H P s =
     (case split_matching P (ss_maxBatchSize s) (ss_items s) [] [] of (batch, remaining) \<Rightarrow>
        (batch, persistQueue H (replaceQueue remaining s)))"

fun flushPendingBeforeRun ::
  "sync_host \<Rightarrow> (sync_service \<Rightarrow> sync_change list \<Rightarrow> 'w \<Rightarrow> sync_batch_response res \<times> 'w) \<Rightarrow>
   nat \<Rightarrow> sync_service \<times> 'w \<Rightarrow> sync_service \<times> 'w" where
  "flushPendingBeforeRun H send 0 sw = sw"
| "flushPendingBeforeRun H send (Suc attempts) sw =
     (if \<not> hasPendingPreRunChanges (fst sw) then sw
      else case dequeueMatching H pre_run (fst sw) of (batch, s) \<Rightarrow>
        if batch = [] then (s, snd sw)
        else case commitBatch H send batch (s, snd sw) of
          (None, sw') \<Rightarrow> sw'
        | (Some _, sw') \<Rightarrow> flushPendingBeforeRun H send attempts sw')"

text \<open>
  \<open>flushOnPageHide\<close>: the ids are read after the batch has left the queue and outside any
  \<open>try\<close>; \<open>accepts\<close> is the answer of \<open>navigator.sendBeacon\<close>. The request handed to the beacon is
  returned beside the result.
\<close>

definition flushOnPageHide ::
  "sync_host \<Rightarrow> browser \<Rightarrow> string \<Rightarrow> string \<Rightarrow> (sync_batch_request \<Rightarrow> bool) \<Rightarrow> sync_service \<Rightarrow>
   (bool \<times> sync_batch_request option) res \<times> sync_service" where
  "flushOnPageHide H b now uuid accepts s =
     (if \<not> ss_enabled s \<or> isEmpty (ss_syncQueue s) \<or> \<not> h_window H \<or> \<not> h_sendBeacon H then (Inr (False, None), s)
      else let (batch, queue) = dequeueMany (ss_syncQueue s) (ss_maxBatchSize s);
               s' = persistQueue H (s\<lparr>ss_syncQueue := queue\<rparr>)
           in if batch = [] then (Inr (False, None), s')
              else case sync_request b now uuid batch of
                Inl e \<Rightarrow> (Inl e, s')
              | Inr request \<Rightarrow>
                  if accepts request then (Inr (True, Some request), s')
                  else (Inr (False, Some request), requeue H batch s'))"

definition getQueueSize :: "sync_service \<Rightarrow> nat" where
  "getQueueSize s = getSize (ss_syncQueue s)"

definition clearQueue :: "sync_host \<Rightarrow> sync_service \<Rightarrow> sync_service" where
  "clearQueue H s = persistQueue H (s\<lparr>ss_syncQueue := clear (ss_syncQueue s)\<rparr>)"

end
