(* ===== verification/Sync_Queue.thy ===== *)
theory Sync_Queue
  imports Sync_Service
begin

text \<open>
  What each operation of the sync service does to the list of waiting changes and to its persisted
  copy: the operations on the circular buffer implement operations on a list, the stored copy is the
  queue whenever an operation returns, a failed commit puts the batch back at the front, a batch is
  sent in dependency order without reordering changes of the same kind, and the two flushing loops
  deliver what they promise when the server accepts.
\<close>

named_theorems sync_ops \<open>effect of the sync service's operations on its queue\<close>

section \<open>The operations on the queue as a list\<close>

abbreviation ss_inv :: "sync_service \<Rightarrow> bool" where
  "ss_inv s \<equiv> fq_inv (ss_syncQueue s)"

lemma persistQueue_fields [simp]:
  "ss_syncQueue (persistQueue H s) = ss_syncQueue s" "ss_enabled (persistQueue H s) = ss_enabled s"
  "ss_maxBatchSize (persistQueue H s) = ss_maxBatchSize s" "ss_baseUrl (persistQueue H s) = ss_baseUrl s"
  by (simp_all add: persistQueue_def)

lemma replaceQueue_items [sync_ops]:
  "ss_inv s \<Longrightarrow> ss_inv (replaceQueue changes s)" "ss_inv s \<Longrightarrow> ss_items (replaceQueue changes s) = changes"
  using fastq.refill [of "ss_syncQueue s" changes] by (simp_all add: replaceQueue_def)

lemma replaceQueue_fields [simp]:
  "ss_enabled (replaceQueue c s) = ss_enabled s" "ss_maxBatchSize (replaceQueue c s) = ss_maxBatchSize s"
  by (simp_all add: replaceQueue_def)

text \<open>Queueing, on the list: an update joins the first queued change of its entity if that is an insert.\<close>

definition enqueue_change :: "sync_change \<Rightarrow> sync_change list \<Rightarrow> sync_change list" where
  "enqueue_change c xs =
     (case findIndex (\<lambda>x. change_key x = change_key c) xs of
        Some i \<Rightarrow> if sc_change_type (xs ! i) = Insert \<and> sc_change_type c = Update
                  then xs[i := c\<lparr>sc_change_type := Insert, sc_client_version := 0\<rparr>] else xs @ [c]
      | None \<Rightarrow> xs @ [c])"

lemma queueChange_items [sync_ops]:
  assumes "ss_inv s"
  shows "ss_inv (queueChange H now t i ct d s)"
    "ss_items (queueChange H now t i ct d s) =
       (if ss_enabled s then enqueue_change (full_change now t i ct d) (ss_items s) else ss_items s)"
  using assms
  by (auto simp: queueChange_def coalesceQueuedChange_def enqueue_change_def change_key_def
      enqueue_correct sync_ops split: option.splits)

lemma flush_take_items [sync_ops]:
  assumes "ss_inv s"
  shows "ss_inv (snd (flush_take H s))"
    "fst (flush_take H s) =
       (if ss_enabled s \<and> ss_items s \<noteq> [] \<and> 0 < ss_maxBatchSize s
        then Some (take (ss_maxBatchSize s) (ss_items s)) else None)"
    "ss_items (snd (flush_take H s)) = drop (length (nullish (fst (flush_take H s)) [])) (ss_items s)"
proof -
  obtain batch queue where d: "dequeueMany (ss_syncQueue s) (ss_maxBatchSize s) = (batch, queue)" by fastforce
  then have "batch = take (ss_maxBatchSize s) (ss_items s)" "fq_inv queue"
    "toArray queue = drop (ss_maxBatchSize s) (ss_items s)"
    using dequeueMany_correct [OF assms, of "ss_maxBatchSize s"] by auto
  with assms d show "ss_inv (snd (flush_take H s))"
    "fst (flush_take H s) =
       (if ss_enabled s \<and> ss_items s \<noteq> [] \<and> 0 < ss_maxBatchSize s
        then Some (take (ss_maxBatchSize s) (ss_items s)) else None)"
    "ss_items (snd (flush_take H s)) = drop (length (nullish (fst (flush_take H s)) [])) (ss_items s)"
    by (auto simp: flush_take_def isEmpty_correct nullish_def min_def)
qed

lemma requeue_items [sync_ops]:
  "ss_inv s \<Longrightarrow> ss_inv (requeue H batch s)" "ss_inv s \<Longrightarrow> ss_items (requeue H batch s) = batch @ ss_items s"
  using unshiftMany_correct [of "ss_syncQueue s" batch] by (simp_all add: requeue_def)

lemma requeue_fields [simp]:
  "ss_enabled (requeue H c s) = ss_enabled s" "ss_maxBatchSize (requeue H c s) = ss_maxBatchSize s"
  by (simp_all add: requeue_def)

lemma flush_take_fields [simp]:
  "ss_enabled (snd (flush_take H s)) = ss_enabled s"
  "ss_maxBatchSize (snd (flush_take H s)) = ss_maxBatchSize s"
  by (simp_all add: flush_take_def split: prod.splits)

subsection \<open>Taking the matching changes\<close>

lemma split_matching_eq:
  "split_matching P n xs b r =
     (b @ take (n - length b) (filter P xs), snd (split_matching P n xs b r))"
proof (induction xs arbitrary: b r)
  case (Cons x xs)
  show ?case
  proof (cases "P x \<and> length b < n")
    case True
    then have "n - length b = Suc (n - length (b @ [x]))" by (simp add: Suc_diff_Suc)
    with True Cons [of "b @ [x]" r] show ?thesis by (simp add: prod_eq_iff)
  next
    case False
    with Cons [of b "r @ [x]"] show ?thesis by (auto simp: prod_eq_iff)
  qed
qed simp

lemma split_matching_rest:
  "filter (\<lambda>x. \<not> P x) (snd (split_matching P n xs b r)) = filter (\<lambda>x. \<not> P x) (r @ xs)"
  "filter P (snd (split_matching P n xs b r)) = filter P r @ drop (n - length b) (filter P xs)"
proof (induction xs arbitrary: b r)
  case (Cons x xs)
  {
    case 1 then show ?case using Cons by simp
  next
    case 2
    have "n - length b = Suc (n - length (b @ [x]))" if "length b < n" using that by (simp add: Suc_diff_Suc)
    then show ?case using Cons(2) [of "b @ [x]" r] Cons(2) [of b "r @ [x]"]
      by (cases "length b < n") auto
  }
qed simp_all

lemma split_matching_mset:
  "mset (fst (split_matching P n xs b r)) + mset (snd (split_matching P n xs b r)) = mset b + mset r + mset xs"
  by (induction xs arbitrary: b r) simp_all

lemma dequeueMatching_items [sync_ops]:
  assumes "ss_inv s"
  shows "ss_inv (snd (dequeueMatching H P s))"
    "fst (dequeueMatching H P s) = take (ss_maxBatchSize s) (filter P (ss_items s))"
    "filter (\<lambda>x. \<not> P x) (ss_items (snd (dequeueMatching H P s))) = filter (\<lambda>x. \<not> P x) (ss_items s)"
    "filter P (ss_items (snd (dequeueMatching H P s))) = drop (ss_maxBatchSize s) (filter P (ss_items s))"
    "mset (fst (dequeueMatching H P s)) + mset (ss_items (snd (dequeueMatching H P s))) = mset (ss_items s)"
proof -
  obtain batch rest where sm: "split_matching P (ss_maxBatchSize s) (ss_items s) [] [] = (batch, rest)"
    by fastforce
  then have d: "dequeueMatching H P s = (batch, persistQueue H (replaceQueue rest s))"
    by (simp add: dequeueMatching_def)
  have items: "ss_items (snd (dequeueMatching H P s)) = rest" "fst (dequeueMatching H P s) = batch"
    using assms by (simp_all add: d sync_ops)
  show "ss_inv (snd (dequeueMatching H P s))" using assms by (simp add: d sync_ops)
  show "fst (dequeueMatching H P s) = take (ss_maxBatchSize s) (filter P (ss_items s))"
    using split_matching_eq [of P "ss_maxBatchSize s" "ss_items s" "[]" "[]"] by (simp add: items sm)
  show "filter (\<lambda>x. \<not> P x) (ss_items (snd (dequeueMatching H P s))) = filter (\<lambda>x. \<not> P x) (ss_items s)"
    "filter P (ss_items (snd (dequeueMatching H P s))) = drop (ss_maxBatchSize s) (filter P (ss_items s))"
    using split_matching_rest [of P "ss_maxBatchSize s" "ss_items s" "[]" "[]"] by (simp_all add: items sm)
  show "mset (fst (dequeueMatching H P s)) + mset (ss_items (snd (dequeueMatching H P s))) = mset (ss_items s)"
    using split_matching_mset [of P "ss_maxBatchSize s" "ss_items s" "[]" "[]"] by (simp add: items sm)
qed

lemma dequeueMatching_fields [simp]:
  "ss_enabled (snd (dequeueMatching H P s)) = ss_enabled s"
  "ss_maxBatchSize (snd (dequeueMatching H P s)) = ss_maxBatchSize s"
  by (simp_all add: dequeueMatching_def split: prod.splits)

section \<open>The order of a batch\<close>

interpretation sync_cmp: js_comparator sync_order
  by unfold_locales (auto simp: sync_order_def split: if_splits)

lemma sync_order_entity: "sync_order x y \<le> 0 \<Longrightarrow> entity_order (sc_entity_type (snd x)) \<le> entity_order (sc_entity_type (snd y))"
  by (auto simp: sync_order_def split: if_splits)

lemma sync_order_index:
  "sync_order x y \<le> 0 \<Longrightarrow> sc_entity_type (snd x) = sc_entity_type (snd y) \<Longrightarrow> fst x \<le> fst y"
  by (auto simp: sync_order_def split: if_splits)

lemma mset_orderSyncChanges [simp]: "mset (orderSyncChanges cs) = mset cs"
proof -
  have "image_mset snd (mset (enumerate 0 cs)) = mset cs"
    by (metis map_snd_enumerate mset_map)
  then show ?thesis by (simp add: orderSyncChanges_def)
qed

lemma orderSyncChanges_grouped:
  "sorted_wrt (\<lambda>a b. entity_order (sc_entity_type a) \<le> entity_order (sc_entity_type b)) (orderSyncChanges cs)"
  unfolding orderSyncChanges_def sorted_wrt_map
  by (rule sorted_wrt_mono_rel [OF _ sync_cmp.js_sort_sorted]) (rule sync_order_entity)

lemma orderSyncChanges_stable:
  "filter (\<lambda>c. sc_entity_type c = k) (orderSyncChanges cs) = filter (\<lambda>c. sc_entity_type c = k) cs"
proof -
  define P where "P = (\<lambda>x :: nat \<times> sync_change. sc_entity_type (snd x) = k)"
  define xs where "xs = filter P (js_sort sync_order (enumerate 0 cs))"
  define ys where "ys = filter P (enumerate 0 cs)"
  have "sorted_wrt (\<lambda>a b. sync_order a b \<le> 0) xs"
    unfolding xs_def by (rule sorted_wrt_filter [OF sync_cmp.js_sort_sorted])
  then have "sorted_wrt (\<lambda>a b. fst a \<le> fst b) xs"
    by (rule sorted_wrt_mono_rel [rotated]) (auto simp: xs_def P_def intro: sync_order_index)
  then have "sorted (map fst xs)" by (simp add: sorted_wrt_map)
  moreover have "sorted (map fst ys)"
    unfolding ys_def using sorted_filter [of fst "enumerate 0 cs" P] by simp
  moreover have m: "mset xs = mset ys" by (simp add: xs_def ys_def)
  moreover have "distinct (map fst ys)" unfolding ys_def by (rule distinct_map_filter) simp
  moreover from this m have "distinct (map fst xs)" by (metis mset_eq_imp_distinct_iff mset_map)
  moreover have "inj_on fst (set xs \<union> set ys)"
    using m \<open>distinct (map fst ys)\<close> by (metis distinct_map mset_eq_setD sup.idem)
  ultimately have "xs = ys" using map_sorted_distinct_set_unique [of fst xs ys] mset_eq_setD [OF m] by simp
  then have "map snd xs = map snd ys" by simp
  moreover have "map snd xs = filter (\<lambda>c. sc_entity_type c = k) (orderSyncChanges cs)"
    by (simp add: xs_def orderSyncChanges_def filter_map comp_def P_def)
  moreover have "map snd ys = filter (\<lambda>c. sc_entity_type c = k) (map snd (enumerate 0 cs))"
    by (subst filter_map) (simp add: ys_def comp_def P_def)
  ultimately show ?thesis by simp
qed

text \<open>
  A batch is sent in dependency order: the same changes, workflows before scenarios before
  workflow runs before scenario runs before test results, and changes of one kind stay in the
  order they were queued.
\<close>

theorem orderSyncChanges_correct:
  "mset (orderSyncChanges cs) = mset cs \<and>
   sorted_wrt (\<lambda>a b. entity_order (sc_entity_type a) \<le> entity_order (sc_entity_type b)) (orderSyncChanges cs) \<and>
   filter (\<lambda>c. sc_entity_type c = k) (orderSyncChanges cs) = filter (\<lambda>c. sc_entity_type c = k) cs"
  by (simp add: orderSyncChanges_grouped orderSyncChanges_stable)

section \<open>Committing\<close>

lemma repair_change_fields [simp]:
  "change_key (repair_change m c) = change_key c" "sc_data (repair_change m c) = sc_data c"
  by (simp_all add: repair_change_def change_key_def)

lemma repaired_payload:
  "repairMissingEntityUpdates batch errors = Some rb \<Longrightarrow> map change_payload rb = map change_payload batch"
  by (auto simp: repairMissingEntityUpdates_def change_payload_def split: if_splits)

lemma repair_no_errors [simp]: "repairMissingEntityUpdates batch None = None" "repairMissingEntityUpdates batch (Some []) = None"
  by (simp_all add: repairMissingEntityUpdates_def missing_updates_def nullish_def set_of_def)

lemma accepted_no_repair: "\<not> rolled_back r \<Longrightarrow> repairMissingEntityUpdates batch (sr_errors r) = None"
  by (auto simp: rolled_back_def nullish_def split: option.splits)

lemma commit_reply_items [sync_ops]:
  assumes "ss_inv s"
  shows "commit_reply H batch reply s = (Requeued, s') \<Longrightarrow> ss_inv s' \<and> ss_items s' = batch @ ss_items s"
    "commit_reply H batch reply s = (Committed r e, s') \<Longrightarrow> s' = s \<and> reply = Inr r \<and> \<not> rolled_back r"
    "commit_reply H batch reply s = (Resend rb, s') \<Longrightarrow>
       s' = s \<and> map change_payload rb = map change_payload batch"
  using assms requeue_items [of s H batch] repaired_payload [of batch _ rb]
  by (auto simp: commit_reply_def split: sum.splits option.splits if_splits)

lemma commit_retry_reply_items [sync_ops]:
  assumes "ss_inv s" and rb: "map change_payload rb = map change_payload batch"
  shows "commit_retry_reply H batch rb reply s = (Requeued, s') \<Longrightarrow>
       ss_inv s' \<and> map change_payload (ss_items s') = map change_payload (batch @ ss_items s)"
    "commit_retry_reply H batch rb reply s = (Committed r e, s') \<Longrightarrow> s' = s \<and> reply = Inr r \<and> \<not> rolled_back r"
    "commit_retry_reply H batch rb reply s \<noteq> (Resend rb', s')"
  using assms requeue_items [of s H batch] requeue_items [of s H rb]
  by (auto simp: commit_retry_reply_def split: sum.splits if_splits)

lemma commitBatch_items:
  assumes inv: "ss_inv s" and c: "commitBatch H send batch (s, w) = (r, s', w')"
  shows "ss_inv s'"
    "r = None \<Longrightarrow> map change_payload (ss_items s') = map change_payload (batch @ ss_items s)"
    "r \<noteq> None \<Longrightarrow> s' = s"
proof -
  obtain reply w1 where s1: "send s batch w = (reply, w1)" by fastforce
  obtain out s1' where o: "commit_reply H batch reply s = (out, s1')" by fastforce
  have "ss_inv s' \<and> (r = None \<longrightarrow> map change_payload (ss_items s') = map change_payload (batch @ ss_items s)) \<and>
      (r \<noteq> None \<longrightarrow> s' = s)"
  proof (cases out)
    case (Committed x e)
    then show ?thesis using commit_reply_items(2) [OF inv, of H batch reply x e s1'] c inv o
      by (auto simp: commitBatch_def s1)
  next
    case Requeued
    then show ?thesis using commit_reply_items(1) [OF inv, of H batch reply s1'] c o
      by (auto simp: commitBatch_def s1)
  next
    case (Resend rb)
    then have same: "s1' = s" and pl: "map change_payload rb = map change_payload batch"
      using commit_reply_items(3) [OF inv, of H batch reply rb s1'] o by auto
    obtain reply2 w2 where s2: "send s rb w1 = (reply2, w2)" by fastforce
    obtain out2 s2' where o2: "commit_retry_reply H batch rb reply2 s = (out2, s2')" by fastforce
    show ?thesis
      using commit_retry_reply_items [OF inv pl, of H reply2] c inv o o2
      by (cases out2) (auto simp: commitBatch_def s1 s2 Resend same)
  qed
  then show "ss_inv s'" "r = None \<Longrightarrow> map change_payload (ss_items s') = map change_payload (batch @ ss_items s)"
    "r \<noteq> None \<Longrightarrow> s' = s" by auto
qed

lemma map_take_drop: "map f (take n xs) @ map f (drop n xs) = map f xs"
  by (metis append_take_drop_id map_append)

lemma flush_items:
  assumes inv: "ss_inv s" and f: "flush H send (s, w) = (r, s', w')"
  shows "ss_inv s'"
    "r = None \<Longrightarrow> map change_payload (ss_items s') = map change_payload (ss_items s)"
    "r \<noteq> None \<Longrightarrow> ss_items s' = drop (ss_maxBatchSize s) (ss_items s)"
proof -
  obtain b s1 where t: "flush_take H s = (b, s1)" by fastforce
  have i1: "ss_inv s1" and b: "b = fst (flush_take H s)"
    and items: "ss_items s1 = drop (length (nullish b [])) (ss_items s)"
    using flush_take_items [OF inv, of H] t by auto
  have "ss_inv s' \<and> (r = None \<longrightarrow> map change_payload (ss_items s') = map change_payload (ss_items s)) \<and>
      (r \<noteq> None \<longrightarrow> ss_items s' = drop (ss_maxBatchSize s) (ss_items s))"
  proof (cases b)
    case None
    then show ?thesis using f t i1 items by (auto simp: flush_def nullish_def)
  next
    case (Some batch)
    then have "batch = take (ss_maxBatchSize s) (ss_items s)"
      using b flush_take_items(2) [OF inv, of H] by (auto split: if_splits)
    moreover from this have "ss_items s1 = drop (ss_maxBatchSize s) (ss_items s)"
      using items by (auto simp: Some nullish_def min_def)
    moreover have c: "commitBatch H send batch (s1, w) = (r, s', w')" using f t Some by (simp add: flush_def)
    ultimately show ?thesis using commitBatch_items [OF i1 c] by (auto simp: map_take_drop)
  qed
  then show "ss_inv s'" "r = None \<Longrightarrow> map change_payload (ss_items s') = map change_payload (ss_items s)"
    "r \<noteq> None \<Longrightarrow> ss_items s' = drop (ss_maxBatchSize s) (ss_items s)" by auto
qed

text \<open>
  C4. Flushing never loses a change, whatever the server does: if the flush ends without a
  confirmed response (disabled, network failure, error status, rolled back batch, failed repair), the
  queue holds the same payloads in the same order as before; if it ends with a response, exactly the
  first batch has left the queue.
\<close>

theorem flush_keeps_changes:
  assumes "ss_inv s" "flush H send (s, w) = (r, s', w')"
  shows "(case r of
      None \<Rightarrow> map change_payload (ss_items s') = map change_payload (ss_items s)
    | Some _ \<Rightarrow> ss_items s' = drop (ss_maxBatchSize s) (ss_items s))"
  using flush_items [OF assms] by (cases r) simp_all

text \<open>A concrete service with two waiting changes, and hosts and servers to run it with.\<close>

definition sample_host :: sync_host where
  "sample_host = \<lparr>h_window = True, h_sendBeacon = True, h_setItem_ok = (\<lambda>_. True)\<rparr>"

definition sample_sync :: sync_service where
  "sample_sync =
     queueChange sample_host ''t1'' Workflow ''w1'' Insert (JObj [(''version'', JNum 1)])
       (queueChange sample_host ''t0'' Test_Result ''r1'' Update (JObj [(''version'', JNum 3)])
         (new_SyncService sample_host [] None))"

lemma restoreQueue_inv: "ss_inv s \<Longrightarrow> ss_inv (restoreQueue H s)"
  by (auto simp: restoreQueue_def fastq.enq_all split: option.splits stored_queue.splits)

lemma new_SyncService_inv: "ss_inv (new_SyncService H url st)"
  by (simp add: new_SyncService_def restoreQueue_inv new_FastQueue_correct)

lemma sample_sync_inv: "ss_inv sample_sync"
  by (simp add: sample_sync_def queueChange_items new_SyncService_inv)

lemma new_SyncService_fields [simp]:
  "ss_enabled (new_SyncService H url st)" "ss_maxBatchSize (new_SyncService H url st) = 100"
  by (auto simp: new_SyncService_def restoreQueue_def split: option.splits stored_queue.splits)

lemma queueChange_fields [simp]:
  "ss_enabled (queueChange H now t i ct d s) = ss_enabled s"
  "ss_maxBatchSize (queueChange H now t i ct d s) = ss_maxBatchSize s"
  by (auto simp: queueChange_def coalesceQueuedChange_def split: option.splits if_splits)

theorem flush_keeps_changes_witness:
  "(case flush sample_host (\<lambda>_ _ w. (Inl TypeError, w)) (sample_sync, ()) of (r, s', _) \<Rightarrow>
     r = None \<and> map change_payload (ss_items s') = map change_payload (ss_items sample_sync))"
proof -
  obtain r s' w' where f: "flush sample_host (\<lambda>_ _ w. (Inl TypeError, w)) (sample_sync, ()) = (r, s', w')"
    by (metis prod_cases3)
  then have "r = None"
    by (auto simp: flush_def commitBatch_def commit_reply_def split: option.splits prod.splits)
  with flush_keeps_changes [OF sample_sync_inv f] f show ?thesis by simp
qed

section \<open>The flushing loops deliver\<close>

text \<open>
  A server that accepts: every request is answered with a response that reports no error; it logs the
  changes it received. The sender is signed in and has a project.
\<close>

definition accepting_send ::
  "(sync_service \<Rightarrow> sync_change list \<Rightarrow> sync_change list list \<Rightarrow> sync_batch_response res \<times> sync_change list list) \<Rightarrow> bool" where
  "accepting_send send \<longleftrightarrow>
     (\<forall>s batch w. \<exists>r. send s batch w = (Inr r, w @ [orderSyncChanges batch]) \<and> \<not> rolled_back r)"

definition ok_response :: sync_batch_response where
  "ok_response = \<lparr>sr_success = True, sr_processed_count = 0, sr_conflicts = None, sr_errors = None,
     sr_server_version = 1\<rparr>"

definition logging_server :: "sync_change list list sync_server" where
  "logging_server w url request = (Http_Ok ok_response, w @ [rq_changes request])"

lemma sendBatch_accepting:
  assumes "getUserId b = Inr u" "getProjectId b = Inr p"
  shows "accepting_send (sendBatch logging_server b now uuid)"
  using assms
  by (simp add: accepting_send_def sendBatch_def sync_request_def logging_server_def ok_response_def
      rolled_back_def nullish_def)

lemma commitBatch_accepting:
  assumes "accepting_send send"
  shows "\<exists>r. commitBatch H send batch (s, w) = (Some r, s, w @ [orderSyncChanges batch])"
proof -
  obtain r where "send s batch w = (Inr r, w @ [orderSyncChanges batch])" "\<not> rolled_back r"
    using assms by (force simp: accepting_send_def)
  then show ?thesis by (simp add: commitBatch_def commit_reply_def accepted_no_repair)
qed

lemma flush_accepting:
  assumes acc: "accepting_send send" and inv: "ss_inv s" and en: "ss_enabled s" "0 < ss_maxBatchSize s"
    and ne: "ss_items s \<noteq> []"
  shows "\<exists>r s'. flush H send (s, w) = (Some r, s', w @ [orderSyncChanges (take (ss_maxBatchSize s) (ss_items s))]) \<and>
    ss_inv s' \<and> ss_items s' = drop (ss_maxBatchSize s) (ss_items s) \<and>
    ss_enabled s' = ss_enabled s \<and> ss_maxBatchSize s' = ss_maxBatchSize s"
proof -
  define s1 where "s1 = snd (flush_take H s)"
  have t: "flush_take H s = (Some (take (ss_maxBatchSize s) (ss_items s)), s1)"
    using flush_take_items(2) [OF inv, of H] en ne by (simp add: s1_def prod_eq_iff)
  obtain r where r: "flush H send (s, w) = (Some r, s1, w @ [orderSyncChanges (take (ss_maxBatchSize s) (ss_items s))])"
    using commitBatch_accepting [OF acc, of H "take (ss_maxBatchSize s) (ss_items s)" s1 w]
    by (auto simp: flush_def t)
  have "ss_enabled s1 = ss_enabled s" "ss_maxBatchSize s1 = ss_maxBatchSize s" by (simp_all add: s1_def)
  with r flush_items(1,3) [OF inv r] show ?thesis by blast
qed

lemma flushPending_accepting:
  assumes acc: "accepting_send send"
  shows "ss_inv s \<Longrightarrow> ss_enabled s \<Longrightarrow> 0 < ss_maxBatchSize s \<Longrightarrow>
    length (ss_items s) \<le> attempts * ss_maxBatchSize s \<Longrightarrow>
    \<exists>s' batches. flushPending H send attempts (s, w) = (s', w @ map orderSyncChanges batches) \<and>
      ss_items s' = [] \<and> concat batches = ss_items s \<and>
      list_all (\<lambda>b. b \<noteq> [] \<and> length b \<le> ss_maxBatchSize s) batches"
proof (induction attempts arbitrary: s w)
  case 0
  then show ?case by auto
next
  case (Suc n)
  show ?case
  proof (cases "ss_items s = []")
    case True
    then show ?thesis using Suc.prems by (auto simp: isEmpty_correct)
  next
    case False
    let ?k = "ss_maxBatchSize s"
    obtain r s' where f: "flush H send (s, w) = (Some r, s', w @ [orderSyncChanges (take ?k (ss_items s))])"
      and s': "ss_inv s'" "ss_items s' = drop ?k (ss_items s)" "ss_enabled s'" "ss_maxBatchSize s' = ?k"
      using flush_accepting [OF acc Suc.prems(1-3) False, of H w] Suc.prems(2) by auto
    have le: "length (ss_items s') \<le> n * ss_maxBatchSize s'"
      using Suc.prems(4) s' by (simp add: le_diff_conv add.commute)
    obtain t bs where t: "flushPending H send n (s', w @ [orderSyncChanges (take ?k (ss_items s))]) =
        (t, (w @ [orderSyncChanges (take ?k (ss_items s))]) @ map orderSyncChanges bs)"
      "ss_items t = []" "concat bs = ss_items s'" "list_all (\<lambda>b. b \<noteq> [] \<and> length b \<le> ?k) bs"
      using Suc.IH [OF s'(1,3) _ le, of "w @ [orderSyncChanges (take ?k (ss_items s))]"] Suc.prems(3) s' by auto
    have "flushPending H send (Suc n) (s, w) = (t, w @ map orderSyncChanges (take ?k (ss_items s) # bs))"
      using False Suc.prems(1) t(1) by (simp add: isEmpty_correct f)
    moreover have "concat (take ?k (ss_items s) # bs) = ss_items s" by (simp add: t s')
    moreover have "list_all (\<lambda>b. b \<noteq> [] \<and> length b \<le> ?k) (take ?k (ss_items s) # bs)"
      using t(4) False Suc.prems(3) by simp
    ultimately show ?thesis using t(2) by blast
  qed
qed

text \<open>
  C11. With a signed-in user, an active project and a server that accepts, \<open>flushPending\<close> ends
  with an empty queue whenever the attempts allowed cover the queue, and the server has received
  every waiting change exactly once, in batches of at most the batch size cut from the queue in
  order, each batch in dependency order.
\<close>

theorem flushPending_delivers_all:
  assumes "getUserId b = Inr u" "getProjectId b = Inr p"
    and "ss_inv s" "ss_enabled s" "0 < ss_maxBatchSize s"
    and "length (ss_items s) \<le> attempts * ss_maxBatchSize s"
  shows "\<exists>s' batches. flushPending H (sendBatch logging_server b now uuid) attempts (s, w) =
      (s', w @ map orderSyncChanges batches) \<and>
      ss_items s' = [] \<and> concat batches = ss_items s \<and>
      list_all (\<lambda>batch. batch \<noteq> [] \<and> length batch \<le> ss_maxBatchSize s) batches"
  using flushPending_accepting [OF sendBatch_accepting [OF assms(1,2)] assms(3-6)] .

lemma sample_sync_fields [simp]: "ss_enabled sample_sync" "ss_maxBatchSize sample_sync = 100"
  by (simp_all add: sample_sync_def)

lemma new_SyncService_empty: "ss_items (new_SyncService H url None) = []"
  by (simp add: new_SyncService_def restoreQueue_def new_FastQueue_correct)

lemma sample_sync_items:
  "ss_items sample_sync =
    [full_change ''t0'' Test_Result ''r1'' Update (JObj [(''version'', JNum 3)]),
     full_change ''t1'' Workflow ''w1'' Insert (JObj [(''version'', JNum 1)])]"
  by (simp add: sample_sync_def queueChange_items new_SyncService_inv new_SyncService_empty
      enqueue_change_def full_change_def change_key_def)

definition sample_browser :: browser where
  "sample_browser = \<lparr>br_window = True, br_storage_ok = True, br_clientId = Some ''c'', br_userId = None,
     br_currentUserId = Some ''u'', br_currentProjectId = Some ''p''\<rparr>"

lemma sample_browser_ids: "getUserId sample_browser = Inr ''u''" "getProjectId sample_browser = Inr ''p''"
  by (simp_all add: sample_browser_def getUserId_def getProjectId_def)

theorem flushPending_delivers_all_witness:
  "\<exists>s' batches. flushPending sample_host (sendBatch logging_server sample_browser ''t'' ''i'') 10 (sample_sync, []) =
     (s', map orderSyncChanges batches) \<and> ss_items s' = [] \<and> concat batches = ss_items sample_sync"
  using flushPending_delivers_all [OF sample_browser_ids sample_sync_inv, of 10 sample_host "''t''" "''i''" "[]"]
  by (auto simp: sample_sync_items)

subsection \<open>Before a run\<close>

lemma flushPendingBeforeRun_accepting:
  assumes acc: "accepting_send send"
  shows "ss_inv s \<Longrightarrow> 0 < ss_maxBatchSize s \<Longrightarrow>
    length (filter pre_run (ss_items s)) \<le> attempts * ss_maxBatchSize s \<Longrightarrow>
    \<exists>s' batches. flushPendingBeforeRun H send attempts (s, w) = (s', w @ map orderSyncChanges batches) \<and>
      \<not> hasPendingPreRunChanges s' \<and> concat batches = filter pre_run (ss_items s) \<and>
      ss_items s' = filter (\<lambda>c. \<not> pre_run c) (ss_items s)"
proof (induction attempts arbitrary: s w)
  case 0
  then have none: "list_all (\<lambda>c. \<not> pre_run c) (ss_items s)" by (auto simp: list_all_iff filter_empty_conv)
  then show ?case
    by (auto simp: hasPendingPreRunChanges_def list_all_iff list_ex_iff filter_empty_conv intro!: exI [of _ "[]"]
        filter_True [symmetric])
next
  case (Suc n)
  let ?k = "ss_maxBatchSize s" and ?pre = "filter pre_run (ss_items s)"
  show ?case
  proof (cases "hasPendingPreRunChanges s")
    case False
    then show ?thesis
      by (auto simp: hasPendingPreRunChanges_def list_ex_iff filter_empty_conv intro!: exI [of _ "[]"]
          filter_True [symmetric])
  next
    case True
    define s1 where "s1 = snd (dequeueMatching H pre_run s)"
    have d: "dequeueMatching H pre_run s = (take ?k ?pre, s1)"
      using dequeueMatching_items(2) [OF Suc.prems(1), of H pre_run] by (simp add: s1_def prod_eq_iff)
    have s1: "ss_inv s1" "ss_maxBatchSize s1 = ?k" "filter pre_run (ss_items s1) = drop ?k ?pre"
      "filter (\<lambda>c. \<not> pre_run c) (ss_items s1) = filter (\<lambda>c. \<not> pre_run c) (ss_items s)"
      using dequeueMatching_items [OF Suc.prems(1), where H = H and P = pre_run] by (simp_all add: s1_def)
    have ne: "take ?k ?pre \<noteq> []"
      using True Suc.prems(2) by (auto simp: hasPendingPreRunChanges_def list_ex_iff filter_empty_conv)
    obtain r where c: "commitBatch H send (take ?k ?pre) (s1, w) = (Some r, s1, w @ [orderSyncChanges (take ?k ?pre)])"
      using commitBatch_accepting [OF acc] by blast
    have le: "length (filter pre_run (ss_items s1)) \<le> n * ss_maxBatchSize s1"
      using Suc.prems(3) s1 by (simp add: le_diff_conv add.commute)
    obtain t bs where t: "flushPendingBeforeRun H send n (s1, w @ [orderSyncChanges (take ?k ?pre)]) =
        (t, (w @ [orderSyncChanges (take ?k ?pre)]) @ map orderSyncChanges bs)"
      "\<not> hasPendingPreRunChanges t" "concat bs = drop ?k ?pre"
      "ss_items t = filter (\<lambda>c. \<not> pre_run c) (ss_items s)"
      using Suc.IH [OF s1(1) _ le, of "w @ [orderSyncChanges (take ?k ?pre)]"] Suc.prems(2) s1 by auto
    have "flushPendingBeforeRun H send (Suc n) (s, w) = (t, w @ map orderSyncChanges (take ?k ?pre # bs))"
      using True ne t(1) by (simp add: d c)
    moreover have "concat (take ?k ?pre # bs) = ?pre" by (simp add: t)
    ultimately show ?thesis using t(2,4) by blast
  qed
qed

text \<open>
  Before a run, with a signed-in user, an active project and a server that accepts,
  \<open>flushPendingBeforeRun\<close> delivers every waiting workflow and scenario change, in order, leaves every
  other change waiting in its order, and afterwards no pre-run change is pending.
\<close>

theorem flushPendingBeforeRun_delivers:
  assumes "getUserId b = Inr u" "getProjectId b = Inr p"
    and "ss_inv s" "0 < ss_maxBatchSize s"
    and "length (getPendingPreRunChanges s) \<le> attempts * ss_maxBatchSize s"
  shows "\<exists>s' batches. flushPendingBeforeRun H (sendBatch logging_server b now uuid) attempts (s, w) =
      (s', w @ map orderSyncChanges batches) \<and>
      \<not> hasPendingPreRunChanges s' \<and> concat batches = getPendingPreRunChanges s \<and>
      ss_items s' = filter (\<lambda>c. \<not> pre_run c) (ss_items s)"
  using flushPendingBeforeRun_accepting [OF sendBatch_accepting [OF assms(1,2)] assms(3,4)] assms(5)
  unfolding getPendingPreRunChanges_def .

theorem flushPendingBeforeRun_delivers_witness:
  "\<exists>s' batches. flushPendingBeforeRun sample_host (sendBatch logging_server sample_browser ''t'' ''i'') 10
       (sample_sync, []) = (s', map orderSyncChanges batches) \<and>
     map sc_entity_id (concat batches) = [''w1''] \<and> map sc_entity_id (ss_items s') = [''r1'']"
proof -
  have "length (getPendingPreRunChanges sample_sync) \<le> 10 * ss_maxBatchSize sample_sync"
    by (simp add: getPendingPreRunChanges_def sample_sync_items pre_run_def full_change_def)
  from flushPendingBeforeRun_delivers [OF sample_browser_ids sample_sync_inv _ this, of sample_host "''t''" "''i''" "[]"]
  obtain s' batches where r: "flushPendingBeforeRun sample_host (sendBatch logging_server sample_browser ''t'' ''i'') 10
       (sample_sync, []) = (s', map orderSyncChanges batches)"
    "concat batches = getPendingPreRunChanges sample_sync"
    "ss_items s' = filter (\<lambda>c. \<not> pre_run c) (ss_items sample_sync)" by auto
  then show ?thesis
    by (intro exI [of _ s'] exI [of _ batches])
      (simp add: getPendingPreRunChanges_def sample_sync_items pre_run_def full_change_def)
qed

end
