(* ===== verification/Sync_Protocol.thy ===== *)
theory Sync_Protocol
  imports Sync_Queue
begin

text \<open>
  The sync service as the browser runs it: the calls of the stores, the timer, the page's events and
  the replies to requests in flight interleave in any order. The theory gives the step relation over
  the definitions of \<open>Sync_Service\<close> and shows, for every reachable state, that no change is lost or
  duplicated, that the latest payload of every entity is waiting, in flight or confirmed, and that the
  stored copy is the queue.
\<close>

section \<open>The step relation\<close>

text \<open>A batch being committed: waiting for the first reply, or for the reply to its repair.\<close>

datatype flight = First_Send "sync_change list" | Second_Send "sync_change list" "sync_change list"

text \<open>
  The service, the batches in flight, the changes the server confirmed, and (for the specification) the
  latest payload handed to \<open>queueChange\<close> for each entity while syncing was enabled.
\<close>

record sync_system =
  sys_service :: sync_service
  sys_flights :: "flight list"
  sys_acked :: "sync_change list"
  sys_latest :: "entity_key \<Rightarrow> json option"

definition first_outcome :: "commit_outcome \<Rightarrow> sync_change list \<Rightarrow> flight list \<times> sync_change list" where
  "first_outcome out batch =
     (case out of Committed _ _ \<Rightarrow> ([], batch) | Requeued \<Rightarrow> ([], []) | Resend rb \<Rightarrow> ([Second_Send batch rb], []))"

definition retry_outcome :: "commit_outcome \<Rightarrow> sync_change list \<Rightarrow> flight list \<times> sync_change list" where
  "retry_outcome out repaired = (case out of Committed _ _ \<Rightarrow> ([], repaired) | _ \<Rightarrow> ([], []))"

definition page_hide_sent :: "bool \<times> sync_batch_request option \<Rightarrow> sync_change list" where
  "page_hide_sent r = (case r of (True, Some request) \<Rightarrow> rq_changes request | _ \<Rightarrow> [])"

inductive sync_step :: "sync_host \<Rightarrow> sync_system \<Rightarrow> sync_system \<Rightarrow> bool" for H where
  Queue: "sync_step H S (S\<lparr>sys_service := queueChange H now t i ct d (sys_service S),
     sys_latest := (if ss_enabled (sys_service S) then (sys_latest S)((t, i) \<mapsto> d) else sys_latest S)\<rparr>)"
| Flush: "flush_take H (sys_service S) = (Some batch, s') \<Longrightarrow>
     sync_step H S (S\<lparr>sys_service := s', sys_flights := sys_flights S @ [First_Send batch]\<rparr>)"
| Tick: "tick H (sys_service S) = (Some batch, s') \<Longrightarrow>
     sync_step H S (S\<lparr>sys_service := s', sys_flights := sys_flights S @ [First_Send batch]\<rparr>)"
| Pre_Run: "dequeueMatching H pre_run (sys_service S) = (batch, s') \<Longrightarrow> batch \<noteq> [] \<Longrightarrow>
     sync_step H S (S\<lparr>sys_service := s', sys_flights := sys_flights S @ [First_Send batch]\<rparr>)"
| Reply: "sys_flights S = fs @ First_Send batch # gs \<Longrightarrow>
     commit_reply H batch reply (sys_service S) = (out, s') \<Longrightarrow> first_outcome out batch = (hs, acked) \<Longrightarrow>
     sync_step H S (S\<lparr>sys_service := s', sys_flights := fs @ hs @ gs, sys_acked := sys_acked S @ acked\<rparr>)"
| Retry_Reply: "sys_flights S = fs @ Second_Send batch rb # gs \<Longrightarrow>
     commit_retry_reply H batch rb reply (sys_service S) = (out, s') \<Longrightarrow> retry_outcome out rb = (hs, acked) \<Longrightarrow>
     sync_step H S (S\<lparr>sys_service := s', sys_flights := fs @ hs @ gs, sys_acked := sys_acked S @ acked\<rparr>)"
| Page_Hide: "flushOnPageHide H b now uuid accepts (sys_service S) = (Inr r, s') \<Longrightarrow>
     sync_step H S (S\<lparr>sys_service := s', sys_acked := sys_acked S @ page_hide_sent r\<rparr>)"
| Settings: "f \<in> {start, stop} \<union> range set_syncInterval \<union> range set_maxBatchSize \<union> range setEnabled \<union> range initSync \<Longrightarrow>
     sync_step H S (S\<lparr>sys_service := f (sys_service S)\<rparr>)"

definition initial_system :: "sync_host \<Rightarrow> string \<Rightarrow> stored_queue option \<Rightarrow> sync_system" where
  "initial_system H url st =
     \<lparr>sys_service = new_SyncService H url st, sys_flights = [], sys_acked = [], sys_latest = Map.empty\<rparr>"

definition reachable_system :: "sync_host \<Rightarrow> string \<Rightarrow> stored_queue option \<Rightarrow> sync_system \<Rightarrow> bool" where
  "reachable_system H url st S \<longleftrightarrow> (sync_step H)\<^sup>*\<^sup>* (initial_system H url st) S"

inductive_cases sync_stepE: "sync_step H S S'"

section \<open>The well-formedness invariant\<close>

fun flight_changes :: "flight \<Rightarrow> sync_change list" where
  "flight_changes (First_Send batch) = batch"
| "flight_changes (Second_Send batch rb) = batch"

fun flight_ok :: "flight \<Rightarrow> bool" where
  "flight_ok (First_Send batch) = True"
| "flight_ok (Second_Send batch rb) = (map change_payload rb = map change_payload batch)"

definition system_ok :: "sync_system \<Rightarrow> bool" where
  "system_ok S \<longleftrightarrow> ss_inv (sys_service S) \<and> list_all flight_ok (sys_flights S)"

text \<open>All payloads the system is responsible for.\<close>

abbreviation payloads :: "sync_change list \<Rightarrow> (entity_key \<times> json) multiset" where
  "payloads xs \<equiv> mset (map change_payload xs)"

definition held :: "sync_system \<Rightarrow> (entity_key \<times> json) multiset" where
  "held S = payloads (ss_items (sys_service S)) + payloads (concat (map flight_changes (sys_flights S))) +
     payloads (sys_acked S)"

lemma settings_queue:
  "f \<in> {start, stop} \<union> range set_syncInterval \<union> range set_maxBatchSize \<union> range setEnabled \<union> range initSync \<Longrightarrow>
   ss_syncQueue (f s) = ss_syncQueue s \<and> ss_storage (f s) = ss_storage s"
  by (auto simp: start_def stop_def set_syncInterval_def set_maxBatchSize_def setEnabled_def initSync_def
      set_baseUrl_def split: option.splits)

lemma flush_take_take:
  assumes "ss_inv s" "flush_take H s = (Some batch, s')"
  shows "ss_inv s'" "ss_items s = batch @ ss_items s'"
proof -
  have b: "batch = take (ss_maxBatchSize s) (ss_items s)"
    using flush_take_items(2) [OF assms(1), of H] assms(2) by (auto split: if_splits)
  then show "ss_items s = batch @ ss_items s'"
    using flush_take_items(3) [OF assms(1), of H] assms(2)
    by (simp add: nullish_def min_def split: if_splits)
  show "ss_inv s'" using flush_take_items(1) [OF assms(1), of H] assms(2) by simp
qed

lemma tick_take:
  assumes "ss_inv s" "tick H s = (Some batch, s')"
  shows "ss_inv s'" "ss_items s = batch @ ss_items s'"
  using flush_take_take [of "s\<lparr>ss_flushCount := ss_flushCount s + 1\<rparr>" H batch s'] assms
  by (simp_all add: tick_def)

lemma page_hide_items:
  assumes inv: "ss_inv s" and p: "flushOnPageHide H b now uuid accepts s = (Inr r, s')"
  shows "ss_inv s'" "ss_items s = page_hide_sent r @ ss_items s'"
proof -
  obtain batch queue where d: "dequeueMany (ss_syncQueue s) (ss_maxBatchSize s) = (batch, queue)" by fastforce
  have q: "fq_inv queue" "ss_items s = batch @ toArray queue"
    using dequeueMany_correct [OF inv, of "ss_maxBatchSize s"] d by auto
  define s1 where "s1 = persistQueue H (s\<lparr>ss_syncQueue := queue\<rparr>)"
  have s1: "ss_inv s1" "ss_items s1 = toArray queue" using q by (simp_all add: s1_def)
  have "ss_inv s' \<and> ss_items s = page_hide_sent r @ ss_items s'"
    using p q inv requeue_items [OF s1(1), of H batch] s1
    by (auto simp: flushOnPageHide_def d s1_def [symmetric] page_hide_sent_def sync_request_def
        split: if_splits sum.splits)
  then show "ss_inv s'" "ss_items s = page_hide_sent r @ ss_items s'" by auto
qed

lemma findIndex_Some: "findIndex P xs = Some i \<Longrightarrow> i < length xs \<and> P (xs ! i)"
  by (induction xs arbitrary: i) (auto split: if_splits)

text \<open>
  Queueing adds the new payload, or puts it in the place of an older payload of the same entity.
\<close>

definition superseded :: "entity_key \<Rightarrow> json \<Rightarrow> (entity_key \<times> json) multiset \<Rightarrow> (entity_key \<times> json) multiset \<Rightarrow> bool" where
  "superseded k d before after \<longleftrightarrow>
     after = add_mset (k, d) before \<or> (\<exists>d0. (k, d0) \<in># before \<and> after = add_mset (k, d) (before - {#(k, d0)#}))"

lemma superseded_plus: "superseded k d m m' \<Longrightarrow> superseded k d (m + n) (m' + n)"
  by (auto simp: superseded_def)

lemma full_change_payload [simp]: "change_payload (full_change now t i ct d) = ((t, i), d)"
  by (simp add: full_change_def change_payload_def change_key_def)

lemma enqueue_change_payloads:
  assumes "change_payload c = (k, d)"
  shows "superseded k d (payloads xs) (payloads (enqueue_change c xs))"
proof (cases "findIndex (\<lambda>x. change_key x = change_key c) xs")
  case None
  then show ?thesis by (simp add: enqueue_change_def superseded_def assms)
next
  case (Some i)
  then have i: "i < length xs" "change_key (xs ! i) = k"
    using findIndex_Some [OF Some] assms by (auto simp: change_payload_def)
  then have "(k, sc_data (xs ! i)) \<in># payloads xs" "change_payload (xs ! i) = (k, sc_data (xs ! i))"
    by (auto simp: change_payload_def)
  moreover have "payloads (xs[i := c\<lparr>sc_change_type := Insert, sc_client_version := 0\<rparr>]) =
      add_mset (k, d) (payloads xs - {#change_payload (xs ! i)#})"
    using i assms by (simp add: mset_update map_update change_payload_def change_key_def flip: mset_map)
  ultimately show ?thesis using assms by (auto simp: enqueue_change_def superseded_def Some)
qed

lemma outcome_flights:
  assumes inv: "ss_inv s"
  shows "commit_reply H batch reply s = (out, s') \<Longrightarrow> first_outcome out batch = (hs, acked) \<Longrightarrow>
      ss_inv s' \<and> list_all flight_ok hs \<and>
      payloads (ss_items s') + payloads (concat (map flight_changes hs)) + payloads acked =
      payloads batch + payloads (ss_items s)"
    "map change_payload rb = map change_payload batch \<Longrightarrow>
      commit_retry_reply H batch rb reply s = (out, s') \<Longrightarrow> retry_outcome out rb = (hs, acked) \<Longrightarrow>
      ss_inv s' \<and> list_all flight_ok hs \<and>
      payloads (ss_items s') + payloads (concat (map flight_changes hs)) + payloads acked =
      payloads batch + payloads (ss_items s)"
proof -
  assume *: "commit_reply H batch reply s = (out, s')" "first_outcome out batch = (hs, acked)"
  then show "ss_inv s' \<and> list_all flight_ok hs \<and>
      payloads (ss_items s') + payloads (concat (map flight_changes hs)) + payloads acked =
      payloads batch + payloads (ss_items s)"
    using commit_reply_items [OF inv, of H batch reply] inv
    by (cases out) (auto simp: first_outcome_def add.commute)
next
  assume rb: "map change_payload rb = map change_payload batch"
    and *: "commit_retry_reply H batch rb reply s = (out, s')" "retry_outcome out rb = (hs, acked)"
  then show "ss_inv s' \<and> list_all flight_ok hs \<and>
      payloads (ss_items s') + payloads (concat (map flight_changes hs)) + payloads acked =
      payloads batch + payloads (ss_items s)"
    using commit_retry_reply_items [OF inv rb, of H reply] inv arg_cong [OF rb, of mset]
    by (cases out) (auto simp: retry_outcome_def add.commute)
qed

lemma sync_step_held:
  assumes "sync_step H S S'" "system_ok S"
  shows "system_ok S' \<and>
    (held S' = held S \<and> sys_latest S' = sys_latest S \<or>
     (\<exists>k d. sys_latest S' = (sys_latest S)(k \<mapsto> d) \<and> superseded k d (held S) (held S')))"
  using assms
proof (cases rule: sync_step.cases)
  case (Queue t i d now ct)
  have inv: "ss_inv (sys_service S)" using assms(2) by (simp add: system_ok_def)
  have "superseded (t, i) d (payloads (ss_items (sys_service S)))
      (payloads (enqueue_change (full_change now t i ct d) (ss_items (sys_service S))))"
    by (rule enqueue_change_payloads) simp
  then have "superseded (t, i) d (held S) (held S')" if "ss_enabled (sys_service S)"
    using that by (simp add: held_def Queue queueChange_items inv superseded_plus)
  then show ?thesis using assms(2)
    by (cases "ss_enabled (sys_service S)") (auto simp: Queue system_ok_def held_def queueChange_items)
next
  case (Reply fs batch gs reply out s' hs acked)
  then show ?thesis using assms(2) outcome_flights(1) [of "sys_service S" H batch reply out s' hs acked]
    by (simp add: system_ok_def held_def algebra_simps)
next
  case (Retry_Reply fs batch rb gs reply out s' hs acked)
  then show ?thesis using assms(2) outcome_flights(2) [of "sys_service S" rb batch H reply out s' hs acked]
    by (simp add: system_ok_def held_def algebra_simps)
next
  case (Flush batch s')
  then show ?thesis using assms(2) flush_take_take [of "sys_service S" H batch s']
    by (simp add: system_ok_def held_def algebra_simps)
next
  case (Tick batch s')
  then show ?thesis using assms(2) tick_take [of "sys_service S" H batch s']
    by (simp add: system_ok_def held_def algebra_simps)
next
  case (Pre_Run batch s')
  have "payloads (ss_items (sys_service S)) = payloads batch + payloads (ss_items s')"
    using arg_cong [OF dequeueMatching_items(5) [of "sys_service S" H pre_run], of "image_mset change_payload"]
      assms(2) Pre_Run by (simp add: system_ok_def)
  then show ?thesis using assms(2) dequeueMatching_items(1) [of "sys_service S" H pre_run] Pre_Run
    by (simp add: system_ok_def held_def algebra_simps)
next
  case (Page_Hide b now uuid accepts r s')
  then show ?thesis using assms(2) page_hide_items [of "sys_service S" H b now uuid accepts r s']
    by (simp add: system_ok_def held_def algebra_simps)
next
  case (Settings f)
  then show ?thesis using assms(2) settings_queue [of f "sys_service S"] by (simp add: system_ok_def held_def)
qed

lemma reachable_ok:
  assumes "reachable_system H url st S"
  shows "system_ok S"
  using assms unfolding reachable_system_def
  by (induction rule: rtranclp_induct)
    (auto simp: initial_system_def system_ok_def new_SyncService_inv dest: sync_step_held)



text \<open>A run: a workflow and a test result are queued, the batch is sent and fails.\<close>

definition sample_system :: sync_system where
  "sample_system = (initial_system sample_host [] None)
     \<lparr>sys_service := queueChange sample_host ''t'' Workflow ''w1'' Update (JObj [])
        (sys_service (initial_system sample_host [] None)),
      sys_latest := [(Workflow, ''w1'') \<mapsto> JObj []]\<rparr>"

lemma sample_system_step: "sync_step sample_host (initial_system sample_host [] None) sample_system"
  using sync_step.Queue [of sample_host "initial_system sample_host [] None" Workflow "''w1''" "JObj []" "''t''" Update]
  by (simp add: sample_system_def initial_system_def)

lemma sample_system_reachable: "reachable_system sample_host [] None sample_system"
  using sample_system_step by (simp add: reachable_system_def)



section \<open>The stored copy\<close>

definition stored_items :: "stored_queue option \<Rightarrow> sync_change list" where
  "stored_items st = (case st of Some (Stored xs) \<Rightarrow> xs | _ \<Rightarrow> [])"

abbreviation stored_ok :: "sync_service \<Rightarrow> bool" where
  "stored_ok s \<equiv> stored_items (ss_storage s) = ss_items s"

lemma new_SyncService_items: "h_window H \<Longrightarrow> ss_items (new_SyncService H url st) = stored_items st"
  by (auto simp: new_SyncService_def restoreQueue_def stored_items_def fastq.enq_all new_FastQueue_correct
      split: option.splits stored_queue.splits)

lemma new_SyncService_stored: "h_window H \<Longrightarrow> stored_ok (new_SyncService H url st)"
  using new_SyncService_items [of H url st]
  by (auto simp: new_SyncService_def restoreQueue_def stored_items_def split: option.splits stored_queue.splits)

locale working_storage =
  fixes H :: sync_host
  assumes window: "h_window H"
    and setItem: "h_setItem_ok H xs"
begin

lemma persistQueue_stored: "stored_ok (persistQueue H s)"
  by (simp add: persistQueue_def window setItem stored_items_def)

lemma queueChange_stored: "stored_ok s \<Longrightarrow> stored_ok (queueChange H now t i ct d s)"
  using persistQueue_stored
  by (auto simp: queueChange_def coalesceQueuedChange_def split: option.splits if_splits)

lemma flush_take_stored: "stored_ok s \<Longrightarrow> flush_take H s = (b, s') \<Longrightarrow> stored_ok s'"
  using persistQueue_stored by (auto simp: flush_take_def split: if_splits prod.splits)

lemma requeue_stored: "stored_ok (requeue H batch s)"
  unfolding requeue_def by (rule persistQueue_stored)

lemma sync_step_stored:
  assumes "sync_step H S S'" "stored_ok (sys_service S)"
  shows "stored_ok (sys_service S')"
  using assms
proof (cases rule: sync_step.cases)
  case (Pre_Run batch s')
  then show ?thesis
    using persistQueue_stored by (auto simp: dequeueMatching_def split: prod.splits)
next
  case (Tick batch s')
  then show ?thesis
    using flush_take_stored [of "(sys_service S)\<lparr>ss_flushCount := ss_flushCount (sys_service S) + 1\<rparr>"] assms(2)
    by (simp add: tick_def)
next
  case (Page_Hide b now uuid accepts r s')
  then show ?thesis using assms(2) persistQueue_stored requeue_stored
    by (auto simp: flushOnPageHide_def split: if_splits prod.splits sum.splits)
next
  case (Settings f)
  then show ?thesis using assms(2) settings_queue [of f "sys_service S"] by simp
next
  case (Reply fs batch gs reply out s' hs acked)
  then show ?thesis using assms(2) requeue_stored
    by (auto simp: commit_reply_def split: sum.splits option.splits if_splits)
next
  case (Retry_Reply fs batch rb gs reply out s' hs acked)
  then show ?thesis using assms(2) requeue_stored
    by (auto simp: commit_retry_reply_def split: sum.splits if_splits)
qed (simp_all add: queueChange_stored flush_take_stored)

lemma reachable_stored: "reachable_system H url st S \<Longrightarrow> stored_ok (sys_service S)"
  unfolding reachable_system_def
  by (induction rule: rtranclp_induct)
    (auto simp: initial_system_def new_SyncService_stored window intro: sync_step_stored)

end

interpretation sample_storage: working_storage sample_host
  by unfold_locales (simp_all add: sample_host_def)

text \<open>
  C3. In a browser whose storage works, reloading the page restores the queue: in every reachable
  state a service created from what is stored has exactly the waiting changes, in order.
\<close>

theorem reload_restores_queue:
  assumes "h_window H" "h_setItem_ok H = (\<lambda>_. True)" "reachable_system H url st S"
  shows "ss_items (new_SyncService H url (ss_storage (sys_service S))) = ss_items (sys_service S)"
  using working_storage.reachable_stored [OF working_storage.intro assms(3)] assms
  by (simp add: new_SyncService_items)

theorem reload_restores_queue_witness:
  "ss_items (new_SyncService sample_host [] (ss_storage (sys_service sample_system))) =
   ss_items (sys_service sample_system)"
  by (rule reload_restores_queue [OF _ _ sample_system_reachable]) (simp_all add: sample_host_def)

section \<open>Two gaps\<close>

text \<open>
  \<open>flushOnPageHide\<close> reads the session after it has taken the batch out of the queue and
  of the stored copy: without a signed-in user or an active project it throws and the batch is gone,
  both from memory and from storage.
\<close>

theorem page_hide_without_session_drops_batch:
  assumes "ss_inv s" "ss_enabled s" "ss_items s \<noteq> []" "0 < ss_maxBatchSize s"
    and "h_window H" "h_sendBeacon H" "h_setItem_ok H = (\<lambda>_. True)"
    and "getUserId b = Inr u" "getProjectId b = Inl e"
  shows "\<exists>s'. flushOnPageHide H b now uuid accepts s = (Inl e, s') \<and>
    ss_items s' = drop (ss_maxBatchSize s) (ss_items s) \<and>
    stored_items (ss_storage s') = drop (ss_maxBatchSize s) (ss_items s)"
proof -
  have stored: "stored_ok (persistQueue H s1)" for s1
    by (rule working_storage.persistQueue_stored) (simp add: working_storage_def assms)
  obtain batch queue where d: "dequeueMany (ss_syncQueue s) (ss_maxBatchSize s) = (batch, queue)" by fastforce
  then have q: "batch = take (ss_maxBatchSize s) (ss_items s)" "toArray queue = drop (ss_maxBatchSize s) (ss_items s)"
    using dequeueMany_correct [OF assms(1), of "ss_maxBatchSize s"] by auto
  have "\<not> isEmpty (ss_syncQueue s)" using assms(1,3) by (simp add: isEmpty_correct)
  with assms q d stored [of "s\<lparr>ss_syncQueue := queue\<rparr>"] show ?thesis
    by (simp add: flushOnPageHide_def sync_request_def)
qed

theorem page_hide_without_session_drops_batch_witness:
  "\<exists>s'. flushOnPageHide sample_host (sample_browser\<lparr>br_currentProjectId := None\<rparr>) ''t'' ''i'' (\<lambda>_. True) sample_sync =
      (Inl (Err ''No active project is selected.''), s') \<and> ss_items s' = [] \<and> stored_items (ss_storage s') = []"
proof -
  let ?b = "sample_browser\<lparr>br_currentProjectId := None\<rparr>"
  have "getUserId ?b = Inr ''u''" "getProjectId ?b = Inl (Err ''No active project is selected.'')"
    by (simp_all add: sample_browser_def getUserId_def getProjectId_def)
  from page_hide_without_session_drops_batch [OF sample_sync_inv _ _ _ _ _ _ this,
      of sample_host "''t''" "''i''" "\<lambda>_. True"]
  show ?thesis by (simp add: sample_sync_items sample_host_def)
qed

text \<open>
  The other gap is one of order. A workflow is created and sent; while the request is in flight it
  is edited; the request fails and is put back in front of the edit. The next edit then joins the
  insert at the front, ahead of the older edit.
\<close>

definition w1_key :: entity_key where "w1_key = (Workflow, ''w1'')"

definition w1_data :: "int \<Rightarrow> json" where "w1_data v = JObj [(''version'', JNum v)]"

definition w1_edit :: "change_type \<Rightarrow> int \<Rightarrow> sync_system \<Rightarrow> sync_system" where
  "w1_edit ct v S = S\<lparr>sys_service := queueChange sample_host ''t'' Workflow ''w1'' ct (w1_data v) (sys_service S),
     sys_latest := (if ss_enabled (sys_service S) then (sys_latest S)((Workflow, ''w1'') \<mapsto> w1_data v) else sys_latest S)\<rparr>"

lemma w1_edit_step: "sync_step sample_host S (w1_edit ct v S)"
  unfolding w1_edit_def by (rule sync_step.Queue)

lemma w1_edit_fields:
  assumes "ss_inv (sys_service S)" "ss_enabled (sys_service S)"
  shows "ss_inv (sys_service (w1_edit ct v S))" "ss_enabled (sys_service (w1_edit ct v S))"
    "ss_maxBatchSize (sys_service (w1_edit ct v S)) = ss_maxBatchSize (sys_service S)"
    "ss_items (sys_service (w1_edit ct v S)) =
       enqueue_change (full_change ''t'' Workflow ''w1'' ct (w1_data v)) (ss_items (sys_service S))"
    "sys_flights (w1_edit ct v S) = sys_flights S" "sys_latest (w1_edit ct v S) w1_key = Some (w1_data v)"
  using assms by (simp_all add: w1_edit_def queueChange_items w1_key_def)

text \<open>
  The protocol reaches a state in which the newest payload of an entity waits in front of an
  older payload of the same entity, so that the older one is sent last.
\<close>

theorem older_update_can_be_sent_last:
  "\<exists>S. reachable_system sample_host [] None S \<and> sys_latest S w1_key = Some (w1_data 3) \<and>
     map change_payload (ss_items (sys_service S)) = [(w1_key, w1_data 3), (w1_key, w1_data 2)]"
proof -
  define S1 where "S1 = w1_edit Insert 1 (initial_system sample_host [] None)"
  have s1: "ss_inv (sys_service S1)" "ss_enabled (sys_service S1)" "ss_maxBatchSize (sys_service S1) = 100"
    "ss_items (sys_service S1) = [full_change ''t'' Workflow ''w1'' Insert (w1_data 1)]" "sys_flights S1 = []"
    using w1_edit_fields [of "initial_system sample_host [] None"] new_SyncService_inv new_SyncService_empty
    by (simp_all add: S1_def initial_system_def enqueue_change_def)
  define b where "b = [full_change ''t'' Workflow ''w1'' Insert (w1_data 1)]"
  define s2 where "s2 = snd (flush_take sample_host (sys_service S1))"
  have t: "flush_take sample_host (sys_service S1) = (Some b, s2)"
    using flush_take_items(2) [OF s1(1), of sample_host] s1 by (simp add: s2_def b_def prod_eq_iff)
  have s2: "ss_inv s2" "ss_items s2 = []" "ss_enabled s2"
    using flush_take_take [OF s1(1) t] s1 by (simp_all add: s2_def b_def)
  define S2 where "S2 = S1\<lparr>sys_service := s2, sys_flights := sys_flights S1 @ [First_Send b]\<rparr>"
  define S3 where "S3 = w1_edit Update 2 S2"
  have s3: "ss_inv (sys_service S3)" "ss_enabled (sys_service S3)" "sys_flights S3 = [] @ First_Send b # []"
    "ss_items (sys_service S3) = [full_change ''t'' Workflow ''w1'' Update (w1_data 2)]"
    using w1_edit_fields [of S2] s2 s1 by (simp_all add: S3_def S2_def enqueue_change_def)
  define s4 where "s4 = requeue sample_host b (sys_service S3)"
  have c: "commit_reply sample_host b (Inl TypeError) (sys_service S3) = (Requeued, s4)"
    "first_outcome Requeued b = ([], [])" by (simp_all add: commit_reply_def s4_def first_outcome_def)
  define S4 where "S4 = S3\<lparr>sys_service := s4, sys_flights := [] @ [] @ [], sys_acked := sys_acked S3 @ []\<rparr>"
  have s4: "ss_inv s4" "ss_enabled s4"
    "ss_items s4 = b @ [full_change ''t'' Workflow ''w1'' Update (w1_data 2)]"
    using s3 by (simp_all add: s4_def requeue_items)
  define S5 where "S5 = w1_edit Update 3 S4"
  have "sync_step sample_host S1 S2" unfolding S2_def by (rule sync_step.Flush [OF t])
  moreover have "sync_step sample_host S3 S4" unfolding S4_def by (rule sync_step.Reply [OF s3(3) c])
  ultimately have "(sync_step sample_host)\<^sup>*\<^sup>* (initial_system sample_host [] None) S5"
    using w1_edit_step by (metis S1_def S3_def S5_def rtranclp.simps)
  moreover have "map change_payload (ss_items (sys_service S5)) = [(w1_key, w1_data 3), (w1_key, w1_data 2)]"
    using w1_edit_fields(4) [of S4] s4
    by (simp add: S5_def S4_def b_def enqueue_change_def full_change_def change_key_def change_payload_def w1_key_def)
  moreover have "sys_latest S5 w1_key = Some (w1_data 3)"
    using w1_edit_fields(6) [of S4] s4 by (simp add: S5_def S4_def)
  ultimately show ?thesis by (auto simp: reachable_system_def)
qed

end
