(* ===== verification/Sync_Middleware.thy ===== *)
theory Sync_Middleware
  imports Sync_Protocol
begin

text \<open>
  \<^verbatim>\<open>src/ui-v2/src/modules/sync/sync-middleware.ts\<close>: how a change of a client store becomes a
  queued change. A store under the middleware is its state, the tracker of pending operations and
  the microtasks that \<open>syncSet\<close> has scheduled (each remembers its entity id); a microtask reads the
  state current when it runs. The theory shows that a burst of operations on one entity is queued as
  one change with the coalesced type and the final payload.
\<close>

subsection \<open>The operation tracker\<close>

type_synonym tracker = "string \<Rightarrow> change_type option"

definition coalesceChangeType :: "change_type option \<Rightarrow> change_type \<Rightarrow> change_type" where
  "coalesceChangeType existing incoming =
     (case existing of
        None \<Rightarrow> incoming
      | Some e \<Rightarrow>
          if e = Insert \<and> incoming = Update then Insert
          else if e = Delete then Delete
          else incoming)"

definition track :: "string \<Rightarrow> change_type \<Rightarrow> tracker \<Rightarrow> tracker" where
  "track entityId changeType pendingOps =
     pendingOps(entityId \<mapsto> coalesceChangeType (pendingOps entityId) changeType)"

definition consume :: "string \<Rightarrow> tracker \<Rightarrow> change_type option \<times> tracker" where
  "consume entityId pendingOps = (pendingOps entityId, pendingOps(entityId := None))"

definition tracker_clear :: "tracker \<Rightarrow> tracker" where
  "tracker_clear pendingOps = Map.empty"

subsection \<open>Metadata\<close>

text \<open>The clock, the host's randomness and the browser, read when metadata is added.\<close>

record sync_env =
  env_browser :: browser
  env_now :: string
  env_uuid :: string

record sync_meta =
  sm_version :: int
  sm_created_at :: string
  sm_updated_at :: string
  sm_user_id :: string
  sm_client_id :: string
  sm_is_deleted :: bool

text \<open>The metadata of the result, from what the entity has of it.\<close>

definition addSyncMetadata ::
  "sync_env \<Rightarrow> int option \<Rightarrow> string option \<Rightarrow> bool option \<Rightarrow> sync_meta res" where
  "addSyncMetadata E version created_at is_deleted =
     bind_res (getUserId (env_browser E)) (\<lambda>userId.
       Inr \<lparr>sm_version = (case version of Some v \<Rightarrow> if v = 0 then 1 else v | None \<Rightarrow> 1),
            sm_created_at = or_str created_at (env_now E),
            sm_updated_at = env_now E,
            sm_user_id = userId,
            sm_client_id = fst (getOrCreateClientId (env_now E) (env_uuid E) (env_browser E)),
            sm_is_deleted = nullish is_deleted False\<rparr>)"

definition markAsDeleted :: "sync_env \<Rightarrow> sync_meta \<Rightarrow> sync_meta" where
  "markAsDeleted E m = m\<lparr>sm_is_deleted := True, sm_version := sm_version m + 1, sm_updated_at := env_now E\<rparr>"

text \<open>Metadata of an entity with its version raised, as every update of a store asks for it.\<close>

definition bump_metadata :: "sync_env \<Rightarrow> sync_meta \<Rightarrow> sync_meta res" where
  "bump_metadata E m =
     addSyncMetadata E (Some (sm_version m + 1)) (Some (sm_created_at m)) (Some (sm_is_deleted m))"

subsection \<open>The middleware\<close>

record 's sync_options =
  so_enabled :: bool
  so_entityType :: entity_type
  so_getEntityId :: "'s \<Rightarrow> string option"
  so_serializeEntity :: "'s \<Rightarrow> string \<Rightarrow> json option"

record 's synced =
  sy_state :: 's
  sy_tracker :: tracker
  sy_microtasks :: "string list"

definition synced_init :: "'s \<Rightarrow> 's synced" where
  "synced_init s = \<lparr>sy_state = s, sy_tracker = Map.empty, sy_microtasks = []\<rparr>"

definition trackSync :: "string \<Rightarrow> change_type \<Rightarrow> 's synced \<Rightarrow> 's synced" where
  "trackSync entityId changeType store = store\<lparr>sy_tracker := track entityId changeType (sy_tracker store)\<rparr>"

definition syncSet :: "'s sync_options \<Rightarrow> ('s \<Rightarrow> 's) \<Rightarrow> 's synced \<Rightarrow> 's synced" where
  "syncSet opts partial store =
     (let s = partial (sy_state store); store' = store\<lparr>sy_state := s\<rparr>
      in if \<not> so_enabled opts then store'
         else case so_getEntityId opts s of
           Some (c # cs) \<Rightarrow> store'\<lparr>sy_microtasks := sy_microtasks store' @ [c # cs]\<rparr>
         | _ \<Rightarrow> store')"

text \<open>One scheduled microtask, and all of them in order.\<close>

definition sync_microtask ::
  "'s sync_options \<Rightarrow> sync_host \<Rightarrow> string \<Rightarrow> string \<Rightarrow> 's synced \<times> sync_service \<Rightarrow> 's synced \<times> sync_service" where
  "sync_microtask opts H now entityId ss =
     (case ss of (store, service) \<Rightarrow>
        case consume entityId (sy_tracker store) of (changeType, tr) \<Rightarrow>
          (let store' = store\<lparr>sy_tracker := tr\<rparr>
           in case changeType of
             None \<Rightarrow> (store', service)
           | Some ct \<Rightarrow>
               (case so_serializeEntity opts (sy_state store') entityId of
                  None \<Rightarrow> (store', service)
                | Some data \<Rightarrow> (store', queueChange H now (so_entityType opts) entityId ct data service))))"

definition run_microtasks ::
  "'s sync_options \<Rightarrow> sync_host \<Rightarrow> string \<Rightarrow> 's synced \<times> sync_service \<Rightarrow> 's synced \<times> sync_service" where
  "run_microtasks opts H now ss =
     foldl (\<lambda>acc entityId. sync_microtask opts H now entityId acc)
       ((fst ss)\<lparr>sy_microtasks := []\<rparr>, snd ss) (sy_microtasks (fst ss))"

section \<open>Coalescing\<close>

lemma coalesce_delete: "foldl (\<lambda>e c. Some (coalesceChangeType e c)) (Some Delete) cts = Some Delete"
  by (induction cts) (simp_all add: coalesceChangeType_def)

lemma coalesce_insert:
  "foldl (\<lambda>e c. Some (coalesceChangeType e c)) (Some Insert) (replicate n Update) = Some Insert"
  by (induction n) (simp_all add: coalesceChangeType_def)

text \<open>A burst: operations on one entity, each tracked and applied, before any microtask runs.\<close>

definition burst_step :: "'s sync_options \<Rightarrow> string \<Rightarrow> 's synced \<Rightarrow> change_type \<times> ('s \<Rightarrow> 's) \<Rightarrow> 's synced" where
  "burst_step opts i store op = syncSet opts (snd op) (trackSync i (fst op) store)"

lemma burst_state:
  assumes "so_enabled opts" "i \<noteq> []"
    and "\<And>op s. op \<in> set ops \<Longrightarrow> so_getEntityId opts (snd op s) = Some i"
  shows "foldl (burst_step opts i) store ops =
    store\<lparr>sy_state := foldl (\<lambda>s op. snd op s) (sy_state store) ops,
          sy_tracker := (sy_tracker store)(i := foldl (\<lambda>e op. Some (coalesceChangeType e (fst op))) (sy_tracker store i) ops),
          sy_microtasks := sy_microtasks store @ replicate (length ops) i\<rparr>"
  using assms(3)
proof (induction ops arbitrary: store)
  case (Cons op ops)
  obtain c cs where i: "i = c # cs" using assms(2) by (cases i) auto
  have "burst_step opts i store op = store\<lparr>sy_state := snd op (sy_state store),
      sy_tracker := (sy_tracker store)(i \<mapsto> coalesceChangeType (sy_tracker store i) (fst op)),
      sy_microtasks := sy_microtasks store @ [i]\<rparr>"
    using Cons.prems assms(1) i by (simp add: burst_step_def syncSet_def trackSync_def track_def)
  with Cons show ?case by (simp add: fun_upd_def cong: if_cong)
qed simp

lemma later_microtasks_idle:
  "sy_tracker store i = None \<Longrightarrow>
   foldl (\<lambda>acc entityId. sync_microtask opts H now entityId acc) (store, service) (replicate n i) = (store, service)"
  by (induction n) (simp_all add: sync_microtask_def consume_def fun_upd_idem)

lemma run_same_microtasks:
  assumes "sy_microtasks store = replicate (Suc n) i"
  shows "run_microtasks opts H now (store, service) =
    sync_microtask opts H now i (store\<lparr>sy_microtasks := []\<rparr>, service)"
proof -
  let ?one = "sync_microtask opts H now i (store\<lparr>sy_microtasks := []\<rparr>, service)"
  have "sy_tracker (fst ?one) i = None"
    by (simp add: sync_microtask_def consume_def split: option.splits)
  then show ?thesis
    using later_microtasks_idle [of "fst ?one" i opts H now "snd ?one" n] assms
    by (simp add: run_microtasks_def)
qed

text \<open>
  C30. A burst of operations on one entity of an idle store is queued as exactly one change: once
  the scheduled microtasks have run, the service has been handed a single change whose type is the
  coalesced type of the burst and whose data is the entity as the last operation left it, and the
  store waits for nothing more.
\<close>

theorem burst_queues_one_change:
  assumes "so_enabled opts" "i \<noteq> []" "ops \<noteq> []" "sy_microtasks store = []" "sy_tracker store i = None"
    and "\<And>op s. op \<in> set ops \<Longrightarrow> so_getEntityId opts (snd op s) = Some i"
    and "so_serializeEntity opts (foldl (\<lambda>s op. snd op s) (sy_state store) ops) i = Some data"
    and "foldl (\<lambda>e op. Some (coalesceChangeType e (fst op))) None ops = Some ct"
  shows "run_microtasks opts H now (foldl (burst_step opts i) store ops, service) =
    (store\<lparr>sy_state := foldl (\<lambda>s op. snd op s) (sy_state store) ops\<rparr>,
     queueChange H now (so_entityType opts) i ct data service)"
proof -
  obtain n where n: "length ops = Suc n" using assms(3) by (cases ops) auto
  show ?thesis
    using run_same_microtasks [of "foldl (burst_step opts i) store ops" n i] assms
    by (simp add: burst_state n sync_microtask_def consume_def fun_upd_idem)
qed

text \<open>Creating an entity and editing it at once: one insert with the edited content.\<close>

theorem burst_queues_one_change_witness:
  "run_microtasks
     \<lparr>so_enabled = True, so_entityType = Workflow, so_getEntityId = (\<lambda>_. Some ''w''),
      so_serializeEntity = (\<lambda>s _. Some (JNum s))\<rparr> sample_host ''t''
     (foldl (burst_step \<lparr>so_enabled = True, so_entityType = Workflow, so_getEntityId = (\<lambda>_. Some ''w''),
         so_serializeEntity = (\<lambda>s _. Some (JNum s))\<rparr> ''w'') (synced_init 0) [(Insert, \<lambda>_. 1), (Update, \<lambda>s. s + 1)], sample_sync) =
   (synced_init 2, queueChange sample_host ''t'' Workflow ''w'' Insert (JNum 2) sample_sync)"
  using burst_queues_one_change
    [of "\<lparr>so_enabled = True, so_entityType = Workflow, so_getEntityId = (\<lambda>_. Some ''w''),
      so_serializeEntity = (\<lambda>s _. Some (JNum s))\<rparr>" "''w''" "[(Insert, \<lambda>_. 1), (Update, \<lambda>s. s + 1)]"
      "synced_init 0" "JNum 2" Insert sample_host "''t''" sample_sync]
  by (simp add: synced_init_def coalesceChangeType_def)

end
