(* ===== verification/Workflow_Store.thy ===== *)
theory Workflow_Store
  imports Sync_Middleware Flow_Types
begin

text \<open>
  \<^verbatim>\<open>src/ui-v2/src/modules/workflow/stores/workflow.store.sync.ts\<close>: the client store of
  workflows under the sync middleware. One definition per action; an action that throws returns the
  error beside the store as it left it. Objects keyed by id are association lists in insertion
  order. How nodes, edges and test orders appear as JSON is the host's serialization, a parameter.

  The last-writer-wins rule by which a pulled entity replaces the local one is stated as a locale
  that the workflow store and the scenario store share.
\<close>

section \<open>Merging by version\<close>

text \<open>The order of JavaScript strings: by code units.\<close>

fun str_less :: "string \<Rightarrow> string \<Rightarrow> bool" where
  "str_less [] [] = False"
| "str_less [] (y # ys) = True"
| "str_less (x # xs) [] = False"
| "str_less (x # xs) (y # ys) =
     (of_char x < (of_char y :: nat) \<or> x = y \<and> str_less xs ys)"

lemma str_less_irrefl [simp]: "\<not> str_less x x"
  by (induction x) auto

lemma str_less_trans: "str_less x y \<Longrightarrow> str_less y z \<Longrightarrow> str_less x z"
proof (induction x y arbitrary: z rule: str_less.induct)
  case (2 y ys) then show ?case by (cases z) auto
next
  case (4 x xs y ys) then show ?case by (cases z) auto
qed auto

lemma str_less_total: "str_less x y \<or> x = y \<or> str_less y x"
proof (induction x y rule: str_less.induct)
  case (4 x xs y ys)
  have "x = y \<longleftrightarrow> of_char x = (of_char y :: nat)" by simp
  with 4 show ?case by (auto simp: not_less order_le_less)
qed auto

text \<open>Whether the local copy with metadata \<open>m\<close> is kept against a pulled one.\<close>

definition keeps_local :: "sync_meta \<Rightarrow> sync_meta \<Rightarrow> bool" where
  "keeps_local m incoming \<longleftrightarrow>
     sm_version m > sm_version incoming \<or>
     (sm_version m = sm_version incoming \<and> str_less (sm_updated_at incoming) (sm_updated_at m))"

definition same_stamp :: "sync_meta \<Rightarrow> sync_meta \<Rightarrow> bool" where
  "same_stamp m n \<longleftrightarrow> sm_version m = sm_version n \<and> sm_updated_at m = sm_updated_at n"

lemma keeps_local_order:
  "\<not> keeps_local m m" "keeps_local l m \<Longrightarrow> keeps_local m n \<Longrightarrow> keeps_local l n"
  "keeps_local m n \<or> same_stamp m n \<or> keeps_local n m"
  "same_stamp l m \<Longrightarrow> keeps_local l n = keeps_local m n" "same_stamp l m \<Longrightarrow> keeps_local n l = keeps_local n m"
  using str_less_total [of "sm_updated_at m" "sm_updated_at n"]
  by (auto simp: keeps_local_def same_stamp_def intro: str_less_trans)

text \<open>
  A store of entities by id where a pulled entity replaces the local one unless the local one has a
  later stamp.
\<close>

locale lww_store =
  fixes get :: "'s \<Rightarrow> string \<Rightarrow> 'e option"
    and ident :: "'e \<Rightarrow> string"
    and meta :: "'e \<Rightarrow> sync_meta"
    and pull :: "'e \<Rightarrow> 's \<Rightarrow> 's"
  assumes get_pull: "get (pull e s) i =
      (if i = ident e
       then (case get s i of
               Some old \<Rightarrow> if keeps_local (meta old) (meta e) then Some old else Some e
             | None \<Rightarrow> Some e)
       else get s i)"
begin

lemma pull_idem: "get (pull e (pull e s)) i = get (pull e s) i"
  by (simp add: get_pull keeps_local_order(1) split: option.splits)

lemma pull_commutes:
  assumes "ident a \<noteq> ident b \<or> \<not> same_stamp (meta a) (meta b)"
  shows "get (pull a (pull b s)) i = get (pull b (pull a s)) i"
proof (cases "ident a = ident b \<and> i = ident a")
  case True
  then have d: "keeps_local (meta a) (meta b) \<or> keeps_local (meta b) (meta a)"
    using assms keeps_local_order(3) by blast
  have asym: "\<not> (keeps_local (meta a) (meta b) \<and> keeps_local (meta b) (meta a))"
    using keeps_local_order(1,2) by blast
  have mid: "keeps_local x m \<or> keeps_local n x" if "keeps_local n m" for x m n
    using that keeps_local_order(2-5) by metis
  show ?thesis using True d asym mid
    by (auto simp: get_pull split: option.splits dest: keeps_local_order(2))
next
  case False
  then show ?thesis by (auto simp: get_pull)
qed

text \<open>What a pull leaves in the store is never older than what was there.\<close>

lemma pull_monotone: "get s i = Some old \<Longrightarrow> \<exists>new. get (pull e s) i = Some new \<and> \<not> keeps_local (meta old) (meta new)"
  by (auto simp: get_pull keeps_local_order(1))

end

section \<open>The workflow store\<close>

record workflow =
  wf_id :: string
  wf_projectId :: string
  wf_name :: string
  wf_description :: "string option"
  wf_nodes :: "flow_node list"
  wf_edges :: "flow_edge list"
  wf_customTestOrder :: "(string \<times> string list) list"
  wf_provenance :: "string option"
  wf_meta :: sync_meta

record workflow_store =
  ws_workflows :: "(string \<times> workflow) list"
  ws_activeWorkflowId :: "string option"
  ws_currentEntityId :: "string option"
  ws_hydrated :: bool

definition workflow_store_init :: workflow_store where
  "workflow_store_init = \<lparr>ws_workflows = [], ws_activeWorkflowId = None, ws_currentEntityId = None, ws_hydrated = False\<rparr>"

record graph_json =
  gj_nodes :: "flow_node list \<Rightarrow> json"
  gj_edges :: "flow_edge list \<Rightarrow> json"
  gj_tests :: "scenario_test list \<Rightarrow> json"

definition str_list :: "string list \<Rightarrow> json" where
  "str_list xs = JArr (map JStr xs)"

definition meta_fields :: "sync_meta \<Rightarrow> (string \<times> json) list" where
  "meta_fields m =
     [(''version'', JNum (sm_version m)), (''created_at'', JStr (sm_created_at m)),
      (''updated_at'', JStr (sm_updated_at m)), (''user_id'', JStr (sm_user_id m)),
      (''client_id'', JStr (sm_client_id m)), (''is_deleted'', JBool (sm_is_deleted m))]"

definition serializeWorkflow :: "graph_json \<Rightarrow> workflow_store \<Rightarrow> string \<Rightarrow> json option" where
  "serializeWorkflow G state entityId =
     (case map_of (ws_workflows state) entityId of
        None \<Rightarrow> None
      | Some workflow \<Rightarrow>
          Some (JObj ([(''id'', JStr (wf_id workflow)), (''project_id'', JStr (wf_projectId workflow)),
             (''name'', JStr (wf_name workflow)), (''description'', JStr (or_str (wf_description workflow) [])),
             (''nodes_config'', gj_nodes G (wf_nodes workflow)), (''edges_config'', gj_edges G (wf_edges workflow)),
             (''metadata'', JObj ((''customTestOrder'', JObj (map (\<lambda>(k, v). (k, str_list v)) (wf_customTestOrder workflow))) #
                (case wf_provenance workflow of Some p \<Rightarrow> [(''provenance'', JStr p)] | None \<Rightarrow> [])))] @
             meta_fields (wf_meta workflow))))"

definition workflow_options :: "graph_json \<Rightarrow> workflow_store sync_options" where
  "workflow_options G =
     \<lparr>so_enabled = True, so_entityType = Workflow, so_getEntityId = ws_currentEntityId,
      so_serializeEntity = serializeWorkflow G\<rparr>"

type_synonym workflow_synced = "workflow_store synced"

definition setHydrated :: "graph_json \<Rightarrow> bool \<Rightarrow> workflow_synced \<Rightarrow> workflow_synced" where
  "setHydrated G v store = syncSet (workflow_options G) (\<lambda>state. state\<lparr>ws_hydrated := v\<rparr>) store"

definition createWorkflow ::
  "graph_json \<Rightarrow> sync_env \<Rightarrow> string \<Rightarrow> string \<Rightarrow> string \<Rightarrow> string option \<Rightarrow> workflow_synced \<Rightarrow>
   string res \<times> workflow_synced" where
  "createWorkflow G E i projectId name description store =
     (case addSyncMetadata E None None None of
        Inl e \<Rightarrow> (Inl e, store)
      | Inr meta \<Rightarrow>
          (let workflow = \<lparr>wf_id = i, wf_projectId = projectId, wf_name = name,
                 wf_description = Some (or_str description []), wf_nodes = [], wf_edges = [],
                 wf_customTestOrder = [], wf_provenance = Some ''manual'', wf_meta = meta\<rparr>
           in (Inr i, syncSet (workflow_options G)
                 (\<lambda>state. state\<lparr>ws_workflows := AList.update i workflow (ws_workflows state),
                                ws_activeWorkflowId := Some i, ws_currentEntityId := Some i\<rparr>)
                 (trackSync i Insert store))))"

definition getWorkflow :: "string \<Rightarrow> workflow_synced \<Rightarrow> workflow option" where
  "getWorkflow i store = map_of (ws_workflows (sy_state store)) i"

text \<open>
  The shape of an update: the operation is tracked, then the state is replaced unless the workflow is
  missing; metadata that cannot be added throws after the operation was tracked.
\<close>

definition updateWorkflow ::
  "graph_json \<Rightarrow> sync_env \<Rightarrow> string \<Rightarrow> (workflow \<Rightarrow> workflow) \<Rightarrow> workflow_synced \<Rightarrow> unit res \<times> workflow_synced" where
  "updateWorkflow G E workflowId change store0 =
     (let store = trackSync workflowId Update store0
      in case map_of (ws_workflows (sy_state store)) workflowId of
           None \<Rightarrow> (Inr (), syncSet (workflow_options G) (\<lambda>state. state) store)
         | Some flow \<Rightarrow>
             (case bump_metadata E (wf_meta flow) of
                Inl e \<Rightarrow> (Inl e, store)
              | Inr meta \<Rightarrow>
                  (Inr (), syncSet (workflow_options G)
                     (\<lambda>state. state\<lparr>ws_workflows :=
                          AList.update workflowId ((change flow)\<lparr>wf_meta := meta\<rparr>) (ws_workflows state),
                        ws_currentEntityId := Some workflowId\<rparr>) store)))"

definition updateWorkflowName ::
  "graph_json \<Rightarrow> sync_env \<Rightarrow> string \<Rightarrow> string \<Rightarrow> workflow_synced \<Rightarrow> unit res \<times> workflow_synced" where
  "updateWorkflowName G E workflowId name store =
     updateWorkflow G E workflowId (\<lambda>flow. flow\<lparr>wf_name := name\<rparr>) store"

definition updateWorkflowGraph ::
  "graph_json \<Rightarrow> sync_env \<Rightarrow> string \<Rightarrow> flow_node list \<Rightarrow> flow_edge list \<Rightarrow> (string \<times> string list) list option \<Rightarrow>
   workflow_synced \<Rightarrow> unit res \<times> workflow_synced" where
  "updateWorkflowGraph G E workflowId nodes edges customTestOrder store =
     updateWorkflow G E workflowId
       (\<lambda>flow. flow\<lparr>wf_nodes := nodes, wf_edges := edges,
                wf_customTestOrder := nullish customTestOrder (wf_customTestOrder flow)\<rparr>) store"

definition deleteWorkflow :: "graph_json \<Rightarrow> sync_env \<Rightarrow> string \<Rightarrow> workflow_synced \<Rightarrow> workflow_synced" where
  "deleteWorkflow G E i store =
     syncSet (workflow_options G)
       (\<lambda>state. case map_of (ws_workflows state) i of
          None \<Rightarrow> state
        | Some flow \<Rightarrow>
            state\<lparr>ws_workflows := AList.update i (flow\<lparr>wf_meta := markAsDeleted E (wf_meta flow)\<rparr>) (ws_workflows state),
                  ws_activeWorkflowId := (if ws_activeWorkflowId state = Some i then None else ws_activeWorkflowId state),
                  ws_currentEntityId := Some i\<rparr>)
       (trackSync i Delete store)"

definition setActiveWorkflow :: "graph_json \<Rightarrow> string option \<Rightarrow> workflow_synced \<Rightarrow> workflow_synced" where
  "setActiveWorkflow G i store = syncSet (workflow_options G) (\<lambda>state. state\<lparr>ws_activeWorkflowId := i\<rparr>) store"

definition upsertWorkflowFromSync :: "graph_json \<Rightarrow> workflow \<Rightarrow> workflow_synced \<Rightarrow> workflow_synced" where
  "upsertWorkflowFromSync G workflow store =
     syncSet (workflow_options G)
       (\<lambda>state. case map_of (ws_workflows state) (wf_id workflow) of
          Some existing \<Rightarrow>
            if keeps_local (wf_meta existing) (wf_meta workflow) then state
            else state\<lparr>ws_workflows := AList.update (wf_id workflow) workflow (ws_workflows state)\<rparr>
        | None \<Rightarrow> state\<lparr>ws_workflows := AList.update (wf_id workflow) workflow (ws_workflows state)\<rparr>)
       store"

definition replaceWorkflowFromSync :: "graph_json \<Rightarrow> workflow \<Rightarrow> workflow_synced \<Rightarrow> workflow_synced" where
  "replaceWorkflowFromSync G workflow store =
     syncSet (workflow_options G)
       (\<lambda>state. state\<lparr>ws_workflows := AList.update (wf_id workflow) workflow (ws_workflows state)\<rparr>) store"

section \<open>Properties of the store\<close>

lemma syncSet_state [simp]: "sy_state (syncSet opts f store) = f (sy_state store)"
  by (simp add: syncSet_def split: option.splits list.splits)

lemma syncSet_tracker [simp]: "sy_tracker (syncSet opts f store) = sy_tracker store"
  by (simp add: syncSet_def split: option.splits list.splits)

lemma trackSync_fields [simp]:
  "sy_state (trackSync i ct store) = sy_state store"
  "sy_tracker (trackSync i ct store) = track i ct (sy_tracker store)"
  by (simp_all add: trackSync_def)

lemma map_of_AList_update [simp]: "map_of (AList.update k v m) = (map_of m)(k \<mapsto> v)"
  by (rule update_conv')

interpretation workflow_lww: lww_store "\<lambda>s i. getWorkflow i s" wf_id wf_meta "upsertWorkflowFromSync G" for G
  by unfold_locales (auto simp: upsertWorkflowFromSync_def getWorkflow_def split: option.splits)

text \<open>
  Pulled workflows converge: pulling two workflows in either order leaves the same store
  content (for the same workflow, if their stamps differ), pulling one twice is pulling it once, and
  a pull never replaces a local workflow by an older one.
\<close>

theorem pulled_workflows_converge:
  assumes "wf_id a \<noteq> wf_id b \<or> \<not> same_stamp (wf_meta a) (wf_meta b)"
  shows "getWorkflow i (upsertWorkflowFromSync G a (upsertWorkflowFromSync G b s)) =
      getWorkflow i (upsertWorkflowFromSync G b (upsertWorkflowFromSync G a s)) \<and>
    getWorkflow i (upsertWorkflowFromSync G a (upsertWorkflowFromSync G a s)) =
      getWorkflow i (upsertWorkflowFromSync G a s) \<and>
    (case getWorkflow i s of None \<Rightarrow> True
     | Some old \<Rightarrow> \<exists>new. getWorkflow i (upsertWorkflowFromSync G a s) = Some new \<and>
         \<not> keeps_local (wf_meta old) (wf_meta new))"
  using workflow_lww.pull_commutes [OF assms] workflow_lww.pull_idem workflow_lww.pull_monotone
  by (auto split: option.splits)

definition sample_env :: sync_env where
  "sample_env = \<lparr>env_browser = sample_browser, env_now = ''2024-01-02'', env_uuid = ''i''\<rparr>"

definition sample_workflow :: "int \<Rightarrow> string \<Rightarrow> workflow" where
  "sample_workflow v name = \<lparr>wf_id = ''w1'', wf_projectId = ''p'', wf_name = name, wf_description = None,
     wf_nodes = [], wf_edges = [], wf_customTestOrder = [], wf_provenance = None,
     wf_meta = \<lparr>sm_version = v, sm_created_at = ''2024-01-01'', sm_updated_at = ''2024-01-01'', sm_user_id = ''u'',
       sm_client_id = ''c'', sm_is_deleted = False\<rparr>\<rparr>"

definition sample_json :: graph_json where
  "sample_json = \<lparr>gj_nodes = (\<lambda>_. JArr []), gj_edges = (\<lambda>_. JArr []), gj_tests = (\<lambda>_. JArr [])\<rparr>"

definition sample_store :: workflow_synced where
  "sample_store = synced_init (workflow_store_init\<lparr>ws_workflows := [(''w1'', sample_workflow 4 ''old'')]\<rparr>)"

theorem pulled_workflows_converge_witness:
  "getWorkflow ''w1'' (upsertWorkflowFromSync sample_json (sample_workflow 5 ''a'')
      (upsertWorkflowFromSync sample_json (sample_workflow 6 ''b'') sample_store)) =
   getWorkflow ''w1'' (upsertWorkflowFromSync sample_json (sample_workflow 6 ''b'')
      (upsertWorkflowFromSync sample_json (sample_workflow 5 ''a'') sample_store))"
  using pulled_workflows_converge [of "sample_workflow 5 ''a''" "sample_workflow 6 ''b''" "''w1''" sample_json sample_store]
  by (simp add: same_stamp_def sample_workflow_def)

subsection \<open>Local edits\<close>

lemma bump_metadata_eq:
  "bump_metadata E m = Inr m' \<Longrightarrow> 0 \<le> sm_version m \<Longrightarrow>
   sm_version m' = sm_version m + 1 \<and> sm_updated_at m' = env_now E \<and> sm_is_deleted m' = sm_is_deleted m"
  by (auto simp: bump_metadata_def addSyncMetadata_def nullish_def)

lemma bump_metadata_total: "getUserId (env_browser E) = Inr u \<Longrightarrow> \<exists>m'. bump_metadata E m = Inr m'"
  by (simp add: bump_metadata_def addSyncMetadata_def)

lemma serialized_version_workflow:
  "map_of (ws_workflows state) i = Some w \<Longrightarrow>
   \<exists>data. serializeWorkflow G state i = Some data \<and> serialized_version data = sm_version (wf_meta w) \<and>
     json_member ''name'' data = Some (JStr (wf_name w)) \<and>
     json_member ''is_deleted'' data = Some (JBool (sm_is_deleted (wf_meta w)))"
  by (simp add: serializeWorkflow_def serialized_version_def json_member_def meta_fields_def)

lemma updateWorkflow_queues:
  assumes idle: "sy_microtasks store = []" and i: "i \<noteq> []"
    and w: "getWorkflow i store = Some w" and m: "bump_metadata E (wf_meta w) = Inr m"
    and ct: "ct = coalesceChangeType (sy_tracker store i) Update"
  shows "\<exists>data store'. run_microtasks (workflow_options G) H now (snd (updateWorkflow G E i change store), service) =
      (store', queueChange H now Workflow i ct data service) \<and>
    getWorkflow i store' = Some ((change w)\<lparr>wf_meta := m\<rparr>) \<and>
    serialized_version data = sm_version m \<and> json_member ''name'' data = Some (JStr (wf_name (change w))) \<and>
    json_member ''is_deleted'' data = Some (JBool (sm_is_deleted m))"
proof -
  obtain c cs where cc: "i = c # cs" using i by (cases i) auto
  define w' where "w' = (change w)\<lparr>wf_meta := m\<rparr>"
  define st where "st = (sy_state store)\<lparr>ws_workflows := AList.update i w' (ws_workflows (sy_state store)),
      ws_currentEntityId := Some i\<rparr>"
  have u: "snd (updateWorkflow G E i change store) =
      store\<lparr>sy_state := st, sy_tracker := (sy_tracker store)(i \<mapsto> ct), sy_microtasks := [i]\<rparr>"
    using w m idle by (simp add: updateWorkflow_def getWorkflow_def syncSet_def workflow_options_def trackSync_def
        track_def st_def w'_def cc ct)
  have "map_of (ws_workflows st) i = Some w'" by (simp add: st_def)
  from serialized_version_workflow [OF this, of G] obtain data where
    d: "serializeWorkflow G st i = Some data" "serialized_version data = sm_version (wf_meta w')"
      "json_member ''name'' data = Some (JStr (wf_name w'))"
      "json_member ''is_deleted'' data = Some (JBool (sm_is_deleted (wf_meta w')))" by blast
  have "run_microtasks (workflow_options G) H now (snd (updateWorkflow G E i change store), service) =
      (store\<lparr>sy_state := st, sy_tracker := (sy_tracker store)(i := None), sy_microtasks := []\<rparr>,
       queueChange H now Workflow i ct data service)"
    by (simp add: u run_microtasks_def sync_microtask_def consume_def workflow_options_def d)
  moreover have "getWorkflow i (store\<lparr>sy_state := st, sy_tracker := (sy_tracker store)(i := None),
      sy_microtasks := []\<rparr>) = Some w'" by (simp add: getWorkflow_def st_def)
  ultimately show ?thesis using d by (auto simp: w'_def)
qed

text \<open>
  Renaming a workflow in an idle store by a signed-in user takes effect locally with the
  version raised by one and, once the microtasks have run, hands the sync service one update whose
  payload carries the new name and the raised version and whose client version is the version
  before the edit.
\<close>

theorem rename_reaches_sync_queue:
  assumes "sy_microtasks store = []" "sy_tracker store i = None" "i \<noteq> []"
    and "getWorkflow i store = Some w" "0 \<le> sm_version (wf_meta w)" "getUserId (env_browser E) = Inr u"
  shows "\<exists>data store'. run_microtasks (workflow_options G) H now (snd (updateWorkflowName G E i name store), service) =
      (store', queueChange H now Workflow i Update data service) \<and>
    map_option wf_name (getWorkflow i store') = Some name \<and>
    map_option (sm_version \<circ> wf_meta) (getWorkflow i store') = Some (sm_version (wf_meta w) + 1) \<and>
    json_member ''name'' data = Some (JStr name) \<and>
    sc_client_version (full_change now Workflow i Update data) = sm_version (wf_meta w)"
proof -
  obtain m where m: "bump_metadata E (wf_meta w) = Inr m" using bump_metadata_total [OF assms(6)] by blast
  note v = conjunct1 [OF bump_metadata_eq [OF m assms(5)]]
  have "Update = coalesceChangeType (sy_tracker store i) Update" by (simp add: coalesceChangeType_def assms(2))
  from updateWorkflow_queues [OF assms(1,3,4) m this, of G H now "\<lambda>flow. flow\<lparr>wf_name := name\<rparr>" service]
  obtain data store' where "run_microtasks (workflow_options G) H now (snd (updateWorkflowName G E i name store), service) =
      (store', queueChange H now Workflow i Update data service)"
    "getWorkflow i store' = Some (w\<lparr>wf_name := name, wf_meta := m\<rparr>)" "serialized_version data = sm_version m"
    "json_member ''name'' data = Some (JStr name)"
    by (auto simp: updateWorkflowName_def)
  then show ?thesis using v assms(5)
    by (intro exI [of _ data] exI [of _ store']) (simp add: full_change_def)
qed

lemma sample_store_facts:
  "sy_microtasks sample_store = []" "sy_tracker sample_store i = None"
  "getWorkflow ''w1'' sample_store = Some (sample_workflow 4 ''old'')"
  "getUserId (env_browser sample_env) = Inr ''u''"
  by (simp_all add: sample_store_def synced_init_def getWorkflow_def workflow_store_init_def sample_env_def
      sample_browser_ids)

theorem rename_reaches_sync_queue_witness:
  "\<exists>data store'. run_microtasks (workflow_options sample_json) sample_host ''t''
       (snd (updateWorkflowName sample_json sample_env ''w1'' ''new'' sample_store), sample_sync) =
      (store', queueChange sample_host ''t'' Workflow ''w1'' Update data sample_sync) \<and>
    json_member ''name'' data = Some (JStr ''new'') \<and>
    sc_client_version (full_change ''t'' Workflow ''w1'' Update data) = 4"
proof -
  have "0 \<le> sm_version (wf_meta (sample_workflow 4 ''old''))" "sm_version (wf_meta (sample_workflow 4 ''old'')) = 4"
    by (simp_all add: sample_workflow_def)
  with rename_reaches_sync_queue [OF sample_store_facts(1,2) _ sample_store_facts(3) this(1) sample_store_facts(4),
      of sample_json sample_host "''t''" "''new''" sample_sync]
  show ?thesis by auto
qed

text \<open>
  Deleting a workflow the store does not know leaves the deletion in the tracker for good: if
  the workflow is pulled later and then renamed, the rename is queued as a deletion although the
  workflow is not marked as deleted.
\<close>

theorem delete_of_unknown_workflow_sticks:
  assumes "sy_microtasks store = []" "sy_tracker store i = None" "i \<noteq> []"
    and "getWorkflow i store = None" "ws_currentEntityId (sy_state store) = None"
    and "wf_id w = i" "sm_is_deleted (wf_meta w) = False" "0 \<le> sm_version (wf_meta w)"
    and "getUserId (env_browser E) = Inr u"
  shows "\<exists>data store'. run_microtasks (workflow_options G) H now
      (snd (updateWorkflowName G E i name
         (upsertWorkflowFromSync G w (deleteWorkflow G E i store))), service) =
      (store', queueChange H now Workflow i Delete data service) \<and>
    json_member ''is_deleted'' data = Some (JBool False)"
proof -
  let ?s = "upsertWorkflowFromSync G w (deleteWorkflow G E i store)"
  obtain m where m: "bump_metadata E (wf_meta w) = Inr m" using bump_metadata_total [OF assms(9)] by blast
  have "sm_is_deleted m = False" using bump_metadata_eq [OF m assms(8)] assms(7) by simp
  moreover have idle: "sy_microtasks ?s = []" and t: "sy_tracker ?s i = Some Delete" and w: "getWorkflow i ?s = Some w"
    using assms by (auto simp: upsertWorkflowFromSync_def deleteWorkflow_def getWorkflow_def syncSet_def
        workflow_options_def trackSync_def track_def coalesceChangeType_def)
  moreover have "Delete = coalesceChangeType (sy_tracker ?s i) Update" by (simp add: t coalesceChangeType_def)
  ultimately show ?thesis
    using updateWorkflow_queues [OF idle assms(3) w m, of Delete G H now "\<lambda>flow. flow\<lparr>wf_name := name\<rparr>" service]
    by (auto simp: updateWorkflowName_def)
qed

theorem delete_of_unknown_workflow_sticks_witness:
  "\<exists>data store'. run_microtasks (workflow_options sample_json) sample_host ''t''
      (snd (updateWorkflowName sample_json sample_env ''w1'' ''new''
         (upsertWorkflowFromSync sample_json (sample_workflow 4 ''old'')
            (deleteWorkflow sample_json sample_env ''w1'' (synced_init workflow_store_init)))), sample_sync) =
      (store', queueChange sample_host ''t'' Workflow ''w1'' Delete data sample_sync) \<and>
    json_member ''is_deleted'' data = Some (JBool False)"
  by (rule delete_of_unknown_workflow_sticks [where u = "''u''"])
    (simp_all add: synced_init_def workflow_store_init_def getWorkflow_def sample_workflow_def sample_store_facts)

end
