(* ===== verification/Scenario_Store.thy ===== *)
theory Scenario_Store
  imports Workflow_Store
begin

text \<open>
  \<^verbatim>\<open>src/ui-v2/src/modules/workflow/stores/scenario.store.sync.ts\<close>: the client store of
  scenarios. Beside the merge by version it keeps, for every scenario it edits, the test order a
  permutation-free cover of the scenario's tests, which the execution of a scenario relies on.
\<close>

record scenario =
  sn_id :: string
  sn_projectId :: string
  sn_workflowId :: string
  sn_name :: string
  sn_description :: "string option"
  sn_tests :: "scenario_test list"
  sn_testOrder :: "string list"
  sn_meta :: sync_meta

record scenario_store =
  sn_scenarios :: "(string \<times> scenario) list"
  sn_activeByWorkflow :: "(string \<times> string option) list"
  sn_currentEntityId :: "string option"

definition scenario_store_init :: scenario_store where
  "scenario_store_init = \<lparr>sn_scenarios = [], sn_activeByWorkflow = [], sn_currentEntityId = None\<rparr>"

definition deriveOrder :: "scenario_test list \<Rightarrow> string list option \<Rightarrow> string list" where
  "deriveOrder tests order =
     (let existing = filter (\<lambda>i. list_ex (\<lambda>t. st_id t = i) tests) (nullish order []);
          missing = filter (\<lambda>i. i \<notin> set existing) (map st_id tests)
      in existing @ missing)"

definition serializeScenario :: "graph_json \<Rightarrow> scenario_store \<Rightarrow> string \<Rightarrow> json option" where
  "serializeScenario G state entityId =
     (case map_of (sn_scenarios state) entityId of
        None \<Rightarrow> None
      | Some scenario \<Rightarrow>
          Some (JObj ([(''id'', JStr (sn_id scenario)), (''project_id'', JStr (sn_projectId scenario)),
             (''workflow_id'', JStr (sn_workflowId scenario)), (''name'', JStr (sn_name scenario)),
             (''description'', JStr (or_str (sn_description scenario) [])),
             (''tests_config'', gj_tests G (sn_tests scenario)), (''test_order'', str_list (sn_testOrder scenario)),
             (''metadata'', JObj [])] @ meta_fields (sn_meta scenario))))"

definition scenario_options :: "graph_json \<Rightarrow> scenario_store sync_options" where
  "scenario_options G =
     \<lparr>so_enabled = True, so_entityType = Scenario, so_getEntityId = sn_currentEntityId,
      so_serializeEntity = serializeScenario G\<rparr>"

type_synonym scenario_synced = "scenario_store synced"

definition createScenario ::
  "graph_json \<Rightarrow> sync_env \<Rightarrow> workflow_synced \<Rightarrow> string \<Rightarrow> string \<Rightarrow> string option \<Rightarrow> scenario_synced \<Rightarrow>
   string res \<times> scenario_synced" where
  "createScenario G E workflows i workflowId name store =
     (case addSyncMetadata E None None None of
        Inl e \<Rightarrow> (Inl e, store)
      | Inr meta \<Rightarrow>
          (let projectId = (case getWorkflow workflowId workflows of Some w \<Rightarrow> wf_projectId w | None \<Rightarrow> []);
               scenario = \<lparr>sn_id = i, sn_projectId = projectId, sn_workflowId = workflowId,
                 sn_name = nullish name ''New Scenario'', sn_description = Some [], sn_tests = [], sn_testOrder = [],
                 sn_meta = meta\<rparr>
           in (Inr i, syncSet (scenario_options G)
                 (\<lambda>state. state\<lparr>sn_scenarios := AList.update i scenario (sn_scenarios state),
                    sn_activeByWorkflow := AList.update workflowId (Some i) (sn_activeByWorkflow state),
                    sn_currentEntityId := Some i\<rparr>)
                 (trackSync i Insert store))))"

text \<open>The fields of a partial update: \<open>None\<close> for one that is not given.\<close>

record scenario_updates =
  up_name :: "string option"
  up_description :: "string option"
  up_tests :: "scenario_test list option"
  up_testOrder :: "string list option"

definition updateScenario ::
  "graph_json \<Rightarrow> sync_env \<Rightarrow> string \<Rightarrow> scenario_updates \<Rightarrow> scenario_synced \<Rightarrow> unit res \<times> scenario_synced" where
  "updateScenario G E scenarioId updates store =
     (case map_of (sn_scenarios (sy_state store)) scenarioId of
        None \<Rightarrow> (Inr (), store)
      | Some current \<Rightarrow>
          (let store' = trackSync scenarioId Update store;
               nextTests = nullish (up_tests updates) (sn_tests current);
               nextOrder = deriveOrder nextTests (orElse (up_testOrder updates) (Some (sn_testOrder current)))
           in case bump_metadata E (sn_meta current) of
                Inl e \<Rightarrow> (Inl e, store')
              | Inr meta \<Rightarrow>
                  (Inr (), syncSet (scenario_options G)
                     (\<lambda>state. state\<lparr>sn_scenarios := AList.update scenarioId
                          (current\<lparr>sn_name := nullish (up_name updates) (sn_name current),
                             sn_description := orElse (up_description updates) (sn_description current),
                             sn_tests := nextTests, sn_testOrder := nextOrder, sn_meta := meta\<rparr>) (sn_scenarios state),
                        sn_currentEntityId := Some scenarioId\<rparr>) store')))"

definition deleteScenario :: "graph_json \<Rightarrow> sync_env \<Rightarrow> string \<Rightarrow> scenario_synced \<Rightarrow> scenario_synced" where
  "deleteScenario G E scenarioId store =
     (case map_of (sn_scenarios (sy_state store)) scenarioId of
        None \<Rightarrow> store
      | Some scenario \<Rightarrow>
          syncSet (scenario_options G)
            (\<lambda>state.
               let active = Option.bind (map_of (sn_activeByWorkflow state) (sn_workflowId scenario)) (\<lambda>a. a)
               in state\<lparr>sn_scenarios := AList.update scenarioId
                      (scenario\<lparr>sn_meta := markAsDeleted E (sn_meta scenario)\<rparr>) (sn_scenarios state),
                    sn_activeByWorkflow := AList.update (sn_workflowId scenario)
                      (if active = Some scenarioId then None else active) (sn_activeByWorkflow state),
                    sn_currentEntityId := Some scenarioId\<rparr>)
            (trackSync scenarioId Delete store))"

definition setActiveScenario :: "graph_json \<Rightarrow> string \<Rightarrow> string option \<Rightarrow> scenario_synced \<Rightarrow> scenario_synced" where
  "setActiveScenario G workflowId scenarioId store =
     syncSet (scenario_options G)
       (\<lambda>state. state\<lparr>sn_activeByWorkflow := AList.update workflowId scenarioId (sn_activeByWorkflow state)\<rparr>) store"

definition getScenario :: "string \<Rightarrow> scenario_synced \<Rightarrow> scenario option" where
  "getScenario scenarioId store = map_of (sn_scenarios (sy_state store)) scenarioId"

definition getScenariosByWorkflow ::
  "(string \<Rightarrow> string \<Rightarrow> int) \<Rightarrow> string \<Rightarrow> scenario_synced \<Rightarrow> scenario list" where
  "getScenariosByWorkflow localeCompare workflowId store =
     js_sort (\<lambda>l r. localeCompare (sm_updated_at (sn_meta r)) (sm_updated_at (sn_meta l)))
       (filter (\<lambda>s. sn_workflowId s = workflowId \<and> \<not> sm_is_deleted (sn_meta s)) (map snd (sn_scenarios (sy_state store))))"

definition getActiveScenarioForWorkflow ::
  "(string \<Rightarrow> string \<Rightarrow> int) \<Rightarrow> string \<Rightarrow> scenario_synced \<Rightarrow> scenario option" where
  "getActiveScenarioForWorkflow localeCompare workflowId store =
     (case Option.bind (map_of (sn_activeByWorkflow (sy_state store)) workflowId) (\<lambda>a. a) of
        Some (c # cs) \<Rightarrow> getScenario (c # cs) store
      | _ \<Rightarrow> (case getScenariosByWorkflow localeCompare workflowId store of [] \<Rightarrow> None | s # _ \<Rightarrow> Some s))"

text \<open>The two ways a pulled scenario enters the store; both choose it where no scenario is active.\<close>

definition put_scenario :: "scenario \<Rightarrow> scenario_store \<Rightarrow> scenario_store" where
  "put_scenario scenario state =
     state\<lparr>sn_scenarios := AList.update (sn_id scenario) scenario (sn_scenarios state),
           sn_activeByWorkflow := AList.update (sn_workflowId scenario)
             (orElse (Option.bind (map_of (sn_activeByWorkflow state) (sn_workflowId scenario)) (\<lambda>a. a)) (Some (sn_id scenario)))
             (sn_activeByWorkflow state)\<rparr>"

definition upsertScenarioFromSync :: "graph_json \<Rightarrow> scenario \<Rightarrow> scenario_synced \<Rightarrow> scenario_synced" where
  "upsertScenarioFromSync G scenario store =
     syncSet (scenario_options G)
       (\<lambda>state. case map_of (sn_scenarios state) (sn_id scenario) of
          Some existing \<Rightarrow>
            if keeps_local (sn_meta existing) (sn_meta scenario) then state else put_scenario scenario state
        | None \<Rightarrow> put_scenario scenario state) store"

definition replaceScenarioFromSync :: "graph_json \<Rightarrow> scenario \<Rightarrow> scenario_synced \<Rightarrow> scenario_synced" where
  "replaceScenarioFromSync G scenario store = syncSet (scenario_options G) (put_scenario scenario) store"

section \<open>Properties\<close>

interpretation scenario_lww: lww_store "\<lambda>s i. getScenario i s" sn_id sn_meta "upsertScenarioFromSync G" for G
  by unfold_locales (auto simp: upsertScenarioFromSync_def getScenario_def put_scenario_def split: option.splits)

lemma deriveOrder_set: "set (deriveOrder tests order) = st_id ` set tests"
  by (auto simp: deriveOrder_def list_ex_iff)

lemma deriveOrder_distinct:
  "distinct (map st_id tests) \<Longrightarrow> distinct (nullish order []) \<Longrightarrow> distinct (deriveOrder tests order)"
  by (auto simp: deriveOrder_def)

text \<open>A scenario whose order lists each of its tests exactly once.\<close>

definition order_ok :: "scenario \<Rightarrow> bool" where
  "order_ok s \<longleftrightarrow> distinct (map st_id (sn_tests s)) \<and> distinct (sn_testOrder s) \<and>
     set (sn_testOrder s) = st_id ` set (sn_tests s)"

text \<open>
  Editing a scenario keeps its test order a duplicate-free listing of exactly its tests:
  whatever part of the scenario is edited, removed tests leave the order, new tests are appended in
  their own order and the kept ones stay in theirs.
\<close>

theorem updateScenario_keeps_order:
  assumes "getScenario i store = Some s" "order_ok s" "getUserId (env_browser E) = Inr u"
    and "distinct (map st_id (nullish (up_tests updates) []))" "distinct (nullish (up_testOrder updates) [])"
  shows "\<exists>s'. getScenario i (snd (updateScenario G E i updates store)) = Some s' \<and> order_ok s' \<and>
    sn_tests s' = nullish (up_tests updates) (sn_tests s) \<and>
    (\<exists>new. sn_testOrder s' =
       filter (\<lambda>t. t \<in> st_id ` set (sn_tests s')) (nullish (up_testOrder updates) (sn_testOrder s)) @ new)"
proof -
  obtain m where m: "bump_metadata E (sn_meta s) = Inr m" using bump_metadata_total [OF assms(3)] by blast
  define tests where "tests = nullish (up_tests updates) (sn_tests s)"
  define order where "order = orElse (up_testOrder updates) (Some (sn_testOrder s))"
  define s' where "s' = s\<lparr>sn_name := nullish (up_name updates) (sn_name s),
      sn_description := orElse (up_description updates) (sn_description s),
      sn_tests := tests, sn_testOrder := deriveOrder tests order, sn_meta := m\<rparr>"
  have g: "getScenario i (snd (updateScenario G E i updates store)) = Some s'"
    using assms(1) m by (simp add: getScenario_def updateScenario_def s'_def tests_def order_def)
  have dt: "distinct (map st_id tests)" and do: "distinct (nullish order [])"
    using assms(2,4,5) by (auto simp: tests_def order_def order_ok_def js_opt split: option.splits)
  have "nullish order [] = nullish (up_testOrder updates) (sn_testOrder s)"
    by (auto simp: order_def js_opt split: option.splits)
  then have "\<exists>new. deriveOrder tests order =
      filter (\<lambda>t. t \<in> st_id ` set tests) (nullish (up_testOrder updates) (sn_testOrder s)) @ new"
    by (auto simp: deriveOrder_def list_ex_iff image_iff intro!: filter_cong)
  then show ?thesis
    using g dt deriveOrder_distinct [OF dt do] deriveOrder_set [of tests order]
    by (simp add: order_ok_def s'_def tests_def)
qed

definition sample_scenario :: scenario where
  "sample_scenario = \<lparr>sn_id = ''s1'', sn_projectId = ''p'', sn_workflowId = ''w1'', sn_name = ''smoke'', sn_description = None,
     sn_tests = [], sn_testOrder = [], sn_meta = wf_meta (sample_workflow 1 [])\<rparr>"

definition sample_scenarios :: scenario_synced where
  "sample_scenarios = synced_init (scenario_store_init\<lparr>sn_scenarios := [(''s1'', sample_scenario)]\<rparr>)"

definition no_updates :: scenario_updates where
  "no_updates = \<lparr>up_name = None, up_description = None, up_tests = None, up_testOrder = None\<rparr>"

theorem updateScenario_keeps_order_witness:
  "\<exists>s'. getScenario ''s1'' (snd (updateScenario sample_json sample_env ''s1'' no_updates sample_scenarios)) = Some s' \<and>
     order_ok s'"
proof -
  have "getScenario ''s1'' sample_scenarios = Some sample_scenario"
    by (simp add: sample_scenarios_def synced_init_def scenario_store_init_def getScenario_def)
  moreover have "order_ok sample_scenario" by (simp add: sample_scenario_def order_ok_def)
  moreover have "distinct (map st_id (nullish (up_tests no_updates) []))" "distinct (nullish (up_testOrder no_updates) [])"
    by (simp_all add: no_updates_def nullish_def)
  ultimately show ?thesis
    using updateScenario_keeps_order [OF _ _ sample_store_facts(4), of "''s1''" sample_scenarios sample_scenario no_updates sample_json]
    by blast
qed

text \<open>
  Pulled scenarios converge as pulled workflows do, and pulling never changes which scenario
  is active for a workflow that has one.
\<close>

theorem pulled_scenarios_converge:
  assumes "sn_id a \<noteq> sn_id b \<or> \<not> same_stamp (sn_meta a) (sn_meta b)"
    and "map_of (sn_activeByWorkflow (sy_state s)) k = Some (Some active)"
  shows "getScenario i (upsertScenarioFromSync G a (upsertScenarioFromSync G b s)) =
      getScenario i (upsertScenarioFromSync G b (upsertScenarioFromSync G a s)) \<and>
    map_of (sn_activeByWorkflow (sy_state (upsertScenarioFromSync G a s))) k = Some (Some active)"
  using scenario_lww.pull_commutes [OF assms(1)] assms(2)
  by (auto simp: upsertScenarioFromSync_def put_scenario_def orElse_def split: option.splits)

theorem pulled_scenarios_converge_witness:
  "map_of (sn_activeByWorkflow (sy_state (upsertScenarioFromSync sample_json (sample_scenario\<lparr>sn_id := ''s2''\<rparr>)
      (setActiveScenario sample_json ''w1'' (Some ''s1'') sample_scenarios)))) ''w1'' = Some (Some ''s1'')"
  using pulled_scenarios_converge [of "sample_scenario\<lparr>sn_id := ''s2''\<rparr>" sample_scenario
      "setActiveScenario sample_json ''w1'' (Some ''s1'') sample_scenarios" "''w1''" "''s1''" "''s1''" sample_json]
  by (simp add: sample_scenario_def setActiveScenario_def)

end
