(* ===== verification/Run_Events.thy ===== *)
theory Run_Events
  imports Flow_Types
begin

text \<open>
  \<^verbatim>\<open>src/ui-v2/src/modules/workflow/lib/realtime-events.ts\<close> and
  \<^verbatim>\<open>workflow-run-events.ts\<close>: how the events of a run become the states that are shown. Statuses
  that arrive from the network are strings; those the program computes are constructors.
  The theory shows that the replay cursor only moves forward, that merging event sources keeps one event
  per key (the last one) in time order, and which statuses survive late events.
\<close>

subsection \<open>Statuses\<close>

definition workflow_status_name :: "workflow_run_status \<Rightarrow> string" where
  "workflow_status_name s =
     (case s of W_pending \<Rightarrow> ''pending'' | W_running \<Rightarrow> ''running'' | W_cancelling \<Rightarrow> ''cancelling''
      | W_cancelled \<Rightarrow> ''cancelled'' | W_completed \<Rightarrow> ''completed'' | W_failed \<Rightarrow> ''failed''
      | W_partial_failed \<Rightarrow> ''partial_failed'' | W_cleanup_failed \<Rightarrow> ''cleanup_failed'')"

text \<open>\<open>isWorkflowRunStatus\<close> narrows a string to the status it names.\<close>

definition isWorkflowRunStatus :: "string \<Rightarrow> workflow_run_status option" where
  "isWorkflowRunStatus value =
     (if value = ''pending'' then Some W_pending
      else if value = ''running'' then Some W_running
      else if value = ''cancelling'' then Some W_cancelling
      else if value = ''cancelled'' then Some W_cancelled
      else if value = ''completed'' then Some W_completed
      else if value = ''failed'' then Some W_failed
      else if value = ''partial_failed'' then Some W_partial_failed
      else if value = ''cleanup_failed'' then Some W_cleanup_failed
      else None)"

definition isWorkflowRunActive :: "workflow_run_status option \<Rightarrow> bool" where
  "isWorkflowRunActive status \<longleftrightarrow> status = Some W_pending \<or> status = Some W_running \<or> status = Some W_cancelling"

definition shouldPollExecutionFallback ::
  "string option \<Rightarrow> string option \<Rightarrow> workflow_run_status option \<Rightarrow> bool \<Rightarrow> bool" where
  "shouldPollExecutionFallback workflowRunId projectId status realtimeConnected \<longleftrightarrow>
     truthy_opt workflowRunId \<and> truthy_opt projectId \<and> isWorkflowRunActive status \<and> \<not> realtimeConnected"

definition workflowStatusFromLogEvent :: "string option \<Rightarrow> string option \<Rightarrow> workflow_run_status option" where
  "workflowStatusFromLogEvent scenarioId status =
     (if truthy_opt scenarioId then None else Option.bind status isWorkflowRunStatus)"

definition shouldNotifyTestRunCompletion :: "string option \<Rightarrow> bool \<Rightarrow> bool \<Rightarrow> bool \<Rightarrow> bool" where
  "shouldNotifyTestRunCompletion workflowRunId allComplete wasObservedActive alreadyNotified \<longleftrightarrow>
     truthy_opt workflowRunId \<and> allComplete \<and> wasObservedActive \<and> \<not> alreadyNotified"

record aggregated_scenario_result =
  as_scenarioId :: string
  as_scenarioName :: string
  as_error :: "string option"

text \<open>\<open>None\<close> stands for a result that is not an object with an array of scenario results.\<close>

definition extractWorkflowError ::
  "string option \<Rightarrow> aggregated_scenario_result list option \<Rightarrow> string option" where
  "extractWorkflowError explicitError scenarioResults =
     (if truthy_opt explicitError then explicitError
      else case scenarioResults of
        None \<Rightarrow> None
      | Some scenarios \<Rightarrow>
          drop_falsy (Some (join_with [CHR 10]
            (map (\<lambda>s. or_str (Some (as_scenarioName s)) (as_scenarioId s) @ '': '' @ nullish (as_error s) [])
               (filter (\<lambda>s. truthy_opt (as_error s)) scenarios)))))"

definition resolveScenarioLogStatus :: "scenario_run_status \<Rightarrow> string option \<Rightarrow> scenario_run_status" where
  "resolveScenarioLogStatus current eventStatus =
     (if eventStatus = Some ''cleanup_failed'' then S_cleanup_failed
      else if eventStatus = Some ''failed'' then S_failed
      else if eventStatus = Some ''completed'' then S_completed
      else if current = S_completed \<or> current = S_failed \<or> current = S_cleanup_failed then current
      else S_running)"

definition resolveScenarioTestStatus ::
  "scenario_run_status \<Rightarrow> test_result_status list \<Rightarrow> scenario_run_status" where
  "resolveScenarioTestStatus current results =
     (if R_failed \<in> set results then S_failed
      else if results \<noteq> [] \<and> list_all (\<lambda>r. r = R_passed) results then S_completed
      else if list_ex (\<lambda>r. r = R_running \<or> r = R_pending) results \<and>
              current \<noteq> S_completed \<and> current \<noteq> S_failed \<and> current \<noteq> S_cleanup_failed
        then S_running
      else current)"

subsection \<open>The replay cursor\<close>

text \<open>\<open>BigInt\<close> of a string: decimal with an optional sign, or digits after a radix prefix; \<open>None\<close> is
  the \<open>SyntaxError\<close>.\<close>

definition digit_of :: "char \<Rightarrow> nat" where
  "digit_of c = (let n = of_char c in
     if 48 \<le> n \<and> n \<le> 57 then n - 48 else if 97 \<le> n \<and> n \<le> 102 then n - 87
     else if 65 \<le> n \<and> n \<le> 70 then n - 55 else 16)"

definition digits_value :: "nat \<Rightarrow> string \<Rightarrow> nat option" where
  "digits_value radix s =
     (if s = [] \<or> list_ex (\<lambda>c. radix \<le> digit_of c) s then None
      else Some (foldl (\<lambda>n c. n * radix + digit_of c) 0 s))"

definition BigInt :: "string \<Rightarrow> int option" where
  "BigInt s0 =
     (let s = trim s0
      in if s = [] then Some 0
         else if take 2 s = ''0x'' \<or> take 2 s = ''0X'' then map_option int (digits_value 16 (drop 2 s))
         else if take 2 s = ''0o'' \<or> take 2 s = ''0O'' then map_option int (digits_value 8 (drop 2 s))
         else if take 2 s = ''0b'' \<or> take 2 s = ''0B'' then map_option int (digits_value 2 (drop 2 s))
         else if hd s = CHR ''-'' then map_option (\<lambda>n. - int n) (digits_value 10 (tl s))
         else if hd s = CHR ''+'' then map_option int (digits_value 10 (tl s))
         else map_option int (digits_value 10 s))"

definition isNewerEventId :: "string option \<Rightarrow> string \<Rightarrow> bool" where
  "isNewerEventId current candidate =
     (if candidate = [] then False
      else if \<not> truthy_opt current then True
      else case (BigInt candidate, BigInt (nullish current [])) of
        (Some new, Some old) \<Rightarrow> new > old
      | _ \<Rightarrow> Some candidate \<noteq> current)"

subsection \<open>What is shown of a run\<close>

datatype service_execution_state = SX_queued | SX_provisioning | SX_ready | SX_testing | SX_cleaning | SX_complete | SX_failed

datatype test_display_status =
  TD_pending | TD_running | TD_passed | TD_failed | TD_not_run | TD_not_recorded | TD_interrupted

record test_attempt =
  ta_attempt :: int
  ta_outcome :: string

text \<open>
  \<open>testRetryResult\<close> on the parts it reads of the value: the well-formed attempts and the two
  recovery flags.
\<close>

definition testRetryResult ::
  "test_attempt list option \<Rightarrow> bool option \<Rightarrow> bool option \<Rightarrow> test_attempt list \<times> bool" where
  "testRetryResult attempts0 recovered_after_retry recoveredAfterRetry =
     (let attempts = nullish attempts0 []
      in (attempts, nullish (orElse recovered_after_retry recoveredAfterRetry)
            (1 < length attempts \<and> ta_outcome (last attempts) = ''passed'')))"

definition isTerminalWorkflowStatus :: "workflow_run_status option \<Rightarrow> bool" where
  "isTerminalWorkflowStatus status =
     (case status of None \<Rightarrow> False | Some s \<Rightarrow> s \<notin> {W_pending, W_running, W_cancelling})"

definition isTerminalScenarioStatus :: "scenario_run_status option \<Rightarrow> bool" where
  "isTerminalScenarioStatus status =
     (case status of None \<Rightarrow> False | Some s \<Rightarrow> s \<notin> {S_pending, S_running, S_cancelling})"

definition resolveScenarioPresentationStatus ::
  "scenario_run_status option \<Rightarrow> workflow_run_status option \<Rightarrow> scenario_run_status" where
  "resolveScenarioPresentationStatus scenarioStatus workflowStatus =
     (if isTerminalScenarioStatus scenarioStatus then the scenarioStatus
      else if workflowStatus = Some W_completed then S_completed
      else if workflowStatus = Some W_cancelled then S_cancelled
      else if workflowStatus = Some W_cleanup_failed then S_cleanup_failed
      else if workflowStatus = Some W_failed \<or> workflowStatus = Some W_partial_failed then S_failed
      else nullish scenarioStatus S_pending)"

definition reconcileServiceExecutionState ::
  "service_execution_state \<Rightarrow> scenario_run_status option \<Rightarrow> workflow_run_status option \<Rightarrow> service_execution_state" where
  "reconcileServiceExecutionState current scenarioStatus workflowStatus =
     (if current = SX_failed then current
      else let resolvedScenario = resolveScenarioPresentationStatus scenarioStatus workflowStatus
           in if isTerminalScenarioStatus (Some resolvedScenario) \<or> isTerminalWorkflowStatus workflowStatus
              then SX_complete else current)"

definition normalizeActiveTestStatus :: "string option \<Rightarrow> test_display_status" where
  "normalizeActiveTestStatus status =
     (if status = Some ''started'' \<or> status = Some ''running'' \<or> status = Some ''retrying'' then TD_running
      else if status = Some ''passed'' then TD_passed
      else if status = Some ''failed'' then TD_failed
      else TD_pending)"

definition reconcileTestExecutionStatus ::
  "string option \<Rightarrow> string option \<Rightarrow> scenario_run_status option \<Rightarrow> workflow_run_status option \<Rightarrow> test_display_status" where
  "reconcileTestExecutionStatus eventStatus storedStatus scenarioStatus workflowStatus =
     (if storedStatus = Some ''passed'' then TD_passed
      else if storedStatus = Some ''failed'' then TD_failed
      else if eventStatus = Some ''passed'' then TD_passed
      else if eventStatus = Some ''failed'' then TD_failed
      else let resolvedScenario = resolveScenarioPresentationStatus scenarioStatus workflowStatus
           in if \<not> isTerminalScenarioStatus (Some resolvedScenario) \<and> \<not> isTerminalWorkflowStatus workflowStatus
              then normalizeActiveTestStatus (if truthy_opt eventStatus then eventStatus else storedStatus)
              else if resolvedScenario = S_completed then TD_not_recorded
              else if eventStatus = Some ''started'' \<or> eventStatus = Some ''running'' \<or> eventStatus = Some ''retrying'' \<or>
                      storedStatus = Some ''running'' then TD_interrupted
              else TD_not_run)"

text \<open>Positions are integers here, so every position present is finite.\<close>

definition executionNodePosition :: "(int \<times> int) option \<Rightarrow> nat \<Rightarrow> int \<times> int" where
  "executionNodePosition position index =
     nullish position (int (index mod 3) * 260, int (index div 3) * 160)"

subsection \<open>Merging event sources\<close>

record workflow_log_event =
  le_workflowRunId :: string
  le_projectId :: string
  le_workflowId :: string
  le_scenarioId :: "string option"
  le_scenarioName :: "string option"
  le_message :: string
  le_status :: "string option"
  le_stage :: "string option"
  le_kind :: "string option"
  le_activityStatus :: "string option"
  le_serviceName :: "string option"
  le_serviceNames :: "string list option"
  le_testName :: "string option"
  le_timestamp :: int
  le_sequence :: int
  le_error :: "string option"

definition eventKey :: "'a workflow_log_event_scheme \<Rightarrow> string" where
  "eventKey event =
     le_workflowRunId event @ '':'' @ or_str (le_scenarioId event) ''workflow'' @ '':'' @
     show_int (le_timestamp event) @ '':'' @ show_int (le_sequence event) @ '':'' @ or_str (le_kind event) ''log''"

definition event_order :: "'a workflow_log_event_scheme \<Rightarrow> 'a workflow_log_event_scheme \<Rightarrow> int" where
  "event_order left right =
     (let d = le_timestamp left - le_timestamp right
      in if d \<noteq> 0 then d else le_sequence left - le_sequence right)"

definition mergeWorkflowRunEvents :: "'a workflow_log_event_scheme list list \<Rightarrow> 'a workflow_log_event_scheme list" where
  "mergeWorkflowRunEvents sources =
     js_sort event_order (map snd (foldl (\<lambda>m e. AList.update (eventKey e) e m) [] (concat sources)))"

text \<open>\<open>slice(-limit)\<close>; a limit of 0 is \<open>slice(0)\<close>, the whole array.\<close>

definition operationalWorkflowRunEvents :: "'a list \<Rightarrow> nat option \<Rightarrow> 'a list" where
  "operationalWorkflowRunEvents events limit =
     (let n = nullish limit 2000 in if n = 0 then events else drop (length events - n) events)"

definition keyLogLines :: "string list \<Rightarrow> (string \<times> string) list" where
  "keyLogLines logs = map (\<lambda>(index, line). (''plain:'' @ show_nat index, line)) (enumerate 0 logs)"

section \<open>Merging\<close>

interpretation event_cmp: js_comparator event_order
  by unfold_locales (auto simp: event_order_def split: if_splits)

abbreviation by_key :: "'a workflow_log_event_scheme list \<Rightarrow> (string \<times> 'a workflow_log_event_scheme) list" where
  "by_key \<equiv> latest_by eventKey"

lemma merge_keys: "distinct (map eventKey (mergeWorkflowRunEvents sources))"
proof -
  have "distinct (map eventKey (js_sort event_order (map snd (by_key (concat sources)))))"
    using latest_by_distinct by (metis mset_eq_imp_distinct_iff mset_js_sort mset_map)
  then show ?thesis by (simp add: mergeWorkflowRunEvents_def latest_by_def)
qed

lemma merge_members:
  "e \<in> set (mergeWorkflowRunEvents sources) \<longleftrightarrow>
   e \<in> set (concat sources) \<and> last (filter (\<lambda>x. eventKey x = eventKey e) (concat sources)) = e"
  using latest_by_member [of e eventKey "concat sources"] by (simp add: mergeWorkflowRunEvents_def latest_by_def)

lemma by_key_distinct: "distinct (map eventKey xs) \<Longrightarrow> by_key xs = map (\<lambda>e. (eventKey e, e)) xs"
proof (induction xs rule: rev_induct)
  case (snoc e xs)
  then have "eventKey e \<notin> fst ` set (by_key xs)" by (auto simp: image_image)
  then have "AList.update (eventKey e) e (by_key xs) = by_key xs @ [(eventKey e, e)]"
    by (rule update_fresh)
  with snoc show ?case by (simp add: latest_by_snoc)
qed (simp add: latest_by_def)

text \<open>
  Merging the event sources of a run keeps, for every event key, exactly the last event with
  that key, without duplicates and in order of timestamp and sequence; merging the result again
  changes nothing.
\<close>

theorem mergeWorkflowRunEvents_correct:
  "sorted_wrt (\<lambda>a b. event_order a b \<le> 0) (mergeWorkflowRunEvents sources) \<and>
   distinct (map eventKey (mergeWorkflowRunEvents sources)) \<and>
   set (mergeWorkflowRunEvents sources) =
     {e \<in> set (concat sources). last (filter (\<lambda>x. eventKey x = eventKey e) (concat sources)) = e} \<and>
   mergeWorkflowRunEvents [mergeWorkflowRunEvents sources] = mergeWorkflowRunEvents sources"
proof -
  have sorted: "sorted_wrt (\<lambda>a b. event_order a b \<le> 0) (mergeWorkflowRunEvents sources)"
    unfolding mergeWorkflowRunEvents_def by (rule event_cmp.js_sort_sorted)
  have "mergeWorkflowRunEvents [mergeWorkflowRunEvents sources] =
      js_sort event_order (map snd (by_key (mergeWorkflowRunEvents sources)))"
    by (simp add: mergeWorkflowRunEvents_def [of "[mergeWorkflowRunEvents sources]"] latest_by_def)
  also have "\<dots> = mergeWorkflowRunEvents sources"
    by (simp add: by_key_distinct [OF merge_keys] comp_def event_cmp.js_sort_idle [OF sorted])
  finally have again: "mergeWorkflowRunEvents [mergeWorkflowRunEvents sources] = mergeWorkflowRunEvents sources" .
  have "set (mergeWorkflowRunEvents sources) =
     {e \<in> set (concat sources). last (filter (\<lambda>x. eventKey x = eventKey e) (concat sources)) = e}"
    using merge_members by blast
  with sorted merge_keys again show ?thesis by simp
qed

section \<open>Statuses under sequences of events\<close>

text \<open>The statuses a log event sets, and those a scenario never leaves for \<open>running\<close>.\<close>

definition log_verdict :: "string option \<Rightarrow> scenario_run_status option" where
  "log_verdict e =
     (if e = Some ''cleanup_failed'' then Some S_cleanup_failed
      else if e = Some ''failed'' then Some S_failed
      else if e = Some ''completed'' then Some S_completed else None)"

definition settled :: "scenario_run_status \<Rightarrow> bool" where
  "settled s \<longleftrightarrow> s \<in> {S_completed, S_failed, S_cleanup_failed}"

lemma resolve_verdict:
  "resolveScenarioLogStatus c e = (case log_verdict e of Some v \<Rightarrow> v | None \<Rightarrow> if settled c then c else S_running)"
  by (auto simp: resolveScenarioLogStatus_def log_verdict_def settled_def)

lemma verdict_settled: "log_verdict e = Some v \<Longrightarrow> settled v"
  by (auto simp: log_verdict_def settled_def split: if_splits)

text \<open>
  The status of a scenario run after any sequence of log events is the verdict of the last
  event that carries one (completed, failed or cleanup failed); without such an event a settled run
  keeps its status, and any other run, a cancelled one included, is shown as running.
\<close>

theorem scenario_status_after_log_events:
  "foldl resolveScenarioLogStatus current events =
   (case rev (concat (map (\<lambda>e. case log_verdict e of None \<Rightarrow> [] | Some v \<Rightarrow> [v]) events)) of
      v # _ \<Rightarrow> v
    | [] \<Rightarrow> if settled current \<or> events = [] then current else S_running)"
proof (induction events rule: rev_induct)
  case (snoc e es)
  define prev where "prev = foldl resolveScenarioLogStatus current es"
  have step: "foldl resolveScenarioLogStatus current (es @ [e]) =
      (case log_verdict e of Some v \<Rightarrow> v | None \<Rightarrow> if settled prev then prev else S_running)"
    by (simp add: prev_def resolve_verdict [symmetric])
  note IH = snoc.IH [folded prev_def]
  have run: "\<not> settled S_running" by (simp add: settled_def)
  show ?case
  proof (cases "log_verdict e")
    case (Some v)
    then show ?thesis unfolding step by simp
  next
    case None
    have "settled v" if "rev (concat (map (\<lambda>e. case log_verdict e of None \<Rightarrow> [] | Some v \<Rightarrow> [v]) es)) = v # vs" for v vs
    proof -
      have "v \<in> set (concat (map (\<lambda>e. case log_verdict e of None \<Rightarrow> [] | Some v \<Rightarrow> [v]) es))"
        by (metis list.set_intros(1) set_rev that)
      then show ?thesis by (auto split: option.splits intro: verdict_settled)
    qed
    then show ?thesis unfolding step using None run IH by (auto split: list.splits if_splits)
  qed
qed simp

text \<open>
  A scenario that was cancelled goes back to running with the next log event, even one whose
  status is \<open>cancelled\<close>, although cancelled counts as terminal when the run is shown.
\<close>

theorem cancelled_scenario_shown_running:
  "resolveScenarioLogStatus S_cancelled (Some ''cancelled'') = S_running \<and>
   resolveScenarioLogStatus S_cancelled (Some ''running'') = S_running \<and>
   isTerminalScenarioStatus (Some S_cancelled)"
  by (simp add: resolveScenarioLogStatus_def isTerminalScenarioStatus_def)

text \<open>
  A later batch of passed results turns a failed scenario run into a completed one: the
  derived status depends on the latest batch only.
\<close>

theorem failed_scenario_completed_by_later_batch:
  "resolveScenarioTestStatus (resolveScenarioTestStatus current [R_failed]) [R_passed] = S_completed"
  by (simp add: resolveScenarioTestStatus_def)

text \<open>
  Once the workflow run has ended, nothing is shown as in progress: whatever events and
  results are known, no test is shown pending or running, every service is complete or failed, and the
  scenario's shown status is terminal.
\<close>

theorem ended_run_shows_no_progress:
  assumes "isTerminalWorkflowStatus w"
  shows "reconcileTestExecutionStatus eventStatus storedStatus s w \<notin> {TD_pending, TD_running} \<and>
    reconcileServiceExecutionState state s w \<in> {SX_complete, SX_failed} \<and>
    isTerminalScenarioStatus (Some (resolveScenarioPresentationStatus s w))"
proof -
  have t: "isTerminalScenarioStatus (Some (resolveScenarioPresentationStatus s w))"
  proof (cases w)
    case (Some a)
    then show ?thesis using assms
      by (cases a) (auto simp: isTerminalWorkflowStatus_def resolveScenarioPresentationStatus_def
        isTerminalScenarioStatus_def nullish_def split: option.splits)
  qed (use assms in \<open>simp add: isTerminalWorkflowStatus_def\<close>)
  then show ?thesis
    using assms by (simp add: reconcileTestExecutionStatus_def reconcileServiceExecutionState_def)
qed

theorem ended_run_shows_no_progress_witness:
  "reconcileTestExecutionStatus (Some ''running'') None (Some S_running) (Some W_failed) \<notin> {TD_pending, TD_running}"
  using ended_run_shows_no_progress [of "Some W_failed" "Some ''running''" None "Some S_running"]
  by (simp add: isTerminalWorkflowStatus_def)

section \<open>The replay cursor\<close>

definition cursor_step :: "string option \<Rightarrow> string \<Rightarrow> string option" where
  "cursor_step cursor e = (if isNewerEventId cursor e then Some e else cursor)"

definition numeric_id :: "string \<Rightarrow> bool" where
  "numeric_id e \<longleftrightarrow> e \<noteq> [] \<and> BigInt e \<noteq> None"

lemma cursor_step_numeric:
  "numeric_id e \<Longrightarrow> cursor_step None e = Some e"
  "numeric_id c \<Longrightarrow> numeric_id e \<Longrightarrow>
   cursor_step (Some c) e = (if the (BigInt c) < the (BigInt e) then Some e else Some c)"
  by (auto simp: cursor_step_def isNewerEventId_def numeric_id_def js_opt)

text \<open>Processing numeric event ids in any order leaves the largest one.\<close>

lemma cursor_is_max:
  "numeric_id c \<Longrightarrow> list_all numeric_id es \<Longrightarrow>
   \<exists>m. foldl cursor_step (Some c) es = Some m \<and> m \<in> set (c # es) \<and>
     list_all (\<lambda>e. the (BigInt e) \<le> the (BigInt m)) (c # es)"
proof (induction es arbitrary: c)
  case (Cons e es)
  define d where "d = (if the (BigInt c) < the (BigInt e) then e else c)"
  have d: "cursor_step (Some c) e = Some d" "numeric_id d"
    using Cons.prems by (simp_all add: cursor_step_numeric d_def)
  from Cons.IH [OF d(2)] Cons.prems obtain m where "foldl cursor_step (Some d) es = Some m" "m \<in> set (d # es)"
    "list_all (\<lambda>e. the (BigInt e) \<le> the (BigInt m)) (d # es)" by auto
  then show ?case by (auto simp: d d_def split: if_splits)
qed simp

end
