(* ===== verification/Run_Stores.thy ===== *)
theory Run_Stores
  imports Workflow_Store Run_Events
begin

text \<open>
  The client stores of runs: \<^verbatim>\<open>execution.store.sync.ts\<close>, \<^verbatim>\<open>scenario-run.store.sync.ts\<close>
  and \<^verbatim>\<open>test-result.store.ts\<close> under \<^verbatim>\<open>src/ui-v2/src/modules/workflow/stores/\<close>. The clock
  \<open>Date.now()\<close> and the conversion of a time to its ISO text are arguments. An action whose metadata
  cannot be added (no signed-in user) throws from inside \<open>set\<close> and leaves the state as it was.
\<close>

definition opt_json :: "string \<Rightarrow> json option \<Rightarrow> (string \<times> json) list" where
  "opt_json k v = (case v of None \<Rightarrow> [] | Some j \<Rightarrow> [(k, j)])"

section \<open>Workflow executions\<close>

record queue_info =
  qi_position :: "int option"
  qi_queuedAt :: "string option"
  qi_workerConcurrency :: "int option"
  qi_estimatedRun :: "json option"
  qi_estimatedWait :: "json option"
  qi_estimatedTotal :: "json option"

record workflow_execution =
  ex_workflowRunId :: string
  ex_projectId :: string
  ex_workflowId :: string
  ex_status :: workflow_run_status
  ex_logs :: "string list"
  ex_result :: "json option"
  ex_error :: "string option"
  ex_startedAt :: int
  ex_finishedAt :: "int option"
  ex_scenarioRunIds :: "string list"
  ex_lastEventId :: "string option"
  ex_queue :: queue_info
  ex_meta :: sync_meta

record execution_store =
  es_executions :: "(string \<times> workflow_execution) list"
  es_activeWorkflowRunId :: "string option"
  es_currentEntityId :: "string option"

definition execution_store_init :: execution_store where
  "execution_store_init = \<lparr>es_executions = [], es_activeWorkflowRunId = None, es_currentEntityId = None\<rparr>"

definition no_queue_info :: queue_info where
  "no_queue_info = \<lparr>qi_position = None, qi_queuedAt = None, qi_workerConcurrency = None, qi_estimatedRun = None,
     qi_estimatedWait = None, qi_estimatedTotal = None\<rparr>"

definition time_json :: "(int \<Rightarrow> string) \<Rightarrow> int option \<Rightarrow> json" where
  "time_json toIso t = (case t of Some n \<Rightarrow> if n = 0 then JNull else JStr (toIso n) | None \<Rightarrow> JNull)"

definition serializeExecution :: "(int \<Rightarrow> string) \<Rightarrow> execution_store \<Rightarrow> string \<Rightarrow> json option" where
  "serializeExecution toIso state entityId =
     (case map_of (es_executions state) entityId of
        None \<Rightarrow> None
      | Some e \<Rightarrow>
          Some (JObj ([(''id'', JStr (ex_workflowRunId e)), (''project_id'', JStr (ex_projectId e)),
             (''workflow_id'', JStr (ex_workflowId e)), (''status'', JStr (workflow_status_name (ex_status e)))] @
             opt_json ''summary'' (ex_result e) @
             [(''logs'', str_list (ex_logs e)), (''error'', JStr (or_str (ex_error e) [])),
              (''started_at'', JStr (toIso (ex_startedAt e))), (''completed_at'', time_json toIso (ex_finishedAt e)),
              (''metadata'', JObj [(''scenario_run_ids'', str_list (ex_scenarioRunIds e))])] @
             meta_fields (ex_meta e))))"

definition execution_options :: "(int \<Rightarrow> string) \<Rightarrow> execution_store sync_options" where
  "execution_options toIso =
     \<lparr>so_enabled = True, so_entityType = Workflow_Run, so_getEntityId = es_currentEntityId,
      so_serializeEntity = serializeExecution toIso\<rparr>"

type_synonym execution_synced = "execution_store synced"

definition startExecution ::
  "(int \<Rightarrow> string) \<Rightarrow> sync_env \<Rightarrow> int \<Rightarrow> string \<Rightarrow> string \<Rightarrow> string \<Rightarrow> string list \<Rightarrow> execution_synced \<Rightarrow>
   unit res \<times> execution_synced" where
  "startExecution toIso E now projectId workflowId workflowRunId scenarioRunIds store =
     (case addSyncMetadata E None None None of
        Inl e \<Rightarrow> (Inl e, store)
      | Inr meta \<Rightarrow>
          (let execution = \<lparr>ex_workflowRunId = workflowRunId, ex_projectId = projectId, ex_workflowId = workflowId,
                 ex_status = W_pending, ex_logs = [], ex_result = None, ex_error = None, ex_startedAt = now,
                 ex_finishedAt = None, ex_scenarioRunIds = scenarioRunIds, ex_lastEventId = None,
                 ex_queue = no_queue_info, ex_meta = meta\<rparr>
           in (Inr (), syncSet (execution_options toIso)
                 (\<lambda>state. state\<lparr>es_executions := AList.update workflowRunId execution (es_executions state),
                    es_activeWorkflowRunId := Some workflowRunId, es_currentEntityId := Some workflowRunId\<rparr>)
                 (trackSync workflowRunId Insert store))))"

text \<open>The shape the updates share: an unknown run leaves the state, a known one gets a raised version.\<close>

definition updateExecution ::
  "(int \<Rightarrow> string) \<Rightarrow> sync_env \<Rightarrow> string \<Rightarrow> (workflow_execution \<Rightarrow> workflow_execution) \<Rightarrow> execution_synced \<Rightarrow>
   unit res \<times> execution_synced" where
  "updateExecution toIso E workflowRunId change store =
     (case map_of (es_executions (sy_state store)) workflowRunId of
        None \<Rightarrow> (Inr (), syncSet (execution_options toIso) (\<lambda>state. state) store)
      | Some execution \<Rightarrow>
          (case bump_metadata E (ex_meta execution) of
             Inl e \<Rightarrow> (Inl e, store)
           | Inr meta \<Rightarrow>
               (Inr (), syncSet (execution_options toIso)
                  (\<lambda>state. state\<lparr>es_executions :=
                       AList.update workflowRunId ((change execution)\<lparr>ex_meta := meta\<rparr>) (es_executions state),
                     es_currentEntityId := Some workflowRunId\<rparr>) store)))"

definition slice_last :: "nat \<Rightarrow> 'a list \<Rightarrow> 'a list" where
  "slice_last n xs = (if n = 0 then xs else drop (length xs - n) xs)"

definition appendLog ::
  "(int \<Rightarrow> string) \<Rightarrow> sync_env \<Rightarrow> string \<Rightarrow> string \<Rightarrow> execution_synced \<Rightarrow> unit res \<times> execution_synced" where
  "appendLog toIso E workflowRunId message store =
     updateExecution toIso E workflowRunId (\<lambda>e. e\<lparr>ex_logs := slice_last 500 (ex_logs e @ [message])\<rparr>) store"

definition updateExecutionStatus ::
  "(int \<Rightarrow> string) \<Rightarrow> sync_env \<Rightarrow> int \<Rightarrow> string \<Rightarrow> workflow_run_status \<Rightarrow> json option \<Rightarrow> string option \<Rightarrow>
   execution_synced \<Rightarrow> unit res \<times> execution_synced" where
  "updateExecutionStatus toIso E now workflowRunId status result error store =
     updateExecution toIso E workflowRunId
       (\<lambda>e. e\<lparr>ex_status := status, ex_result := orElse result (ex_result e), ex_error := orElse error (ex_error e),
              ex_finishedAt := (if isWorkflowRunActive (Some status) then ex_finishedAt e else Some now)\<rparr>) store"

definition completeExecution ::
  "(int \<Rightarrow> string) \<Rightarrow> sync_env \<Rightarrow> int \<Rightarrow> string \<Rightarrow> json option \<Rightarrow> execution_synced \<Rightarrow> unit res \<times> execution_synced" where
  "completeExecution toIso E now workflowRunId result store =
     updateExecutionStatus toIso E now workflowRunId W_completed result None store"

definition failExecution ::
  "(int \<Rightarrow> string) \<Rightarrow> sync_env \<Rightarrow> int \<Rightarrow> string \<Rightarrow> string \<Rightarrow> execution_synced \<Rightarrow> unit res \<times> execution_synced" where
  "failExecution toIso E now workflowRunId error store =
     updateExecution toIso E workflowRunId
       (\<lambda>e. e\<lparr>ex_status := W_failed, ex_error := Some error, ex_finishedAt := Some now\<rparr>) store"

definition updateReplayCursor :: "(int \<Rightarrow> string) \<Rightarrow> string \<Rightarrow> string \<Rightarrow> execution_synced \<Rightarrow> execution_synced" where
  "updateReplayCursor toIso workflowRunId eventId store =
     syncSet (execution_options toIso)
       (\<lambda>state. case map_of (es_executions state) workflowRunId of
          None \<Rightarrow> state
        | Some execution \<Rightarrow>
            if \<not> isNewerEventId (ex_lastEventId execution) eventId then state
            else state\<lparr>es_executions :=
              AList.update workflowRunId (execution\<lparr>ex_lastEventId := Some eventId\<rparr>) (es_executions state)\<rparr>) store"

definition updateQueueInfo :: "(int \<Rightarrow> string) \<Rightarrow> string \<Rightarrow> queue_info option \<Rightarrow> execution_synced \<Rightarrow> execution_synced" where
  "updateQueueInfo toIso workflowRunId queue store =
     (case queue of
        None \<Rightarrow> store
      | Some q \<Rightarrow>
          syncSet (execution_options toIso)
            (\<lambda>state. case map_of (es_executions state) workflowRunId of
               None \<Rightarrow> state
             | Some execution \<Rightarrow>
                 state\<lparr>es_executions :=
                   AList.update workflowRunId (execution\<lparr>ex_queue := q\<rparr>) (es_executions state)\<rparr>) store)"

definition getExecution :: "string \<Rightarrow> execution_synced \<Rightarrow> workflow_execution option" where
  "getExecution workflowRunId store = map_of (es_executions (sy_state store)) workflowRunId"

definition getActiveExecution :: "execution_synced \<Rightarrow> workflow_execution option" where
  "getActiveExecution store =
     (case es_activeWorkflowRunId (sy_state store) of
        Some (c # cs) \<Rightarrow> getExecution (c # cs) store
      | _ \<Rightarrow> None)"

definition getWorkflowExecutions :: "string \<Rightarrow> execution_synced \<Rightarrow> workflow_execution list" where
  "getWorkflowExecutions workflowId store =
     filter (\<lambda>e. ex_workflowId e = workflowId) (map snd (es_executions (sy_state store)))"

definition clearExecution :: "(int \<Rightarrow> string) \<Rightarrow> sync_env \<Rightarrow> string \<Rightarrow> execution_synced \<Rightarrow> execution_synced" where
  "clearExecution toIso E workflowRunId store =
     syncSet (execution_options toIso)
       (\<lambda>state. case map_of (es_executions state) workflowRunId of
          None \<Rightarrow> state
        | Some execution \<Rightarrow>
            state\<lparr>es_executions := AList.update workflowRunId
                (execution\<lparr>ex_meta := markAsDeleted E (ex_meta execution)\<rparr>) (es_executions state),
              es_activeWorkflowRunId := (if es_activeWorkflowRunId state = Some workflowRunId then None
                                         else es_activeWorkflowRunId state),
              es_currentEntityId := Some workflowRunId\<rparr>)
       (trackSync workflowRunId Delete store)"

text \<open>A pulled execution replaces the local one, except for the fields only this client knows.\<close>

definition upsertExecutionFromSync :: "(int \<Rightarrow> string) \<Rightarrow> workflow_execution \<Rightarrow> execution_synced \<Rightarrow> execution_synced" where
  "upsertExecutionFromSync toIso execution store =
     syncSet (execution_options toIso)
       (\<lambda>state. let old = map_of (es_executions state) (ex_workflowRunId execution)
                in state\<lparr>es_executions := AList.update (ex_workflowRunId execution)
                     (execution\<lparr>ex_lastEventId := Option.bind old ex_lastEventId,
                        ex_queue := nullish (map_option ex_queue old) no_queue_info\<rparr>) (es_executions state)\<rparr>) store"

section \<open>Scenario runs\<close>

record scenario_run =
  sr_id :: string
  sr_projectId :: string
  sr_workflowRunId :: string
  sr_workflowId :: string
  sr_scenarioId :: string
  sr_scenarioName :: string
  sr_backendSessionId :: "string option"
  sr_status :: scenario_run_status
  sr_result :: "json option"
  sr_error :: "string option"
  sr_phase :: "string option"
  sr_checkpointIndex :: "int option"
  sr_logs :: "string list"
  sr_startedAt :: int
  sr_finishedAt :: "int option"
  sr_meta :: sync_meta

record scenario_run_store =
  rn_scenarioRuns :: "(string \<times> scenario_run) list"
  rn_currentEntityId :: "string option"

definition scenario_status_name :: "scenario_run_status \<Rightarrow> string" where
  "scenario_status_name s =
     (case s of S_pending \<Rightarrow> ''pending'' | S_running \<Rightarrow> ''running'' | S_cancelling \<Rightarrow> ''cancelling''
      | S_cancelled \<Rightarrow> ''cancelled'' | S_completed \<Rightarrow> ''completed'' | S_failed \<Rightarrow> ''failed''
      | S_cleanup_failed \<Rightarrow> ''cleanup_failed'')"

definition serializeScenarioRun :: "(int \<Rightarrow> string) \<Rightarrow> scenario_run_store \<Rightarrow> string \<Rightarrow> json option" where
  "serializeScenarioRun toIso state entityId =
     (case map_of (rn_scenarioRuns state) entityId of
        None \<Rightarrow> None
      | Some run \<Rightarrow>
          Some (JObj ([(''id'', JStr (sr_id run)), (''project_id'', JStr (sr_projectId run)),
             (''workflow_run_id'', JStr (sr_workflowRunId run)), (''workflow_id'', JStr (sr_workflowId run)),
             (''scenario_id'', JStr (sr_scenarioId run)), (''scenario_name'', JStr (sr_scenarioName run)),
             (''backend_session_id'', JStr (or_str (sr_backendSessionId run) [])),
             (''status'', JStr (scenario_status_name (sr_status run)))] @ opt_json ''result'' (sr_result run) @
             [(''logs'', str_list (sr_logs run)), (''error'', JStr (or_str (sr_error run) [])),
              (''started_at'', JStr (toIso (sr_startedAt run))), (''completed_at'', time_json toIso (sr_finishedAt run))] @
             meta_fields (sr_meta run))))"

definition scenario_run_options :: "(int \<Rightarrow> string) \<Rightarrow> scenario_run_store sync_options" where
  "scenario_run_options toIso =
     \<lparr>so_enabled = True, so_entityType = Scenario_Run, so_getEntityId = rn_currentEntityId,
      so_serializeEntity = serializeScenarioRun toIso\<rparr>"

type_synonym scenario_run_synced = "scenario_run_store synced"

definition startScenarioRun ::
  "(int \<Rightarrow> string) \<Rightarrow> sync_env \<Rightarrow> int \<Rightarrow> string \<Rightarrow> string \<Rightarrow> string \<Rightarrow> string \<Rightarrow> string \<Rightarrow> string \<Rightarrow>
   scenario_run_synced \<Rightarrow> string res \<times> scenario_run_synced" where
  "startScenarioRun toIso E now i projectId workflowRunId workflowId scenarioId scenarioName store =
     (case addSyncMetadata E None None None of
        Inl e \<Rightarrow> (Inl e, store)
      | Inr meta \<Rightarrow>
          (let run = \<lparr>sr_id = i, sr_projectId = projectId, sr_workflowRunId = workflowRunId, sr_workflowId = workflowId,
                 sr_scenarioId = scenarioId, sr_scenarioName = scenarioName, sr_backendSessionId = None,
                 sr_status = S_pending, sr_result = None, sr_error = None, sr_phase = None, sr_checkpointIndex = None,
                 sr_logs = [], sr_startedAt = now, sr_finishedAt = None, sr_meta = meta\<rparr>
           in (Inr i, syncSet (scenario_run_options toIso)
                 (\<lambda>state. state\<lparr>rn_scenarioRuns := AList.update i run (rn_scenarioRuns state),
                    rn_currentEntityId := Some i\<rparr>) (trackSync i Insert store))))"

definition update_scenario_run ::
  "(int \<Rightarrow> string) \<Rightarrow> sync_env \<Rightarrow> string \<Rightarrow> (scenario_run \<Rightarrow> scenario_run) \<Rightarrow> scenario_run_synced \<Rightarrow>
   unit res \<times> scenario_run_synced" where
  "update_scenario_run toIso E scenarioRunId change store =
     (case map_of (rn_scenarioRuns (sy_state store)) scenarioRunId of
        None \<Rightarrow> (Inr (), syncSet (scenario_run_options toIso) (\<lambda>state. state) store)
      | Some run \<Rightarrow>
          (case bump_metadata E (sr_meta run) of
             Inl e \<Rightarrow> (Inl e, store)
           | Inr meta \<Rightarrow>
               (Inr (), syncSet (scenario_run_options toIso)
                  (\<lambda>state. state\<lparr>rn_scenarioRuns :=
                       AList.update scenarioRunId ((change run)\<lparr>sr_meta := meta\<rparr>) (rn_scenarioRuns state),
                     rn_currentEntityId := Some scenarioRunId\<rparr>) store)))"

definition appendScenarioLog ::
  "(int \<Rightarrow> string) \<Rightarrow> sync_env \<Rightarrow> string \<Rightarrow> string \<Rightarrow> scenario_run_synced \<Rightarrow> unit res \<times> scenario_run_synced" where
  "appendScenarioLog toIso E scenarioRunId message store =
     update_scenario_run toIso E scenarioRunId (\<lambda>run. run\<lparr>sr_logs := sr_logs run @ [message]\<rparr>) store"

record scenario_run_updates =
  ru_backendSessionId :: "string option"
  ru_status :: "scenario_run_status option"
  ru_result :: "json option"
  ru_error :: "string option"
  ru_finishedAt :: "int option"
  ru_phase :: "string option"
  ru_checkpointIndex :: "int option"

definition updateScenarioRun ::
  "(int \<Rightarrow> string) \<Rightarrow> sync_env \<Rightarrow> int \<Rightarrow> string \<Rightarrow> scenario_run_updates \<Rightarrow> scenario_run_synced \<Rightarrow>
   unit res \<times> scenario_run_synced" where
  "updateScenarioRun toIso E now scenarioRunId updates store =
     update_scenario_run toIso E scenarioRunId
       (\<lambda>run. run\<lparr>sr_backendSessionId := orElse (ru_backendSessionId updates) (sr_backendSessionId run),
          sr_status := nullish (ru_status updates) (sr_status run),
          sr_result := orElse (ru_result updates) (sr_result run),
          sr_error := orElse (ru_error updates) (sr_error run),
          sr_phase := orElse (ru_phase updates) (sr_phase run),
          sr_checkpointIndex := orElse (ru_checkpointIndex updates) (sr_checkpointIndex run),
          sr_finishedAt := orElse (ru_finishedAt updates)
            (case ru_status updates of
               Some status \<Rightarrow> if status \<noteq> S_running then Some now else sr_finishedAt run
             | None \<Rightarrow> sr_finishedAt run)\<rparr>) store"

definition scenario_run_order :: "scenario_run \<Rightarrow> scenario_run \<Rightarrow> int" where
  "scenario_run_order left right = sr_startedAt left - sr_startedAt right"

definition getScenarioRunsByWorkflowRun :: "string \<Rightarrow> scenario_run_synced \<Rightarrow> scenario_run list" where
  "getScenarioRunsByWorkflowRun workflowRunId store =
     js_sort scenario_run_order
       (filter (\<lambda>run. sr_workflowRunId run = workflowRunId \<and> \<not> sm_is_deleted (sr_meta run))
          (map snd (rn_scenarioRuns (sy_state store))))"

definition upsertScenarioRunFromSync :: "(int \<Rightarrow> string) \<Rightarrow> scenario_run \<Rightarrow> scenario_run_synced \<Rightarrow> scenario_run_synced" where
  "upsertScenarioRunFromSync toIso run store =
     syncSet (scenario_run_options toIso)
       (\<lambda>state. state\<lparr>rn_scenarioRuns := AList.update (sr_id run) run (rn_scenarioRuns state)\<rparr>) store"

definition clearScenarioRun :: "(int \<Rightarrow> string) \<Rightarrow> sync_env \<Rightarrow> string \<Rightarrow> scenario_run_synced \<Rightarrow> scenario_run_synced" where
  "clearScenarioRun toIso E scenarioRunId store =
     syncSet (scenario_run_options toIso)
       (\<lambda>state. case map_of (rn_scenarioRuns state) scenarioRunId of
          None \<Rightarrow> state
        | Some run \<Rightarrow>
            state\<lparr>rn_scenarioRuns := AList.update scenarioRunId (run\<lparr>sr_meta := markAsDeleted E (sr_meta run)\<rparr>) (rn_scenarioRuns state),
              rn_currentEntityId := Some scenarioRunId\<rparr>)
       (trackSync scenarioRunId Delete store)"

section \<open>Test results\<close>

record test_result =
  tt_id :: string
  tt_projectId :: string
  tt_sessionId :: string
  tt_workflowRunId :: "string option"
  tt_workflowId :: string
  tt_scenarioRunId :: "string option"
  tt_scenarioId :: "string option"
  tt_scenarioName :: "string option"
  tt_testName :: string
  tt_testType :: string
  tt_status :: test_result_status
  tt_resultData :: json
  tt_durationMs :: int
  tt_executedAt :: string
  tt_containerLogs :: "(string \<times> string) list option"
  tt_meta :: sync_meta

record test_result_store =
  tr_testResults :: "(string \<times> test_result) list"
  tr_currentEntityId :: "string option"

text \<open>The fields of a partial result.\<close>

record test_result_updates =
  tu_projectId :: "string option"
  tu_sessionId :: "string option"
  tu_workflowRunId :: "string option"
  tu_workflowId :: "string option"
  tu_scenarioRunId :: "string option"
  tu_scenarioId :: "string option"
  tu_scenarioName :: "string option"
  tu_testName :: "string option"
  tu_testType :: "string option"
  tu_status :: "test_result_status option"
  tu_resultData :: "json option"
  tu_durationMs :: "int option"
  tu_executedAt :: "string option"
  tu_containerLogs :: "(string \<times> string) list option"

definition test_status_name :: "test_result_status \<Rightarrow> string" where
  "test_status_name s = (case s of R_pending \<Rightarrow> ''pending'' | R_running \<Rightarrow> ''running'' | R_passed \<Rightarrow> ''passed'' | R_failed \<Rightarrow> ''failed'')"

definition opt_str_json :: "string \<Rightarrow> string option \<Rightarrow> (string \<times> json) list" where
  "opt_str_json k v = opt_json k (map_option JStr v)"

definition serializeTestResult :: "(json \<Rightarrow> string) \<Rightarrow> test_result_store \<Rightarrow> string \<Rightarrow> json option" where
  "serializeTestResult stringify state entityId =
     (case map_of (tr_testResults state) entityId of
        None \<Rightarrow> None
      | Some r \<Rightarrow>
          Some (JObj ([(''id'', JStr (tt_id r)), (''project_id'', JStr (tt_projectId r)), (''session_id'', JStr (tt_sessionId r))] @
             opt_str_json ''workflow_run_id'' (tt_workflowRunId r) @ [(''workflow_id'', JStr (tt_workflowId r))] @
             opt_str_json ''scenario_run_id'' (tt_scenarioRunId r) @ opt_str_json ''scenario_id'' (tt_scenarioId r) @
             opt_str_json ''scenario_name'' (tt_scenarioName r) @
             [(''test_name'', JStr (tt_testName r)), (''test_type'', JStr (tt_testType r)),
              (''status'', JStr (test_status_name (tt_status r))), (''result_data'', JStr (stringify (tt_resultData r))),
              (''duration_ms'', JNum (tt_durationMs r)), (''executed_at'', JStr (tt_executedAt r)),
              (''container_logs'', (case tt_containerLogs r of
                 Some logs \<Rightarrow> JStr (stringify (JObj (map (\<lambda>(k, v). (k, JStr v)) logs))) | None \<Rightarrow> JNull)),
              (''created_at'', JStr (sm_created_at (tt_meta r))), (''updated_at'', JStr (sm_updated_at (tt_meta r))),
              (''user_id'', JStr (sm_user_id (tt_meta r))), (''client_id'', JStr (sm_client_id (tt_meta r))),
              (''is_deleted'', JBool (sm_is_deleted (tt_meta r)))])))"

definition test_result_options :: "(json \<Rightarrow> string) \<Rightarrow> test_result_store sync_options" where
  "test_result_options stringify =
     \<lparr>so_enabled = True, so_entityType = Test_Result, so_getEntityId = tr_currentEntityId,
      so_serializeEntity = serializeTestResult stringify\<rparr>"

type_synonym test_result_synced = "test_result_store synced"

text \<open>The input of \<open>addTestResult\<close> is a result whose metadata is yet to be added.\<close>

definition addTestResult ::
  "(json \<Rightarrow> string) \<Rightarrow> sync_env \<Rightarrow> test_result \<Rightarrow> test_result_synced \<Rightarrow> unit res \<times> test_result_synced" where
  "addTestResult stringify E result store =
     (if map_of (tr_testResults (sy_state store)) (tt_id result) \<noteq> None then (Inr (), store)
      else case addSyncMetadata E None None None of
        Inl e \<Rightarrow> (Inl e, store)
      | Inr meta \<Rightarrow>
          (Inr (), syncSet (test_result_options stringify)
             (\<lambda>state. state\<lparr>tr_testResults := AList.update (tt_id result) (result\<lparr>tt_meta := meta\<rparr>) (tr_testResults state),
                tr_currentEntityId := Some (tt_id result)\<rparr>) store))"

definition updateTestResult ::
  "(json \<Rightarrow> string) \<Rightarrow> sync_env \<Rightarrow> string \<Rightarrow> test_result_updates \<Rightarrow> test_result_synced \<Rightarrow> unit res \<times> test_result_synced" where
  "updateTestResult stringify E i updates store =
     (let put = (\<lambda>r state. state\<lparr>tr_testResults := AList.update i r (tr_testResults state), tr_currentEntityId := Some i\<rparr>)
      in case map_of (tr_testResults (sy_state store)) i of
           None \<Rightarrow>
             if \<not> truthy_opt (tu_sessionId updates) \<or> \<not> truthy_opt (tu_workflowId updates) \<or>
                \<not> truthy_opt (tu_testName updates) \<or> \<not> truthy_opt (tu_testType updates) then (Inr (), store)
             else (case addSyncMetadata E None None None of
                Inl e \<Rightarrow> (Inl e, store)
              | Inr meta \<Rightarrow>
                  (Inr (), syncSet (test_result_options stringify)
                     (put \<lparr>tt_id = i, tt_projectId = nullish (tu_projectId updates) [],
                        tt_sessionId = nullish (tu_sessionId updates) [], tt_workflowRunId = tu_workflowRunId updates,
                        tt_workflowId = nullish (tu_workflowId updates) [], tt_scenarioRunId = tu_scenarioRunId updates,
                        tt_scenarioId = tu_scenarioId updates, tt_scenarioName = tu_scenarioName updates,
                        tt_testName = nullish (tu_testName updates) [], tt_testType = nullish (tu_testType updates) [],
                        tt_status = nullish (tu_status updates) R_pending, tt_resultData = nullish (tu_resultData updates) JNull,
                        tt_durationMs = nullish (tu_durationMs updates) 0,
                        tt_executedAt = nullish (tu_executedAt updates) (env_now E),
                        tt_containerLogs = tu_containerLogs updates, tt_meta = meta\<rparr>) store))
         | Some old \<Rightarrow>
             (case bump_metadata E (tt_meta old) of
                Inl e \<Rightarrow> (Inl e, store)
              | Inr meta \<Rightarrow>
                  (Inr (), syncSet (test_result_options stringify)
                     (put (old\<lparr>tt_projectId := nullish (tu_projectId updates) (tt_projectId old),
                        tt_sessionId := nullish (tu_sessionId updates) (tt_sessionId old),
                        tt_workflowRunId := orElse (tu_workflowRunId updates) (tt_workflowRunId old),
                        tt_workflowId := nullish (tu_workflowId updates) (tt_workflowId old),
                        tt_scenarioRunId := orElse (tu_scenarioRunId updates) (tt_scenarioRunId old),
                        tt_scenarioId := orElse (tu_scenarioId updates) (tt_scenarioId old),
                        tt_scenarioName := orElse (tu_scenarioName updates) (tt_scenarioName old),
                        tt_testName := nullish (tu_testName updates) (tt_testName old),
                        tt_testType := nullish (tu_testType updates) (tt_testType old),
                        tt_status := nullish (tu_status updates) (tt_status old),
                        tt_resultData := nullish (tu_resultData updates) (tt_resultData old),
                        tt_durationMs := nullish (tu_durationMs updates) (tt_durationMs old),
                        tt_executedAt := nullish (tu_executedAt updates) (tt_executedAt old),
                        tt_containerLogs := orElse (tu_containerLogs updates) (tt_containerLogs old),
                        tt_meta := meta\<rparr>)) store)))"

definition getTestResult :: "string \<Rightarrow> test_result_synced \<Rightarrow> test_result option" where
  "getTestResult i store =
     (case map_of (tr_testResults (sy_state store)) i of
        Some r \<Rightarrow> if sm_is_deleted (tt_meta r) then None else Some r
      | None \<Rightarrow> None)"

definition hasTestResult :: "string \<Rightarrow> test_result_synced \<Rightarrow> bool" where
  "hasTestResult i store =
     (case map_of (tr_testResults (sy_state store)) i of Some r \<Rightarrow> \<not> sm_is_deleted (tt_meta r) | None \<Rightarrow> False)"

definition deleteTestResult :: "(json \<Rightarrow> string) \<Rightarrow> sync_env \<Rightarrow> string \<Rightarrow> test_result_synced \<Rightarrow> test_result_synced" where
  "deleteTestResult stringify E i store =
     syncSet (test_result_options stringify)
       (\<lambda>state. case map_of (tr_testResults state) i of
          None \<Rightarrow> state
        | Some r \<Rightarrow> state\<lparr>tr_testResults := AList.update i (r\<lparr>tt_meta := markAsDeleted E (tt_meta r)\<rparr>) (tr_testResults state),
            tr_currentEntityId := Some i\<rparr>)
       (trackSync i Delete store)"

definition live_results :: "test_result_synced \<Rightarrow> test_result list" where
  "live_results store = filter (\<lambda>r. \<not> sm_is_deleted (tt_meta r)) (map snd (tr_testResults (sy_state store)))"

definition getTestResultsBySession :: "string \<Rightarrow> test_result_synced \<Rightarrow> test_result list" where
  "getTestResultsBySession sessionId store = filter (\<lambda>r. tt_sessionId r = sessionId) (live_results store)"

definition getTestResultsByScenario :: "string \<Rightarrow> test_result_synced \<Rightarrow> test_result list" where
  "getTestResultsByScenario scenarioId store = filter (\<lambda>r. tt_scenarioId r = Some scenarioId) (live_results store)"

definition getTestResultsByWorkflow :: "string \<Rightarrow> test_result_synced \<Rightarrow> test_result list" where
  "getTestResultsByWorkflow workflowId store = filter (\<lambda>r. tt_workflowId r = workflowId) (live_results store)"

definition upsertTestResultFromSync :: "(json \<Rightarrow> string) \<Rightarrow> test_result \<Rightarrow> test_result_synced \<Rightarrow> test_result_synced" where
  "upsertTestResultFromSync stringify incoming store =
     syncSet (test_result_options stringify)
       (\<lambda>state. case map_of (tr_testResults state) (tt_id incoming) of
          Some existing \<Rightarrow>
            if sm_version (tt_meta existing) > sm_version (tt_meta incoming) then state
            else state\<lparr>tr_testResults := AList.update (tt_id incoming) incoming (tr_testResults state)\<rparr>
        | None \<Rightarrow> state\<lparr>tr_testResults := AList.update (tt_id incoming) incoming (tr_testResults state)\<rparr>) store"

definition clearAllTestResults :: "(json \<Rightarrow> string) \<Rightarrow> sync_env \<Rightarrow> test_result_synced \<Rightarrow> test_result_synced" where
  "clearAllTestResults stringify E store =
     syncSet (test_result_options stringify)
       (\<lambda>state. state\<lparr>tr_testResults := map (\<lambda>(k, r). (k, r\<lparr>tt_meta := markAsDeleted E (tt_meta r)\<rparr>)) (tr_testResults state)\<rparr>) store"

section \<open>Properties\<close>

subsection \<open>Executions\<close>

lemma updateExecution_get:
  assumes "getExecution i store = Some e" "getUserId (env_browser E) = Inr u" "0 \<le> sm_version (ex_meta e)"
  shows "\<exists>m. getExecution i (snd (updateExecution toIso E i change store)) = Some ((change e)\<lparr>ex_meta := m\<rparr>) \<and>
    sm_version m = sm_version (ex_meta e) + 1"
proof -
  obtain m where m: "bump_metadata E (ex_meta e) = Inr m" using bump_metadata_total [OF assms(2)] by blast
  then have "getExecution i (snd (updateExecution toIso E i change store)) = Some ((change e)\<lparr>ex_meta := m\<rparr>)"
    using assms(1) by (simp add: getExecution_def updateExecution_def)
  then show ?thesis using bump_metadata_eq [OF m assms(3)] by blast
qed

lemma slice_last_snoc: "0 < n \<Longrightarrow> slice_last n (slice_last n xs @ [x]) = slice_last n (xs @ [x])"
proof (cases "n \<le> length xs")
  case True
  assume "0 < n"
  with True have "length (drop (length xs - n) xs @ [x]) - n = 1" by simp
  moreover have "drop 1 (drop (length xs - n) xs) = drop (Suc (length xs) - n) xs" using True by (simp add: Suc_diff_le)
  ultimately show ?thesis using True \<open>0 < n\<close> by (simp add: slice_last_def)
qed (simp add: slice_last_def)

lemma appendLog_logs:
  assumes u: "getUserId (env_browser E) = Inr u"
  shows "getExecution i store = Some e \<Longrightarrow> 0 \<le> sm_version (ex_meta e) \<Longrightarrow> ex_logs e = slice_last 500 old \<Longrightarrow>
    \<exists>e'. getExecution i (foldl (\<lambda>s m. snd (appendLog toIso E i m s)) store msgs) = Some e' \<and>
      ex_logs e' = slice_last 500 (old @ msgs) \<and> sm_version (ex_meta e') = sm_version (ex_meta e) + int (length msgs)"
proof (induction msgs arbitrary: store e old)
  case (Cons m ms)
  obtain meta where g: "getExecution i (snd (appendLog toIso E i m store)) =
      Some (e\<lparr>ex_logs := slice_last 500 (ex_logs e @ [m]), ex_meta := meta\<rparr>)" and v: "sm_version meta = sm_version (ex_meta e) + 1"
    using updateExecution_get [OF Cons.prems(1) u Cons.prems(2)] by (auto simp: appendLog_def)
  have "slice_last 500 (ex_logs e @ [m]) = slice_last 500 (old @ [m])" by (simp add: Cons.prems(3) slice_last_snoc)
  from Cons.IH [OF g _ _, of "old @ [m]"] this v Cons.prems(2) show ?case by (simp add: add.assoc)
qed simp

text \<open>
  The log of a run keeps the latest 500 lines: after appending any messages to a run whose
  log is empty it holds exactly the last 500 of them in order, and the version counts the messages.
\<close>

theorem run_log_keeps_last_500:
  assumes "getUserId (env_browser E) = Inr u" "getExecution i store = Some e" "ex_logs e = []" "0 \<le> sm_version (ex_meta e)"
  shows "\<exists>e'. getExecution i (foldl (\<lambda>s m. snd (appendLog toIso E i m s)) store msgs) = Some e' \<and>
    ex_logs e' = drop (length msgs - 500) msgs \<and> length (ex_logs e') \<le> 500 \<and>
    sm_version (ex_meta e') = sm_version (ex_meta e) + int (length msgs)"
proof -
  have "ex_logs e = slice_last 500 []" by (simp add: assms(3) slice_last_def)
  from appendLog_logs [OF assms(1,2,4) this, of toIso msgs] obtain e' where
    "getExecution i (foldl (\<lambda>s m. snd (appendLog toIso E i m s)) store msgs) = Some e'"
    "ex_logs e' = slice_last 500 ([] @ msgs)" "sm_version (ex_meta e') = sm_version (ex_meta e) + int (length msgs)"
    by blast
  then show ?thesis by (intro exI [of _ e']) (simp add: slice_last_def)
qed

definition sample_execution :: workflow_execution where
  "sample_execution = \<lparr>ex_workflowRunId = ''r'', ex_projectId = ''p'', ex_workflowId = ''w1'', ex_status = W_running,
     ex_logs = [], ex_result = None, ex_error = None, ex_startedAt = 1, ex_finishedAt = None, ex_scenarioRunIds = [],
     ex_lastEventId = None, ex_queue = no_queue_info, ex_meta = wf_meta (sample_workflow 1 [])\<rparr>"

definition sample_executions :: execution_synced where
  "sample_executions = synced_init (execution_store_init\<lparr>es_executions := [(''r'', sample_execution)]\<rparr>)"

lemma sample_executions_get: "getExecution ''r'' sample_executions = Some sample_execution"
  by (simp add: getExecution_def sample_executions_def synced_init_def execution_store_init_def)

theorem run_log_keeps_last_500_witness:
  "\<exists>e'. getExecution ''r'' (foldl (\<lambda>s m. snd (appendLog show_int sample_env ''r'' m s)) sample_executions [''a'', ''b'']) = Some e' \<and>
     ex_logs e' = [''a'', ''b'']"
  using run_log_keeps_last_500 [OF sample_store_facts(4) sample_executions_get, of show_int "[''a'', ''b'']"]
  by (auto simp: sample_execution_def sample_workflow_def)

lemma updateReplayCursor_get:
  "getExecution i store = Some e \<Longrightarrow>
   getExecution i (updateReplayCursor toIso i ev store) = Some (e\<lparr>ex_lastEventId := cursor_step (ex_lastEventId e) ev\<rparr>)"
  by (simp add: getExecution_def updateReplayCursor_def cursor_step_def)

lemma updateReplayCursor_fold:
  "getExecution i store = Some e \<Longrightarrow>
   getExecution i (foldl (\<lambda>s ev. updateReplayCursor toIso i ev s) store evs) =
     Some (e\<lparr>ex_lastEventId := foldl cursor_step (ex_lastEventId e) evs\<rparr>)"
proof (induction evs arbitrary: store e)
  case (Cons ev evs)
  from Cons.IH [OF updateReplayCursor_get [OF Cons.prems, of toIso ev]] show ?case by simp
qed simp

text \<open>
  The replay cursor never moves back: after handling numeric event ids in any order, with
  repetitions, the cursor of the run is the largest of the ids handled and the one it started from.
\<close>

theorem replay_cursor_is_latest:
  assumes "getExecution i store = Some e" "ex_lastEventId e = Some c" "numeric_id c" "list_all numeric_id evs"
  shows "\<exists>m e'. getExecution i (foldl (\<lambda>s ev. updateReplayCursor toIso i ev s) store evs) = Some e' \<and>
    ex_lastEventId e' = Some m \<and> m \<in> set (c # evs) \<and>
    list_all (\<lambda>ev. the (BigInt ev) \<le> the (BigInt m)) (c # evs)"
proof -
  obtain m where m: "foldl cursor_step (Some c) evs = Some m" "m \<in> set (c # evs)"
    "list_all (\<lambda>ev. the (BigInt ev) \<le> the (BigInt m)) (c # evs)"
    using cursor_is_max [OF assms(3,4)] by blast
  have "getExecution i (foldl (\<lambda>s ev. updateReplayCursor toIso i ev s) store evs) = Some (e\<lparr>ex_lastEventId := Some m\<rparr>)"
    using updateReplayCursor_fold [OF assms(1), of toIso evs] by (simp add: assms(2) m(1))
  with m(2,3) show ?thesis by (intro exI [of _ m] exI [of _ "e\<lparr>ex_lastEventId := Some m\<rparr>"]) simp
qed

theorem replay_cursor_is_latest_witness:
  "\<exists>m e'. getExecution ''r'' (foldl (\<lambda>s ev. updateReplayCursor show_int ''r'' ev s)
       (updateReplayCursor show_int ''r'' ''7'' sample_executions) [''12'', ''9'']) = Some e' \<and>
     ex_lastEventId e' = Some m \<and> m \<in> {''7'', ''12'', ''9''}"
proof -
  have n: "numeric_id ''7''" "numeric_id ''12''" "numeric_id ''9''" by code_simp+
  have "getExecution ''r'' (updateReplayCursor show_int ''r'' ''7'' sample_executions) =
      Some (sample_execution\<lparr>ex_lastEventId := Some ''7''\<rparr>)"
    using updateReplayCursor_get [OF sample_executions_get, of show_int "''7''"] cursor_step_numeric(1) [OF n(1)]
    by (simp add: sample_execution_def)
  from replay_cursor_is_latest [OF this, of "''7''" "[''12'', ''9'']" show_int] n show ?thesis by auto
qed

subsection \<open>Scenario runs\<close>

interpretation run_cmp: js_comparator scenario_run_order
  by unfold_locales (auto simp: scenario_run_order_def)

lemma runs_in_start_order:
  "sorted_wrt (\<lambda>a b. sr_startedAt a \<le> sr_startedAt b) (getScenarioRunsByWorkflowRun w store)"
  unfolding getScenarioRunsByWorkflowRun_def
  by (rule sorted_wrt_mono_rel [OF _ run_cmp.js_sort_sorted]) (simp add: scenario_run_order_def)

text \<open>
  Moving a scenario run to a status that is still in progress, such as \<open>cancelling\<close> or
  \<open>pending\<close>, stamps it as finished: only \<open>running\<close> keeps the end time.
\<close>

theorem cancelling_run_gets_end_time:
  assumes "map_of (rn_scenarioRuns (sy_state store)) i = Some run" "getUserId (env_browser E) = Inr u"
    and "ru_status updates = Some S_cancelling" "ru_finishedAt updates = None"
  shows "\<exists>run'. map_of (rn_scenarioRuns (sy_state (snd (updateScenarioRun toIso E now i updates store)))) i = Some run' \<and>
    sr_status run' = S_cancelling \<and> sr_finishedAt run' = Some now \<and> \<not> isTerminalScenarioStatus (Some (sr_status run'))"
proof -
  obtain m where "bump_metadata E (sr_meta run) = Inr m" using bump_metadata_total [OF assms(2)] by blast
  then show ?thesis
    using assms by (simp add: updateScenarioRun_def update_scenario_run_def js_opt isTerminalScenarioStatus_def)
qed


definition sample_runs :: scenario_run_synced where
  "sample_runs = snd (startScenarioRun show_int sample_env 5 ''x'' ''p'' ''r'' ''w1'' ''s1'' ''smoke''
     (synced_init \<lparr>rn_scenarioRuns = [], rn_currentEntityId = None\<rparr>))"

definition cancelling_update :: scenario_run_updates where
  "cancelling_update = \<lparr>ru_backendSessionId = None, ru_status = Some S_cancelling, ru_result = None, ru_error = None,
     ru_finishedAt = None, ru_phase = None, ru_checkpointIndex = None\<rparr>"

theorem cancelling_run_gets_end_time_witness:
  "\<exists>run'. map_of (rn_scenarioRuns (sy_state (snd (updateScenarioRun show_int sample_env 9 ''x'' cancelling_update sample_runs)))) ''x'' =
     Some run' \<and> sr_finishedAt run' = Some 9"
proof -
  obtain run where r: "map_of (rn_scenarioRuns (sy_state sample_runs)) ''x'' = Some run"
    using sample_store_facts(4) by (simp add: sample_runs_def startScenarioRun_def addSyncMetadata_def synced_init_def)
  have "ru_status cancelling_update = Some S_cancelling" "ru_finishedAt cancelling_update = None"
    by (simp_all add: cancelling_update_def)
  from cancelling_run_gets_end_time [OF r sample_store_facts(4) this, of show_int 9] show ?thesis by blast
qed

subsection \<open>Test results\<close>

lemma test_results_live: "hasTestResult i store \<longleftrightarrow> getTestResult i store \<noteq> None"
  by (simp add: hasTestResult_def getTestResult_def split: option.splits)

lemma clearAll_empty: "getTestResult i (clearAllTestResults stringify E store) = None"
proof -
  define d where "d = (\<lambda>r :: test_result. r\<lparr>tt_meta := markAsDeleted E (tt_meta r)\<rparr>)"
  have m: "map_of (map (\<lambda>(k, r). (k, d r)) xs) i = map_option d (map_of xs i)" for xs
    by (induction xs) auto
  have "sm_is_deleted (tt_meta (d r))" for r by (simp add: d_def markAsDeleted_def)
  then show ?thesis
    using m [of "tr_testResults (sy_state store)"]
    by (auto simp: getTestResult_def clearAllTestResults_def d_def split: option.splits)
qed

end
