(* ===== verification/Projects.thy ===== *)
theory Projects
  imports Js_Prelude
begin

text \<open>
  Teams and permissions: \<^verbatim>\<open>src/ui-v2/src/modules/projects/server/service.ts\<close> and the server
  actions in \<^verbatim>\<open>projects/actions.ts\<close>. The database is a record of three tables with the keys and
  references of \<^verbatim>\<open>src/ui-v2/src/db/schema\<close> (primary key of members, one personal project per
  creator, references to projects and users); a violated reference is an exception. The two database
  kinds differ in how rows are inserted. A service call that reads before it writes is split into its
  check and its write, because nothing makes the two atomic.
\<close>

subsection \<open>Roles and tables\<close>

datatype project_kind = Personal | Team

datatype project_role = Owner | Editor | Runner

datatype project_action = View | Edit | Run | Manage

definition ROLE_ACTIONS :: "project_role \<Rightarrow> project_action list" where
  "ROLE_ACTIONS role =
     (case role of Owner \<Rightarrow> [View, Edit, Run, Manage] | Editor \<Rightarrow> [View, Edit, Run] | Runner \<Rightarrow> [View, Run])"

definition allowedActionsForRole :: "project_role \<Rightarrow> project_action list" where
  "allowedActionsForRole role = ROLE_ACTIONS role"

record project_row =
  pj_id :: string
  pj_name :: string
  pj_kind :: project_kind
  pj_createdBy :: string
  pj_createdAt :: string
  pj_updatedAt :: string

record member_row =
  pm_projectId :: string
  pm_userId :: string
  pm_role :: project_role
  pm_createdAt :: string

record user_row =
  us_id :: string
  us_email :: string
  us_name :: "string option"
  us_role :: string
  us_isActive :: bool
  us_passwordHash :: "string option"
  us_createdAt :: string
  us_updatedAt :: string

datatype database_kind = Postgres | Mysql | Other_Database

record database =
  db_type :: database_kind
  db_projects :: "project_row list"
  db_members :: "member_row list"
  db_users :: "user_row list"

record membership =
  ms_project :: project_row
  ms_projectRole :: project_role
  ms_allowedActions :: "project_action list"

record project_member_user =
  pu_id :: string
  pu_email :: string
  pu_name :: "string option"
  pu_role :: string
  pu_projectRole :: "project_role option"
  pu_isActive :: bool

definition fk_error :: js_error where
  "fk_error = Err ''FOREIGN KEY constraint failed''"

definition has_project :: "string \<Rightarrow> database \<Rightarrow> bool" where
  "has_project p db \<longleftrightarrow> list_ex (\<lambda>r. pj_id r = p) (db_projects db)"

definition has_user :: "string \<Rightarrow> database \<Rightarrow> bool" where
  "has_user u db \<longleftrightarrow> list_ex (\<lambda>r. us_id r = u) (db_users db)"

definition has_member :: "string \<Rightarrow> string \<Rightarrow> database \<Rightarrow> bool" where
  "has_member p u db \<longleftrightarrow> list_ex (\<lambda>r. pm_projectId r = p \<and> pm_userId r = u) (db_members db)"

text \<open>Inserting a membership that may exist: it is left alone, or its role is set.\<close>

definition insert_member_ignore :: "member_row \<Rightarrow> database \<Rightarrow> database" where
  "insert_member_ignore m db =
     (if has_member (pm_projectId m) (pm_userId m) db then db else db\<lparr>db_members := db_members db @ [m]\<rparr>)"

definition insert_member_update :: "member_row \<Rightarrow> database \<Rightarrow> database" where
  "insert_member_update m db =
     (if has_member (pm_projectId m) (pm_userId m) db
      then db\<lparr>db_members := map (\<lambda>r. if pm_projectId r = pm_projectId m \<and> pm_userId r = pm_userId m
                                       then r\<lparr>pm_role := pm_role m\<rparr> else r) (db_members db)\<rparr>
      else db\<lparr>db_members := db_members db @ [m]\<rparr>)"

subsection \<open>Reading\<close>

definition mapMembership :: "project_row \<Rightarrow> project_role option \<Rightarrow> string option \<Rightarrow> membership" where
  "mapMembership record projectRole platformRole =
     (let role = (if platformRole = Some ''admin'' then Owner else nullish projectRole Editor)
      in \<lparr>ms_project = record, ms_projectRole = role, ms_allowedActions = allowedActionsForRole role\<rparr>)"

definition membership_order :: "(string \<Rightarrow> string \<Rightarrow> int) \<Rightarrow> membership \<Rightarrow> membership \<Rightarrow> int" where
  "membership_order localeCompare left right =
     (if pj_kind (ms_project left) \<noteq> pj_kind (ms_project right)
      then (if pj_kind (ms_project left) = Personal then - 1 else 1)
      else localeCompare (pj_name (ms_project left)) (pj_name (ms_project right)))"

definition sortMemberships :: "(string \<Rightarrow> string \<Rightarrow> int) \<Rightarrow> membership list \<Rightarrow> membership list" where
  "sortMemberships localeCompare projects = js_sort (membership_order localeCompare) projects"

definition listProjectsForUser ::
  "(string \<Rightarrow> string \<Rightarrow> int) \<Rightarrow> string \<Rightarrow> string option \<Rightarrow> database \<Rightarrow> membership list" where
  "listProjectsForUser localeCompare userId role db =
     (let rows =
        (if role = Some ''admin''
         then map (\<lambda>p. (p, None)) (filter (\<lambda>p. pj_kind p = Team \<or> pj_createdBy p = userId) (db_projects db))
         else concat (map (\<lambda>p. map (\<lambda>m. (p, Some (pm_role m)))
                (filter (\<lambda>m. pm_projectId m = pj_id p \<and> pm_userId m = userId) (db_members db))) (db_projects db)))
      in sortMemberships localeCompare (map (\<lambda>(p, r). mapMembership p r role) rows))"

definition getProject :: "string \<Rightarrow> database \<Rightarrow> project_row option" where
  "getProject projectId db = find (\<lambda>p. pj_id p = projectId) (db_projects db)"

definition member_user :: "user_row \<Rightarrow> project_role option \<Rightarrow> project_member_user" where
  "member_user u r = \<lparr>pu_id = us_id u, pu_email = us_email u, pu_name = us_name u, pu_role = us_role u,
     pu_projectRole = r, pu_isActive = us_isActive u\<rparr>"

definition listProjectMembers ::
  "(string \<Rightarrow> string \<Rightarrow> int) \<Rightarrow> string \<Rightarrow> database \<Rightarrow> project_member_user list" where
  "listProjectMembers localeCompare projectId db =
     js_sort (\<lambda>l r. localeCompare (pu_email l) (pu_email r))
       (concat (map (\<lambda>m. map (\<lambda>u. member_user u (Some (pm_role m))) (filter (\<lambda>u. us_id u = pm_userId m) (db_users db)))
          (filter (\<lambda>m. pm_projectId m = projectId) (db_members db))))"

definition getProjectMembership ::
  "(string \<Rightarrow> string \<Rightarrow> int) \<Rightarrow> string \<Rightarrow> string \<Rightarrow> string option \<Rightarrow> database \<Rightarrow> membership option" where
  "getProjectMembership localeCompare userId projectId platformRole db =
     (if platformRole = Some ''admin''
      then map_option (\<lambda>p. \<lparr>ms_project = p, ms_projectRole = Owner, ms_allowedActions = allowedActionsForRole Owner\<rparr>)
             (getProject projectId db)
      else find (\<lambda>m. pj_id (ms_project m) = projectId) (listProjectsForUser localeCompare userId platformRole db))"

definition userHasProjectPermission ::
  "(string \<Rightarrow> string \<Rightarrow> int) \<Rightarrow> string \<Rightarrow> string \<Rightarrow> project_action \<Rightarrow> string option \<Rightarrow> database \<Rightarrow> bool" where
  "userHasProjectPermission localeCompare userId projectId action platformRole db =
     (case getProjectMembership localeCompare userId projectId platformRole db of
        Some m \<Rightarrow> action \<in> set (ms_allowedActions m)
      | None \<Rightarrow> False)"

definition userHasProjectAccess ::
  "(string \<Rightarrow> string \<Rightarrow> int) \<Rightarrow> string \<Rightarrow> string \<Rightarrow> string option \<Rightarrow> database \<Rightarrow> bool" where
  "userHasProjectAccess localeCompare userId projectId role db =
     userHasProjectPermission localeCompare userId projectId View role db"

definition listUnassignedUsersForProject ::
  "(string \<Rightarrow> string \<Rightarrow> int) \<Rightarrow> string \<Rightarrow> database \<Rightarrow> project_member_user list" where
  "listUnassignedUsersForProject localeCompare projectId db =
     (let memberIds = map pu_id (listProjectMembers localeCompare projectId db)
      in js_sort (\<lambda>l r. localeCompare (pu_email l) (pu_email r))
           (map (\<lambda>u. member_user u None) (filter (\<lambda>u. us_id u \<notin> set memberIds) (db_users db))))"

subsection \<open>Writing\<close>

text \<open>\<open>createProject\<close>: both rows in one transaction. \<open>projectId\<close> is the generated id.\<close>

definition createProject ::
  "string \<Rightarrow> string \<Rightarrow> string \<Rightarrow> string \<Rightarrow> database \<Rightarrow> project_row res \<times> database" where
  "createProject projectId now name adminUserId db =
     (if db_type db = Other_Database then (Inl (Err ''Unsupported database type''), db)
      else if has_project projectId db \<or> \<not> has_user adminUserId db then (Inl fk_error, db)
      else let project = \<lparr>pj_id = projectId, pj_name = trim name, pj_kind = Team, pj_createdBy = adminUserId,
                 pj_createdAt = now, pj_updatedAt = now\<rparr>;
               owner = \<lparr>pm_projectId = projectId, pm_userId = adminUserId, pm_role = Owner, pm_createdAt = now\<rparr>
           in (Inr project, db\<lparr>db_projects := db_projects db @ [project], db_members := db_members db @ [owner]\<rparr>))"

definition find_personal :: "string \<Rightarrow> database \<Rightarrow> project_row option" where
  "find_personal userId db = find (\<lambda>p. pj_createdBy p = userId \<and> pj_kind p = Personal) (db_projects db)"

definition ensurePersonalProject :: "string \<Rightarrow> string \<Rightarrow> string \<Rightarrow> database \<Rightarrow> membership res \<times> database" where
  "ensurePersonalProject projectId now userId db0 =
     (let values = \<lparr>pj_id = projectId, pj_name = ''Personal'', pj_kind = Personal, pj_createdBy = userId,
            pj_createdAt = now, pj_updatedAt = now\<rparr>;
          db = (if find_personal userId db0 = None \<and> db_type db0 \<noteq> Other_Database \<and> has_user userId db0 \<and>
                   \<not> has_project projectId db0
                then db0\<lparr>db_projects := db_projects db0 @ [values]\<rparr> else db0)
      in if find_personal userId db0 = None \<and> db_type db0 \<noteq> Other_Database \<and> \<not> has_user userId db0
         then (Inl fk_error, db0)
         else case find_personal userId db of
           None \<Rightarrow> (Inl (Err ''Unable to create personal workspace''), db)
         | Some project \<Rightarrow>
             (Inr (mapMembership project (Some Owner) None),
              if db_type db = Other_Database then db
              else insert_member_update \<lparr>pm_projectId = pj_id project, pm_userId = userId, pm_role = Owner,
                     pm_createdAt = now\<rparr> db))"

fun add_each :: "string \<Rightarrow> project_role \<Rightarrow> string \<Rightarrow> string list \<Rightarrow> database \<Rightarrow> unit res \<times> database" where
  "add_each projectId role now [] db = (Inr (), db)"
| "add_each projectId role now (u # us) db =
     (if \<not> has_user u db then (Inl fk_error, db)
      else add_each projectId role now us
        (insert_member_ignore \<lparr>pm_projectId = projectId, pm_userId = u, pm_role = role, pm_createdAt = now\<rparr> db))"

definition addUsersToProject ::
  "string \<Rightarrow> string \<Rightarrow> string list \<Rightarrow> project_role option \<Rightarrow> database \<Rightarrow> unit res \<times> database" where
  "addUsersToProject now projectId userIds projectRole db =
     (if userIds = [] then (Inr (), db)
      else case getProject projectId db of
        None \<Rightarrow> (Inl (Err ''Project not found''), db)
      | Some project \<Rightarrow>
          if pj_kind project = Personal then (Inl (Err ''Personal workspaces cannot have additional members''), db)
          else case db_type db of
            Postgres \<Rightarrow>
              (case add_each projectId (nullish projectRole Runner) now userIds db of
                 (Inr _, db') \<Rightarrow> (Inr (), db')
               | (Inl e, _) \<Rightarrow> (Inl e, db))
          | Mysql \<Rightarrow> add_each projectId (nullish projectRole Runner) now userIds db
          | Other_Database \<Rightarrow> (Inl (Err ''Unsupported database type''), db))"

definition owner_count :: "project_member_user list \<Rightarrow> nat" where
  "owner_count members = length (filter (\<lambda>m. pu_projectRole m = Some Owner) members)"

definition remove_check :: "(string \<Rightarrow> string \<Rightarrow> int) \<Rightarrow> string \<Rightarrow> string \<Rightarrow> database \<Rightarrow> unit res" where
  "remove_check localeCompare projectId userId db =
     (case getProject projectId db of
        None \<Rightarrow> Inl (Err ''Project not found'')
      | Some project \<Rightarrow>
          if pj_kind project = Personal then Inl (Err ''Personal workspace ownership cannot be changed'')
          else let members = listProjectMembers localeCompare projectId db;
                   target = find (\<lambda>m. pu_id m = userId) members
               in if Option.bind target pu_projectRole = Some Owner \<and> owner_count members \<le> 1
                  then Inl (Err ''The final team owner cannot be removed'') else Inr ())"

definition remove_write :: "string \<Rightarrow> string \<Rightarrow> database \<Rightarrow> database" where
  "remove_write projectId userId db =
     db\<lparr>db_members := filter (\<lambda>m. \<not> (pm_projectId m = projectId \<and> pm_userId m = userId)) (db_members db)\<rparr>"

definition removeUserFromProject ::
  "(string \<Rightarrow> string \<Rightarrow> int) \<Rightarrow> string \<Rightarrow> string \<Rightarrow> database \<Rightarrow> unit res \<times> database" where
  "removeUserFromProject localeCompare projectId userId db =
     (case remove_check localeCompare projectId userId db of
        Inl e \<Rightarrow> (Inl e, db)
      | Inr _ \<Rightarrow> (Inr (), remove_write projectId userId db))"

definition role_check ::
  "(string \<Rightarrow> string \<Rightarrow> int) \<Rightarrow> string \<Rightarrow> string \<Rightarrow> project_role \<Rightarrow> database \<Rightarrow> unit res" where
  "role_check localeCompare projectId userId projectRole db =
     (case getProject projectId db of
        None \<Rightarrow> Inl (Err ''Project not found'')
      | Some project \<Rightarrow>
          if pj_kind project = Personal then Inl (Err ''Personal workspace ownership cannot be changed'')
          else let members = listProjectMembers localeCompare projectId db
               in case find (\<lambda>m. pu_id m = userId) members of
                    None \<Rightarrow> Inl (Err ''Project member not found'')
                  | Some target \<Rightarrow>
                      if pu_projectRole target = Some Owner \<and> projectRole \<noteq> Owner \<and> owner_count members \<le> 1
                      then Inl (Err ''The final team owner cannot be demoted'') else Inr ())"

definition role_write :: "string \<Rightarrow> string \<Rightarrow> project_role \<Rightarrow> database \<Rightarrow> database" where
  "role_write projectId userId projectRole db =
     db\<lparr>db_members := map (\<lambda>m. if pm_projectId m = projectId \<and> pm_userId m = userId
                               then m\<lparr>pm_role := projectRole\<rparr> else m) (db_members db)\<rparr>"

definition updateProjectMemberRole ::
  "(string \<Rightarrow> string \<Rightarrow> int) \<Rightarrow> string \<Rightarrow> string \<Rightarrow> project_role \<Rightarrow> database \<Rightarrow> unit res \<times> database" where
  "updateProjectMemberRole localeCompare projectId userId projectRole db =
     (case role_check localeCompare projectId userId projectRole db of
        Inl e \<Rightarrow> (Inl e, db)
      | Inr _ \<Rightarrow> (Inr (), role_write projectId userId projectRole db))"

subsection \<open>Server actions\<close>

text \<open>The session's user id and platform role, if there is a session. Form values are trimmed.\<close>

type_synonym session = "(string \<times> string option) option"

definition requireMemberManager ::
  "(string \<Rightarrow> string \<Rightarrow> int) \<Rightarrow> session \<Rightarrow> string \<Rightarrow> database \<Rightarrow> unit res" where
  "requireMemberManager localeCompare session projectId db =
     (case session of
        Some (c # cs, role) \<Rightarrow>
          if userHasProjectPermission localeCompare (c # cs) projectId Manage role db then Inr ()
          else Inl (Err ''You do not have permission to manage this team.'')
      | _ \<Rightarrow> Inl (Err ''You do not have permission to manage this team.''))"

definition parse_role :: "string \<Rightarrow> project_role option" where
  "parse_role s = (if s = ''owner'' then Some Owner else if s = ''editor'' then Some Editor
     else if s = ''runner'' then Some Runner else None)"

definition addTeamMembersAction ::
  "(string \<Rightarrow> string \<Rightarrow> int) \<Rightarrow> session \<Rightarrow> string \<Rightarrow> string \<Rightarrow> string list \<Rightarrow> database \<Rightarrow> unit res \<times> database" where
  "addTeamMembersAction localeCompare session now projectId userIds db =
     (case requireMemberManager localeCompare session (trim projectId) db of
        Inl e \<Rightarrow> (Inl e, db)
      | Inr _ \<Rightarrow> addUsersToProject now (trim projectId) (filter (\<lambda>u. u \<noteq> []) userIds) (Some Runner) db)"

definition updateTeamMemberRoleAction ::
  "(string \<Rightarrow> string \<Rightarrow> int) \<Rightarrow> session \<Rightarrow> string \<Rightarrow> string \<Rightarrow> string \<Rightarrow> database \<Rightarrow> unit res \<times> database" where
  "updateTeamMemberRoleAction localeCompare session projectId userId projectRole db =
     (case requireMemberManager localeCompare session (trim projectId) db of
        Inl e \<Rightarrow> (Inl e, db)
      | Inr _ \<Rightarrow>
          (case parse_role (trim projectRole) of
             None \<Rightarrow> (Inl (Err ''Invalid project role.''), db)
           | Some role \<Rightarrow> updateProjectMemberRole localeCompare (trim projectId) (trim userId) role db))"

definition removeTeamMemberAction ::
  "(string \<Rightarrow> string \<Rightarrow> int) \<Rightarrow> session \<Rightarrow> string \<Rightarrow> string \<Rightarrow> database \<Rightarrow> unit res \<times> database" where
  "removeTeamMemberAction localeCompare session projectId userId db =
     (case requireMemberManager localeCompare session (trim projectId) db of
        Inl e \<Rightarrow> (Inl e, db)
      | Inr _ \<Rightarrow> removeUserFromProject localeCompare (trim projectId) (trim userId) db)"

section \<open>The membership invariant\<close>

definition owners :: "string \<Rightarrow> database \<Rightarrow> member_row list" where
  "owners p db = filter (\<lambda>m. pm_projectId m = p \<and> pm_role m = Owner) (db_members db)"

definition keys_ok :: "database \<Rightarrow> bool" where
  "keys_ok db \<longleftrightarrow>
     distinct (map pj_id (db_projects db)) \<and> distinct (map us_id (db_users db)) \<and>
     distinct (map (\<lambda>m. (pm_projectId m, pm_userId m)) (db_members db)) \<and>
     list_all (\<lambda>m. has_project (pm_projectId m) db \<and> has_user (pm_userId m) db) (db_members db) \<and>
     list_all (\<lambda>p. has_user (pj_createdBy p) db) (db_projects db)"

definition teams_owned :: "database \<Rightarrow> bool" where
  "teams_owned db \<longleftrightarrow> list_all (\<lambda>p. pj_kind p = Team \<longrightarrow> owners (pj_id p) db \<noteq> []) (db_projects db)"

definition personal_private :: "database \<Rightarrow> bool" where
  "personal_private db \<longleftrightarrow>
     list_all (\<lambda>p. pj_kind p = Personal \<longrightarrow>
        list_all (\<lambda>m. pm_projectId m = pj_id p \<longrightarrow> pm_userId m = pj_createdBy p \<and> pm_role m = Owner) (db_members db))
       (db_projects db)"

definition db_ok :: "database \<Rightarrow> bool" where
  "db_ok db \<longleftrightarrow> keys_ok db \<and> teams_owned db \<and> personal_private db"

subsection \<open>The members of a project\<close>

definition user_of :: "database \<Rightarrow> member_row \<Rightarrow> user_row" where
  "user_of db m = hd (filter (\<lambda>u. us_id u = pm_userId m) (db_users db))"

lemma single_filter: "distinct (map f xs) \<Longrightarrow> x \<in> set xs \<Longrightarrow> filter (\<lambda>y. f y = f x) xs = [x]"
  by (induction xs) (auto simp: filter_empty_conv image_iff)

lemma user_of_member:
  assumes "keys_ok db" "m \<in> set (db_members db)"
  shows "filter (\<lambda>u. us_id u = pm_userId m) (db_users db) = [user_of db m]" "us_id (user_of db m) = pm_userId m"
proof -
  have "has_user (pm_userId m) db" using assms by (simp add: keys_ok_def list_all_iff)
  then obtain u where u: "u \<in> set (db_users db)" "us_id u = pm_userId m" by (auto simp: has_user_def list_ex_iff)
  have "filter (\<lambda>y. us_id y = us_id u) (db_users db) = [u]"
    using assms(1) u(1) by (intro single_filter) (simp_all add: keys_ok_def)
  then show "filter (\<lambda>u. us_id u = pm_userId m) (db_users db) = [user_of db m]" "us_id (user_of db m) = pm_userId m"
    using u by (simp_all add: user_of_def)
qed

lemma members_mset:
  assumes "keys_ok db"
  shows "mset (listProjectMembers lc p db) =
    mset (map (\<lambda>m. member_user (user_of db m) (Some (pm_role m))) (filter (\<lambda>m. pm_projectId m = p) (db_members db)))"
proof -
  have "map (\<lambda>m. map (\<lambda>u. member_user u (Some (pm_role m))) (filter (\<lambda>u. us_id u = pm_userId m) (db_users db))) ms =
      map (\<lambda>m. [member_user (user_of db m) (Some (pm_role m))]) ms" if "set ms \<subseteq> set (db_members db)" for ms
    using that by (auto intro!: map_cong simp: user_of_member(1) [OF assms])
  note eq = this [of "filter (\<lambda>m. pm_projectId m = p) (db_members db)", OF filter_is_subset]
  show ?thesis by (simp only: listProjectMembers_def mset_js_sort eq concat_map_singleton)
qed

lemma owner_count_eq:
  assumes "keys_ok db"
  shows "owner_count (listProjectMembers lc p db) = length (owners p db)"
proof -
  define Q where "Q = (\<lambda>m :: project_member_user. pu_projectRole m = Some Owner)"
  define g where "g = (\<lambda>m. member_user (user_of db m) (Some (pm_role m)))"
  have cnt: "owner_count xs = size (filter_mset Q (mset xs))" for xs
    by (simp add: owner_count_def Q_def flip: mset_filter)
  have "owner_count (listProjectMembers lc p db) =
      size (filter_mset Q (mset (map g (filter (\<lambda>m. pm_projectId m = p) (db_members db)))))"
    unfolding cnt members_mset [OF assms] g_def ..
  also have "\<dots> = length (filter Q (map g (filter (\<lambda>m. pm_projectId m = p) (db_members db))))"
    by (simp only: mset_filter [symmetric] size_mset)
  also have "\<dots> = length (filter (\<lambda>m. pm_role m = Owner) (filter (\<lambda>m. pm_projectId m = p) (db_members db)))"
    by (simp add: filter_map Q_def g_def member_user_def comp_def)
  also have "\<dots> = length (owners p db)" by (simp add: owners_def)
  finally show ?thesis .
qed

lemma find_exists: "x \<in> set xs \<Longrightarrow> P x \<Longrightarrow> \<exists>y. find P xs = Some y"
  by (cases "find P xs") (auto simp: find_None_iff)

lemma find_member_of: "find P xs = Some y \<Longrightarrow> y \<in> set xs \<and> P y"
  by (auto simp: find_Some_iff)

lemma members_set:
  assumes "keys_ok db"
  shows "x \<in> set (listProjectMembers lc p db) \<longleftrightarrow>
    (\<exists>m \<in> set (db_members db). pm_projectId m = p \<and> x = member_user (user_of db m) (Some (pm_role m)))"
  using arg_cong [OF members_mset [OF assms, of lc p], of set_mset] by auto

lemma find_member:
  assumes k: "keys_ok db" and m: "m \<in> set (db_members db)" "pm_projectId m = p" "pm_userId m = u"
  shows "\<exists>t. find (\<lambda>x. pu_id x = u) (listProjectMembers lc p db) = Some t \<and> pu_projectRole t = Some (pm_role m)"
proof -
  have "member_user (user_of db m) (Some (pm_role m)) \<in> set (listProjectMembers lc p db)"
    using members_set [OF k] m by blast
  moreover have "pu_id (member_user (user_of db m) (Some (pm_role m))) = u"
    using user_of_member(2) [OF k m(1)] m by (simp add: member_user_def)
  ultimately obtain t where t: "find (\<lambda>x. pu_id x = u) (listProjectMembers lc p db) = Some t"
    using find_exists [where P = "\<lambda>x. pu_id x = u"] by blast
  then have "t \<in> set (listProjectMembers lc p db)" "pu_id t = u" by (auto dest: find_member_of)
  then obtain m' where m': "m' \<in> set (db_members db)" "pm_projectId m' = p" "t = member_user (user_of db m') (Some (pm_role m'))"
    using members_set [OF k] by blast
  then have "pm_userId m' = u" using \<open>pu_id t = u\<close> user_of_member(2) [OF k m'(1)] by (simp add: member_user_def)
  then have "m' = m" using k m m' by (auto simp: keys_ok_def distinct_map inj_on_def)
  then show ?thesis using t m'(3) by (simp add: member_user_def)
qed

lemma find_member_None:
  assumes "keys_ok db" "\<not> has_member p u db"
  shows "find (\<lambda>x. pu_id x = u) (listProjectMembers lc p db) = None"
proof (rule ccontr)
  assume "find (\<lambda>x. pu_id x = u) (listProjectMembers lc p db) \<noteq> None"
  then obtain t where "find (\<lambda>x. pu_id x = u) (listProjectMembers lc p db) = Some t" by blast
  then have "t \<in> set (listProjectMembers lc p db)" "pu_id t = u" by (auto dest: find_member_of)
  then obtain m where "m \<in> set (db_members db)" "pm_projectId m = p" "t = member_user (user_of db m) (Some (pm_role m))"
    using members_set [OF assms(1)] by blast
  with \<open>pu_id t = u\<close> user_of_member(2) [OF assms(1)] assms(2) show False
    by (auto simp: has_member_def list_ex_iff member_user_def)
qed

section \<open>Every operation keeps the invariant\<close>

lemma getProject_kind:
  assumes "keys_ok db" "getProject p db = Some r" "q \<in> set (db_projects db)" "pj_id q = p"
  shows "q = r"
proof -
  have "r \<in> set (db_projects db)" "pj_id r = p" using assms(2) by (auto simp: getProject_def dest: find_member_of)
  then show ?thesis using assms by (auto simp: keys_ok_def distinct_map inj_on_def)
qed

lemma db_ok_members:
  assumes "db_ok db" and same: "db' = db\<lparr>db_members := ms\<rparr>"
    and keys: "keys_ok db'"
    and own: "\<And>p. owners p db \<noteq> [] \<Longrightarrow> owners p db' \<noteq> []"
    and mem: "\<And>m q. m \<in> set ms \<Longrightarrow> q \<in> set (db_projects db) \<Longrightarrow> pj_kind q = Personal \<Longrightarrow> pm_projectId m = pj_id q \<Longrightarrow> m \<in> set (db_members db)"
  shows "db_ok db'"
  using assms(1,3,4,5) unfolding db_ok_def teams_owned_def personal_private_def same
  by (auto simp: list_all_iff)

lemma remove_keeps_ok:
  assumes ok: "db_ok db" and c: "remove_check lc p u db = Inr ()"
  shows "db_ok (remove_write p u db)"
proof -
  have k: "keys_ok db" using ok by (simp add: db_ok_def)
  define gone where "gone = (\<lambda>m :: member_row. pm_projectId m = p \<and> pm_userId m = u)"
  have rw: "remove_write p u db = db\<lparr>db_members := filter (\<lambda>m. \<not> gone m) (db_members db)\<rparr>"
    by (simp add: remove_write_def gone_def)
  have keys: "keys_ok (remove_write p u db)"
    using k by (auto simp: rw keys_ok_def has_project_def has_user_def list_all_iff distinct_map_filter)
  have "owners q (remove_write p u db) \<noteq> []" if ne: "owners q db \<noteq> []" for q
  proof (cases "q = p")
    case False
    then have "owners q (remove_write p u db) = owners q db"
      by (auto simp: owners_def rw gone_def intro!: filter_cong)
    then show ?thesis using ne by simp
  next
    case True
    have unique: "m = m'" if "m \<in> set (db_members db)" "m' \<in> set (db_members db)" "gone m" "gone m'" for m m'
      using that k by (auto simp: gone_def keys_ok_def distinct_map inj_on_def)
    show ?thesis
    proof (cases "\<exists>m \<in> set (db_members db). gone m \<and> pm_role m = Owner")
      case True
      then obtain m where m: "m \<in> set (db_members db)" "gone m" "pm_role m = Owner" by blast
      then have "\<not> length (owners p db) \<le> 1"
        using c find_member [OF k m(1), of p u lc]
        by (auto simp: remove_check_def gone_def owner_count_eq [OF k] split: option.splits if_splits)
      moreover have "distinct (db_members db)" using k by (auto simp: keys_ok_def distinct_map)
      then have "length (filter gone (owners p db)) \<le> 1"
        using unique by (auto simp: owners_def distinct_length_filter card_le_Suc0_iff_eq)
      moreover have "length (owners p db) = length (filter gone (owners p db)) + length (filter (\<lambda>m. \<not> gone m) (owners p db))"
        by (metis sum_length_filter_compl)
      ultimately have "filter (\<lambda>m. \<not> gone m) (owners p db) \<noteq> []" by auto
      then show ?thesis using \<open>q = p\<close> by (simp add: owners_def rw conj_commute)
    next
      case False
      then have "filter (\<lambda>m. pm_projectId m = q \<and> pm_role m = Owner) (filter (\<lambda>m. \<not> gone m) (db_members db)) = owners q db"
        by (auto simp: owners_def filter_filter intro!: filter_cong)
      then show ?thesis using ne by (simp add: owners_def rw)
    qed
  qed
  with ok keys show ?thesis using db_ok_members [OF ok rw] by auto
qed

lemma owners_of_one_user:
  assumes "keys_ok db" "list_all (\<lambda>m. pm_userId m = u) (owners p db)"
  shows "length (owners p db) \<le> 1"
proof -
  have "distinct (map (\<lambda>m. (pm_projectId m, pm_userId m)) (owners p db))"
    using assms(1) unfolding owners_def keys_ok_def by (intro distinct_map_filter) simp
  then have "length (owners p db) = card ((\<lambda>m. (pm_projectId m, pm_userId m)) ` set (owners p db))"
    by (metis distinct_card image_set length_map)
  also have "\<dots> \<le> card {(p, u)}"
    using assms(2) by (intro card_mono) (auto simp: list_all_iff owners_def)
  finally show ?thesis by simp
qed

lemma role_keeps_ok:
  assumes ok: "db_ok db" and c: "role_check lc p u r db = Inr ()"
  shows "db_ok (role_write p u r db)"
proof -
  have k: "keys_ok db" using ok by (simp add: db_ok_def)
  define f where "f = (\<lambda>m :: member_row. if pm_projectId m = p \<and> pm_userId m = u then m\<lparr>pm_role := r\<rparr> else m)"
  have rw: "role_write p u r db = db\<lparr>db_members := map f (db_members db)\<rparr>" by (simp add: role_write_def f_def)
  have f [simp]: "pm_projectId (f m) = pm_projectId m" "pm_userId (f m) = pm_userId m" for m by (simp_all add: f_def)
  have keys: "keys_ok (role_write p u r db)"
    using k by (auto simp: rw keys_ok_def has_project_def has_user_def list_all_iff comp_def)
  have own: "owners q (role_write p u r db) \<noteq> []" if ne: "owners q db \<noteq> []" for q
  proof (cases "r = Owner \<or> q \<noteq> p")
    case True
    obtain m where "m \<in> set (db_members db)" "pm_projectId m = q" "pm_role m = Owner"
      using ne by (auto simp: owners_def filter_empty_conv)
    moreover have "pm_role (f m) = Owner" using True calculation by (auto simp: f_def)
    ultimately show ?thesis by (auto simp: owners_def rw filter_empty_conv intro!: bexI [of _ m])
  next
    case False
    then have q: "q = p" "r \<noteq> Owner" by auto
    show ?thesis
    proof (cases "list_all (\<lambda>m. pm_userId m = u) (owners p db)")
      case True
      have "length (owners p db) \<le> 1" by (rule owners_of_one_user [OF k True])
      moreover obtain m where "m \<in> set (db_members db)" "pm_projectId m = p" "pm_role m = Owner" "pm_userId m = u"
        using ne True q by (auto simp: owners_def filter_empty_conv list_all_iff)
      ultimately have False using c q find_member [OF k, of m p u lc]
        by (auto simp: role_check_def owner_count_eq [OF k] split: option.splits if_splits)
      then show ?thesis ..
    next
      case False
      then obtain m where "m \<in> set (db_members db)" "pm_projectId m = p" "pm_role m = Owner" "pm_userId m \<noteq> u"
        by (auto simp: owners_def list_all_iff)
      then show ?thesis using q by (auto simp: owners_def rw filter_empty_conv f_def intro!: bexI [of _ m])
    qed
  qed
  have team: "pj_kind q \<noteq> Personal" if "q \<in> set (db_projects db)" "pj_id q = p" for q
    using c getProject_kind [OF k _ that] by (auto simp: role_check_def split: option.splits if_splits)
  show ?thesis
  proof (rule db_ok_members [OF ok rw keys own])
    fix m' q assume "m' \<in> set (map f (db_members db))" "q \<in> set (db_projects db)" "pj_kind q = Personal"
      "pm_projectId m' = pj_id q"
    then show "m' \<in> set (db_members db)" using team by (auto simp: f_def split: if_splits)
  qed
qed

lemma add_keeps_ok:
  assumes ok: "db_ok db" and pr: "has_project p db"
    and team: "\<And>q. q \<in> set (db_projects db) \<Longrightarrow> pj_id q = p \<Longrightarrow> pj_kind q = Team"
    and usr: "has_user u db"
  shows "db_ok (insert_member_ignore \<lparr>pm_projectId = p, pm_userId = u, pm_role = r, pm_createdAt = now\<rparr> db)"
proof (cases "has_member p u db")
  case True
  then show ?thesis using ok by (simp add: insert_member_ignore_def)
next
  case False
  let ?m = "\<lparr>pm_projectId = p, pm_userId = u, pm_role = r, pm_createdAt = now\<rparr>"
  have eq: "insert_member_ignore ?m db = db\<lparr>db_members := db_members db @ [?m]\<rparr>"
    using False by (simp add: insert_member_ignore_def)
  have "keys_ok (insert_member_ignore ?m db)"
    using ok pr usr False
    by (auto simp: eq db_ok_def keys_ok_def has_project_def has_user_def has_member_def list_all_iff list_ex_iff)
  then show ?thesis
  proof (rule db_ok_members [OF ok eq])
    show "owners q (insert_member_ignore ?m db) \<noteq> []" if "owners q db \<noteq> []" for q
      using that by (simp add: eq owners_def)
  qed (use team in auto)
qed

lemma add_each_keeps_ok:
  assumes "db_ok db" "has_project p db" "\<And>q. q \<in> set (db_projects db) \<Longrightarrow> pj_id q = p \<Longrightarrow> pj_kind q = Team"
  shows "db_ok (snd (add_each p r now us db))"
  using assms
proof (induction us arbitrary: db)
  case (Cons u us)
  let ?db = "insert_member_ignore \<lparr>pm_projectId = p, pm_userId = u, pm_role = r, pm_createdAt = now\<rparr> db"
  have same: "db_projects ?db = db_projects db" by (simp add: insert_member_ignore_def)
  show ?case
  proof (cases "has_user u db")
    case True
    have "db_ok ?db" by (rule add_keeps_ok [OF Cons.prems True])
    moreover have "has_project p ?db" using Cons.prems(2) by (simp add: has_project_def same)
    ultimately show ?thesis using Cons.IH [of ?db] Cons.prems(3) True by (simp add: same)
  next
    case False
    then show ?thesis using Cons.prems(1) by simp
  qed
qed simp

lemma addUsers_keeps_ok:
  assumes "db_ok db"
  shows "db_ok (snd (addUsersToProject now p us r db))"
proof (cases "getProject p db")
  case (Some project)
  have k: "keys_ok db" using assms by (simp add: db_ok_def)
  have "has_project p db"
    using Some by (auto simp: getProject_def has_project_def list_ex_iff dest: find_member_of)
  moreover have "q = project" if "q \<in> set (db_projects db)" "pj_id q = p" for q
    by (rule getProject_kind [OF k Some that])
  ultimately have "db_ok (snd (add_each p (nullish r Runner) now us db))" if "pj_kind project = Team"
    using add_each_keeps_ok [OF assms] that by metis
  then show ?thesis using assms
    by (cases "pj_kind project") (auto simp: addUsersToProject_def Some split: database_kind.splits prod.splits sum.splits)
qed (use assms in \<open>simp add: addUsersToProject_def\<close>)

lemma create_keeps_ok:
  assumes "db_ok db"
  shows "db_ok (snd (createProject i now name u db))"
proof -
  have "pm_projectId m \<noteq> i" if "m \<in> set (db_members db)" "\<not> has_project i db" for m
    using assms that by (auto simp: db_ok_def keys_ok_def list_all_iff)
  then show ?thesis
    using assms
    by (auto simp: createProject_def db_ok_def keys_ok_def teams_owned_def personal_private_def owners_def
        has_project_def has_user_def list_all_iff list_ex_iff)
qed

lemma own_member_keeps_ok:
  assumes ok: "db_ok db" and pr: "project \<in> set (db_projects db)" "pj_createdBy project = u" "pj_kind project = Personal"
  shows "db_ok (insert_member_update \<lparr>pm_projectId = pj_id project, pm_userId = u, pm_role = Owner, pm_createdAt = now\<rparr> db)"
proof -
  let ?m = "\<lparr>pm_projectId = pj_id project, pm_userId = u, pm_role = Owner, pm_createdAt = now\<rparr>"
  have k: "keys_ok db" and pp: "personal_private db" using ok by (simp_all add: db_ok_def)
  have same: "q = project" if "q \<in> set (db_projects db)" "pj_id q = pj_id project" for q
    using that pr(1) k by (auto simp: keys_ok_def distinct_map inj_on_def)
  show ?thesis
  proof (cases "has_member (pj_id project) u db")
    case True
    have "m\<lparr>pm_role := Owner\<rparr> = m" if "m \<in> set (db_members db)" "pm_projectId m = pj_id project" for m
    proof -
      have "pm_role m = Owner" using pp that pr by (auto simp: personal_private_def list_all_iff)
      then show ?thesis by simp
    qed
    then have "map (\<lambda>r. if pm_projectId r = pj_id project \<and> pm_userId r = u then r\<lparr>pm_role := Owner\<rparr> else r) (db_members db) =
        db_members db" by (intro map_idI) auto
    then have "insert_member_update ?m db = db"
      using True by (simp add: insert_member_update_def cong: if_cong)
    then show ?thesis using ok by simp
  next
    case False
    have u: "has_user u db" using k pr by (auto simp: keys_ok_def list_all_iff)
    have p: "has_project (pj_id project) db" using pr(1) by (auto simp: has_project_def list_ex_iff)
    have eq: "insert_member_update ?m db = db\<lparr>db_members := db_members db @ [?m]\<rparr>"
      using False by (simp add: insert_member_update_def)
    have "keys_ok (insert_member_update ?m db)"
      using k u p False
      by (auto simp: eq keys_ok_def has_project_def has_user_def has_member_def list_all_iff list_ex_iff)
    moreover have "teams_owned (insert_member_update ?m db)"
      using ok by (auto simp: eq db_ok_def teams_owned_def owners_def list_all_iff)
    moreover have "personal_private (insert_member_update ?m db)"
      using pp same pr by (auto simp: eq personal_private_def list_all_iff)
    ultimately show ?thesis by (simp add: db_ok_def)
  qed
qed

lemma ensurePersonal_keeps_ok:
  assumes ok: "db_ok db0"
  shows "db_ok (snd (ensurePersonalProject i now u db0))"
proof -
  let ?v = "\<lparr>pj_id = i, pj_name = ''Personal'', pj_kind = Personal, pj_createdBy = u, pj_createdAt = now, pj_updatedAt = now\<rparr>"
  define fresh where "fresh \<longleftrightarrow> find_personal u db0 = None \<and> db_type db0 \<noteq> Other_Database \<and> has_user u db0 \<and> \<not> has_project i db0"
  define db where "db = (if fresh then db0\<lparr>db_projects := db_projects db0 @ [?v]\<rparr> else db0)"
  have none: "pm_projectId m \<noteq> i" if "m \<in> set (db_members db0)" "fresh" for m
    using ok that by (auto simp: db_ok_def keys_ok_def list_all_iff fresh_def)
  have okd: "db_ok db"
    using ok none
    by (auto simp: db_def fresh_def db_ok_def keys_ok_def teams_owned_def personal_private_def owners_def
        has_project_def has_user_def list_all_iff list_ex_iff)
  have "db_ok (insert_member_update \<lparr>pm_projectId = pj_id project, pm_userId = u, pm_role = Owner, pm_createdAt = now\<rparr> db)"
    if "find_personal u db = Some project" for project
    using own_member_keeps_ok [OF okd] find_member_of [OF that [unfolded find_personal_def]] by blast
  then show ?thesis
    using ok okd unfolding ensurePersonalProject_def Let_def fresh_def [symmetric] db_def [symmetric]
    by (auto split: option.splits)
qed

text \<open>The calls that change the tables, one after the other.\<close>

datatype project_call =
    Create string string string string
  | Ensure_Personal string string string
  | Add_Users string string "string list" "project_role option"
  | Remove_User string string
  | Set_Role string string project_role

fun project_exec :: "(string \<Rightarrow> string \<Rightarrow> int) \<Rightarrow> database \<Rightarrow> project_call \<Rightarrow> database" where
  "project_exec lc db (Create i now name u) = snd (createProject i now name u db)"
| "project_exec lc db (Ensure_Personal i now u) = snd (ensurePersonalProject i now u db)"
| "project_exec lc db (Add_Users now p us r) = snd (addUsersToProject now p us r db)"
| "project_exec lc db (Remove_User p u) = snd (removeUserFromProject lc p u db)"
| "project_exec lc db (Set_Role p u r) = snd (updateProjectMemberRole lc p u r db)"

lemma project_exec_keeps_ok: "db_ok db \<Longrightarrow> db_ok (project_exec lc db c)"
proof (cases c)
  case (Remove_User p u)
  assume "db_ok db"
  then show ?thesis using remove_keeps_ok [of db lc p u]
    by (auto simp: Remove_User removeUserFromProject_def split: sum.splits)
next
  case (Set_Role p u r)
  assume "db_ok db"
  then show ?thesis using role_keeps_ok [of db lc p u r]
    by (auto simp: Set_Role updateProjectMemberRole_def split: sum.splits)
qed (simp_all add: create_keeps_ok ensurePersonal_keeps_ok addUsers_keeps_ok)

text \<open>
  C19. Calls made one after the other keep the membership rules: keys and references hold, every
  team keeps at least one owner, and a personal workspace has no member but its creator.
\<close>

theorem project_calls_keep_rules:
  assumes "db_ok db"
  shows "db_ok (foldl (project_exec lc) db calls)"
  using assms by (induction calls arbitrary: db) (simp_all add: project_exec_keeps_ok)

definition sample_user :: "string \<Rightarrow> user_row" where
  "sample_user i = \<lparr>us_id = i, us_email = i, us_name = None, us_role = ''normal'', us_isActive = True,
     us_passwordHash = None, us_createdAt = ''t'', us_updatedAt = ''t''\<rparr>"

definition sample_db :: database where
  "sample_db = \<lparr>db_type = Postgres, db_projects = [], db_members = [],
     db_users = [sample_user ''a'', sample_user ''b'']\<rparr>"

lemma sample_db_ok: "db_ok sample_db"
  by (simp add: sample_db_def sample_user_def db_ok_def keys_ok_def teams_owned_def personal_private_def)

theorem project_calls_keep_rules_witness:
  "db_ok (foldl (project_exec (\<lambda>_ _. 0)) sample_db
     [Create ''p'' ''t'' ''Team'' ''a'', Add_Users ''t'' ''p'' [''b''] (Some Owner), Remove_User ''p'' ''a'', Remove_User ''p'' ''b''])"
  by (rule project_calls_keep_rules [OF sample_db_ok])

text \<open>
  C40. The rule holds only because calls do not overlap: if two owners are removed by two calls
  that both check before either writes, both are accepted and the team is left without an owner.
\<close>

theorem overlapping_removals_leave_no_owner:
  assumes ok: "db_ok db" and p: "getProject p db = Some project" "pj_kind project = Team"
    and two: "length (owners p db) = 2" "set (map pm_userId (owners p db)) = {u, v}"
  shows "remove_check lc p u db = Inr () \<and> remove_check lc p v db = Inr () \<and>
    owners p (remove_write p v (remove_write p u db)) = []"
proof -
  have k: "keys_ok db" using ok by (simp add: db_ok_def)
  have "remove_check lc p w db = Inr ()" for w
    using p two(1) by (simp add: remove_check_def owner_count_eq [OF k])
  moreover have "pm_userId m = u \<or> pm_userId m = v" if "m \<in> set (owners p db)" for m
    using that two(2) by auto
  then have "owners p (remove_write p v (remove_write p u db)) = []"
    by (auto simp: owners_def remove_write_def filter_empty_conv)
  ultimately show ?thesis by simp
qed

definition two_owner_db :: database where
  "two_owner_db = foldl (project_exec (\<lambda>_ _. 0)) sample_db
     [Create ''p'' ''t'' ''Team'' ''a'', Add_Users ''t'' ''p'' [''b''] (Some Owner)]"

lemma two_owner_db_ok: "db_ok two_owner_db"
  unfolding two_owner_db_def foldl_Cons foldl_Nil by (intro project_exec_keeps_ok sample_db_ok)

theorem overlapping_removals_leave_no_owner_witness:
  "owners ''p'' (remove_write ''p'' ''b'' (remove_write ''p'' ''a'' two_owner_db)) = []"
proof -
  have g: "map_option pj_kind (getProject ''p'' two_owner_db) = Some Team" by code_simp
  have o: "map pm_userId (owners ''p'' two_owner_db) = [''a'', ''b'']" by code_simp
  from g obtain project where "getProject ''p'' two_owner_db = Some project" "pj_kind project = Team" by auto
  moreover have "length (owners ''p'' two_owner_db) = 2" using arg_cong [OF o, of length] by simp
  moreover have "set (map pm_userId (owners ''p'' two_owner_db)) = {''a'', ''b''}" unfolding o by simp
  ultimately show ?thesis
    by (rule conjunct2 [OF conjunct2 [OF overlapping_removals_leave_no_owner [OF two_owner_db_ok, where lc = "\<lambda>_ _. 0"]]])
qed

section \<open>Permissions\<close>

lemma role_actions_chain:
  "set (allowedActionsForRole Runner) \<subset> set (allowedActionsForRole Editor) \<and>
   set (allowedActionsForRole Editor) \<subset> set (allowedActionsForRole Owner)"
  by (auto simp: allowedActionsForRole_def ROLE_ACTIONS_def)

lemma listed_memberships:
  assumes "role \<noteq> Some ''admin''"
  shows "ms \<in> set (listProjectsForUser lc u role db) \<longleftrightarrow>
    (\<exists>p m. p \<in> set (db_projects db) \<and> m \<in> set (db_members db) \<and> pm_projectId m = pj_id p \<and> pm_userId m = u \<and>
       ms = mapMembership p (Some (pm_role m)) role)"
  using assms by (simp add: listProjectsForUser_def sortMemberships_def image_UN image_image) blast

lemma getProject_None: "getProject p db = None \<longleftrightarrow> \<not> has_project p db"
  by (auto simp: getProject_def has_project_def find_None_iff list_ex_iff)

lemma mapMembership_project [simp]: "ms_project (mapMembership p r role) = p"
  by (simp add: mapMembership_def)

lemma member_permission:
  assumes k: "keys_ok db" and na: "role \<noteq> Some ''admin''"
  shows "userHasProjectPermission lc u p a role db \<longleftrightarrow>
    list_ex (\<lambda>m. pm_projectId m = p \<and> pm_userId m = u \<and> a \<in> set (allowedActionsForRole (pm_role m))) (db_members db)"
    (is "?l \<longleftrightarrow> ?r")
proof
  assume ?l
  then obtain ms where f: "find (\<lambda>m. pj_id (ms_project m) = p) (listProjectsForUser lc u role db) = Some ms"
    and a: "a \<in> set (ms_allowedActions ms)"
    using na by (auto simp: userHasProjectPermission_def getProjectMembership_def split: option.splits)
  from find_member_of [OF f] have l: "ms \<in> set (listProjectsForUser lc u role db)" and i: "pj_id (ms_project ms) = p"
    by simp_all
  obtain q m where ms: "ms = mapMembership q (Some (pm_role m)) role" and m: "m \<in> set (db_members db)"
    "pm_projectId m = pj_id q" "pm_userId m = u"
    using l unfolding listed_memberships [OF na] by blast
  moreover have "a \<in> set (allowedActionsForRole (pm_role m))"
    using a na by (simp add: ms mapMembership_def nullish_def)
  ultimately show ?r using i by (auto simp: list_ex_iff)
next
  assume ?r
  then obtain m where m: "m \<in> set (db_members db)" "pm_projectId m = p" "pm_userId m = u"
    "a \<in> set (allowedActionsForRole (pm_role m))" by (auto simp: list_ex_iff)
  obtain q where q: "q \<in> set (db_projects db)" "pj_id q = p"
    using k m(1,2) by (auto simp: keys_ok_def list_all_iff has_project_def list_ex_iff)
  then have "mapMembership q (Some (pm_role m)) role \<in> set (listProjectsForUser lc u role db)"
    unfolding listed_memberships [OF na] using m by blast
  moreover have "pj_id (ms_project (mapMembership q (Some (pm_role m)) role)) = p" using q by simp
  ultimately obtain ms where f: "find (\<lambda>x. pj_id (ms_project x) = p) (listProjectsForUser lc u role db) = Some ms"
    using find_exists [where P = "\<lambda>x. pj_id (ms_project x) = p"] by blast
  from find_member_of [OF f] have l: "ms \<in> set (listProjectsForUser lc u role db)" and i: "pj_id (ms_project ms) = p"
    by simp_all
  obtain q' m' where ms: "ms = mapMembership q' (Some (pm_role m')) role" "m' \<in> set (db_members db)"
    "pm_projectId m' = pj_id q'" "pm_userId m' = u"
    using l unfolding listed_memberships [OF na] by blast
  then have "pm_projectId m' = p" using i by simp
  then have "m' = m" using k m ms(2,4) by (auto simp: keys_ok_def distinct_map inj_on_def)
  then show ?l using f ms(1) m(4) na
    by (simp add: userHasProjectPermission_def getProjectMembership_def mapMembership_def nullish_def)
qed

text \<open>
  C20. Access control: a user who is not a platform administrator may do an action in a project
  exactly when the user is a member with a role that allows it, and an administrator exactly when
  the project exists; only viewing and running are open to every role.
\<close>

theorem permission_iff_role:
  assumes "db_ok db"
  shows "userHasProjectPermission lc u p a role db \<longleftrightarrow>
    (if role = Some ''admin'' then has_project p db
     else list_ex (\<lambda>m. pm_projectId m = p \<and> pm_userId m = u \<and> a \<in> set (ROLE_ACTIONS (pm_role m))) (db_members db))"
proof (cases "role = Some ''admin''")
  case True
  then show ?thesis
    using getProject_None [of p db]
    by (cases a; cases "getProject p db")
      (auto simp: userHasProjectPermission_def getProjectMembership_def allowedActionsForRole_def ROLE_ACTIONS_def)
next
  case False
  then show ?thesis using member_permission [of db role lc u p a] assms
    by (simp add: db_ok_def allowedActionsForRole_def)
qed

theorem permission_iff_role_witness:
  "userHasProjectPermission (\<lambda>_ _. 0) ''b'' ''p'' Manage None two_owner_db"
proof -
  have "list_ex (\<lambda>m. pm_projectId m = ''p'' \<and> pm_userId m = ''b'' \<and> Manage \<in> set (ROLE_ACTIONS (pm_role m)))
      (db_members two_owner_db)" by code_simp
  then show ?thesis
    using permission_iff_role [OF two_owner_db_ok, of "\<lambda>_ _. 0" "''b''" "''p''" Manage None] by simp
qed

text \<open>
  Only a member manager changes a team: without a signed-in user who may manage the project,
  each of the three team actions fails and leaves every table as it was.
\<close>

theorem team_actions_need_manager:
  assumes "case session of None \<Rightarrow> True
      | Some (u, role) \<Rightarrow> u = [] \<or> \<not> userHasProjectPermission lc u (trim p) Manage role db"
  shows "addTeamMembersAction lc session now p us db = (Inl (Err ''You do not have permission to manage this team.''), db) \<and>
    updateTeamMemberRoleAction lc session p u' r db = (Inl (Err ''You do not have permission to manage this team.''), db) \<and>
    removeTeamMemberAction lc session p u' db = (Inl (Err ''You do not have permission to manage this team.''), db)"
proof -
  have "requireMemberManager lc session (trim p) db = Inl (Err ''You do not have permission to manage this team.'')"
    using assms by (auto simp: requireMemberManager_def split: option.splits prod.splits list.splits)
  then show ?thesis
    by (simp add: addTeamMembersAction_def updateTeamMemberRoleAction_def removeTeamMemberAction_def)
qed

theorem team_actions_need_manager_witness:
  "snd (removeTeamMemberAction (\<lambda>_ _. 0) (Some (''b'', None)) ''p'' ''a'' sample_db) = sample_db"
proof -
  have "\<not> userHasProjectPermission (\<lambda>_ _. 0) ''b'' (trim ''p'') Manage None sample_db" by code_simp
  with team_actions_need_manager [where session = "Some (''b'', None)" and lc = "\<lambda>_ _. 0" and p = "''p''" and db = sample_db]
  show ?thesis by simp
qed

text \<open>
  A platform administrator may manage any existing project, other users' personal workspaces
  included, although those are not among the projects listed for the administrator.
\<close>

theorem admin_manages_unlisted_personal_workspaces:
  assumes "project \<in> set (db_projects db)" "pj_kind project = Personal" "pj_createdBy project \<noteq> adm" "db_ok db"
  shows "userHasProjectPermission lc adm (pj_id project) Manage (Some ''admin'') db \<and>
    project \<notin> ms_project ` set (listProjectsForUser lc adm (Some ''admin'') db)"
proof -
  obtain q where "getProject (pj_id project) db = Some q"
    using assms(1) find_exists [where P = "\<lambda>p. pj_id p = pj_id project"] by (force simp: getProject_def)
  then show ?thesis
    using assms(2,3)
    by (auto simp: userHasProjectPermission_def getProjectMembership_def allowedActionsForRole_def ROLE_ACTIONS_def
        listProjectsForUser_def sortMemberships_def mapMembership_def)
qed

end
