(* ===== verification/Retry_Policy.thy ===== *)
theory Retry_Policy
  imports Flow_Types
begin

text \<open>
  \<^verbatim>\<open>src/ui-v2/src/modules/workflow/lib/test-retry-policy.ts\<close>: which tests may be retried
  automatically, and when the confirmation that an operation is idempotent goes stale.
\<close>

definition operation :: "scenario_test \<Rightarrow> string" where
  "operation t =
     (case st_type t of
        THttp \<Rightarrow> nullish (map_option http_method (st_httpConfig t)) ''GET''
      | TDocument \<Rightarrow> nullish (map_option doc_operation (st_documentConfig t)) []
      | TCache \<Rightarrow> nullish (map_option cc_operation (st_cacheConfig t)) []
      | TQueue \<Rightarrow> nullish (map_option qc_operation (st_queueConfig t)) []
      | TDatabase \<Rightarrow> nullish (map_option dbc_query (st_databaseConfig t)) []
      | TShell \<Rightarrow> nullish (map_option sh_command (st_shellConfig t)) []
      | TDelay \<Rightarrow> nullish (map_option show_int (st_delayMs t)) [])"

definition test_type_name :: "test_type \<Rightarrow> string" where
  "test_type_name t =
     (case t of TDatabase \<Rightarrow> ''database'' | TDocument \<Rightarrow> ''document'' | THttp \<Rightarrow> ''http'' | TShell \<Rightarrow> ''shell''
      | TCache \<Rightarrow> ''cache'' | TQueue \<Rightarrow> ''queue'' | TDelay \<Rightarrow> ''delay'')"

definition retryOperationSignature :: "scenario_test \<Rightarrow> string" where
  "retryOperationSignature t = test_type_name (st_type t) @ '':'' @ operation t"

definition isAutomaticallyRetrySafe :: "scenario_test \<Rightarrow> bool" where
  "isAutomaticallyRetrySafe t =
     (case st_type t of
        THttp \<Rightarrow> nullish (map_option http_method (st_httpConfig t)) ''GET'' \<in> set [''GET'', ''HEAD'', ''OPTIONS'']
      | TDocument \<Rightarrow> nullish (map_option doc_operation (st_documentConfig t)) [] \<in>
          set [''find_one'', ''find_many'', ''count_documents'', ''exists'']
      | TCache \<Rightarrow> nullish (map_option cc_operation (st_cacheConfig t)) [] \<in> set [''ping'', ''get'', ''exists'']
      | TQueue \<Rightarrow> nullish (map_option qc_operation (st_queueConfig t)) [] \<in> set [''check_topic'', ''list_topics'']
      | _ \<Rightarrow> False)"

definition hasExplicitIdempotencyRetry :: "scenario_test \<Rightarrow> bool" where
  "hasExplicitIdempotencyRetry t =
     (case st_retryPolicy t of
        Some policy \<Rightarrow> rp_mode policy \<noteq> ''never'' \<and> rp_idempotencyConfirmed policy
      | None \<Rightarrow> False)"

definition guidedRetryDescription :: "scenario_test \<Rightarrow> string" where
  "guidedRetryDescription t =
     (if st_type t = TDelay then ''Delay steps are never retried.''
      else if map_option rp_mode (st_retryPolicy t) = Some ''never''
      then ''Automatic retry is disabled. Switch to Expert mode to edit this policy.''
      else if hasExplicitIdempotencyRetry t
      then ''An Expert confirmed this operation can safely run twice. One transient transport failure will be retried.''
      else if isAutomaticallyRetrySafe t
      then ''Tokyo Tester retries one safe transient connection failure. Assertions and timeouts still fail immediately.''
      else ''This operation is not automatically retried. Switch to Expert mode only if you can confirm it is idempotent.'')"

definition clearStaleIdempotencyConfirmation :: "scenario_test \<Rightarrow> scenario_test \<Rightarrow> scenario_test" where
  "clearStaleIdempotencyConfirmation previous new =
     (case st_retryPolicy previous of
        Some policy \<Rightarrow>
          if \<not> rp_idempotencyConfirmed policy \<or> retryOperationSignature previous = retryOperationSignature new then new
          else new\<lparr>st_retryPolicy := Some \<lparr>rp_mode = nullish (map_option rp_mode (st_retryPolicy new)) (rp_mode policy),
                   rp_idempotencyConfirmed = False\<rparr>\<rparr>
      | None \<Rightarrow> new)"

section \<open>A confirmation belongs to one operation\<close>

lemma test_type_name_no_colon: "CHR '':'' \<notin> set (test_type_name t)"
  by (cases t) (simp_all add: test_type_name_def)

lemma test_type_name_inj: "test_type_name a = test_type_name b \<Longrightarrow> a = b"
  by (cases a; cases b) (simp_all add: test_type_name_def)

lemma prefix_before_colon:
  "c \<notin> set xs \<Longrightarrow> c \<notin> set ys \<Longrightarrow> xs @ c # us = ys @ c # vs \<longleftrightarrow> xs = ys \<and> us = vs"
proof (induction xs arbitrary: ys)
  case Nil then show ?case by (cases ys) auto
next
  case (Cons x xs) then show ?case by (cases ys) auto
qed

text \<open>The signature identifies the kind of test and its operation.\<close>

lemma signature_eq:
  "retryOperationSignature a = retryOperationSignature b \<longleftrightarrow> st_type a = st_type b \<and> operation a = operation b"
  using prefix_before_colon [OF test_type_name_no_colon test_type_name_no_colon] test_type_name_inj
  by (auto simp: retryOperationSignature_def)

lemma operation_retry [simp]: "operation (t\<lparr>st_retryPolicy := r\<rparr>) = operation t"
  by (simp add: operation_def cong: test_type.case_cong)

text \<open>
  A confirmation that an operation may run twice never carries over to another operation:
  after an edit, a test whose previous version was confirmed is still confirmed only if its kind and
  operation are unchanged, and nothing but the retry policy is touched.
\<close>

theorem confirmation_never_carries_over:
  "(let t = clearStaleIdempotencyConfirmation previous new
    in (hasExplicitIdempotencyRetry previous \<and> hasExplicitIdempotencyRetry t \<longrightarrow>
          st_type t = st_type previous \<and> operation t = operation previous) \<and>
       t\<lparr>st_retryPolicy := None\<rparr> = new\<lparr>st_retryPolicy := None\<rparr> \<and>
       map_option rp_mode (st_retryPolicy new) \<in> {None, map_option rp_mode (st_retryPolicy t)})"
  by (auto simp: clearStaleIdempotencyConfirmation_def hasExplicitIdempotencyRetry_def signature_eq nullish_def
      split: option.splits if_splits)

definition shell_test :: "string \<Rightarrow> bool \<Rightarrow> scenario_test" where
  "shell_test cmd confirmed = \<lparr>st_id = ''1'', st_name = ''t'', st_type = TShell, st_targetServices = None,
     st_dependsOnTestIds = None, st_retryPolicy = Some \<lparr>rp_mode = ''transient'', rp_idempotencyConfirmed = confirmed\<rparr>,
     st_databaseConfig = None, st_documentConfig = None, st_httpConfig = None,
     st_shellConfig = Some \<lparr>sh_command = cmd, sh_env = None, sh_expectedOutput = None, sh_expectedExitCode = None\<rparr>,
     st_cacheConfig = None, st_queueConfig = None, st_delayMs = None\<rparr>"

theorem confirmation_never_carries_over_witness:
  "\<not> hasExplicitIdempotencyRetry (clearStaleIdempotencyConfirmation (shell_test ''ls'' True) (shell_test ''rm'' True))"
proof -
  have "operation (shell_test ''ls'' True) \<noteq> operation (shell_test ''rm'' True)"
    "hasExplicitIdempotencyRetry (shell_test ''ls'' True)"
    by (simp_all add: operation_def shell_test_def nullish_def hasExplicitIdempotencyRetry_def)
  moreover have "operation (clearStaleIdempotencyConfirmation (shell_test ''ls'' True) (shell_test ''rm'' True)) =
      operation (shell_test ''rm'' True)"
    by (simp add: clearStaleIdempotencyConfirmation_def split: option.splits)
  ultimately show ?thesis
    using confirmation_never_carries_over [of "shell_test ''ls'' True" "shell_test ''rm'' True"] by auto
qed

end
