(* ===== verification/Js_Strings.thy ===== *)
theory Js_Strings
  imports Js_Prelude
begin

text \<open>
  Shared lemmas on the string functions and dictionaries of \<open>Js_Prelude\<close>: lower case, trimming,
  substrings and splitting, and lookups after \<open>AList\<close> updates.
\<close>

subsection \<open>Lower case\<close>

lemma lower_char_twice [simp]: "lower_char (lower_char c) = lower_char c"
  by (auto simp: lower_char_def is_upper_latin1_def)

lemma toLowerCase_twice [simp]: "toLowerCase (toLowerCase s) = toLowerCase s"
  by (simp add: toLowerCase_def)

lemma toLowerCase_simps [simp]:
  "toLowerCase [] = []" "toLowerCase (c # s) = lower_char c # toLowerCase s"
  "toLowerCase (s @ t) = toLowerCase s @ toLowerCase t" "toLowerCase s = [] \<longleftrightarrow> s = []"
  by (simp_all add: toLowerCase_def)

subsection \<open>Trimming\<close>

lemma trim_solid: "list_all (\<lambda>c. \<not> is_space c) s \<Longrightarrow> trim s = s"
proof -
  assume s: "list_all (\<lambda>c. \<not> is_space c) s"
  have drop: "dropWhile is_space t = t" if "list_all (\<lambda>c. \<not> is_space c) t" for t using that by (cases t) auto
  have "list_all (\<lambda>c. \<not> is_space c) (rev s)" using s by (simp add: list_all_iff)
  then show ?thesis by (simp add: trim_def drop s)
qed

lemma trim_ends:
  assumes "s \<noteq> []" "\<not> is_space (hd s)" "\<not> is_space (last s)"
  shows "trim s = s"
proof -
  have "dropWhile is_space s = s" using assms by (cases s) auto
  moreover have "dropWhile is_space (rev s) = rev s" using assms by (cases "rev s") (auto simp: last_rev hd_rev [symmetric])
  ultimately show ?thesis by (simp add: trim_def)
qed

lemma trim_last: "trim s \<noteq> [] \<Longrightarrow> \<not> is_space (last (trim s))"
proof -
  assume "trim s \<noteq> []"
  then have "dropWhile is_space (rev (dropWhile is_space s)) \<noteq> []" by (simp add: trim_def)
  from hd_dropWhile [OF this] show ?thesis by (simp add: trim_def last_rev)
qed

lemma trim_Nil [simp]: "trim [] = []"
  by (simp add: trim_def)

lemma trim_hd: "trim s \<noteq> [] \<Longrightarrow> \<not> is_space (hd (trim s))"
proof -
  assume "trim s \<noteq> []"
  then have "dropWhile is_space s \<noteq> []" by (auto simp: trim_def dest: set_dropWhileD)
  then obtain c cs where d: "dropWhile is_space s = c # cs" "\<not> is_space c"
    by (cases "dropWhile is_space s") (auto simp: dropWhile_eq_Cons_conv)
  then have "trim s = c # rev (dropWhile is_space (rev cs)) \<or> trim s = [c]"
    by (auto simp: trim_def dropWhile_append3 dropWhile_append)
  then show ?thesis using d(2) by auto
qed

lemma trim_twice [simp]: "trim (trim s) = trim s"
  using trim_hd trim_last trim_ends by (cases "trim s = []") auto

lemma trim_subset: "set (trim s) \<subseteq> set s"
proof
  fix c assume "c \<in> set (trim s)"
  then have "c \<in> set (dropWhile is_space (rev (dropWhile is_space s)))" by (simp add: trim_def)
  from set_dropWhileD [OF this] have "c \<in> set (dropWhile is_space s)" by simp
  from set_dropWhileD [OF this] show "c \<in> set s" by simp
qed

subsection \<open>Substrings and splitting\<close>

lemma includes_str_chars: "includes_str s pat \<Longrightarrow> set pat \<subseteq> set s"
  by (induction s) (auto dest!: set_mono_prefix)

lemma includes_str_iff: "includes_str s pat \<longleftrightarrow> (\<exists>a b. s = a @ pat @ b)"
proof (induction s)
  case (Cons c cs)
  note IH = Cons.IH
  show ?case
  proof
    assume "includes_str (c # cs) pat"
    then consider "prefix pat (c # cs)" | "includes_str cs pat" by auto
    then show "\<exists>a b. c # cs = a @ pat @ b"
      using Cons by cases (auto simp: prefix_def intro: exI [of _ "[]"], metis append_Cons)
  next
    assume "\<exists>a b. c # cs = a @ pat @ b"
    then obtain a b where eq: "c # cs = a @ pat @ b" by blast
    show "includes_str (c # cs) pat"
    proof (cases a)
      case Nil
      then have "prefix pat (c # cs)" using eq by (simp add: prefix_def)
      then show ?thesis by simp
    next
      case (Cons x xs)
      then show ?thesis using eq IH by auto
    qed
  qed
qed auto

lemma split_on_nonempty [simp]: "split_on d s \<noteq> []"
  by (induction s) (auto split: list.splits)

lemma split_on_map:
  assumes "\<And>c. f c = d \<longleftrightarrow> c = d"
  shows "split_on d (map f s) = map (map f) (split_on d s)"
  using assms by (induction s) (auto split: list.splits)

lemma split_on_chars: "c \<in> set s \<Longrightarrow> c = d \<or> (\<exists>l \<in> set (split_on d s). c \<in> set l)"
  by (induction s) (auto split: list.splits)

subsection \<open>Dictionaries\<close>

lemma map_of_AList [simp]:
  "map_of (AList.update k v m) = (map_of m)(k \<mapsto> v)" "map_of (AList.delete k m) = (map_of m)(k := None)"
  by (simp_all add: update_conv' delete_conv')

end
