(* ===== verification/Registry_Config.thy ===== *)
theory Registry_Config
  imports Flow_Types Js_Strings
begin

text \<open>
  Private registries: \<^verbatim>\<open>src/ui-v2/src/modules/workflow/lib/registry-config.ts\<close> (the host and
  image names and the registry form) and
  \<^verbatim>\<open>src/ui-v2/src/modules/workflow/stores/registry-secret-store.ts\<close> (the credentials, kept in
  memory only). The regular expressions are written out as predicates and scanners. The theory shows
  that the host is a normal form, that an image is only ever pulled from the configured registry, that
  the form and the configuration convert into each other, and what the secret store remembers.
\<close>

section \<open>Hosts\<close>

definition is_digit :: "char \<Rightarrow> bool" where
  "is_digit c \<longleftrightarrow> (let n = (of_char c :: nat) in 48 \<le> n \<and> n \<le> 57)"

definition is_alpha :: "char \<Rightarrow> bool" where
  "is_alpha c \<longleftrightarrow> (let n = (of_char c :: nat) in (65 \<le> n \<and> n \<le> 90) \<or> (97 \<le> n \<and> n \<le> 122))"

definition is_hex :: "char \<Rightarrow> bool" where
  "is_hex c \<longleftrightarrow>
     (let n = (of_char c :: nat) in (48 \<le> n \<and> n \<le> 57) \<or> (65 \<le> n \<and> n \<le> 70) \<or> (97 \<le> n \<and> n \<le> 102))"

definition alnum :: "char \<Rightarrow> bool" where
  "alnum c \<longleftrightarrow> is_alpha c \<or> is_digit c"

text \<open>One label of the host pattern: at most 63 letters, digits and hyphens, no hyphen at an end.\<close>

definition host_label :: "string \<Rightarrow> bool" where
  "host_label l \<longleftrightarrow>
     l \<noteq> [] \<and> length l \<le> 63 \<and> list_all (\<lambda>c. alnum c \<or> c = CHR ''-'') l \<and> alnum (hd l) \<and> alnum (last l)"

definition valid_host :: "string \<Rightarrow> bool" where
  "valid_host host \<longleftrightarrow> host = ''localhost'' \<or> list_all host_label (split_on (CHR ''.'') host)"

text \<open>The two groups of the pattern for a bracketed address with a port.\<close>

definition bracketed :: "string \<Rightarrow> (string \<times> string) option" where
  "bracketed input =
     (case input of
        [] \<Rightarrow> None
      | c # rest \<Rightarrow>
          (let body = takeWhile (\<lambda>d. is_hex d \<or> d = CHR '':'') rest;
               after = dropWhile (\<lambda>d. is_hex d \<or> d = CHR '':'') rest
           in if c = CHR ''['' \<and> body \<noteq> []
              then (case after of
                      d # e # port \<Rightarrow>
                        if d = CHR '']'' \<and> e = CHR '':'' \<and> port \<noteq> [] \<and> list_all is_digit port
                        then Some (''['' @ body @ '']'', port) else None
                    | _ \<Rightarrow> None)
              else None))"

definition number_of_digits :: "string \<Rightarrow> nat" where
  "number_of_digits s = foldl (\<lambda>n c. 10 * n + (of_char c - 48)) 0 s"

definition port_ok :: "string \<Rightarrow> bool" where
  "port_ok port \<longleftrightarrow>
     port \<noteq> [] \<and> list_all is_digit port \<and> 1 \<le> number_of_digits port \<and> number_of_digits port \<le> 65535"

text \<open>Host and port of an input without brackets: the text around its last (here: only) colon.\<close>

definition split_port :: "string \<Rightarrow> string \<times> string option" where
  "split_port input =
     (if CHR '':'' \<in> set input
      then (takeWhile (\<lambda>c. c \<noteq> CHR '':'') input, Some (tl (dropWhile (\<lambda>c. c \<noteq> CHR '':'') input)))
      else (input, None))"

definition host_with_port :: "string \<Rightarrow> string option \<Rightarrow> string" where
  "host_with_port host port =
     toLowerCase host @ (case port of None \<Rightarrow> [] | Some p \<Rightarrow> if p = [] then [] else '':'' @ p)"

definition normalizeRegistryHost :: "string \<Rightarrow> string res" where
  "normalizeRegistryHost value =
     (let input = trim value in
      if input = [] then Inl (Err ''Enter the registry host.'')
      else if includes_str input ''://'' then Inl (Err ''Enter a host only, without http:// or https://.'')
      else if list_ex (\<lambda>c. c \<in> set ''/?#@'') input
      then Inl (Err ''The registry field cannot contain a path or credentials.'')
      else if hd input = CHR ''['' \<and> bracketed input = None
      then Inl (Err ''Enter a valid bracketed IPv6 registry host.'')
      else if bracketed input = None \<and> 1 < length (filter (\<lambda>c. c = CHR '':'') input)
      then Inl (Err ''Bracket IPv6 addresses before adding a port.'')
      else
        (let (host, port) =
           (case bracketed input of Some (h, p) \<Rightarrow> (h, Some p) | None \<Rightarrow> split_port input)
         in if bracketed input = None \<and> \<not> valid_host host then Inl (Err ''Enter a valid registry host.'')
            else if (case port of None \<Rightarrow> False | Some p \<Rightarrow> \<not> port_ok p)
            then Inl (Err ''Registry port must be between 1 and 65535.'')
            else Inr (host_with_port host port)))"

section \<open>Images\<close>

definition first_segment :: "string \<Rightarrow> string" where
  "first_segment img = takeWhile (\<lambda>c. c \<noteq> CHR ''/'') img"

definition hasExplicitRegistry :: "string \<Rightarrow> bool" where
  "hasExplicitRegistry img \<longleftrightarrow>
     (let first = first_segment img
      in first = ''localhost'' \<or> CHR ''.'' \<in> set first \<or> CHR '':'' \<in> set first \<or> prefix ''['' first)"

definition resolveRegistryImage :: "string \<Rightarrow> string \<Rightarrow> string res" where
  "resolveRegistryImage registry img =
     bind_res (normalizeRegistryHost registry) (\<lambda>host.
       let repository = dropWhile (\<lambda>c. c = CHR ''/'') (trim img) in
       if repository = [] then Inl (Err ''Enter a container image.'')
       else if includes_str repository ''://'' then Inl (Err ''Container images cannot include a URL scheme.'')
       else if \<not> hasExplicitRegistry repository then Inr (host @ ''/'' @ repository)
       else bind_res (normalizeRegistryHost (first_segment repository)) (\<lambda>imageHost.
         if imageHost \<noteq> host
         then Inl (Err (''The image uses '' @ imageHost @ '', but this service is configured for '' @ host @ ''.''))
         else Inr repository))"

section \<open>The form\<close>

datatype registry_auth_type = Auth_none | Auth_basic | Auth_token

record registry_runtime_config =
  rr_url :: string
  rr_auth_type :: registry_auth_type
  rr_username :: "string option"
  rr_password :: "string option"
  rr_token :: "string option"

record registry_form_value =
  rf_enabled :: bool
  rf_url :: string
  rf_auth_type :: registry_auth_type
  rf_username :: string
  rf_password :: string
  rf_token :: string

definition EMPTY_REGISTRY_FORM :: registry_form_value where
  "EMPTY_REGISTRY_FORM = \<lparr>rf_enabled = False, rf_url = [], rf_auth_type = Auth_basic, rf_username = [],
     rf_password = [], rf_token = []\<rparr>"

definition registryFormFromConfig :: "registry_runtime_config option \<Rightarrow> registry_form_value" where
  "registryFormFromConfig config =
     (case config of
        None \<Rightarrow> EMPTY_REGISTRY_FORM
      | Some c \<Rightarrow> \<lparr>rf_enabled = True, rf_url = rr_url c, rf_auth_type = rr_auth_type c,
          rf_username = nullish (rr_username c) [], rf_password = nullish (rr_password c) [],
          rf_token = nullish (rr_token c) []\<rparr>)"

text \<open>The field and the message of the first problem.\<close>

definition validateRegistryForm :: "registry_form_value \<Rightarrow> (string \<times> string) option" where
  "validateRegistryForm v =
     (if \<not> rf_enabled v then None
      else case normalizeRegistryHost (rf_url v) of
        Inl (Err message) \<Rightarrow> Some (''registry-url'', message)
      | Inl _ \<Rightarrow> Some (''registry-url'', ''Invalid registry host.'')
      | Inr _ \<Rightarrow>
          if rf_auth_type v = Auth_basic \<and> trim (rf_username v) = []
          then Some (''registry-username'', ''Enter the registry username.'')
          else if rf_auth_type v = Auth_basic \<and> rf_password v = []
          then Some (''registry-password'', ''Enter a password or pull token.'')
          else if rf_auth_type v = Auth_token \<and> rf_token v = []
          then Some (''registry-token'', ''Enter the Docker registry identity token.'')
          else None)"

definition registryConfigFromForm :: "registry_form_value \<Rightarrow> registry_runtime_config option res" where
  "registryConfigFromForm v =
     (if \<not> rf_enabled v then Inr None
      else bind_res (normalizeRegistryHost (rf_url v)) (\<lambda>url.
        Inr (Some (case rf_auth_type v of
            Auth_none \<Rightarrow> \<lparr>rr_url = url, rr_auth_type = Auth_none, rr_username = None, rr_password = None,
              rr_token = None\<rparr>
          | Auth_token \<Rightarrow> \<lparr>rr_url = url, rr_auth_type = Auth_token, rr_username = None, rr_password = None,
              rr_token = Some (rf_token v)\<rparr>
          | Auth_basic \<Rightarrow> \<lparr>rr_url = url, rr_auth_type = Auth_basic, rr_username = Some (trim (rf_username v)),
              rr_password = Some (rf_password v), rr_token = None\<rparr>))))"

section \<open>The secret store\<close>

type_synonym secret_store = "(string \<times> (string \<times> registry_runtime_config) list) list"

definition setSecret :: "string \<Rightarrow> string \<Rightarrow> registry_runtime_config \<Rightarrow> secret_store \<Rightarrow> secret_store" where
  "setSecret workflowId nodeId config secrets =
     AList.update workflowId (AList.update nodeId config (nullish (map_of secrets workflowId) [])) secrets"

definition getSecret :: "string \<Rightarrow> string \<Rightarrow> secret_store \<Rightarrow> registry_runtime_config option" where
  "getSecret workflowId nodeId secrets = Option.bind (map_of secrets workflowId) (\<lambda>m. map_of m nodeId)"

definition clearSecret :: "string \<Rightarrow> string \<Rightarrow> secret_store \<Rightarrow> secret_store" where
  "clearSecret workflowId nodeId secrets =
     (let workflowSecrets = AList.delete nodeId (nullish (map_of secrets workflowId) [])
      in if workflowSecrets = [] then AList.delete workflowId secrets
         else AList.update workflowId workflowSecrets secrets)"

definition clearWorkflow :: "string \<Rightarrow> secret_store \<Rightarrow> secret_store" where
  "clearWorkflow workflowId secrets = AList.delete workflowId secrets"

definition clearAll :: "secret_store \<Rightarrow> secret_store" where
  "clearAll secrets = []"

section \<open>Characters and labels\<close>

named_theorems host_chars \<open>classes of characters, unfolded to their codes\<close>

declare is_digit_def [host_chars] is_alpha_def [host_chars] is_hex_def [host_chars] alnum_def [host_chars]
  is_space_def [host_chars] lower_char_def [host_chars] is_upper_latin1_def [host_chars]

lemma lower_alnum [simp]: "alnum (lower_char c) = alnum c"
  by (auto simp: host_chars)

lemma lower_hex [simp]: "is_hex c \<Longrightarrow> is_hex (lower_char c)"
  by (auto simp: host_chars)

lemma lower_code_low:
  assumes "(of_char d :: nat) \<le> 64"
  shows "lower_char c = d \<longleftrightarrow> c = d"
proof -
  have "lower_char c \<noteq> d \<and> c \<noteq> d" if u: "is_upper_latin1 c"
  proof -
    from u have "64 < (of_char c :: nat)" "(of_char (lower_char c) :: nat) = of_char c + 32"
      by (auto simp: host_chars)
    with assms show ?thesis by auto
  qed
  then show ?thesis by (auto simp: lower_char_def)
qed

lemma lower_punct [simp]:
  "lower_char c = CHR ''.'' \<longleftrightarrow> c = CHR ''.''" "lower_char c = CHR ''-'' \<longleftrightarrow> c = CHR ''-''"
  "lower_char c = CHR '':'' \<longleftrightarrow> c = CHR '':''"
  by (rule lower_code_low, simp)+

lemma split_on_lower: "split_on (CHR ''.'') (toLowerCase s) = map toLowerCase (split_on (CHR ''.'') s)"
  unfolding toLowerCase_def [abs_def] by (rule split_on_map) simp

lemma host_label_lower: "host_label l \<Longrightarrow> host_label (toLowerCase l)"
  by (auto simp: host_label_def toLowerCase_def list_all_iff hd_map last_map)

lemma valid_host_lower: "valid_host h \<Longrightarrow> valid_host (toLowerCase h)"
proof (cases "h = ''localhost''")
  case True
  then show ?thesis by (simp add: valid_host_def host_chars)
next
  case False
  assume "valid_host h"
  with False have "list_all host_label (split_on (CHR ''.'') h)" by (simp add: valid_host_def)
  then have "list_all host_label (split_on (CHR ''.'') (toLowerCase h))"
    by (auto simp: split_on_lower list_all_iff host_label_lower)
  then show ?thesis by (simp add: valid_host_def)
qed

text \<open>The characters of a valid host, and what they are not.\<close>

definition host_char :: "char \<Rightarrow> bool" where
  "host_char c \<longleftrightarrow> alnum c \<or> c = CHR ''-'' \<or> c = CHR ''.''"

lemma valid_host_chars: "valid_host h \<Longrightarrow> h \<noteq> [] \<and> list_all host_char h"
proof (cases "h = ''localhost''")
  case True
  then show ?thesis by (simp add: host_char_def host_chars)
next
  case False
  assume v: "valid_host h"
  then have l: "list_all host_label (split_on (CHR ''.'') h)" using False by (simp add: valid_host_def)
  then have "list_all host_char h"
    using split_on_chars [of _ h "CHR ''.''"] by (fastforce simp: list_all_iff host_label_def host_char_def)
  moreover have "h \<noteq> []" using l by (auto simp: host_label_def)
  ultimately show ?thesis by simp
qed

lemma host_char_not: "host_char c \<Longrightarrow> \<not> is_space c \<and> c \<notin> set ''/?#@:[]''"
  by (auto simp: host_char_def host_chars)

lemma digit_not: "is_digit c \<Longrightarrow> \<not> is_space c \<and> c \<notin> set ''/?#@:[]''"
  by (auto simp: host_chars)

lemma hex_not: "is_hex c \<Longrightarrow> \<not> is_space c \<and> c \<notin> set ''/?#@:[]''"
  by (auto simp: host_chars)

section \<open>Normal forms of hosts\<close>

abbreviation address_char :: "char \<Rightarrow> bool" where
  "address_char c \<equiv> is_hex c \<or> c = CHR '':''"

lemma bracketed_Some:
  "bracketed input = Some (h, p) \<longleftrightarrow>
   (\<exists>body. input = ''['' @ body @ '']:'' @ p \<and> h = ''['' @ body @ '']'' \<and> body \<noteq> [] \<and>
      list_all address_char body \<and> p \<noteq> [] \<and> list_all is_digit p)" (is "?l \<longleftrightarrow> ?r")
proof
  assume ?l
  then obtain rest where i: "input = CHR ''['' # rest" by (cases input) (auto simp: bracketed_def split: if_splits)
  let ?b = "takeWhile address_char rest"
  from \<open>?l\<close> have "dropWhile address_char rest = '']:'' @ p" and "?b \<noteq> []" "h = ''['' @ ?b @ '']''" "p \<noteq> []"
    "list_all is_digit p"
    by (auto simp: bracketed_def i split: if_splits list.splits)
  moreover have "rest = ?b @ dropWhile address_char rest" by simp
  moreover have "list_all address_char ?b" by (auto simp: list_all_iff dest: set_takeWhileD)
  ultimately show ?r using i by (intro exI [of _ ?b]) simp
next
  assume ?r
  then obtain body where b: "input = ''['' @ body @ '']:'' @ p" "h = ''['' @ body @ '']''" "body \<noteq> []"
    "list_all address_char body" "p \<noteq> []" "list_all is_digit p" by blast
  have stop: "\<not> address_char (CHR '']'')" by (simp add: host_chars)
  have "takeWhile address_char (body @ '']:'' @ p) = body" "dropWhile address_char (body @ '']:'' @ p) = '']:'' @ p"
    using b(4) stop by (auto simp: list_all_iff takeWhile_append2 dropWhile_append2)
  then show ?l using b by (simp add: bracketed_def)
qed

lemma bracketed_None: "hd input \<noteq> CHR ''['' \<Longrightarrow> bracketed input = None"
  by (cases input) (auto simp: bracketed_def)

text \<open>The texts a host can come from: a bracketed address with its port, or a name with an optional port.\<close>

definition port_text :: "string option \<Rightarrow> string" where
  "port_text port = (case port of None \<Rightarrow> [] | Some p \<Rightarrow> '':'' @ p)"

definition address_ok :: "string \<Rightarrow> bool" where
  "address_ok body \<longleftrightarrow> body \<noteq> [] \<and> list_all address_char body"

definition host_parts :: "string \<Rightarrow> string option \<Rightarrow> bool" where
  "host_parts host port \<longleftrightarrow> valid_host host \<and> (case port of None \<Rightarrow> True | Some p \<Rightarrow> port_ok p)"

lemma port_chars: "port_ok p \<Longrightarrow> p \<noteq> [] \<and> list_all is_digit p"
  by (simp add: port_ok_def)

lemma normalize_address:
  assumes "address_ok body" "port_ok p"
  shows "normalizeRegistryHost (''['' @ body @ '']:'' @ p) = Inr (''['' @ toLowerCase body @ '']:'' @ p)"
proof -
  let ?s = "''['' @ body @ '']:'' @ p"
  have chars: "\<not> is_space c \<and> c \<notin> set ''/?#@''" if "c \<in> set ?s" for c
    using that assms port_chars [OF assms(2)] hex_not [of c] digit_not [of c]
    by (auto simp: address_ok_def list_all_iff host_chars)
  then have "trim ?s = ?s" by (intro trim_solid) (simp add: list_all_iff)
  moreover have "\<not> includes_str ?s ''://''" using includes_str_chars [of ?s "''://''"] chars [of "CHR ''/''"] by auto
  moreover have "\<not> list_ex (\<lambda>c. c \<in> set ''/?#@'') ?s" using chars by (auto simp: list_ex_iff)
  moreover have "bracketed ?s = Some (''['' @ body @ '']'', p)"
    using assms port_chars [OF assms(2)] by (simp add: bracketed_Some address_ok_def)
  moreover have "lower_char (CHR ''['') = CHR ''[''" "lower_char (CHR '']'') = CHR '']''"
    by (simp_all add: host_chars)
  ultimately show ?thesis
    using assms port_chars [OF assms(2)] by (simp add: normalizeRegistryHost_def host_with_port_def)
qed

lemma host_parts_chars:
  assumes "host_parts host port" "c \<in> set (host @ port_text port)"
  shows "\<not> is_space c \<and> c \<notin> set ''/?#@[]''"
proof -
  have "host_char c \<or> is_digit c \<or> c = CHR '':''"
    using assms valid_host_chars [of host] port_chars
    by (auto simp: host_parts_def port_text_def list_all_iff split: option.splits)
  then show ?thesis using host_char_not [of c] digit_not [of c] by (auto simp: is_space_def)
qed

lemma split_port_parts:
  assumes "host_parts host port"
  shows "split_port (host @ port_text port) = (host, port)"
    "length (filter (\<lambda>c. c = CHR '':'') (host @ port_text port)) \<le> 1"
proof -
  have h: "CHR '':'' \<notin> set host"
    using assms valid_host_chars [of host] host_char_not by (fastforce simp: host_parts_def list_all_iff)
  have p: "CHR '':'' \<notin> set p" if "port = Some p" for p
    using assms that port_chars [of p] digit_not by (fastforce simp: host_parts_def list_all_iff)
  have tk: "takeWhile (\<lambda>c. c \<noteq> CHR '':'') (host @ CHR '':'' # q) = host" for q
    using h by (subst takeWhile_append2) auto
  have dp: "dropWhile (\<lambda>c. c \<noteq> CHR '':'') (host @ CHR '':'' # q) = CHR '':'' # q" for q
    using h by (subst dropWhile_append2) auto
  show "split_port (host @ port_text port) = (host, port)"
    using h by (simp add: split_port_def port_text_def tk dp split: option.splits)
  have none: "filter (\<lambda>c. c = CHR '':'') t = []" if "CHR '':'' \<notin> set t" for t
    using that by (auto simp: filter_empty_conv)
  show "length (filter (\<lambda>c. c = CHR '':'') (host @ port_text port)) \<le> 1"
    using none [OF h] none [OF p] by (auto simp: port_text_def split: option.splits)
qed

lemma normalize_name:
  assumes "host_parts host port"
  shows "normalizeRegistryHost (host @ port_text port) = Inr (toLowerCase host @ port_text port)"
proof -
  let ?s = "host @ port_text port"
  note chars = host_parts_chars [OF assms]
  have ne: "host \<noteq> []" using assms valid_host_chars by (auto simp: host_parts_def)
  have "trim ?s = ?s" using chars by (intro trim_solid) (simp add: list_all_iff)
  moreover have "\<not> includes_str ?s ''://''" using includes_str_chars [of ?s "''://''"] chars [of "CHR ''/''"] by auto
  moreover have "\<not> list_ex (\<lambda>c. c \<in> set ''/?#@'') ?s" using chars by (auto simp: list_ex_iff)
  moreover have "hd ?s \<noteq> CHR ''[''" using ne chars [of "hd ?s"] by auto
  moreover have "bracketed ?s = None" by (rule bracketed_None [OF calculation(4)])
  moreover have "\<not> 1 < length (filter (\<lambda>c. c = CHR '':'') ?s)" using split_port_parts(2) [OF assms] by simp
  moreover have "host_with_port host port = toLowerCase host @ port_text port"
    using assms port_chars by (auto simp: host_with_port_def port_text_def host_parts_def split: option.splits)
  ultimately show ?thesis
    using assms ne split_port_parts(1) [OF assms]
    by (simp add: normalizeRegistryHost_def host_parts_def split: option.splits)
qed

lemma split_port_join:
  assumes "split_port s = (host, port)"
  shows "s = host @ port_text port"
proof (cases "CHR '':'' \<in> set s")
  case True
  then have ne: "dropWhile (\<lambda>c. c \<noteq> CHR '':'') s \<noteq> []" by simp
  have "dropWhile (\<lambda>c. c \<noteq> CHR '':'') s = CHR '':'' # tl (dropWhile (\<lambda>c. c \<noteq> CHR '':'') s)"
    using list.collapse [OF ne] hd_dropWhile [OF ne] by simp
  moreover have "s = takeWhile (\<lambda>c. c \<noteq> CHR '':'') s @ dropWhile (\<lambda>c. c \<noteq> CHR '':'') s" by simp
  moreover have "host = takeWhile (\<lambda>c. c \<noteq> CHR '':'') s"
    "port = Some (tl (dropWhile (\<lambda>c. c \<noteq> CHR '':'') s))" using True assms by (auto simp: split_port_def)
  ultimately show ?thesis by (simp add: port_text_def)
qed (use assms in \<open>auto simp: split_port_def port_text_def\<close>)

lemma normalize_Inr:
  assumes "normalizeRegistryHost v = Inr h"
  shows "(\<exists>body p. address_ok body \<and> port_ok p \<and> trim v = ''['' @ body @ '']:'' @ p \<and> h = ''['' @ toLowerCase body @ '']:'' @ p) \<or>
    (\<exists>host port. host_parts host port \<and> trim v = host @ port_text port \<and> h = toLowerCase host @ port_text port)"
proof (cases "bracketed (trim v)")
  case None
  obtain host port where sp: "split_port (trim v) = (host, port)" by fastforce
  then have "host_parts host port"
    using assms None by (auto simp: normalizeRegistryHost_def host_parts_def split: if_splits option.splits)
  moreover have "trim v = host @ port_text port" by (rule split_port_join [OF sp])
  moreover have "normalizeRegistryHost (trim v) = Inr (toLowerCase host @ port_text port)"
    using normalize_name [OF calculation(1)] calculation(2) by simp
  moreover have "h = host_with_port host port"
    using assms None sp by (auto simp: normalizeRegistryHost_def split: if_splits option.splits)
  moreover have "host_with_port host port = toLowerCase host @ port_text port"
    using calculation(1) port_chars by (auto simp: host_with_port_def port_text_def host_parts_def split: option.splits)
  ultimately show ?thesis by auto
next
  case (Some hp)
  obtain hh p where hp: "hp = (hh, p)" by fastforce
  from Some hp obtain body where b: "trim v = ''['' @ body @ '']:'' @ p" "hh = ''['' @ body @ '']''" "address_ok body"
    by (auto simp: bracketed_Some address_ok_def)
  moreover have "port_ok p"
    using assms Some hp by (auto simp: normalizeRegistryHost_def split: if_splits)
  moreover have "lower_char (CHR ''['') = CHR ''[''" "lower_char (CHR '']'') = CHR '']''"
    by (simp_all add: host_chars)
  moreover have "h = host_with_port hh (Some p)"
    using assms Some hp by (auto simp: normalizeRegistryHost_def split: if_splits)
  ultimately show ?thesis using port_chars [of p] by (auto simp: host_with_port_def)
qed

lemma normalizeRegistryHost_fixed:
  assumes "normalizeRegistryHost value = Inr h"
  shows "normalizeRegistryHost h = Inr h \<and> toLowerCase h = h \<and>
    list_all (\<lambda>c. \<not> is_space c \<and> c \<notin> set ''/?#@'') h \<and>
    (\<exists>host port. h = host @ port_text port \<and> (case port of None \<Rightarrow> True | Some p \<Rightarrow> port_ok p))"
  using normalize_Inr [OF assms]
proof (elim disjE exE conjE)
  fix body p assume a: "address_ok body" "port_ok p" and h: "h = ''['' @ toLowerCase body @ '']:'' @ p"
  have low: "address_ok (toLowerCase body)" using a(1) by (auto simp: address_ok_def toLowerCase_def list_all_iff)
  have digits: "lower_char c = c" if "c \<in> set p" for c
    using that port_chars [OF a(2)] by (auto simp: list_all_iff host_chars)
  have "list_all (\<lambda>c. \<not> is_space c \<and> c \<notin> set ''/?#@'') h"
    using low port_chars [OF a(2)] hex_not digit_not by (fastforce simp: h address_ok_def list_all_iff host_chars)
  moreover have "toLowerCase p = p" using digits by (simp add: toLowerCase_def map_idI)
  moreover have "lower_char (CHR ''['') = CHR ''[''" "lower_char (CHR '']'') = CHR '']''" by (simp_all add: host_chars)
  ultimately show ?thesis using normalize_address [OF low a(2)] a(2)
    by (intro conjI exI [of _ "''['' @ toLowerCase body @ '']''"] exI [of _ "Some p"]) (simp_all add: h port_text_def)
next
  fix host port assume hp: "host_parts host port" and h: "h = toLowerCase host @ port_text port"
  have low: "host_parts (toLowerCase host) port" using hp valid_host_lower by (simp add: host_parts_def)
  have "lower_char c = c" if "c \<in> set (port_text port)" for c
    using that hp port_chars by (fastforce simp: host_parts_def port_text_def list_all_iff host_chars split: option.splits)
  then have "toLowerCase (port_text port) = port_text port" by (simp add: toLowerCase_def map_idI)
  then show ?thesis using normalize_name [OF low] host_parts_chars [OF low] low
    by (auto simp: h list_all_iff host_parts_def)
qed

text \<open>
  Registry hosts have a normal form: a host that is accepted normalises to itself, has no space,
  path, query or credentials in it, and an accepted port lies between 1 and 65535.
\<close>

theorem normalizeRegistryHost_normal_form:
  assumes "normalizeRegistryHost value = Inr h"
  shows "normalizeRegistryHost h = Inr h \<and> toLowerCase h = h \<and>
    list_all (\<lambda>c. \<not> is_space c \<and> c \<notin> set ''/?#@'') h \<and>
    (\<exists>host port. h = host @ port_text port \<and> (case port of None \<Rightarrow> True | Some p \<Rightarrow> port_ok p))"
  by (rule normalizeRegistryHost_fixed [OF assms])

theorem normalizeRegistryHost_normal_form_witness:
  "normalizeRegistryHost ''registry.example.com:5000'' = Inr ''registry.example.com:5000''"
proof -
  have "host_parts ''Registry.Example.COM'' (Some ''5000'')"
    by (simp add: host_parts_def valid_host_def host_label_def port_ok_def number_of_digits_def host_chars)
  from normalize_name [OF this] have "normalizeRegistryHost ''Registry.Example.COM:5000'' = Inr ''registry.example.com:5000''"
    by (simp add: port_text_def host_chars char_of_def bit_0)
  from normalizeRegistryHost_normal_form [OF this] show ?thesis by simp
qed

section \<open>Images come from the configured registry\<close>

lemma first_segment_append: "CHR ''/'' \<notin> set h \<Longrightarrow> first_segment (h @ CHR ''/'' # rest) = h"
  unfolding first_segment_def by (subst takeWhile_append2) auto

lemma no_scheme_after_host:
  assumes h: "CHR ''/'' \<notin> set h" and r: "\<not> includes_str repo ''://''" "repo \<noteq> []" "hd repo \<noteq> CHR ''/''"
  shows "\<not> includes_str (h @ CHR ''/'' # repo) ''://''"
proof
  assume "includes_str (h @ CHR ''/'' # repo) ''://''"
  then obtain a b where eq: "h @ CHR ''/'' # repo = a @ ''://'' @ b" unfolding includes_str_iff by blast
  show False
  proof (cases "CHR ''/'' \<in> set a")
    case False
    have "first_segment (h @ CHR ''/'' # repo) = h" by (rule first_segment_append [OF h])
    moreover have "first_segment ((a @ '':'') @ CHR ''/'' # (CHR ''/'' # b)) = a @ '':''"
      by (rule first_segment_append) (use False in simp)
    ultimately have "h = a @ '':''" using eq by simp
    with eq have "repo = CHR ''/'' # b" by simp
    with r(3) show False by simp
  next
    case True
    then obtain x y where a: "a = x @ CHR ''/'' # y" "CHR ''/'' \<notin> set x" by (meson split_list_first)
    from eq have "h @ CHR ''/'' # repo = x @ CHR ''/'' # (y @ ''://'' @ b)" by (simp add: a)
    then have "h = x" using first_segment_append [OF h, of repo] first_segment_append [OF a(2), of "y @ ''://'' @ b"] by simp
    with eq a have "repo = y @ ''://'' @ b" by simp
    with r(1) show False unfolding includes_str_iff by blast
  qed
qed

lemma repository_last:
  assumes "dropWhile P (trim s) \<noteq> []"
  shows "\<not> is_space (last (dropWhile P (trim s)))"
proof -
  have "last (trim s) = last (dropWhile P (trim s))"
    using assms by (metis last_appendR takeWhile_dropWhile_id)
  moreover have "trim s \<noteq> []" using assms by auto
  ultimately show ?thesis using trim_last by metis
qed

lemma normalized_host_chars:
  assumes "normalizeRegistryHost v = Inr h"
  shows "h \<noteq> []" "CHR ''/'' \<notin> set h" "\<not> is_space (hd h)" "normalizeRegistryHost h = Inr h"
proof -
  have n: "normalizeRegistryHost h = Inr h" and l: "list_all (\<lambda>c. \<not> is_space c \<and> c \<notin> set ''/?#@'') h"
    using normalizeRegistryHost_fixed [OF assms] by simp_all
  then show "normalizeRegistryHost h = Inr h" "CHR ''/'' \<notin> set h" by (auto simp: list_all_iff)
  show ne: "h \<noteq> []" using n by (auto simp: normalizeRegistryHost_def trim_def split: if_splits)
  show "\<not> is_space (hd h)" using l ne by (cases h) simp_all
qed

text \<open>
  An image is pulled from the configured registry and from nowhere else: whatever image is
  entered, the host part of the resolved name normalises to the configured host, and a name that
  shows its registry resolves to itself.
\<close>

theorem image_from_configured_registry:
  assumes "resolveRegistryImage registry img = Inr r"
  shows "\<exists>h. normalizeRegistryHost registry = Inr h \<and> normalizeRegistryHost (first_segment r) = Inr h \<and>
    (hasExplicitRegistry r \<and> \<not> is_space (hd r) \<longrightarrow> resolveRegistryImage registry r = Inr r)"
proof -
  define repo where "repo = dropWhile (\<lambda>c. c = CHR ''/'') (trim img)"
  obtain h where h: "normalizeRegistryHost registry = Inr h"
    and ne: "repo \<noteq> []" and ns: "\<not> includes_str repo ''://''"
    and r: "if hasExplicitRegistry repo then r = repo \<and> normalizeRegistryHost (first_segment repo) = Inr h
      else r = h @ CHR ''/'' # repo"
    using assms by (auto simp: resolveRegistryImage_def repo_def split: if_splits)
  note hc = normalized_host_chars [OF h]
  have first: "hd repo \<noteq> CHR ''/''" using hd_dropWhile [OF ne [unfolded repo_def]] by (simp add: repo_def)
  have seg: "normalizeRegistryHost (first_segment r) = Inr h"
    using r hc first_segment_append [OF hc(2)] by (auto split: if_splits)
  have "r \<noteq> [] \<and> last r = last repo" using r ne by (auto split: if_splits)
  then have "trim r = r" if "\<not> is_space (hd r)"
    using that repository_last [of _ img] ne by (intro trim_ends) (auto simp: repo_def)
  moreover have "hd r \<noteq> CHR ''/''" using r first hc(1,2) by (cases h) (auto split: if_splits)
  then have "dropWhile (\<lambda>c. c = CHR ''/'') r = r" by (cases r) auto
  moreover have "\<not> includes_str r ''://''"
    using r ns no_scheme_after_host [OF hc(2) ns ne first] by (auto split: if_splits)
  ultimately have "resolveRegistryImage registry r = Inr r" if "hasExplicitRegistry r" "\<not> is_space (hd r)"
    using that h seg \<open>r \<noteq> [] \<and> _\<close> by (simp add: resolveRegistryImage_def)
  with h seg show ?thesis by blast
qed

lemma sample_registry: "normalizeRegistryHost ''reg.io'' = Inr ''reg.io''" "normalizeRegistryHost ''registry'' = Inr ''registry''"
proof -
  have p: "host_parts ''reg.io'' None" "host_parts ''registry'' None"
    by (simp_all add: host_parts_def valid_host_def host_label_def host_chars)
  show "normalizeRegistryHost ''reg.io'' = Inr ''reg.io''" "normalizeRegistryHost ''registry'' = Inr ''registry''"
    using normalize_name [OF p(1)] normalize_name [OF p(2)] by (simp_all add: port_text_def host_chars)
qed

theorem image_from_configured_registry_witness:
  "resolveRegistryImage ''reg.io'' ''reg.io/team/app'' = Inr ''reg.io/team/app''"
proof -
  have "resolveRegistryImage ''reg.io'' ''team/app'' = Inr ''reg.io/team/app''"
    by (simp add: resolveRegistryImage_def sample_registry hasExplicitRegistry_def first_segment_def trim_def host_chars)
  from image_from_configured_registry [OF this] show ?thesis
    by (simp add: hasExplicitRegistry_def first_segment_def host_chars)
qed

text \<open>
  A host without a dot or a port, which the form accepts, does not show in the resolved name: the
  name reads as an image of the default registry, and resolving it again prepends the host again.
\<close>

theorem bare_registry_host_is_ambiguous:
  "resolveRegistryImage ''registry'' ''app'' = Inr ''registry/app'' \<and> \<not> hasExplicitRegistry ''registry/app'' \<and>
   resolveRegistryImage ''registry'' ''registry/app'' = Inr ''registry/registry/app''"
  by (simp add: resolveRegistryImage_def sample_registry hasExplicitRegistry_def first_segment_def trim_def host_chars)

section \<open>The form and the configuration\<close>

definition credentials_complete :: "registry_runtime_config \<Rightarrow> bool" where
  "credentials_complete c \<longleftrightarrow>
     (case rr_auth_type c of
        Auth_none \<Rightarrow> rr_username c = None \<and> rr_password c = None \<and> rr_token c = None
      | Auth_basic \<Rightarrow> truthy_opt (rr_username c) \<and> truthy_opt (rr_password c)
      | Auth_token \<Rightarrow> truthy_opt (rr_token c))"

text \<open>
  The registry form is faithful: the form has no problem exactly when the configuration made
  from it has all the credentials its kind of authentication needs, and filling the form from that
  configuration gives the configuration back.
\<close>

theorem registry_form_roundtrip:
  assumes "registryConfigFromForm v = Inr (Some c)"
  shows "registryConfigFromForm (registryFormFromConfig (Some c)) = Inr (Some c) \<and>
    (validateRegistryForm v = None \<longleftrightarrow> credentials_complete c)"
proof -
  obtain url where u: "normalizeRegistryHost (rf_url v) = Inr url" and e: "rf_enabled v"
    using assms by (auto simp: registryConfigFromForm_def split: if_splits)
  then show ?thesis
    using assms normalized_host_chars(4) [OF u]
    by (cases "rf_auth_type v")
      (auto simp: registryConfigFromForm_def registryFormFromConfig_def validateRegistryForm_def
        credentials_complete_def js_opt split: if_splits)
qed

theorem registry_form_roundtrip_witness:
  "validateRegistryForm \<lparr>rf_enabled = True, rf_url = ''reg.io'', rf_auth_type = Auth_token, rf_username = [],
     rf_password = [], rf_token = ''t''\<rparr> = None"
proof -
  let ?v = "\<lparr>rf_enabled = True, rf_url = ''reg.io'', rf_auth_type = Auth_token, rf_username = [],
     rf_password = [], rf_token = ''t''\<rparr>"
  have "registryConfigFromForm ?v = Inr (Some \<lparr>rr_url = ''reg.io'', rr_auth_type = Auth_token, rr_username = None,
      rr_password = None, rr_token = Some ''t''\<rparr>)"
    by (simp add: registryConfigFromForm_def sample_registry)
  from registry_form_roundtrip [OF this] show ?thesis by (simp add: credentials_complete_def js_opt)
qed

section \<open>The secret store as a map\<close>

datatype secret_call =
    Set_Secret string string registry_runtime_config
  | Clear_Secret string string
  | Clear_Workflow string
  | Clear_All

fun secret_exec :: "secret_store \<Rightarrow> secret_call \<Rightarrow> secret_store" where
  "secret_exec s (Set_Secret w n c) = setSecret w n c s"
| "secret_exec s (Clear_Secret w n) = clearSecret w n s"
| "secret_exec s (Clear_Workflow w) = clearWorkflow w s"
| "secret_exec s Clear_All = clearAll s"

fun secret_map_exec ::
  "(string \<times> string \<Rightarrow> registry_runtime_config option) \<Rightarrow> secret_call \<Rightarrow>
   string \<times> string \<Rightarrow> registry_runtime_config option" where
  "secret_map_exec m (Set_Secret w n c) = m((w, n) \<mapsto> c)"
| "secret_map_exec m (Clear_Secret w n) = m((w, n) := None)"
| "secret_map_exec m (Clear_Workflow w) = (\<lambda>(w', n). if w' = w then None else m (w', n))"
| "secret_map_exec m Clear_All = Map.empty"

definition secrets_of :: "secret_store \<Rightarrow> string \<times> string \<Rightarrow> registry_runtime_config option" where
  "secrets_of s = (\<lambda>(w, n). getSecret w n s)"

lemma secret_exec_refines: "secrets_of (secret_exec s c) = secret_map_exec (secrets_of s) c"
proof (cases c)
  case (Clear_Secret w n)
  have "map_of m k = None" if "AList.delete n m = []" "k \<noteq> n" for m :: "(string \<times> registry_runtime_config) list" and k
    using that arg_cong [OF that(1), of map_of] by (metis fun_upd_other map_of.simps(1) map_of_AList(2))
  then show ?thesis
    using Clear_Secret
    by (auto simp: secrets_of_def getSecret_def clearSecret_def nullish_def fun_eq_iff split: option.splits)
qed (auto simp: secrets_of_def getSecret_def setSecret_def clearWorkflow_def clearAll_def nullish_def fun_eq_iff
      split: option.splits)

lemma secrets_nonempty_step:
  "list_all (\<lambda>(w, m). m \<noteq> []) s \<Longrightarrow> list_all (\<lambda>(w, m). m \<noteq> []) (secret_exec s c)"
proof (cases c)
  case (Set_Secret w n config)
  assume s: "list_all (\<lambda>(w, m). m \<noteq> []) s"
  have "AList.update n config xs \<noteq> []" "[] \<noteq> AList.update n config xs" for xs by (cases xs; auto)+
  then show ?thesis using s Set_Secret by (auto simp: setSecret_def list_all_iff dest!: update_member)
next
  case (Clear_Secret w n)
  assume "list_all (\<lambda>(w, m). m \<noteq> []) s"
  then show ?thesis using Clear_Secret
    by (auto simp: clearSecret_def list_all_iff AList.delete_eq dest!: update_member)
qed (auto simp: clearWorkflow_def clearAll_def list_all_iff AList.delete_eq)

text \<open>
  The secret store is a map from workflow and node to credentials under any sequence of calls:
  setting is seen by exactly that node, clearing a node, a workflow or everything forgets exactly
  that, and no workflow without credentials is left behind.
\<close>

theorem secret_store_refines_map:
  "secrets_of (foldl secret_exec [] calls) = foldl secret_map_exec Map.empty calls \<and>
   list_all (\<lambda>(w, m). m \<noteq> []) (foldl secret_exec [] calls)"
proof (induction calls rule: rev_induct)
  case Nil
  then show ?case by (auto simp: secrets_of_def getSecret_def)
next
  case (snoc c calls)
  then show ?case by (simp add: secret_exec_refines secrets_nonempty_step)
qed

end
