(* ===== verification/Accounts.thy ===== *)
theory Accounts
  imports Projects Client_Identity Js_Strings
begin

text \<open>
  Accounts and sign-in: \<^verbatim>\<open>src/ui-v2/src/modules/auth\<close> (\<^verbatim>\<open>server/service.ts\<close>,
  \<^verbatim>\<open>server/repository.ts\<close>, \<^verbatim>\<open>server/password.ts\<close>, \<^verbatim>\<open>server/guards.ts\<close>,
  \<^verbatim>\<open>actions.ts\<close>, \<^verbatim>\<open>public-paths.ts\<close>), the callbacks of \<^verbatim>\<open>src/ui-v2/src/auth.ts\<close>, the
  request filter \<^verbatim>\<open>src/ui-v2/proxy.ts\<close> and the administration actions
  \<^verbatim>\<open>modules/admin/actions.ts\<close>. The users are the table of \<open>Projects\<close>; \<open>scrypt\<close>, the salt,
  generated ids and the clock are arguments. A form is the function from a field's name to its text.
\<close>

section \<open>Passwords\<close>

type_synonym scrypt = "string \<Rightarrow> string \<Rightarrow> 8 word list"

definition hex_of_bytes :: "8 word list \<Rightarrow> string" where
  "hex_of_bytes bytes = concat (map (\<lambda>byte. padStart 2 (CHR ''0'') (to_hex (unat byte))) bytes)"

definition hex_digit :: "char \<Rightarrow> nat option" where
  "hex_digit c =
     (let n = (of_char c :: nat) in
      if 48 \<le> n \<and> n \<le> 57 then Some (n - 48)
      else if 65 \<le> n \<and> n \<le> 70 then Some (n - 55)
      else if 97 \<le> n \<and> n \<le> 102 then Some (n - 87) else None)"

text \<open>\<open>Buffer.from(text, "hex")\<close>: whole bytes up to the first pair that is not hexadecimal.\<close>

fun bytes_of_hex :: "string \<Rightarrow> 8 word list" where
  "bytes_of_hex (c # d # cs) =
     (case (hex_digit c, hex_digit d) of
        (Some hi, Some lo) \<Rightarrow> of_nat (16 * hi + lo) # bytes_of_hex cs
      | _ \<Rightarrow> [])"
| "bytes_of_hex _ = []"

definition hashPassword :: "scrypt \<Rightarrow> 8 word list \<Rightarrow> string \<Rightarrow> string" where
  "hashPassword scrypt randomBytes password =
     (let salt = hex_of_bytes randomBytes
      in ''scrypt:'' @ salt @ '':'' @ hex_of_bytes (scrypt password salt))"

definition verifyPassword :: "scrypt \<Rightarrow> string \<Rightarrow> string option \<Rightarrow> bool" where
  "verifyPassword scrypt password storedHash =
     (case storedHash of
        None \<Rightarrow> False
      | Some hash \<Rightarrow>
          hash \<noteq> [] \<and>
          (case split_on (CHR '':'') hash of
             algorithm # salt # expectedHash # _ \<Rightarrow>
               algorithm = ''scrypt'' \<and> salt \<noteq> [] \<and> expectedHash \<noteq> [] \<and>
               scrypt password salt = bytes_of_hex expectedHash
           | _ \<Rightarrow> False))"

section \<open>Users\<close>

record auth_user =
  au_id :: string
  au_email :: string
  au_name :: "string option"
  au_role :: string
  au_isActive :: bool
  au_passwordHash :: "string option"

definition USER_ROLES :: "string list" where
  "USER_ROLES = [''admin'', ''normal'']"

definition isKnownUserRole :: "string \<Rightarrow> bool" where
  "isKnownUserRole role \<longleftrightarrow> role \<in> set USER_ROLES"

definition normalizeEmail :: "string \<Rightarrow> string" where
  "normalizeEmail email = toLowerCase (trim email)"

definition mapUser :: "user_row \<Rightarrow> auth_user" where
  "mapUser record = \<lparr>au_id = us_id record, au_email = us_email record, au_name = drop_falsy (us_name record),
     au_role = us_role record, au_isActive = us_isActive record,
     au_passwordHash = drop_falsy (us_passwordHash record)\<rparr>"

definition countUsers :: "database \<Rightarrow> nat" where
  "countUsers db = length (db_users db)"

definition getUserByEmail :: "string \<Rightarrow> database \<Rightarrow> auth_user option" where
  "getUserByEmail email db = map_option mapUser (find (\<lambda>u. us_email u = email) (db_users db))"

definition getUserById :: "string \<Rightarrow> database \<Rightarrow> auth_user option" where
  "getUserById i db = map_option mapUser (find (\<lambda>u. us_id u = i) (db_users db))"

definition listUsers :: "(string \<Rightarrow> string \<Rightarrow> int) \<Rightarrow> database \<Rightarrow> auth_user list" where
  "listUsers localeCompare db =
     js_sort (\<lambda>l r. localeCompare (au_email l) (au_email r)) (map mapUser (db_users db))"

definition updateUserStatus :: "string \<Rightarrow> string \<Rightarrow> bool \<Rightarrow> database \<Rightarrow> database" where
  "updateUserStatus now i isActive db =
     db\<lparr>db_users := map (\<lambda>u. if us_id u = i then u\<lparr>us_isActive := isActive, us_updatedAt := now\<rparr> else u) (db_users db)\<rparr>"

definition updateUserTimestamp :: "string \<Rightarrow> string \<Rightarrow> database \<Rightarrow> database" where
  "updateUserTimestamp now i db =
     db\<lparr>db_users := map (\<lambda>u. if us_id u = i then u\<lparr>us_updatedAt := now\<rparr> else u) (db_users db)\<rparr>"

definition isSetupComplete :: "database \<Rightarrow> bool" where
  "isSetupComplete db \<longleftrightarrow> 0 < countUsers db"

text \<open>The insertion respects the primary key and the unique email.\<close>

definition insert_user :: "user_row \<Rightarrow> database \<Rightarrow> unit res \<times> database" where
  "insert_user u db =
     (if list_ex (\<lambda>r. us_id r = us_id u \<or> us_email r = us_email u) (db_users db)
      then (Inl (Err ''UNIQUE constraint failed''), db)
      else (Inr (), db\<lparr>db_users := db_users db @ [u]\<rparr>))"

definition verifyPasswordLogin :: "scrypt \<Rightarrow> string \<Rightarrow> string \<Rightarrow> database \<Rightarrow> auth_user option" where
  "verifyPasswordLogin scrypt email password db =
     (case getUserByEmail (normalizeEmail email) db of
        None \<Rightarrow> None
      | Some user \<Rightarrow>
          if \<not> au_isActive user then None
          else if \<not> verifyPassword scrypt password (au_passwordHash user) then None
          else Some user)"

record create_user_input =
  cu_email :: string
  cu_name :: string
  cu_password :: string
  cu_role :: string
  cu_isActive :: "bool option"

text \<open>What a call generates: the salt's bytes, the ids of the user and of the personal project, the time.\<close>

record generated =
  gen_salt :: "8 word list"
  gen_userId :: string
  gen_projectId :: string
  gen_now :: string

definition with_personal_project :: "generated \<Rightarrow> user_row \<Rightarrow> unit res \<times> database \<Rightarrow> auth_user res \<times> database" where
  "with_personal_project g u r =
     (case r of
        (Inl e, db) \<Rightarrow> (Inl e, db)
      | (Inr _, db) \<Rightarrow>
          (case ensurePersonalProject (gen_projectId g) (gen_now g) (us_id u) db of
             (Inl e, db') \<Rightarrow> (Inl e, db')
           | (Inr _, db') \<Rightarrow> (Inr (mapUser u), db')))"

definition createInitialAdmin ::
  "scrypt \<Rightarrow> generated \<Rightarrow> string \<Rightarrow> string \<Rightarrow> string \<Rightarrow> database \<Rightarrow> auth_user res \<times> database" where
  "createInitialAdmin scrypt g email name password db =
     (let u = \<lparr>us_id = gen_userId g, us_email = normalizeEmail email, us_name = Some (trim name),
            us_role = ''admin'', us_isActive = True,
            us_passwordHash = Some (hashPassword scrypt (gen_salt g) password),
            us_createdAt = gen_now g, us_updatedAt = gen_now g\<rparr>
      in if db_type db = Other_Database then (Inl (Err ''Unsupported database type''), db)
         else if 0 < countUsers db then (Inl (Err ''Initial setup has already been completed.''), db)
         else with_personal_project g u (insert_user u db))"

definition createUser :: "scrypt \<Rightarrow> generated \<Rightarrow> create_user_input \<Rightarrow> database \<Rightarrow> auth_user res \<times> database" where
  "createUser scrypt g input db =
     (let normalizedEmail = normalizeEmail (cu_email input);
          u = \<lparr>us_id = gen_userId g, us_email = normalizedEmail, us_name = Some (trim (cu_name input)),
            us_role = or_str (Some (cu_role input)) ''normal'', us_isActive = nullish (cu_isActive input) True,
            us_passwordHash = Some (hashPassword scrypt (gen_salt g) (cu_password input)),
            us_createdAt = gen_now g, us_updatedAt = gen_now g\<rparr>
      in if getUserByEmail normalizedEmail db \<noteq> None then (Inl (Err ''A user with that email already exists.''), db)
         else if \<not> isKnownUserRole (cu_role input) then (Inl (Err ''Unsupported user role.''), db)
         else if db_type db = Other_Database then (Inl (Err ''Unsupported database type''), db)
         else with_personal_project g u (insert_user u db))"

definition setUserActiveState :: "string \<Rightarrow> string \<Rightarrow> bool \<Rightarrow> database \<Rightarrow> database" where
  "setUserActiveState now userId isActive db = updateUserStatus now userId isActive db"

section \<open>Sessions\<close>

record session_token =
  tk_sub :: "string option"
  tk_role :: "string option"

definition authorize :: "scrypt \<Rightarrow> string option \<Rightarrow> string option \<Rightarrow> database \<Rightarrow> auth_user option" where
  "authorize scrypt email password db =
     (if countUsers db = 0 then None
      else verifyPasswordLogin scrypt (nullish email []) (nullish password []) db)"

definition jwt_callback :: "auth_user option \<Rightarrow> database \<Rightarrow> session_token \<Rightarrow> session_token" where
  "jwt_callback user db token0 =
     (let token = (case user of Some u \<Rightarrow> token0\<lparr>tk_role := Some (au_role u), tk_sub := Some (au_id u)\<rparr> | None \<Rightarrow> token0)
      in if \<not> truthy_opt (tk_role token) \<and> truthy_opt (tk_sub token)
         then token\<lparr>tk_role := Some (case getUserById (the (tk_sub token)) db of Some u \<Rightarrow> au_role u | None \<Rightarrow> ''normal'')\<rparr>
         else token)"

definition session_callback :: "session_token \<Rightarrow> session" where
  "session_callback token = Some (nullish (tk_sub token) [], Some (nullish (tk_role token) ''normal''))"

text \<open>The guards; the left value is the path of a redirect, which \<open>redirect\<close> throws.\<close>

definition requireSession :: "session \<Rightarrow> string + string \<times> string option" where
  "requireSession session =
     (case session of Some (c # cs, role) \<Rightarrow> Inr (c # cs, role) | _ \<Rightarrow> Inl ''/login'')"

definition requireAdminSession :: "session \<Rightarrow> string + string \<times> string option" where
  "requireAdminSession session =
     (case requireSession session of
        Inl p \<Rightarrow> Inl p
      | Inr (u, role) \<Rightarrow> if role \<noteq> Some ''admin'' then Inl ''/workflow'' else Inr (u, role))"

subsection \<open>Signing in and setting up\<close>

type_synonym form = "string \<Rightarrow> string option"

definition readTrimmedString :: "form \<Rightarrow> string \<Rightarrow> string" where
  "readTrimmedString formData key = (case formData key of Some v \<Rightarrow> trim v | None \<Rightarrow> [])"

definition getRedirectTarget :: "string option \<Rightarrow> string \<Rightarrow> string" where
  "getRedirectTarget value fallback =
     (case value of
        None \<Rightarrow> fallback
      | Some v \<Rightarrow> if \<not> prefix ''/'' v \<or> prefix ''//'' v then fallback else v)"

record auth_action_state =
  as_error :: "string option"
  as_redirectTo :: "string option"

abbreviation auth_failure :: "string \<Rightarrow> auth_action_state" where
  "auth_failure message \<equiv> \<lparr>as_error = Some message, as_redirectTo = None\<rparr>"

text \<open>\<open>signIn\<close> runs \<open>authorize\<close> and throws an \<open>AuthError\<close> when it gives no user.\<close>

definition loginAction :: "scrypt \<Rightarrow> form \<Rightarrow> database \<Rightarrow> auth_action_state" where
  "loginAction scrypt formData db =
     (if \<not> isSetupComplete db then auth_failure ''Initial setup is required before anyone can sign in.''
      else let email = normalizeEmail (readTrimmedString formData ''email'');
               password = readTrimmedString formData ''password'';
               redirectTo = getRedirectTarget (formData ''redirectTo'') ''/workflow''
           in if email = [] \<or> password = [] then auth_failure ''Email and password are required.''
              else case authorize scrypt (Some email) (Some password) db of
                Some _ \<Rightarrow> \<lparr>as_error = None, as_redirectTo = Some redirectTo\<rparr>
              | None \<Rightarrow> auth_failure ''Invalid email or password.'')"

definition error_message :: "js_error \<Rightarrow> string" where
  "error_message e = (case e of Err m \<Rightarrow> m | TypeError \<Rightarrow> ''TypeError'')"

definition setupAction ::
  "(string \<Rightarrow> string) \<Rightarrow> scrypt \<Rightarrow> generated \<Rightarrow> form \<Rightarrow> database \<Rightarrow> auth_action_state \<times> database" where
  "setupAction encodeURIComponent scrypt g formData db =
     (let email = normalizeEmail (readTrimmedString formData ''email'');
          name = readTrimmedString formData ''name'';
          password = readTrimmedString formData ''password'';
          confirmPassword = readTrimmedString formData ''confirmPassword'';
          redirectTo = getRedirectTarget (formData ''redirectTo'')
            (''/login?email='' @ encodeURIComponent email @ ''&setup=success'')
      in if name = [] \<or> email = [] \<or> password = [] \<or> confirmPassword = []
         then (auth_failure ''All setup fields are required.'', db)
         else if CHR ''@'' \<notin> set email then (auth_failure ''Enter a valid email address.'', db)
         else if length password < 8 then (auth_failure ''Password must be at least 8 characters long.'', db)
         else if password \<noteq> confirmPassword then (auth_failure ''Passwords do not match.'', db)
         else case createInitialAdmin scrypt g email name password db of
           (Inr _, db') \<Rightarrow> (\<lparr>as_error = None, as_redirectTo = Some redirectTo\<rparr>, db')
         | (Inl e, db') \<Rightarrow> (auth_failure (error_message e), db'))"

subsection \<open>The request filter\<close>

definition isPublicSitePath :: "string \<Rightarrow> bool" where
  "isPublicSitePath pathname \<longleftrightarrow> pathname = ''/'' \<or> pathname = ''/docs'' \<or> prefix ''/docs/'' pathname"

text \<open>\<open>Login_Redirect\<close> carries the page to come back to.\<close>

datatype proxy_decision = Proceed | Redirect_To string | Login_Redirect string

definition proxy :: "bool \<Rightarrow> bool \<Rightarrow> string \<Rightarrow> string \<Rightarrow> proxy_decision" where
  "proxy setupComplete authenticated pathname search =
     (if isPublicSitePath pathname then Proceed
      else if \<not> setupComplete \<and> pathname \<noteq> ''/setup'' then Redirect_To ''/setup''
      else if setupComplete \<and> pathname = ''/setup''
      then Redirect_To (if authenticated then ''/workflow'' else ''/login'')
      else if pathname \<in> {''/login'', ''/setup''} \<and> authenticated then Redirect_To ''/workflow''
      else if pathname \<notin> {''/'', ''/login'', ''/setup''} \<and> \<not> authenticated then Login_Redirect (pathname @ search)
      else Proceed)"

section \<open>Administration\<close>

record admin_action_state =
  ad_error :: "string option"
  ad_success :: "string option"

abbreviation admin_failure :: "string \<Rightarrow> admin_action_state" where
  "admin_failure message \<equiv> \<lparr>ad_error = Some message, ad_success = None\<rparr>"

text \<open>
  A redirect thrown inside the \<open>try\<close> of an action is an error like any other there; its message is
  \<open>NEXT_REDIRECT\<close>.
\<close>

abbreviation redirect_caught :: admin_action_state where
  "redirect_caught \<equiv> admin_failure ''NEXT_REDIRECT''"

definition admin_result :: "'a res \<times> database \<Rightarrow> string \<Rightarrow> admin_action_state \<times> database" where
  "admin_result r success =
     (case r of
        (Inr _, db) \<Rightarrow> (\<lparr>ad_error = None, ad_success = Some success\<rparr>, db)
      | (Inl e, db) \<Rightarrow> (admin_failure (error_message e), db))"

definition createUserAdminAction ::
  "scrypt \<Rightarrow> generated \<Rightarrow> session \<Rightarrow> form \<Rightarrow> database \<Rightarrow> admin_action_state \<times> database" where
  "createUserAdminAction scrypt g session formData db =
     (case requireAdminSession session of
        Inl _ \<Rightarrow> (redirect_caught, db)
      | Inr _ \<Rightarrow>
          (let email = normalizeEmail (readTrimmedString formData ''email'');
               name = readTrimmedString formData ''name'';
               password = readTrimmedString formData ''password'';
               role = or_str (Some (readTrimmedString formData ''role'')) ''normal''
           in if email = [] \<or> name = [] \<or> length password < 8
              then (admin_failure ''Name, email, and a password of at least 8 characters are required.'', db)
              else admin_result
                (createUser scrypt g \<lparr>cu_email = email, cu_name = name, cu_password = password, cu_role = role,
                   cu_isActive = Some True\<rparr> db) (''Created '' @ email @ '' successfully.'')))"

definition toggleUserActiveAction :: "string \<Rightarrow> session \<Rightarrow> form \<Rightarrow> database \<Rightarrow> database" where
  "toggleUserActiveAction now session formData db =
     (case requireAdminSession session of
        Inl _ \<Rightarrow> db
      | Inr _ \<Rightarrow>
          (let userId = readTrimmedString formData ''userId'';
               nextState = (readTrimmedString formData ''nextState'' = ''active'')
           in if userId = [] then db else setUserActiveState now userId nextState db))"

definition createProjectAdminAction ::
  "generated \<Rightarrow> session \<Rightarrow> form \<Rightarrow> database \<Rightarrow> admin_action_state \<times> database" where
  "createProjectAdminAction g session formData db =
     (case requireAdminSession session of
        Inl _ \<Rightarrow> (redirect_caught, db)
      | Inr (userId, _) \<Rightarrow>
          (let name = readTrimmedString formData ''name''
           in if name = [] then (admin_failure ''Project name is required.'', db)
              else admin_result (createProject (gen_projectId g) (gen_now g) name userId db)
                (''Created '' @ name @ '' successfully.'')))"

definition addProjectMembersAction ::
  "string \<Rightarrow> session \<Rightarrow> form \<Rightarrow> string list \<Rightarrow> database \<Rightarrow> admin_action_state \<times> database" where
  "addProjectMembersAction now session formData userIds db =
     (case requireAdminSession session of
        Inl _ \<Rightarrow> (redirect_caught, db)
      | Inr _ \<Rightarrow>
          (let projectId = readTrimmedString formData ''projectId'';
               selectedUsers = filter (\<lambda>u. u \<noteq> []) userIds
           in if projectId = [] \<or> selectedUsers = []
              then (admin_failure ''Project and at least one user are required.'', db)
              else admin_result (addUsersToProject now projectId selectedUsers None db)
                (''Added '' @ show_nat (length selectedUsers) @ '' member'' @
                   (if length selectedUsers = 1 then [] else ''s'') @ ''.'')))"

definition removeProjectMemberAction ::
  "(string \<Rightarrow> string \<Rightarrow> int) \<Rightarrow> session \<Rightarrow> form \<Rightarrow> database \<Rightarrow> database" where
  "removeProjectMemberAction localeCompare session formData db =
     (case requireAdminSession session of
        Inl _ \<Rightarrow> db
      | Inr _ \<Rightarrow>
          (let projectId = readTrimmedString formData ''projectId''; userId = readTrimmedString formData ''userId''
           in if projectId = [] \<or> userId = [] then db
              else snd (removeUserFromProject localeCompare projectId userId db)))"

text \<open>This action has no \<open>try\<close>: redirects and errors leave it. The left value is a redirect or an error.\<close>

definition updateProjectMemberRoleAdminAction ::
  "(string \<Rightarrow> string \<Rightarrow> int) \<Rightarrow> session \<Rightarrow> form \<Rightarrow> database \<Rightarrow> unit res \<times> database" where
  "updateProjectMemberRoleAdminAction localeCompare session formData db =
     (case requireAdminSession session of
        Inl _ \<Rightarrow> (Inl (Err ''NEXT_REDIRECT''), db)
      | Inr _ \<Rightarrow>
          (let projectId = readTrimmedString formData ''projectId''; userId = readTrimmedString formData ''userId'';
               projectRole = readTrimmedString formData ''projectRole''
           in case parse_role projectRole of
                None \<Rightarrow> (Inr (), db)
              | Some role \<Rightarrow>
                  if projectId = [] \<or> userId = [] then (Inr (), db)
                  else updateProjectMemberRole localeCompare projectId userId role db))"

section \<open>Passwords are verified exactly\<close>

lemma split_on_word [simp]: "d \<notin> set w \<Longrightarrow> split_on d w = [w]"
  by (induction w) auto

lemma split_on_append: "d \<notin> set w \<Longrightarrow> split_on d (w @ d # s) = w # split_on d s"
  by (induction w) auto

lemma hex_digit_nth: "n < 16 \<Longrightarrow> hex_digit (''0123456789abcdef'' ! n) = Some n \<and> ''0123456789abcdef'' ! n \<noteq> CHR '':''"
proof -
  have "list_all (\<lambda>n. hex_digit (''0123456789abcdef'' ! n) = Some n \<and> ''0123456789abcdef'' ! n \<noteq> CHR '':'') [0..<16]"
    by code_simp
  then show "n < 16 \<Longrightarrow> ?thesis" by (simp add: list_all_iff)
qed

lemma hex_of_bytes_Cons:
  "hex_of_bytes (b # bs) =
   ''0123456789abcdef'' ! (unat b div 16) # ''0123456789abcdef'' ! (unat b mod 16) # hex_of_bytes bs"
  by (simp add: hex_of_bytes_def hex_byte [OF unat_8_less])

lemma hex_of_bytes_Nil [simp]: "hex_of_bytes [] = []"
  by (simp add: hex_of_bytes_def)

lemma byte_digits: "unat (b :: 8 word) div 16 < 16" "unat b mod 16 < 16"
  using unat_8_less [of b] by auto

lemma bytes_of_hex_of_bytes [simp]: "bytes_of_hex (hex_of_bytes bs) = bs"
proof (induction bs)
  case (Cons b bs)
  have "of_nat (16 * (unat b div 16) + unat b mod 16) = b" by (simp only: mult_div_mod_eq) simp
  then show ?case using Cons hex_digit_nth [OF byte_digits(1), of b] hex_digit_nth [OF byte_digits(2), of b]
    by (simp add: hex_of_bytes_Cons)
qed simp

lemma hex_of_bytes_no_colon: "CHR '':'' \<notin> set (hex_of_bytes bs)"
proof (induction bs)
  case (Cons b bs)
  then show ?case using hex_digit_nth [OF byte_digits(1), of b] hex_digit_nth [OF byte_digits(2), of b]
    by (auto simp: hex_of_bytes_Cons)
qed simp

lemma hex_of_bytes_empty [simp]: "hex_of_bytes bs = [] \<longleftrightarrow> bs = []"
  by (cases bs) (simp_all add: hex_of_bytes_Cons)

lemma verify_hashPassword:
  assumes "salt \<noteq> []" "scrypt q (hex_of_bytes salt) \<noteq> []"
  shows "verifyPassword scrypt p (Some (hashPassword scrypt salt q)) \<longleftrightarrow>
    scrypt p (hex_of_bytes salt) = scrypt q (hex_of_bytes salt)"
proof -
  let ?s = "hex_of_bytes salt"
  have "split_on (CHR '':'') (''scrypt'' @ CHR '':'' # ?s @ CHR '':'' # hex_of_bytes (scrypt q ?s)) =
      [''scrypt'', ?s, hex_of_bytes (scrypt q ?s)]"
    using hex_of_bytes_no_colon [of salt] hex_of_bytes_no_colon [of "scrypt q ?s"] by (simp add: split_on_append)
  then have "split_on (CHR '':'') (hashPassword scrypt salt q) = [''scrypt'', ?s, hex_of_bytes (scrypt q ?s)]"
    by (simp add: hashPassword_def)
  moreover have "hashPassword scrypt salt q \<noteq> []" by (simp add: hashPassword_def)
  ultimately show ?thesis using assms by (simp add: verifyPassword_def)
qed

section \<open>Creating accounts\<close>

lemma ensurePersonal_users [simp]: "db_users (snd (ensurePersonalProject i now u db)) = db_users db"
  by (auto simp: ensurePersonalProject_def insert_member_update_def split: option.splits)

lemma with_personal_users [simp]: "db_users (snd (with_personal_project g u r)) = db_users (snd r)"
proof -
  obtain x db where r: "r = (x, db)" by fastforce
  obtain y db2 where e: "ensurePersonalProject (gen_projectId g) (gen_now g) (us_id u) db = (y, db2)" by fastforce
  then have "db_users db2 = db_users db"
    using ensurePersonal_users [of "gen_projectId g" "gen_now g" "us_id u" db] by simp
  then show ?thesis by (cases x; cases y) (simp_all add: with_personal_project_def r e)
qed

lemma created_user_row:
  assumes "createUser scrypt g input db = (Inr u, db')"
  shows "\<exists>row. db_users db' = db_users db @ [row] \<and> u = mapUser row \<and> us_id row = gen_userId g \<and>
    us_email row = normalizeEmail (cu_email input) \<and> us_isActive row = nullish (cu_isActive input) True \<and>
    us_passwordHash row = Some (hashPassword scrypt (gen_salt g) (cu_password input)) \<and>
    (\<forall>r \<in> set (db_users db). us_email r \<noteq> us_email row \<and> us_id r \<noteq> us_id row)"
proof -
  define row where "row = \<lparr>us_id = gen_userId g, us_email = normalizeEmail (cu_email input),
      us_name = Some (trim (cu_name input)), us_role = or_str (Some (cu_role input)) ''normal'',
      us_isActive = nullish (cu_isActive input) True,
      us_passwordHash = Some (hashPassword scrypt (gen_salt g) (cu_password input)),
      us_createdAt = gen_now g, us_updatedAt = gen_now g\<rparr>"
  have w: "with_personal_project g row (insert_user row db) = (Inr u, db')"
    using assms by (auto simp: createUser_def row_def [symmetric] split: if_splits)
  have "fst (insert_user row db) = Inr () \<and> u = mapUser row"
    using w by (auto simp: with_personal_project_def split: sum.splits prod.splits)
  then have "\<not> list_ex (\<lambda>r. us_id r = us_id row \<or> us_email r = us_email row) (db_users db)"
    "u = mapUser row" by (auto simp: insert_user_def split: if_splits)
  moreover have "db_users db' = db_users (snd (insert_user row db))"
    using with_personal_users [of g row "insert_user row db"] w by simp
  ultimately show ?thesis
    by (intro exI [of _ row]) (auto simp: insert_user_def list_ex_iff row_def)
qed

lemma find_last: "(\<And>x. x \<in> set xs \<Longrightarrow> \<not> P x) \<Longrightarrow> P y \<Longrightarrow> find P (xs @ [y]) = Some y"
  by (induction xs) auto

text \<open>
  A created account can sign in: with the email in any writing that differs in case and
  surrounding blanks, exactly the passwords that \<open>scrypt\<close> cannot tell from the one given are accepted, and
  once the account is deactivated none is.
\<close>

theorem created_user_signs_in:
  assumes "createUser scrypt g input db = (Inr u, db')" "nullish (cu_isActive input) True"
    and "gen_salt g \<noteq> []" "\<And>p s. length (scrypt p s) = 64"
    and e: "normalizeEmail email = normalizeEmail (cu_email input)"
  shows "(authorize scrypt (Some email) (Some p) db' = Some u \<longleftrightarrow>
      scrypt p (hex_of_bytes (gen_salt g)) = scrypt (cu_password input) (hex_of_bytes (gen_salt g))) \<and>
    authorize scrypt (Some email) (Some p) (setUserActiveState now (au_id u) False db') = None"
proof -
  obtain row where row: "db_users db' = db_users db @ [row]" "u = mapUser row" "us_id row = gen_userId g"
    "us_email row = normalizeEmail (cu_email input)" "us_isActive row"
    "us_passwordHash row = Some (hashPassword scrypt (gen_salt g) (cu_password input))"
    "\<forall>r \<in> set (db_users db). us_email r \<noteq> us_email row \<and> us_id r \<noteq> us_id row"
    using created_user_row [OF assms(1)] assms(2) by auto
  have ne: "scrypt q s \<noteq> []" for q s using assms(4) [of q s] by auto
  have "find (\<lambda>r. us_email r = normalizeEmail email) (db_users db') = Some row"
    unfolding row(1) using row(4,7) e by (intro find_last) auto
  then have "getUserByEmail (normalizeEmail email) db' = Some u" by (simp add: getUserByEmail_def row(2))
  moreover have "au_isActive u" "au_passwordHash u = Some (hashPassword scrypt (gen_salt g) (cu_password input))"
    using row by (simp_all add: mapUser_def js_opt hashPassword_def)
  moreover have "countUsers db' \<noteq> 0" by (simp add: countUsers_def row(1))
  ultimately have "authorize scrypt (Some email) (Some p) db' = Some u \<longleftrightarrow>
      scrypt p (hex_of_bytes (gen_salt g)) = scrypt (cu_password input) (hex_of_bytes (gen_salt g))"
    using verify_hashPassword [OF assms(3) ne] by (simp add: authorize_def verifyPasswordLogin_def nullish_def)
  moreover have "map (\<lambda>r. if us_id r = us_id row then r\<lparr>us_isActive := False, us_updatedAt := now\<rparr> else r) (db_users db') =
      db_users db @ [row\<lparr>us_isActive := False, us_updatedAt := now\<rparr>]"
    using row(1,7) by (auto intro!: map_idI)
  then have "find (\<lambda>r. us_email r = normalizeEmail email) (db_users (setUserActiveState now (us_id row) False db')) =
      Some (row\<lparr>us_isActive := False, us_updatedAt := now\<rparr>)"
    using row(4,7) e find_last [where xs = "db_users db" and y = "row\<lparr>us_isActive := False, us_updatedAt := now\<rparr>"
        and P = "\<lambda>r. us_email r = normalizeEmail email"]
    by (simp add: setUserActiveState_def updateUserStatus_def)
  then have "authorize scrypt (Some email) (Some p) (setUserActiveState now (au_id u) False db') = None"
    by (simp add: row(2) mapUser_def authorize_def verifyPasswordLogin_def getUserByEmail_def nullish_def)
  ultimately show ?thesis by blast
qed

definition sample_scrypt :: scrypt where
  "sample_scrypt p s = replicate 64 (of_nat (length p))"

definition sample_generated :: generated where
  "sample_generated = \<lparr>gen_salt = [1], gen_userId = ''c'', gen_projectId = ''pc'', gen_now = ''t''\<rparr>"

definition sample_input :: create_user_input where
  "sample_input = \<lparr>cu_email = ''c@x'', cu_name = ''C'', cu_password = ''password'', cu_role = ''normal'',
     cu_isActive = None\<rparr>"

lemma sample_created: "\<exists>u db'. createUser sample_scrypt sample_generated sample_input sample_db = (Inr u, db')"
  by (simp add: createUser_def sample_input_def sample_generated_def getUserByEmail_def sample_db_def sample_user_def
      normalizeEmail_def trim_def toLowerCase_def is_space_def lower_char_def is_upper_latin1_def isKnownUserRole_def
      USER_ROLES_def or_str_def insert_user_def with_personal_project_def ensurePersonalProject_def find_personal_def
      has_user_def has_project_def)

theorem created_user_signs_in_witness:
  "\<exists>u db'. createUser sample_scrypt sample_generated sample_input sample_db = (Inr u, db') \<and>
     authorize sample_scrypt (Some '' C@x'') (Some ''password'') db' = Some u"
proof -
  obtain u db' where c: "createUser sample_scrypt sample_generated sample_input sample_db = (Inr u, db')"
    using sample_created by blast
  have "normalizeEmail '' C@x'' = normalizeEmail (cu_email sample_input)"
    by (simp add: normalizeEmail_def sample_input_def trim_def is_space_def lower_char_def is_upper_latin1_def char_of_def bit_0)
  from created_user_signs_in [OF c _ _ _ this, of "''password''" "''t''"] c show ?thesis
    by (auto simp: sample_input_def sample_generated_def sample_scrypt_def nullish_def)
qed

section \<open>The account rules\<close>

definition accounts_ok :: "database \<Rightarrow> bool" where
  "accounts_ok db \<longleftrightarrow> db_ok db \<and> distinct (map us_email (db_users db)) \<and>
     list_all (\<lambda>u. normalizeEmail (us_email u) = us_email u \<and> isKnownUserRole (us_role u)) (db_users db)"

lemma is_space_lower [simp]: "is_space (lower_char c) = is_space c"
  by (auto simp: is_space_def lower_char_def is_upper_latin1_def)

lemma trim_toLowerCase: "trim (toLowerCase s) = toLowerCase (trim s)"
  by (simp add: trim_def toLowerCase_def dropWhile_map rev_map comp_def)

lemma normalizeEmail_twice [simp]: "normalizeEmail (normalizeEmail e) = normalizeEmail e"
  by (simp add: normalizeEmail_def trim_toLowerCase)

lemma db_ok_users:
  assumes "db_ok db" "db' = db\<lparr>db_users := us\<rparr>" "distinct (map us_id us)" "us_id ` set (db_users db) \<subseteq> us_id ` set us"
  shows "db_ok db'"
proof -
  have "has_user u db'" if "has_user u db" for u
    using that assms(2,4) by (auto simp: has_user_def list_ex_iff image_iff subset_iff) metis
  then show ?thesis
    using assms(1-3)
    by (auto simp: db_ok_def keys_ok_def teams_owned_def personal_private_def owners_def has_project_def list_all_iff)
qed

lemma insert_user_ok:
  assumes "accounts_ok db" "normalizeEmail (us_email u) = us_email u" "isKnownUserRole (us_role u)"
  shows "accounts_ok (snd (insert_user u db))"
proof (cases "list_ex (\<lambda>r. us_id r = us_id u \<or> us_email r = us_email u) (db_users db)")
  case False
  have "distinct (map us_id (db_users db))" using assms(1) by (simp add: accounts_ok_def db_ok_def keys_ok_def)
  then have "db_ok (db\<lparr>db_users := db_users db @ [u]\<rparr>)"
    using assms(1) False by (intro db_ok_users [OF _ refl]) (auto simp: accounts_ok_def list_ex_iff)
  then show ?thesis using assms False by (auto simp: insert_user_def accounts_ok_def list_ex_iff)
qed (use assms in \<open>simp add: insert_user_def\<close>)

lemma with_personal_ok: "accounts_ok (snd r) \<Longrightarrow> accounts_ok (snd (with_personal_project g u r))"
proof -
  assume ok: "accounts_ok (snd r)"
  obtain x db where r: "r = (x, db)" by fastforce
  obtain y db2 where e: "ensurePersonalProject (gen_projectId g) (gen_now g) (us_id u) db = (y, db2)" by fastforce
  have "db_ok db2" "db_users db2 = db_users db"
    using ensurePersonal_keeps_ok [of db "gen_projectId g" "gen_now g" "us_id u"] ok r e
      ensurePersonal_users [of "gen_projectId g" "gen_now g" "us_id u" db]
    by (simp_all add: accounts_ok_def)
  then show ?thesis using ok by (cases x; cases y) (simp_all add: with_personal_project_def r e accounts_ok_def)
qed

datatype account_call =
    Setup generated string string string
  | New_User generated create_user_input
  | Set_Active string string bool
  | Project_Call project_call

fun account_exec :: "(string \<Rightarrow> string \<Rightarrow> int) \<Rightarrow> scrypt \<Rightarrow> database \<Rightarrow> account_call \<Rightarrow> database" where
  "account_exec lc scrypt db (Setup g email name password) = snd (createInitialAdmin scrypt g email name password db)"
| "account_exec lc scrypt db (New_User g input) = snd (createUser scrypt g input db)"
| "account_exec lc scrypt db (Set_Active now i b) = setUserActiveState now i b db"
| "account_exec lc scrypt db (Project_Call c) = project_exec lc db c"

lemma project_exec_users: "db_users (project_exec lc db c) = db_users db"
proof -
  have "db_users (snd (add_each p r now us db)) = db_users db" for p r now us db
    by (induction us arbitrary: db) (auto simp: insert_member_ignore_def)
  note add = this
  have "db_users (snd (addUsersToProject now p us r db)) = db_users db" for now p us r
    using add [of p "nullish r Runner" now us db]
    by (auto simp: addUsersToProject_def split: option.splits database_kind.splits prod.splits sum.splits)
  then show ?thesis
    by (cases c) (auto simp: createProject_def removeUserFromProject_def remove_write_def
        updateProjectMemberRole_def role_write_def split: sum.splits)
qed

lemma setActive_ok: "accounts_ok db \<Longrightarrow> accounts_ok (setUserActiveState now i b db)"
proof -
  assume ok: "accounts_ok db"
  define f where "f = (\<lambda>u :: user_row. if us_id u = i then u\<lparr>us_isActive := b, us_updatedAt := now\<rparr> else u)"
  have f: "us_id (f u) = us_id u" "us_email (f u) = us_email u" "us_role (f u) = us_role u" for u by (simp_all add: f_def)
  have "db_ok (db\<lparr>db_users := map f (db_users db)\<rparr>)"
    using ok by (intro db_ok_users [OF _ refl]) (auto simp: accounts_ok_def db_ok_def keys_ok_def comp_def f image_image)
  then show ?thesis
    using ok by (simp add: accounts_ok_def setUserActiveState_def updateUserStatus_def f_def [symmetric] comp_def f list_all_iff)
qed

lemma account_exec_ok:
  assumes "accounts_ok db"
  shows "accounts_ok (account_exec lc scrypt db c)"
proof (cases c)
  case (Setup g email name password)
  then show ?thesis
    using assms with_personal_ok [OF insert_user_ok [OF assms]]
    by (auto simp: createInitialAdmin_def isKnownUserRole_def USER_ROLES_def)
next
  case (New_User g input)
  then show ?thesis
    using assms with_personal_ok [OF insert_user_ok [OF assms]]
    by (auto simp: createUser_def isKnownUserRole_def USER_ROLES_def or_str_def)
next
  case (Project_Call pc)
  then show ?thesis using assms project_exec_keeps_ok [of db lc pc] project_exec_users [of lc db pc]
    by (simp add: accounts_ok_def)
qed (use assms setActive_ok in auto)

lemma account_exec_count: "countUsers db \<le> countUsers (account_exec lc scrypt db c)"
  by (cases c) (auto simp: countUsers_def createInitialAdmin_def createUser_def insert_user_def setUserActiveState_def
      updateUserStatus_def project_exec_users)

text \<open>
  C25. Calls on accounts and projects, one after the other, keep the account rules: no two users share
  an id or an email, emails are stored in normal form and roles are known, besides the membership
  rules; and once somebody has an account, the setup is complete for good and refused from then on.
\<close>

theorem account_calls_keep_rules:
  assumes "accounts_ok db"
  shows "accounts_ok (foldl (account_exec lc scrypt) db calls) \<and>
    (isSetupComplete db \<longrightarrow> isSetupComplete (foldl (account_exec lc scrypt) db calls) \<and>
      snd (createInitialAdmin scrypt g email name password (foldl (account_exec lc scrypt) db calls)) =
        foldl (account_exec lc scrypt) db calls)"
proof -
  have "accounts_ok (foldl (account_exec lc scrypt) db calls) \<and>
      countUsers db \<le> countUsers (foldl (account_exec lc scrypt) db calls)"
    using assms
  proof (induction calls rule: rev_induct)
    case (snoc c calls)
    let ?db = "foldl (account_exec lc scrypt) db calls"
    have "accounts_ok ?db" "countUsers db \<le> countUsers ?db" using snoc by simp_all
    then show ?case
      using account_exec_ok [of ?db lc scrypt c] account_exec_count [of ?db lc scrypt c] by simp
  qed simp
  then show ?thesis by (auto simp: isSetupComplete_def createInitialAdmin_def)
qed

theorem account_calls_keep_rules_witness:
  "isSetupComplete (foldl (account_exec (\<lambda>_ _. 0) sample_scrypt) (sample_db\<lparr>db_users := []\<rparr>)
     [Setup sample_generated '' Admin@x'' ''A'' ''password'']) \<and>
   accounts_ok (foldl (account_exec (\<lambda>_ _. 0) sample_scrypt) (sample_db\<lparr>db_users := []\<rparr>)
     [Setup sample_generated '' Admin@x'' ''A'' ''password'', New_User sample_generated sample_input])"
proof -
  have "accounts_ok (sample_db\<lparr>db_users := []\<rparr>)"
    by (simp add: accounts_ok_def sample_db_def db_ok_def keys_ok_def teams_owned_def personal_private_def)
  note r = account_calls_keep_rules [OF this]
  show ?thesis
    using r [of "\<lambda>_ _. 0" sample_scrypt "[Setup sample_generated '' Admin@x'' ''A'' ''password'', New_User sample_generated sample_input]"]
    by (simp add: isSetupComplete_def countUsers_def createInitialAdmin_def insert_user_def sample_db_def)
qed

section \<open>Who may do what\<close>

lemma requireAdmin_Inl:
  "\<not> (\<exists>c cs. session = Some (c # cs, Some ''admin'')) \<Longrightarrow> \<exists>p. requireAdminSession session = Inl p"
  by (auto simp: requireAdminSession_def requireSession_def split: option.splits list.splits prod.splits)

text \<open>
  Only a platform administrator administers: without a session of a user with the role \<open>admin\<close>,
  none of the six administration actions changes the users, the projects or the memberships.
\<close>

theorem admin_actions_need_admin:
  assumes "\<not> (\<exists>c cs. session = Some (c # cs, Some ''admin''))"
  shows "snd (createUserAdminAction scrypt g session formData db) = db \<and>
    toggleUserActiveAction now session formData db = db \<and>
    snd (createProjectAdminAction g session formData db) = db \<and>
    snd (addProjectMembersAction now session formData userIds db) = db \<and>
    removeProjectMemberAction lc session formData db = db \<and>
    snd (updateProjectMemberRoleAdminAction lc session formData db) = db"
proof -
  obtain p where "requireAdminSession session = Inl p" using requireAdmin_Inl [OF assms] by blast
  then show ?thesis
    by (simp add: createUserAdminAction_def toggleUserActiveAction_def createProjectAdminAction_def
        addProjectMembersAction_def removeProjectMemberAction_def updateProjectMemberRoleAdminAction_def)
qed

theorem admin_actions_need_admin_witness:
  "toggleUserActiveAction ''t'' (Some (''b'', Some ''normal'')) (\<lambda>k. if k = ''userId'' then Some ''a'' else None) sample_db =
   sample_db"
  using admin_actions_need_admin [of "Some (''b'', Some ''normal'')"] by simp

text \<open>
  A session keeps its rights after its user is deactivated: neither the token nor the permission check
  looks at the user's state, which only a new sign-in does.
\<close>

theorem session_outlives_deactivation:
  assumes "truthy_opt (tk_role token)"
  shows "session_callback (jwt_callback None (setUserActiveState now i False db) token) =
      session_callback (jwt_callback None db token) \<and>
    userHasProjectPermission lc i p a role (setUserActiveState now i False db) = userHasProjectPermission lc i p a role db"
  using assms
  by (simp add: jwt_callback_def setUserActiveState_def updateUserStatus_def userHasProjectPermission_def
      getProjectMembership_def getProject_def listProjectsForUser_def)

text \<open>The next page a browser asks for.\<close>

definition proxy_next :: "proxy_decision \<Rightarrow> string option" where
  "proxy_next d = (case d of Proceed \<Rightarrow> None | Redirect_To p \<Rightarrow> Some p | Login_Redirect _ \<Rightarrow> Some ''/login'')"

text \<open>
  The request filter protects every page that is not public and does not send a browser in
  circles: without a session only the public site, the login page and, before the setup, the setup
  page are served; and a redirect leads to a page that is served, unless there is a session although
  the setup is not complete. In that case \<open>/setup\<close> and \<open>/workflow\<close> redirect to each other for ever.
\<close>

theorem proxy_protects_and_settles:
  "(proxy setupComplete False path q = Proceed \<longrightarrow>
      isPublicSitePath path \<or> path = ''/login'' \<and> setupComplete \<or> path = ''/setup'' \<and> \<not> setupComplete) \<and>
   (setupComplete \<or> \<not> authenticated \<longrightarrow>
      (case proxy_next (proxy setupComplete authenticated path q) of
         None \<Rightarrow> True | Some next \<Rightarrow> proxy setupComplete authenticated next q' = Proceed)) \<and>
   proxy_next (proxy False True ''/setup'' q) = Some ''/workflow'' \<and>
   proxy_next (proxy False True ''/workflow'' q) = Some ''/setup''"
  by (auto simp: proxy_def proxy_next_def isPublicSitePath_def)

theorem proxy_protects_and_settles_witness:
  "proxy True False ''/login'' [] = Proceed \<and> proxy_next (proxy True False ''/workflow'' ''?a'') = Some ''/login''"
proof -
  have n: "proxy_next (proxy True False ''/workflow'' ''?a'') = Some ''/login''"
    by (simp add: proxy_def proxy_next_def isPublicSitePath_def)
  with proxy_protects_and_settles [of True "''/workflow''" "''?a''" False "[]"] show ?thesis by simp
qed

end
