(* ===== verification/Agent_Access.thy ===== *)
theory Agent_Access
  imports Accounts
begin

text \<open>
  Access of development agents: \<^verbatim>\<open>src/ui-v2/src/modules/agent/server\<close> (\<^verbatim>\<open>auth.ts\<close>,
  \<^verbatim>\<open>internal-assertion.ts\<close>, \<^verbatim>\<open>mcp-config.ts\<close>, \<^verbatim>\<open>http.ts\<close>) and the routes
  \<^verbatim>\<open>tokens\<close>, \<^verbatim>\<open>tokens/[tokenId]\<close>, \<^verbatim>\<open>introspect\<close> and \<^verbatim>\<open>setup\<close> of
  \<^verbatim>\<open>src/ui-v2/src/app/api/v1/agent\<close>. SHA-256, HMAC, the base64 and UTF-8 decoders, \<open>JSON\<close>, the
  text a database driver sends for a value, random bytes and the clock (milliseconds, integral) are
  arguments. Headers are the function from a header's name to its text.
\<close>

section \<open>Scopes and tokens\<close>

datatype agent_scope = Read_Scope | Write_Scope | Run_Scope

definition AGENT_SCOPES :: "agent_scope list" where
  "AGENT_SCOPES = [Read_Scope, Write_Scope, Run_Scope]"

definition scope_name :: "agent_scope \<Rightarrow> string" where
  "scope_name s = (case s of Read_Scope \<Rightarrow> ''read'' | Write_Scope \<Rightarrow> ''workflow:write'' | Run_Scope \<Rightarrow> ''run'')"

definition scope_of_name :: "string \<Rightarrow> agent_scope option" where
  "scope_of_name n = find (\<lambda>s. scope_name s = n) AGENT_SCOPES"

definition SCOPE_ACTION :: "agent_scope \<Rightarrow> project_action" where
  "SCOPE_ACTION s = (case s of Read_Scope \<Rightarrow> View | Write_Scope \<Rightarrow> Edit | Run_Scope \<Rightarrow> Run)"

record agent_host =
  ah_json :: json_lib
  ah_sha256 :: "string \<Rightarrow> 8 word list"
  ah_hmac :: "string \<Rightarrow> string \<Rightarrow> 8 word list"
  ah_base64url :: "string \<Rightarrow> 8 word list"
  ah_utf8 :: "8 word list \<Rightarrow> string"
  ah_param :: "json \<Rightarrow> string"
  ah_localeCompare :: "string \<Rightarrow> string \<Rightarrow> int"
  ah_iso :: "int \<Rightarrow> string"

record agent_env =
  MCP_AUTH_MODE :: "string option"
  MCP_INTERNAL_SECRET :: "string option"

record agent_token_row =
  at_id :: string
  at_name :: string
  at_tokenHash :: string
  at_userId :: string
  at_projectId :: string
  at_scopes :: string
  at_expiresAt :: int
  at_createdAt :: int
  at_lastUsedAt :: "int option"
  at_revokedAt :: "int option"

record agent_state =
  ag_db :: database
  ag_tokens :: "agent_token_row list"

record agent_identity =
  ai_tokenId :: string
  ai_userId :: string
  ai_projectId :: string
  ai_scopes :: "json list"
  ai_membership :: membership

definition availableAgentScopes ::
  "agent_host \<Rightarrow> string \<Rightarrow> string \<Rightarrow> string option \<Rightarrow> database \<Rightarrow> agent_scope list" where
  "availableAgentScopes h userId projectId platformRole db =
     (case getProjectMembership (ah_localeCompare h) userId projectId platformRole db of
        None \<Rightarrow> []
      | Some membership \<Rightarrow> filter (\<lambda>s. SCOPE_ACTION s \<in> set (ms_allowedActions membership)) AGENT_SCOPES)"

definition tokenHash :: "agent_host \<Rightarrow> string \<Rightarrow> string" where
  "tokenHash h token = hex_of_bytes (ah_sha256 h token)"

text \<open>\<open>Buffer.toString("base64url")\<close>: groups of six bits, without padding.\<close>

fun sextets :: "8 word list \<Rightarrow> nat list" where
  "sextets (a # b # c # r) =
     [unat a div 4, unat a mod 4 * 16 + unat b div 16, unat b mod 16 * 4 + unat c div 64, unat c mod 64] @ sextets r"
| "sextets [a, b] = [unat a div 4, unat a mod 4 * 16 + unat b div 16, unat b mod 16 * 4]"
| "sextets [a] = [unat a div 4, unat a mod 4 * 16]"
| "sextets [] = []"

definition base64_alphabet :: string where
  "base64_alphabet = ''ABCDEFGHIJKLMNOPQRSTUVWXYZabcdefghijklmnopqrstuvwxyz0123456789-_''"

definition to_base64url :: "8 word list \<Rightarrow> string" where
  "to_base64url bytes = map (\<lambda>n. base64_alphabet ! n) (sextets bytes)"

definition scope_names :: "agent_scope list \<Rightarrow> json" where
  "scope_names scopes = JArr (map (\<lambda>s. JStr (scope_name s)) scopes)"

text \<open>The insertion respects the primary key, the unique hash and the references.\<close>

definition createAgentToken ::
  "agent_host \<Rightarrow> int \<Rightarrow> string \<Rightarrow> 8 word list \<Rightarrow> string \<Rightarrow> string \<Rightarrow> string \<Rightarrow> agent_scope list \<Rightarrow> int \<Rightarrow>
   agent_state \<Rightarrow> (string \<times> string \<times> int) res \<times> agent_state" where
  "createAgentToken h now uuid bytes name userId projectId scopes expiresAt st =
     (let secret = ''tt_pat_'' @ to_base64url bytes;
          row = \<lparr>at_id = uuid, at_name = name, at_tokenHash = tokenHash h secret, at_userId = userId,
            at_projectId = projectId, at_scopes = json_stringify (ah_json h) (scope_names scopes),
            at_expiresAt = expiresAt, at_createdAt = now, at_lastUsedAt = None, at_revokedAt = None\<rparr>
      in if list_ex (\<lambda>r. at_id r = at_id row \<or> at_tokenHash r = at_tokenHash row) (ag_tokens st)
         then (Inl (Err ''UNIQUE constraint failed''), st)
         else if \<not> has_user userId (ag_db st) \<or> \<not> has_project projectId (ag_db st) then (Inl fk_error, st)
         else (Inr (uuid, secret, expiresAt), st\<lparr>ag_tokens := ag_tokens st @ [row]\<rparr>))"

fun known_scopes :: "json list \<Rightarrow> agent_scope list" where
  "known_scopes [] = []"
| "known_scopes (JStr n # xs) =
     (case scope_of_name n of Some s \<Rightarrow> s # known_scopes xs | None \<Rightarrow> known_scopes xs)"
| "known_scopes (_ # xs) = known_scopes xs"

definition parseScopes :: "agent_host \<Rightarrow> string \<Rightarrow> agent_scope list option" where
  "parseScopes h val =
     (case json_parse (ah_json h) val of
        Some (JArr xs) \<Rightarrow> Some (known_scopes xs)
      | _ \<Rightarrow> None)"

record agent_token_item =
  ti_id :: string
  ti_name :: string
  ti_projectId :: string
  ti_scopes :: "agent_scope list"
  ti_createdAt :: string
  ti_expiresAt :: string
  ti_lastUsedAt :: "string option"
  ti_revokedAt :: "string option"

definition token_item :: "agent_host \<Rightarrow> agent_token_row \<Rightarrow> agent_token_item" where
  "token_item h r = \<lparr>ti_id = at_id r, ti_name = at_name r, ti_projectId = at_projectId r,
     ti_scopes = nullish (parseScopes h (at_scopes r)) [],
     ti_createdAt = ah_iso h (at_createdAt r), ti_expiresAt = ah_iso h (at_expiresAt r),
     ti_lastUsedAt = map_option (ah_iso h) (at_lastUsedAt r), ti_revokedAt = map_option (ah_iso h) (at_revokedAt r)\<rparr>"

definition listAgentTokens :: "agent_host \<Rightarrow> string \<Rightarrow> agent_state \<Rightarrow> agent_token_item list" where
  "listAgentTokens h userId st =
     map (token_item h)
       (js_sort (\<lambda>l r. at_createdAt r - at_createdAt l) (filter (\<lambda>r. at_userId r = userId) (ag_tokens st)))"

definition revokeAgentToken :: "int \<Rightarrow> string \<Rightarrow> string \<Rightarrow> agent_state \<Rightarrow> agent_state" where
  "revokeAgentToken now userId tokenId st =
     st\<lparr>ag_tokens := map (\<lambda>r. if at_id r = tokenId \<and> at_userId r = userId \<and> at_revokedAt r = None
                            then r\<lparr>at_revokedAt := Some now\<rparr> else r) (ag_tokens st)\<rparr>"

definition touch_token :: "int \<Rightarrow> agent_token_row \<Rightarrow> agent_state \<Rightarrow> agent_state" where
  "touch_token now r st =
     (if (case at_lastUsedAt r of None \<Rightarrow> True | Some t \<Rightarrow> t < now - 5 * 60000)
      then st\<lparr>ag_tokens := map (\<lambda>x. if at_id x = at_id r then x\<lparr>at_lastUsedAt := Some now\<rparr> else x) (ag_tokens st)\<rparr>
      else st)"

definition find_token :: "agent_host \<Rightarrow> int \<Rightarrow> string \<Rightarrow> agent_state \<Rightarrow> agent_token_row option" where
  "find_token h now token st =
     find (\<lambda>r. at_tokenHash r = tokenHash h token \<and> now < at_expiresAt r \<and> at_revokedAt r = None) (ag_tokens st)"

definition authenticatePersonalAgentToken ::
  "agent_host \<Rightarrow> int \<Rightarrow> string \<Rightarrow> agent_state \<Rightarrow> agent_identity option \<times> agent_state" where
  "authenticatePersonalAgentToken h now token st =
     (if \<not> prefix ''tt_pat_'' token then (None, st)
      else case find_token h now token st of
        None \<Rightarrow> (None, st)
      | Some r \<Rightarrow>
          (case parseScopes h (at_scopes r) of
             None \<Rightarrow> (None, st)
           | Some scopes \<Rightarrow>
               (case getUserById (at_userId r) (ag_db st) of
                  None \<Rightarrow> (None, st)
                | Some user \<Rightarrow>
                    if \<not> au_isActive user then (None, st)
                    else case getProjectMembership (ah_localeCompare h) (at_userId r) (at_projectId r)
                                (Some (au_role user)) (ag_db st) of
                      None \<Rightarrow> (None, st)
                    | Some membership \<Rightarrow>
                        let effectiveScopes =
                              filter (\<lambda>s. SCOPE_ACTION s \<in> set (ms_allowedActions membership)) scopes
                        in if effectiveScopes = [] then (None, st)
                           else (Some \<lparr>ai_tokenId = at_id r, ai_userId = at_userId r, ai_projectId = at_projectId r,
                                   ai_scopes = map (\<lambda>s. JStr (scope_name s)) effectiveScopes,
                                   ai_membership = membership\<rparr>,
                                 touch_token now r st))))"

section \<open>Assertions of the MCP server\<close>

record agent_claims =
  cl_sub :: string
  cl_email :: "json option"
  cl_user_id :: "json option"
  cl_project_id :: string
  cl_scopes :: "json list"
  cl_iat :: int
  cl_exp :: int

definition read_claims :: "int \<Rightarrow> json \<Rightarrow> agent_claims option" where
  "read_claims now claims =
     (case (as_string (get_prop claims ''sub''), as_string (get_prop claims ''project_id''),
            as_number (get_prop claims ''iat''), as_number (get_prop claims ''exp''),
            as_array (get_prop claims ''scopes'')) of
        (Some sub, Some project_id, Some iat, Some exp, Some scopes) \<Rightarrow>
          if get_prop claims ''iss'' \<noteq> Some (JStr ''tokyo-mcp'') \<or>
             get_prop claims ''aud'' \<noteq> Some (JStr ''tokyo-ui-agent-api'') \<or>
             iat > now + 30 \<or> exp \<le> now \<or> exp - iat > 120 \<or>
             list_ex (\<lambda>s. js_text s \<notin> {''read'', ''workflow:write'', ''run''}) scopes
          then None
          else Some \<lparr>cl_sub = sub, cl_email = get_prop claims ''email'', cl_user_id = get_prop claims ''user_id'',
                 cl_project_id = project_id, cl_scopes = scopes, cl_iat = iat, cl_exp = exp\<rparr>
      | _ \<Rightarrow> None)"

definition verifyAgentAssertion :: "agent_host \<Rightarrow> string \<Rightarrow> string \<Rightarrow> int \<Rightarrow> agent_claims option" where
  "verifyAgentAssertion h assertion secret now =
     (if length secret < 32 then None
      else case split_on (CHR ''.'') assertion of
        [encodedHeader, encodedPayload, encodedSignature] \<Rightarrow>
          if ah_base64url h encodedSignature \<noteq> ah_hmac h secret (encodedHeader @ ''.'' @ encodedPayload) then None
          else (case (json_parse (ah_json h) (ah_utf8 h (ah_base64url h encodedHeader)),
                      json_parse (ah_json h) (ah_utf8 h (ah_base64url h encodedPayload))) of
             (Some header, Some claims) \<Rightarrow>
               if get_prop header ''alg'' \<noteq> Some (JStr ''HS256'') \<or> get_prop header ''typ'' \<noteq> Some (JStr ''JWT'') then None
               else read_claims now claims
           | _ \<Rightarrow> None)
      | _ \<Rightarrow> None)"

datatype mcp_auth_mode = Personal_Token_Mode | Oauth_Mode

definition getMcpAuthMode :: "agent_env \<Rightarrow> mcp_auth_mode" where
  "getMcpAuthMode env = (if MCP_AUTH_MODE env = Some ''oauth'' then Oauth_Mode else Personal_Token_Mode)"

section \<open>Requests of agents\<close>

type_synonym headers = "string \<Rightarrow> string option"

definition bearer_token :: "headers \<Rightarrow> string" where
  "bearer_token headers =
     (let authorization = nullish (headers ''authorization'') []
      in if prefix ''Bearer '' authorization then trim (drop 7 authorization) else [])"

text \<open>
  The user an assertion names. An email that is not a string has no \<open>trim\<close>, so the handler throws.
\<close>

definition claimed_user :: "agent_host \<Rightarrow> agent_claims \<Rightarrow> database \<Rightarrow> auth_user option res" where
  "claimed_user h claims db =
     (if truthy_json (cl_user_id claims) then Inr (getUserById (ah_param h (the (cl_user_id claims))) db)
      else if truthy_json (cl_email claims)
      then (case as_string (cl_email claims) of
              Some email \<Rightarrow> Inr (getUserByEmail (toLowerCase (trim email)) db)
            | None \<Rightarrow> Inl TypeError)
      else Inr None)"

definition authenticate_assertion ::
  "agent_host \<Rightarrow> agent_env \<Rightarrow> int \<Rightarrow> string \<Rightarrow> agent_scope list \<Rightarrow> database \<Rightarrow> agent_identity option res" where
  "authenticate_assertion h env now assertion required db =
     (case verifyAgentAssertion h assertion (nullish (MCP_INTERNAL_SECRET env) []) (now div 1000) of
        None \<Rightarrow> Inr None
      | Some claims \<Rightarrow>
          bind_res (claimed_user h claims db) (\<lambda>u.
            case u of
              None \<Rightarrow> Inr None
            | Some user \<Rightarrow>
                if \<not> au_isActive user then Inr None
                else if \<not> list_all (\<lambda>s. JStr (scope_name s) \<in> set (cl_scopes claims)) required then Inr None
                else (case getProjectMembership (ah_localeCompare h) (au_id user) (cl_project_id claims)
                             (Some (au_role user)) db of
                        None \<Rightarrow> Inr None
                      | Some membership \<Rightarrow>
                          if \<not> list_all (\<lambda>s. SCOPE_ACTION s \<in> set (ms_allowedActions membership)) required
                          then Inr None
                          else Inr (Some \<lparr>ai_tokenId = ''assertion:'' @ cl_sub claims, ai_userId = au_id user,
                                 ai_projectId = cl_project_id claims, ai_scopes = cl_scopes claims,
                                 ai_membership = membership\<rparr>))))"

definition authenticateAgentRequest ::
  "agent_host \<Rightarrow> agent_env \<Rightarrow> int \<Rightarrow> headers \<Rightarrow> agent_scope list \<Rightarrow> agent_state \<Rightarrow>
   agent_identity option res \<times> agent_state" where
  "authenticateAgentRequest h env now headers required st =
     (let assertion = map_option trim (headers ''x-tokyo-agent-assertion'')
      in if truthy_opt assertion
         then (authenticate_assertion h env now (the assertion) required (ag_db st), st)
         else if getMcpAuthMode env = Oauth_Mode then (Inr None, st)
         else case authenticatePersonalAgentToken h now (bearer_token headers) st of
           (None, st') \<Rightarrow> (Inr None, st')
         | (Some identity, st') \<Rightarrow>
             if \<not> list_all (\<lambda>s. JStr (scope_name s) \<in> set (ai_scopes identity)) required then (Inr None, st')
             else if \<not> list_all (\<lambda>s. SCOPE_ACTION s \<in> set (ms_allowedActions (ai_membership identity))) required
             then (Inr None, st')
             else (Inr (Some identity), st'))"

record http_response =
  hr_status :: nat
  hr_body :: json

definition error_response :: "nat \<Rightarrow> string \<Rightarrow> http_response" where
  "error_response status message = \<lparr>hr_status = status, hr_body = JObj [(''error'', JStr message)]\<rparr>"

definition unauthorizedAgentResponse :: http_response where
  "unauthorizedAgentResponse = error_response 401 ''A valid project-scoped agent token is required.''"

text \<open>\<open>handler\<close> acts on a world of its own, \<open>w\<close>: the requests it sends.\<close>

definition withAgent ::
  "agent_host \<Rightarrow> agent_env \<Rightarrow> int \<Rightarrow> headers \<Rightarrow> agent_scope list \<Rightarrow>
   (agent_identity \<Rightarrow> 'w \<Rightarrow> http_response res \<times> 'w) \<Rightarrow> agent_state \<times> 'w \<Rightarrow> http_response res \<times> agent_state \<times> 'w" where
  "withAgent h env now headers required handler stw =
     (case authenticateAgentRequest h env now headers required (fst stw) of
        (Inl e, st') \<Rightarrow> (Inl e, st', snd stw)
      | (Inr None, st') \<Rightarrow> (Inr unauthorizedAgentResponse, st', snd stw)
      | (Inr (Some identity), st') \<Rightarrow> (case handler identity (snd stw) of (r, w') \<Rightarrow> (r, st', w')))"

definition requiredIdempotencyKey :: "headers \<Rightarrow> string option" where
  "requiredIdempotencyKey headers =
     (let key = (case headers ''idempotency-key'' of Some k \<Rightarrow> trim k | None \<Rightarrow> [])
      in if 8 \<le> length key \<and> length key \<le> 200 then Some key else None)"

definition copyJSONResponse :: "nat \<Rightarrow> json option \<Rightarrow> (json \<Rightarrow> json) option \<Rightarrow> http_response" where
  "copyJSONResponse status body transform =
     (let val = nullish body (JObj [(''error'', JStr ''Tokyo Tester service returned an invalid response.'')])
      in \<lparr>hr_status = status, hr_body = (case transform of Some f \<Rightarrow> f val | None \<Rightarrow> val)\<rparr>)"

section \<open>The routes for tokens\<close>

definition tokens_GET :: "agent_host \<Rightarrow> session \<Rightarrow> agent_state \<Rightarrow> nat \<times> agent_token_item list" where
  "tokens_GET h session st =
     (case session of Some (c # cs, _) \<Rightarrow> (200, listAgentTokens h (c # cs) st) | _ \<Rightarrow> (401, []))"

definition token_request_invalid :: "json \<Rightarrow> bool" where
  "token_request_invalid body \<longleftrightarrow>
     (case get_prop body ''name'' of
        None \<Rightarrow> False | Some (JStr n) \<Rightarrow> 100 < length (trim n) | Some _ \<Rightarrow> True) \<or>
     (case get_prop body ''projectId'' of Some (JStr p) \<Rightarrow> 255 < length (trim p) | _ \<Rightarrow> True) \<or>
     (case get_prop body ''scopes'' of
        None \<Rightarrow> False
      | Some (JArr xs) \<Rightarrow>
          list_ex (\<lambda>x. case x of JStr n \<Rightarrow> scope_of_name n = None | _ \<Rightarrow> True) xs \<or> length (set_of xs) \<noteq> length xs
      | Some _ \<Rightarrow> True) \<or>
     (case get_prop body ''expiresInDays'' of None \<Rightarrow> False | Some (JNum _) \<Rightarrow> False | Some _ \<Rightarrow> True)"

text \<open>What follows the validation of the request; \<open>uuid\<close> and \<open>bytes\<close> are what the token's creation generates.\<close>

definition issue_requested ::
  "agent_host \<Rightarrow> int \<Rightarrow> string \<Rightarrow> 8 word list \<Rightarrow> string \<Rightarrow> string option \<Rightarrow> json \<Rightarrow> agent_state \<Rightarrow>
   http_response res \<times> agent_state" where
  "issue_requested h now uuid bytes userId role b st =
     (let projectId = trim (nullish (as_string (get_prop b ''projectId'')) []);
          available = (if projectId = [] then [] else availableAgentScopes h userId projectId role (ag_db st));
          requested = (case as_array (get_prop b ''scopes'') of Some xs \<Rightarrow> known_scopes xs | None \<Rightarrow> available);
          unavailable = filter (\<lambda>s. s \<notin> set available) requested;
          days = min (max (nullish (as_number (get_prop b ''expiresInDays'')) 30) 1) 90
      in if available = [] then (Inr (error_response 403 ''Forbidden''), st)
         else if unavailable \<noteq> []
         then (Inr (error_response 403 (''Current project role does not allow: '' @
                 join_with '', '' (map scope_name unavailable))), st)
         else if requested = [] then (Inr (error_response 400 ''At least one valid scope is required.''), st)
         else case createAgentToken h now uuid bytes
                     (or_str (map_option trim (as_string (get_prop b ''name''))) ''Tokyo Tester agent'')
                     userId projectId requested (now + days * 86400000) st of
           (Inl e, st') \<Rightarrow> (Inl e, st')
         | (Inr (i, secret, expiresAt), st') \<Rightarrow>
             (Inr \<lparr>hr_status = 201, hr_body = JObj [(''id'', JStr i), (''token'', JStr secret),
                     (''expiresAt'', JStr (ah_iso h expiresAt)), (''projectId'', JStr projectId),
                     (''scopes'', scope_names requested)]\<rparr>, st'))"

text \<open>
  \<open>body\<close> has no value when the request's body is not JSON; on the body \<open>null\<close> the first property access
  throws.
\<close>

definition tokens_POST ::
  "agent_host \<Rightarrow> agent_env \<Rightarrow> int \<Rightarrow> string \<Rightarrow> 8 word list \<Rightarrow> session \<Rightarrow> json option \<Rightarrow> agent_state \<Rightarrow>
   http_response res \<times> agent_state" where
  "tokens_POST h env now uuid bytes session body st =
     (case session of
        Some (c # cs, role) \<Rightarrow>
          if getMcpAuthMode env \<noteq> Personal_Token_Mode
          then (Inr (error_response 409 ''Personal tokens are disabled; connect with OAuth.''), st)
          else (case body of
            None \<Rightarrow> (Inr (error_response 400 ''Invalid JSON body''), st)
          | Some b \<Rightarrow>
              if b = JNull then (Inl TypeError, st)
              else if token_request_invalid b then (Inr (error_response 400 ''Invalid token request''), st)
              else issue_requested h now uuid bytes (c # cs) role b st)
      | _ \<Rightarrow> (Inr (error_response 401 ''Unauthorized''), st))"

definition token_DELETE :: "int \<Rightarrow> session \<Rightarrow> string \<Rightarrow> agent_state \<Rightarrow> nat \<times> agent_state" where
  "token_DELETE now session tokenId st =
     (case session of
        Some (c # cs, _) \<Rightarrow> (204, revokeAgentToken now (c # cs) tokenId st)
      | _ \<Rightarrow> (401, st))"

text \<open>The introspection route of the MCP server. \<open>Buffer.from\<close> encodes text as UTF-8.\<close>

definition utf8_bytes :: "string \<Rightarrow> nat list" where
  "utf8_bytes s = concat (map (\<lambda>c. let n = (of_char c :: nat) in
     if n < 128 then [n] else [192 + n div 64, 128 + n mod 64]) s)"

definition validInternalSecret :: "agent_env \<Rightarrow> headers \<Rightarrow> bool" where
  "validInternalSecret env headers \<longleftrightarrow>
     (let expected = utf8_bytes (nullish (MCP_INTERNAL_SECRET env) []);
          received = utf8_bytes (nullish (headers ''x-tokyo-mcp-secret'') [])
      in 32 \<le> length expected \<and> received = expected)"

definition inactive :: "nat \<Rightarrow> http_response" where
  "inactive status = \<lparr>hr_status = status, hr_body = JObj [(''active'', JBool False)]\<rparr>"

definition introspect_POST ::
  "agent_host \<Rightarrow> agent_env \<Rightarrow> int \<Rightarrow> headers \<Rightarrow> agent_state \<Rightarrow> http_response \<times> agent_state" where
  "introspect_POST h env now headers st =
     (if getMcpAuthMode env \<noteq> Personal_Token_Mode then (inactive 404, st)
      else if \<not> validInternalSecret env headers then (inactive 401, st)
      else case authenticatePersonalAgentToken h now (bearer_token headers) st of
        (None, st') \<Rightarrow> (inactive 200, st')
      | (Some identity, st') \<Rightarrow>
          (case getUserById (ai_userId identity) (ag_db st') of
             None \<Rightarrow> (inactive 200, st')
           | Some user \<Rightarrow>
               if au_email user = [] then (inactive 200, st')
               else (\<lparr>hr_status = 200, hr_body = JObj [(''active'', JBool True), (''sub'', JStr (ai_userId identity)),
                        (''user_id'', JStr (ai_userId identity)), (''email'', JStr (au_email user)),
                        (''project_id'', JStr (ai_projectId identity)), (''scopes'', JArr (ai_scopes identity))]\<rparr>, st')))"

section \<open>Where the MCP server is\<close>

text \<open>
  A parsed URL keeps its origin and its path; its query and fragment are cleared. Parsing, the path an
  assignment to \<open>pathname\<close> leaves and \<open>encodeURIComponent\<close> are arguments.
\<close>

record url =
  url_origin :: string
  url_pathname :: string

record url_host =
  new_URL :: "string \<Rightarrow> url option"
  path_after :: "string \<Rightarrow> string"
  encodeURIComponent :: "string \<Rightarrow> string"

record mcp_env =
  MCP_PUBLIC_URL :: "string option"
  MCP_OAUTH_ISSUER :: "string option"

definition MCP_SCOPES :: "string list" where
  "MCP_SCOPES = [''read'', ''workflow:write'', ''run'']"

definition drop_slash :: "string \<Rightarrow> string" where
  "drop_slash s = (if s \<noteq> [] \<and> last s = CHR ''/'' then butlast s else s)"

definition url_text :: "url \<Rightarrow> string" where
  "url_text u = url_origin u @ url_pathname u"

definition getPublicMcpUrl :: "url_host \<Rightarrow> mcp_env \<Rightarrow> url option" where
  "getPublicMcpUrl u env =
     (case map_option trim (MCP_PUBLIC_URL env) of
        None \<Rightarrow> None
      | Some configured \<Rightarrow>
          if configured = [] then None
          else map_option (\<lambda>url. url\<lparr>url_pathname := path_after u (drop_slash (url_pathname url))\<rparr>)
                 (new_URL u configured))"

definition projectMcpResource :: "url_host \<Rightarrow> agent_env \<Rightarrow> mcp_env \<Rightarrow> string \<Rightarrow> string option" where
  "projectMcpResource u ae env projectId =
     (case getPublicMcpUrl u env of
        None \<Rightarrow> None
      | Some base \<Rightarrow>
          Some (url_text
            (if getMcpAuthMode ae = Oauth_Mode
             then base\<lparr>url_pathname := path_after u (url_pathname base @ ''/projects/'' @ encodeURIComponent u projectId)\<rparr>
             else base)))"

record resource_metadata =
  rm_resource :: string
  rm_authorization_servers :: "string list"
  rm_scopes_supported :: "string list"
  rm_bearer_methods_supported :: "string list"

definition protectedResourceMetadata ::
  "url_host \<Rightarrow> agent_env \<Rightarrow> mcp_env \<Rightarrow> string list \<Rightarrow> resource_metadata option" where
  "protectedResourceMetadata u ae env resourcePath =
     (if getMcpAuthMode ae \<noteq> Oauth_Mode then None
      else case (getPublicMcpUrl u env, map_option trim (MCP_OAUTH_ISSUER env)) of
        (Some base, Some issuer) \<Rightarrow>
          if issuer = [] then None
          else let requestedPath = ''/'' @ join_with ''/'' (map (encodeURIComponent u) resourcePath);
                   basePath = drop_slash (url_pathname base)
               in if requestedPath \<noteq> basePath \<and> \<not> prefix (basePath @ ''/projects/'') requestedPath then None
                  else Some \<lparr>rm_resource = url_text (base\<lparr>url_pathname := path_after u requestedPath\<rparr>),
                         rm_authorization_servers = [drop_slash issuer], rm_scopes_supported = MCP_SCOPES,
                         rm_bearer_methods_supported = [''header'']\<rparr>
      | _ \<Rightarrow> None)"

definition setup_GET ::
  "url_host \<Rightarrow> agent_host \<Rightarrow> agent_env \<Rightarrow> mcp_env \<Rightarrow> session \<Rightarrow> string option \<Rightarrow> database \<Rightarrow> http_response" where
  "setup_GET u h ae env session projectIdParam db =
     (case session of
        Some (c # cs, role) \<Rightarrow>
          (let projectId = trim (nullish projectIdParam [])
           in if projectId = [] \<or> 255 < length projectId then error_response 400 ''Invalid project''
              else case getProjectMembership (ah_localeCompare h) (c # cs) projectId role db of
                None \<Rightarrow> error_response 404 ''Project not found''
              | Some m \<Rightarrow>
                  (case projectMcpResource u ae env projectId of
                     None \<Rightarrow> error_response 503 ''MCP_PUBLIC_URL is not configured''
                   | Some mcpUrl \<Rightarrow>
                       \<lparr>hr_status = 200, hr_body = JObj
                          [(''authMode'', JStr (case getMcpAuthMode ae of Oauth_Mode \<Rightarrow> ''oauth''
                                                | Personal_Token_Mode \<Rightarrow> ''personal_token'')),
                           (''mcpUrl'', JStr mcpUrl),
                           (''project'', JObj [(''id'', JStr (pj_id (ms_project m))), (''name'', JStr (pj_name (ms_project m)))]),
                           (''skillDownloadUrl'', JStr ''/downloads/tokyo-tester-skill.tar.gz'')]\<rparr>))
      | _ \<Rightarrow> error_response 401 ''Unauthorized'')"

section \<open>An agent never has more rights than its user has now\<close>

lemma touch_db [simp]: "ag_db (touch_token now r st) = ag_db st"
  by (simp add: touch_token_def)

lemma personal_identity:
  assumes "authenticatePersonalAgentToken h now token st = (Some identity, st')"
  shows "\<exists>r scopes user m. find_token h now token st = Some r \<and> parseScopes h (at_scopes r) = Some scopes \<and>
    getUserById (at_userId r) (ag_db st) = Some user \<and> au_isActive user \<and>
    getProjectMembership (ah_localeCompare h) (at_userId r) (at_projectId r) (Some (au_role user)) (ag_db st) = Some m \<and>
    identity = \<lparr>ai_tokenId = at_id r, ai_userId = at_userId r, ai_projectId = at_projectId r,
      ai_scopes = map (\<lambda>s. JStr (scope_name s)) (filter (\<lambda>s. SCOPE_ACTION s \<in> set (ms_allowedActions m)) scopes),
      ai_membership = m\<rparr> \<and> st' = touch_token now r st"
  using assms by (auto simp: authenticatePersonalAgentToken_def split: if_splits option.splits)

lemma assertion_identity:
  assumes "authenticate_assertion h env now assertion required db = Inr (Some identity)"
  shows "\<exists>claims user m. verifyAgentAssertion h assertion (nullish (MCP_INTERNAL_SECRET env) []) (now div 1000) = Some claims \<and>
    claimed_user h claims db = Inr (Some user) \<and> au_isActive user \<and>
    list_all (\<lambda>s. JStr (scope_name s) \<in> set (cl_scopes claims)) required \<and>
    getProjectMembership (ah_localeCompare h) (au_id user) (cl_project_id claims) (Some (au_role user)) db = Some m \<and>
    list_all (\<lambda>s. SCOPE_ACTION s \<in> set (ms_allowedActions m)) required \<and>
    identity = \<lparr>ai_tokenId = ''assertion:'' @ cl_sub claims, ai_userId = au_id user,
      ai_projectId = cl_project_id claims, ai_scopes = cl_scopes claims, ai_membership = m\<rparr>"
proof -
  obtain claims where c: "verifyAgentAssertion h assertion (nullish (MCP_INTERNAL_SECRET env) []) (now div 1000) = Some claims"
    using assms by (auto simp: authenticate_assertion_def split: option.splits)
  then obtain u where u: "claimed_user h claims db = Inr u"
    using assms by (cases "claimed_user h claims db") (auto simp: authenticate_assertion_def)
  then obtain user where "u = Some user" using assms c by (cases u) (auto simp: authenticate_assertion_def)
  with assms c u show ?thesis
    by (simp add: authenticate_assertion_def split: if_splits option.splits)
qed

lemma find_distinct: "distinct (map f xs) \<Longrightarrow> x \<in> set xs \<Longrightarrow> find (\<lambda>y. f y = f x) xs = Some x"
  by (induction xs) (auto simp: image_iff)

lemma user_found_by_id:
  assumes "accounts_ok db" "find P (db_users db) = Some r"
  shows "getUserById (us_id r) db = Some (mapUser r)"
  using assms find_distinct [of us_id "db_users db" r] find_member_of [OF assms(2)]
  by (simp add: getUserById_def accounts_ok_def db_ok_def keys_ok_def)

lemma claimed_user_exists:
  assumes "accounts_ok db" "claimed_user h claims db = Inr (Some user)"
  shows "getUserById (au_id user) db = Some user"
proof -
  obtain P r where "find P (db_users db) = Some r" "user = mapUser r"
    using assms(2) by (auto simp: claimed_user_def getUserById_def getUserByEmail_def split: if_splits option.splits)
  then show ?thesis using user_found_by_id [OF assms(1)] by (auto simp: mapUser_def)
qed

lemma authenticated_agent:
  assumes "authenticateAgentRequest h env now headers required st = (Inr (Some identity), st')"
    and "accounts_ok (ag_db st)"
  shows "ag_db st' = ag_db st \<and>
    (\<exists>user. getUserById (ai_userId identity) (ag_db st) = Some user \<and> au_isActive user \<and>
      list_all (\<lambda>s. JStr (scope_name s) \<in> set (ai_scopes identity) \<and>
        userHasProjectPermission (ah_localeCompare h) (ai_userId identity) (ai_projectId identity) (SCOPE_ACTION s)
          (Some (au_role user)) (ag_db st)) required)"
proof (cases "truthy_opt (map_option trim (headers ''x-tokyo-agent-assertion''))")
  case True
  then have a: "authenticate_assertion h env now (the (map_option trim (headers ''x-tokyo-agent-assertion''))) required (ag_db st) =
      Inr (Some identity)" "st' = st"
    using assms(1) by (auto simp: authenticateAgentRequest_def)
  from assertion_identity [OF a(1)] claimed_user_exists [OF assms(2)] a(2) show ?thesis
    by (fastforce simp: list_all_iff userHasProjectPermission_def)
next
  case False
  then have p: "authenticatePersonalAgentToken h now (bearer_token headers) st = (Some identity, st')"
    and q: "list_all (\<lambda>s. JStr (scope_name s) \<in> set (ai_scopes identity)) required"
      "list_all (\<lambda>s. SCOPE_ACTION s \<in> set (ms_allowedActions (ai_membership identity))) required"
    using assms(1) by (auto simp: authenticateAgentRequest_def split: if_splits option.splits prod.splits)
  from personal_identity [OF p] q show ?thesis
    by (fastforce simp: list_all_iff userHasProjectPermission_def)
qed


section \<open>The life of a token\<close>

lemma scope_of_scope_name [simp]: "scope_of_name (scope_name s) = Some s"
  by (cases s) (simp_all add: scope_of_name_def scope_name_def AGENT_SCOPES_def)

lemma scope_of_name_Some: "scope_of_name n = Some s \<longleftrightarrow> n = scope_name s"
proof
  assume "scope_of_name n = Some s"
  then show "n = scope_name s" using find_member_of [of _ AGENT_SCOPES] by (fastforce simp: scope_of_name_def)
qed simp

lemma known_scope_names [simp]: "known_scopes (map (\<lambda>s. JStr (scope_name s)) scopes) = scopes"
  by (induction scopes) simp_all

definition tokens_ok :: "agent_state \<Rightarrow> bool" where
  "tokens_ok st \<longleftrightarrow> distinct (map at_id (ag_tokens st)) \<and> distinct (map at_tokenHash (ag_tokens st))"

lemma find_token_unique:
  assumes "tokens_ok st" "r \<in> set (ag_tokens st)" "at_tokenHash r = tokenHash h token"
  shows "find_token h now token st = (if now < at_expiresAt r \<and> at_revokedAt r = None then Some r else None)"
proof -
  have u: "x = r" if "x \<in> set (ag_tokens st)" "at_tokenHash x = tokenHash h token" for x
    using assms that by (auto simp: tokens_ok_def distinct_map inj_on_def)
  show ?thesis
  proof (cases "find_token h now token st")
    case None
    then show ?thesis using assms(2,3) by (auto simp: find_token_def find_None_iff)
  next
    case (Some x)
    with find_member_of [OF this [unfolded find_token_def]] u have "x = r" by blast
    with Some find_member_of [OF Some [unfolded find_token_def]] show ?thesis by auto
  qed
qed

lemma created_token:
  assumes "createAgentToken h now uuid bytes name userId projectId scopes expiresAt st = (Inr (i, secret, ex), st')"
    "tokens_ok st"
  shows "tokens_ok st' \<and> ex = expiresAt \<and> ag_db st' = ag_db st \<and> prefix ''tt_pat_'' secret \<and>
    (\<exists>r. r \<in> set (ag_tokens st') \<and> at_id r = i \<and> at_tokenHash r = tokenHash h secret \<and> at_userId r = userId \<and>
      at_projectId r = projectId \<and> at_expiresAt r = expiresAt \<and> at_revokedAt r = None \<and>
      at_scopes r = json_stringify (ah_json h) (scope_names scopes))"
  using assms by (auto simp: createAgentToken_def tokens_ok_def list_ex_iff image_iff split: if_splits) blast

text \<open>
  A token that was just issued authenticates its holder until it expires: exactly while the user is
  active and a current member with some right the token was issued for, and then with exactly the
  issued scopes the current role allows.
\<close>

theorem issued_token_authenticates:
  assumes "createAgentToken h now uuid bytes name userId projectId scopes expiresAt st = (Inr (i, secret, ex), st')"
    and "tokens_ok st"
    and "json_parse (ah_json h) (json_stringify (ah_json h) (scope_names scopes)) = Some (scope_names scopes)"
    and "ag_tokens later = ag_tokens st'"
  shows "map_option (\<lambda>x. (ai_tokenId x, ai_userId x, ai_projectId x, ai_scopes x))
      (fst (authenticatePersonalAgentToken h t secret later)) =
    (case getUserById userId (ag_db later) of
       None \<Rightarrow> None
     | Some user \<Rightarrow>
         let granted = filter (\<lambda>s. userHasProjectPermission (ah_localeCompare h) userId projectId (SCOPE_ACTION s)
                                   (Some (au_role user)) (ag_db later)) scopes
         in if t < expiresAt \<and> au_isActive user \<and> granted \<noteq> []
            then Some (i, userId, projectId, map (\<lambda>s. JStr (scope_name s)) granted) else None)"
proof -
  obtain r where r: "r \<in> set (ag_tokens later)" "at_id r = i" "at_tokenHash r = tokenHash h secret" "at_userId r = userId"
    "at_projectId r = projectId" "at_expiresAt r = expiresAt" "at_revokedAt r = None"
    "at_scopes r = json_stringify (ah_json h) (scope_names scopes)" and ok: "tokens_ok later" and px: "prefix ''tt_pat_'' secret"
    using created_token [OF assms(1,2)] assms(4) by (auto simp: tokens_ok_def)
  have "parseScopes h (at_scopes r) = Some scopes"
    using assms(3) by (simp add: r(8) parseScopes_def scope_names_def)
  moreover have "find_token h t secret later = (if t < expiresAt then Some r else None)"
    using find_token_unique [OF ok r(1,3)] r by simp
  ultimately show ?thesis using px r(2,4,5)
    by (auto simp: authenticatePersonalAgentToken_def userHasProjectPermission_def split: option.splits)
qed

text \<open>An accepted assertion is signed with the shared secret, and its life is short.\<close>

fun octets :: "nat list \<Rightarrow> 8 word list" where
  "octets (w # x # y # z # r) =
     [of_nat (w * 4 + x div 16), of_nat (x mod 16 * 16 + y div 4), of_nat (y mod 4 * 64 + z)] @ octets r"
| "octets [w, x, y] = [of_nat (w * 4 + x div 16), of_nat (x mod 16 * 16 + y div 4)]"
| "octets [w, x] = [of_nat (w * 4 + x div 16)]"
| "octets _ = []"

definition alphabet_index :: "char \<Rightarrow> nat" where
  "alphabet_index c = length (takeWhile (\<lambda>d. d \<noteq> c) base64_alphabet)"

definition from_base64url :: "string \<Rightarrow> 8 word list" where
  "from_base64url s = octets (map alphabet_index s)"

lemma sextet_parts:
  fixes a b c :: nat
  assumes "b < 256" "c < 256"
  shows "(a mod 4 * 16 + b div 16) div 16 = a mod 4" "(a mod 4 * 16 + b div 16) mod 16 = b div 16"
    "(b mod 16 * 4 + c div 64) div 4 = b mod 16" "(b mod 16 * 4 + c div 64) mod 4 = c div 64"
  using assms by auto

lemma octets_sextets: "octets (sextets bytes) = bytes"
proof -
  have q: "x div 4 * 4 + x mod 4 = x" "x div 16 * 16 + x mod 16 = x" "x div 64 * 64 + x mod 64 = x" for x :: nat
    by simp_all
  have w: "of_nat (unat b) = b" for b :: "8 word" by simp
  have d: "x * 16 div 16 = x" "x * 4 div 4 = x" for x :: nat by simp_all
  show ?thesis
    by (induction bytes rule: sextets.induct)
      (simp_all only: sextets.simps octets.simps append.simps sextet_parts [OF unat_8_less unat_8_less] q w d)
qed

lemma sextets_small: "n \<in> set (sextets bytes) \<Longrightarrow> n < 64"
proof (induction bytes rule: sextets.induct)
  case (1 a b c r)
  then show ?case using unat_8_less [of a] unat_8_less [of b] unat_8_less [of c] by auto
next
  case (2 a b)
  then show ?case using unat_8_less [of a] unat_8_less [of b] by auto
next
  case (3 a)
  then show ?case using unat_8_less [of a] by auto
qed auto

lemma alphabet_index_nth: "n < 64 \<Longrightarrow> alphabet_index (base64_alphabet ! n) = n \<and> base64_alphabet ! n \<noteq> CHR ''.''"
proof -
  have "list_all (\<lambda>n. alphabet_index (base64_alphabet ! n) = n \<and> base64_alphabet ! n \<noteq> CHR ''.'') [0..<64]"
    by code_simp
  then show "n < 64 \<Longrightarrow> ?thesis" by (simp add: list_all_iff)
qed

lemma from_to_base64url [simp]: "from_base64url (to_base64url bytes) = bytes"
proof -
  have "map (alphabet_index \<circ> (\<lambda>n. base64_alphabet ! n)) (sextets bytes) = sextets bytes"
    using alphabet_index_nth sextets_small by (intro map_idI) auto
  then show ?thesis by (simp add: from_base64url_def to_base64url_def octets_sextets)
qed

lemma to_base64url_no_dot: "CHR ''.'' \<notin> set (to_base64url bytes)"
  using alphabet_index_nth sextets_small by (fastforce simp: to_base64url_def)

text \<open>
  \<open>signAssertion\<close> of \<^verbatim>\<open>src/runner-v2/pkg/mcpserver/server.go\<close>, at \<open>now\<close> seconds: \<open>marshal\<close> is
  \<open>json.Marshal\<close>, which orders the keys.
\<close>

definition go_trim :: "string \<Rightarrow> string" where
  "go_trim s = (let blank = (\<lambda>c. is_space c \<or> (of_char c :: nat) = 133)
     in rev (dropWhile blank (rev (dropWhile blank s))))"

definition assertion_payload :: "int \<Rightarrow> string \<Rightarrow> string \<Rightarrow> string \<Rightarrow> string \<Rightarrow> agent_scope list \<Rightarrow> json" where
  "assertion_payload now subject email userId projectId scopes =
     JObj ([(''aud'', JStr ''tokyo-ui-agent-api''), (''email'', JStr (toLowerCase (go_trim email))), (''exp'', JNum (now + 60)),
        (''iat'', JNum now), (''iss'', JStr ''tokyo-mcp''), (''project_id'', JStr projectId), (''scopes'', scope_names scopes),
        (''sub'', JStr subject)] @ (if userId = [] then [] else [(''user_id'', JStr userId)]))"

definition assertion_header :: json where
  "assertion_header = JObj [(''alg'', JStr ''HS256''), (''typ'', JStr ''JWT'')]"

definition signAssertion ::
  "(json \<Rightarrow> 8 word list) \<Rightarrow> (string \<Rightarrow> string \<Rightarrow> 8 word list) \<Rightarrow> string \<Rightarrow> json \<Rightarrow> string" where
  "signAssertion marshal hmac secret payload =
     (let input = to_base64url (marshal assertion_header) @ ''.'' @ to_base64url (marshal payload)
      in input @ ''.'' @ to_base64url (hmac secret input))"

lemma split_three:
  assumes "d \<notin> set a" "d \<notin> set b" "d \<notin> set c"
  shows "split_on d (a @ d # b @ d # c) = [a, b, c]"
  using assms by (simp add: split_on_append)

lemma verify_signed:
  assumes "\<And>b. ah_base64url h (to_base64url b) = b"
    and "json_parse (ah_json h) (ah_utf8 h (marshal assertion_header)) = Some assertion_header"
    and "json_parse (ah_json h) (ah_utf8 h (marshal payload)) = Some payload"
    and "32 \<le> length secret"
  shows "verifyAgentAssertion h (signAssertion marshal (ah_hmac h) secret payload) secret now = read_claims now payload"
proof -
  let ?a = "to_base64url (marshal assertion_header)" and ?b = "to_base64url (marshal payload)"
  have "split_on (CHR ''.'') (signAssertion marshal (ah_hmac h) secret payload) =
      [?a, ?b, to_base64url (ah_hmac h secret (?a @ ''.'' @ ?b))]"
    using split_three [OF to_base64url_no_dot to_base64url_no_dot to_base64url_no_dot] by (simp add: signAssertion_def)
  then show ?thesis using assms
    by (simp add: verifyAgentAssertion_def) (simp add: assertion_header_def get_prop_def)
qed

lemma js_text_scope: "js_text (JStr (scope_name s)) \<in> {''read'', ''workflow:write'', ''run''}"
  by (cases s) (simp_all add: scope_name_def)

lemma read_payload:
  "read_claims now (assertion_payload t subject email userId projectId scopes) =
   (if t \<le> now + 30 \<and> now < t + 60
    then Some \<lparr>cl_sub = subject, cl_email = Some (JStr (toLowerCase (go_trim email))),
           cl_user_id = (if userId = [] then None else Some (JStr userId)), cl_project_id = projectId,
           cl_scopes = map (\<lambda>s. JStr (scope_name s)) scopes, cl_iat = t, cl_exp = t + 60\<rparr>
    else None)"
proof -
  have "\<not> list_ex (\<lambda>s. js_text s \<notin> {''read'', ''workflow:write'', ''run''}) (map (\<lambda>s. JStr (scope_name s)) scopes)"
    using js_text_scope by (auto simp: list_ex_iff)
  then show ?thesis
    by (auto simp: read_claims_def assertion_payload_def get_prop_def as_string_def as_number_def as_array_def scope_names_def)
qed

lemma accepted_claims:
  assumes "verifyAgentAssertion h assertion secret now = Some claims"
  shows "\<exists>a b c. split_on (CHR ''.'') assertion = [a, b, c] \<and> ah_base64url h c = ah_hmac h secret (a @ ''.'' @ b) \<and>
    (\<exists>v. json_parse (ah_json h) (ah_utf8 h (ah_base64url h b)) = Some v \<and> read_claims now v = Some claims) \<and> 32 \<le> length secret"
  using assms by (auto simp: verifyAgentAssertion_def split: if_splits list.splits option.splits)

lemma read_claims_window:
  assumes "read_claims now v = Some claims"
  shows "cl_iat claims \<le> now + 30 \<and> now < cl_exp claims \<and> cl_exp claims - cl_iat claims \<le> 120 \<and>
    get_prop v ''iat'' = Some (JNum (cl_iat claims)) \<and> get_prop v ''exp'' = Some (JNum (cl_exp claims))"
  using assms by (auto simp: read_claims_def as_number_def split: if_splits option.splits json.splits)

text \<open>
  C23. The MCP server's assertions and their check agree: an assertion it signed at second \<open>t\<close> is
  accepted from 30 seconds before to 60 seconds after, and read as what it was signed for. No
  assertion at all is accepted unless its last part is the signature of the other two under the
  shared secret, of at least 32 characters, and none is accepted at two times 150 seconds apart.
\<close>

theorem assertion_signed_and_short_lived:
  assumes "\<And>b. ah_base64url h (to_base64url b) = b"
    and "\<And>v. v \<in> {assertion_header, assertion_payload t subject email userId projectId scopes} \<Longrightarrow>
      json_parse (ah_json h) (ah_utf8 h (marshal v)) = Some v"
    and "32 \<le> length secret"
  shows "(\<exists>claims. verifyAgentAssertion h (signAssertion marshal (ah_hmac h) secret
        (assertion_payload t subject email userId projectId scopes)) secret now = Some claims \<and>
      cl_sub claims = subject \<and> cl_project_id claims = projectId \<and>
      cl_scopes claims = map (\<lambda>s. JStr (scope_name s)) scopes) = (t - 30 \<le> now \<and> now < t + 60) \<and>
    (verifyAgentAssertion h assertion key n1 \<noteq> None \<longrightarrow>
      (\<exists>a b c. split_on (CHR ''.'') assertion = [a, b, c] \<and> ah_base64url h c = ah_hmac h key (a @ ''.'' @ b)) \<and>
      32 \<le> length key \<and> (verifyAgentAssertion h assertion key n2 \<noteq> None \<longrightarrow> \<bar>n1 - n2\<bar> < 150))"
proof -
  have "\<bar>n1 - n2\<bar> < 150" if c: "verifyAgentAssertion h assertion key n1 = Some c1" "verifyAgentAssertion h assertion key n2 = Some c2" for c1 c2
  proof -
    obtain v where "read_claims n1 v = Some c1" "read_claims n2 v = Some c2"
      using accepted_claims [OF c(1)] accepted_claims [OF c(2)] by auto
    from read_claims_window [OF this(1)] read_claims_window [OF this(2)] show ?thesis by auto
  qed
  moreover have "(\<exists>a b c. split_on (CHR ''.'') assertion = [a, b, c] \<and> ah_base64url h c = ah_hmac h key (a @ ''.'' @ b)) \<and>
      32 \<le> length key" if "verifyAgentAssertion h assertion key n1 = Some c1" for c1
    using accepted_claims [OF that] by blast
  ultimately show ?thesis
    using verify_signed [where h = h and marshal = marshal and secret = secret, OF assms(1) assms(2) assms(2) assms(3)]
    by (auto simp: read_payload)
qed

definition sample_payload :: json where
  "sample_payload = assertion_payload 1000 ''a'' ''a'' ''a'' ''p'' [Read_Scope]"

definition agent_sample_json :: json_lib where
  "agent_sample_json = \<lparr>
     json_parse = (\<lambda>s. if s = ''r'' then Some (scope_names [Read_Scope]) else if s = ''h'' then Some assertion_header
                    else if s = ''p'' then Some sample_payload else None),
     json_stringify = (\<lambda>v. if v = scope_names [Read_Scope] then ''r'' else if v = assertion_header then ''h'' else ''p'')\<rparr>"

definition agent_sample_host :: agent_host where
  "agent_sample_host = \<lparr>ah_json = agent_sample_json, ah_sha256 = (\<lambda>s. [of_nat (length s)]), ah_hmac = (\<lambda>k t. [1, 2]),
     ah_base64url = from_base64url, ah_utf8 = map (\<lambda>b. char_of (unat b)), ah_param = js_text,
     ah_localeCompare = (\<lambda>_ _. 0), ah_iso = (\<lambda>_. ''iso'')\<rparr>"

definition sample_marshal :: "json \<Rightarrow> 8 word list" where
  "sample_marshal v = (if v = assertion_header then [104] else [112])"

definition sample_secret :: string where
  "sample_secret = replicate 32 (CHR ''k'')"

definition agent_sample_env :: agent_env where
  "agent_sample_env = \<lparr>MCP_AUTH_MODE = None, MCP_INTERNAL_SECRET = Some sample_secret\<rparr>"

definition sample_agents :: agent_state where
  "sample_agents = \<lparr>ag_db = two_owner_db, ag_tokens = []\<rparr>"

lemma sample_marshal_reads:
  "v \<in> {assertion_header, sample_payload} \<Longrightarrow> json_parse (ah_json agent_sample_host) (ah_utf8 agent_sample_host (sample_marshal v)) = Some v"
  by (auto simp: agent_sample_host_def agent_sample_json_def sample_marshal_def char_of_def bit_0 assertion_header_def sample_payload_def
      assertion_payload_def)

lemma sample_base64: "ah_base64url agent_sample_host (to_base64url b) = b"
  by (simp add: agent_sample_host_def)

theorem assertion_signed_and_short_lived_witness:
  "verifyAgentAssertion agent_sample_host (signAssertion sample_marshal (ah_hmac agent_sample_host) sample_secret sample_payload)
     sample_secret 1059 \<noteq> None"
proof -
  have "\<exists>claims. verifyAgentAssertion agent_sample_host (signAssertion sample_marshal (ah_hmac agent_sample_host) sample_secret
      (assertion_payload 1000 ''a'' ''a'' ''a'' ''p'' [Read_Scope])) sample_secret 1059 = Some claims \<and>
      cl_sub claims = ''a'' \<and> cl_project_id claims = ''p'' \<and> cl_scopes claims = map (\<lambda>s. JStr (scope_name s)) [Read_Scope]"
    by (subst assertion_signed_and_short_lived [THEN conjunct1])
      (simp_all add: sample_base64 sample_marshal_reads sample_payload_def [symmetric] sample_secret_def)
  then show ?thesis by (auto simp: sample_payload_def)
qed

lemma two_owner_accounts_ok: "accounts_ok two_owner_db"
  using two_owner_db_ok by (simp add: accounts_ok_def) code_simp

lemma sample_issued:
  "createAgentToken agent_sample_host 0 ''t'' [] ''n'' ''a'' ''p'' [Read_Scope] 100 sample_agents =
   (Inr (''t'', ''tt_pat_'', 100), sample_agents\<lparr>ag_tokens := [
      \<lparr>at_id = ''t'', at_name = ''n'', at_tokenHash = ''07'', at_userId = ''a'', at_projectId = ''p'', at_scopes = ''r'',
       at_expiresAt = 100, at_createdAt = 0, at_lastUsedAt = None, at_revokedAt = None\<rparr>]\<rparr>)"
  by code_simp

theorem issued_token_authenticates_witness:
  "map_option (\<lambda>x. (ai_tokenId x, ai_userId x, ai_projectId x, ai_scopes x))
     (fst (authenticatePersonalAgentToken agent_sample_host 50 ''tt_pat_''
       (snd (createAgentToken agent_sample_host 0 ''t'' [] ''n'' ''a'' ''p'' [Read_Scope] 100 sample_agents)))) =
   Some (''t'', ''a'', ''p'', [JStr ''read''])"
proof -
  let ?st = "snd (createAgentToken agent_sample_host 0 ''t'' [] ''n'' ''a'' ''p'' [Read_Scope] 100 sample_agents)"
  have c: "createAgentToken agent_sample_host 0 ''t'' [] ''n'' ''a'' ''p'' [Read_Scope] 100 sample_agents = (Inr (''t'', ''tt_pat_'', 100), ?st)"
    by (simp add: sample_issued)
  have "tokens_ok sample_agents" by (simp add: tokens_ok_def sample_agents_def)
  moreover have "json_parse (ah_json agent_sample_host) (json_stringify (ah_json agent_sample_host) (scope_names [Read_Scope])) =
      Some (scope_names [Read_Scope])" by (simp add: agent_sample_host_def agent_sample_json_def)
  moreover have "getUserById ''a'' (ag_db ?st) = Some (mapUser (sample_user ''a'')) \<and>
      userHasProjectPermission (ah_localeCompare agent_sample_host) ''a'' ''p'' (SCOPE_ACTION Read_Scope)
        (Some (au_role (mapUser (sample_user ''a'')))) (ag_db ?st) \<and> au_isActive (mapUser (sample_user ''a''))"
    by code_simp
  ultimately show ?thesis using issued_token_authenticates [OF c, of ?st 50] by (simp add: scope_name_def)
qed


section \<open>Revocation and expiry are final\<close>

text \<open>
  Calls on the tokens, one after the other; between them the users, projects and memberships may
  change in any way.
\<close>

datatype agent_call =
    Issue int string "8 word list" string string string "agent_scope list" int
  | Revoke int string string
  | Present int string
  | Database_Change database

fun agent_exec :: "agent_host \<Rightarrow> agent_state \<Rightarrow> agent_call \<Rightarrow> agent_state" where
  "agent_exec h st (Issue now uuid bytes name u p scopes ex) = snd (createAgentToken h now uuid bytes name u p scopes ex st)"
| "agent_exec h st (Revoke now u i) = revokeAgentToken now u i st"
| "agent_exec h st (Present now token) = snd (authenticatePersonalAgentToken h now token st)"
| "agent_exec h st (Database_Change db) = st\<lparr>ag_db := db\<rparr>"

text \<open>A row only ever gets a time of use and a revocation; rows are added, none is removed.\<close>

definition row_update :: "(agent_token_row \<Rightarrow> agent_token_row) \<Rightarrow> bool" where
  "row_update f \<longleftrightarrow> (\<forall>r. at_id (f r) = at_id r \<and> at_tokenHash (f r) = at_tokenHash r \<and> at_expiresAt (f r) = at_expiresAt r \<and>
     (at_revokedAt r \<noteq> None \<longrightarrow> at_revokedAt (f r) \<noteq> None))"

lemma agent_exec_tokens:
  "\<exists>f new. row_update f \<and> ag_tokens (agent_exec h st c) = map f (ag_tokens st) @ new \<and>
     (tokens_ok st \<longrightarrow> tokens_ok (agent_exec h st c))"
proof -
  have mapped: "tokens_ok (st\<lparr>ag_tokens := map f (ag_tokens st)\<rparr>)" if "row_update f" "tokens_ok st" for f
    using that by (simp add: tokens_ok_def row_update_def comp_def)
  have "row_update (\<lambda>r. r)" by (simp add: row_update_def)
  note same = this
  show ?thesis
  proof (cases c)
    case (Issue now uuid bytes name u p scopes ex)
    then show ?thesis using same
      by (intro exI [of _ "\<lambda>r. r"]) (auto simp: createAgentToken_def tokens_ok_def list_ex_iff)
  next
    case (Revoke now u i)
    let ?f = "\<lambda>r. if at_id r = i \<and> at_userId r = u \<and> at_revokedAt r = None then r\<lparr>at_revokedAt := Some now\<rparr> else r"
    have "row_update ?f" by (simp add: row_update_def)
    with mapped [OF this] Revoke show ?thesis by (intro exI [of _ ?f]) (simp add: revokeAgentToken_def)
  next
    case (Present now token)
    obtain x st' where p: "authenticatePersonalAgentToken h now token st = (x, st')" by fastforce
    have "st' = st \<or> (\<exists>r. st' = touch_token now r st)"
      using p by (auto simp: authenticatePersonalAgentToken_def split: if_splits option.splits)
    moreover have "\<exists>f new. row_update f \<and> ag_tokens (touch_token now r st) = map f (ag_tokens st) @ new \<and>
        (tokens_ok st \<longrightarrow> tokens_ok (touch_token now r st))" for r
    proof -
      let ?f = "\<lambda>x. if at_id x = at_id r then x\<lparr>at_lastUsedAt := Some now\<rparr> else x"
      have "row_update ?f" by (simp add: row_update_def)
      with mapped [OF this] same show ?thesis
        by (cases "touch_token now r st = st") (auto simp: touch_token_def intro: exI [of _ "\<lambda>r. r"] exI [of _ ?f])
    qed
    moreover have "\<exists>f new. row_update f \<and> ag_tokens st = map f (ag_tokens st) @ new"
      using same by (intro exI [of _ "\<lambda>r. r"]) simp
    ultimately show ?thesis using Present p by auto
  next
    case (Database_Change db)
    then show ?thesis using same by (intro exI [of _ "\<lambda>r. r"]) (simp add: tokens_ok_def)
  qed
qed

definition dead_at :: "string \<Rightarrow> string \<Rightarrow> int \<Rightarrow> agent_state \<Rightarrow> bool" where
  "dead_at i hash t st \<longleftrightarrow>
     tokens_ok st \<and> list_ex (\<lambda>r. at_id r = i \<and> at_tokenHash r = hash \<and> (at_revokedAt r \<noteq> None \<or> at_expiresAt r \<le> t)) (ag_tokens st)"

lemma agent_exec_dead: "dead_at i hash t st \<Longrightarrow> dead_at i hash t (agent_exec h st c)"
proof -
  assume d: "dead_at i hash t st"
  obtain f new where f: "row_update f" "ag_tokens (agent_exec h st c) = map f (ag_tokens st) @ new"
    "tokens_ok st \<longrightarrow> tokens_ok (agent_exec h st c)"
    using agent_exec_tokens by metis
  show ?thesis using d f by (auto simp: dead_at_def list_ex_iff row_update_def)
qed

lemma dead_refused:
  assumes "dead_at i hash t0 st" "t0 \<le> t"
  shows "fst (authenticatePersonalAgentToken h t token st) = None \<or>
    tokenHash h token \<noteq> hash \<and> (\<exists>x. fst (authenticatePersonalAgentToken h t token st) = Some x \<and> ai_tokenId x \<noteq> i)"
proof (cases "fst (authenticatePersonalAgentToken h t token st)")
  case (Some x)
  then obtain st' where "authenticatePersonalAgentToken h t token st = (Some x, st')" by (metis prod.collapse)
  then obtain r where r: "find_token h t token st = Some r" "ai_tokenId x = at_id r"
    using personal_identity by fastforce
  from find_member_of [OF r(1) [unfolded find_token_def]]
  have m: "r \<in> set (ag_tokens st)" "at_tokenHash r = tokenHash h token" "t < at_expiresAt r" "at_revokedAt r = None" by auto
  obtain d where d: "d \<in> set (ag_tokens st)" "at_id d = i" "at_tokenHash d = hash" "at_revokedAt d \<noteq> None \<or> at_expiresAt d \<le> t0"
    using assms(1) by (auto simp: dead_at_def list_ex_iff)
  have "r \<noteq> d" using d(4) m(3,4) assms(2) by auto
  then have "at_id r \<noteq> i" "at_tokenHash r \<noteq> hash"
    using assms(1) d(1-3) m(1) by (auto simp: dead_at_def tokens_ok_def distinct_map inj_on_def)
  then show ?thesis using Some r(2) m(2) by simp
qed simp

lemma revoked_row:
  assumes "r \<in> set (ag_tokens st)"
  shows "\<exists>x \<in> set (ag_tokens (revokeAgentToken now (at_userId r) (at_id r) st)).
    at_id x = at_id r \<and> at_tokenHash x = at_tokenHash r \<and> (\<exists>t. at_revokedAt x = Some t)"
proof -
  let ?f = "\<lambda>x. if at_id x = at_id r \<and> at_userId x = at_userId r \<and> at_revokedAt x = None then x\<lparr>at_revokedAt := Some now\<rparr> else x"
  have "?f r \<in> ?f ` set (ag_tokens st)" using assms by (rule imageI)
  then show ?thesis by (intro bexI [of _ "?f r"]) (auto simp: revokeAgentToken_def)
qed

text \<open>
  C24. Revoking or expiring is final: once its owner has revoked a token, or its time has passed,
  its secret never authenticates again and no request is ever taken for that token, whatever tokens
  are issued, revoked and presented afterwards and however accounts and roles change.
\<close>

theorem dead_token_stays_dead:
  assumes "tokens_ok st" "r \<in> set (ag_tokens st)" "tokenHash h secret = at_tokenHash r"
    and "t0 \<le> t"
  shows "fst (authenticatePersonalAgentToken h t secret
      (foldl (agent_exec h) (revokeAgentToken now (at_userId r) (at_id r) st) calls)) = None \<and>
    (at_expiresAt r \<le> t0 \<longrightarrow> fst (authenticatePersonalAgentToken h t secret (foldl (agent_exec h) st calls)) = None) \<and>
    (case fst (authenticatePersonalAgentToken h t other
        (foldl (agent_exec h) (revokeAgentToken now (at_userId r) (at_id r) st) calls)) of
       Some identity \<Rightarrow> ai_tokenId identity \<noteq> at_id r | None \<Rightarrow> True)"
proof -
  have keep: "dead_at (at_id r) (at_tokenHash r) t0 s \<Longrightarrow> dead_at (at_id r) (at_tokenHash r) t0 (foldl (agent_exec h) s calls)" for s
    by (induction calls arbitrary: s) (simp_all add: agent_exec_dead)
  have "tokens_ok (revokeAgentToken now (at_userId r) (at_id r) st)"
    using agent_exec_tokens [of h st "Revoke now (at_userId r) (at_id r)"] assms(1) by auto
  then have "dead_at (at_id r) (at_tokenHash r) t0 (revokeAgentToken now (at_userId r) (at_id r) st)"
    using revoked_row [OF assms(2)] by (simp add: dead_at_def list_ex_iff) metis
  moreover have "at_expiresAt r \<le> t0 \<Longrightarrow> dead_at (at_id r) (at_tokenHash r) t0 st"
    using assms(1,2) by (auto simp: dead_at_def list_ex_iff)
  ultimately show ?thesis
    using dead_refused [OF keep assms(4), of _ h secret] 
      dead_refused [OF keep assms(4), of "revokeAgentToken now (at_userId r) (at_id r) st" h other] assms(3)
    by (auto split: option.splits)
qed

theorem dead_token_stays_dead_witness:
  "fst (authenticatePersonalAgentToken agent_sample_host 50 ''tt_pat_''
     (revokeAgentToken 10 ''a'' ''t'' (snd (createAgentToken agent_sample_host 0 ''t'' [] ''n'' ''a'' ''p'' [Read_Scope] 100 sample_agents)))) = None"
proof -
  let ?st = "snd (createAgentToken agent_sample_host 0 ''t'' [] ''n'' ''a'' ''p'' [Read_Scope] 100 sample_agents)"
  have "tokenHash agent_sample_host ''tt_pat_'' = ''07''" by code_simp
  with dead_token_stays_dead [of ?st "hd (ag_tokens ?st)" agent_sample_host "''tt_pat_''" 0 50 10 "[]"] show ?thesis
    by (simp add: sample_issued tokens_ok_def)
qed

section \<open>What the routes issue\<close>

lemma known_scopes_distinct:
  "list_all (\<lambda>x. \<exists>n. x = JStr n) xs \<Longrightarrow> distinct xs \<Longrightarrow> distinct (known_scopes xs)"
proof -
  have m: "s \<in> set (known_scopes xs) \<Longrightarrow> JStr (scope_name s) \<in> set xs" for s xs
    by (induction xs rule: known_scopes.induct) (auto simp: scope_of_name_Some split: option.splits)
  show "list_all (\<lambda>x. \<exists>n. x = JStr n) xs \<Longrightarrow> distinct xs \<Longrightarrow> distinct (known_scopes xs)"
    by (induction xs rule: known_scopes.induct) (auto simp: scope_of_name_Some split: option.splits dest: m)
qed

lemma available_permitted:
  "s \<in> set (availableAgentScopes h u p role db) \<longleftrightarrow> userHasProjectPermission (ah_localeCompare h) u p (SCOPE_ACTION s) role db"
  by (cases s) (auto simp: availableAgentScopes_def userHasProjectPermission_def AGENT_SCOPES_def split: option.splits)

lemma available_distinct: "distinct (availableAgentScopes h u p role db)"
  by (auto simp: availableAgentScopes_def AGENT_SCOPES_def split: option.splits)

lemma valid_scopes:
  assumes "\<not> token_request_invalid b" "as_array (get_prop b ''scopes'') = Some xs"
  shows "list_all (\<lambda>x. \<exists>n. x = JStr n) xs \<and> distinct xs"
proof -
  have "get_prop b ''scopes'' = Some (JArr xs)"
    using assms(2) by (auto simp: as_array_def split: option.splits json.splits)
  then have "\<not> list_ex (\<lambda>x. case x of JStr n \<Rightarrow> scope_of_name n = None | _ \<Rightarrow> True) xs" "length (set_of xs) = length xs"
    using assms(1) by (simp_all add: token_request_invalid_def)
  moreover have "\<exists>n. x = JStr n" if "\<not> (case x of JStr n \<Rightarrow> scope_of_name n = None | _ \<Rightarrow> True)" for x
    using that by (cases x) auto
  ultimately show ?thesis by (auto simp: set_of_size_iff list_ex_iff list_all_iff)
qed

lemma created_row:
  assumes "createAgentToken h now uuid bytes name u p scopes ex st = (Inr x, st')"
  shows "\<exists>row. st' = st\<lparr>ag_tokens := ag_tokens st @ [row]\<rparr> \<and> at_userId row = u \<and> at_projectId row = p \<and>
    at_scopes row = json_stringify (ah_json h) (scope_names scopes) \<and> at_expiresAt row = ex"
  using assms by (auto simp: createAgentToken_def split: if_splits)

lemma issued_row:
  assumes "issue_requested h now uuid bytes u role b st = (Inr response, st')" "\<not> token_request_invalid b"
  shows "if hr_status response = 201
    then \<exists>p row scopes. st' = st\<lparr>ag_tokens := ag_tokens st @ [row]\<rparr> \<and>
      at_userId row = u \<and> at_projectId row = p \<and> scopes \<noteq> [] \<and> distinct scopes \<and>
      at_scopes row = json_stringify (ah_json h) (scope_names scopes) \<and>
      list_all (\<lambda>s. userHasProjectPermission (ah_localeCompare h) u p (SCOPE_ACTION s) role (ag_db st)) scopes \<and>
      now + 86400000 \<le> at_expiresAt row \<and> at_expiresAt row \<le> now + 90 * 86400000
    else st' = st"
proof -
  define p where "p = trim (nullish (as_string (get_prop b ''projectId'')) [])"
  define av where "av = (if p = [] then [] else availableAgentScopes h u p role (ag_db st))"
  define rq where "rq = (case as_array (get_prop b ''scopes'') of Some xs \<Rightarrow> known_scopes xs | None \<Rightarrow> av)"
  define d where "d = min (max (nullish (as_number (get_prop b ''expiresInDays'')) 30) 1) (90::int)"
  define nm where "nm = or_str (map_option trim (as_string (get_prop b ''name''))) ''Tokyo Tester agent''"
  obtain r s2 where cr: "createAgentToken h now uuid bytes nm u p rq (now + d * 86400000) st = (r, s2)" by fastforce
  note issue = assms(1) [unfolded issue_requested_def Let_def, folded p_def, folded av_def, folded rq_def, folded d_def,
      folded nm_def, unfolded cr]
  show ?thesis
  proof (cases "av \<noteq> [] \<and> filter (\<lambda>s. s \<notin> set av) rq = [] \<and> rq \<noteq> []")
    case False
    then show ?thesis using issue by (auto simp: error_response_def split: if_splits)
  next
    case ok: True
    then obtain x where x: "r = Inr x" "hr_status response = 201" "st' = s2"
      using issue by (auto split: sum.splits prod.splits)
    obtain row where row: "st' = st\<lparr>ag_tokens := ag_tokens st @ [row]\<rparr>" "at_userId row = u" "at_projectId row = p"
      "at_scopes row = json_stringify (ah_json h) (scope_names rq)" "at_expiresAt row = now + d * 86400000"
      using created_row [OF cr [unfolded x(1)]] x(3) by blast
    have "distinct rq"
      using valid_scopes [OF assms(2)] known_scopes_distinct available_distinct
      by (auto simp: rq_def av_def split: option.splits)
    moreover have "1 \<le> d" "d \<le> 90" by (simp_all add: d_def)
    moreover have "list_all (\<lambda>s. userHasProjectPermission (ah_localeCompare h) u p (SCOPE_ACTION s) role (ag_db st)) rq"
      using ok by (auto simp: list_all_iff av_def available_permitted filter_empty_conv split: if_splits)
    ultimately have "st' = st\<lparr>ag_tokens := ag_tokens st @ [row]\<rparr> \<and> at_userId row = u \<and> at_projectId row = p \<and> rq \<noteq> [] \<and>
        distinct rq \<and> at_scopes row = json_stringify (ah_json h) (scope_names rq) \<and>
        list_all (\<lambda>s. userHasProjectPermission (ah_localeCompare h) u p (SCOPE_ACTION s) role (ag_db st)) rq \<and>
        now + 86400000 \<le> at_expiresAt row \<and> at_expiresAt row \<le> now + 90 * 86400000"
      using ok row by simp
    then show ?thesis unfolding if_P [OF x(2)] by blast
  qed
qed

text \<open>
  A token is issued only to a signed-in user and never for more than the user may do: unless the
  route answers 201 nothing changes; if it does, exactly one token was added, of that user, whose scopes
  are distinct, not empty and each permitted by the user's role in the project, and which expires
  between one and ninety days from now, whatever number of days was asked for.
\<close>

theorem issued_token_within_rights:
  assumes "tokens_POST h env now uuid bytes session body st = (Inr response, st')"
  shows "if hr_status response = 201
    then \<exists>u role p row scopes. session = Some (u, role) \<and> u \<noteq> [] \<and> st' = st\<lparr>ag_tokens := ag_tokens st @ [row]\<rparr> \<and>
      at_userId row = u \<and> at_projectId row = p \<and> scopes \<noteq> [] \<and> distinct scopes \<and>
      at_scopes row = json_stringify (ah_json h) (scope_names scopes) \<and>
      list_all (\<lambda>s. userHasProjectPermission (ah_localeCompare h) u p (SCOPE_ACTION s) role (ag_db st)) scopes \<and>
      now + 86400000 \<le> at_expiresAt row \<and> at_expiresAt row \<le> now + 90 * 86400000
    else st' = st"
proof (cases "\<exists>c cs role b. session = Some (c # cs, role) \<and> body = Some b \<and> \<not> token_request_invalid b \<and>
    issue_requested h now uuid bytes (c # cs) role b st = (Inr response, st')")
  case False
  then show ?thesis using assms
    by (auto simp: tokens_POST_def error_response_def split: option.splits list.splits if_splits)
next
  case True
  then obtain c cs role b where c: "session = Some (c # cs, role)" "\<not> token_request_invalid b"
    "issue_requested h now uuid bytes (c # cs) role b st = (Inr response, st')" by blast
  from issued_row [OF c(3,2)] c(1) show ?thesis by (simp split: if_splits)
qed

definition sample_request :: json where
  "sample_request = JObj [(''projectId'', JStr ''p''), (''scopes'', JArr [JStr ''read'']), (''expiresInDays'', JNum 1000)]"

theorem issued_token_within_rights_witness:
  "\<exists>response st' row. tokens_POST agent_sample_host agent_sample_env 0 ''t'' [] (Some (''a'', Some ''normal'')) (Some sample_request)
     sample_agents = (Inr response, st') \<and> hr_status response = 201 \<and>
     ag_tokens st' = [row] \<and> at_expiresAt row \<le> 90 * 86400000"
proof -
  let ?r = "tokens_POST agent_sample_host agent_sample_env 0 ''t'' [] (Some (''a'', Some ''normal'')) (Some sample_request) sample_agents"
  have "case fst ?r of Inr x \<Rightarrow> hr_status x = 201 | _ \<Rightarrow> False" by code_simp
  then obtain x where "?r = (Inr x, snd ?r)" "hr_status x = 201" by (cases ?r) (auto split: sum.splits)
  with issued_token_within_rights [OF this(1)] show ?thesis by (auto simp: sample_agents_def)
qed

section \<open>From a presented token to the agent's request\<close>

lemma signed_solid: "trim (signAssertion marshal hmac secret payload) = signAssertion marshal hmac secret payload"
proof -
  have "list_all (\<lambda>c. \<not> is_space c) base64_alphabet" "length base64_alphabet = 64"
    by (simp_all add: base64_alphabet_def is_space_def)
  then have "\<not> is_space (base64_alphabet ! n)" if "n < 64" for n using that by (simp add: list_all_length)
  then have "list_all (\<lambda>c. \<not> is_space c) (to_base64url bytes)" for bytes
    using sextets_small by (auto simp: to_base64url_def list_all_iff)
  moreover have "\<not> is_space (CHR ''.'')" by (simp add: is_space_def)
  ultimately show ?thesis by (intro trim_solid) (simp add: signAssertion_def)
qed

lemma introspected:
  assumes "introspect_POST h env now headers st = (response, st')" "get_prop (hr_body response) ''active'' = Some (JBool True)"
  shows "\<exists>identity. authenticatePersonalAgentToken h now (bearer_token headers) st = (Some identity, st') \<and>
    get_prop (hr_body response) ''user_id'' = Some (JStr (ai_userId identity)) \<and>
    get_prop (hr_body response) ''project_id'' = Some (JStr (ai_projectId identity)) \<and>
    get_prop (hr_body response) ''scopes'' = Some (JArr (ai_scopes identity))"
proof -
  obtain x s2 where a: "authenticatePersonalAgentToken h now (bearer_token headers) st = (x, s2)" by fastforce
  have inact: "get_prop (hr_body (inactive n)) ''active'' \<noteq> Some (JBool True)" for n by (simp add: inactive_def get_prop_def)
  obtain identity user where "x = Some identity" "getUserById (ai_userId identity) (ag_db s2) = Some user"
    using assms inact by (cases x; cases "getUserById (ai_userId (the x)) (ag_db s2)") (auto simp: introspect_POST_def a split: if_splits)
  with assms a inact show ?thesis
    by (auto simp: introspect_POST_def get_prop_def [of "JObj _"] split: if_splits)
qed

text \<open>
  The MCP server's way in keeps the identity: when the introspection route reports a presented
  personal token as active, the assertion the MCP server signs from that report is accepted by the
  agent routes for every subset of the reported scopes, as the same user in the same project, as
  long as the accounts do not change and the assertion is in its time window.
\<close>

theorem introspected_agent_is_accepted:
  assumes i: "introspect_POST h env now headers st = (response, st')"
      "get_prop (hr_body response) ''active'' = Some (JBool True)"
    and g: "get_prop (hr_body response) ''user_id'' = Some (JStr u)" "get_prop (hr_body response) ''project_id'' = Some (JStr p)"
      "get_prop (hr_body response) ''scopes'' = Some (scope_names scopes)"
    and "u \<noteq> []" "set required \<subseteq> set scopes" "t \<le> later div 1000 + 30" "later div 1000 < t + 60"
    and b: "\<And>b. ah_base64url h (to_base64url b) = b" and prm: "\<And>s. ah_param h (JStr s) = s"
    and reads: "\<And>v. v \<in> {assertion_header, assertion_payload t u email u p scopes} \<Longrightarrow>
      json_parse (ah_json h) (ah_utf8 h (marshal v)) = Some v"
    and key: "MCP_INTERNAL_SECRET env = Some secret" "32 \<le> length secret"
  shows "\<exists>x. authenticateAgentRequest h env later
      (\<lambda>k. if k = ''x-tokyo-agent-assertion''
           then Some (signAssertion marshal (ah_hmac h) secret (assertion_payload t u email u p scopes)) else None)
      required st' = (Inr (Some x), st') \<and> ai_userId x = u \<and> ai_projectId x = p"
proof -
  let ?a = "signAssertion marshal (ah_hmac h) secret (assertion_payload t u email u p scopes)"
  obtain identity where auth: "authenticatePersonalAgentToken h now (bearer_token headers) st = (Some identity, st')"
    and ident: "ai_userId identity = u" "ai_projectId identity = p" "ai_scopes identity = map (\<lambda>s. JStr (scope_name s)) scopes"
    using introspected [OF i] g by (auto simp: scope_names_def)
  from personal_identity [OF auth] ident obtain user m sc where user: "getUserById u (ag_db st) = Some user" "au_isActive user"
    and m: "getProjectMembership (ah_localeCompare h) u p (Some (au_role user)) (ag_db st) = Some m"
    and sc: "map (\<lambda>s. JStr (scope_name s)) (filter (\<lambda>s. SCOPE_ACTION s \<in> set (ms_allowedActions m)) sc) = map (\<lambda>s. JStr (scope_name s)) scopes"
    and db: "ag_db st' = ag_db st" by auto
  from sc have "scopes = filter (\<lambda>s. SCOPE_ACTION s \<in> set (ms_allowedActions m)) sc" by (metis known_scope_names)
  then have act: "list_all (\<lambda>s. SCOPE_ACTION s \<in> set (ms_allowedActions m)) required"
    "list_all (\<lambda>s. JStr (scope_name s) \<in> set (map (\<lambda>s. JStr (scope_name s)) scopes)) required"
    using assms(7) by (auto simp: list_all_iff)
  have v: "verifyAgentAssertion h ?a secret (later div 1000) = Some \<lparr>cl_sub = u, cl_email = Some (JStr (toLowerCase (go_trim email))),
      cl_user_id = Some (JStr u), cl_project_id = p, cl_scopes = map (\<lambda>s. JStr (scope_name s)) scopes, cl_iat = t, cl_exp = t + 60\<rparr>"
    using verify_signed [where h = h and marshal = marshal and secret = secret, OF b reads reads key(2)] assms(6,8,9)
    by (simp add: read_payload)
  have "au_id user = u" using user(1) find_member_of by (fastforce simp: getUserById_def mapUser_def)
  then have "authenticate_assertion h env later ?a required (ag_db st') =
      Inr (Some \<lparr>ai_tokenId = ''assertion:'' @ u, ai_userId = u, ai_projectId = p,
        ai_scopes = map (\<lambda>s. JStr (scope_name s)) scopes, ai_membership = m\<rparr>)"
    using v user m act db assms(6) prm key(1)
    by (simp add: authenticate_assertion_def claimed_user_def truthy_json_def nullish_def)
  moreover have "?a \<noteq> []" by (simp add: signAssertion_def)
  ultimately show ?thesis by (simp add: authenticateAgentRequest_def truthy_opt_def signed_solid)
qed

theorem introspected_agent_is_accepted_witness:
  "\<exists>response st' x. introspect_POST agent_sample_host agent_sample_env 50
     (\<lambda>k. if k = ''authorization'' then Some ''Bearer tt_pat_'' else if k = ''x-tokyo-mcp-secret'' then Some sample_secret else None)
     (snd (createAgentToken agent_sample_host 0 ''t'' [] ''n'' ''a'' ''p'' [Read_Scope] 100 sample_agents)) = (response, st') \<and>
   authenticateAgentRequest agent_sample_host agent_sample_env 1000000
     (\<lambda>k. if k = ''x-tokyo-agent-assertion''
          then Some (signAssertion sample_marshal (ah_hmac agent_sample_host) sample_secret sample_payload) else None)
     [Read_Scope] st' = (Inr (Some x), st') \<and> ai_userId x = ''a''"
proof -
  let ?st = "snd (createAgentToken agent_sample_host 0 ''t'' [] ''n'' ''a'' ''p'' [Read_Scope] 100 sample_agents)"
  let ?h = "\<lambda>k. if k = ''authorization'' then Some ''Bearer tt_pat_'' else if k = ''x-tokyo-mcp-secret'' then Some sample_secret else None"
  let ?r = "introspect_POST agent_sample_host agent_sample_env 50 ?h ?st"
  have r: "get_prop (hr_body (fst ?r)) ''active'' = Some (JBool True) \<and> get_prop (hr_body (fst ?r)) ''user_id'' = Some (JStr ''a'') \<and>
      get_prop (hr_body (fst ?r)) ''project_id'' = Some (JStr ''p'') \<and>
      get_prop (hr_body (fst ?r)) ''scopes'' = Some (scope_names [Read_Scope])" by code_simp
  have prm: "ah_param agent_sample_host (JStr s) = s" for s by (simp add: agent_sample_host_def)
  obtain x where "authenticateAgentRequest agent_sample_host agent_sample_env 1000000
      (\<lambda>k. if k = ''x-tokyo-agent-assertion''
          then Some (signAssertion sample_marshal (ah_hmac agent_sample_host) sample_secret
            (assertion_payload 1000 ''a'' ''a'' ''a'' ''p'' [Read_Scope])) else None)
      [Read_Scope] (snd ?r) = (Inr (Some x), snd ?r) \<and> ai_userId x = ''a'' \<and> ai_projectId x = ''p''"
    by (rule exE [OF introspected_agent_is_accepted [where response = "fst ?r" and now = 50 and headers = ?h and st = ?st
          and t = 1000 and u = "''a''" and email = "''a''" and p = "''p''" and scopes = "[Read_Scope]" and required = "[Read_Scope]"
          and later = 1000000 and marshal = sample_marshal and secret = sample_secret and h = agent_sample_host and env = agent_sample_env and st' = "snd ?r"]])
      (use r prm in \<open>auto simp: sample_base64 sample_marshal_reads sample_payload_def [symmetric] agent_sample_env_def sample_secret_def\<close>)
  then show ?thesis unfolding sample_payload_def by (intro exI [of _ "fst ?r"] exI [of _ "snd ?r"] exI [of _ x]) simp
qed

section \<open>The advertised resource\<close>

lemma join_with_append: "xs \<noteq> [] \<Longrightarrow> ys \<noteq> [] \<Longrightarrow> join_with sep (xs @ ys) = join_with sep xs @ sep @ join_with sep ys"
proof (induction xs)
  case (Cons x xs)
  then show ?case by (cases xs; cases ys) auto
qed simp

text \<open>
  The resource a project's setup names is the one its metadata describe: with OAuth and a public
  MCP address that has a path, the metadata served for that path followed by the project name the very
  URL the setup shows. When the address has no path, the setup shows a path with two slashes and the
  metadata for the project name another URL.
\<close>

theorem project_resource_has_metadata:
  assumes "getMcpAuthMode ae = Oauth_Mode" "MCP_PUBLIC_URL env = Some configured" "trim configured \<noteq> []"
    and url: "new_URL u (trim configured) = Some \<lparr>url_origin = origin, url_pathname = path\<rparr>"
    and "MCP_OAUTH_ISSUER env = Some issuer" "trim issuer \<noteq> []"
    and norm: "\<And>q. q \<in> {drop_slash path, path @ ''/projects/'' @ encodeURIComponent u p, ''/projects/'' @ encodeURIComponent u p} \<Longrightarrow>
      path_after u q = (if prefix ''/'' q then q else ''/'' @ q)"
    and enc: "encodeURIComponent u ''projects'' = ''projects''"
  shows "(segments \<noteq> [] \<and> map (encodeURIComponent u) segments = segments \<and> last segments \<noteq> [] \<and>
      last (last segments) \<noteq> CHR ''/'' \<and> path = ''/'' @ join_with ''/'' segments \<longrightarrow>
      map_option rm_resource (protectedResourceMetadata u ae env (segments @ [''projects'', p])) = projectMcpResource u ae env p) \<and>
    (path = ''/'' \<longrightarrow>
      projectMcpResource u ae env p = Some (origin @ ''//projects/'' @ encodeURIComponent u p) \<and>
      map_option rm_resource (protectedResourceMetadata u ae env [''projects'', p]) = Some (origin @ ''/projects/'' @ encodeURIComponent u p))"
proof -
  have base: "getPublicMcpUrl u env = Some \<lparr>url_origin = origin, url_pathname = path_after u (drop_slash path)\<rparr>"
    using assms by (simp add: getPublicMcpUrl_def)
  have "drop_slash path = path \<and> prefix ''/'' path" if "segments \<noteq> []" "last segments \<noteq> []" "last (last segments) \<noteq> CHR ''/''"
    "path = ''/'' @ join_with ''/'' segments"
  proof -
    have "join_with ''/'' segments \<noteq> [] \<and> last (join_with ''/'' segments) = last (last segments)"
      using that(1,2) by (induction segments rule: join_with.induct [of _ "''/''"]) auto
    then show ?thesis using that by (auto simp: drop_slash_def)
  qed
  moreover have "join_with ''/'' (segments @ [''projects'', q]) = join_with ''/'' segments @ ''/projects/'' @ q" if "segments \<noteq> []" for q
    using join_with_append [OF that, of "[''projects'', q]" "''/''"] by simp
  ultimately show ?thesis
    using assms(1,5,6) base norm enc
    by (auto simp: projectMcpResource_def protectedResourceMetadata_def url_text_def drop_slash_def map_append)
qed

definition sample_urls :: "string \<Rightarrow> url_host" where
  "sample_urls path = \<lparr>new_URL = (\<lambda>_. Some \<lparr>url_origin = ''https://h'', url_pathname = path\<rparr>),
     path_after = (\<lambda>q. if prefix ''/'' q then q else ''/'' @ q), encodeURIComponent = (\<lambda>s. s)\<rparr>"

definition sample_mcp_env :: mcp_env where
  "sample_mcp_env = \<lparr>MCP_PUBLIC_URL = Some ''x'', MCP_OAUTH_ISSUER = Some ''i''\<rparr>"

theorem project_resource_has_metadata_witness:
  "map_option rm_resource (protectedResourceMetadata (sample_urls ''/mcp'') (agent_sample_env\<lparr>MCP_AUTH_MODE := Some ''oauth''\<rparr>) sample_mcp_env
     [''mcp'', ''projects'', ''p'']) = projectMcpResource (sample_urls ''/mcp'') (agent_sample_env\<lparr>MCP_AUTH_MODE := Some ''oauth''\<rparr>) sample_mcp_env ''p''"
proof -
  have "trim [CHR ''x''] = ''x''" "trim [CHR ''i''] = ''i''" by (simp_all add: trim_def is_space_def)
  then show ?thesis
    using project_resource_has_metadata [where ae = "agent_sample_env\<lparr>MCP_AUTH_MODE := Some ''oauth''\<rparr>" and env = sample_mcp_env
        and configured = "''x''" and u = "sample_urls ''/mcp''" and origin = "''https://h''" and path = "''/mcp''" and issuer = "''i''"
        and segments = "[''mcp'']" and p = "''p''"]
    by (simp add: sample_urls_def sample_mcp_env_def getMcpAuthMode_def)
qed

end
