(* ===== verification/Runner_Requests.thy ===== *)
theory Runner_Requests
  imports Js_Strings
begin

text \<open>
  Requests of the web application to the runner. A handler is a function on the list of requests sent
  so far; the runner is a function from that list and the next request to its reply, or to the error
  of a failed \<open>fetch\<close>, so a reply may depend on everything sent before. Request bodies and replies are
  JSON values; a property that is \<open>undefined\<close> is left out of an object, as \<open>JSON.stringify\<close> does.
\<close>

record runner_request =
  rq_method :: string
  rq_path :: string
  rq_query :: "(string \<times> string) list"
  rq_body :: "json option"

record runner_reply =
  rr_status :: nat
  rr_json :: "json option"

type_synonym runner = "runner_request list \<Rightarrow> runner_request \<Rightarrow> runner_reply res"

type_synonym 'a handler = "runner_request list \<Rightarrow> 'a res \<times> runner_request list"

definition send :: "runner \<Rightarrow> runner_request \<Rightarrow> runner_reply handler" where
  "send runner rq sent = (runner sent rq, sent @ [rq])"

definition pure_h :: "'a res \<Rightarrow> 'a handler" where
  "pure_h r sent = (r, sent)"

definition then_h :: "'a handler \<Rightarrow> ('a \<Rightarrow> 'b handler) \<Rightarrow> 'b handler" where
  "then_h m f sent =
     (case m sent of
        (Inl e, sent') \<Rightarrow> (Inl e, sent')
      | (Inr v, sent') \<Rightarrow> f v sent')"

definition reply_ok :: "runner_reply \<Rightarrow> bool" where
  "reply_ok r \<longleftrightarrow> 200 \<le> rr_status r \<and> rr_status r < 300"

text \<open>An object literal whose \<open>undefined\<close> properties are left out.\<close>

definition obj :: "(string \<times> json option) list \<Rightarrow> json" where
  "obj ps = JObj (concat (map (\<lambda>(k, v). case v of Some x \<Rightarrow> [(k, x)] | None \<Rightarrow> []) ps))"

text \<open>The entries of a value spread into a literal: an array's or a string's are indexed.\<close>

definition entries :: "json \<Rightarrow> (string \<times> json) list" where
  "entries v =
     (case v of
        JObj ps \<Rightarrow> ps
      | JArr xs \<Rightarrow> map (\<lambda>(i, x). (show_nat i, x)) (enumerate 0 xs)
      | JStr s \<Rightarrow> map (\<lambda>(i, c). (show_nat i, JStr [c])) (enumerate 0 s)
      | _ \<Rightarrow> [])"

definition set_prop :: "string \<Rightarrow> json \<Rightarrow> (string \<times> json) list \<Rightarrow> (string \<times> json) list" where
  "set_prop k v ps = AList.update k v ps"

text \<open>\<open>v ?? d\<close> and the text a value has in \<open>Array.prototype.join\<close>.\<close>

definition nullish_json :: "json option \<Rightarrow> json \<Rightarrow> json" where
  "nullish_json v d = (case v of None \<Rightarrow> d | Some JNull \<Rightarrow> d | Some x \<Rightarrow> x)"

definition join_text :: "json option \<Rightarrow> string" where
  "join_text v = (case v of None \<Rightarrow> [] | Some JNull \<Rightarrow> [] | Some x \<Rightarrow> js_text x)"

text \<open>Reading a property of a value that may be \<open>null\<close>, and an optional array of a reply.\<close>

definition prop_of :: "json \<Rightarrow> string \<Rightarrow> json option res" where
  "prop_of v k = (if v = JNull then Inl TypeError else Inr (get_prop v k))"

definition array_or_empty :: "json option \<Rightarrow> json list res" where
  "array_or_empty v =
     (case v of None \<Rightarrow> Inr [] | Some JNull \<Rightarrow> Inr [] | Some (JArr xs) \<Rightarrow> Inr xs | Some _ \<Rightarrow> Inl TypeError)"

definition not_null :: "json \<Rightarrow> json res" where
  "not_null v = (if v = JNull then Inl TypeError else Inr v)"

subsection \<open>Laws\<close>

lemma then_h_pure [simp]: "then_h (pure_h (Inr v)) f = f v" "then_h (pure_h (Inl e)) f = pure_h (Inl e)"
  by (simp_all add: then_h_def pure_h_def fun_eq_iff)

lemma then_h_assoc: "then_h (then_h m f) g = then_h m (\<lambda>v. then_h (f v) g)"
  by (auto simp: then_h_def fun_eq_iff split: prod.splits sum.splits)

lemma get_prop_obj [simp]:
  "get_prop (obj []) k = None"
  "get_prop (obj ((k', v) # ps)) k =
     (if k = k' \<and> v \<noteq> None then v else get_prop (obj ps) k)"
  by (auto simp: get_prop_def obj_def split: option.splits)

text \<open>
  What a handler sends: it only adds requests, and every one of them satisfies \<open>P\<close>, whatever the
  runner replies.
\<close>

definition sends_only :: "(runner_request \<Rightarrow> bool) \<Rightarrow> 'a handler \<Rightarrow> bool" where
  "sends_only P m \<longleftrightarrow> (\<forall>sent. \<exists>new. snd (m sent) = sent @ new \<and> list_all P new)"

lemma sends_only_pure [simp, intro]: "sends_only P (pure_h r)"
  by (simp add: sends_only_def pure_h_def)

lemma sends_only_send [intro]: "P rq \<Longrightarrow> sends_only P (send runner rq)"
  by (simp add: sends_only_def send_def)

lemma sends_only_then [intro]:
  assumes "sends_only P m" "\<And>v. sends_only P (f v)"
  shows "sends_only P (then_h m f)"
  unfolding sends_only_def
proof
  fix sent
  obtain r mid where m: "m sent = (r, mid)" by fastforce
  obtain a where a: "mid = sent @ a" "list_all P a" using assms(1) m by (metis sends_only_def snd_conv)
  show "\<exists>new. snd (then_h m f sent) = sent @ new \<and> list_all P new"
  proof (cases r)
    case (Inl e)
    then show ?thesis using m a by (simp add: then_h_def)
  next
    case (Inr v)
    obtain b where "snd (f v mid) = mid @ b" "list_all P b" using assms(2) by (metis sends_only_def)
    then show ?thesis using m a Inr by (intro exI [of _ "a @ b"]) (simp add: then_h_def)
  qed
qed

lemma sends_only_if [intro]: "sends_only P a \<Longrightarrow> sends_only P b \<Longrightarrow> sends_only P (if c then a else b)"
  by simp

lemma sends_only_mono: "sends_only P m \<Longrightarrow> (\<And>r. P r \<Longrightarrow> Q r) \<Longrightarrow> sends_only Q m"
  unfolding sends_only_def by (metis (mono_tags, lifting) list.pred_mono_strong)

end
