(* ===== verification/Agent_Service.thy ===== *)
theory Agent_Service
  imports Agent_Access Runner_Requests
begin

text \<open>
  What agents can do: \<^verbatim>\<open>src/ui-v2/src/modules/agent/server/service.ts\<close> and the agent routes for
  projects, capabilities, workflows, their runs and revisions under
  \<^verbatim>\<open>src/ui-v2/src/app/api/v1/agent\<close>. Bundles, pulled rows and replies are JSON values and are read
  property by property, as the code does; reading a property of \<open>undefined\<close> or \<open>null\<close> is a
  \<open>TypeError\<close>. \<open>enc\<close> is \<open>encodeURIComponent\<close>.
\<close>

section \<open>Operations\<close>

definition stableId :: "agent_host \<Rightarrow> string \<Rightarrow> string list \<Rightarrow> string" where
  "stableId h pfx parts =
     pfx @ ''-'' @ take 32 (hex_of_bytes (ah_sha256 h (join_with [CHR 0x00] parts)))"

definition post :: "string \<Rightarrow> json option \<Rightarrow> runner_request" where
  "post path body = \<lparr>rq_method = ''POST'', rq_path = path, rq_query = [], rq_body = body\<rparr>"

definition get :: "string \<Rightarrow> (string \<times> string) list \<Rightarrow> runner_request" where
  "get path query = \<lparr>rq_method = ''GET'', rq_path = path, rq_query = query, rq_body = None\<rparr>"

definition validateBundle :: "runner \<Rightarrow> json option \<Rightarrow> runner_reply handler" where
  "validateBundle runner bdl = send runner (post ''/api/v1/workflow-bundles/validate'' bdl)"

definition getCapabilities :: "runner \<Rightarrow> runner_reply handler" where
  "getCapabilities runner = send runner (get ''/api/v1/workflow-bundles/capabilities'' [])"

text \<open>\<open>v.k\<close> where \<open>v\<close> may be missing.\<close>

definition deep_prop :: "json option \<Rightarrow> string \<Rightarrow> json option res" where
  "deep_prop v k = (case v of None \<Rightarrow> Inl TypeError | Some x \<Rightarrow> prop_of x k)"

definition scenarios_of :: "json \<Rightarrow> json list res" where
  "scenarios_of bdl =
     bind_res (prop_of bdl ''scenarios'') (\<lambda>v. case v of Some (JArr xs) \<Rightarrow> Inr xs | _ \<Rightarrow> Inl TypeError)"

definition with_id :: "string \<Rightarrow> json \<Rightarrow> json" where
  "with_id i scenario = JObj (set_prop ''id'' (JStr i) (entries scenario))"

definition agent_client :: "agent_identity \<Rightarrow> string" where
  "agent_client identity = ''agent:'' @ ai_tokenId identity"

definition owned :: "agent_identity \<Rightarrow> string \<Rightarrow> (string \<times> json option) list" where
  "owned identity now = [(''version'', Some (JNum 1)), (''created_at'', Some (JStr now)), (''updated_at'', Some (JStr now)),
     (''user_id'', Some (JStr (ai_userId identity))), (''client_id'', Some (JStr (agent_client identity))),
     (''is_deleted'', Some (JBool False))]"

definition insert_change :: "string \<Rightarrow> json option \<Rightarrow> string \<Rightarrow> json \<Rightarrow> json" where
  "insert_change entity_type entity_id now data =
     obj [(''entity_type'', Some (JStr entity_type)), (''entity_id'', entity_id), (''change_type'', Some (JStr ''insert'')),
          (''client_time'', Some (JStr now)), (''client_version'', Some (JNum 0)), (''data'', Some data)]"

definition workflow_change :: "agent_identity \<Rightarrow> string \<Rightarrow> string \<Rightarrow> json \<Rightarrow> json \<Rightarrow> json" where
  "workflow_change identity now workflowId bdl workflow =
     insert_change ''workflow'' (Some (JStr workflowId)) now
       (obj ([(''id'', Some (JStr workflowId)), (''project_id'', Some (JStr (ai_projectId identity))),
              (''name'', get_prop workflow ''name''),
              (''description'', Some (nullish_json (get_prop workflow ''description'') (JStr []))),
              (''nodes_config'', get_prop workflow ''nodes''), (''edges_config'', get_prop workflow ''edges''),
              (''metadata'', Some (obj [(''importedBy'', Some (JStr ''agent'')),
                 (''bundleSchemaVersion'', get_prop bdl ''schemaVersion'')]))] @ owned identity now))"

definition scenario_change :: "agent_identity \<Rightarrow> string \<Rightarrow> string \<Rightarrow> json \<Rightarrow> json" where
  "scenario_change identity now workflowId scenario =
     insert_change ''scenario'' (get_prop scenario ''id'') now
       (obj ([(''id'', get_prop scenario ''id''), (''project_id'', Some (JStr (ai_projectId identity))),
              (''workflow_id'', Some (JStr workflowId)), (''name'', get_prop scenario ''name''),
              (''description'', Some (nullish_json (get_prop scenario ''description'') (JStr []))),
              (''tests_config'', get_prop scenario ''tests''), (''test_order'', get_prop scenario ''testOrder''),
              (''metadata'', Some (obj [(''importedBy'', Some (JStr ''agent''))]))] @ owned identity now))"

record imported =
  im_reply :: runner_reply
  im_workflowId :: string
  im_scenarios :: "json list"

definition imported_scenarios :: "agent_host \<Rightarrow> string \<Rightarrow> json list \<Rightarrow> json list" where
  "imported_scenarios h workflowId xs =
     map (\<lambda>(i, s). with_id (stableId h ''scenario'' [workflowId, show_nat i]) s) (enumerate 0 xs)"

definition importBundle ::
  "agent_host \<Rightarrow> runner \<Rightarrow> string \<Rightarrow> agent_identity \<Rightarrow> json \<Rightarrow> string \<Rightarrow> imported handler" where
  "importBundle h runner now identity bdl idempotencyKey =
     then_h (pure_h (bind_res (scenarios_of bdl) (\<lambda>xs.
       bind_res (bind_res (prop_of bdl ''workflow'') (\<lambda>w. case w of None \<Rightarrow> Inl TypeError | Some v \<Rightarrow> not_null v))
         (\<lambda>w. Inr (xs, w))))) (\<lambda>(xs, w).
     let workflowId = stableId h ''wf'' [ai_projectId identity, idempotencyKey];
         scenarios = imported_scenarios h workflowId xs
     in then_h (send runner (post ''/api/v1/sync/batch'' (Some (obj
          [(''client_id'', Some (JStr (agent_client identity))), (''user_id'', Some (JStr (ai_userId identity))),
           (''project_id'', Some (JStr (ai_projectId identity))), (''timestamp'', Some (JStr now)),
           (''changes'', Some (JArr (workflow_change identity now workflowId bdl w #
              map (scenario_change identity now workflowId) scenarios)))])))) (\<lambda>reply.
        pure_h (Inr \<lparr>im_reply = reply, im_workflowId = workflowId, im_scenarios = scenarios\<rparr>)))"

text \<open>One scenario of a run request, and the request.\<close>

definition run_scenario ::
  "agent_host \<Rightarrow> agent_identity \<Rightarrow> string \<Rightarrow> json option \<Rightarrow> json option \<Rightarrow> json \<Rightarrow> json" where
  "run_scenario h identity workflowRunId tests testOrder scenario =
     obj [(''id'', get_prop scenario ''id''),
          (''scenarioRunId'', Some (JStr (stableId h ''scenario-run'' [workflowRunId, join_text (get_prop scenario ''id'')]))),
          (''projectId'', Some (JStr (ai_projectId identity))), (''name'', get_prop scenario ''name''),
          (''description'', Some (nullish_json (get_prop scenario ''description'') (JStr []))),
          (''tests'', tests), (''testOrder'', testOrder),
          (''user_id'', Some (JStr (ai_userId identity))), (''client_id'', Some (JStr (agent_client identity)))]"

definition run_body ::
  "agent_identity \<Rightarrow> string \<Rightarrow> string \<Rightarrow> json option \<Rightarrow> json option \<Rightarrow> json option \<Rightarrow> json list \<Rightarrow> json" where
  "run_body identity workflowRunId workflowId name nodes edges scenarios =
     obj [(''workflowRunId'', Some (JStr workflowRunId)), (''projectId'', Some (JStr (ai_projectId identity))),
          (''workflowId'', Some (JStr workflowId)), (''workflowName'', name), (''nodes'', nodes), (''edges'', edges),
          (''scenarios'', Some (JArr scenarios)), (''userId'', Some (JStr (ai_userId identity))),
          (''clientId'', Some (JStr (agent_client identity))),
          (''executionOptions'', Some (obj [(''continueOnFailure'', Some (JBool True))]))]"

text \<open>The positions of the scenarios that the names select.\<close>

definition scenario_index :: "json list \<Rightarrow> string \<Rightarrow> nat res" where
  "scenario_index xs name =
     (case filter (\<lambda>(i, s). get_prop s ''name'' = Some (JStr name)) (enumerate 0 xs) of
        [] \<Rightarrow> Inl (Err (''Unknown scenario name: '' @ name))
      | [(i, s)] \<Rightarrow> Inr i
      | _ \<Rightarrow> Inl (Err (''Scenario name is ambiguous: '' @ name)))"

definition select_scenarios :: "json list \<Rightarrow> string list option \<Rightarrow> nat list res" where
  "select_scenarios xs scenarioNames =
     (case scenarioNames of
        None \<Rightarrow> Inr [0..<length xs]
      | Some names \<Rightarrow>
          if names = [] \<or> length (set_of names) \<noteq> length names
          then Inl (Err ''scenarioNames must contain at least one unique scenario name.'')
          else map_res (scenario_index xs) names)"

record bundle_run =
  br_reply :: runner_reply
  br_workflowId :: string
  br_workflowRunId :: string

definition runBundle ::
  "agent_host \<Rightarrow> runner \<Rightarrow> string \<Rightarrow> agent_identity \<Rightarrow> json \<Rightarrow> string \<Rightarrow> string list option \<Rightarrow> bundle_run handler" where
  "runBundle h runner now identity bdl idempotencyKey scenarioNames =
     then_h (importBundle h runner now identity bdl idempotencyKey) (\<lambda>im.
       if \<not> reply_ok (im_reply im)
       then pure_h (Inr \<lparr>br_reply = im_reply im, br_workflowId = im_workflowId im, br_workflowRunId = []\<rparr>)
       else let workflowRunId = stableId h ''run'' [ai_projectId identity, idempotencyKey] in
         then_h (pure_h (bind_res (scenarios_of bdl) (\<lambda>xs. select_scenarios xs scenarioNames))) (\<lambda>indexes.
         then_h (pure_h (bind_res (prop_of bdl ''workflow'')
                   (\<lambda>w. case w of None \<Rightarrow> Inl TypeError | Some v \<Rightarrow> not_null v))) (\<lambda>w.
         then_h (send runner (post ''/api/v1/workflow-runs'' (Some
           (run_body identity workflowRunId (im_workflowId im) (get_prop w ''name'') (get_prop w ''nodes'')
              (get_prop w ''edges'')
              (map (\<lambda>i. let s = im_scenarios im ! i
                         in run_scenario h identity workflowRunId (get_prop s ''tests'') (get_prop s ''testOrder'') s)
                 indexes))))) (\<lambda>reply.
         pure_h (Inr \<lparr>br_reply = reply, br_workflowId = im_workflowId im, br_workflowRunId = workflowRunId\<rparr>)))))"

definition pullWorkspace :: "(string \<Rightarrow> string) \<Rightarrow> runner \<Rightarrow> agent_identity \<Rightarrow> json handler" where
  "pullWorkspace enc runner identity =
     then_h (send runner (get (''/api/v1/sync/pull/'' @ enc (''agent-read:'' @ ai_tokenId identity))
         [(''userId'', ai_userId identity), (''projectId'', ai_projectId identity)])) (\<lambda>reply.
       if \<not> reply_ok reply
       then pure_h (Inl (Err (''Unable to read workflows ('' @ show_nat (rr_status reply) @ '').'')))
       else pure_h (case rr_json reply of Some v \<Rightarrow> Inr v | None \<Rightarrow> Inl (Err ''SyntaxError'')))"

definition live :: "json \<Rightarrow> bool" where
  "live row \<longleftrightarrow> \<not> truthy_json (get_prop row ''is_deleted'')"

definition in_project :: "agent_identity \<Rightarrow> json \<Rightarrow> bool" where
  "in_project identity row \<longleftrightarrow> get_prop row ''project_id'' = Some (JStr (ai_projectId identity))"

definition rows :: "json \<Rightarrow> string \<Rightarrow> json list res" where
  "rows data key = bind_res (bind_res (prop_of data key) array_or_empty) (map_res not_null)"

definition listWorkflows :: "(string \<Rightarrow> string) \<Rightarrow> runner \<Rightarrow> agent_identity \<Rightarrow> json list handler" where
  "listWorkflows enc runner identity =
     then_h (pullWorkspace enc runner identity) (\<lambda>data.
     pure_h (bind_res (rows data ''scenarios'') (\<lambda>ss.
             bind_res (rows data ''workflows'') (\<lambda>ws.
       let scenarios = filter live ss
       in Inr (map (\<lambda>w. obj [(''id'', get_prop w ''id''), (''name'', get_prop w ''name''),
             (''description'', Some (nullish_json (get_prop w ''description'') (JStr []))),
             (''scenarioCount'', Some (JNum (int (length
                (filter (\<lambda>s. get_prop s ''workflow_id'' = get_prop w ''id'') scenarios))))),
             (''updatedAt'', get_prop w ''updated_at'')])
           (filter (\<lambda>w. live w \<and> in_project identity w) ws))))))"

definition existing_scenarios :: "agent_identity \<Rightarrow> string \<Rightarrow> json list \<Rightarrow> json list" where
  "existing_scenarios identity workflowId ss =
     filter (\<lambda>s. get_prop s ''workflow_id'' = Some (JStr workflowId) \<and> in_project identity s \<and> live s) ss"

definition getExistingWorkflow ::
  "(string \<Rightarrow> string) \<Rightarrow> runner \<Rightarrow> agent_identity \<Rightarrow> string \<Rightarrow> (json \<times> json list) option handler" where
  "getExistingWorkflow enc runner identity workflowId =
     then_h (pullWorkspace enc runner identity) (\<lambda>data.
     pure_h (bind_res (rows data ''workflows'') (\<lambda>ws.
       case find (\<lambda>w. get_prop w ''id'' = Some (JStr workflowId) \<and> in_project identity w \<and> live w) ws of
         None \<Rightarrow> Inr None
       | Some workflow \<Rightarrow>
           bind_res (rows data ''scenarios'') (\<lambda>ss.
             Inr (Some (workflow, existing_scenarios identity workflowId ss))))))"

text \<open>\<open>new Map\<close> keeps the last scenario of an id.\<close>

definition pick_scenario :: "json list \<Rightarrow> string \<Rightarrow> json res" where
  "pick_scenario scenarios i =
     (case find (\<lambda>s. get_prop s ''id'' = Some (JStr i)) (rev scenarios) of
        Some s \<Rightarrow> Inr s
      | None \<Rightarrow> Inl (Err (''Scenario '' @ i @ '' is stale or belongs to another workflow.'')))"

definition chosen_scenarios :: "json list \<Rightarrow> string list option \<Rightarrow> json list res" where
  "chosen_scenarios scenarios scenarioIds =
     bind_res
       (case scenarioIds of
          None \<Rightarrow> Inr scenarios
        | Some ids \<Rightarrow>
            if ids = [] \<or> length (set_of ids) \<noteq> length ids
            then Inl (Err ''scenarioIds must contain at least one unique scenario ID.'')
            else map_res (pick_scenario scenarios) ids)
       (\<lambda>chosen. if chosen = [] then Inl (Err ''Workflow has no scenarios to run.'') else Inr chosen)"

record workflow_run =
  wr_reply :: runner_reply
  wr_workflowRunId :: string
  wr_scenarioIds :: "json option list"

definition runExistingWorkflow ::
  "agent_host \<Rightarrow> (string \<Rightarrow> string) \<Rightarrow> runner \<Rightarrow> agent_identity \<Rightarrow> string \<Rightarrow> string \<Rightarrow> string list option \<Rightarrow>
   workflow_run handler" where
  "runExistingWorkflow h enc runner identity workflowId idempotencyKey scenarioIds =
     then_h (getExistingWorkflow enc runner identity workflowId) (\<lambda>existing.
       case existing of
         None \<Rightarrow> pure_h (Inl (Err ''Workflow not found in this project.''))
       | Some (workflow, all) \<Rightarrow>
           then_h (pure_h (chosen_scenarios all scenarioIds)) (\<lambda>scenarios.
             let workflowRunId = stableId h ''run'' [ai_projectId identity, workflowId, idempotencyKey] in
             then_h (send runner (post ''/api/v1/workflow-runs'' (Some
               (run_body identity workflowRunId workflowId (get_prop workflow ''name'') (get_prop workflow ''nodes_config'')
                  (get_prop workflow ''edges_config'')
                  (map (\<lambda>s. run_scenario h identity workflowRunId (get_prop s ''tests_config'') (get_prop s ''test_order'') s)
                     scenarios))))) (\<lambda>reply.
             pure_h (Inr \<lparr>wr_reply = reply, wr_workflowRunId = workflowRunId,
                          wr_scenarioIds = map (\<lambda>s. get_prop s ''id'') scenarios\<rparr>))))"

definition getRun :: "(string \<Rightarrow> string) \<Rightarrow> runner \<Rightarrow> agent_identity \<Rightarrow> string \<Rightarrow> runner_reply handler" where
  "getRun enc runner identity workflowRunId =
     send runner (get (''/api/v1/workflow-runs/'' @ enc workflowRunId) [(''projectId'', ai_projectId identity)])"

definition listWorkflowRevisions :: "(string \<Rightarrow> string) \<Rightarrow> runner \<Rightarrow> agent_identity \<Rightarrow> string \<Rightarrow> runner_reply handler" where
  "listWorkflowRevisions enc runner identity workflowId =
     send runner (get (''/api/v1/workflows/'' @ enc workflowId @ ''/revisions'') [(''projectId'', ai_projectId identity)])"

definition createWorkflowRevision ::
  "(string \<Rightarrow> string) \<Rightarrow> runner \<Rightarrow> agent_identity \<Rightarrow> string \<Rightarrow> json option \<Rightarrow> runner_reply handler" where
  "createWorkflowRevision enc runner identity workflowId message =
     send runner (post (''/api/v1/workflows/'' @ enc workflowId @ ''/revisions'') (Some (obj
       [(''projectId'', Some (JStr (ai_projectId identity))), (''userId'', Some (JStr (ai_userId identity))),
        (''message'', message)])))"

definition restoreWorkflowRevision ::
  "(string \<Rightarrow> string) \<Rightarrow> runner \<Rightarrow> agent_identity \<Rightarrow> string \<Rightarrow> string \<Rightarrow> int \<Rightarrow> runner_reply handler" where
  "restoreWorkflowRevision enc runner identity workflowId revisionId expectedVersion =
     send runner (post (''/api/v1/workflows/'' @ enc workflowId @ ''/revisions/'' @ enc revisionId @ ''/restore'') (Some (obj
       [(''projectId'', Some (JStr (ai_projectId identity))), (''userId'', Some (JStr (ai_userId identity))),
        (''expectedVersion'', Some (JNum expectedVersion))])))"

definition sensitive_key :: "string \<Rightarrow> bool" where
  "sensitive_key key \<longleftrightarrow>
     list_ex (includes_str (toLowerCase key)) [''password'', ''token'', ''secret'', ''authorization'', ''cookie'']"

fun redactSensitive :: "json \<Rightarrow> json" where
  "redactSensitive (JArr xs) = JArr (map redactSensitive xs)"
| "redactSensitive (JObj ps) =
     JObj (map (\<lambda>p. (fst p, if sensitive_key (fst p) then JStr ''[REDACTED]'' else redactSensitive (snd p))) ps)"
| "redactSensitive v = v"

section \<open>Routes\<close>

definition catch_h :: "'a handler \<Rightarrow> (js_error \<Rightarrow> 'a) \<Rightarrow> 'a handler" where
  "catch_h m f sent = (case m sent of (Inl e, sent') \<Rightarrow> (Inr (f e), sent') | (Inr v, sent') \<Rightarrow> (Inr v, sent'))"

definition json_response :: "nat \<Rightarrow> json \<Rightarrow> http_response" where
  "json_response status body = \<lparr>hr_status = status, hr_body = body\<rparr>"

definition copied :: "(json \<Rightarrow> json) option \<Rightarrow> runner_reply \<Rightarrow> http_response handler" where
  "copied transform reply = pure_h (Inr (copyJSONResponse (rr_status reply) (rr_json reply) transform))"

text \<open>A reply handed on as it is.\<close>

definition passed_on :: "runner_reply \<Rightarrow> http_response handler" where
  "passed_on reply = pure_h (Inr (json_response (rr_status reply) (nullish (rr_json reply) JNull)))"

type_synonym agent_route = "agent_state \<times> runner_request list \<Rightarrow> http_response res \<times> agent_state \<times> runner_request list"

definition role_name :: "project_role \<Rightarrow> string" where
  "role_name r = (case r of Owner \<Rightarrow> ''owner'' | Editor \<Rightarrow> ''editor'' | Runner \<Rightarrow> ''runner'')"

definition action_name :: "project_action \<Rightarrow> string" where
  "action_name a = (case a of View \<Rightarrow> ''view'' | Edit \<Rightarrow> ''edit'' | Run \<Rightarrow> ''run'' | Manage \<Rightarrow> ''manage'')"

definition membership_json :: "membership \<Rightarrow> json" where
  "membership_json m =
     (let p = ms_project m in JObj
       [(''id'', JStr (pj_id p)), (''name'', JStr (pj_name p)),
        (''kind'', JStr (case pj_kind p of Personal \<Rightarrow> ''personal'' | Team \<Rightarrow> ''team'')),
        (''createdBy'', JStr (pj_createdBy p)), (''createdAt'', JStr (pj_createdAt p)), (''updatedAt'', JStr (pj_updatedAt p)),
        (''projectRole'', JStr (role_name (ms_projectRole m))),
        (''allowedActions'', JArr (map (\<lambda>a. JStr (action_name a)) (ms_allowedActions m)))])"

definition projects_GET :: "agent_host \<Rightarrow> agent_env \<Rightarrow> int \<Rightarrow> headers \<Rightarrow> agent_route" where
  "projects_GET h env now headers = withAgent h env now headers [Read_Scope] (\<lambda>identity.
     pure_h (Inr (json_response 200 (JObj [(''projects'', JArr [membership_json (ai_membership identity)])]))))"

definition capabilities_GET :: "agent_host \<Rightarrow> agent_env \<Rightarrow> runner \<Rightarrow> int \<Rightarrow> headers \<Rightarrow> agent_route" where
  "capabilities_GET h env runner now headers = withAgent h env now headers [Read_Scope] (\<lambda>identity.
     then_h (getCapabilities runner) (copied None))"

definition workflows_GET :: "agent_host \<Rightarrow> agent_env \<Rightarrow> (string \<Rightarrow> string) \<Rightarrow> runner \<Rightarrow> int \<Rightarrow> headers \<Rightarrow> agent_route" where
  "workflows_GET h env enc runner now headers = withAgent h env now headers [Read_Scope] (\<lambda>identity.
     then_h (listWorkflows enc runner identity) (\<lambda>ws.
       pure_h (Inr (json_response 200 (JObj [(''workflows'', JArr ws)])))))"

definition validate_POST :: "agent_host \<Rightarrow> agent_env \<Rightarrow> runner \<Rightarrow> int \<Rightarrow> headers \<Rightarrow> json option \<Rightarrow> agent_route" where
  "validate_POST h env runner now headers body = withAgent h env now headers [Read_Scope] (\<lambda>identity.
     let b = nullish body JNull
     in then_h (validateBundle runner (Some (nullish_json (get_prop b ''bundle'') b))) (copied None))"

definition key_required :: http_response where
  "key_required = error_response 400 ''Idempotency-Key must contain 8-200 characters.''"

text \<open>The bundle of the runner's verdict.\<close>

definition validated_bundle :: "runner_reply \<Rightarrow> json res" where
  "validated_bundle reply =
     (case rr_json reply of
        None \<Rightarrow> Inl (Err ''SyntaxError'')
      | Some v \<Rightarrow> bind_res (prop_of v ''bundle'') (\<lambda>b. case b of None \<Rightarrow> Inl TypeError | Some x \<Rightarrow> Inr x))"

definition import_POST ::
  "agent_host \<Rightarrow> agent_env \<Rightarrow> runner \<Rightarrow> int \<Rightarrow> headers \<Rightarrow> json option \<Rightarrow> agent_route" where
  "import_POST h env runner now headers body = withAgent h env now headers [Write_Scope] (\<lambda>identity.
     case requiredIdempotencyKey headers of
       None \<Rightarrow> pure_h (Inr key_required)
     | Some key \<Rightarrow>
         then_h (validateBundle runner (get_prop (nullish body JNull) ''bundle'')) (\<lambda>validated.
           if \<not> reply_ok validated then copied None validated
           else then_h (pure_h (validated_bundle validated)) (\<lambda>bdl.
             then_h (importBundle h runner (ah_iso h now) identity bdl key) (\<lambda>im.
               if \<not> reply_ok (im_reply im) then copied None (im_reply im)
               else pure_h (Inr (json_response 201 (JObj [(''workflowId'', JStr (im_workflowId im)), (''created'', JBool True)])))))))"

definition workflow_GET ::
  "agent_host \<Rightarrow> agent_env \<Rightarrow> (string \<Rightarrow> string) \<Rightarrow> runner \<Rightarrow> int \<Rightarrow> headers \<Rightarrow> string \<Rightarrow> agent_route" where
  "workflow_GET h env enc runner now headers workflowId = withAgent h env now headers [Read_Scope] (\<lambda>identity.
     then_h (getExistingWorkflow enc runner identity workflowId) (\<lambda>result.
       pure_h (Inr (case result of
           Some (workflow, scenarios) \<Rightarrow>
             json_response 200 (redactSensitive (JObj [(''workflow'', workflow), (''scenarios'', JArr scenarios)]))
         | None \<Rightarrow> error_response 404 ''Workflow not found.''))))"

text \<open>An optional array of strings of a request; \<open>None\<close> if it is anything else.\<close>

definition string_list :: "json option \<Rightarrow> string list option option" where
  "string_list v =
     (case v of
        None \<Rightarrow> Some None
      | Some (JArr xs) \<Rightarrow>
          if list_all (\<lambda>x. case x of JStr _ \<Rightarrow> True | _ \<Rightarrow> False) xs then Some (Some (map js_text xs)) else None
      | Some _ \<Rightarrow> None)"

definition invalid_reply :: json where
  "invalid_reply = JObj [(''error'', JStr ''Runner returned an invalid response.'')]"

definition spread_reply :: "runner_reply \<Rightarrow> (string \<times> json) list \<Rightarrow> http_response" where
  "spread_reply reply ps = json_response (rr_status reply)
     (JObj (foldl (\<lambda>m (k, v). set_prop k v m) (entries (nullish (rr_json reply) invalid_reply)) ps))"

definition runs_POST ::
  "agent_host \<Rightarrow> agent_env \<Rightarrow> (string \<Rightarrow> string) \<Rightarrow> runner \<Rightarrow> int \<Rightarrow> headers \<Rightarrow> string \<Rightarrow> json option \<Rightarrow> agent_route" where
  "runs_POST h env enc runner now headers workflowId body0 = withAgent h env now headers [Run_Scope] (\<lambda>identity.
     case requiredIdempotencyKey headers of
       None \<Rightarrow> pure_h (Inr key_required)
     | Some key \<Rightarrow>
         then_h (pure_h (prop_of (nullish body0 (JObj [])) ''scenarioIds'')) (\<lambda>v.
           case string_list v of
             None \<Rightarrow> pure_h (Inr (error_response 400 ''scenarioIds must be an array of strings.''))
           | Some scenarioIds \<Rightarrow>
               catch_h (then_h (runExistingWorkflow h enc runner identity workflowId key scenarioIds) (\<lambda>run.
                   pure_h (Inr (spread_reply (wr_reply run)
                     [(''workflowRunId'', JStr (wr_workflowRunId run)),
                      (''scenarioIds'', JArr (map (\<lambda>i. nullish_json i JNull) (wr_scenarioIds run)))]))))
                 (\<lambda>e. error_response 400 (error_message e))))"

definition run_POST :: "agent_host \<Rightarrow> agent_env \<Rightarrow> runner \<Rightarrow> int \<Rightarrow> headers \<Rightarrow> json option \<Rightarrow> agent_route" where
  "run_POST h env runner now headers body = withAgent h env now headers [Write_Scope, Run_Scope] (\<lambda>identity.
     case requiredIdempotencyKey headers of
       None \<Rightarrow> pure_h (Inr key_required)
     | Some key \<Rightarrow>
         (let b = nullish body JNull in
          case string_list (get_prop b ''scenarioNames'') of
            None \<Rightarrow> pure_h (Inr (error_response 400 ''scenarioNames must be an array of strings.''))
          | Some scenarioNames \<Rightarrow>
              then_h (validateBundle runner (get_prop b ''bundle'')) (\<lambda>validated.
                if \<not> reply_ok validated then copied None validated
                else then_h (pure_h (validated_bundle validated)) (\<lambda>bdl.
                  catch_h (then_h (runBundle h runner (ah_iso h now) identity bdl key scenarioNames) (\<lambda>run.
                      pure_h (Inr (spread_reply (br_reply run)
                        [(''workflowId'', JStr (br_workflowId run)), (''workflowRunId'', JStr (br_workflowRunId run))]))))
                    (\<lambda>e. error_response 400 (error_message e))))))"

definition revisions_GET ::
  "agent_host \<Rightarrow> agent_env \<Rightarrow> (string \<Rightarrow> string) \<Rightarrow> runner \<Rightarrow> int \<Rightarrow> headers \<Rightarrow> string \<Rightarrow> agent_route" where
  "revisions_GET h env enc runner now headers workflowId = withAgent h env now headers [Read_Scope] (\<lambda>identity.
     then_h (listWorkflowRevisions enc runner identity workflowId) passed_on)"

definition revisions_POST ::
  "agent_host \<Rightarrow> agent_env \<Rightarrow> (string \<Rightarrow> string) \<Rightarrow> runner \<Rightarrow> int \<Rightarrow> headers \<Rightarrow> string \<Rightarrow> json option \<Rightarrow> agent_route" where
  "revisions_POST h env enc runner now headers workflowId body = withAgent h env now headers [Write_Scope] (\<lambda>identity.
     then_h (pure_h (prop_of (nullish body (JObj [])) ''message'')) (\<lambda>message.
       then_h (createWorkflowRevision enc runner identity workflowId message) passed_on))"

definition restore_POST ::
  "agent_host \<Rightarrow> agent_env \<Rightarrow> (string \<Rightarrow> string) \<Rightarrow> runner \<Rightarrow> int \<Rightarrow> headers \<Rightarrow> string \<Rightarrow> string \<Rightarrow> json option \<Rightarrow> agent_route" where
  "restore_POST h env enc runner now headers workflowId revisionId body = withAgent h env now headers [Write_Scope] (\<lambda>identity.
     then_h (pure_h (prop_of (nullish body (JObj [])) ''expectedVersion'')) (\<lambda>version.
       case as_number version of
         Some n \<Rightarrow>
           if n < 1 then pure_h (Inr (error_response 400 ''expectedVersion is required.''))
           else then_h (restoreWorkflowRevision enc runner identity workflowId revisionId n) passed_on
       | None \<Rightarrow> pure_h (Inr (error_response 400 ''expectedVersion is required.''))))"

definition run_GET ::
  "agent_host \<Rightarrow> agent_env \<Rightarrow> (string \<Rightarrow> string) \<Rightarrow> runner \<Rightarrow> int \<Rightarrow> headers \<Rightarrow> string \<Rightarrow> agent_route" where
  "run_GET h env enc runner now headers workflowRunId = withAgent h env now headers [Read_Scope] (\<lambda>identity.
     then_h (getRun enc runner identity workflowRunId) (copied None))"

definition diagnostics_GET ::
  "agent_host \<Rightarrow> agent_env \<Rightarrow> (string \<Rightarrow> string) \<Rightarrow> runner \<Rightarrow> int \<Rightarrow> headers \<Rightarrow> string \<Rightarrow> agent_route" where
  "diagnostics_GET h env enc runner now headers workflowRunId = withAgent h env now headers [Read_Scope] (\<lambda>identity.
     then_h (getRun enc runner identity workflowRunId) (copied (Some redactSensitive)))"

end
