(* ===== verification/Agent_Props.thy ===== *)
theory Agent_Props
  imports Agent_Service
begin

text \<open>
  Properties of the agent operations and routes of \<open>Agent_Service\<close>: what redaction hides, that every
  request to the runner stays within the agent's project and rights, which scenarios a run contains,
  and that a repeated import names the same entities.
\<close>

section \<open>Redaction\<close>

text \<open>A position inside a JSON value: a property's name or an array index at each level.\<close>

datatype json_step = Key string | Index nat

fun json_at :: "json \<Rightarrow> json_step list \<Rightarrow> json option" where
  "json_at v [] = Some v"
| "json_at (JObj ps) (Key k # path) = Option.bind (map_of ps k) (\<lambda>v. json_at v path)"
| "json_at (JArr xs) (Index i # path) = (if i < length xs then json_at (xs ! i) path else None)"
| "json_at _ _ = None"

fun sensitive_step :: "json_step \<Rightarrow> bool" where
  "sensitive_step (Key k) = sensitive_key k"
| "sensitive_step (Index i) = False"

lemma map_of_redacted:
  "map_of (map (\<lambda>p. (fst p, if sensitive_key (fst p) then JStr ''[REDACTED]'' else redactSensitive (snd p))) ps) k =
   map_option (\<lambda>v. if sensitive_key k then JStr ''[REDACTED]'' else redactSensitive v) (map_of ps k)"
  by (induction ps) auto

lemma redact_at_open:
  "list_all (\<lambda>s. \<not> sensitive_step s) path \<Longrightarrow> json_at (redactSensitive v) path = map_option redactSensitive (json_at v path)"
proof (induction v path rule: json_at.induct)
  case (2 ps k path)
  then show ?case by (cases "map_of ps k") (simp_all add: map_of_redacted)
qed (auto split: json.splits)

lemma json_at_append: "json_at v (p @ q) = Option.bind (json_at v p) (\<lambda>w. json_at w q)"
proof (induction v p rule: json_at.induct)
  case (2 ps k path)
  then show ?case by (cases "map_of ps k") simp_all
qed auto

lemma redact_at_sensitive:
  assumes "sensitive_key k"
  shows "json_at (redactSensitive v) (Key k # path) =
    (if json_at v [Key k] = None \<or> path \<noteq> [] then None else Some (JStr ''[REDACTED]''))"
proof (cases v)
  case (JObj ps)
  then show ?thesis using assms by (cases "map_of ps k"; cases path rule: list.exhaust) (auto simp: map_of_redacted elim: json_step.exhaust)
qed auto

text \<open>
  C33. What redaction shows: at a position reached without a sensitive property name the value is the
  original one, itself redacted; the value under the first sensitive name is the marker, if there is one
  in the original; nothing below it is shown. Redacting again changes nothing.
\<close>

theorem redactSensitive_correct:
  "redactSensitive (redactSensitive v) = redactSensitive v \<and>
   (list_all (\<lambda>s. \<not> sensitive_step s) path \<longrightarrow>
      json_at (redactSensitive v) path = map_option redactSensitive (json_at v path) \<and>
      (sensitive_key k \<longrightarrow>
        json_at (redactSensitive v) (path @ Key k # below) =
          (if json_at v (path @ [Key k]) = None \<or> below \<noteq> [] then None else Some (JStr ''[REDACTED]''))))"
proof -
  have "redactSensitive (redactSensitive v) = redactSensitive v" by (induction v rule: redactSensitive.induct) auto
  moreover have "json_at (redactSensitive v) (path @ Key k # below) =
      (if json_at v (path @ [Key k]) = None \<or> below \<noteq> [] then None else Some (JStr ''[REDACTED]''))"
    if "list_all (\<lambda>s. \<not> sensitive_step s) path" "sensitive_key k"
    using redact_at_open [OF that(1), of v] redact_at_sensitive [OF that(2)]
    by (cases "json_at v path") (simp_all add: json_at_append)
  ultimately show ?thesis using redact_at_open by blast
qed

theorem redactSensitive_correct_witness:
  "json_at (redactSensitive (JObj [(''nested'', JObj [(''registryToken'', JStr ''t'')])])) [Key ''nested'', Key ''registryToken''] =
   Some (JStr ''[REDACTED]'')"
proof -
  have "\<not> sensitive_key ''nested''" "sensitive_key ''registryToken''" by code_simp+
  then show ?thesis
    using redactSensitive_correct [of "JObj [(''nested'', JObj [(''registryToken'', JStr ''t'')])]" "[Key ''nested'']" "''registryToken''" "[]"]
    by simp
qed

text \<open>
  An environment variable of a service is stored as an object with the properties \<open>id\<close>, \<open>key\<close> and
  \<open>value\<close>; no name of these is sensitive, so the value is shown whatever the variable is called.
\<close>

theorem environment_value_not_redacted:
  "redactSensitive (JObj [(''id'', JStr i), (''key'', JStr name), (''value'', JStr val)]) =
   JObj [(''id'', JStr i), (''key'', JStr name), (''value'', JStr val)]"
proof -
  have "\<not> sensitive_key ''id''" "\<not> sensitive_key ''key''" "\<not> sensitive_key ''value''" by code_simp+
  then show ?thesis by simp
qed

section \<open>Requests stay within the agent's project\<close>

definition bundle_paths :: "string list" where
  "bundle_paths = [''/api/v1/workflow-bundles/validate'', ''/api/v1/workflow-bundles/capabilities'']"

text \<open>
  A request that names the user and the project as its own, in its body or its query, or one of the two
  that concern no project.
\<close>

definition confined :: "string \<Rightarrow> string \<Rightarrow> runner_request \<Rightarrow> bool" where
  "confined u p rq \<longleftrightarrow>
     rq_path rq \<in> set bundle_paths \<or>
     (case rq_body rq of
        Some b \<Rightarrow>
          get_prop b ''projectId'' = Some (JStr p) \<and> get_prop b ''userId'' = Some (JStr u) \<or>
          get_prop b ''project_id'' = Some (JStr p) \<and> get_prop b ''user_id'' = Some (JStr u)
      | None \<Rightarrow> map_of (rq_query rq) ''projectId'' = Some p \<and> map_of (rq_query rq) ''userId'' \<in> {None, Some u})"

abbreviation confined_to :: "agent_identity \<Rightarrow> runner_request \<Rightarrow> bool" where
  "confined_to identity \<equiv> confined (ai_userId identity) (ai_projectId identity)"

lemmas confined_simps = confined_def bundle_paths_def post_def get_def

lemma catch_sends: "sends_only P m \<Longrightarrow> sends_only P (catch_h m f)"
  unfolding sends_only_def catch_h_def by (simp add: case_prod_unfold split: sum.splits)

lemma validate_sends: "sends_only (confined u p) (validateBundle runner b)"
  unfolding validateBundle_def by (rule sends_only_send) (simp add: confined_simps)

lemma capabilities_sends: "sends_only (confined u p) (getCapabilities runner)"
  unfolding getCapabilities_def by (rule sends_only_send) (simp add: confined_simps)

lemma import_sends: "sends_only (confined_to identity) (importBundle h runner now identity bdl key)"
proof -
  have "sends_only (confined_to identity) (send runner (post ''/api/v1/sync/batch'' (Some (obj
      [(''client_id'', a), (''user_id'', Some (JStr (ai_userId identity))), (''project_id'', Some (JStr (ai_projectId identity))),
       (''timestamp'', c), (''changes'', d)]))))" for a c d
    by (rule sends_only_send) (simp add: confined_simps)
  then show ?thesis
    unfolding importBundle_def Let_def by (intro sends_only_then sends_only_pure) (auto split: prod.splits intro!: sends_only_then)
qed

lemma run_request_sends:
  "sends_only (confined_to identity) (send runner (post path (Some (run_body identity r w n ns es ss))))"
  by (rule sends_only_send) (simp add: confined_simps run_body_def)

lemma runBundle_sends: "sends_only (confined_to identity) (runBundle h runner now identity bdl key names)"
  unfolding runBundle_def Let_def
  by (intro sends_only_then import_sends sends_only_if sends_only_pure run_request_sends)

lemma pull_sends: "sends_only (confined_to identity) (pullWorkspace enc runner identity)"
  unfolding pullWorkspace_def
  by (intro sends_only_then sends_only_if sends_only_pure sends_only_send) (simp add: confined_simps)

lemma list_sends: "sends_only (confined_to identity) (listWorkflows enc runner identity)"
  unfolding listWorkflows_def by (intro sends_only_then pull_sends sends_only_pure)

lemma existing_sends: "sends_only (confined_to identity) (getExistingWorkflow enc runner identity w)"
  unfolding getExistingWorkflow_def by (intro sends_only_then pull_sends sends_only_pure)

lemma runExisting_sends: "sends_only (confined_to identity) (runExistingWorkflow h enc runner identity w key ids)"
  unfolding runExistingWorkflow_def Let_def
  by (intro sends_only_then existing_sends) (auto split: option.splits intro!: sends_only_then run_request_sends)

lemma query_sends:
  "sends_only (confined_to identity) (getRun enc runner identity r)"
  "sends_only (confined_to identity) (listWorkflowRevisions enc runner identity w)"
  "sends_only (confined_to identity) (createWorkflowRevision enc runner identity w m)"
  "sends_only (confined_to identity) (restoreWorkflowRevision enc runner identity w v n)"
  unfolding getRun_def listWorkflowRevisions_def createWorkflowRevision_def restoreWorkflowRevision_def
  by (rule sends_only_send; simp add: confined_simps)+

lemmas operation_sends = validate_sends capabilities_sends import_sends runBundle_sends list_sends existing_sends
  runExisting_sends query_sends

text \<open>All agent routes as one dispatcher, and the scopes each asks for.\<close>

datatype agent_operation =
    Get_Projects | Get_Capabilities | Get_Workflows | Post_Validate "json option" | Post_Import "json option"
  | Get_Workflow string | Post_Runs string "json option" | Post_Run "json option" | Get_Revisions string
  | Post_Revision string "json option" | Post_Restore string string "json option" | Get_Run string | Get_Diagnostics string

fun operation_scopes :: "agent_operation \<Rightarrow> agent_scope list" where
  "operation_scopes (Post_Import _) = [Write_Scope]"
| "operation_scopes (Post_Runs _ _) = [Run_Scope]"
| "operation_scopes (Post_Run _) = [Write_Scope, Run_Scope]"
| "operation_scopes (Post_Revision _ _) = [Write_Scope]"
| "operation_scopes (Post_Restore _ _ _) = [Write_Scope]"
| "operation_scopes _ = [Read_Scope]"

fun agent_serve ::
  "agent_host \<Rightarrow> agent_env \<Rightarrow> (string \<Rightarrow> string) \<Rightarrow> runner \<Rightarrow> int \<Rightarrow> headers \<Rightarrow> agent_operation \<Rightarrow> agent_route" where
  "agent_serve h env enc runner now hs Get_Projects = projects_GET h env now hs"
| "agent_serve h env enc runner now hs Get_Capabilities = capabilities_GET h env runner now hs"
| "agent_serve h env enc runner now hs Get_Workflows = workflows_GET h env enc runner now hs"
| "agent_serve h env enc runner now hs (Post_Validate b) = validate_POST h env runner now hs b"
| "agent_serve h env enc runner now hs (Post_Import b) = import_POST h env runner now hs b"
| "agent_serve h env enc runner now hs (Get_Workflow w) = workflow_GET h env enc runner now hs w"
| "agent_serve h env enc runner now hs (Post_Runs w b) = runs_POST h env enc runner now hs w b"
| "agent_serve h env enc runner now hs (Post_Run b) = run_POST h env runner now hs b"
| "agent_serve h env enc runner now hs (Get_Revisions w) = revisions_GET h env enc runner now hs w"
| "agent_serve h env enc runner now hs (Post_Revision w b) = revisions_POST h env enc runner now hs w b"
| "agent_serve h env enc runner now hs (Post_Restore w v b) = restore_POST h env enc runner now hs w v b"
| "agent_serve h env enc runner now hs (Get_Run r) = run_GET h env enc runner now hs r"
| "agent_serve h env enc runner now hs (Get_Diagnostics r) = diagnostics_GET h env enc runner now hs r"

lemma copied_sends: "sends_only P (copied t r)" "sends_only P (passed_on r)"
  by (simp_all add: copied_def passed_on_def)

lemma serve_withAgent:
  "\<exists>handler. agent_serve h env enc runner now hs op = withAgent h env now hs (operation_scopes op) handler \<and>
     (\<forall>identity. sends_only (confined_to identity) (handler identity))"
proof (cases op)
  case Get_Projects
  then show ?thesis by (auto simp: projects_GET_def)
next
  case Get_Capabilities
  then show ?thesis by (auto simp: capabilities_GET_def intro!: operation_sends copied_sends)
next
  case Get_Workflows
  then show ?thesis by (auto simp: workflows_GET_def intro!: exI operation_sends)
next
  case (Post_Validate b)
  then show ?thesis by (auto simp: validate_POST_def intro!: operation_sends copied_sends)
next
  case (Post_Import b)
  then show ?thesis
    by (auto simp: import_POST_def split: option.splits intro!: exI operation_sends copied_sends sends_only_then sends_only_if)
next
  case (Get_Workflow w)
  then show ?thesis by (auto simp: workflow_GET_def intro!: exI operation_sends)
next
  case (Post_Runs w b)
  then show ?thesis
    by (auto simp: runs_POST_def split: option.splits intro!: exI operation_sends catch_sends sends_only_then)
next
  case (Post_Run b)
  then show ?thesis
    by (auto simp: run_POST_def split: option.splits intro!: exI operation_sends copied_sends catch_sends sends_only_then sends_only_if)
next
  case (Get_Revisions w)
  then show ?thesis by (auto simp: revisions_GET_def intro!: operation_sends copied_sends)
next
  case (Post_Revision w b)
  then show ?thesis by (auto simp: revisions_POST_def intro!: exI operation_sends copied_sends)
next
  case (Post_Restore w v b)
  then show ?thesis
    by (auto simp: restore_POST_def split: option.splits intro!: exI operation_sends copied_sends sends_only_then)
next
  case (Get_Run r)
  then show ?thesis by (auto simp: run_GET_def intro!: operation_sends copied_sends)
next
  case (Get_Diagnostics r)
  then show ?thesis by (auto simp: diagnostics_GET_def intro!: operation_sends copied_sends)
qed

lemma withAgent_cases:
  assumes "withAgent h env now hs required handler (st, sent) = (r, st', sent')"
  shows "sent' = sent \<and> ag_db st' = ag_db st \<or>
    (\<exists>identity. authenticateAgentRequest h env now hs required st = (Inr (Some identity), st') \<and> handler identity sent = (r, sent'))"
proof -
  obtain a s2 where a: "authenticateAgentRequest h env now hs required st = (a, s2)" by fastforce
  have db: "ag_db s2 = ag_db st" if "\<And>i. a \<noteq> Inr (Some i)"
  proof -
    obtain x s3 where p: "authenticatePersonalAgentToken h now (bearer_token hs) st = (x, s3)" by fastforce
    have "ag_db s3 = ag_db st" using personal_identity [of h now "bearer_token hs" st _ s3] p
      by (cases x) (auto simp: authenticatePersonalAgentToken_def split: if_splits option.splits)
    then show ?thesis using a p by (auto simp: authenticateAgentRequest_def split: if_splits option.splits)
  qed
  show ?thesis
  proof (cases "\<exists>i. a = Inr (Some i)")
    case True
    then show ?thesis using assms a by (auto simp: withAgent_def split: prod.splits)
  next
    case False
    then show ?thesis using assms a db by (auto simp: withAgent_def split: sum.splits option.splits)
  qed
qed

text \<open>
  C22. Agents stay inside their project: whatever an agent's request contains and whatever the runner
  replies, every request its route sends on names one user and one project as its own, that user is
  active and the user's current role in that project permits the action of every scope the route asks
  for; and the users, projects and memberships are left alone.
\<close>

theorem agent_routes_stay_in_project:
  assumes "agent_serve h env enc runner now hs op (st, sent) = (r, st', sent')" "accounts_ok (ag_db st)"
  shows "ag_db st' = ag_db st \<and>
    (\<exists>new. sent' = sent @ new \<and>
      (new = [] \<or> (\<exists>u p user. getUserById u (ag_db st) = Some user \<and> au_isActive user \<and>
         list_all (\<lambda>s. userHasProjectPermission (ah_localeCompare h) u p (SCOPE_ACTION s) (Some (au_role user)) (ag_db st))
           (operation_scopes op) \<and>
         list_all (confined u p) new)))"
proof -
  obtain handler where handler: "agent_serve h env enc runner now hs op = withAgent h env now hs (operation_scopes op) handler"
    "\<And>identity. sends_only (confined_to identity) (handler identity)"
    using serve_withAgent by metis
  from withAgent_cases [OF assms(1) [unfolded handler(1)]] show ?thesis
  proof
    assume "\<exists>identity. authenticateAgentRequest h env now hs (operation_scopes op) st = (Inr (Some identity), st') \<and>
      handler identity sent = (r, sent')"
    then obtain identity where i: "authenticateAgentRequest h env now hs (operation_scopes op) st = (Inr (Some identity), st')"
      "handler identity sent = (r, sent')" by blast
    obtain new where n: "sent' = sent @ new" "list_all (confined_to identity) new"
      using handler(2) [of identity] i(2) by (metis sends_only_def snd_conv)
    obtain user where "ag_db st' = ag_db st" "getUserById (ai_userId identity) (ag_db st) = Some user" "au_isActive user"
      "list_all (\<lambda>s. userHasProjectPermission (ah_localeCompare h) (ai_userId identity) (ai_projectId identity) (SCOPE_ACTION s)
         (Some (au_role user)) (ag_db st)) (operation_scopes op)"
      using authenticated_agent [OF i(1) assms(2)] by (auto simp: list_all_iff)
    then show ?thesis using n by blast
  qed simp
qed

definition sample_headers :: headers where
  "sample_headers k = (if k = ''authorization'' then Some ''Bearer tt_pat_'' else None)"

definition sample_runner :: runner where
  "sample_runner sent rq = Inr \<lparr>rr_status = 200, rr_json = Some (JObj [])\<rparr>"

theorem agent_routes_stay_in_project_witness:
  "\<exists>r st' rq u p. agent_serve agent_sample_host agent_sample_env (\<lambda>s. s) sample_runner 50 sample_headers (Get_Run ''r'')
     (snd (createAgentToken agent_sample_host 0 ''t'' [] ''n'' ''a'' ''p'' [Read_Scope] 100 sample_agents), []) = (r, st', [rq]) \<and>
     confined u p rq"
proof -
  let ?st = "snd (createAgentToken agent_sample_host 0 ''t'' [] ''n'' ''a'' ''p'' [Read_Scope] 100 sample_agents)"
  let ?r = "agent_serve agent_sample_host agent_sample_env (\<lambda>s. s) sample_runner 50 sample_headers (Get_Run ''r'') (?st, [])"
  have "length (snd (snd ?r)) = 1" by code_simp
  then obtain rq where rq: "snd (snd ?r) = [rq]" by (auto simp: length_Suc_conv)
  have e: "?r = (fst ?r, fst (snd ?r), [rq])" by (simp add: rq [symmetric])
  have "ag_db ?st = two_owner_db" by (simp add: sample_issued) (simp add: sample_agents_def)
  with agent_routes_stay_in_project [OF e] two_owner_accounts_ok obtain u p where "confined u p rq" by auto
  then show ?thesis using e by blast
qed

section \<open>Which scenarios run\<close>

lemma find_rev_member: "find P (rev xs) = Some x \<Longrightarrow> x \<in> set xs \<and> P x"
  using find_member_of [of P "rev xs"] by simp

lemma chosen_correct:
  assumes "chosen_scenarios scenarios ids = Inr chosen"
  shows "chosen \<noteq> [] \<and> set chosen \<subseteq> set scenarios \<and>
    (case ids of None \<Rightarrow> chosen = scenarios
     | Some xs \<Rightarrow> distinct xs \<and> map (\<lambda>s. get_prop s ''id'') chosen = map (\<lambda>i. Some (JStr i)) xs)"
proof (cases ids)
  case None
  then show ?thesis using assms by (auto simp: chosen_scenarios_def split: if_splits)
next
  case (Some xs)
  then have m: "map_res (pick_scenario scenarios) xs = Inr chosen" and n: "chosen \<noteq> []" "distinct xs"
    using assms by (auto simp: chosen_scenarios_def set_of_size_iff split: if_splits)
  from m have "list_all2 (\<lambda>i s. pick_scenario scenarios i = Inr s) xs chosen" by (simp add: map_res_Inr)
  then have "list_all2 (\<lambda>i s. s \<in> set scenarios \<and> get_prop s ''id'' = Some (JStr i)) xs chosen"
    by (rule list_all2_mono) (auto simp: pick_scenario_def split: option.splits dest: find_rev_member)
  then have "set chosen \<subseteq> set scenarios \<and> map (\<lambda>s. get_prop s ''id'') chosen = map (\<lambda>i. Some (JStr i)) xs"
    by (induction rule: list_all2_induct) auto
  then show ?thesis using n Some by simp
qed

lemma then_h_Inr:
  "then_h m f sent = (Inr v, sent') \<longleftrightarrow> (\<exists>x mid. m sent = (Inr x, mid) \<and> f x mid = (Inr v, sent'))"
  by (auto simp: then_h_def split: prod.splits sum.splits)

lemma pure_h_Inr: "pure_h r sent = (Inr v, sent') \<longleftrightarrow> r = Inr v \<and> sent' = sent"
  by (auto simp: pure_h_def)

lemma send_Inr: "send runner rq sent = (Inr v, sent') \<longleftrightarrow> runner sent rq = Inr v \<and> sent' = sent @ [rq]"
  by (auto simp: send_def)

lemmas handler_Inr = then_h_Inr pure_h_Inr send_Inr

lemma existing_Inr:
  assumes "getExistingWorkflow enc runner identity w sent = (Inr (Some (workflow, ss)), sent')"
  shows "\<exists>rq reply data all. sent' = sent @ [rq] \<and> runner sent rq = Inr reply \<and> rr_json reply = Some data \<and>
    rows data ''scenarios'' = Inr all \<and> ss = existing_scenarios identity w all"
proof -
  obtain data mid where pull: "pullWorkspace enc runner identity sent = (Inr data, mid)" "sent' = mid"
    and r: "bind_res (rows data ''workflows'') (\<lambda>ws.
       case find (\<lambda>w'. get_prop w' ''id'' = Some (JStr w) \<and> in_project identity w' \<and> live w') ws of
         None \<Rightarrow> Inr None
       | Some workflow \<Rightarrow> bind_res (rows data ''scenarios'') (\<lambda>ss. Inr (Some (workflow, existing_scenarios identity w ss)))) =
       Inr (Some (workflow, ss))"
    using assms by (auto simp: getExistingWorkflow_def handler_Inr)
  obtain rq reply where "mid = sent @ [rq]" "runner sent rq = Inr reply" "rr_json reply = Some data"
    using pull(1) by (auto simp: pullWorkspace_def handler_Inr split: if_splits option.splits)
  moreover obtain all where "rows data ''scenarios'' = Inr all" "ss = existing_scenarios identity w all"
    using r by (auto split: option.splits)
  ultimately show ?thesis using pull(2) by blast
qed

text \<open>
  Running a stored workflow runs what was asked for: a successful call reads the workspace and
  sends one run, whose scenarios are, in the requested order and without repetition, exactly those
  with the requested ids, or all of the workflow's when none are named. Every one of them is an
  undeleted scenario of that workflow in the agent's project, and there is at least one.
\<close>

theorem run_has_requested_scenarios:
  assumes "runExistingWorkflow h enc runner identity w key ids sent = (Inr run, sent')"
  shows "\<exists>pull reply data all body chosen. sent' = sent @ [pull, post ''/api/v1/workflow-runs'' (Some body)] \<and>
    runner sent pull = Inr reply \<and> rr_json reply = Some data \<and> rows data ''scenarios'' = Inr all \<and> set chosen \<subseteq> set all \<and>
    get_prop body ''scenarios'' = Some (JArr (map (\<lambda>s. run_scenario h identity (wr_workflowRunId run)
      (get_prop s ''tests_config'') (get_prop s ''test_order'') s) chosen)) \<and>
    chosen \<noteq> [] \<and> wr_scenarioIds run = map (\<lambda>s. get_prop s ''id'') chosen \<and>
    list_all (\<lambda>s. in_project identity s \<and> live s \<and> get_prop s ''workflow_id'' = Some (JStr w)) chosen \<and>
    (case ids of
       None \<Rightarrow> chosen = filter (\<lambda>s. get_prop s ''workflow_id'' = Some (JStr w) \<and> in_project identity s \<and> live s) all
     | Some xs \<Rightarrow> distinct xs \<and> wr_scenarioIds run = map (\<lambda>i. Some (JStr i)) xs)"
proof -
  obtain ex mid where e: "getExistingWorkflow enc runner identity w sent = (Inr ex, mid)"
    using assms by (auto simp: runExistingWorkflow_def then_h_Inr)
  then obtain workflow ss where ex: "ex = Some (workflow, ss)"
    using assms by (cases ex) (auto simp: runExistingWorkflow_def handler_Inr)
  obtain pull reply data all where pull: "mid = sent @ [pull]" and data: "runner sent pull = Inr reply" "rr_json reply = Some data"
    "rows data ''scenarios'' = Inr all" and ss: "ss = existing_scenarios identity w all"
    using existing_Inr [OF e [unfolded ex]] by blast
  define rid where "rid = stableId h ''run'' [ai_projectId identity, w, key]"
  obtain chosen where c: "chosen_scenarios ss ids = Inr chosen"
    and sent': "sent' = mid @ [post ''/api/v1/workflow-runs'' (Some (run_body identity rid w (get_prop workflow ''name'')
        (get_prop workflow ''nodes_config'') (get_prop workflow ''edges_config'')
        (map (\<lambda>s. run_scenario h identity rid (get_prop s ''tests_config'') (get_prop s ''test_order'') s) chosen)))]"
    and run: "wr_workflowRunId run = rid" "wr_scenarioIds run = map (\<lambda>s. get_prop s ''id'') chosen"
    using assms e ex by (auto simp: runExistingWorkflow_def handler_Inr rid_def)
  have "list_all (\<lambda>s. in_project identity s \<and> live s \<and> get_prop s ''workflow_id'' = Some (JStr w)) chosen" "set chosen \<subseteq> set all"
    using chosen_correct [OF c] by (auto simp: list_all_iff ss existing_scenarios_def)
  with chosen_correct [OF c] show ?thesis
    unfolding sent' pull run
    by (intro exI [of _ pull] exI [of _ reply] exI [of _ data] exI [of _ all] exI [of _ "run_body _ _ _ _ _ _ _"] exI [of _ chosen] conjI)
      (auto simp: run_body_def data ss existing_scenarios_def split: option.splits)
qed

definition sample_identity :: agent_identity where
  "sample_identity = \<lparr>ai_tokenId = ''t'', ai_userId = ''a'', ai_projectId = ''p'', ai_scopes = [],
     ai_membership = \<lparr>ms_project = \<lparr>pj_id = ''p'', pj_name = [], pj_kind = Team, pj_createdBy = ''a'', pj_createdAt = [], pj_updatedAt = []\<rparr>,
       ms_projectRole = Owner, ms_allowedActions = []\<rparr>\<rparr>"

definition sample_row :: "string \<Rightarrow> json" where
  "sample_row i = JObj [(''id'', JStr i), (''project_id'', JStr ''p''), (''workflow_id'', JStr ''w''), (''name'', JStr i)]"

definition workspace_runner :: runner where
  "workspace_runner sent rq = Inr \<lparr>rr_status = 200, rr_json = Some (JObj
     [(''workflows'', JArr [sample_row ''w'']), (''scenarios'', JArr [sample_row ''s1'', sample_row ''s2''])])\<rparr>"

theorem run_has_requested_scenarios_witness:
  "\<exists>run sent'. runExistingWorkflow agent_sample_host (\<lambda>s. s) workspace_runner sample_identity ''w'' ''key'' (Some [''s2'', ''s1'']) [] =
     (Inr run, sent') \<and> wr_scenarioIds run = [Some (JStr ''s2''), Some (JStr ''s1'')]"
proof -
  let ?r = "runExistingWorkflow agent_sample_host (\<lambda>s. s) workspace_runner sample_identity ''w'' ''key'' (Some [''s2'', ''s1'']) []"
  have "case fst ?r of Inr _ \<Rightarrow> True | _ \<Rightarrow> False" by code_simp
  then obtain run where e: "?r = (Inr run, snd ?r)" by (cases ?r) (auto split: sum.splits)
  with run_has_requested_scenarios [OF e] show ?thesis by auto
qed

section \<open>Repeating a request\<close>

lemma split_join:
  assumes "xs \<noteq> []" "list_all (\<lambda>x. c \<notin> set x) xs"
  shows "split_on c (join_with [c] xs) = xs"
  using assms
proof (induction xs)
  case (Cons x xs)
  then show ?case by (cases xs) (simp_all add: split_on_append)
qed simp

lemma join_inj:
  assumes "xs \<noteq> []" "ys \<noteq> []" "list_all (\<lambda>x. c \<notin> set x) xs" "list_all (\<lambda>x. c \<notin> set x) ys"
  shows "join_with [c] xs = join_with [c] ys \<longleftrightarrow> xs = ys"
  using split_join [OF assms(1,3)] split_join [OF assms(2,4)] by metis

text \<open>The digests a set of id computations takes; distinct inputs are assumed not to collide there.\<close>

definition digest :: "agent_host \<Rightarrow> string list \<Rightarrow> string" where
  "digest h parts = take 32 (hex_of_bytes (ah_sha256 h (join_with [CHR 0x00] parts)))"

lemma stableId_eq: "stableId h pfx ps = stableId h pfx qs \<longleftrightarrow> digest h ps = digest h qs"
  by (simp add: stableId_def digest_def)

lemma imported_ids:
  "map (\<lambda>s. get_prop s ''id'') (imported_scenarios h w xs) = map (\<lambda>i. Some (JStr (stableId h ''scenario'' [w, show_nat i]))) [0..<length xs]"
proof -
  have "get_prop (with_id i s) ''id'' = Some (JStr i)" for i s by (simp add: with_id_def get_prop_def set_prop_def)
  then show ?thesis by (intro nth_equalityI) (simp_all add: imported_scenarios_def nth_enumerate_eq)
qed

text \<open>The entities an import request inserts.\<close>

definition entity_ids :: "json \<Rightarrow> json option list" where
  "entity_ids body = (case get_prop body ''changes'' of Some (JArr cs) \<Rightarrow> map (\<lambda>c. get_prop c ''entity_id'') cs | _ \<Rightarrow> [])"

lemma import_entity_ids:
  assumes "importBundle h runner now identity bdl key sent = (Inr im, sent')" "scenarios_of bdl = Inr xs"
  shows "\<exists>body. sent' = sent @ [post ''/api/v1/sync/batch'' (Some body)] \<and>
    entity_ids body = map (\<lambda>x. Some (JStr x)) (im_workflowId im #
      map (\<lambda>i. stableId h ''scenario'' [im_workflowId im, show_nat i]) [0..<length xs]) \<and>
    im_workflowId im = stableId h ''wf'' [ai_projectId identity, key]"
proof -
  let ?w = "stableId h ''wf'' [ai_projectId identity, key]"
  let ?body = "\<lambda>w. obj
      [(''client_id'', Some (JStr (agent_client identity))), (''user_id'', Some (JStr (ai_userId identity))),
       (''project_id'', Some (JStr (ai_projectId identity))), (''timestamp'', Some (JStr now)),
       (''changes'', Some (JArr (workflow_change identity now ?w bdl w # map (scenario_change identity now ?w) (imported_scenarios h ?w xs))))]"
  obtain w where w: "sent' = sent @ [post ''/api/v1/sync/batch'' (Some (?body w))]" "im_workflowId im = ?w"
    using assms by (auto simp: importBundle_def handler_Inr split: prod.splits)
  have "get_prop (workflow_change identity now ?w bdl w) ''entity_id'' = Some (JStr ?w)"
    "get_prop (scenario_change identity now ?w s) ''entity_id'' = get_prop s ''id''" for s
    by (simp_all add: workflow_change_def scenario_change_def insert_change_def)
  then have e: "entity_ids (?body w) = map (\<lambda>x. Some (JStr x)) (?w # map (\<lambda>i. stableId h ''scenario'' [?w, show_nat i]) [0..<length xs])"
    by (simp add: entity_ids_def comp_def imported_ids)
  show ?thesis unfolding w(2) by (rule exI [of _ "?body w"]) (intro conjI w(1) e refl)
qed

lemma inj_on_pair: "inj_on f {a, b} \<Longrightarrow> f a = f b \<longleftrightarrow> a = b"
  by (auto simp: inj_on_def)

text \<open>
  Repeating an import with its idempotency key names the same entities, whoever repeats it and
  whenever, and every other key or project names others: as long as SHA-256 does not collide on the
  two inputs and neither contains the separator, the two requests insert the same workflow exactly when
  project and key are the same, and then the scenarios of both have the same ids, position by position.
\<close>

theorem import_repeats_entities:
  assumes "importBundle h r1 t1 i1 bdl k1 s1 = (Inr im1, s1')" "importBundle h r2 t2 i2 bdl k2 s2 = (Inr im2, s2')"
    and "list_all (\<lambda>x. CHR 0x00 \<notin> set x) [ai_projectId i1, k1, ai_projectId i2, k2]"
    and "inj_on (\<lambda>x. take 32 (hex_of_bytes (ah_sha256 h x)))
      {join_with [CHR 0x00] [ai_projectId i1, k1], join_with [CHR 0x00] [ai_projectId i2, k2]}"
  shows "\<exists>b1 b2. s1' = s1 @ [post ''/api/v1/sync/batch'' (Some b1)] \<and> s2' = s2 @ [post ''/api/v1/sync/batch'' (Some b2)] \<and>
    (im_workflowId im1 = im_workflowId im2 \<longleftrightarrow> ai_projectId i1 = ai_projectId i2 \<and> k1 = k2) \<and>
    (im_workflowId im1 = im_workflowId im2 \<longrightarrow> entity_ids b1 = entity_ids b2)"
proof -
  obtain xs where xs: "scenarios_of bdl = Inr xs" using assms(1) by (auto simp: importBundle_def handler_Inr)
  from import_entity_ids [OF assms(1) xs] import_entity_ids [OF assms(2) xs] obtain b1 b2 where b:
    "s1' = s1 @ [post ''/api/v1/sync/batch'' (Some b1)]" "s2' = s2 @ [post ''/api/v1/sync/batch'' (Some b2)]"
    "im_workflowId im1 = im_workflowId im2 \<longrightarrow> entity_ids b1 = entity_ids b2"
    and w: "im_workflowId im1 = stableId h ''wf'' [ai_projectId i1, k1]" "im_workflowId im2 = stableId h ''wf'' [ai_projectId i2, k2]"
    by auto
  have j: "join_with [CHR 0x00] [ai_projectId i1, k1] = join_with [CHR 0x00] [ai_projectId i2, k2] \<longleftrightarrow>
      [ai_projectId i1, k1] = [ai_projectId i2, k2]"
    by (rule join_inj) (use assms(3) in simp_all)
  have "im_workflowId im1 = im_workflowId im2 \<longleftrightarrow> ai_projectId i1 = ai_projectId i2 \<and> k1 = k2"
    unfolding w stableId_eq digest_def inj_on_pair [OF assms(4)] j by simp
  then show ?thesis using b by blast
qed

definition sample_bundle :: json where
  "sample_bundle = JObj [(''workflow'', JObj [(''name'', JStr ''w'')]), (''scenarios'', JArr [JObj [(''name'', JStr ''a'')], JObj [(''name'', JStr ''b'')]])]"

theorem import_repeats_entities_witness:
  "\<exists>im1 im2 s1 s2. importBundle agent_sample_host sample_runner ''t1'' sample_identity sample_bundle ''k1'' [] = (Inr im1, s1) \<and>
     importBundle agent_sample_host sample_runner ''t2'' sample_identity sample_bundle ''k1'' [] = (Inr im2, s2) \<and>
     im_workflowId im1 = im_workflowId im2"
proof -
  let ?a = "importBundle agent_sample_host sample_runner ''t1'' sample_identity sample_bundle ''k1'' []"
  let ?b = "importBundle agent_sample_host sample_runner ''t2'' sample_identity sample_bundle ''k1'' []"
  have "(case fst ?a of Inr _ \<Rightarrow> True | _ \<Rightarrow> False) \<and> (case fst ?b of Inr _ \<Rightarrow> True | _ \<Rightarrow> False)" by code_simp
  then obtain x y where e: "?a = (Inr x, snd ?a)" "?b = (Inr y, snd ?b)" by (cases ?a; cases ?b) (auto split: sum.splits)
  have "im_workflowId x = im_workflowId y"
    using import_repeats_entities [OF e] by (auto simp: sample_identity_def)
  then show ?thesis using e by blast
qed

text \<open>
  A run with a selection that names no scenario, or no unique one, is refused with an error, but only
  after the workflow was imported.
\<close>

theorem invalid_selection_after_import:
  assumes "importBundle h runner now identity bdl key sent = (Inr im, mid)" "reply_ok (im_reply im)"
    and "scenarios_of bdl = Inr xs" "select_scenarios xs names = Inl e"
  shows "runBundle h runner now identity bdl key names sent = (Inl e, mid) \<and>
    (\<exists>body. mid = sent @ [post ''/api/v1/sync/batch'' (Some body)])"
  using assms import_entity_ids [OF assms(1,3)]
  by (auto simp: runBundle_def then_h_def pure_h_def)

end
