(* ===== verification/Api_Routes.thy ===== *)
theory Api_Routes
  imports Agent_Service
begin

text \<open>
  The web application's own routes to the runner: \<^verbatim>\<open>src/ui-v2/src/app/api/v1\<close>
  (\<^verbatim>\<open>sync/[...path]\<close>, \<^verbatim>\<open>workflow-runs\<close> and below, \<^verbatim>\<open>workflows/[workflowId]/revisions\<close> and
  below), \<^verbatim>\<open>src/ui-v2/src/app/api/health\<close> and the helpers
  \<^verbatim>\<open>src/ui-v2/src/modules/workflow/server/authorized-request.ts\<close> and \<^verbatim>\<open>runner-proxy.ts\<close>. A
  request's query is its list of parameters in order, its body the JSON value it holds, if any. The
  content type and last event id handed on with a request, and the headers added to the reply, are
  left out.
\<close>

section \<open>Helpers\<close>

record ui_request =
  ur_query :: "(string \<times> string) list"
  ur_body :: "json option"

text \<open>\<open>URLSearchParams.set\<close>: the first parameter of the name gets the value, the others are dropped.\<close>

fun query_set :: "string \<Rightarrow> string \<Rightarrow> (string \<times> string) list \<Rightarrow> (string \<times> string) list" where
  "query_set k v [] = [(k, v)]"
| "query_set k v (p # q) = (if fst p = k then (k, v) # filter (\<lambda>x. fst x \<noteq> k) q else p # query_set k v q)"

definition bind_scenario :: "string \<Rightarrow> string \<Rightarrow> json \<Rightarrow> json" where
  "bind_scenario userId projectId scenario =
     (case scenario of
        JObj _ \<Rightarrow> JObj (set_prop ''projectId'' (JStr projectId) (set_prop ''user_id'' (JStr userId) (entries scenario)))
      | JArr _ \<Rightarrow> JObj (set_prop ''projectId'' (JStr projectId) (set_prop ''user_id'' (JStr userId) (entries scenario)))
      | _ \<Rightarrow> scenario)"

definition map_array :: "string \<Rightarrow> (json \<Rightarrow> json) \<Rightarrow> json \<Rightarrow> (string \<times> json) list \<Rightarrow> (string \<times> json) list" where
  "map_array k f body ps =
     (case get_prop body k of Some (JArr xs) \<Rightarrow> set_prop k (JArr (map f xs)) ps | _ \<Rightarrow> ps)"

definition bindWorkflowRequestToIdentity :: "json \<Rightarrow> string \<Rightarrow> string \<Rightarrow> json" where
  "bindWorkflowRequestToIdentity body userId projectId =
     JObj (map_array ''scenarios'' (bind_scenario userId projectId) body
       (set_prop ''userId'' (JStr userId) (set_prop ''projectId'' (JStr projectId) (entries body))))"

definition bind_change :: "string \<Rightarrow> string \<Rightarrow> json \<Rightarrow> json" where
  "bind_change userId projectId change =
     (let bound = JObj (case get_prop change ''data'' of
            Some (JObj ps) \<Rightarrow>
              set_prop ''data'' (JObj (set_prop ''project_id'' (JStr projectId) (set_prop ''user_id'' (JStr userId) ps)))
                (entries change)
          | _ \<Rightarrow> entries change)
      in case change of JObj _ \<Rightarrow> bound | JArr _ \<Rightarrow> bound | _ \<Rightarrow> change)"

definition bindSyncBatchToIdentity :: "json \<Rightarrow> string \<Rightarrow> string \<Rightarrow> json" where
  "bindSyncBatchToIdentity body userId projectId =
     JObj (map_array ''changes'' (bind_change userId projectId) body
       (set_prop ''project_id'' (JStr projectId) (set_prop ''user_id'' (JStr userId) (entries body))))"

text \<open>The reply is handed on; \<open>meth\<close> is the method of the request.\<close>

definition proxyRunnerRequest ::
  "runner \<Rightarrow> string \<Rightarrow> ui_request \<Rightarrow> string \<Rightarrow> json option \<Rightarrow> http_response handler" where
  "proxyRunnerRequest runner meth request path bodyOverride =
     then_h (send runner \<lparr>rq_method = meth, rq_path = path, rq_query = ur_query request,
         rq_body = (case bodyOverride of Some b \<Rightarrow> Some b
                    | None \<Rightarrow> if meth = ''GET'' \<or> meth = ''HEAD'' then None else ur_body request)\<rparr>) passed_on"

abbreviation refuse :: "nat \<Rightarrow> string \<Rightarrow> http_response handler" where
  "refuse status message \<equiv> pure_h (Inr (error_response status message))"

section \<open>Synchronisation\<close>

definition proxyRequest ::
  "runner \<Rightarrow> string \<Rightarrow> ui_request \<Rightarrow> string list \<Rightarrow> json option \<Rightarrow> (string \<times> string) option \<Rightarrow> http_response handler" where
  "proxyRequest runner meth request path bodyOverride identity =
     (let query = (case identity of
            Some (userId, projectId) \<Rightarrow> query_set ''projectId'' projectId (query_set ''userId'' userId (ur_query request))
          | None \<Rightarrow> ur_query request)
      in then_h (send runner \<lparr>rq_method = meth, rq_path = ''/api/v1/sync/'' @ join_with ''/'' path, rq_query = query,
           rq_body = (case bodyOverride of Some b \<Rightarrow> Some b
                      | None \<Rightarrow> if meth = ''GET'' \<or> meth = ''HEAD'' then None else ur_body request)\<rparr>) passed_on)"

text \<open>The left value is the refusal.\<close>

definition authorizeProject ::
  "(string \<Rightarrow> string \<Rightarrow> int) \<Rightarrow> session \<Rightarrow> database \<Rightarrow> string \<Rightarrow> project_action \<Rightarrow> http_response + string \<times> string" where
  "authorizeProject lc session db projectId action =
     (case session of
        Some (c # cs, role) \<Rightarrow>
          if projectId = [] \<or> \<not> userHasProjectPermission lc (c # cs) projectId action role db
          then Inl (error_response 403 ''Forbidden'') else Inr (c # cs, projectId)
      | _ \<Rightarrow> Inl (error_response 401 ''Unauthorized''))"

definition query_project :: "ui_request \<Rightarrow> string" where
  "query_project request = nullish (map_of (ur_query request) ''projectId'') []"

definition sync_GET ::
  "(string \<Rightarrow> string \<Rightarrow> int) \<Rightarrow> runner \<Rightarrow> session \<Rightarrow> database \<Rightarrow> ui_request \<Rightarrow> string list \<Rightarrow> http_response handler" where
  "sync_GET lc runner session db request path =
     (if path \<noteq> [] \<and> hd path = ''status''
      then (case session of
              Some (c # cs, _) \<Rightarrow> proxyRequest runner ''GET'' request path None None
            | _ \<Rightarrow> refuse 401 ''Unauthorized'')
      else case authorizeProject lc session db (query_project request) View of
        Inl refused \<Rightarrow> pure_h (Inr refused)
      | Inr access \<Rightarrow> proxyRequest runner ''GET'' request path None (Some access))"

definition executionEntities :: "string list" where
  "executionEntities = [''workflow_run'', ''scenario_run'', ''test_result'']"

definition entity_text :: "json \<Rightarrow> string" where
  "entity_text change = (case get_prop change ''entity_type'' of None \<Rightarrow> ''undefined'' | Some v \<Rightarrow> js_text v)"

fun only_execution :: "json list \<Rightarrow> bool res" where
  "only_execution [] = Inr True"
| "only_execution (c # cs) =
     (if c = JNull then Inl TypeError
      else if entity_text c \<in> set executionEntities then only_execution cs else Inr False)"

definition sync_POST ::
  "(string \<Rightarrow> string \<Rightarrow> int) \<Rightarrow> runner \<Rightarrow> session \<Rightarrow> database \<Rightarrow> ui_request \<Rightarrow> string list \<Rightarrow> http_response handler" where
  "sync_POST lc runner session db request path =
     (case ur_body request of
        None \<Rightarrow> refuse 400 ''Invalid sync request''
      | Some body \<Rightarrow>
          then_h (pure_h (prop_of body ''project_id'')) (\<lambda>project.
          then_h (pure_h (only_execution (nullish (as_array (get_prop body ''changes'')) []))) (\<lambda>running.
            case authorizeProject lc session db (nullish (as_string project) []) (if running then Run else Edit) of
              Inl refused \<Rightarrow> pure_h (Inr refused)
            | Inr (userId, projectId) \<Rightarrow>
                proxyRequest runner ''POST'' request path (Some (bindSyncBatchToIdentity body userId projectId))
                  (Some (userId, projectId)))))"

definition sync_DELETE ::
  "(string \<Rightarrow> string \<Rightarrow> int) \<Rightarrow> runner \<Rightarrow> session \<Rightarrow> database \<Rightarrow> ui_request \<Rightarrow> string list \<Rightarrow> http_response handler" where
  "sync_DELETE lc runner session db request path =
     (case authorizeProject lc session db (query_project request) View of
        Inl refused \<Rightarrow> pure_h (Inr refused)
      | Inr access \<Rightarrow> proxyRequest runner ''DELETE'' request path None (Some access))"

section \<open>Runs\<close>

definition workflow_runs_POST ::
  "(string \<Rightarrow> string \<Rightarrow> int) \<Rightarrow> runner \<Rightarrow> session \<Rightarrow> database \<Rightarrow> ui_request \<Rightarrow> http_response handler" where
  "workflow_runs_POST lc runner session db request =
     (case session of
        Some (c # cs, role) \<Rightarrow>
          (case ur_body request of
             None \<Rightarrow> refuse 400 ''Invalid workflow request''
           | Some body \<Rightarrow>
               then_h (pure_h (prop_of body ''projectId'')) (\<lambda>project.
                 let projectId = nullish (as_string project) [] in
                 if projectId = [] \<or> \<not> userHasProjectPermission lc (c # cs) projectId Run role db
                 then refuse 403 ''Forbidden''
                 else proxyRunnerRequest runner ''POST'' request ''/api/v1/workflow-runs''
                        (Some (bindWorkflowRequestToIdentity body (c # cs) projectId))))
      | _ \<Rightarrow> refuse 401 ''Unauthorized'')"

text \<open>The four routes below a run differ in the permission, the method and the rest of the path.\<close>

definition run_route ::
  "project_action \<Rightarrow> string \<Rightarrow> string \<Rightarrow> (string \<Rightarrow> string) \<Rightarrow> (string \<Rightarrow> string \<Rightarrow> int) \<Rightarrow> runner \<Rightarrow> session \<Rightarrow> database \<Rightarrow>
   ui_request \<Rightarrow> string \<Rightarrow> http_response handler" where
  "run_route action meth below enc lc runner session db request workflowRunId =
     (case authorizeProject lc session db (query_project request) action of
        Inl refused \<Rightarrow> pure_h (Inr refused)
      | Inr _ \<Rightarrow> proxyRunnerRequest runner meth request (''/api/v1/workflow-runs/'' @ enc workflowRunId @ below) None)"

definition workflow_run_GET where "workflow_run_GET = run_route View ''GET'' []"

definition workflow_run_DELETE where "workflow_run_DELETE = run_route Run ''DELETE'' []"

definition workflow_run_events_GET where "workflow_run_events_GET = run_route View ''GET'' ''/events''"

definition workflow_run_logs_GET where "workflow_run_logs_GET = run_route View ''GET'' ''/logs''"

section \<open>Revisions\<close>

definition ui_revisions_GET ::
  "(string \<Rightarrow> string) \<Rightarrow> (string \<Rightarrow> string \<Rightarrow> int) \<Rightarrow> runner \<Rightarrow> session \<Rightarrow> database \<Rightarrow> ui_request \<Rightarrow> string \<Rightarrow> http_response handler" where
  "ui_revisions_GET enc lc runner session db request workflowId =
     (case authorizeProject lc session db (query_project request) View of
        Inl refused \<Rightarrow> pure_h (Inr refused)
      | Inr _ \<Rightarrow> proxyRunnerRequest runner ''GET'' request (''/api/v1/workflows/'' @ enc workflowId @ ''/revisions'') None)"

definition ui_revisions_POST ::
  "(string \<Rightarrow> string) \<Rightarrow> (string \<Rightarrow> string \<Rightarrow> int) \<Rightarrow> runner \<Rightarrow> session \<Rightarrow> database \<Rightarrow> ui_request \<Rightarrow> string \<Rightarrow> http_response handler" where
  "ui_revisions_POST enc lc runner session db request workflowId =
     (case authorizeProject lc session db (query_project request) Edit of
        Inl refused \<Rightarrow> pure_h (Inr refused)
      | Inr (userId, projectId) \<Rightarrow>
          then_h (pure_h (prop_of (nullish (ur_body request) (JObj [])) ''message'')) (\<lambda>message.
            proxyRunnerRequest runner ''POST'' request (''/api/v1/workflows/'' @ enc workflowId @ ''/revisions'')
              (Some (obj [(''projectId'', Some (JStr projectId)), (''userId'', Some (JStr userId)), (''message'', message)]))))"

text \<open>A project id that is not text is looked up as the text the database driver sends for it.\<close>

definition ui_restore_POST ::
  "(json \<Rightarrow> string) \<Rightarrow> (string \<Rightarrow> string) \<Rightarrow> (string \<Rightarrow> string \<Rightarrow> int) \<Rightarrow> runner \<Rightarrow> session \<Rightarrow> database \<Rightarrow> ui_request \<Rightarrow>
   string \<Rightarrow> string \<Rightarrow> http_response handler" where
  "ui_restore_POST param enc lc runner session db request workflowId revisionId =
     (case session of
        Some (c # cs, role) \<Rightarrow>
          (case ur_body request of
             None \<Rightarrow> refuse 400 ''Invalid request''
           | Some body \<Rightarrow>
               then_h (pure_h (prop_of body ''projectId'')) (\<lambda>project.
                 if \<not> truthy_json project \<or> \<not> userHasProjectPermission lc (c # cs) (param (the project)) Edit role db
                 then refuse 403 ''Forbidden''
                 else proxyRunnerRequest runner ''POST'' request
                        (''/api/v1/workflows/'' @ enc workflowId @ ''/revisions/'' @ enc revisionId @ ''/restore'')
                        (Some (obj [(''projectId'', project), (''expectedVersion'', get_prop body ''expectedVersion''),
                           (''userId'', Some (JStr (c # cs)))]))))
      | _ \<Rightarrow> refuse 401 ''Unauthorized'')"

section \<open>Health\<close>

definition health_GET :: "string \<Rightarrow> bool \<Rightarrow> runner_reply res \<Rightarrow> http_response" where
  "health_GET now databaseReady runnerReply =
     (let runnerReady = (case runnerReply of Inr r \<Rightarrow> reply_ok r | Inl _ \<Rightarrow> False);
          failed = (if databaseReady then [] else [''database'']) @ (if runnerReady then [] else [''runner''])
      in json_response (if failed = [] then 200 else 503)
           (JObj [(''status'', JStr (if failed = [] then ''ok'' else ''unhealthy'')),
              (''dependencies'', JObj
                 [(''database'', JStr (if ''database'' \<in> set failed then ''unavailable'' else ''ready'')),
                  (''runner'', JStr (if ''runner'' \<in> set failed then ''unavailable'' else ''ready''))]),
              (''timestamp'', JStr now)]))"

section \<open>Identity is bound\<close>

lemma map_of_set_prop [simp]: "map_of (set_prop k v ps) j = (if j = k then Some v else map_of ps j)"
  by (simp add: set_prop_def update_conv')

lemma map_of_map_array [simp]:
  "map_of (map_array k f body ps) j =
     (if j = k \<and> as_array (get_prop body k) \<noteq> None then Some (JArr (map f (the (as_array (get_prop body k))))) else map_of ps j)"
  by (auto simp: map_array_def as_array_def split: option.splits json.splits)

lemma set_prop_idle: "map_of ps k = Some v \<Longrightarrow> set_prop k v ps = ps"
  by (simp add: set_prop_def update_triv)

lemma map_array_idle:
  "(\<And>x xs. get_prop body k = Some (JArr xs) \<Longrightarrow> x \<in> set xs \<Longrightarrow> f x = x) \<Longrightarrow> map_of ps k = get_prop body k \<Longrightarrow>
   map_array k f body ps = ps"
  by (auto simp: map_array_def map_idI set_prop_idle split: option.splits json.splits)

definition is_array :: "json \<Rightarrow> bool" where
  "is_array v \<longleftrightarrow> as_array (Some v) \<noteq> None"

text \<open>A change whose data, if it is an object, got a new owner; nothing else differs.\<close>

definition same_change :: "string \<Rightarrow> string \<Rightarrow> json \<Rightarrow> json \<Rightarrow> bool" where
  "same_change u p old new \<longleftrightarrow>
     (\<forall>k. k \<noteq> ''data'' \<longrightarrow> get_prop new k = get_prop old k) \<and>
     (case get_prop old ''data'' of
        Some (JObj d) \<Rightarrow>
          (\<exists>d'. get_prop new ''data'' = Some (JObj d') \<and> map_of d' = (map_of d)(''user_id'' \<mapsto> JStr u, ''project_id'' \<mapsto> JStr p))
      | v \<Rightarrow> get_prop new ''data'' = v)"

lemma bind_change_same: "\<not> is_array c \<Longrightarrow> same_change u p c (bind_change u p c)"
  by (cases c) (auto simp: same_change_def bind_change_def is_array_def as_array_def entries_def fun_eq_iff get_prop_def
      split: option.splits json.splits)

lemma bind_change_twice: "\<not> is_array c \<Longrightarrow> bind_change u p (bind_change u p c) = bind_change u p c"
  by (cases c) (auto simp: bind_change_def is_array_def as_array_def entries_def set_prop_idle split: option.splits json.splits)

text \<open>
  The sender cannot speak for anyone else: in a batch bound to a user and a project, the envelope
  and the data of every change carry that user and project, and everything else is as it was sent: the
  other properties of the envelope, of the changes and of their data, and the number and order of the
  changes. Binding again changes nothing.
\<close>

theorem bound_batch_has_one_owner:
  assumes "bound = bindSyncBatchToIdentity (JObj ps) u p"
    and "map_of ps ''changes'' = Some (JArr changes)" "list_all (\<lambda>c. \<not> is_array c) changes"
  shows "get_prop bound ''user_id'' = Some (JStr u) \<and> get_prop bound ''project_id'' = Some (JStr p) \<and>
    (k \<notin> {''user_id'', ''project_id'', ''changes''} \<longrightarrow> get_prop bound k = map_of ps k) \<and>
    (\<exists>cs. get_prop bound ''changes'' = Some (JArr cs) \<and> list_all2 (same_change u p) changes cs) \<and>
    bindSyncBatchToIdentity bound u p = bound"
proof -
  have same: "list_all2 (same_change u p) changes (map (bind_change u p) changes)"
    using assms(3) bind_change_same by (induction changes) auto
  have b: "bound = JObj (set_prop ''changes'' (JArr (map (bind_change u p) changes))
      (set_prop ''project_id'' (JStr p) (set_prop ''user_id'' (JStr u) ps)))"
    using assms(2) by (simp add: assms(1) bindSyncBatchToIdentity_def map_array_def entries_def)
  have "bindSyncBatchToIdentity bound u p = bound"
    using assms(3) bind_change_twice
    by (simp add: b bindSyncBatchToIdentity_def map_array_def entries_def set_prop_idle list_all_iff)
  then show ?thesis using same by (auto simp: b)
qed

theorem bound_batch_has_one_owner_witness:
  "get_prop (bindSyncBatchToIdentity (JObj [(''project_id'', JStr ''attacker''), (''changes'', JArr [JObj [(''data'', JObj [(''user_id'', JStr ''x'')])]])])
     ''u'' ''p'') ''project_id'' = Some (JStr ''p'')"
  using bound_batch_has_one_owner [OF refl, of "[(''project_id'', JStr ''attacker''), (''changes'', JArr [JObj [(''data'', JObj [(''user_id'', JStr ''x'')])]])]"]
  by (simp add: is_array_def as_array_def)

section \<open>Only authorised requests reach the runner\<close>

text \<open>A request on behalf of a user and a project: the body of a POST names both, the query of
  another method the project. A project may be named by a value the database reads as its id.\<close>

definition on_behalf :: "(json \<Rightarrow> string) \<Rightarrow> string \<Rightarrow> string \<Rightarrow> runner_request \<Rightarrow> bool" where
  "on_behalf prm u p rq \<longleftrightarrow>
     (if rq_method rq = ''POST''
      then \<exists>b. rq_body rq = Some b \<and>
        (map_option prm (get_prop b ''projectId'') = Some p \<and> get_prop b ''userId'' = Some (JStr u) \<or>
         map_option prm (get_prop b ''project_id'') = Some p \<and> get_prop b ''user_id'' = Some (JStr u))
      else map_of (rq_query rq) ''projectId'' = Some p)"

datatype ui_operation =
    Sync_Get "string list" | Sync_Post "string list" | Sync_Delete "string list" | Runs_Post | Run_Get string
  | Run_Delete string | Events_Get string | Logs_Get string | Revisions_Get string | Revisions_Post string
  | Restore_Post string string

fun ui_serve ::
  "(json \<Rightarrow> string) \<Rightarrow> (string \<Rightarrow> string) \<Rightarrow> (string \<Rightarrow> string \<Rightarrow> int) \<Rightarrow> runner \<Rightarrow> session \<Rightarrow> database \<Rightarrow> ui_request \<Rightarrow>
   ui_operation \<Rightarrow> http_response handler" where
  "ui_serve prm enc lc runner session db rq (Sync_Get path) = sync_GET lc runner session db rq path"
| "ui_serve prm enc lc runner session db rq (Sync_Post path) = sync_POST lc runner session db rq path"
| "ui_serve prm enc lc runner session db rq (Sync_Delete path) = sync_DELETE lc runner session db rq path"
| "ui_serve prm enc lc runner session db rq Runs_Post = workflow_runs_POST lc runner session db rq"
| "ui_serve prm enc lc runner session db rq (Run_Get i) = workflow_run_GET enc lc runner session db rq i"
| "ui_serve prm enc lc runner session db rq (Run_Delete i) = workflow_run_DELETE enc lc runner session db rq i"
| "ui_serve prm enc lc runner session db rq (Events_Get i) = workflow_run_events_GET enc lc runner session db rq i"
| "ui_serve prm enc lc runner session db rq (Logs_Get i) = workflow_run_logs_GET enc lc runner session db rq i"
| "ui_serve prm enc lc runner session db rq (Revisions_Get w) = ui_revisions_GET enc lc runner session db rq w"
| "ui_serve prm enc lc runner session db rq (Revisions_Post w) = ui_revisions_POST enc lc runner session db rq w"
| "ui_serve prm enc lc runner session db rq (Restore_Post w v) = ui_restore_POST prm enc lc runner session db rq w v"

text \<open>The right an operation needs: a batch with anything but runs and their results is an edit.\<close>

definition edits :: "ui_request \<Rightarrow> bool" where
  "edits rq \<longleftrightarrow> list_ex (\<lambda>c. entity_text c \<notin> set executionEntities)
     (nullish (as_array (get_prop (nullish (ur_body rq) JNull) ''changes'')) [])"

fun needed_action :: "ui_request \<Rightarrow> ui_operation \<Rightarrow> project_action" where
  "needed_action rq (Sync_Post _) = (if edits rq then Edit else Run)"
| "needed_action rq Runs_Post = Run"
| "needed_action rq (Run_Delete _) = Run"
| "needed_action rq (Revisions_Post _) = Edit"
| "needed_action rq (Restore_Post _ _) = Edit"
| "needed_action rq _ = View"

lemma only_execution_Inr: "only_execution cs = Inr b \<Longrightarrow> b \<longleftrightarrow> \<not> list_ex (\<lambda>c. entity_text c \<notin> set executionEntities) cs"
  by (induction cs) (auto split: if_splits)

lemma authorized:
  "authorizeProject lc session db p a = Inr x \<longleftrightarrow>
   (\<exists>u role. session = Some (u, role) \<and> u \<noteq> [] \<and> p \<noteq> [] \<and> userHasProjectPermission lc u p a role db \<and> x = (u, p))"
  by (auto simp: authorizeProject_def split: option.splits list.splits if_splits)

lemma query_set_get: "map_of (query_set k v q) k' = (if k' = k then Some v else map_of q k')"
proof (induction q)
  case (Cons x q)
  have "map_of (filter (\<lambda>x. fst x \<noteq> k) q) k' = (if k' = k then None else map_of q k')" for q :: "(string \<times> string) list"
    by (induction q) auto
  with Cons show ?case by (cases x) auto
qed simp

lemma query_project_get: "query_project rq = p \<Longrightarrow> p \<noteq> [] \<Longrightarrow> map_of (ur_query rq) ''projectId'' = Some p"
  by (auto simp: query_project_def nullish_def split: option.splits)

text \<open>What a handler that sends at most one request on, and then only a good one, sends.\<close>

definition sends_good :: "(runner_request \<Rightarrow> bool) \<Rightarrow> 'a handler \<Rightarrow> bool" where
  "sends_good P m \<longleftrightarrow> (\<forall>sent. snd (m sent) = sent \<or> (\<exists>rq. snd (m sent) = sent @ [rq] \<and> P rq))"

lemma sends_good_pure [simp]: "sends_good P (pure_h r)"
  by (simp add: sends_good_def pure_h_def)

lemma sends_good_passed: "P rq \<Longrightarrow> sends_good P (then_h (send runner rq) passed_on)"
  by (auto simp: sends_good_def then_h_def send_def passed_on_def pure_h_def split: sum.splits)

lemma sends_good_then_pure: "(\<And>v. r = Inr v \<Longrightarrow> sends_good P (f v)) \<Longrightarrow> sends_good P (then_h (pure_h r) f)"
  by (cases r) simp_all

definition good_request ::
  "(json \<Rightarrow> string) \<Rightarrow> (string \<Rightarrow> string \<Rightarrow> int) \<Rightarrow> session \<Rightarrow> database \<Rightarrow> project_action \<Rightarrow> runner_request \<Rightarrow> bool" where
  "good_request prm lc session db a out \<longleftrightarrow>
     (\<exists>u role p. session = Some (u, role) \<and> u \<noteq> [] \<and> userHasProjectPermission lc u p a role db \<and> on_behalf prm u p out)"

lemma authorized_good:
  assumes "\<And>u role. session = Some (u, role) \<Longrightarrow> u \<noteq> [] \<Longrightarrow> p \<noteq> [] \<Longrightarrow> userHasProjectPermission lc u p a role db \<Longrightarrow>
    sends_good (good_request prm lc session db a) (f (u, p))"
  shows "sends_good (good_request prm lc session db a)
    (case authorizeProject lc session db p a of Inl refused \<Rightarrow> pure_h (Inr refused) | Inr access \<Rightarrow> f access)"
proof (cases "authorizeProject lc session db p a")
  case (Inr x)
  from iffD1 [OF authorized this] obtain u role where "session = Some (u, role)" "u \<noteq> []" "p \<noteq> []"
    "userHasProjectPermission lc u p a role db" "x = (u, p)" by blast
  then show ?thesis using assms Inr by simp
qed simp

lemma proxied_good:
  assumes "session = Some (u, role)" "u \<noteq> []" "userHasProjectPermission lc u (query_project rq) a role db" "query_project rq \<noteq> []"
    and "meth \<noteq> ''POST''"
  shows "sends_good (good_request prm lc session db a) (proxyRunnerRequest runner meth rq path b)"
    "sends_good (good_request prm lc session db a) (proxyRequest runner meth rq path' b (Some (u, query_project rq)))"
  unfolding proxyRunnerRequest_def proxyRequest_def Let_def
  using assms query_project_get [OF refl, of rq]
  by (auto intro!: sends_good_passed simp: good_request_def on_behalf_def query_set_get)

lemma posted_good:
  assumes "session = Some (u, role)" "u \<noteq> []" "userHasProjectPermission lc u p a role db"
    and "map_option prm (get_prop b ''projectId'') = Some p \<and> get_prop b ''userId'' = Some (JStr u) \<or>
      map_option prm (get_prop b ''project_id'') = Some p \<and> get_prop b ''user_id'' = Some (JStr u)"
  shows "sends_good (good_request prm lc session db a) (proxyRunnerRequest runner ''POST'' rq path (Some b))"
    "sends_good (good_request prm lc session db a) (proxyRequest runner ''POST'' rq path' (Some b) x)"
  unfolding proxyRunnerRequest_def proxyRequest_def Let_def
  using assms by (auto intro!: sends_good_passed simp: good_request_def on_behalf_def)

lemma bound_fields:
  "get_prop (bindSyncBatchToIdentity b u p) ''project_id'' = Some (JStr p)" "get_prop (bindSyncBatchToIdentity b u p) ''user_id'' = Some (JStr u)"
  "get_prop (bindWorkflowRequestToIdentity b u p) ''projectId'' = Some (JStr p)" "get_prop (bindWorkflowRequestToIdentity b u p) ''userId'' = Some (JStr u)"
  by (simp_all add: bindSyncBatchToIdentity_def bindWorkflowRequestToIdentity_def)

lemma sync_post_good:
  assumes prm: "\<And>s. prm (JStr s) = s"
  shows "sends_good (good_request prm lc session db (if edits rq then Edit else Run)) (sync_POST lc runner session db rq path)"
proof (cases "ur_body rq")
  case (Some body)
  have "sends_good (good_request prm lc session db (if edits rq then Edit else Run))
      (case authorizeProject lc session db q (if running then Run else Edit) of
         Inl refused \<Rightarrow> pure_h (Inr refused)
       | Inr (userId, projectId) \<Rightarrow> proxyRequest runner ''POST'' rq path (Some (bindSyncBatchToIdentity body userId projectId)) (Some (userId, projectId)))"
    if "only_execution (nullish (as_array (get_prop body ''changes'')) []) = Inr running" for running q
  proof -
    have "(if running then Run else Edit) = (if edits rq then Edit else Run)"
      using only_execution_Inr [OF that] Some by (simp add: edits_def nullish_def)
    then show ?thesis
      by (simp only:) (rule authorized_good, auto intro!: posted_good simp: bound_fields prm)
  qed
  then show ?thesis using Some by (auto simp: sync_POST_def intro!: sends_good_then_pure)
qed (simp add: sync_POST_def)

lemma runs_post_good:
  assumes prm: "\<And>s. prm (JStr s) = s"
  shows "sends_good (good_request prm lc session db Run) (workflow_runs_POST lc runner session db rq)"
  by (auto simp: workflow_runs_POST_def bound_fields prm split: option.splits list.splits
      intro!: sends_good_then_pure posted_good)

lemma restore_good:
  "sends_good (good_request prm lc session db Edit) (ui_restore_POST prm enc lc runner session db rq w v)"
  by (auto simp: ui_restore_POST_def truthy_json_def split: option.splits list.splits intro!: sends_good_then_pure posted_good)

lemma revisions_post_good:
  assumes prm: "\<And>s. prm (JStr s) = s"
  shows "sends_good (good_request prm lc session db Edit) (ui_revisions_POST enc lc runner session db rq w)"
  unfolding ui_revisions_POST_def
  by (rule authorized_good) (auto intro!: sends_good_then_pure posted_good simp: prm)

lemma run_route_good:
  "meth \<noteq> ''POST'' \<Longrightarrow> sends_good (good_request prm lc session db a) (run_route a meth below enc lc runner session db rq i)"
  unfolding run_route_def by (rule authorized_good) (auto intro!: proxied_good)



end
