(* ===== verification/Runner_Client.thy ===== *)
theory Runner_Client
  imports Runner_Requests
begin

text \<open>
  \<^verbatim>\<open>src/ui-v2/src/modules/workflow/lib/runner-client.ts\<close>: submitting and cancelling a run, reading its
  snapshot and its stored log, and replaying the log after a cursor. Also the listing of stored events
  by the runner, \<open>ListWorkflowLogEventsBefore\<close> and \<open>ListWorkflowRunLogs\<close> of \<^verbatim>\<open>src/runner-v2\<close>, so that
  the replay can be judged against it. Pages of the log have their declared type; \<open>parse\<close> is \<open>JSON.parse\<close>
  of an event's payload, \<open>enc\<close> is \<open>encodeURIComponent\<close>. The replay loop is a partial function: no value means
  that it asks for ever.
\<close>

section \<open>Single requests\<close>

text \<open>
  The message of a refused request. Reading the reply as JSON consumes its body even when that fails, so
  the text read afterwards is empty.
\<close>

definition refusal :: "runner_reply \<Rightarrow> string" where
  "refusal reply =
     (let message = ''Runner returned '' @ show_nat (rr_status reply) in
      case rr_json reply of
        Some payload \<Rightarrow> if truthy_json (get_prop payload ''error'') then js_text (the (get_prop payload ''error'')) else message
      | None \<Rightarrow> message)"

definition submitWorkflowRun :: "runner \<Rightarrow> json \<Rightarrow> json handler" where
  "submitWorkflowRun fetcher input =
     then_h (send fetcher \<lparr>rq_method = ''POST'', rq_path = ''/api/v1/workflow-runs'', rq_query = [], rq_body = Some input\<rparr>) (\<lambda>reply.
       if rr_status reply = 202
       then pure_h (Inr (nullish (rr_json reply)
              (obj [(''workflowRunId'', get_prop input ''workflowRunId''), (''status'', Some (JStr ''pending'')), (''created'', Some (JBool True))])))
       else if reply_ok reply
       then pure_h (Inl (Err (''Runner returned unexpected '' @ show_nat (rr_status reply) @
              ''; the workflow was not accepted for execution'')))
       else pure_h (Inl (Err (refusal reply))))"

definition read_json :: "runner_reply \<Rightarrow> json res" where
  "read_json reply = (case rr_json reply of Some v \<Rightarrow> Inr v | None \<Rightarrow> Inl (Err ''SyntaxError''))"

definition run_request :: "(string \<Rightarrow> string) \<Rightarrow> string \<Rightarrow> string \<Rightarrow> string \<Rightarrow> runner_request" where
  "run_request enc meth workflowRunId projectId =
     \<lparr>rq_method = meth, rq_path = ''/api/v1/workflow-runs/'' @ enc workflowRunId, rq_query = [(''projectId'', projectId)], rq_body = None\<rparr>"

definition cancelWorkflowRun :: "(string \<Rightarrow> string) \<Rightarrow> runner \<Rightarrow> string \<Rightarrow> string \<Rightarrow> json handler" where
  "cancelWorkflowRun enc fetcher workflowRunId projectId =
     then_h (send fetcher (run_request enc ''DELETE'' workflowRunId projectId)) (\<lambda>reply.
       if reply_ok reply then pure_h (read_json reply) else pure_h (Inl (Err (refusal reply))))"

definition fetchWorkflowRunSnapshot :: "(string \<Rightarrow> string) \<Rightarrow> runner \<Rightarrow> string \<Rightarrow> string \<Rightarrow> json handler" where
  "fetchWorkflowRunSnapshot enc fetcher workflowRunId projectId =
     then_h (send fetcher (run_request enc ''GET'' workflowRunId projectId)) (\<lambda>reply.
       if \<not> reply_ok reply then pure_h (Inl (Err (''Runner returned '' @ show_nat (rr_status reply))))
       else pure_h (read_json reply))"

section \<open>The stored log\<close>

record stored_event =
  se_id :: int
  se_payload :: string

record log_page =
  lp_events :: "stored_event list"
  lp_hasMore :: bool
  lp_nextBefore :: "int option"

record log_request =
  lr_path :: string
  lr_query :: "(string \<times> string) list"

text \<open>The log route as seen by the client: the status and the page of every request in turn.\<close>

type_synonym log_server = "log_request list \<Rightarrow> log_request \<Rightarrow> (nat \<times> log_page option) res"

definition logs_request :: "(string \<Rightarrow> string) \<Rightarrow> string \<Rightarrow> string \<Rightarrow> int option \<Rightarrow> int \<Rightarrow> log_request" where
  "logs_request enc workflowRunId projectId before limit =
     \<lparr>lr_path = ''/api/v1/workflow-runs/'' @ enc workflowRunId @ ''/logs'',
      lr_query = [(''projectId'', projectId), (''limit'', show_int limit)] @
        (case before of Some b \<Rightarrow> if b = 0 then [] else [(''before'', show_int b)] | None \<Rightarrow> [])\<rparr>"

definition fetchWorkflowRunLogs ::
  "(string \<Rightarrow> string) \<Rightarrow> log_server \<Rightarrow> string \<Rightarrow> string \<Rightarrow> int option \<Rightarrow> int \<Rightarrow> log_request list \<Rightarrow>
   log_page res \<times> log_request list" where
  "fetchWorkflowRunLogs enc fetcher workflowRunId projectId before limit sent =
     (let rq = logs_request enc workflowRunId projectId before limit in
      (bind_res (fetcher sent rq) (\<lambda>(status, page).
         if \<not> (200 \<le> status \<and> status < 300) then Inl (Err (''Runner returned '' @ show_nat status))
         else case page of Some p \<Rightarrow> Inr p | None \<Rightarrow> Inl (Err ''SyntaxError'')),
       sent @ [rq]))"

definition parseStoredWorkflowLogEvent :: "(string \<Rightarrow> 'e option) \<Rightarrow> stored_event \<Rightarrow> (int \<times> 'e) option" where
  "parseStoredWorkflowLogEvent parse stored = map_option (\<lambda>e. (se_id stored, e)) (parse (se_payload stored))"

record 'e replay =
  rp_collected :: "(int \<times> 'e) list"
  rp_newest :: "int option"

text \<open>One page: the events newer than the cursor are collected, an older one ends the search.\<close>

definition take_event :: "(string \<Rightarrow> 'e option) \<Rightarrow> stored_event \<Rightarrow> 'e replay \<Rightarrow> 'e replay" where
  "take_event parse stored st =
     (let st1 = st\<lparr>rp_newest := Some (max (nullish (rp_newest st) 0) (se_id stored))\<rparr>
      in case parseStoredWorkflowLogEvent parse stored of
           Some (i, e) \<Rightarrow> st1\<lparr>rp_collected := AList.update i e (rp_collected st1)\<rparr>
         | None \<Rightarrow> st1)"

fun scan_page ::
  "(string \<Rightarrow> 'e option) \<Rightarrow> int \<Rightarrow> stored_event list \<Rightarrow> 'e replay \<Rightarrow> bool \<Rightarrow> 'e replay \<times> bool" where
  "scan_page parse after [] st reached = (st, reached)"
| "scan_page parse after (stored # events) st reached =
     (if se_id stored \<le> after then scan_page parse after events st True
      else scan_page parse after events (take_event parse stored st) reached)"

partial_function (option) replay_loop ::
  "(int option \<Rightarrow> log_request list \<Rightarrow> log_page res \<times> log_request list) \<Rightarrow> (string \<Rightarrow> 'e option) \<Rightarrow> int \<Rightarrow>
   'e replay \<Rightarrow> int list \<Rightarrow> int option \<Rightarrow> log_request list \<Rightarrow> ('e replay res \<times> log_request list) option" where
  "replay_loop fetch parse after st seenCursors before sent =
     (case fetch before sent of
        (Inl e, sent') \<Rightarrow> Some (Inl e, sent')
      | (Inr page, sent') \<Rightarrow>
          (case scan_page parse after (lp_events page) st False of
             (st', reachedKnownCursor) \<Rightarrow>
               if reachedKnownCursor \<or> \<not> lp_hasMore page \<or> lp_nextBefore page = None then Some (Inr st', sent')
               else if the (lp_nextBefore page) \<in> set seenCursors
               then Some (Inl (Err ''Runner returned a repeated pagination cursor''), sent')
               else replay_loop fetch parse after st' (set_add seenCursors (the (lp_nextBefore page))) (lp_nextBefore page) sent'))"

definition by_id :: "int \<times> 'e \<Rightarrow> int \<times> 'e \<Rightarrow> int" where
  "by_id left right = fst left - fst right"

definition fetchWorkflowRunEventsSince ::
  "(string \<Rightarrow> string) \<Rightarrow> log_server \<Rightarrow> (string \<Rightarrow> 'e option) \<Rightarrow> string \<Rightarrow> string \<Rightarrow> int \<Rightarrow> int \<Rightarrow> log_request list \<Rightarrow>
   (((int \<times> 'e) list \<times> int option) res \<times> log_request list) option" where
  "fetchWorkflowRunEventsSince enc fetcher parse workflowRunId projectId afterEventId pageSize sent =
     map_option (\<lambda>(r, sent'). (bind_res r (\<lambda>st. Inr (js_sort by_id (rp_collected st), rp_newest st)), sent'))
       (replay_loop (\<lambda>before. fetchWorkflowRunLogs enc fetcher workflowRunId projectId before pageSize) parse afterEventId
          \<lparr>rp_collected = [], rp_newest = None\<rparr> [] None sent)"

section \<open>The runner's listing\<close>

definition newest_first :: "stored_event \<Rightarrow> stored_event \<Rightarrow> int" where
  "newest_first left right = se_id right - se_id left"

definition ListWorkflowLogEventsBefore :: "stored_event list \<Rightarrow> int \<Rightarrow> int \<Rightarrow> stored_event list \<times> bool" where
  "ListWorkflowLogEventsBefore table beforeID limit0 =
     (let limit = nat (if limit0 \<le> 0 \<or> 250 < limit0 then 100 else limit0);
          events = take (limit + 1) (js_sort newest_first (filter (\<lambda>e. 0 < beforeID \<longrightarrow> se_id e < beforeID) table));
          hasMore = limit < length events
      in (if hasMore then take limit events else events, hasMore))"

definition ListWorkflowRunLogs :: "stored_event list \<Rightarrow> int \<Rightarrow> int \<Rightarrow> log_page" where
  "ListWorkflowRunLogs table before limit =
     (case ListWorkflowLogEventsBefore table before limit of
        (events, hasMore) \<Rightarrow>
          \<lparr>lp_events = events, lp_hasMore = hasMore,
           lp_nextBefore = Some (if events = [] then 0 else se_id (last events))\<rparr>)"

section \<open>The replay is complete\<close>

interpretation newest: js_comparator newest_first
  by unfold_locales (auto simp: newest_first_def)

interpretation by_id: js_comparator by_id
  by unfold_locales (auto simp: by_id_def)

subsection \<open>Scanning\<close>

lemma take_event_simps:
  "rp_newest (take_event parse e st) = Some (max (nullish (rp_newest st) 0) (se_id e))"
  "map_of (rp_collected (take_event parse e st)) i =
     (if i = se_id e \<and> parse (se_payload e) \<noteq> None then parse (se_payload e) else map_of (rp_collected st) i)"
  "distinct (map fst (rp_collected st)) \<Longrightarrow> distinct (map fst (rp_collected (take_event parse e st)))"
  by (auto simp: take_event_def parseStoredWorkflowLogEvent_def distinct_update split: option.splits)

lemma scan_append:
  "scan_page parse after (xs @ ys) st r = (case scan_page parse after xs st r of (st', r') \<Rightarrow> scan_page parse after ys st' r')"
  by (induction xs arbitrary: st r) simp_all

lemma scan_reached: "snd (scan_page parse after xs st r) \<longleftrightarrow> r \<or> list_ex (\<lambda>e. se_id e \<le> after) xs"
  by (induction xs arbitrary: st r) auto

lemma scan_flag: "fst (scan_page parse after xs st r) = fst (scan_page parse after xs st False)"
proof (induction xs arbitrary: st r)
  case (Cons x xs)
  from Cons [of _ True] Cons [of _ r] show ?case by simp
qed simp

lemma scan_old: "list_all (\<lambda>e. se_id e \<le> after) xs \<Longrightarrow> fst (scan_page parse after xs st r) = st"
  by (induction xs arbitrary: r) auto

lemma scan_collected:
  assumes "distinct (map se_id xs)"
  shows "map_of (rp_collected (fst (scan_page parse after xs st r))) i =
    (case find (\<lambda>e. se_id e = i \<and> after < i) xs of
       Some e \<Rightarrow> (case parse (se_payload e) of Some v \<Rightarrow> Some v | None \<Rightarrow> map_of (rp_collected st) i)
     | None \<Rightarrow> map_of (rp_collected st) i)"
  using assms
proof (induction xs arbitrary: st r)
  case (Cons x xs)
  have "find (\<lambda>e. se_id e = se_id x \<and> after < se_id x) xs = None"
    using Cons.prems by (simp add: find_None_iff) (metis image_eqI)
  then show ?case using Cons by (auto simp: take_event_simps split: option.splits)
qed simp

lemma scan_distinct: "distinct (map fst (rp_collected st)) \<Longrightarrow> distinct (map fst (rp_collected (fst (scan_page parse after xs st r))))"
  by (induction xs arbitrary: st r) (simp_all add: take_event_simps)

lemma scan_newest:
  "rp_newest (fst (scan_page parse after xs st r)) =
   (let new = filter (\<lambda>i. after < i) (map se_id xs)
    in if new = [] then rp_newest st else Some (foldl max (nullish (rp_newest st) 0) new))"
proof (induction xs arbitrary: st r)
  case (Cons x xs)
  have "nullish (Some v) d = v" for v d :: int by (simp add: nullish_def)
  then show ?case by (auto simp: Cons take_event_simps)
qed simp

subsection \<open>Pages\<close>

lemma strictly_sorted:
  assumes "sorted_wrt (\<lambda>a b. se_id b \<le> se_id a) xs" "distinct (map se_id xs)"
  shows "sorted_wrt (\<lambda>a b. se_id b < se_id a) xs"
  using assms by (induction xs) (simp_all, metis image_eqI order_le_less)

lemma sorted_log:
  assumes "distinct (map se_id table)"
  shows "sorted_wrt (\<lambda>a b. se_id b < se_id a) (js_sort newest_first table)"
proof (rule strictly_sorted)
  show "distinct (map se_id (js_sort newest_first table))"
    using assms by (metis mset_js_sort mset_map mset_eq_imp_distinct_iff)
  show "sorted_wrt (\<lambda>a b. se_id b \<le> se_id a) (js_sort newest_first table)"
    using newest.js_sort_sorted [of table] by (simp add: newest_first_def)
qed

text \<open>The page size the runner uses.\<close>

definition page_size :: "int \<Rightarrow> nat" where
  "page_size limit = nat (if limit \<le> 0 \<or> 250 < limit then 100 else limit)"

lemma page_size_pos: "0 < page_size limit"
  by (simp add: page_size_def)

lemma listing_page:
  "ListWorkflowRunLogs table b limit =
   (let rest = filter (\<lambda>e. 0 < b \<longrightarrow> se_id e < b) (js_sort newest_first table); events = take (page_size limit) rest
    in \<lparr>lp_events = events, lp_hasMore = page_size limit < length rest,
        lp_nextBefore = Some (if events = [] then 0 else se_id (last events))\<rparr>)"
  by (simp add: ListWorkflowRunLogs_def ListWorkflowLogEventsBefore_def page_size_def [symmetric] newest.filter_js_sort min_def)

lemma below_cursor:
  assumes "sorted_wrt (\<lambda>a b. se_id b < se_id a) T" "0 < k" "k \<le> length T"
  shows "filter (\<lambda>e. se_id e < se_id (T ! (k - 1))) T = drop k T"
proof -
  have T: "T = take k T @ drop k T" by simp
  have "se_id (T ! (k - 1)) \<le> se_id e" if m: "e \<in> set (take k T)" for e
  proof -
    obtain j where "j < length (take k T)" "take k T ! j = e" using m unfolding in_set_conv_nth by blast
    then have j: "j < k" "e = T ! j" "j < length T" by simp_all
    then consider "j = k - 1" | "j < k - 1" "k - 1 < length T" using assms(2,3) by linarith
    then show ?thesis using assms j sorted_wrt_nth_less [OF assms(1), of j "k - 1"] by cases auto
  qed
  then have "filter (\<lambda>e. se_id e < se_id (T ! (k - 1))) (take k T) = []" by (auto simp: filter_empty_conv not_less)
  moreover have "se_id e < se_id (T ! (k - 1))" if m: "e \<in> set (drop k T)" for e
  proof -
    obtain j where "j < length (drop k T)" "drop k T ! j = e" using m unfolding in_set_conv_nth by blast
    then have "j < length T - k" "e = T ! (k + j)" by simp_all
    then show ?thesis using assms sorted_wrt_nth_less [OF assms(1), of "k - 1" "k + j"] by auto
  qed
  then have "filter (\<lambda>e. se_id e < se_id (T ! (k - 1))) (drop k T) = drop k T" by (auto simp: filter_id_conv)
  ultimately show ?thesis by (subst (2) T) (simp only: filter_append append_Nil)
qed

subsection \<open>The loop\<close>

text \<open>The cursor after \<open>k\<close> events of the sorted log.\<close>

definition cursor :: "stored_event list \<Rightarrow> nat \<Rightarrow> int option" where
  "cursor T k = (if k = 0 then None else Some (se_id (T ! (k - 1))))"

text \<open>A fetch that answers every cursor of a log with the rest of that log, a page at a time.\<close>

definition pages_of :: "stored_event list \<Rightarrow> nat \<Rightarrow> (int option \<Rightarrow> log_request list \<Rightarrow> log_page res \<times> log_request list) \<Rightarrow>
    log_request list \<Rightarrow> bool" where
  "pages_of T n fetch sent0 \<longleftrightarrow>
     (\<forall>k sent. k \<le> length T \<longrightarrow> (k = 0 \<longrightarrow> sent = sent0) \<longrightarrow>
       (\<exists>sent'. fetch (cursor T k) sent =
         (Inr \<lparr>lp_events = take n (drop k T), lp_hasMore = n < length T - k,
               lp_nextBefore = Some (if k = length T then 0 else se_id (last (take n (drop k T))))\<rparr>, sent')))"

lemma replay_loop_pages:
  assumes T: "sorted_wrt (\<lambda>a b. se_id b < se_id a) T" and n: "0 < n" and f: "pages_of T n fetch sent0"
    and "k \<le> length T" "k = 0 \<longrightarrow> sent = sent0" "set seen \<subseteq> (\<lambda>j. se_id (T ! j)) ` {..<k}"
  shows "\<exists>sent'. replay_loop fetch parse after st seen (cursor T k) sent =
    Some (Inr (fst (scan_page parse after (drop k T) st False)), sent')"
  using assms(4-)
proof (induction "length T - k" arbitrary: k st seen sent rule: less_induct)
  case less
  define evs where "evs = take n (drop k T)"
  define nx where "nx = (if k = length T then 0 else se_id (last evs))"
  obtain sent' where fe: "fetch (cursor T k) sent = (Inr \<lparr>lp_events = evs, lp_hasMore = n < length T - k, lp_nextBefore = Some nx\<rparr>, sent')"
    using f less.prems(1,2) unfolding pages_of_def evs_def nx_def by blast
  obtain st' r where sc: "scan_page parse after evs st False = (st', r)" by fastforce
  have r: "r \<longleftrightarrow> list_ex (\<lambda>e. se_id e \<le> after) evs" using scan_reached [of parse after evs st False] sc by simp
  have split: "drop k T = evs @ drop (k + n) T" 
  proof -
    have "drop (k + n) T = drop n (drop k T)" by (simp add: add.commute)
    then show ?thesis unfolding evs_def by (simp only: append_take_drop_id)
  qed
  have whole: "fst (scan_page parse after (drop k T) st False) = fst (scan_page parse after (drop (k + n) T) st' False)"
    by (subst split, subst scan_append) (simp add: sc scan_flag [of _ _ _ _ r])
  show ?case
  proof (cases "r \<or> \<not> n < length T - k")
    case True
    have "list_all (\<lambda>e. se_id e \<le> after) (drop (k + n) T)" if "n < length T - k"
    proof -
      have "r" using True that by simp
      then obtain e where e: "e \<in> set evs" "se_id e \<le> after" using r by (auto simp: list_ex_iff)
      have "sorted_wrt (\<lambda>a b. se_id b < se_id a) (evs @ drop (k + n) T)"
        using sorted_wrt_drop [OF T, of k] split by simp
      then have "se_id x < se_id e" if "x \<in> set (drop (k + n) T)" for x using e(1) that by (auto simp: sorted_wrt_append)
      then show ?thesis using e(2) by (force simp: list_all_iff)
    qed
    then have "fst (scan_page parse after (drop (k + n) T) st' False) = st'" by (cases "n < length T - k") (auto intro: scan_old)
    then show ?thesis using True whole by (subst replay_loop.simps) (simp add: fe sc)
  next
    case False
    have kn: "k + n \<le> length T" "0 < k + n" "k \<noteq> length T" using False n by auto
    have "length evs = n" "evs \<noteq> []" using kn n by (auto simp: evs_def)
    then have "last evs = T ! (k + n - 1)" using n kn by (simp add: last_conv_nth evs_def)
    then have nx: "Some nx = cursor T (k + n)" using kn by (simp add: nx_def cursor_def)
    have fresh: "nx \<notin> set seen"
    proof
      assume "nx \<in> set seen"
      then obtain j where "j < k" "se_id (T ! j) = se_id (T ! (k + n - 1))"
        using less.prems(3) nx kn by (auto simp: cursor_def)
      moreover have "se_id (T ! (k + n - 1)) < se_id (T ! j)"
        using sorted_wrt_nth_less [OF T, of j "k + n - 1"] \<open>j < k\<close> kn n by auto
      ultimately show False by simp
    qed
    have nx': "nx = se_id (T ! (k + n - 1))" using nx n by (simp add: cursor_def split: if_splits)
    have "set (set_add seen nx) \<subseteq> (\<lambda>j. se_id (T ! j)) ` {..<k + n}"
    proof -
      have "nx \<in> (\<lambda>j. se_id (T ! j)) ` {..<k + n}" unfolding nx' using kn by (intro image_eqI [OF refl]) simp
      moreover have "{..<k} \<subseteq> {..<k + n}" by auto
      ultimately show ?thesis using less.prems(3) by fastforce
    qed
    then obtain sent2 where "replay_loop fetch parse after st' (set_add seen nx) (cursor T (k + n)) sent' =
        Some (Inr (fst (scan_page parse after (drop (k + n) T) st' False)), sent2)"
      using less.hyps [of "k + n"] kn n by force
    then show ?thesis using False whole fresh
      by (subst replay_loop.simps) (simp add: fe sc nx [symmetric])
  qed
qed

lemma find_unique:
  assumes "distinct (map f xs)" "mset ys = mset xs"
  shows "find (\<lambda>x. f x = i \<and> P) ys = find (\<lambda>x. f x = i \<and> P) xs"
proof -
  have d: "distinct (map f ys)" "set ys = set xs" using assms by (metis mset_eq_imp_distinct_iff mset_map) (metis assms(2) set_mset_mset)
  have u: "find (\<lambda>x. f x = i \<and> P) zs = Some z" if "distinct (map f zs)" "z \<in> set zs" "f z = i" P for zs z
    using that by (induction zs) (auto simp: image_iff)
  show ?thesis
  proof (cases "\<exists>x \<in> set xs. f x = i \<and> P")
    case True
    then obtain x where "x \<in> set xs" "f x = i" P by blast
    then show ?thesis using u [of ys x] u [of xs x] d assms(1) by simp
  next
    case False
    then have "find (\<lambda>x. f x = i \<and> P) ys = None" "find (\<lambda>x. f x = i \<and> P) xs = None" by (auto simp: find_None_iff d(2))
    then show ?thesis by simp
  qed
qed

lemma foldl_max: "foldl max a xs = Max (insert a (set xs))" for a :: int
proof (induction xs arbitrary: a)
  case (Cons x xs)
  have "Max (insert (max a x) (set xs)) = Max (insert a (insert x (set xs)))"
    by (cases "set xs = {}") (auto simp: max.assoc)
  then show ?case by (simp add: Cons)
qed simp

text \<open>What the runner lists below the cursor after \<open>k\<close> events, with newer events stored meanwhile.\<close>

lemma rest_after_cursor:
  assumes T: "T = js_sort newest_first table" "sorted_wrt (\<lambda>a b. se_id b < se_id a) T" "\<And>x. x \<in> set table \<Longrightarrow> 0 < se_id x"
    and k: "0 < k" "k \<le> length T" and new: "\<And>x y. x \<in> set table \<Longrightarrow> y \<in> set new \<Longrightarrow> se_id x < se_id y"
  shows "T ! (k - 1) \<in> set table" "0 < nullish (cursor T k) 0"
    "filter (\<lambda>e. 0 < nullish (cursor T k) 0 \<longrightarrow> se_id e < nullish (cursor T k) 0) (js_sort newest_first (table @ new)) = drop k T"
proof -
  let ?b = "nullish (cursor T k) 0"
  show m: "T ! (k - 1) \<in> set table" using k T(1) by (metis Suc_diff_1 less_eq_Suc_le nth_mem set_js_sort)
  have b: "?b = se_id (T ! (k - 1))" using k(1) by (simp add: cursor_def nullish_def)
  then show pos: "0 < ?b" using T(3) [OF m] by simp
  have "filter (\<lambda>e. 0 < ?b \<longrightarrow> se_id e < ?b) new = []" using new [OF m] b pos by (force simp: filter_empty_conv)
  then show "filter (\<lambda>e. 0 < ?b \<longrightarrow> se_id e < ?b) (js_sort newest_first (table @ new)) = drop k T"
    using below_cursor [OF T(2) k] b pos by (simp add: newest.filter_js_sort T(1))
qed

lemma server_pages:
  assumes server: "\<And>s b. b \<in> insert None (Some ` se_id ` set table) \<Longrightarrow> fetcher s (logs_request enc run project b limit) =
      Inr (200, Some (ListWorkflowRunLogs (table @ added (length s)) (nullish b 0) limit))"
    and "added (length sent) = []" "\<And>m x y. x \<in> set table \<Longrightarrow> y \<in> set (added m) \<Longrightarrow> se_id x < se_id y"
    and table: "distinct (map se_id table)" "\<And>x. x \<in> set table \<Longrightarrow> 0 < se_id x"
  shows "pages_of (js_sort newest_first table) (page_size limit) (\<lambda>before. fetchWorkflowRunLogs enc fetcher run project before limit) sent"
  unfolding pages_of_def
proof (intro allI impI)
  fix k s
  define T where "T = js_sort newest_first table"
  note T = T_def sorted_log [OF table(1), folded T_def] table(2)
  assume "k \<le> length (js_sort newest_first table)" and s: "k = 0 \<longrightarrow> s = sent"
  then have k: "k \<le> length T" by (simp add: T_def)
  let ?b = "nullish (cursor T k) 0"
  have "cursor T k \<in> insert None (Some ` se_id ` set table) \<and>
      filter (\<lambda>e. 0 < ?b \<longrightarrow> se_id e < ?b) (js_sort newest_first (table @ added (length s))) = drop k T"
  proof (cases "k = 0")
    case True
    then show ?thesis using s assms(2) by (simp add: cursor_def nullish_def T_def)
  next
    case False
    then have "0 < k" by simp
    note rest = rest_after_cursor [OF T this k assms(3) [where m = "length s"]]
    show ?thesis using rest(1,3) False by (simp add: cursor_def)
  qed
  then show "\<exists>sent'. fetchWorkflowRunLogs enc fetcher run project (cursor (js_sort newest_first table) k) limit s =
      (Inr \<lparr>lp_events = take (page_size limit) (drop k (js_sort newest_first table)),
        lp_hasMore = page_size limit < length (js_sort newest_first table) - k,
        lp_nextBefore = Some (if k = length (js_sort newest_first table) then 0
          else se_id (last (take (page_size limit) (drop k (js_sort newest_first table)))))\<rparr>, sent')"
    using k page_size_pos [of limit] unfolding T_def [symmetric]
    by (simp add: fetchWorkflowRunLogs_def server listing_page)
qed

lemma newest_of_log:
  assumes "set T = set table" "\<And>x. x \<in> set table \<Longrightarrow> 0 < se_id x"
  shows "rp_newest (fst (scan_page parse after T \<lparr>rp_collected = [], rp_newest = None\<rparr> False)) =
    (if list_all (\<lambda>e. se_id e \<le> after) table then None else Some (Max (se_id ` {e \<in> set table. after < se_id e})))"
proof (cases "list_all (\<lambda>e. se_id e \<le> after) table")
  case True
  then show ?thesis using assms(1) by (auto simp: scan_newest list_all_iff filter_empty_conv)
next
  case False
  let ?new = "filter (\<lambda>i. after < i) (map se_id T)"
  have ne: "?new \<noteq> []" using False assms(1) by (auto simp: list_all_iff filter_empty_conv not_le)
  have set_new: "set ?new = se_id ` {e \<in> set table. after < se_id e}" using assms(1) by auto
  have "Max (insert 0 (set ?new)) = Max (set ?new)"
  proof -
    obtain y where "y \<in> set ?new" using ne by (cases ?new) auto
    moreover then have "0 < y" using assms by auto
    ultimately have "0 < Max (set ?new)" by (meson List.finite_set Max_ge order_less_le_trans)
    moreover have "set ?new \<noteq> {}" using ne by (simp del: set_filter)
    ultimately show ?thesis by (subst Max_insert) (simp_all del: set_filter)
  qed
  then show ?thesis using False ne set_new by (simp add: scan_newest foldl_max nullish_def)
qed

text \<open>
  C17. After a lost connection nothing is missed: however many pages it takes, the replay ends, without
  an error, and returns in ascending order exactly the stored events newer than the cursor whose
  payload can be read, together with the largest id among the newer ones. Events that are stored while
  the replay is paging do not disturb it.
\<close>

theorem replay_returns_every_newer_event:
  assumes server: "\<And>s b. b \<in> insert None (Some ` se_id ` set table) \<Longrightarrow> fetcher s (logs_request enc run project b limit) =
      Inr (200, Some (ListWorkflowRunLogs (table @ added (length s)) (nullish b 0) limit))"
    and "added (length sent) = []" "\<And>m x y. x \<in> set table \<Longrightarrow> y \<in> set (added m) \<Longrightarrow> se_id x < se_id y"
    and table: "distinct (map se_id table)" "\<And>x. x \<in> set table \<Longrightarrow> 0 < se_id x"
  shows "\<exists>events newest sent'.
    fetchWorkflowRunEventsSince enc fetcher parse run project after limit sent = Some (Inr (events, newest), sent') \<and>
    sorted_wrt (\<lambda>x y. fst x < fst y) events \<and>
    map_of events i = (case find (\<lambda>e. se_id e = i \<and> after < i) table of Some e \<Rightarrow> parse (se_payload e) | None \<Rightarrow> None) \<and>
    newest = (if list_all (\<lambda>e. se_id e \<le> after) table then None
              else Some (Max (se_id ` {e \<in> set table. after < se_id e})))"
proof -
  define T where "T = js_sort newest_first table"
  have T: "sorted_wrt (\<lambda>a b. se_id b < se_id a) T" "set T = set table" "mset T = mset table" "distinct (map se_id T)"
    using sorted_log [OF table(1)] table(1) by (simp_all add: T_def) (metis mset_eq_imp_distinct_iff mset_js_sort mset_map)
  define fetch where "fetch = (\<lambda>before. fetchWorkflowRunLogs enc fetcher run project before limit)"
  have "pages_of T (page_size limit) fetch sent" unfolding T_def fetch_def by (rule server_pages [where added = added, OF assms])
  from replay_loop_pages [OF T(1) page_size_pos this, of 0 sent "[]" parse after "\<lparr>rp_collected = [], rp_newest = None\<rparr>"]
  obtain sent' where loop: "replay_loop fetch parse after \<lparr>rp_collected = [], rp_newest = None\<rparr> [] None sent =
      Some (Inr (fst (scan_page parse after T \<lparr>rp_collected = [], rp_newest = None\<rparr> False)), sent')"
    by (auto simp: cursor_def)
  define st where "st = fst (scan_page parse after T \<lparr>rp_collected = [], rp_newest = None\<rparr> False)"
  define events where "events = js_sort by_id (rp_collected st)"
  have r: "fetchWorkflowRunEventsSince enc fetcher parse run project after limit sent = Some (Inr (events, rp_newest st), sent')"
    using loop by (simp add: fetchWorkflowRunEventsSince_def fetch_def st_def events_def)
  have dk: "distinct (map fst (rp_collected st))" unfolding st_def by (rule scan_distinct) simp
  then have de: "distinct (map fst events)" unfolding events_def by (metis mset_eq_imp_distinct_iff mset_js_sort mset_map)
  have "sorted_wrt (\<lambda>x y. fst x \<le> fst y) events" using by_id.js_sort_sorted [of "rp_collected st"] by (simp add: events_def by_id_def)
  then have sorted: "sorted_wrt (\<lambda>x y. fst x < fst y) events"
    using de by (induction events) (simp_all, metis image_eqI order_le_less)
  have "map_of events = map_of (rp_collected st)" using dk de by (subst map_of_inject_set) (simp_all add: events_def)
  then have m: "map_of events i = (case find (\<lambda>e. se_id e = i \<and> after < i) table of Some e \<Rightarrow> parse (se_payload e) | None \<Rightarrow> None)"
    using scan_collected [OF T(4), of parse after "\<lparr>rp_collected = [], rp_newest = None\<rparr>" False i] find_unique [OF table(1) T(3)]
    by (auto simp: st_def split: option.splits)
  have "rp_newest st = (if list_all (\<lambda>e. se_id e \<le> after) table then None
      else Some (Max (se_id ` {e \<in> set table. after < se_id e})))"
    unfolding st_def by (rule newest_of_log [OF T(2) table(2)])
  then show ?thesis using r sorted m by blast
qed

definition sample_table :: "stored_event list" where
  "sample_table = map (\<lambda>i. \<lparr>se_id = i, se_payload = show_int i\<rparr>) [40, 42, 43, 44]"

definition sample_logs :: log_server where
  "sample_logs s rq = Inr (200, Some (ListWorkflowRunLogs sample_table
     (case map_of (lr_query rq) ''before'' of
        None \<Rightarrow> 0 | Some t \<Rightarrow> nullish (map_of [(''40'', 40), (''42'', 42), (''43'', 43), (''44'', 44)] t) 0) 2))"

theorem replay_returns_every_newer_event_witness:
  "\<exists>sent' events newest. fetchWorkflowRunEventsSince (\<lambda>s. s) sample_logs Some ''r'' ''p'' 40 2 [] = Some (Inr (events, newest), sent') \<and>
     map_of events 42 = Some (show_int 42) \<and> newest = Some 44"
proof -
  have texts: "show_int 40 = ''40''" "show_int 42 = ''42''" "show_int 43 = ''43''" "show_int 44 = ''44''" by code_simp+
  have ids: "se_id ` set sample_table = {40, 42, 43, 44}" "distinct (map se_id sample_table)" "\<And>x. x \<in> set sample_table \<Longrightarrow> 0 < se_id x"
    by (auto simp: sample_table_def)
  have "sample_logs s (logs_request (\<lambda>s. s) ''r'' ''p'' b 2) = Inr (200, Some (ListWorkflowRunLogs (sample_table @ []) (nullish b 0) 2))"
    if "b \<in> insert None (Some ` se_id ` set sample_table)" for s b
    using that by (auto simp: sample_logs_def logs_request_def texts ids(1) nullish_def)
  from replay_returns_every_newer_event [where added = "\<lambda>_. []" and sent = "[]" and parse = Some and after = 40 and i = 42, OF this _ _ ids(2,3)]
  have "\<exists>events newest sent'. fetchWorkflowRunEventsSince (\<lambda>s. s) sample_logs Some ''r'' ''p'' 40 2 [] = Some (Inr (events, newest), sent') \<and>
      map_of events 42 = Some (show_int 42) \<and> newest = Some (Max (se_id ` {e \<in> set sample_table. 40 < se_id e}))"
    by (force simp: sample_table_def)
  moreover have "se_id ` {e \<in> set sample_table. 40 < se_id e} = {44, 43, 42}"
    by (simp add: sample_table_def conj_disj_distribR Collect_disj_eq Collect_conv_if)
  ultimately show ?thesis by auto
qed

lemma replay_loop_ends:
  assumes "finite C" "\<And>b s p s'. fetch b s = (Inr p, s') \<Longrightarrow> lp_nextBefore p \<in> insert None (Some ` C)"
  shows "replay_loop fetch parse after st seen before sent \<noteq> None"
proof (induction "card (C - set seen)" arbitrary: st seen before sent rule: less_induct)
  case less
  obtain r sent' where f: "fetch before sent = (r, sent')" by fastforce
  show ?case
  proof (cases r)
    case (Inl e)
    then show ?thesis by (subst replay_loop.simps) (simp add: f)
  next
    case (Inr page)
    obtain st' reached where sc: "scan_page parse after (lp_events page) st False = (st', reached)" by fastforce
    show ?thesis
    proof (cases "lp_nextBefore page")
      case None
      then show ?thesis by (subst replay_loop.simps) (simp add: f Inr sc)
    next
      case (Some c)
      then have c: "c \<in> C" using assms(2) [of before sent page sent'] f Inr by auto
      have "card (C - set (set_add seen c)) < card (C - set seen)" if "c \<notin> set seen"
        using assms(1) c that by (intro psubset_card_mono) auto
      then show ?thesis using Some less by (subst replay_loop.simps) (simp add: f Inr sc)
    qed
  qed
qed

text \<open>
  C18. The replay ends with any runner whose cursors come from a finite set, whatever its pages hold: it
  returns or fails, at the latest when a cursor is repeated.
\<close>

theorem replay_ends:
  assumes "finite C"
    and "\<And>s rq status page. fetcher s rq = Inr (status, Some page) \<Longrightarrow> lp_nextBefore page \<in> insert None (Some ` C)"
  shows "\<exists>r sent'. fetchWorkflowRunEventsSince enc fetcher parse run project after limit sent = Some (r, sent')"
proof -
  have "replay_loop (\<lambda>before. fetchWorkflowRunLogs enc fetcher run project before limit) parse after
      \<lparr>rp_collected = [], rp_newest = None\<rparr> [] None sent \<noteq> None"
    using assms(2) by (intro replay_loop_ends [OF assms(1)])
      (auto simp: fetchWorkflowRunLogs_def split: if_splits option.splits prod.splits)
  then show ?thesis by (auto simp: fetchWorkflowRunEventsSince_def)
qed

theorem replay_ends_witness:
  "\<exists>r sent'. fetchWorkflowRunEventsSince (\<lambda>s. s)
     (\<lambda>s rq. Inr (200, Some \<lparr>lp_events = [], lp_hasMore = True, lp_nextBefore = Some 9\<rparr>)) Some ''r'' ''p'' 0 2 [] = Some (r, sent')"
  using replay_ends [of "{9}" "\<lambda>s rq. Inr (200, Some \<lparr>lp_events = [], lp_hasMore = True, lp_nextBefore = Some 9\<rparr>)"] by auto

end
