(* ===== verification/Hydration.thy ===== *)
theory Hydration
  imports Scenario_Store Run_Stores Edge_Model
begin

text \<open>
  Remote rows and the client stores: \<^verbatim>\<open>src/ui-v2/src/modules/sync/sync-hydration.tsx\<close> (pulling the
  project), \<^verbatim>\<open>workflow/lib/workflow-run-snapshot.ts\<close> (one run) and the resolution of conflicts in
  \<^verbatim>\<open>sync/SyncProvider.tsx\<close>.

  A row is a JSON value. A property that the row's interface declares as a text is read as the empty
  text, a number as 0 and a status as the first one where the row does not have it. Nodes, edges and tests
  stay JSON in a row; \<open>graph_view\<close> is the reading of that JSON at its declared type, the other direction of
  the stores' \<open>graph_json\<close>. The theory shows that a row reads back as what was serialised, that pulling
  never undoes newer local work and that resolving a conflict by a copy loses nothing.
\<close>

record graph_view =
  gv_nodes :: "json \<Rightarrow> flow_node list"
  gv_edges :: "json \<Rightarrow> flow_edge list"
  gv_tests :: "json \<Rightarrow> scenario_test list"

record hydration_host =
  hh_json :: json_lib
  hh_graph :: graph_json
  hh_view :: graph_view
  hh_toIso :: "int \<Rightarrow> string"
  hh_getTime :: "string \<Rightarrow> int"

section \<open>Reading rows\<close>

definition str_prop :: "json \<Rightarrow> string \<Rightarrow> string" where
  "str_prop row k = nullish (as_string (get_prop row k)) []"

definition num_prop :: "json \<Rightarrow> string \<Rightarrow> int" where
  "num_prop row k = nullish (as_number (get_prop row k)) 0"

definition strings_of :: "json \<Rightarrow> string list" where
  "strings_of v = (case v of JArr xs \<Rightarrow> map (\<lambda>x. nullish (as_string (Some x)) []) xs | _ \<Rightarrow> [])"

definition flag_prop :: "json \<Rightarrow> string \<Rightarrow> bool" where
  "flag_prop row k = truthy_json (get_prop row k)"

definition row_meta :: "json \<Rightarrow> int \<Rightarrow> sync_meta" where
  "row_meta row version =
     \<lparr>sm_version = version, sm_created_at = str_prop row ''created_at'', sm_updated_at = str_prop row ''updated_at'',
      sm_user_id = str_prop row ''user_id'', sm_client_id = str_prop row ''client_id'',
      sm_is_deleted = flag_prop row ''is_deleted''\<rparr>"

text \<open>\<open>as_type\<close> is the cast of the parsed value.\<close>

definition parseJSON :: "json_lib \<Rightarrow> (json \<Rightarrow> 'a) \<Rightarrow> json option \<Rightarrow> 'a \<Rightarrow> 'a" where
  "parseJSON J as_type v fallback =
     (case v of
        None \<Rightarrow> fallback
      | Some JNull \<Rightarrow> fallback
      | Some (JStr s) \<Rightarrow> (case json_parse J s of Some parsed \<Rightarrow> as_type parsed | None \<Rightarrow> fallback)
      | Some other \<Rightarrow> as_type other)"

text \<open>\<open>normalizeEdges\<close> maps over its argument, which has to be an array.\<close>

definition read_edges :: "graph_view \<Rightarrow> json \<Rightarrow> flow_edge list res" where
  "read_edges V v = (case v of JArr xs \<Rightarrow> Inr (normalizeEdges (gv_edges V v) False) | _ \<Rightarrow> Inl TypeError)"

definition read_order :: "json option \<Rightarrow> (string \<times> string list) list" where
  "read_order v = (case v of Some (JObj ps) \<Rightarrow> map (\<lambda>(k, x). (k, strings_of x)) ps | _ \<Rightarrow> [])"

definition deserializeWorkflow :: "hydration_host \<Rightarrow> json \<Rightarrow> workflow res" where
  "deserializeWorkflow X row =
     (let nodes = parseJSON (hh_json X) (gv_nodes (hh_view X)) (get_prop row ''nodes_config'') [];
          metadata = parseJSON (hh_json X) (\<lambda>v. v) (get_prop row ''metadata'') (JObj [])
      in bind_res (parseJSON (hh_json X) (read_edges (hh_view X)) (get_prop row ''edges_config'') (Inr [])) (\<lambda>edges.
         if metadata = JNull then Inl TypeError
         else Inr \<lparr>wf_id = str_prop row ''id'', wf_projectId = str_prop row ''project_id'', wf_name = str_prop row ''name'',
           wf_description = Some (nullish (as_string (get_prop row ''description'')) []), wf_nodes = nodes, wf_edges = edges,
           wf_customTestOrder = read_order (get_prop metadata ''customTestOrder''),
           wf_provenance = Some (nullish (as_string (get_prop metadata ''provenance''))
             (if get_prop metadata ''importedBy'' = Some (JStr ''agent'') then ''mcp'' else ''manual'')),
           wf_meta = row_meta row (num_prop row ''version'')\<rparr>))"

definition deserializeScenario :: "hydration_host \<Rightarrow> json \<Rightarrow> scenario" where
  "deserializeScenario X row =
     \<lparr>sn_id = str_prop row ''id'', sn_projectId = str_prop row ''project_id'', sn_workflowId = str_prop row ''workflow_id'',
      sn_name = str_prop row ''name'', sn_description = Some (nullish (as_string (get_prop row ''description'')) []),
      sn_tests = parseJSON (hh_json X) (gv_tests (hh_view X)) (get_prop row ''tests_config'') [],
      sn_testOrder = parseJSON (hh_json X) strings_of (get_prop row ''test_order'') [],
      sn_meta = row_meta row (num_prop row ''version'')\<rparr>"

definition workflow_status_of :: "string \<Rightarrow> workflow_run_status" where
  "workflow_status_of name = nullish (find (\<lambda>s. workflow_status_name s = name)
     [W_pending, W_running, W_cancelling, W_cancelled, W_completed, W_failed, W_partial_failed, W_cleanup_failed]) W_pending"

definition scenario_status_of :: "string \<Rightarrow> scenario_run_status" where
  "scenario_status_of name = nullish (find (\<lambda>s. scenario_status_name s = name)
     [S_pending, S_running, S_cancelling, S_cancelled, S_completed, S_failed, S_cleanup_failed]) S_pending"

definition test_status_of :: "string \<Rightarrow> test_result_status" where
  "test_status_of name = nullish (find (\<lambda>s. test_status_name s = name) [R_pending, R_running, R_passed, R_failed]) R_pending"

definition started_at :: "hydration_host \<Rightarrow> json \<Rightarrow> int" where
  "started_at X row = hh_getTime X (or_str (as_string (get_prop row ''started_at'')) (str_prop row ''created_at''))"

definition finished_at :: "hydration_host \<Rightarrow> json \<Rightarrow> int option" where
  "finished_at X row = map_option (hh_getTime X) (drop_falsy (as_string (get_prop row ''completed_at'')))"

definition scenario_run_ids :: "hydration_host \<Rightarrow> json \<Rightarrow> string list res" where
  "scenario_run_ids X row =
     (let metadata = parseJSON (hh_json X) (\<lambda>v. v) (get_prop row ''metadata'') (JObj [])
      in if metadata = JNull then Inl TypeError
         else Inr (nullish (map_option strings_of (get_prop metadata ''scenario_run_ids'')) []))"

definition deserializeWorkflowRun :: "hydration_host \<Rightarrow> json \<Rightarrow> workflow_execution res" where
  "deserializeWorkflowRun X row =
     bind_res (scenario_run_ids X row) (\<lambda>runs.
       Inr \<lparr>ex_workflowRunId = str_prop row ''id'', ex_projectId = str_prop row ''project_id'', ex_workflowId = str_prop row ''workflow_id'',
         ex_status = workflow_status_of (str_prop row ''status''), ex_logs = nullish (map_option strings_of (get_prop row ''logs'')) [],
         ex_result = get_prop row ''summary'', ex_error = as_string (get_prop row ''error''), ex_startedAt = started_at X row,
         ex_finishedAt = finished_at X row, ex_scenarioRunIds = runs, ex_lastEventId = None, ex_queue = no_queue_info,
         ex_meta = row_meta row (num_prop row ''version'')\<rparr>)"

definition deserializeScenarioRun :: "hydration_host \<Rightarrow> json \<Rightarrow> scenario_run" where
  "deserializeScenarioRun X row =
     \<lparr>sr_id = str_prop row ''id'', sr_projectId = str_prop row ''project_id'', sr_workflowRunId = str_prop row ''workflow_run_id'',
      sr_workflowId = str_prop row ''workflow_id'', sr_scenarioId = str_prop row ''scenario_id'',
      sr_scenarioName = nullish (as_string (get_prop row ''scenario_name'')) ''Scenario'',
      sr_backendSessionId = drop_falsy (as_string (get_prop row ''backend_session_id'')),
      sr_status = scenario_status_of (str_prop row ''status''), sr_result = get_prop row ''result'',
      sr_error = drop_falsy (as_string (get_prop row ''error'')), sr_phase = None, sr_checkpointIndex = None,
      sr_logs = nullish (map_option strings_of (get_prop row ''logs'')) [], sr_startedAt = started_at X row,
      sr_finishedAt = finished_at X row, sr_meta = row_meta row 1\<rparr>"

definition deserializeTestResult :: "hydration_host \<Rightarrow> json \<Rightarrow> test_result" where
  "deserializeTestResult X row =
     \<lparr>tt_id = str_prop row ''id'', tt_projectId = str_prop row ''project_id'', tt_sessionId = str_prop row ''session_id'',
      tt_workflowRunId = as_string (get_prop row ''workflow_run_id''), tt_workflowId = str_prop row ''workflow_id'',
      tt_scenarioRunId = None, tt_scenarioId = as_string (get_prop row ''scenario_id''),
      tt_scenarioName = as_string (get_prop row ''scenario_name''), tt_testName = str_prop row ''test_name'',
      tt_testType = str_prop row ''test_type'', tt_status = test_status_of (str_prop row ''status''),
      tt_resultData = parseJSON (hh_json X) (\<lambda>v. v) (get_prop row ''result_data'') JNull,
      tt_durationMs = num_prop row ''duration_ms'', tt_executedAt = str_prop row ''executed_at'', tt_containerLogs = None,
      tt_meta = row_meta row 1\<rparr>"

section \<open>Pulling the project\<close>

record client_stores =
  cl_workflows :: workflow_synced
  cl_scenarios :: scenario_synced
  cl_executions :: execution_synced
  cl_scenarioRuns :: scenario_run_synced
  cl_testResults :: test_result_synced

text \<open>The loop of the five \<open>hydrate\<close> functions: the number of rows taken and the store.\<close>

fun hydrate_rows :: "(json \<Rightarrow> bool) \<Rightarrow> (json \<Rightarrow> 'e res) \<Rightarrow> ('e \<Rightarrow> 's \<Rightarrow> 's) \<Rightarrow> json list \<Rightarrow> nat \<Rightarrow> 's \<Rightarrow> nat res \<times> 's" where
  "hydrate_rows skip decode put [] n s = (Inr n, s)"
| "hydrate_rows skip decode put (row # rows) n s =
     (if skip row then hydrate_rows skip decode put rows n s
      else case decode row of
        Inl e \<Rightarrow> (Inl e, s)
      | Inr x \<Rightarrow> hydrate_rows skip decode put rows (n + 1) (put x s))"

definition row_deleted :: "json \<Rightarrow> bool" where
  "row_deleted row = flag_prop row ''is_deleted''"

definition run_row_skipped :: "json \<Rightarrow> bool" where
  "run_row_skipped row \<longleftrightarrow> row_deleted row \<or> \<not> truthy_json (get_prop row ''scenario_id'')"

definition hydrateWorkflows :: "hydration_host \<Rightarrow> bool \<Rightarrow> json list \<Rightarrow> workflow_synced \<Rightarrow> nat res \<times> workflow_synced" where
  "hydrateWorkflows X force rows =
     hydrate_rows row_deleted (deserializeWorkflow X)
       (if force then replaceWorkflowFromSync (hh_graph X) else upsertWorkflowFromSync (hh_graph X)) rows 0"

definition hydrateScenarios :: "hydration_host \<Rightarrow> bool \<Rightarrow> json list \<Rightarrow> scenario_synced \<Rightarrow> nat res \<times> scenario_synced" where
  "hydrateScenarios X force rows =
     hydrate_rows row_deleted (\<lambda>row. Inr (deserializeScenario X row))
       (if force then replaceScenarioFromSync (hh_graph X) else upsertScenarioFromSync (hh_graph X)) rows 0"

definition hydrateWorkflowRuns :: "hydration_host \<Rightarrow> json list \<Rightarrow> execution_synced \<Rightarrow> nat res \<times> execution_synced" where
  "hydrateWorkflowRuns X rows =
     hydrate_rows row_deleted (deserializeWorkflowRun X) (upsertExecutionFromSync (hh_toIso X)) rows 0"

definition hydrateScenarioRuns :: "hydration_host \<Rightarrow> json list \<Rightarrow> scenario_run_synced \<Rightarrow> nat res \<times> scenario_run_synced" where
  "hydrateScenarioRuns X rows =
     hydrate_rows run_row_skipped (\<lambda>row. Inr (deserializeScenarioRun X row)) (upsertScenarioRunFromSync (hh_toIso X)) rows 0"

definition hydrateTestResults :: "hydration_host \<Rightarrow> json list \<Rightarrow> test_result_synced \<Rightarrow> nat res \<times> test_result_synced" where
  "hydrateTestResults X rows =
     hydrate_rows row_deleted (\<lambda>row. Inr (deserializeTestResult X row))
       (upsertTestResultFromSync (json_stringify (hh_json X))) rows 0"

record hydration_result =
  hr_success :: bool
  hr_workflowCount :: nat
  hr_scenarioCount :: nat
  hr_workflowRunCount :: nat
  hr_scenarioRunCount :: nat
  hr_testResultCount :: nat
  hr_error :: "js_error option"

definition failed_hydration :: "js_error \<Rightarrow> hydration_result" where
  "failed_hydration e = \<lparr>hr_success = False, hr_workflowCount = 0, hr_scenarioCount = 0, hr_workflowRunCount = 0,
     hr_scenarioRunCount = 0, hr_testResultCount = 0, hr_error = Some e\<rparr>"

definition rows_of :: "json \<Rightarrow> string \<Rightarrow> json list" where
  "rows_of response k = nullish (as_array (get_prop response k)) []"

text \<open>
  \<open>hydrateFromServer\<close> once the persisted stores are loaded; \<open>pulled\<close> is what \<open>syncService.pull()\<close> returned
  or threw. A row that cannot be read ends the pull where it stands.
\<close>

definition hydrateFromServer ::
  "hydration_host \<Rightarrow> bool \<Rightarrow> json res \<Rightarrow> client_stores \<Rightarrow> hydration_result \<times> client_stores" where
  "hydrateFromServer X force pulled st =
     (case pulled of
        Inl e \<Rightarrow> (failed_hydration e, st)
      | Inr response \<Rightarrow>
      if response = JNull then (failed_hydration TypeError, st) else
      case hydrateWorkflows X force (rows_of response ''workflows'') (cl_workflows st) of
        (Inl e, ws) \<Rightarrow> (failed_hydration e, st\<lparr>cl_workflows := ws\<rparr>)
      | (Inr nw, ws) \<Rightarrow>
      case hydrateScenarios X force (rows_of response ''scenarios'') (cl_scenarios st) of
        (Inl e, sc) \<Rightarrow> (failed_hydration e, st\<lparr>cl_workflows := ws, cl_scenarios := sc\<rparr>)
      | (Inr ns, sc) \<Rightarrow>
      case hydrateWorkflowRuns X (rows_of response ''workflow_runs'') (cl_executions st) of
        (Inl e, ex) \<Rightarrow> (failed_hydration e, st\<lparr>cl_workflows := ws, cl_scenarios := sc, cl_executions := ex\<rparr>)
      | (Inr ne, ex) \<Rightarrow>
      case hydrateScenarioRuns X (rows_of response ''sessions'') (cl_scenarioRuns st) of
        (Inl e, rn) \<Rightarrow> (failed_hydration e,
           st\<lparr>cl_workflows := ws, cl_scenarios := sc, cl_executions := ex, cl_scenarioRuns := rn\<rparr>)
      | (Inr nr, rn) \<Rightarrow>
      case hydrateTestResults X (rows_of response ''test_results'') (cl_testResults st) of
        (Inl e, tr) \<Rightarrow> (failed_hydration e,
           st\<lparr>cl_workflows := ws, cl_scenarios := sc, cl_executions := ex, cl_scenarioRuns := rn, cl_testResults := tr\<rparr>)
      | (Inr nt, tr) \<Rightarrow>
          (\<lparr>hr_success = True, hr_workflowCount = nw, hr_scenarioCount = ns, hr_workflowRunCount = ne,
            hr_scenarioRunCount = nr, hr_testResultCount = nt, hr_error = None\<rparr>,
           st\<lparr>cl_workflows := ws, cl_scenarios := sc, cl_executions := ex, cl_scenarioRuns := rn, cl_testResults := tr\<rparr>))"

definition needsHydration :: "client_stores \<Rightarrow> bool" where
  "needsHydration st \<longleftrightarrow>
     ws_workflows (sy_state (cl_workflows st)) = [] \<and> sn_scenarios (sy_state (cl_scenarios st)) = [] \<and>
     es_executions (sy_state (cl_executions st)) = [] \<and> rn_scenarioRuns (sy_state (cl_scenarioRuns st)) = [] \<and>
     tr_testResults (sy_state (cl_testResults st)) = []"

text \<open>The start of a session: pull, send what was queued, pull again, start the timer.\<close>

definition initializeSyncWithHydration ::
  "hydration_host \<Rightarrow> sync_host \<Rightarrow> (sync_service \<Rightarrow> sync_change list \<Rightarrow> 'w \<Rightarrow> sync_batch_response res \<times> 'w) \<Rightarrow>
   ('w \<Rightarrow> json res) \<Rightarrow> client_stores \<times> sync_service \<times> 'w \<Rightarrow> client_stores \<times> sync_service \<times> 'w" where
  "initializeSyncWithHydration X H send pull cfg =
     (case cfg of (st, s, w) \<Rightarrow>
        let st1 = snd (hydrateFromServer X False (pull w) st)
        in case flush H send (s, w) of (_, s', w') \<Rightarrow>
             (snd (hydrateFromServer X False (pull w') st1), start s', w'))"

section \<open>The snapshot of one run\<close>

text \<open>This module has its own decoders: an empty text counts as missing, and values may be nested JSON text.\<close>

definition snapshot_parseJSON :: "json_lib \<Rightarrow> (json \<Rightarrow> 'a) \<Rightarrow> json option \<Rightarrow> 'a \<Rightarrow> 'a" where
  "snapshot_parseJSON J as_type v fallback = (if v = Some (JStr []) then fallback else parseJSON J as_type v fallback)"

definition timeValue :: "hydration_host \<Rightarrow> string option \<Rightarrow> string \<Rightarrow> int" where
  "timeValue X v fallback = hh_getTime X (or_str v fallback)"

definition snapshot_workflow_run :: "hydration_host \<Rightarrow> json \<Rightarrow> workflow_execution res" where
  "snapshot_workflow_run X row =
     (let metadata = snapshot_parseJSON (hh_json X) (\<lambda>v. v) (get_prop row ''metadata'') (JObj [])
      in if metadata = JNull then Inl TypeError
         else Inr \<lparr>ex_workflowRunId = str_prop row ''id'', ex_projectId = str_prop row ''project_id'', ex_workflowId = str_prop row ''workflow_id'',
           ex_status = workflow_status_of (str_prop row ''status''),
           ex_logs = snapshot_parseJSON (hh_json X) strings_of (get_prop row ''logs'') [],
           ex_result = snapshot_parseJSON (hh_json X) Some (get_prop row ''summary'') (get_prop row ''summary''),
           ex_error = as_string (get_prop row ''error''),
           ex_startedAt = timeValue X (as_string (get_prop row ''started_at'')) (str_prop row ''created_at''),
           ex_finishedAt = finished_at X row,
           ex_scenarioRunIds = nullish (map_option strings_of (get_prop metadata ''scenario_run_ids'')) [],
           ex_lastEventId = None, ex_queue = no_queue_info, ex_meta = row_meta row (num_prop row ''version'')\<rparr>)"

definition snapshot_scenario_run :: "hydration_host \<Rightarrow> json \<Rightarrow> scenario_run" where
  "snapshot_scenario_run X row =
     \<lparr>sr_id = str_prop row ''id'', sr_projectId = str_prop row ''project_id'', sr_workflowRunId = str_prop row ''workflow_run_id'',
      sr_workflowId = str_prop row ''workflow_id'', sr_scenarioId = str_prop row ''scenario_id'',
      sr_scenarioName = nullish (as_string (get_prop row ''scenario_name'')) ''Scenario'',
      sr_backendSessionId = drop_falsy (as_string (get_prop row ''backend_session_id'')),
      sr_status = scenario_status_of (str_prop row ''status''),
      sr_result = snapshot_parseJSON (hh_json X) Some (get_prop row ''result'') (get_prop row ''result''),
      sr_error = drop_falsy (as_string (get_prop row ''error'')), sr_phase = as_string (get_prop row ''phase''),
      sr_checkpointIndex = as_number (get_prop row ''checkpoint_index''),
      sr_logs = snapshot_parseJSON (hh_json X) strings_of (get_prop row ''logs'') [],
      sr_startedAt = timeValue X (as_string (get_prop row ''started_at'')) (str_prop row ''created_at''),
      sr_finishedAt = finished_at X row, sr_meta = row_meta row (nullish (as_number (get_prop row ''version'')) 1)\<rparr>"

definition read_logs :: "json \<Rightarrow> (string \<times> string) list option" where
  "read_logs v = (case v of JObj ps \<Rightarrow> Some (map (\<lambda>(k, x). (k, nullish (as_string (Some x)) [])) ps) | _ \<Rightarrow> None)"

definition snapshot_test_result :: "hydration_host \<Rightarrow> (string \<times> string) list \<Rightarrow> json \<Rightarrow> test_result" where
  "snapshot_test_result X scenarioRunIdsBySession row =
     (deserializeTestResult X row)
       \<lparr>tt_scenarioRunId := map_of scenarioRunIdsBySession (str_prop row ''session_id''),
        tt_resultData := snapshot_parseJSON (hh_json X) (\<lambda>v. v) (get_prop row ''result_data'') JNull,
        tt_containerLogs := snapshot_parseJSON (hh_json X) read_logs (get_prop row ''container_logs'') None\<rparr>"

definition queue_info_of :: "json \<Rightarrow> queue_info" where
  "queue_info_of q =
     \<lparr>qi_position = as_number (get_prop q ''position''), qi_queuedAt = as_string (get_prop q ''queuedAt''),
      qi_workerConcurrency = as_number (get_prop q ''workerConcurrency''), qi_estimatedRun = get_prop q ''estimatedRun'',
      qi_estimatedWait = get_prop q ''estimatedWait'', qi_estimatedTotal = get_prop q ''estimatedTotal''\<rparr>"

definition snapshot_queue :: "json \<Rightarrow> queue_info option" where
  "snapshot_queue snapshot =
     (case get_prop snapshot ''queue'' of
        Some q \<Rightarrow> if truthy_json (Some q) then Some (queue_info_of q) else None
      | None \<Rightarrow> None)"

fun take_scenario_runs :: "hydration_host \<Rightarrow> json list \<Rightarrow> (string \<times> string) list \<Rightarrow> scenario_run_synced \<Rightarrow>
    (string \<times> string) list \<times> scenario_run_synced" where
  "take_scenario_runs X [] sessions s = (sessions, s)"
| "take_scenario_runs X (row # rows) sessions s =
     (if run_row_skipped row then take_scenario_runs X rows sessions s
      else take_scenario_runs X rows (AList.update (str_prop row ''id'') (str_prop row ''id'') sessions)
             (upsertScenarioRunFromSync (hh_toIso X) (snapshot_scenario_run X row) s))"

fun take_test_results :: "hydration_host \<Rightarrow> (string \<times> string) list \<Rightarrow> json list \<Rightarrow> test_result_synced \<Rightarrow> test_result_synced" where
  "take_test_results X sessions [] s = s"
| "take_test_results X sessions (row # rows) s =
     (if row_deleted row then take_test_results X sessions rows s
      else take_test_results X sessions rows
             (upsertTestResultFromSync (json_stringify (hh_json X)) (snapshot_test_result X sessions row) s))"

definition hydrateWorkflowRunSnapshot :: "hydration_host \<Rightarrow> json \<Rightarrow> client_stores \<Rightarrow> unit res \<times> client_stores" where
  "hydrateWorkflowRunSnapshot X snapshot st =
     (case get_prop snapshot ''workflowRun'' of
        None \<Rightarrow> (Inl TypeError, st)
      | Some JNull \<Rightarrow> (Inl TypeError, st)
      | Some run \<Rightarrow>
          (case snapshot_workflow_run X run of
             Inl e \<Rightarrow> (Inl e, st)
           | Inr execution \<Rightarrow>
               let executions = updateQueueInfo (hh_toIso X) (str_prop run ''id'') (snapshot_queue snapshot)
                     (upsertExecutionFromSync (hh_toIso X) execution (cl_executions st));
                   (sessions, runs) = take_scenario_runs X (rows_of snapshot ''scenarioRuns'') [] (cl_scenarioRuns st)
               in (Inr (), st\<lparr>cl_executions := executions, cl_scenarioRuns := runs,
                    cl_testResults := take_test_results X sessions (rows_of snapshot ''testResults'') (cl_testResults st)\<rparr>)))"

section \<open>Conflicts\<close>

text \<open>The dialog shows one conflict; the event that reports conflicts sets it only when none is shown.\<close>

definition conflict_listener :: "conflict_info list \<Rightarrow> conflict_info option \<Rightarrow> conflict_info option" where
  "conflict_listener conflicts current =
     orElse current (find (\<lambda>item. ci_client_version item < ci_current_version item) conflicts)"

definition acceptServerVersion ::
  "hydration_host \<Rightarrow> conflict_info option \<Rightarrow> client_stores \<Rightarrow> unit res \<times> conflict_info option \<times> client_stores" where
  "acceptServerVersion X conflict st =
     (case Option.bind conflict ci_current_data of
        None \<Rightarrow> (Inr (), None, st)
      | Some current \<Rightarrow>
          if \<not> truthy_json (Some current) then (Inr (), None, st)
          else case ci_entity_type (the conflict) of
            Workflow \<Rightarrow>
              (case deserializeWorkflow X current of
                 Inl e \<Rightarrow> (Inl e, conflict, st)
               | Inr flow \<Rightarrow> (Inr (), None, st\<lparr>cl_workflows := replaceWorkflowFromSync (hh_graph X) flow (cl_workflows st)\<rparr>))
          | Scenario \<Rightarrow>
              (Inr (), None, st\<lparr>cl_scenarios :=
                 replaceScenarioFromSync (hh_graph X) (deserializeScenario X current) (cl_scenarios st)\<rparr>)
          | _ \<Rightarrow> (Inr (), None, st))"

definition text_or :: "json \<Rightarrow> string \<Rightarrow> string \<Rightarrow> string" where
  "text_or v k d = (case get_prop v k of None \<Rightarrow> d | Some JNull \<Rightarrow> d | Some x \<Rightarrow> js_text x)"

definition cast_or :: "(json \<Rightarrow> 'a) \<Rightarrow> json \<Rightarrow> string \<Rightarrow> 'a \<Rightarrow> 'a" where
  "cast_or as_type v k d = (case get_prop v k of None \<Rightarrow> d | Some JNull \<Rightarrow> d | Some x \<Rightarrow> as_type x)"

definition copy_workflow ::
  "hydration_host \<Rightarrow> sync_env \<Rightarrow> string \<Rightarrow> json \<Rightarrow> workflow_synced \<Rightarrow> unit res \<times> workflow_synced" where
  "copy_workflow X E i local store =
     (case createWorkflow (hh_graph X) E i (text_or local ''project_id'' [])
             (text_or local ''name'' ''Workflow'' @ '' (conflict copy)'') (Some (text_or local ''description'' [])) store of
        (Inl e, store') \<Rightarrow> (Inl e, store')
      | (Inr new, store') \<Rightarrow>
          updateWorkflowGraph (hh_graph X) E new (cast_or (gv_nodes (hh_view X)) local ''nodes_config'' [])
            (cast_or (gv_edges (hh_view X)) local ''edges_config'' []) None store')"

definition copy_scenario ::
  "hydration_host \<Rightarrow> sync_env \<Rightarrow> workflow_synced \<Rightarrow> string \<Rightarrow> json \<Rightarrow> scenario_synced \<Rightarrow> unit res \<times> scenario_synced" where
  "copy_scenario X E flows i local store =
     (case createScenario (hh_graph X) E flows i (text_or local ''workflow_id'' [])
             (Some (text_or local ''name'' ''Scenario'' @ '' (conflict copy)'')) store of
        (Inl e, store') \<Rightarrow> (Inl e, store')
      | (Inr new, store') \<Rightarrow>
          updateScenario (hh_graph X) E new
            \<lparr>up_name = None, up_description = Some (text_or local ''description'' []),
             up_tests = Some (cast_or (gv_tests (hh_view X)) local ''tests_config'' []),
             up_testOrder = Some (cast_or strings_of local ''test_order'' [])\<rparr> store')"

definition keepLocalCopy ::
  "hydration_host \<Rightarrow> sync_env \<Rightarrow> string \<Rightarrow> conflict_info option \<Rightarrow> client_stores \<Rightarrow> unit res \<times> conflict_info option \<times> client_stores" where
  "keepLocalCopy X E i conflict st =
     (case Option.bind conflict ci_local_data of
        None \<Rightarrow> acceptServerVersion X conflict st
      | Some local \<Rightarrow>
          if \<not> truthy_json (Some local) then acceptServerVersion X conflict st
          else case ci_entity_type (the conflict) of
            Workflow \<Rightarrow>
              (case copy_workflow X E i local (cl_workflows st) of
                 (Inl e, ws) \<Rightarrow> (Inl e, conflict, st\<lparr>cl_workflows := ws\<rparr>)
               | (Inr _, ws) \<Rightarrow> acceptServerVersion X conflict (st\<lparr>cl_workflows := ws\<rparr>))
          | Scenario \<Rightarrow>
              (case copy_scenario X E (cl_workflows st) i local (cl_scenarios st) of
                 (Inl e, sc) \<Rightarrow> (Inl e, conflict, st\<lparr>cl_scenarios := sc\<rparr>)
               | (Inr _, sc) \<Rightarrow> acceptServerVersion X conflict (st\<lparr>cl_scenarios := sc\<rparr>))
          | _ \<Rightarrow> acceptServerVersion X conflict st)"

section \<open>Rows read back\<close>

lemma strings_of_str_list [simp]: "strings_of (str_list xs) = xs"
  by (simp add: strings_of_def str_list_def comp_def as_string_def nullish_def)

lemma parseJSON_array [simp]: "parseJSON J as_type (Some (JArr xs)) d = as_type (JArr xs)"
  by (simp add: parseJSON_def)

lemma parseJSON_object [simp]: "parseJSON J as_type (Some (JObj ps)) d = as_type (JObj ps)"
  by (simp add: parseJSON_def)

lemma row_meta_fields:
  assumes "\<forall>k \<in> set [''version'', ''created_at'', ''updated_at'', ''user_id'', ''client_id'', ''is_deleted'']. map_of ps k = None"
  shows "row_meta (JObj (ps @ meta_fields m)) (num_prop (JObj (ps @ meta_fields m)) ''version'') = m"
  using assms by (simp add: row_meta_def num_prop_def str_prop_def flag_prop_def meta_fields_def map_add_def as_string_def
      as_number_def nullish_def truthy_json_def)

lemma read_order_obj [simp]: "read_order (Some (JObj (map (\<lambda>(k, v). (k, str_list v)) m))) = m"
  by (simp add: read_order_def comp_def case_prod_beta)

text \<open>
  C27. What a client sends is what the others pull. For a workflow and a scenario whose nodes, edges and
  tests read back from their JSON, reading the serialised workflow gives the same workflow, with its edges
  in normal form, a missing description read as the empty one and a missing origin as \<open>manual\<close>; reading
  the serialised scenario gives the same scenario, a missing description again read as the empty one.
\<close>

theorem serialized_rows_read_back:
  assumes "map_of (ws_workflows flows) i = Some w" "map_of (sn_scenarios scenarios) j = Some s"
    and "serializeWorkflow (hh_graph X) flows i = Some row" "serializeScenario (hh_graph X) scenarios j = Some row'"
    and "gj_nodes (hh_graph X) (wf_nodes w) = JArr ns" "gv_nodes (hh_view X) (JArr ns) = wf_nodes w"
    and "gj_edges (hh_graph X) (wf_edges w) = JArr es" "gv_edges (hh_view X) (JArr es) = wf_edges w"
    and "gj_tests (hh_graph X) (sn_tests s) = JArr ts" "gv_tests (hh_view X) (JArr ts) = sn_tests s"
  shows "deserializeWorkflow X row = Inr (w\<lparr>wf_description := Some (or_str (wf_description w) []),
       wf_edges := normalizeEdges (wf_edges w) False, wf_provenance := Some (nullish (wf_provenance w) ''manual'')\<rparr>) \<and>
    deserializeScenario X row' = s\<lparr>sn_description := Some (or_str (sn_description s) [])\<rparr>"
proof
  let ?md = "JObj ((''customTestOrder'', JObj (map (\<lambda>(k, v). (k, str_list v)) (wf_customTestOrder w))) #
      (case wf_provenance w of Some p \<Rightarrow> [(''provenance'', JStr p)] | None \<Rightarrow> []))"
  let ?ps = "[(''id'', JStr (wf_id w)), (''project_id'', JStr (wf_projectId w)), (''name'', JStr (wf_name w)),
      (''description'', JStr (or_str (wf_description w) [])), (''nodes_config'', JArr ns), (''edges_config'', JArr es),
      (''metadata'', ?md)]"
  have row: "row = JObj (?ps @ meta_fields (wf_meta w))" using assms(1,3,5,7) by (simp add: serializeWorkflow_def)
  have m: "row_meta row (num_prop row ''version'') = wf_meta w"
    unfolding row by (rule row_meta_fields) simp
  have p: "str_prop row ''id'' = wf_id w" "str_prop row ''project_id'' = wf_projectId w" "str_prop row ''name'' = wf_name w"
    "get_prop row ''description'' = Some (JStr (or_str (wf_description w) []))" "get_prop row ''nodes_config'' = Some (JArr ns)"
    "get_prop row ''edges_config'' = Some (JArr es)" "get_prop row ''metadata'' = Some ?md"
    unfolding row by (simp_all add: str_prop_def as_string_def nullish_def)
  show "deserializeWorkflow X row = Inr (w\<lparr>wf_description := Some (or_str (wf_description w) []),
       wf_edges := normalizeEdges (wf_edges w) False, wf_provenance := Some (nullish (wf_provenance w) ''manual'')\<rparr>)"
    unfolding deserializeWorkflow_def p parseJSON_object Let_def m
    by (cases "wf_provenance w") (simp_all add: read_edges_def assms(6,8) as_string_def nullish_def)
next
  let ?ps = "[(''id'', JStr (sn_id s)), (''project_id'', JStr (sn_projectId s)), (''workflow_id'', JStr (sn_workflowId s)),
      (''name'', JStr (sn_name s)), (''description'', JStr (or_str (sn_description s) [])), (''tests_config'', JArr ts),
      (''test_order'', str_list (sn_testOrder s)), (''metadata'', JObj [])]"
  have row: "row' = JObj (?ps @ meta_fields (sn_meta s))" using assms(2,4,9) by (simp add: serializeScenario_def)
  have m: "row_meta row' (num_prop row' ''version'') = sn_meta s"
    unfolding row by (rule row_meta_fields) simp
  have p: "str_prop row' ''id'' = sn_id s" "str_prop row' ''project_id'' = sn_projectId s"
    "str_prop row' ''workflow_id'' = sn_workflowId s" "str_prop row' ''name'' = sn_name s"
    "get_prop row' ''description'' = Some (JStr (or_str (sn_description s) []))" "get_prop row' ''tests_config'' = Some (JArr ts)"
    "get_prop row' ''test_order'' = Some (JArr (map JStr (sn_testOrder s)))"
    unfolding row by (simp_all add: str_prop_def as_string_def nullish_def str_list_def)
  show "deserializeScenario X row' = s\<lparr>sn_description := Some (or_str (sn_description s) [])\<rparr>"
    unfolding deserializeScenario_def p m parseJSON_array
    using strings_of_str_list [of "sn_testOrder s"] assms(10) by (simp add: as_string_def nullish_def str_list_def)
qed

definition sample_view :: hydration_host where
  "sample_view = \<lparr>hh_json = \<lparr>json_parse = (\<lambda>_. None), json_stringify = (\<lambda>_. [])\<rparr>,
     hh_graph = \<lparr>gj_nodes = (\<lambda>_. JArr []), gj_edges = (\<lambda>_. JArr []), gj_tests = (\<lambda>_. JArr [])\<rparr>,
     hh_view = \<lparr>gv_nodes = (\<lambda>_. []), gv_edges = (\<lambda>_. []), gv_tests = (\<lambda>_. [])\<rparr>,
     hh_toIso = (\<lambda>_. []), hh_getTime = (\<lambda>_. 0)\<rparr>"

lemma sample_rows:
  "\<exists>row. serializeWorkflow (hh_graph sample_view) (workflow_store_init\<lparr>ws_workflows := [(''w1'', sample_workflow v n)]\<rparr>) ''w1'' = Some row"
  "\<exists>row. serializeScenario (hh_graph sample_view) (scenario_store_init\<lparr>sn_scenarios := [(''s1'', sample_scenario)]\<rparr>) ''s1'' = Some row"
  by (simp_all add: serializeWorkflow_def serializeScenario_def)

theorem serialized_rows_read_back_witness:
  "\<exists>row row'. serializeWorkflow (hh_graph sample_view) (workflow_store_init\<lparr>ws_workflows := [(''w1'', sample_workflow 4 ''a'')]\<rparr>) ''w1'' = Some row \<and>
     serializeScenario (hh_graph sample_view) (scenario_store_init\<lparr>sn_scenarios := [(''s1'', sample_scenario)]\<rparr>) ''s1'' = Some row' \<and>
     deserializeWorkflow sample_view row = Inr ((sample_workflow 4 ''a'')\<lparr>wf_description := Some [], wf_provenance := Some ''manual''\<rparr>) \<and>
     deserializeScenario sample_view row' = sample_scenario\<lparr>sn_description := Some []\<rparr>"
proof -
  obtain row row' where
    r: "serializeWorkflow (hh_graph sample_view) (workflow_store_init\<lparr>ws_workflows := [(''w1'', sample_workflow 4 ''a'')]\<rparr>) ''w1'' = Some row"
      "serializeScenario (hh_graph sample_view) (scenario_store_init\<lparr>sn_scenarios := [(''s1'', sample_scenario)]\<rparr>) ''s1'' = Some row'"
    using sample_rows by blast
  have "deserializeWorkflow sample_view row = Inr ((sample_workflow 4 ''a'')\<lparr>
       wf_description := Some (or_str (wf_description (sample_workflow 4 ''a'')) []),
       wf_edges := normalizeEdges (wf_edges (sample_workflow 4 ''a'')) False,
       wf_provenance := Some (nullish (wf_provenance (sample_workflow 4 ''a'')) ''manual'')\<rparr>) \<and>
     deserializeScenario sample_view row' = sample_scenario\<lparr>sn_description := Some (or_str (sn_description sample_scenario) [])\<rparr>"
    by (rule serialized_rows_read_back [OF _ _ r, where ns = "[]" and es = "[]" and ts = "[]"])
       (simp_all add: sample_view_def sample_workflow_def sample_scenario_def)
  then show ?thesis using r by (auto simp: sample_workflow_def sample_scenario_def js_opt normalizeEdges_def)
qed

section \<open>Pulling keeps newer work\<close>

lemma not_older_trans:
  "\<not> keeps_local l m \<Longrightarrow> \<not> keeps_local m n \<Longrightarrow> \<not> keeps_local l n"
  using keeps_local_order by metis

lemma hydrate_rows_count:
  "hydrate_rows skip decode put rows n s = (Inr m, s') \<Longrightarrow> m = n + length (filter (\<lambda>row. \<not> skip row) rows)"
  by (induction skip decode put rows n s rule: hydrate_rows.induct) (auto split: if_splits sum.splits)

context lww_store
begin

lemma hydrate_keeps:
  assumes "hydrate_rows skip decode pull rows n s = (r, s')" "get s i = Some old"
  shows "\<exists>new. get s' i = Some new \<and> \<not> keeps_local (meta old) (meta new)"
  using assms
proof (induction rows arbitrary: n s old)
  case Nil then show ?case by (simp add: keeps_local_order(1))
next
  case (Cons row rows)
  show ?case
  proof (cases "skip row \<or> (\<exists>e. decode row = Inl e)")
    case True then show ?thesis using Cons by (auto simp: keeps_local_order(1) split: if_splits)
  next
    case False
    then obtain x where x: "decode row = Inr x" by (cases "decode row") auto
    then obtain mid where mid: "get (pull x s) i = Some mid" "\<not> keeps_local (meta old) (meta mid)"
      using pull_monotone [OF Cons.prems(2)] by blast
    have "hydrate_rows skip decode pull rows (n + 1) (pull x s) = (r, s')" using Cons.prems(1) False x by simp
    from Cons.IH [OF this mid(1)] show ?thesis using mid(2) not_older_trans by blast
  qed
qed

lemma hydrate_delivers:
  assumes "hydrate_rows skip decode pull rows n s = (Inr m, s')" "row \<in> set rows" "\<not> skip row"
  shows "\<exists>e new. decode row = Inr e \<and> get s' (ident e) = Some new \<and> \<not> keeps_local (meta e) (meta new)"
  using assms
proof (induction rows arbitrary: n s)
  case (Cons r rows)
  show ?case
  proof (cases "skip r")
    case False
    then obtain x where x: "decode r = Inr x" "hydrate_rows skip decode pull rows (n + 1) (pull x s) = (Inr m, s')"
      using Cons.prems(1) by (auto split: sum.splits)
    have "\<exists>mid. get (pull x s) (ident x) = Some mid \<and> \<not> keeps_local (meta x) (meta mid)"
      by (auto simp: get_pull keeps_local_order(1) split: option.splits dest: keeps_local_order(2))
    then have "\<exists>new. get s' (ident x) = Some new \<and> \<not> keeps_local (meta x) (meta new)"
      using hydrate_keeps [OF x(2)] not_older_trans by blast
    then show ?thesis using Cons.IH [OF x(2)] Cons.prems x(1) by auto
  qed (use Cons in auto)
qed simp

end


definition sample_stores :: client_stores where
  "sample_stores = \<lparr>cl_workflows = sample_store, cl_scenarios = sample_scenarios,
     cl_executions = synced_init execution_store_init,
     cl_scenarioRuns = synced_init \<lparr>rn_scenarioRuns = [], rn_currentEntityId = None\<rparr>,
     cl_testResults = synced_init \<lparr>tr_testResults = [], tr_currentEntityId = None\<rparr>\<rparr>"

definition sample_pull :: json where
  "sample_pull = JObj [(''workflows'', JArr [JObj [(''id'', JStr ''w2''), (''version'', JNum 1)]])]"


section \<open>Resolving a conflict\<close>

lemma copy_workflow_new:
  assumes "getUserId (env_browser E) = Inr u" "text_or local ''name'' ''Workflow'' = n"
    and "cast_or (gv_nodes (hh_view X)) local ''nodes_config'' [] = ns"
    and "cast_or (gv_edges (hh_view X)) local ''edges_config'' [] = es"
  shows "\<exists>store' copy. copy_workflow X E i local store = (Inr (), store') \<and> getWorkflow i store' = Some copy \<and>
    wf_projectId copy = text_or local ''project_id'' [] \<and> wf_name copy = n @ '' (conflict copy)'' \<and>
    wf_nodes copy = ns \<and> wf_edges copy = es \<and> wf_customTestOrder copy = [] \<and>
    (\<forall>j. j \<noteq> i \<longrightarrow> getWorkflow j store' = getWorkflow j store) \<and>
    ws_currentEntityId (sy_state store') = Some i \<and>
    sy_tracker store' i = Some (coalesceChangeType (Some (coalesceChangeType (sy_tracker store i) Insert)) Update)"
  using assms
  by (auto simp: copy_workflow_def createWorkflow_def addSyncMetadata_def bump_metadata_def updateWorkflowGraph_def
      updateWorkflow_def getWorkflow_def track_def nullish_def)

text \<open>
  Keeping a copy in a conflict loses nothing of the graph: for a conflict over a workflow whose local
  version is the one the client tried to send and whose server version can be read, a signed-in user gets,
  under a new id that the store does not use yet, a workflow with the local name marked as a copy, in the
  local project, with the local nodes and edges, tracked as a workflow to insert; under the server row's id
  the server's version; everything else is untouched and the dialog is closed.
\<close>

theorem keep_copy_keeps_both:
  assumes "conflict = Some c" "ci_entity_type c = Workflow"
    and "map_of (ws_workflows flows) j = Some w" "serializeWorkflow (hh_graph X) flows j = ci_local_data c"
    and "gj_nodes (hh_graph X) (wf_nodes w) = JArr ns" "gv_nodes (hh_view X) (JArr ns) = wf_nodes w"
    and "gj_edges (hh_graph X) (wf_edges w) = JArr es" "gv_edges (hh_view X) (JArr es) = wf_edges w"
    and "ci_current_data c = Some (JObj server)" "deserializeWorkflow X (JObj server) = Inr remote"
    and "wf_id remote \<noteq> i" "getUserId (env_browser E) = Inr u" "sy_tracker (cl_workflows st) i = None"
  shows "\<exists>st' copy. keepLocalCopy X E i conflict st = (Inr (), None, st') \<and>
    getWorkflow i (cl_workflows st') = Some copy \<and> wf_name copy = wf_name w @ '' (conflict copy)'' \<and>
    wf_projectId copy = wf_projectId w \<and> wf_nodes copy = wf_nodes w \<and> wf_edges copy = wf_edges w \<and>
    sy_tracker (cl_workflows st') i = Some Insert \<and>
    getWorkflow (wf_id remote) (cl_workflows st') = Some remote \<and>
    (\<forall>k. k \<noteq> i \<and> k \<noteq> wf_id remote \<longrightarrow> getWorkflow k (cl_workflows st') = getWorkflow k (cl_workflows st)) \<and>
    cl_scenarios st' = cl_scenarios st"
proof -
  obtain ps where l: "ci_local_data c = Some (JObj ((''id'', JStr (wf_id w)) # (''project_id'', JStr (wf_projectId w)) #
      (''name'', JStr (wf_name w)) # (''description'', JStr (or_str (wf_description w) [])) # (''nodes_config'', JArr ns) #
      (''edges_config'', JArr es) # ps))" (is "_ = Some ?local")
    using assms(3-5,7) by (simp add: serializeWorkflow_def) metis
  have p: "text_or ?local ''name'' ''Workflow'' = wf_name w" "text_or ?local ''project_id'' [] = wf_projectId w"
      "cast_or (gv_nodes (hh_view X)) ?local ''nodes_config'' [] = wf_nodes w"
      "cast_or (gv_edges (hh_view X)) ?local ''edges_config'' [] = wf_edges w"
    using assms(6,8) by (simp_all add: text_or_def cast_or_def)
  from copy_workflow_new [OF assms(12) p(1,3,4), of i "cl_workflows st"]
  obtain store' copy where s: "copy_workflow X E i ?local (cl_workflows st) = (Inr (), store')" "getWorkflow i store' = Some copy"
    "wf_projectId copy = wf_projectId w" "wf_name copy = wf_name w @ '' (conflict copy)''" "wf_nodes copy = wf_nodes w"
    "wf_edges copy = wf_edges w" "\<forall>j. j \<noteq> i \<longrightarrow> getWorkflow j store' = getWorkflow j (cl_workflows st)"
    "sy_tracker store' i = Some Insert"
    using assms(13) p(2) by (auto simp: coalesceChangeType_def)
  define st' where "st' = st\<lparr>cl_workflows := replaceWorkflowFromSync (hh_graph X) remote store'\<rparr>"
  have "keepLocalCopy X E i conflict st = (Inr (), None, st')"
    using assms(1,2,9,10) l s(1) by (simp add: keepLocalCopy_def acceptServerVersion_def truthy_json_def st'_def)
  moreover have "getWorkflow k (cl_workflows st') = (if k = wf_id remote then Some remote else getWorkflow k store')" for k
    by (simp add: st'_def replaceWorkflowFromSync_def getWorkflow_def)
  moreover have "sy_tracker (cl_workflows st') i = Some Insert" using s(8) by (simp add: st'_def replaceWorkflowFromSync_def)
  ultimately show ?thesis using s assms(11) by (auto simp: st'_def)
qed

definition sample_conflict :: conflict_info where
  "sample_conflict = \<lparr>ci_entity_type = Workflow, ci_entity_id = ''w1'', ci_resolution = Manual, ci_message = [],
     ci_client_version = 4, ci_current_version = 9,
     ci_current_data = Some (JObj [(''id'', JStr ''w1''), (''name'', JStr ''theirs''), (''version'', JNum 9)]),
     ci_local_data = serializeWorkflow (hh_graph sample_view) (workflow_store_init\<lparr>ws_workflows := [(''w1'', sample_workflow 4 ''old'')]\<rparr>) ''w1''\<rparr>"

lemma sample_remote:
  "\<exists>remote. deserializeWorkflow sample_view (JObj [(''id'', JStr ''w1''), (''name'', JStr ''theirs''), (''version'', JNum 9)]) = Inr remote \<and>
     wf_id remote = ''w1'' \<and> wf_name remote = ''theirs''"
  by (simp add: deserializeWorkflow_def parseJSON_def str_prop_def as_string_def nullish_def)

theorem keep_copy_keeps_both_witness:
  "\<exists>st' copy remote. keepLocalCopy sample_view sample_env ''new'' (Some sample_conflict) sample_stores = (Inr (), None, st') \<and>
     getWorkflow ''new'' (cl_workflows st') = Some copy \<and> wf_name copy = ''old'' @ '' (conflict copy)'' \<and>
     getWorkflow ''w1'' (cl_workflows st') = Some remote \<and> wf_name remote = ''theirs''"
proof -
  obtain remote where r: "deserializeWorkflow sample_view (JObj [(''id'', JStr ''w1''), (''name'', JStr ''theirs''), (''version'', JNum 9)]) = Inr remote"
    "wf_id remote = ''w1''" "wf_name remote = ''theirs''" using sample_remote by blast
  have "\<exists>st' copy. keepLocalCopy sample_view sample_env ''new'' (Some sample_conflict) sample_stores = (Inr (), None, st') \<and>
    getWorkflow ''new'' (cl_workflows st') = Some copy \<and> wf_name copy = wf_name (sample_workflow 4 ''old'') @ '' (conflict copy)'' \<and>
    wf_projectId copy = wf_projectId (sample_workflow 4 ''old'') \<and> wf_nodes copy = wf_nodes (sample_workflow 4 ''old'') \<and>
    wf_edges copy = wf_edges (sample_workflow 4 ''old'') \<and>
    sy_tracker (cl_workflows st') ''new'' = Some Insert \<and>
    getWorkflow (wf_id remote) (cl_workflows st') = Some remote \<and>
    (\<forall>k. k \<noteq> ''new'' \<and> k \<noteq> wf_id remote \<longrightarrow> getWorkflow k (cl_workflows st') = getWorkflow k (cl_workflows sample_stores)) \<and>
    cl_scenarios st' = cl_scenarios sample_stores"
    by (rule keep_copy_keeps_both [OF refl, where flows = "workflow_store_init\<lparr>ws_workflows := [(''w1'', sample_workflow 4 ''old'')]\<rparr>"
          and j = "''w1''" and ns = "[]" and es = "[]" and u = "''u''", OF _ _ _ _ _ _ _ _ r(1)])
       (simp_all add: sample_conflict_def sample_view_def sample_workflow_def sample_stores_def sample_store_facts r(2))
  then show ?thesis using r by (auto simp: sample_workflow_def)
qed

end
