(* ===== verification/Client_State.thy ===== *)
theory Client_State
  imports Registry_Config Sync_Queue
begin

text \<open>
  What a browser keeps of a user and a project, and how it is cleared:
  \<^verbatim>\<open>src/ui-v2/src/modules/auth/client-state.ts\<close> and the project selection of
  \<^verbatim>\<open>projects/project-context.tsx\<close>. The state is the sync service, the session ids, the entries of
  \<open>localStorage\<close> under the project prefix and others, the registry secrets in memory and the keys of the
  browser's database. The requests of the last flush go to a server given as a function.
\<close>

definition PERSISTED_KEYS :: "string list" where
  "PERSISTED_KEYS = [''workflow-store'', ''scenario-store'', ''execution-store'', ''scenario-run-store'', ''test-result-store'']"

definition PROJECT_STATE_KEY_PREFIX :: string where
  "PROJECT_STATE_KEY_PREFIX = ''cots_active_project''"

record client_state =
  ct_service :: sync_service
  ct_browser :: browser
  ct_localStorage :: "(string \<times> string) list"
  ct_secrets :: secret_store
  ct_database :: "string list"

definition del_persisted :: "string list \<Rightarrow> string list" where
  "del_persisted keys = filter (\<lambda>k. k \<notin> set PERSISTED_KEYS) keys"

text \<open>\<open>flushPending\<close> is called with its default of ten attempts.\<close>

definition flush_before_clearing ::
  "sync_host \<Rightarrow> (sync_service \<Rightarrow> sync_change list \<Rightarrow> 'w \<Rightarrow> sync_batch_response res \<times> 'w) \<Rightarrow>
   client_state \<times> 'w \<Rightarrow> client_state \<times> 'w" where
  "flush_before_clearing H send cw =
     (case flushPending H send 10 (ct_service (fst cw), snd cw) of (s, w) \<Rightarrow> ((fst cw)\<lparr>ct_service := s\<rparr>, w))"

definition clearProjectScopedClientState ::
  "sync_host \<Rightarrow> (sync_service \<Rightarrow> sync_change list \<Rightarrow> 'w \<Rightarrow> sync_batch_response res \<times> 'w) \<Rightarrow>
   client_state \<times> 'w \<Rightarrow> client_state \<times> 'w" where
  "clearProjectScopedClientState H send cw =
     (case flush_before_clearing H send cw of (c, w) \<Rightarrow>
        (c\<lparr>ct_service := clearQueue H (ct_service c), ct_browser := setCurrentSessionProjectId None (ct_browser c),
           ct_secrets := clearAll (ct_secrets c), ct_database := del_persisted (ct_database c)\<rparr>, w))"

text \<open>
  On the server (no \<open>window\<close>) the function ends after the in-memory part; \<open>localStorage\<close> is accessed
  outside any \<open>try\<close>, so the rest is skipped when it throws.
\<close>

definition clearUserScopedClientState ::
  "sync_host \<Rightarrow> (sync_service \<Rightarrow> sync_change list \<Rightarrow> 'w \<Rightarrow> sync_batch_response res \<times> 'w) \<Rightarrow>
   client_state \<times> 'w \<Rightarrow> unit res \<times> client_state \<times> 'w" where
  "clearUserScopedClientState H send cw =
     (case flush_before_clearing H send cw of (c0, w) \<Rightarrow>
        let b = setCurrentSessionProjectId None (setCurrentSessionUserId None (ct_browser c0));
            c = c0\<lparr>ct_service := clearQueue H (setEnabled False (stop (ct_service c0))), ct_browser := b,
                   ct_secrets := clearAll (ct_secrets c0)\<rparr>
        in if \<not> br_window b then (Inr (), c, w)
           else if \<not> br_storage_ok b then (Inl (Err ''SecurityError''), c, w)
           else (Inr (), c\<lparr>ct_browser := b\<lparr>br_userId := None\<rparr>,
                   ct_localStorage := filter (\<lambda>(k, _). \<not> prefix PROJECT_STATE_KEY_PREFIX k) (ct_localStorage c),
                   ct_database := del_persisted (ct_database c)\<rparr>, w))"

section \<open>The active project\<close>

definition getStorageKey :: "string \<Rightarrow> string" where
  "getStorageKey userId = PROJECT_STATE_KEY_PREFIX @ '':'' @ userId"

definition remember_project :: "string \<Rightarrow> string option \<Rightarrow> client_state \<Rightarrow> client_state" where
  "remember_project userId projectId c =
     (if \<not> br_window (ct_browser c) then c
      else c\<lparr>ct_localStorage := (if truthy_opt projectId
                then AList.update (getStorageKey userId) (the projectId) (ct_localStorage c)
                else AList.delete (getStorageKey userId) (ct_localStorage c))\<rparr>)"

text \<open>The effect that runs when the user or the list of projects changes; the active project and the state.\<close>

definition chooseProject :: "string option \<Rightarrow> string list \<Rightarrow> client_state \<Rightarrow> string option \<times> client_state" where
  "chooseProject userId projects c =
     (if \<not> truthy_opt userId then (None, c\<lparr>ct_browser := setCurrentSessionProjectId None (ct_browser c)\<rparr>)
      else let stored = (if br_window (ct_browser c) then map_of (ct_localStorage c) (getStorageKey (the userId)) else None);
               new = (if truthy_opt stored \<and> the stored \<in> set projects then stored
                      else case projects of [] \<Rightarrow> None | p # _ \<Rightarrow> Some p)
           in (new, remember_project (the userId) new (c\<lparr>ct_browser := setCurrentSessionProjectId new (ct_browser c)\<rparr>)))"

definition setActiveProjectId ::
  "sync_host \<Rightarrow> (sync_service \<Rightarrow> sync_change list \<Rightarrow> 'w \<Rightarrow> sync_batch_response res \<times> 'w) \<Rightarrow>
   string option \<Rightarrow> string list \<Rightarrow> string option \<Rightarrow> client_state \<times> 'w \<Rightarrow> string option \<times> client_state \<times> 'w" where
  "setActiveProjectId H send userId projects projectId cw =
     (if \<not> truthy_opt userId
      then (None, (fst cw)\<lparr>ct_browser := setCurrentSessionProjectId None (ct_browser (fst cw))\<rparr>, snd cw)
      else let new = (if truthy_opt projectId \<and> the projectId \<in> set projects then projectId else None)
           in case clearProjectScopedClientState H send cw of (c, w) \<Rightarrow>
                (new, remember_project (the userId) new (c\<lparr>ct_browser := setCurrentSessionProjectId new (ct_browser c)\<rparr>), w))"

section \<open>Properties\<close>

lemma flushPending_inv:
  "ss_inv (fst sw) \<Longrightarrow> ss_inv (fst (flushPending H send n sw))"
proof (induction n arbitrary: sw)
  case (Suc n)
  obtain s w where sw: "sw = (s, w)" by force
  obtain r s' w' where f: "flush H send (s, w) = (r, s', w')" by (metis prod_cases3)
  then have "ss_inv s'" using flush_items(1) [OF _ f] Suc.prems sw by simp
  then show ?case using Suc f sw by (cases r) auto
qed simp

lemma clearQueue_empty:
  "ss_inv s \<Longrightarrow> ss_items (clearQueue H s) = []" "ss_inv s \<Longrightarrow> h_window H \<Longrightarrow> ss_storage (clearQueue H s) = None"
  using clear_correct [of "ss_syncQueue s"] by (auto simp: clearQueue_def persistQueue_def)

text \<open>What both ways of clearing leave behind.\<close>

definition client_clean :: "client_state \<Rightarrow> bool" where
  "client_clean c \<longleftrightarrow> ss_items (ct_service c) = [] \<and> ss_storage (ct_service c) = None \<and>
     (\<forall>flow node. getSecret flow node (ct_secrets c) = None) \<and> set PERSISTED_KEYS \<inter> set (ct_database c) = {}"

lemma getSecret_cleared [simp]: "getSecret flow node (clearAll secrets) = None"
  by (simp add: getSecret_def clearAll_def)

lemma flush_before_clearing_parts:
  assumes "flush_before_clearing H send cw = (c, w)" "ss_inv (ct_service (fst cw))"
  shows "ss_inv (ct_service c)" "c\<lparr>ct_service := s\<rparr> = (fst cw)\<lparr>ct_service := s\<rparr>"
  using assms flushPending_inv [of "(ct_service (fst cw), snd cw)" H send 10]
  by (auto simp: flush_before_clearing_def split: prod.splits)

lemma clearQueue_browser: "ss_inv s \<Longrightarrow> h_window H \<Longrightarrow>
  client_clean (c\<lparr>ct_service := clearQueue H s, ct_secrets := clearAll x, ct_database := del_persisted y\<rparr>)"
  by (auto simp: client_clean_def clearQueue_empty del_persisted_def)


text \<open>
  The last flush is best effort: when the server cannot be reached, the changes that were waiting are dropped
  from the queue and from its stored copy, and nothing has been delivered.
\<close>

theorem sign_out_drops_unsent_changes:
  assumes "clearUserScopedClientState H (\<lambda>_ _ w. (Inl e, w)) (c, w) = (r, c', w')" "ss_inv (ct_service c)" "h_window H"
  shows "ss_items (ct_service c') = [] \<and> ss_storage (ct_service c') = None \<and> w' = w"
proof -
  have "snd (flushPending H (\<lambda>_ _ w. (Inl e, w)) n (s, w)) = w" for n s
    by (induction n arbitrary: s)
      (auto simp: flush_def commitBatch_def commit_reply_def split: prod.splits option.splits commit_outcome.splits)
  then have "snd (flush_before_clearing H (\<lambda>_ _ w. (Inl e, w)) (c, w)) = w"
    by (simp add: flush_before_clearing_def case_prod_beta)
  moreover obtain c0 w0 where f: "flush_before_clearing H (\<lambda>_ _ w. (Inl e, w)) (c, w) = (c0, w0)" by force
  have inv: "ss_inv (setEnabled False (stop (ct_service c0)))"
    using flush_before_clearing_parts(1) [OF f] assms(2) by (simp add: setEnabled_def stop_def)
  ultimately show ?thesis
    using assms(1,3) f clearQueue_empty [OF inv]
    by (auto simp: clearUserScopedClientState_def split: if_splits)
qed

text \<open>
  The active project is always one of the user's: the choice when the projects are loaded and an
  explicit switch set the session's project to a project of the list or to none, and the same project is the
  one remembered for the user. A switch leaves no queued change, secret or persisted store of the project
  before.
\<close>

theorem active_project_is_a_membership:
  assumes "chooseProject (Some u) projects c = (new, c1)" "u \<noteq> []" "[] \<notin> set projects" "br_window (ct_browser c)"
    and "setActiveProjectId H send (Some u) projects p (c, w) = (new', c2, w')" "ss_inv (ct_service c)" "h_window H"
  shows "set_option new \<subseteq> set projects \<and> (projects \<noteq> [] \<longrightarrow> new \<noteq> None) \<and> br_currentProjectId (ct_browser c1) = new \<and>
    map_of (ct_localStorage c1) (getStorageKey u) = new \<and>
    set_option new' \<subseteq> set projects \<and> br_currentProjectId (ct_browser c2) = new' \<and>
    map_of (ct_localStorage c2) (getStorageKey u) = new' \<and> client_clean c2"
proof -
  have r: "map_of (ct_localStorage (remember_project u q d)) (getStorageKey u) = q"
    if "br_window (ct_browser d)" "q \<noteq> Some []" for q d
    using that by (cases q) (auto simp: remember_project_def truthy_opt_def delete_conv')
  have f: "ct_browser (remember_project u q d) = ct_browser d" "ct_service (remember_project u q d) = ct_service d"
    "ct_secrets (remember_project u q d) = ct_secrets d" "ct_database (remember_project u q d) = ct_database d" for q d
    by (simp_all add: remember_project_def)
  have n: "new \<noteq> Some []" "set_option new \<subseteq> set projects" "projects \<noteq> [] \<longrightarrow> new \<noteq> None"
    using assms(1-3) by (cases "map_of (ct_localStorage c) (getStorageKey u)"; cases projects;
        auto simp: chooseProject_def truthy_opt_def split: if_splits)+
  have n': "new' \<noteq> Some []" "set_option new' \<subseteq> set projects"
    using assms(2,3,5) by (auto simp: setActiveProjectId_def truthy_opt_def split: option.splits if_splits prod.splits)
  obtain c0 w0 where fl: "flush_before_clearing H send (c, w) = (c0, w0)" by force
  note p = flush_before_clearing_parts [OF fl, simplified, OF assms(6)]
  from p(2) [of "ct_service c"] have b: "ct_browser c0 = ct_browser c"
    by (metis client_state.select_convs(2) client_state.surjective client_state.update_convs(1))
  have c1: "c1 = remember_project u new (c\<lparr>ct_browser := setCurrentSessionProjectId new (ct_browser c)\<rparr>)"
    using assms(1,2) by (auto simp: chooseProject_def truthy_opt_def)
  have c2: "c2 = remember_project u new' ((fst (clearProjectScopedClientState H send (c, w)))
      \<lparr>ct_browser := setCurrentSessionProjectId new' (ct_browser (fst (clearProjectScopedClientState H send (c, w))))\<rparr>)"
    using assms(2,5) by (auto simp: setActiveProjectId_def truthy_opt_def split: prod.splits)
  have "client_clean c2"
    using clearQueue_browser [OF p(1) assms(7)]
    by (auto simp: client_clean_def c2 f clearProjectScopedClientState_def fl)
  then show ?thesis using n n' r assms(4) b
    by (simp add: c1 c2 f setCurrentSessionProjectId_def clearProjectScopedClientState_def fl)
qed

definition sample_client :: client_state where
  "sample_client = \<lparr>ct_service = sample_sync, ct_browser = sample_browser,
     ct_localStorage = [(''cots_active_project:u'', ''p2'')], ct_secrets = [], ct_database = [''workflow-store'']\<rparr>"

lemma sample_client_facts:
  "ss_inv (ct_service sample_client)" "h_window sample_host" "br_window (ct_browser sample_client)" "br_storage_ok (ct_browser sample_client)"
  by (simp_all add: sample_browser_def sample_client_def sample_sync_inv sample_host_def)


theorem active_project_is_a_membership_witness:
  "\<exists>new c1 new' c2 w'. chooseProject (Some ''u'') [''p1'', ''p2''] sample_client = (new, c1) \<and>
     setActiveProjectId sample_host (\<lambda>_ _ w. (Inl TypeError, w)) (Some ''u'') [''p1'', ''p2''] (Some ''p1'') (sample_client, ()) =
       (new', c2, w') \<and> map_of (ct_localStorage c1) (getStorageKey ''u'') = new \<and> client_clean c2"
proof -
  obtain new c1 where a: "chooseProject (Some ''u'') [''p1'', ''p2''] sample_client = (new, c1)" by force
  obtain new' c2 w' where b: "setActiveProjectId sample_host (\<lambda>_ _ w. (Inl TypeError, w)) (Some ''u'') [''p1'', ''p2''] (Some ''p1'')
      (sample_client, ()) = (new', c2, w')" by (metis prod_cases3)
  from active_project_is_a_membership [OF a _ _ sample_client_facts(3) b sample_client_facts(1,2)] a b show ?thesis by simp
qed

end
