(* ===== verification/Architecture_View.thy ===== *)
theory Architecture_View
  imports Edge_Model
begin

text \<open>
  \<^verbatim>\<open>src/ui-v2/src/modules/workflow/lib/architecture-view.ts\<close>: roles of services, sentences about
  the connections of a node, the layout and the frames drawn around the roles. The layout engine ELK is
  a parameter that returns positions and routes or fails; the layout by role that replaces it is modelled
  in full. Positions are whole numbers. The theory shows that this layout never draws two nodes over each
  other and that the frames hold their nodes.
\<close>

datatype architecture_role = Application | Data_Role | Messaging

record role_meta =
  rm_label :: string
  rm_description :: string

definition ROLE_META :: "architecture_role \<Rightarrow> role_meta" where
  "ROLE_META role =
     (case role of
        Application \<Rightarrow> \<lparr>rm_label = ''Application services'', rm_description = ''APIs, workers, and business services''\<rparr>
      | Data_Role \<Rightarrow> \<lparr>rm_label = ''Data and cache'', rm_description = ''Databases, documents, and cached state''\<rparr>
      | Messaging \<Rightarrow> \<lparr>rm_label = ''Messaging and events'', rm_description = ''Queues, brokers, and event streams''\<rparr>)"

definition architectureRole :: "service_type \<Rightarrow> architecture_role" where
  "architectureRole t =
     (if t \<in> {Generic, Nginx, MockServer} then Application
      else if t \<in> {Kafka, RabbitMQ} then Messaging
      else Data_Role)"

text \<open>
  \<open>charAt(0).toUpperCase()\<close>. The two Latin-1 letters whose capitals lie outside Latin-1 (the micro sign and
  y with diaeresis) are left as they are.
\<close>

definition upper_first :: "char \<Rightarrow> string" where
  "upper_first c =
     (let n = (of_char c :: nat)
      in if n = 223 then ''SS''
         else if (97 \<le> n \<and> n \<le> 122) \<or> (224 \<le> n \<and> n \<le> 254 \<and> n \<noteq> 247) then [char_of (n - 32)] else [c])"

definition preferred :: "(string \<times> string) list" where
  "preferred = [(''api'', ''API''), (''mysql'', ''MySQL''), (''mariadb'', ''MariaDB''), (''mongodb'', ''MongoDB''),
     (''rabbitmq'', ''RabbitMQ''), (''kafka'', ''Kafka''), (''redis'', ''Redis''), (''postgres'', ''Postgres''),
     (''memcached'', ''Memcached''), (''nginx'', ''Nginx''), (''mockserver'', ''MockServer'')]"

text \<open>\<open>split(/[_-]+/)\<close>: the words between runs of underscores and hyphens.\<close>

definition dash :: "char \<Rightarrow> bool" where
  "dash c \<longleftrightarrow> c = CHR ''_'' \<or> c = CHR ''-''"

function split_words :: "string \<Rightarrow> string list" where
  "split_words s =
     (let word = takeWhile (\<lambda>c. \<not> dash c) s; rest = dropWhile (\<lambda>c. \<not> dash c) s
      in if rest = [] then [word] else word # split_words (dropWhile dash rest))"
  by pat_completeness auto
termination
proof (relation "measure length")
  fix s :: string and word rest
  assume r: "rest = dropWhile (\<lambda>c. \<not> dash c) s" "rest \<noteq> []"
  then have "dash (hd rest)" using hd_dropWhile [of "\<lambda>c. \<not> dash c" s] by simp
  then have "length (dropWhile dash rest) < length rest"
    using r(2) length_dropWhile_le [of dash "tl rest"] by (cases rest) auto
  also have "\<dots> \<le> length s" using r(1) by (simp add: length_dropWhile_le)
  finally show "(dropWhile dash rest, s) \<in> measure length" by simp
qed simp

declare split_words.simps [simp del]

definition friendly_word :: "string \<Rightarrow> string" where
  "friendly_word word =
     or_str (map_of preferred (toLowerCase word)) (case word of [] \<Rightarrow> [] | c # cs \<Rightarrow> upper_first c @ cs)"

definition friendlyName :: "string \<Rightarrow> string" where
  "friendlyName v = join_with '' '' (map friendly_word (split_words v))"

definition inferredProtocol :: "service_type \<Rightarrow> string option" where
  "inferredProtocol t =
     (case t of Postgres \<Rightarrow> Some ''PostgreSQL'' | MySQL \<Rightarrow> Some ''MySQL'' | MariaDB \<Rightarrow> Some ''MariaDB'' | Redis \<Rightarrow> Some ''Redis''
      | Memcached \<Rightarrow> Some ''Memcached'' | MongoDB \<Rightarrow> Some ''MongoDB'' | RabbitMQ \<Rightarrow> Some ''AMQP''
      | Kafka \<Rightarrow> Some ''Kafka protocol'' | Nginx \<Rightarrow> Some ''HTTP/HTTPS'' | MockServer \<Rightarrow> Some ''HTTP'' | Generic \<Rightarrow> None)"

section \<open>Sentences\<close>

record architecture_statement =
  as_edgeId :: string
  as_text :: "string option"
  as_protocol :: "string option"
  as_readiness :: "string option"

text \<open>An unknown relation has no sentence (\<open>undefined\<close>).\<close>

definition relationshipSentence :: "string \<Rightarrow> bool \<Rightarrow> string \<Rightarrow> string option" where
  "relationshipSentence relation isSource other =
     map_of [(''calls'', if isSource then ''Calls '' @ other else ''Receives calls from '' @ other),
             (''reads'', if isSource then ''Provides data to '' @ other else ''Reads from '' @ other),
             (''writes'', if isSource then ''Writes data to '' @ other else ''Receives data from '' @ other),
             (''publishes'', if isSource then ''Publishes messages to '' @ other else ''Receives published messages from '' @ other),
             (''consumes'', if isSource then ''Delivers messages to '' @ other else ''Consumes messages from '' @ other)] relation"

definition readinessSentence :: "flow_edge \<Rightarrow> flow_node \<Rightarrow> flow_node \<Rightarrow> flow_node \<Rightarrow> string option" where
  "readinessSentence e selected source target =
     (let readiness = ed_readiness (data_of e)
      in if readiness = Some ''none'' then None
         else if (readiness = Some ''source_requires_target'' \<and> fn_id selected = fn_id source) \<or>
                 (readiness = Some ''target_requires_source'' \<and> fn_id selected = fn_id target)
         then Some (''Starts after '' @
                friendlyName (nd_label (fn_data (if fn_id selected = fn_id source then target else source))))
         else None)"

definition node_type :: "flow_node \<Rightarrow> service_type res" where
  "node_type n = (case nd_service (fn_data n) of Some s \<Rightarrow> Inr (svc_type s) | None \<Rightarrow> Inl TypeError)"

definition nodes_by_id :: "flow_node list \<Rightarrow> (string \<times> flow_node) list" where
  "nodes_by_id nodes = foldl (\<lambda>m n. AList.update (fn_id n) n m) [] nodes"

definition describe_edge :: "flow_node \<Rightarrow> (string \<times> flow_node) list \<Rightarrow> flow_edge \<Rightarrow> architecture_statement list res" where
  "describe_edge selected nodeMap e =
     (case (map_of nodeMap (fe_source e), map_of nodeMap (fe_target e)) of
        (Some source, Some target) \<Rightarrow>
          (let isSource = (fe_source e = fn_id selected);
               otherNode = (if isSource then target else source);
               other = friendlyName (or_str (Some (nd_label (fn_data otherNode))) (fn_id otherNode));
               relation = or_str (ed_relation (data_of e)) ''calls'';
               own = drop_falsy (ed_protocol (data_of e))
           in bind_res (case own of Some p \<Rightarrow> Inr (Some p)
                        | None \<Rightarrow> bind_res (node_type otherNode) (\<lambda>t. Inr (inferredProtocol t))) (\<lambda>protocol.
                Inr [\<lparr>as_edgeId = fe_id e, as_text = relationshipSentence relation isSource other, as_protocol = protocol,
                      as_readiness = readinessSentence e selected source target\<rparr>]))
      | _ \<Rightarrow> Inr [])"

definition describeArchitectureNode ::
  "flow_node \<Rightarrow> flow_node list \<Rightarrow> flow_edge list \<Rightarrow> architecture_statement list res" where
  "describeArchitectureNode selected nodes edges =
     bind_res (map_res (describe_edge selected (nodes_by_id nodes))
       (filter (\<lambda>e. fe_source e = fn_id selected \<or> fe_target e = fn_id selected) edges)) (\<lambda>ss. Inr (concat ss))"

section \<open>Layout\<close>

definition NODE_WIDTH :: int where
  "NODE_WIDTH = 184"

definition NODE_HEIGHT :: int where
  "NODE_HEIGHT = 92"

record elk_section =
  es_startPoint :: "int \<times> int"
  es_bendPoints :: "(int \<times> int) list"
  es_endPoint :: "int \<times> int"

text \<open>What the engine returns; coordinates may be missing.\<close>

record elk_graph =
  eg_children :: "(string \<times> (int option \<times> int option)) list"
  eg_edges :: "(string \<times> elk_section list) list"

text \<open>What it is asked: every node with its partition and every edge with its ends.\<close>

record elk_request =
  eq_children :: "(string \<times> nat) list"
  eq_edges :: "(string \<times> string \<times> string) list"

definition roleOrder :: "architecture_role \<Rightarrow> nat" where
  "roleOrder role = (case role of Application \<Rightarrow> 0 | Data_Role \<Rightarrow> 1 | Messaging \<Rightarrow> 2)"

definition elk_request_of :: "flow_node list \<Rightarrow> flow_edge list \<Rightarrow> elk_request res" where
  "elk_request_of nodes edges =
     bind_res (map_res (\<lambda>n. bind_res (node_type n) (\<lambda>t. Inr (fn_id n, roleOrder (architectureRole t)))) nodes) (\<lambda>children.
       Inr \<lparr>eq_children = children, eq_edges = map (\<lambda>e. (fe_id e, fe_source e, fe_target e)) edges\<rparr>)"

definition set_points :: "(int \<times> int) list option \<Rightarrow> flow_edge \<Rightarrow> flow_edge" where
  "set_points points e = e\<lparr>fe_data := Some ((data_of e)\<lparr>ed_layoutPoints := points\<rparr>)\<rparr>"

definition layoutWithElk ::
  "(elk_request \<Rightarrow> elk_graph res) \<Rightarrow> flow_node list \<Rightarrow> flow_edge list \<Rightarrow> (flow_node list \<times> flow_edge list) res" where
  "layoutWithElk elk nodes edges =
     bind_res (elk_request_of nodes edges) (\<lambda>request.
     bind_res (elk request) (\<lambda>graph.
       Inr (map (\<lambda>n. case map_of (rev (eg_children graph)) (fn_id n) of
                  Some (x, y) \<Rightarrow> n\<lparr>fn_position := (nullish x 0, nullish y 0)\<rparr> | None \<Rightarrow> n) nodes,
            map (\<lambda>e. set_points (case map_of (rev (eg_edges graph)) (fe_id e) of
                  Some (s # _) \<Rightarrow> Some (es_startPoint s # es_bendPoints s @ [es_endPoint s]) | _ \<Rightarrow> None) e) edges)))"

definition role_column :: "architecture_role \<Rightarrow> int" where
  "role_column role = (case role of Application \<Rightarrow> 0 | Data_Role \<Rightarrow> 480 | Messaging \<Rightarrow> 960)"

text \<open>The nodes placed one below the other in the column of their role; \<open>counts\<close> are the rows in use.\<close>

fun place_nodes :: "(architecture_role \<Rightarrow> int) \<Rightarrow> flow_node list \<Rightarrow> flow_node list res" where
  "place_nodes counts [] = Inr []"
| "place_nodes counts (n # ns) =
     bind_res (node_type n) (\<lambda>t.
       let role = architectureRole t; row = counts role
       in bind_res (place_nodes (counts(role := row + 1)) ns) (\<lambda>placed.
            Inr (n\<lparr>fn_position := (role_column role, row * 160)\<rparr> # placed)))"

definition route_edge :: "(string \<times> flow_node) list \<Rightarrow> flow_edge \<Rightarrow> flow_edge" where
  "route_edge positions e =
     (case (map_of positions (fe_source e), map_of positions (fe_target e)) of
        (Some source, Some target) \<Rightarrow>
          (let sx = fst (fn_position source) + NODE_WIDTH; sy = snd (fn_position source) + NODE_HEIGHT div 2;
               ex = fst (fn_position target); ey = snd (fn_position target) + NODE_HEIGHT div 2;
               middleX = (sx + ex) div 2
           in set_points (Some [(sx, sy), (middleX, sy), (middleX, ey), (ex, ey)]) e)
      | _ \<Rightarrow> e)"

definition layoutByRole :: "flow_node list \<Rightarrow> flow_edge list \<Rightarrow> (flow_node list \<times> flow_edge list) res" where
  "layoutByRole nodes edges =
     bind_res (place_nodes (\<lambda>_. 0) nodes) (\<lambda>layoutNodes.
       Inr (layoutNodes, map (route_edge (nodes_by_id layoutNodes)) edges))"

definition layoutArchitecture ::
  "(elk_request \<Rightarrow> elk_graph res) \<Rightarrow> flow_node list \<Rightarrow> flow_edge list \<Rightarrow> (flow_node list \<times> flow_edge list) res" where
  "layoutArchitecture elk nodes edges =
     (case layoutWithElk elk nodes edges of Inr r \<Rightarrow> Inr r | Inl _ \<Rightarrow> layoutByRole nodes edges)"

section \<open>Frames\<close>

record frame =
  fr_role :: architecture_role
  fr_left :: int
  fr_top :: int
  fr_width :: int
  fr_height :: int

definition measured :: "string \<Rightarrow> int \<Rightarrow> flow_node \<Rightarrow> int" where
  "measured k d n =
     (case Option.bind (map_of (fn_attrs n) ''measured'') (\<lambda>m. as_number (get_prop m k)) of
        Some v \<Rightarrow> if v = 0 then d else v | None \<Rightarrow> d)"

definition least :: "int list \<Rightarrow> int" where
  "least xs = foldl min (hd xs) xs"

definition greatest :: "int list \<Rightarrow> int" where
  "greatest xs = foldl max (hd xs) xs"

definition role_frame :: "architecture_role \<Rightarrow> flow_node list \<Rightarrow> frame list" where
  "role_frame role roleNodes =
     (if roleNodes = [] then []
      else let left = least (map (\<lambda>n. fst (fn_position n)) roleNodes) - 48;
               top = least (map (\<lambda>n. snd (fn_position n)) roleNodes) - 68;
               right = greatest (map (\<lambda>n. fst (fn_position n) + measured ''width'' NODE_WIDTH n) roleNodes) + 48;
               bottom = greatest (map (\<lambda>n. snd (fn_position n) + measured ''height'' NODE_HEIGHT n) roleNodes) + 48
           in [\<lparr>fr_role = role, fr_left = left, fr_top = top, fr_width = right - left, fr_height = bottom - top\<rparr>])"

definition has_role :: "architecture_role \<Rightarrow> flow_node \<Rightarrow> bool" where
  "has_role role n \<longleftrightarrow> (case node_type n of Inr t \<Rightarrow> architectureRole t = role | Inl _ \<Rightarrow> False)"

definition architectureBounds :: "flow_node list \<Rightarrow> frame list res" where
  "architectureBounds nodes =
     bind_res (each_res (\<lambda>n. bind_res (node_type n) (\<lambda>_. Inr ())) nodes) (\<lambda>_.
       Inr (concat (map (\<lambda>role. role_frame role (filter (has_role role) nodes)) [Application, Data_Role, Messaging])))"

section \<open>Properties\<close>

text \<open>Two nodes whose boxes do not overlap.\<close>

definition apart :: "flow_node \<Rightarrow> flow_node \<Rightarrow> bool" where
  "apart m n \<longleftrightarrow>
     fst (fn_position m) + NODE_WIDTH \<le> fst (fn_position n) \<or> fst (fn_position n) + NODE_WIDTH \<le> fst (fn_position m) \<or>
     snd (fn_position m) + NODE_HEIGHT \<le> snd (fn_position n) \<or> snd (fn_position n) + NODE_HEIGHT \<le> snd (fn_position m)"

lemma place_nodes_total: "(\<And>n. n \<in> set nodes \<Longrightarrow> nd_service (fn_data n) \<noteq> None) \<Longrightarrow> \<exists>ps. place_nodes counts nodes = Inr ps"
proof (induction nodes arbitrary: counts)
  case (Cons n ns)
  then obtain s where "nd_service (fn_data n) = Some s" by fastforce
  then show ?case using Cons by (auto simp: node_type_def)
qed simp

text \<open>What is kept of a node, and where a node of a role lands.\<close>

lemma place_nodes_shape:
  "place_nodes counts nodes = Inr ps \<Longrightarrow>
   map (\<lambda>n. (fn_id n, fn_attrs n, fn_data n)) ps = map (\<lambda>n. (fn_id n, fn_attrs n, fn_data n)) nodes \<and>
   (\<forall>p \<in> set ps. \<exists>t. node_type p = Inr t \<and>
      fst (fn_position p) = role_column (architectureRole t) \<and> counts (architectureRole t) * 160 \<le> snd (fn_position p))"
proof (induction nodes arbitrary: counts ps)
  case (Cons n ns)
  obtain t where t: "node_type n = Inr t" using Cons.prems by auto
  then obtain qs where qs: "place_nodes (counts(architectureRole t := counts (architectureRole t) + 1)) ns = Inr qs"
    "ps = n\<lparr>fn_position := (role_column (architectureRole t), counts (architectureRole t) * 160)\<rparr> # qs"
    using Cons.prems by auto
  have "\<exists>u. node_type p = Inr u \<and> fst (fn_position p) = role_column (architectureRole u) \<and>
      counts (architectureRole u) * 160 \<le> snd (fn_position p)" if p: "p \<in> set qs" for p
  proof -
    obtain u where u: "node_type p = Inr u" "fst (fn_position p) = role_column (architectureRole u)"
      "(counts(architectureRole t := counts (architectureRole t) + 1)) (architectureRole u) * 160 \<le> snd (fn_position p)"
      using Cons.IH [OF qs(1)] p by blast
    have "counts (architectureRole u) \<le> (counts(architectureRole t := counts (architectureRole t) + 1)) (architectureRole u)" by simp
    then show ?thesis using u by (intro exI [of _ u]) linarith
  qed
  moreover have "node_type (n\<lparr>fn_position := x\<rparr>) = Inr t" for x using t by (simp add: node_type_def)
  ultimately show ?case using Cons.IH [OF qs(1)] qs(2) by auto
qed simp

lemma role_columns_apart: "r \<noteq> s \<Longrightarrow> role_column r + NODE_WIDTH \<le> role_column s \<or> role_column s + NODE_WIDTH \<le> role_column r"
  by (cases r; cases s) (simp_all add: role_column_def NODE_WIDTH_def)

lemma place_nodes_apart: "place_nodes counts nodes = Inr ps \<Longrightarrow> sorted_wrt apart ps"
proof (induction nodes arbitrary: counts ps)
  case (Cons n ns)
  obtain t where t: "node_type n = Inr t" using Cons.prems by auto
  then obtain qs where qs: "place_nodes (counts(architectureRole t := counts (architectureRole t) + 1)) ns = Inr qs"
    "ps = n\<lparr>fn_position := (role_column (architectureRole t), counts (architectureRole t) * 160)\<rparr> # qs"
    using Cons.prems by auto
  have "apart (n\<lparr>fn_position := (role_column (architectureRole t), counts (architectureRole t) * 160)\<rparr>) p" if p: "p \<in> set qs" for p
  proof -
    obtain u where u: "fst (fn_position p) = role_column (architectureRole u)"
      "(counts(architectureRole t := counts (architectureRole t) + 1)) (architectureRole u) * 160 \<le> snd (fn_position p)"
      using place_nodes_shape [OF qs(1)] p by blast
    show ?thesis
    proof (cases "architectureRole u = architectureRole t")
      case True
      with u(2) have "(counts (architectureRole t) + 1) * 160 \<le> snd (fn_position p)" by simp
      then have "counts (architectureRole t) * 160 + NODE_HEIGHT \<le> snd (fn_position p)"
        by (simp add: NODE_HEIGHT_def algebra_simps)
      then show ?thesis by (simp add: apart_def)
    next
      case False
      then show ?thesis using role_columns_apart u(1) by (auto simp: apart_def)
    qed
  qed
  then show ?case using Cons.IH [OF qs(1)] qs(2) by simp
qed simp

lemma place_nodes_sets: "place_nodes counts nodes = Inr ps \<Longrightarrow> map fn_id ps = map fn_id nodes"
  using place_nodes_shape [of counts nodes ps] by (metis (no_types, lifting) fst_conv map_map comp_def map_eq_conv)

text \<open>
  Whatever the layout engine does, tidying a graph of complete nodes returns a layout of the same
  nodes and edges: ids, data and the ends of the edges are unchanged. When the engine fails, the layout by
  role draws no two nodes over each other and every node in the column of its role.
\<close>

theorem tidy_layout_keeps_graph:
  assumes "\<And>n. n \<in> set nodes \<Longrightarrow> nd_service (fn_data n) \<noteq> None"
  shows "\<exists>nodes' edges'. layoutArchitecture elk nodes edges = Inr (nodes', edges') \<and>
    map (\<lambda>n. (fn_id n, fn_attrs n, fn_data n)) nodes' = map (\<lambda>n. (fn_id n, fn_attrs n, fn_data n)) nodes \<and>
    map (\<lambda>e. (fe_id e, fe_source e, fe_target e, ed_relation (data_of e), ed_readiness (data_of e))) edges' =
      map (\<lambda>e. (fe_id e, fe_source e, fe_target e, ed_relation (data_of e), ed_readiness (data_of e))) edges \<and>
    (\<forall>e. (\<forall>request. elk request = Inl e) \<longrightarrow> sorted_wrt apart nodes' \<and>
       (\<forall>n \<in> set nodes'. \<exists>t. node_type n = Inr t \<and> fst (fn_position n) = role_column (architectureRole t)))"
proof -
  obtain ps where ps: "place_nodes (\<lambda>_. 0) nodes = Inr ps" using place_nodes_total [OF assms] by blast
  have sp: "fe_id (set_points x e) = fe_id e" "fe_source (set_points x e) = fe_source e" "fe_target (set_points x e) = fe_target e"
    "ed_relation (data_of (set_points x e)) = ed_relation (data_of e)" "ed_readiness (data_of (set_points x e)) = ed_readiness (data_of e)"
    for x e by (simp_all add: set_points_def data_of_def nullish_def)
  have re: "fe_id (route_edge m e) = fe_id e \<and> fe_source (route_edge m e) = fe_source e \<and> fe_target (route_edge m e) = fe_target e \<and>
    ed_relation (data_of (route_edge m e)) = ed_relation (data_of e) \<and> ed_readiness (data_of (route_edge m e)) = ed_readiness (data_of e)"
    for m e by (simp add: route_edge_def sp split: option.splits)
  show ?thesis
  proof (cases "layoutWithElk elk nodes edges")
    case (Inl x)
    then have "layoutArchitecture elk nodes edges = Inr (ps, map (route_edge (nodes_by_id ps)) edges)"
      by (simp add: layoutArchitecture_def layoutByRole_def ps)
    then show ?thesis using place_nodes_shape [OF ps] place_nodes_apart [OF ps] re by (force simp: comp_def)
  next
    case (Inr r)
    then have l: "layoutArchitecture elk nodes edges = Inr r" by (simp add: layoutArchitecture_def)
    obtain request graph where g: "elk request = Inr graph"
      "fst r = map (\<lambda>n. case map_of (rev (eg_children graph)) (fn_id n) of
                  Some (x, y) \<Rightarrow> n\<lparr>fn_position := (nullish x 0, nullish y 0)\<rparr> | None \<Rightarrow> n) nodes"
      "snd r = map (\<lambda>e. set_points (case map_of (rev (eg_edges graph)) (fe_id e) of
                  Some (s # _) \<Rightarrow> Some (es_startPoint s # es_bendPoints s @ [es_endPoint s]) | _ \<Rightarrow> None) e) edges"
      using Inr by (auto simp: layoutWithElk_def)
    have "map (\<lambda>n. (fn_id n, fn_attrs n, fn_data n)) (fst r) = map (\<lambda>n. (fn_id n, fn_attrs n, fn_data n)) nodes"
      by (auto simp: g(2) split: option.splits)
    moreover have "\<not> (\<forall>request. elk request = Inl e)" for e using g(1) by (metis Inr_not_Inl)
    moreover have "map (\<lambda>e. (fe_id e, fe_source e, fe_target e, ed_relation (data_of e), ed_readiness (data_of e))) (snd r) =
        map (\<lambda>e. (fe_id e, fe_source e, fe_target e, ed_relation (data_of e), ed_readiness (data_of e))) edges"
      by (simp add: g(3) sp comp_def)
    ultimately show ?thesis using l by (cases r) (simp, blast)
  qed
qed

theorem tidy_layout_keeps_graph_witness:
  "\<exists>nodes' edges'. layoutArchitecture (\<lambda>_. Inl TypeError) [sample_node ''a'' Generic, sample_node ''b'' Kafka] [] = Inr (nodes', edges') \<and>
     sorted_wrt apart nodes'"
proof -
  have "\<And>n. n \<in> set [sample_node ''a'' Generic, sample_node ''b'' Kafka] \<Longrightarrow> nd_service (fn_data n) \<noteq> None"
    by (auto simp: sample_node_def)
  from tidy_layout_keeps_graph [where nodes = "[sample_node ''a'' Generic, sample_node ''b'' Kafka]"
      and elk = "\<lambda>_. Inl TypeError" and edges = "[]", OF this] show ?thesis by blast
qed

lemma foldl_min_init: "foldl min (a :: int) xs \<le> a"
proof (induction xs arbitrary: a)
  case (Cons y ys) from Cons.IH [of "min a y"] show ?case by simp
qed simp

lemma foldl_max_init: "(a :: int) \<le> foldl max a xs"
proof (induction xs arbitrary: a)
  case (Cons y ys) from Cons.IH [of "max a y"] show ?case by simp
qed simp

lemma foldl_min_le: "x \<in> set xs \<Longrightarrow> foldl min (a :: int) xs \<le> x"
proof (induction xs arbitrary: a)
  case (Cons y ys) then show ?case using foldl_min_init [of "min a y" ys] by auto
qed simp

lemma foldl_max_ge: "x \<in> set xs \<Longrightarrow> x \<le> foldl max (a :: int) xs"
proof (induction xs arbitrary: a)
  case (Cons y ys) then show ?case using foldl_max_init [of "max a y" ys] by auto
qed simp

lemma least_le: "x \<in> set xs \<Longrightarrow> least xs \<le> x"
  by (simp add: least_def foldl_min_le)

lemma greatest_ge: "x \<in> set xs \<Longrightarrow> x \<le> greatest xs"
  by (simp add: greatest_def foldl_max_ge)

text \<open>The node's box, as wide and high as it was measured, lies in the frame with its margins.\<close>

definition inside :: "frame \<Rightarrow> flow_node \<Rightarrow> bool" where
  "inside f n \<longleftrightarrow>
     fr_left f + 48 \<le> fst (fn_position n) \<and> fst (fn_position n) + measured ''width'' NODE_WIDTH n + 48 \<le> fr_left f + fr_width f \<and>
     fr_top f + 68 \<le> snd (fn_position n) \<and> snd (fn_position n) + measured ''height'' NODE_HEIGHT n + 48 \<le> fr_top f + fr_height f"

lemma role_frame_inside: "n \<in> set ns \<Longrightarrow> \<exists>f. role_frame role ns = [f] \<and> fr_role f = role \<and> inside f n"
  using least_le [of "fst (fn_position n)" "map (\<lambda>n. fst (fn_position n)) ns"]
    least_le [of "snd (fn_position n)" "map (\<lambda>n. snd (fn_position n)) ns"]
    greatest_ge [of "fst (fn_position n) + measured ''width'' NODE_WIDTH n" "map (\<lambda>n. fst (fn_position n) + measured ''width'' NODE_WIDTH n) ns"]
    greatest_ge [of "snd (fn_position n) + measured ''height'' NODE_HEIGHT n" "map (\<lambda>n. snd (fn_position n) + measured ''height'' NODE_HEIGHT n) ns"]
  by (auto simp: role_frame_def inside_def)

text \<open>
  The frames around the roles are right: they are drawn for distinct roles, every node lies with its
  margins inside the frame of its role, and there is a frame only for a role that has a node.
\<close>

theorem frames_hold_their_nodes:
  assumes "architectureBounds nodes = Inr frames"
  shows "distinct (map fr_role frames) \<and>
    (\<forall>n \<in> set nodes. \<exists>t. node_type n = Inr t \<and> (\<exists>f \<in> set frames. fr_role f = architectureRole t \<and> inside f n)) \<and>
    (\<forall>f \<in> set frames. \<exists>n \<in> set nodes. has_role (fr_role f) n)"
proof -
  let ?F = "\<lambda>role. role_frame role (filter (has_role role) nodes)"
  have fr: "frames = ?F Application @ ?F Data_Role @ ?F Messaging"
    and ty: "each_res (\<lambda>n. bind_res (node_type n) (\<lambda>_. Inr ())) nodes = Inr ()"
    using assms by (auto simp: architectureBounds_def)
  have one: "map fr_role (?F role) = (if filter (has_role role) nodes = [] then [] else [role])" for role
    by (simp add: role_frame_def)
  have "\<exists>t. node_type n = Inr t \<and> (\<exists>f \<in> set frames. fr_role f = architectureRole t \<and> inside f n)" if n: "n \<in> set nodes" for n
  proof -
    obtain t where t: "node_type n = Inr t" using ty n by auto
    then have "n \<in> set (filter (has_role (architectureRole t)) nodes)" using n by (simp add: has_role_def)
    from role_frame_inside [OF this, of "architectureRole t"] t show ?thesis
      by (cases "architectureRole t") (auto simp: fr)
  qed
  moreover have "\<exists>n \<in> set nodes. has_role (fr_role f) n" if "f \<in> set frames" for f
  proof -
    from that obtain role where "f \<in> set (?F role)" by (auto simp: fr)
    then have "filter (has_role role) nodes \<noteq> []" "fr_role f = role" by (auto simp: role_frame_def split: if_splits)
    then show ?thesis by (auto simp: filter_empty_conv)
  qed
  moreover have "distinct (map fr_role frames)" by (simp add: fr one)
  ultimately show ?thesis by blast
qed

theorem frames_hold_their_nodes_witness:
  "\<exists>frames. architectureBounds [sample_node ''a'' Generic] = Inr frames \<and> (\<exists>f \<in> set frames. inside f (sample_node ''a'' Generic))"
proof -
  obtain frames where f: "architectureBounds [sample_node ''a'' Generic] = Inr frames"
    by (simp add: architectureBounds_def node_type_def sample_node_def)
  from frames_hold_their_nodes [OF f] f show ?thesis by auto
qed

end
