(* ===== verification/Builder_Views.thy ===== *)
theory Builder_Views
  imports Architecture_View Translation_Props Scenario_Store Run_Stores
begin

text \<open>
  What the builder derives from a workflow and its scenarios, under
  \<^verbatim>\<open>src/ui-v2/src/modules/workflow/lib/\<close>: suggested connections
  (\<^verbatim>\<open>connection-suggestions.ts\<close>), preferences and the checklist (\<^verbatim>\<open>builder-experience.ts\<close>), the
  journey of a scenario (\<^verbatim>\<open>scenario-journey.ts\<close>) and the summaries of the workflow list
  (\<^verbatim>\<open>workflow-presentation.ts\<close>). The theory shows that accepting suggestions settles them, that the
  journey shows the tests as the runner gets them, and what removing a service reports and leaves.
\<close>

section \<open>Suggested connections\<close>

record connection_suggestion =
  cs_id :: string
  cs_source :: string
  cs_target :: string
  cs_data :: edge_data
  cs_reason :: string

text \<open>
  The pattern \<open>\$\{([^}.]+)\.(?:host|port\.[^}]+|env\.[^}]+)\}\<close> at the start of a text: the service and the rest.
\<close>

definition service_value :: "string \<Rightarrow> bool" where
  "service_value body \<longleftrightarrow>
     body = ''host'' \<or> (prefix ''port.'' body \<and> body \<noteq> ''port.'') \<or> (prefix ''env.'' body \<and> body \<noteq> ''env.'')"

definition link_ref_at :: "string \<Rightarrow> (string \<times> string) option" where
  "link_ref_at s =
     (case runtime_ref_at s of
        None \<Rightarrow> None
      | Some (token, rest) \<Rightarrow>
          (let body = takeWhile (\<lambda>x. x \<noteq> CHR ''}'') (drop (length token + 3) s)
           in if service_value body then Some (token, rest) else None))"

lemma link_ref_at_shorter: "link_ref_at s = Some (t, rest) \<Longrightarrow> length rest < length s"
  by (auto simp: link_ref_at_def dest: runtime_ref_at_shorter split: option.splits if_splits)

function link_tokens :: "string \<Rightarrow> string list" where
  "link_tokens s =
     (case s of [] \<Rightarrow> []
      | c # cs \<Rightarrow> (case link_ref_at s of Some (token, rest) \<Rightarrow> token # link_tokens rest
                                   | None \<Rightarrow> link_tokens cs))"
  by pat_completeness auto
termination
  by (relation "measure length") (auto dest: link_ref_at_shorter)

declare link_tokens.simps [simp del]

definition referencedServiceNames :: "node_service \<Rightarrow> string list" where
  "referencedServiceNames service =
     set_of (concat (map link_tokens (map ev_value (nullish (svc_env service) []) @ nullish (svc_command service) [])))"

definition suggestionKey :: "string \<Rightarrow> string \<Rightarrow> string \<Rightarrow> string" where
  "suggestionKey source target relation = source @ '':'' @ relation @ '':'' @ target"

definition edge_key :: "flow_edge \<Rightarrow> string" where
  "edge_key e = suggestionKey (fe_source e) (fe_target e) (nullish (ed_relation (data_of e)) ''calls'')"

definition nodeByName :: "flow_node list \<Rightarrow> (string \<times> flow_node) list" where
  "nodeByName nodes = foldl (\<lambda>m n. AList.update (sanitizeName (or_str (Some (nd_label (fn_data n))) (fn_id n))) n m) [] nodes"

definition addSuggestion ::
  "string list \<Rightarrow> flow_node \<times> flow_node \<times> string \<Rightarrow> connection_suggestion list \<Rightarrow> connection_suggestion list" where
  "addSuggestion existing candidate suggestions =
     (case candidate of (source, target, reason) \<Rightarrow>
        if fn_id source = fn_id target then suggestions
        else case inferEdgeData source target of
          Inl _ \<Rightarrow> suggestions
        | Inr data \<Rightarrow>
            (let key = suggestionKey (fn_id source) (fn_id target) (the (ed_relation data))
             in if key \<in> set existing \<or> key \<in> cs_id ` set suggestions then suggestions
                else suggestions @ [\<lparr>cs_id = key, cs_source = fn_id source, cs_target = fn_id target, cs_data = data,
                       cs_reason = reason\<rparr>]))"

definition node_service_of :: "flow_node \<Rightarrow> node_service" where
  "node_service_of n = the (nd_service (fn_data n))"

text \<open>The calls of \<open>addSuggestion\<close> in the order the code makes them.\<close>

definition reference_candidates :: "flow_node list \<Rightarrow> (flow_node \<times> flow_node \<times> string) list" where
  "reference_candidates nodes =
     concat (map (\<lambda>source. concat (map (\<lambda>name. case map_of (nodeByName nodes) name of
          Some target \<Rightarrow> [(source, target, ''Referenced by this service's runtime configuration'')] | None \<Rightarrow> [])
        (referencedServiceNames (node_service_of source)))) nodes)"

definition inventory_candidates :: "flow_node list \<Rightarrow> (flow_node \<times> flow_node \<times> string) list" where
  "inventory_candidates nodes =
     (case filter (\<lambda>n. svc_type (node_service_of n) = Generic) nodes of
        [app] \<Rightarrow> map (\<lambda>d. (app, d, ''Likely application dependency based on the service inventory''))
                   (filter (\<lambda>n. svc_type (node_service_of n) \<noteq> Generic) nodes)
      | _ \<Rightarrow> [])"

text \<open>The first node without a service throws.\<close>

definition suggestConnections :: "flow_node list \<Rightarrow> flow_edge list \<Rightarrow> connection_suggestion list res" where
  "suggestConnections nodes edges =
     (if list_ex (\<lambda>n. nd_service (fn_data n) = None) nodes then Inl TypeError
      else Inr (fold (addSuggestion (map edge_key edges)) (reference_candidates nodes @ inventory_candidates nodes) []))"

section \<open>Preferences and checklist\<close>

datatype authoring_mode = Guided | Expert
datatype guided_stage = Stage_services | Stage_connections | Stage_scenarios | Stage_review
datatype checklist_status = Complete | Optional | Review | Pending | Ready

record checklist_item =
  gc_stage :: guided_stage
  gc_title :: string
  gc_description :: string
  gc_status :: checklist_status

record builder_experience =
  be_mode :: authoring_mode
  be_checklistDismissed :: bool

definition mode_name :: "authoring_mode \<Rightarrow> string" where
  "mode_name m = (case m of Guided \<Rightarrow> ''guided'' | Expert \<Rightarrow> ''expert'')"

definition builderModeStorageKey :: "string \<Rightarrow> string" where
  "builderModeStorageKey userId = ''tokyo-tester:builder-mode'' @ '':'' @ userId"

definition checklistStorageKey :: "string \<Rightarrow> string" where
  "checklistStorageKey userId = ''tokyo-tester:guided-checklist-dismissed'' @ '':'' @ userId"

text \<open>
  A preference storage: its entries, or \<open>None\<close> when there is none; \<open>ps_reads\<close> and \<open>ps_writes\<close> say whether
  \<open>getItem\<close> and \<open>setItem\<close> work or throw.
\<close>

record preference_storage =
  ps_entries :: "(string \<times> string) list"
  ps_reads :: bool
  ps_writes :: bool

definition default_experience :: builder_experience where
  "default_experience = \<lparr>be_mode = Guided, be_checklistDismissed = False\<rparr>"

definition readBuilderExperience :: "preference_storage option \<Rightarrow> string option \<Rightarrow> builder_experience" where
  "readBuilderExperience storage userId =
     (case storage of
        None \<Rightarrow> default_experience
      | Some s \<Rightarrow>
          if \<not> truthy_opt userId \<or> \<not> ps_reads s then default_experience
          else \<lparr>be_mode = (if map_of (ps_entries s) (builderModeStorageKey (the userId)) = Some ''expert'' then Expert else Guided),
                be_checklistDismissed = (map_of (ps_entries s) (checklistStorageKey (the userId)) = Some ''true'')\<rparr>)"

definition store_preference ::
  "preference_storage option \<Rightarrow> string option \<Rightarrow> (string \<Rightarrow> string) \<Rightarrow> string \<Rightarrow> bool \<times> preference_storage option" where
  "store_preference storage userId key v =
     (case storage of
        None \<Rightarrow> (False, None)
      | Some s \<Rightarrow>
          if \<not> truthy_opt userId \<or> \<not> ps_writes s then (False, storage)
          else (True, Some (s\<lparr>ps_entries := AList.update (key (the userId)) v (ps_entries s)\<rparr>)))"

definition persistBuilderMode ::
  "preference_storage option \<Rightarrow> string option \<Rightarrow> authoring_mode \<Rightarrow> bool \<times> preference_storage option" where
  "persistBuilderMode storage userId mode = store_preference storage userId builderModeStorageKey (mode_name mode)"

definition persistChecklistDismissal ::
  "preference_storage option \<Rightarrow> string option \<Rightarrow> bool \<Rightarrow> bool \<times> preference_storage option" where
  "persistChecklistDismissal storage userId dismissed =
     store_preference storage userId checklistStorageKey (show_bool dismissed)"

definition plural :: "nat \<Rightarrow> string" where
  "plural n = (if n = 1 then [] else ''s'')"

definition connection_state :: "nat \<Rightarrow> flow_edge list \<Rightarrow> string \<times> checklist_status" where
  "connection_state serviceCount edges =
     (if serviceCount < 2 then (''Not needed until two or more services interact.'', Optional)
      else if edges \<noteq> [] \<and> \<not> list_ex (\<lambda>e. ed_needsReview (data_of e) = Some True) edges
      then (''Service relationships are confirmed.'', Complete)
      else (if edges = [] then ''Review whether these services need to communicate.''
            else ''Confirm the suggested relationship and startup order.'', Review))"

definition deriveGuidedChecklist :: "nat \<Rightarrow> flow_edge list \<Rightarrow> scenario list \<Rightarrow> nat \<Rightarrow> checklist_item list" where
  "deriveGuidedChecklist serviceCount edges scenarios validationErrorCount =
     (let hasServices = (0 < serviceCount);
          hasScenarioTests = list_ex (\<lambda>s. \<not> sm_is_deleted (sn_meta s) \<and> sn_tests s \<noteq> []) scenarios;
          reviewReady = (hasServices \<and> hasScenarioTests \<and> validationErrorCount = 0)
      in [\<lparr>gc_stage = Stage_services, gc_title = ''Add the environment'',
           gc_description = (if hasServices then show_nat serviceCount @ '' service'' @ plural serviceCount @ '' configured.''
             else ''Add the application and infrastructure this run needs.''),
           gc_status = (if hasServices then Complete else Pending)\<rparr>,
          \<lparr>gc_stage = Stage_connections, gc_title = ''Review connections'',
           gc_description = fst (connection_state serviceCount edges), gc_status = snd (connection_state serviceCount edges)\<rparr>,
          \<lparr>gc_stage = Stage_scenarios, gc_title = ''Describe what to prove'',
           gc_description = (if hasScenarioTests then ''At least one ordered test step is ready.''
             else ''Create a scenario and add an assertion or recipe.''),
           gc_status = (if hasScenarioTests then Complete else Pending)\<rparr>,
          \<lparr>gc_stage = Stage_review, gc_title = ''Validate and run'',
           gc_description = (if reviewReady then ''Required configuration is ready for review.''
             else if 0 < validationErrorCount
             then show_nat validationErrorCount @ '' validation issue'' @ plural validationErrorCount @ '' need attention.''
             else ''Add a service and scenario before running.''),
           gc_status = (if reviewReady then Ready else Pending)\<rparr>])"

section \<open>The journey of a scenario\<close>

definition TEST_INTENT_LABELS :: "test_type \<Rightarrow> string" where
  "TEST_INTENT_LABELS t =
     (case t of THttp \<Rightarrow> ''Call an API'' | TDatabase \<Rightarrow> ''Check stored data'' | TQueue \<Rightarrow> ''Check a message''
      | TCache \<Rightarrow> ''Check cached data'' | TDocument \<Rightarrow> ''Check a document'' | TDelay \<Rightarrow> ''Wait for something''
      | TShell \<Rightarrow> ''Run an advanced command'')"

definition tests_by_id :: "scenario_test list \<Rightarrow> (string \<times> scenario_test) list" where
  "tests_by_id tests = foldl (\<lambda>m t. AList.update (st_id t) t m) [] tests"

definition orderedScenarioTests :: "scenario_test list \<Rightarrow> string list \<Rightarrow> scenario_test list" where
  "orderedScenarioTests tests testOrder =
     (let ordered = concat (map (\<lambda>i. case map_of (tests_by_id tests) i of Some t \<Rightarrow> [t] | None \<Rightarrow> []) testOrder);
          seen = map st_id ordered
      in ordered @ filter (\<lambda>t. st_id t \<notin> set seen) tests)"

definition scenarioServiceNames :: "scenario_test list \<Rightarrow> string list" where
  "scenarioServiceNames tests = set_of (concat (map (\<lambda>t. nullish (st_targetServices t) []) tests))"

definition formatDuration :: "int \<Rightarrow> string" where
  "formatDuration durationMs =
     (if 1000 \<le> durationMs \<and> durationMs mod 1000 = 0
      then show_int (durationMs div 1000) @ '' second'' @ (if durationMs = 1000 then [] else ''s'')
      else show_int durationMs @ '' ms'')"

text \<open>The typographic quotes lie outside Latin-1 and are arguments.\<close>

definition quote_value :: "string \<times> string \<Rightarrow> string \<Rightarrow> string option \<Rightarrow> string" where
  "quote_value quotes lead v = (if truthy_opt v then lead @ fst quotes @ the v @ snd quotes else [])"

definition describeScenarioStep :: "string \<times> string \<Rightarrow> scenario_test \<Rightarrow> string res" where
  "describeScenarioStep quotes t =
     (case st_targetServices t of
        None \<Rightarrow> Inl TypeError
      | Some targets \<Rightarrow>
          (let target = (case targets of s # _ \<Rightarrow> if s = [] then ''a service'' else friendlyName s | [] \<Rightarrow> ''a service'')
           in Inr (case st_type t of
                THttp \<Rightarrow> or_str (map_option http_method (st_httpConfig t)) ''GET'' @ '' '' @
                  or_str (map_option http_path (st_httpConfig t)) ''/'' @ '' on '' @ target @
                  (case Option.bind (st_httpConfig t) http_expectedStatus of
                     Some n \<Rightarrow> if n = 0 then [] else '' and expect '' @ show_int n | None \<Rightarrow> [])
              | TDatabase \<Rightarrow> ''Verify data stored in '' @ target
              | TDocument \<Rightarrow> ''Verify '' @ or_str (map_option doc_collection (st_documentConfig t)) ''a document collection'' @ '' in '' @ target
              | TCache \<Rightarrow> friendlyName (or_str (map_option cc_operation (st_cacheConfig t)) ''check'') @
                  quote_value quotes '' '' (Option.bind (st_cacheConfig t) cc_key) @ '' in '' @ target
              | TQueue \<Rightarrow> friendlyName (or_str (map_option qc_operation (st_queueConfig t)) ''check'') @
                  quote_value quotes '' on '' (Option.bind (st_queueConfig t) qc_topic) @ '' through '' @ target
              | TDelay \<Rightarrow> ''Wait '' @ formatDuration (nullish (st_delayMs t) 0) @ '' before continuing''
              | TShell \<Rightarrow> ''Run an advanced verification command'')))"

definition joinPhrases :: "string list \<Rightarrow> string" where
  "joinPhrases phrases =
     (case phrases of
        [a] \<Rightarrow> a
      | [a, b] \<Rightarrow> a @ '' and '' @ b
      | _ \<Rightarrow> join_with '', '' (butlast phrases) @ '', and '' @ last phrases)"

definition scenarioSummary :: "scenario_test list \<Rightarrow> string" where
  "scenarioSummary tests =
     (let services = scenarioServiceNames tests; intents = st_type ` set tests;
          phrases = (if THttp \<in> intents then [''calls application APIs''] else []) @
            (if TDatabase \<in> intents \<or> TDocument \<in> intents then [''verifies stored data''] else []) @
            (if TQueue \<in> intents then [''checks asynchronous messages''] else []) @
            (if TCache \<in> intents then [''confirms cached state''] else []);
          shown = (if phrases = [] then [''validates the expected workflow behavior''] else phrases)
      in ''This journey '' @ joinPhrases shown @ '' across '' @ show_nat (length services) @ '' service'' @
         plural (length services) @ ''.'')"

section \<open>The workflow list\<close>

datatype workflow_list_state = List_loading | List_no_project | List_empty_editable | List_empty_readonly | List_populated

definition resolveWorkflowListState :: "bool \<Rightarrow> bool \<Rightarrow> bool \<Rightarrow> nat \<Rightarrow> workflow_list_state" where
  "resolveWorkflowListState isReady hasProject canEdit workflowCount =
     (if \<not> isReady then List_loading else if \<not> hasProject then List_no_project
      else if 0 < workflowCount then List_populated
      else if canEdit then List_empty_editable else List_empty_readonly)"

record workflow_list_summary =
  wl_workflows :: nat
  wl_services :: nat
  wl_scenarios :: nat
  wl_executions :: nat

definition summarizeWorkflowList ::
  "workflow list \<Rightarrow> scenario list \<Rightarrow> workflow_execution list \<Rightarrow> workflow_list_summary" where
  "summarizeWorkflowList workflows scenarios executions =
     (let workflowIds = map wf_id workflows
      in \<lparr>wl_workflows = length workflows,
          wl_services = foldl (\<lambda>total w. total + length (wf_nodes w)) 0 workflows,
          wl_scenarios = length (filter (\<lambda>s. \<not> sm_is_deleted (sn_meta s) \<and> sn_workflowId s \<in> set workflowIds) scenarios),
          wl_executions = length (filter (\<lambda>e. \<not> sm_is_deleted (ex_meta e) \<and> ex_workflowId e \<in> set workflowIds) executions)\<rparr>)"

record workflow_card_summary =
  wc_services :: nat
  wc_scenarios :: nat
  wc_executions :: nat
  wc_latestExecution :: "workflow_execution option"

definition latest_first :: "workflow_execution \<Rightarrow> workflow_execution \<Rightarrow> int" where
  "latest_first left right = ex_startedAt right - ex_startedAt left"

definition summarizeWorkflowCard :: "workflow \<Rightarrow> scenario list \<Rightarrow> workflow_execution list \<Rightarrow> workflow_card_summary" where
  "summarizeWorkflowCard workflow scenarios executions =
     (let workflowExecutions = js_sort latest_first
            (filter (\<lambda>e. \<not> sm_is_deleted (ex_meta e) \<and> ex_workflowId e = wf_id workflow) executions)
      in \<lparr>wc_services = length (wf_nodes workflow),
          wc_scenarios = length (filter (\<lambda>s. \<not> sm_is_deleted (sn_meta s) \<and> sn_workflowId s = wf_id workflow) scenarios),
          wc_executions = length workflowExecutions,
          wc_latestExecution = (case workflowExecutions of [] \<Rightarrow> None | e # _ \<Rightarrow> Some e)\<rparr>)"

text \<open>\<open>sanitizeServiceName\<close>: runs of other characters become one underscore, then the ends are stripped.\<close>

fun replace_runs :: "bool \<Rightarrow> string \<Rightarrow> string" where
  "replace_runs in_run [] = []"
| "replace_runs in_run (c # cs) =
     (if name_char c then c # replace_runs False cs
      else if in_run then replace_runs True cs else CHR ''_'' # replace_runs True cs)"

definition sanitizeServiceName :: "string \<Rightarrow> string" where
  "sanitizeServiceName v =
     (let s = dropWhile (\<lambda>c. c = CHR ''_'') (replace_runs False (toLowerCase (trim v)))
      in rev (dropWhile (\<lambda>c. c = CHR ''_'') (rev s)))"

definition testReferencesService :: "scenario_test \<Rightarrow> flow_node \<Rightarrow> bool res" where
  "testReferencesService t n =
     (case st_targetServices t of
        None \<Rightarrow> Inl TypeError
      | Some targets \<Rightarrow>
          (let candidates = map (\<lambda>v. toLowerCase (trim v)) (filter truthy_str
                 [fn_id n, nd_label (fn_data n), sanitizeServiceName (fn_id n), sanitizeServiceName (nd_label (fn_data n))]);
               references = filter truthy_str (targets @ map (\<lambda>v. nullish v [])
                 [map_option doc_service (st_documentConfig t), map_option cc_service (st_cacheConfig t),
                  map_option qc_service (st_queueConfig t)])
           in Inr (list_ex (\<lambda>r. toLowerCase (trim r) \<in> set candidates \<or>
                toLowerCase (sanitizeServiceName r) \<in> set candidates) references)))"

record removal_impact =
  ri_connectedEdges :: nat
  ri_referencedTests :: nat
  ri_referencedScenarios :: nat

definition scenario_hits :: "flow_node \<Rightarrow> scenario \<Rightarrow> nat res" where
  "scenario_hits n s =
     (if sm_is_deleted (sn_meta s) then Inr 0
      else bind_res (map_res (\<lambda>t. testReferencesService t n) (sn_tests s)) (\<lambda>bs. Inr (length (filter (\<lambda>b. b) bs))))"

definition getServiceRemovalImpact :: "flow_node \<Rightarrow> flow_edge list \<Rightarrow> scenario list \<Rightarrow> removal_impact res" where
  "getServiceRemovalImpact n edges scenarios =
     bind_res (map_res (\<lambda>s. bind_res (scenario_hits n s) (\<lambda>h. Inr (sn_id s, h))) scenarios) (\<lambda>hits.
       Inr \<lparr>ri_connectedEdges = length (filter (\<lambda>e. fe_source e = fn_id n \<or> fe_target e = fn_id n) edges),
            ri_referencedTests = sum_list (map snd hits),
            ri_referencedScenarios = length (set_of (map fst (filter (\<lambda>h. 0 < snd h) hits)))\<rparr>)"

definition removeServiceFromGraph ::
  "flow_node list \<Rightarrow> flow_edge list \<Rightarrow> string \<Rightarrow> flow_node list \<times> flow_edge list" where
  "removeServiceFromGraph nodes edges nodeId =
     (filter (\<lambda>n. fn_id n \<noteq> nodeId) nodes, filter (\<lambda>e. fe_source e \<noteq> nodeId \<and> fe_target e \<noteq> nodeId) edges)"

section \<open>Suggestions settle\<close>

definition candidate_key :: "flow_node \<times> flow_node \<times> string \<Rightarrow> string option" where
  "candidate_key c =
     (case c of (source, target, _) \<Rightarrow>
        if fn_id source = fn_id target then None
        else case inferEdgeData source target of
          Inl _ \<Rightarrow> None
        | Inr data \<Rightarrow> Some (suggestionKey (fn_id source) (fn_id target) (the (ed_relation data))))"

text \<open>A suggestion made for the candidate.\<close>

definition made_for :: "flow_node \<times> flow_node \<times> string \<Rightarrow> connection_suggestion \<Rightarrow> bool" where
  "made_for c s \<longleftrightarrow>
     (case c of (source, target, reason) \<Rightarrow> cs_source s = fn_id source \<and> cs_target s = fn_id target \<and>
        fn_id source \<noteq> fn_id target \<and> inferEdgeData source target = Inr (cs_data s) \<and> candidate_key c = Some (cs_id s))"

lemma addSuggestion_cases:
  "(addSuggestion existing c ss = ss \<and> (case candidate_key c of None \<Rightarrow> True | Some k \<Rightarrow> k \<in> set existing \<or> k \<in> cs_id ` set ss)) \<or>
   (\<exists>s. addSuggestion existing c ss = ss @ [s] \<and> made_for c s \<and> cs_id s \<notin> set existing \<and> cs_id s \<notin> cs_id ` set ss)"
  by (auto simp: addSuggestion_def candidate_key_def made_for_def split: prod.splits sum.splits)

lemma fold_addSuggestion:
  assumes "distinct (map cs_id ss)" "\<forall>s \<in> set ss. cs_id s \<notin> set existing"
  shows "distinct (map cs_id (fold (addSuggestion existing) cs ss)) \<and>
    (\<forall>s \<in> set (fold (addSuggestion existing) cs ss). cs_id s \<notin> set existing \<and> (s \<in> set ss \<or> (\<exists>c \<in> set cs. made_for c s))) \<and>
    (\<forall>c \<in> set cs. \<forall>k. candidate_key c = Some k \<longrightarrow> k \<in> set existing \<or> k \<in> cs_id ` set (fold (addSuggestion existing) cs ss)) \<and>
    set ss \<subseteq> set (fold (addSuggestion existing) cs ss)"
  using assms
proof (induction cs arbitrary: ss)
  case (Cons c cs)
  let ?ss = "addSuggestion existing c ss"
  have step: "distinct (map cs_id ?ss)" "\<forall>s \<in> set ?ss. cs_id s \<notin> set existing \<and> (s \<in> set ss \<or> made_for c s)" "set ss \<subseteq> set ?ss"
    "\<forall>k. candidate_key c = Some k \<longrightarrow> k \<in> set existing \<or> k \<in> cs_id ` set ?ss"
    using addSuggestion_cases [of existing c ss] Cons.prems
    by (auto simp: made_for_def split: option.splits)
  from Cons.IH [of ?ss] step show ?case by simp blast
qed simp

text \<open>An edge list that has a connection of the same relation where a candidate would be suggested.\<close>

lemma fold_addSuggestion_covered:
  "\<forall>c \<in> set cs. \<forall>k. candidate_key c = Some k \<longrightarrow> k \<in> set existing \<Longrightarrow> fold (addSuggestion existing) cs ss = ss"
proof (induction cs)
  case (Cons c cs)
  have "addSuggestion existing c ss = ss"
    using addSuggestion_cases [of existing c ss] Cons.prems by (auto simp: made_for_def)
  then show ?case using Cons by simp
qed simp

lemma map_of_foldl_update:
  "map_of (foldl (\<lambda>m n. AList.update (f n) n m) m nodes) k = Some n \<Longrightarrow> n \<in> set nodes \<and> f n = k \<or> map_of m k = Some n"
proof (induction nodes arbitrary: m)
  case (Cons a nodes) from Cons.IH [of "AList.update (f a) a m"] Cons.prems show ?case by (auto split: if_splits)
qed simp

lemma candidates_in_graph:
  assumes "(source, target, reason) \<in> set (reference_candidates nodes @ inventory_candidates nodes)"
  shows "source \<in> set nodes" "target \<in> set nodes"
proof -
  have n: "map_of (nodeByName nodes) name = Some n \<Longrightarrow> n \<in> set nodes" for name n
    using map_of_foldl_update [of "\<lambda>n. sanitizeName (or_str (Some (nd_label (fn_data n))) (fn_id n))" "[]" nodes name n]
    by (simp add: nodeByName_def)
  have "source \<in> set nodes \<and> target \<in> set nodes"
  proof (cases "(source, target, reason) \<in> set (reference_candidates nodes)")
    case True
    then show ?thesis by (auto simp: reference_candidates_def n split: option.splits)
  next
    case False
    with assms have st: "[source] = filter (\<lambda>n. svc_type (node_service_of n) = Generic) nodes" "target \<in> set nodes"
      by (auto simp: inventory_candidates_def split: list.splits)
    then have "source \<in> set (filter (\<lambda>n. svc_type (node_service_of n) = Generic) nodes)" by (metis list.set_intros(1))
    then show ?thesis using st(2) by simp
  qed
  then show "source \<in> set nodes" "target \<in> set nodes" by blast+
qed

lemma suggestions_covered:
  assumes "suggestConnections nodes edges = Inr ss"
    and "edge_key ` set edges \<union> cs_id ` set ss \<subseteq> edge_key ` set edges'"
  shows "suggestConnections nodes edges' = Inr []"
proof -
  define C where "C = reference_candidates nodes @ inventory_candidates nodes"
  have ss: "ss = fold (addSuggestion (map edge_key edges)) C []" "\<not> list_ex (\<lambda>n. nd_service (fn_data n) = None) nodes"
    using assms(1) by (auto simp: suggestConnections_def C_def split: if_splits)
  have "\<forall>c \<in> set C. \<forall>k. candidate_key c = Some k \<longrightarrow> k \<in> edge_key ` set edges \<or> k \<in> cs_id ` set ss"
    using fold_addSuggestion [of "[]" "map edge_key edges" C] ss(1) by simp
  then have "\<forall>c \<in> set C. \<forall>k. candidate_key c = Some k \<longrightarrow> k \<in> set (map edge_key edges')"
    using assms(2) unfolding set_map by blast
  from fold_addSuggestion_covered [OF this, of "[]"] ss(2) show ?thesis by (simp add: suggestConnections_def C_def)
qed

text \<open>
  Suggested connections are sound and settle. Each suggestion joins two different services of the
  graph with the relation inferred for them, no suggestion repeats another one or a connection the graph
  already has, and once every suggestion has been added as a connection nothing more is suggested.
\<close>

theorem suggestions_sound_and_settle:
  assumes "suggestConnections nodes edges = Inr ss"
    and "edge_key ` set edges' = edge_key ` set edges \<union> cs_id ` set ss"
  shows "distinct (map cs_id ss) \<and>
    (\<forall>s \<in> set ss. cs_source s \<noteq> cs_target s \<and>
       (\<exists>m \<in> set nodes. \<exists>n \<in> set nodes. fn_id m = cs_source s \<and> fn_id n = cs_target s \<and> inferEdgeData m n = Inr (cs_data s)) \<and>
       \<not> (\<exists>e \<in> set edges. fe_source e = cs_source s \<and> fe_target e = cs_target s \<and>
            nullish (ed_relation (data_of e)) ''calls'' = the (ed_relation (cs_data s)))) \<and>
    suggestConnections nodes edges' = Inr []"
proof -
  define C where "C = reference_candidates nodes @ inventory_candidates nodes"
  have ss: "ss = fold (addSuggestion (map edge_key edges)) C []"
    using assms(1) by (auto simp: suggestConnections_def C_def split: if_splits)
  have f: "distinct (map cs_id ss)" "\<forall>s \<in> set ss. cs_id s \<notin> edge_key ` set edges \<and> (\<exists>c \<in> set C. made_for c s)"
    using fold_addSuggestion [of "[]" "map edge_key edges" C] ss by simp_all
  have "cs_source s \<noteq> cs_target s \<and>
       (\<exists>m \<in> set nodes. \<exists>n \<in> set nodes. fn_id m = cs_source s \<and> fn_id n = cs_target s \<and> inferEdgeData m n = Inr (cs_data s)) \<and>
       \<not> (\<exists>e \<in> set edges. fe_source e = cs_source s \<and> fe_target e = cs_target s \<and>
            nullish (ed_relation (data_of e)) ''calls'' = the (ed_relation (cs_data s)))" if s: "s \<in> set ss" for s
  proof -
    obtain source target reason where c: "(source, target, reason) \<in> set C" "made_for (source, target, reason) s"
      using f(2) s by (metis prod_cases3)
    have fresh: "cs_id s \<notin> edge_key ` set edges" using f(2) s by blast
    have "cs_id s = suggestionKey (cs_source s) (cs_target s) (the (ed_relation (cs_data s)))"
      using c(2) by (auto simp: made_for_def candidate_key_def)
    then show ?thesis using c(2) candidates_in_graph [OF c(1) [unfolded C_def]] fresh
      by (auto simp: made_for_def edge_key_def image_iff)
  qed
  moreover note f(1)
  moreover have "suggestConnections nodes edges' = Inr []"
    by (rule suggestions_covered [OF assms(1)]) (simp add: assms(2))
  ultimately show ?thesis by blast
qed

theorem suggestions_sound_and_settle_witness:
  "\<exists>ss edges'. suggestConnections [sample_node ''a'' Generic, sample_node ''b'' Kafka] [] = Inr ss \<and> ss \<noteq> [] \<and>
     suggestConnections [sample_node ''a'' Generic, sample_node ''b'' Kafka] edges' = Inr []"
proof -
  let ?ns = "[sample_node ''a'' Generic, sample_node ''b'' Kafka]"
  let ?e = "sample_edge\<lparr>fe_source := ''a'', fe_target := ''b'', fe_data := Some (no_edge_data\<lparr>ed_relation := Some ''publishes''\<rparr>)\<rparr>"
  obtain ss where ss: "suggestConnections ?ns [] = Inr ss" by (simp add: suggestConnections_def sample_node_def)
  then have ids: "map cs_id ss = [''a:publishes:b'']"
    by (auto simp: suggestConnections_def reference_candidates_def inventory_candidates_def referencedServiceNames_def
        sample_node_def sample_service_def node_service_of_def addSuggestion_def inferEdgeData_def infer_relation_def
        queueTypes_def storeTypes_def suggestionKey_def set_of_def nullish_def)
  have "edge_key ` set [?e] = edge_key ` set [] \<union> cs_id ` set ss"
    using arg_cong [OF ids, of set] by (simp add: edge_key_def suggestionKey_def data_of_def nullish_def)
  from suggestions_sound_and_settle [OF ss this] ss ids show ?thesis by (metis list.map_disc_iff not_Cons_self2)
qed

section \<open>The journey is what runs\<close>

lemma map_of_tests_by_id:
  assumes "distinct (map st_id tests)"
  shows "map_of (tests_by_id tests) i = find (\<lambda>t. st_id t = i) tests"
proof -
  have "map_of (foldl (\<lambda>m t. AList.update (st_id t) t m) m tests) i =
      (case find (\<lambda>t. st_id t = i) tests of Some t \<Rightarrow> Some t | None \<Rightarrow> map_of m i)" for m
    using assms
  proof (induction tests arbitrary: m)
    case (Cons t ts)
    have "find (\<lambda>u. st_id u = i) ts = None" if "st_id t = i"
      using Cons.prems that by (simp add: find_None_iff image_iff) metis
    then show ?case using Cons by (auto split: option.splits)
  qed simp
  then show ?thesis by (simp add: tests_by_id_def split: option.splits)
qed

text \<open>
  The journey shown for a scenario is the sequence of tests the runner gets: for tests with distinct
  ids, the order of the page is the order in which the scenario is translated.
\<close>

theorem journey_is_execution_order:
  assumes "distinct (map st_id tests)"
  shows "orderedScenarioTests tests testOrder = ordered_tests tests testOrder"
proof -
  let ?pick = "\<lambda>i. case find (\<lambda>t. st_id t = i) tests of None \<Rightarrow> [] | Some t \<Rightarrow> [t]"
  let ?ids = "filter (\<lambda>i. list_ex (\<lambda>t. st_id t = i) tests) testOrder"
  have p: "?pick i = [] \<longleftrightarrow> \<not> list_ex (\<lambda>t. st_id t = i) tests" for i
  proof (cases "find (\<lambda>t. st_id t = i) tests")
    case None
    then have "\<not> list_ex (\<lambda>t. st_id t = i) tests" by (simp add: find_None_iff list_ex_iff)
    then show ?thesis using None by simp
  next
    case (Some t)
    then have "t \<in> set tests" "st_id t = i" by (auto simp: find_Some_iff)
    then show ?thesis using Some by (auto simp: list_ex_iff)
  qed
  have "concat (map ?pick testOrder) = concat (map ?pick ?ids)"
    using p by (induction testOrder) auto
  moreover have "map st_id (concat (map ?pick ?ids)) = ?ids"
  proof (induction testOrder)
    case (Cons i rest)
    have "map st_id (?pick i) = [i]" if "list_ex (\<lambda>t. st_id t = i) tests"
      using that p [of i] by (auto dest: find_Some_iff [THEN iffD1] split: option.splits)
    then show ?case using Cons by simp
  qed simp
  moreover have "(\<lambda>i. case map_of (tests_by_id tests) i of Some t \<Rightarrow> [t] | None \<Rightarrow> []) = ?pick"
    by (auto simp: map_of_tests_by_id [OF assms] split: option.splits)
  ultimately show ?thesis unfolding orderedScenarioTests_def ordered_tests_def Let_def by (simp only:)
qed

theorem journey_is_execution_order_witness:
  "orderedScenarioTests [] [''x''] = ordered_tests [] [''x'']"
  by (rule journey_is_execution_order) simp

section \<open>Removing a service\<close>

lemma map_res_Inr_length: "map_res f xs = Inr ys \<Longrightarrow> length ys = length xs \<and> (\<forall>i < length xs. f (xs ! i) = Inr (ys ! i))"
proof (induction xs arbitrary: ys)
  case (Cons x xs)
  then show ?case by (auto simp: nth_Cons split: nat.splits)
qed simp

text \<open>
  Removing a service is announced and done right: the number of connections reported is exactly the
  number that disappears, the tests reported are those of live scenarios that refer to the service, and in
  the remaining graph no connection of two remaining services is lost and no connection of the removed
  service is left.
\<close>

theorem removing_service_is_consistent:
  assumes "getServiceRemovalImpact n edges scenarios = Inr impact"
    and "removeServiceFromGraph nodes edges (fn_id n) = (nodes', edges')"
  shows "length edges' + ri_connectedEdges impact = length edges \<and>
    set nodes' = {m \<in> set nodes. fn_id m \<noteq> fn_id n} \<and>
    set edges' = {e \<in> set edges. fe_source e \<noteq> fn_id n \<and> fe_target e \<noteq> fn_id n} \<and>
    (ri_referencedTests impact = 0 \<longleftrightarrow>
       (\<forall>s \<in> set scenarios. \<not> sm_is_deleted (sn_meta s) \<longrightarrow> (\<forall>t \<in> set (sn_tests s). testReferencesService t n = Inr False)))"
proof -
  obtain hits where h: "map_res (\<lambda>s. bind_res (scenario_hits n s) (\<lambda>h. Inr (sn_id s, h))) scenarios = Inr hits"
    and i: "ri_connectedEdges impact = length (filter (\<lambda>e. fe_source e = fn_id n \<or> fe_target e = fn_id n) edges)"
      "ri_referencedTests impact = sum_list (map snd hits)"
    using assms(1) by (auto simp: getServiceRemovalImpact_def)
  have zero: "scenario_hits n s = Inr 0 \<longleftrightarrow>
      (\<not> sm_is_deleted (sn_meta s) \<longrightarrow> (\<forall>t \<in> set (sn_tests s). testReferencesService t n = Inr False))"
    if hits: "scenario_hits n s = Inr k" for s k
  proof (cases "sm_is_deleted (sn_meta s)")
    case False
    then obtain bs where bs: "map_res (\<lambda>t. testReferencesService t n) (sn_tests s) = Inr bs" "k = length (filter (\<lambda>b. b) bs)"
      using hits by (auto simp: scenario_hits_def)
    have "k = 0 \<longleftrightarrow> (\<forall>b \<in> set bs. \<not> b)" by (simp add: bs(2) filter_empty_conv)
    also have "\<dots> \<longleftrightarrow> (\<forall>j < length (sn_tests s). testReferencesService (sn_tests s ! j) n = Inr False)"
      using map_res_Inr_length [OF bs(1)] by (auto simp: all_set_conv_all_nth)
    finally show ?thesis using hits False by (simp add: all_set_conv_all_nth)
  qed (simp add: scenario_hits_def)
  have hj: "scenario_hits n (scenarios ! j) = Inr (snd (hits ! j))" if "j < length scenarios" for j
  proof -
    have "bind_res (scenario_hits n (scenarios ! j)) (\<lambda>h. Inr (sn_id (scenarios ! j), h)) = Inr (hits ! j)"
      using map_res_Inr_length [OF h] that by blast
    then show ?thesis by (cases "hits ! j") auto
  qed
  then have "sum_list (map snd hits) = 0 \<longleftrightarrow> (\<forall>j < length scenarios. scenario_hits n (scenarios ! j) = Inr 0)"
    using map_res_Inr_length [OF h] by (simp add: sum_list_eq_0_iff all_set_conv_all_nth)
  also have "\<dots> \<longleftrightarrow> (\<forall>s \<in> set scenarios. scenario_hits n s = Inr 0)" by (simp add: all_set_conv_all_nth)
  also have "\<dots> \<longleftrightarrow> (\<forall>s \<in> set scenarios. \<not> sm_is_deleted (sn_meta s) \<longrightarrow>
      (\<forall>t \<in> set (sn_tests s). testReferencesService t n = Inr False))"
    using hj zero by (metis (no_types, lifting) in_set_conv_nth)
  finally have "ri_referencedTests impact = 0 \<longleftrightarrow>
      (\<forall>s \<in> set scenarios. \<not> sm_is_deleted (sn_meta s) \<longrightarrow> (\<forall>t \<in> set (sn_tests s). testReferencesService t n = Inr False))"
    by (simp add: i(2))
  moreover have "length edges' + ri_connectedEdges impact = length edges"
    using assms(2) sum_length_filter_compl [of "\<lambda>e. fe_source e \<noteq> fn_id n \<and> fe_target e \<noteq> fn_id n" edges]
    by (auto simp: removeServiceFromGraph_def i(1))
  ultimately show ?thesis using assms(2) by (auto simp: removeServiceFromGraph_def)
qed

theorem removing_service_is_consistent_witness:
  "\<exists>impact nodes' edges'. getServiceRemovalImpact (sample_node ''a'' Generic) [sample_edge] [sample_scenario] = Inr impact \<and>
     removeServiceFromGraph [sample_node ''a'' Generic] [sample_edge] ''a'' = (nodes', edges') \<and>
     length edges' + ri_connectedEdges impact = 1"
proof -
  have "scenario_hits (sample_node ''a'' Generic) sample_scenario = Inr 0" by (simp add: scenario_hits_def sample_scenario_def)
  then obtain impact where i: "getServiceRemovalImpact (sample_node ''a'' Generic) [sample_edge] [sample_scenario] = Inr impact"
    by (simp add: getServiceRemovalImpact_def)
  obtain nodes' edges' where r: "removeServiceFromGraph [sample_node ''a'' Generic] [sample_edge] (fn_id (sample_node ''a'' Generic)) = (nodes', edges')"
    by force
  from removing_service_is_consistent [OF i r] i r show ?thesis by (simp add: sample_node_def)
qed

text \<open>
  The two ways of making a name of a label differ: for a label with two underscores in a row a test that
  targets the service by its service name is not counted.
\<close>

theorem removal_impact_misses_test:
  "sanitizeName ''a__b'' = ''a_b'' \<and>
   testReferencesService \<lparr>st_id = ''t'', st_name = ''t'', st_type = THttp, st_targetServices = Some [sanitizeName ''a__b''],
       st_dependsOnTestIds = None, st_retryPolicy = None, st_databaseConfig = None, st_documentConfig = None,
       st_httpConfig = None, st_shellConfig = None, st_cacheConfig = None, st_queueConfig = None, st_delayMs = None\<rparr>
     \<lparr>fn_id = ''n'', fn_position = (0, 0), fn_attrs = [],
      fn_data = \<lparr>nd_label = ''a__b'', nd_description = None, nd_service = None, nd_tests = None\<rparr>\<rparr> = Inr False"
  by (simp add: sanitizeName_def strip_underscore_ends_def toLowerCase_def lower_char_def is_upper_latin1_def name_char_def
      testReferencesService_def sanitizeServiceName_def trim_def is_space_def truthy_str_def nullish_def)

section \<open>Preferences\<close>

lemma preference_keys_differ: "builderModeStorageKey u \<noteq> checklistStorageKey v"
  by (simp add: builderModeStorageKey_def checklistStorageKey_def)

text \<open>A stored preference is read back, for its user only and without touching the other preference.\<close>

lemma preference_roundtrip:
  assumes "persistBuilderMode storage (Some u) mode = (True, storage')" "ps_reads (the storage)"
  shows "readBuilderExperience storage' (Some u) = (readBuilderExperience storage (Some u))\<lparr>be_mode := mode\<rparr>"
    and "v \<noteq> u \<Longrightarrow> readBuilderExperience storage' (Some v) = readBuilderExperience storage (Some v)"
proof -
  obtain s where s: "storage = Some s" "ps_reads s" "truthy_opt (Some u)"
    "storage' = Some (s\<lparr>ps_entries := AList.update (builderModeStorageKey u) (mode_name mode) (ps_entries s)\<rparr>)"
    using assms by (auto simp: persistBuilderMode_def store_preference_def split: option.splits if_splits)
  have "builderModeStorageKey v = builderModeStorageKey u \<longleftrightarrow> v = u" for v by (simp add: builderModeStorageKey_def)
  then show "readBuilderExperience storage' (Some u) = (readBuilderExperience storage (Some u))\<lparr>be_mode := mode\<rparr>"
    and "v \<noteq> u \<Longrightarrow> readBuilderExperience storage' (Some v) = readBuilderExperience storage (Some v)"
    using s preference_keys_differ
    by (cases mode; auto simp: readBuilderExperience_def mode_name_def preference_keys_differ [THEN not_sym])+
qed

end
