(* ===== verification/Graph_Editor.thy ===== *)
theory Graph_Editor
  imports Builder_Views Workflow_Store
begin

text \<open>
  \<^verbatim>\<open>src/ui-v2/src/modules/workflow/hooks/useWorkflowGraph.tsx\<close> and
  \<^verbatim>\<open>useTestOrderManager.tsx\<close>, with the connection form of
  \<^verbatim>\<open>src/ui-v2/src/modules/workflow/components/GuidedConnections.tsx\<close>: the editor of a workflow's graph.
  The editor keeps the graph in React state, copies it into refs after every render, computes every
  edit from the refs and writes the result to the state and to the workflow store. When the store's
  workflow is another object than at the last render, the state is loaded from it again.

  React Flow's \<^verbatim>\<open>addEdge\<close>, \<^verbatim>\<open>applyNodeChanges\<close> and \<^verbatim>\<open>applyEdgeChanges\<close> are a record of functions; what
  their documentation says of them is the predicate \<open>flow_laws\<close>.
\<close>

section \<open>The editor\<close>

record graph_editor =
  ge_workflow :: "workflow option"
  ge_nodes :: "flow_node list"
  ge_edges :: "flow_edge list"
  ge_nodesRef :: "flow_node list"
  ge_edgesRef :: "flow_edge list"
  ge_editingEdgeId :: "string option"

datatype node_change = NPosition string "bool option" | NRemove string | NTouch string

datatype edge_change = ERemove string | ETouch string

record flow_lib =
  addEdge :: "flow_edge \<Rightarrow> flow_edge list \<Rightarrow> flow_edge list"
  applyNodeChanges :: "node_change list \<Rightarrow> flow_node list \<Rightarrow> flow_node list"
  applyEdgeChanges :: "edge_change list \<Rightarrow> flow_edge list \<Rightarrow> flow_edge list"

record connection =
  cn_source :: string
  cn_target :: string
  cn_attrs :: "(string \<times> json) list"

record guided_edge =
  gd_edgeId :: "string option"
  gd_source :: string
  gd_target :: string
  gd_data :: "edge_data option"

text \<open>The first render of the hook, before its effects.\<close>

definition open_editor :: "string \<Rightarrow> workflow_synced \<Rightarrow> graph_editor" where
  "open_editor workflowId store =
     \<lparr>ge_workflow = getWorkflow workflowId store, ge_nodes = [], ge_edges = [], ge_nodesRef = [],
      ge_edgesRef = (case getWorkflow workflowId store of Some w \<Rightarrow> wf_edges w | None \<Rightarrow> []),
      ge_editingEdgeId = None\<rparr>"

text \<open>
  A render and its effects: the refs take the rendered state; if the store's workflow object was
  replaced since the last render, its graph is loaded into the state, which the refs see after the
  next render.
\<close>

definition render :: "string \<Rightarrow> bool \<Rightarrow> workflow_synced \<Rightarrow> graph_editor \<Rightarrow> graph_editor" where
  "render workflowId replaced store ge =
     (let ge' = ge\<lparr>ge_workflow := getWorkflow workflowId store, ge_nodesRef := ge_nodes ge, ge_edgesRef := ge_edges ge\<rparr>
      in case (replaced, getWorkflow workflowId store) of
           (True, Some w) \<Rightarrow> ge'\<lparr>ge_nodes := wf_nodes w, ge_edges := normalizeEdges (wf_edges w) False\<rparr>
         | _ \<Rightarrow> ge')"

text \<open>The renders until nothing changes any more.\<close>

definition settle :: "string \<Rightarrow> bool \<Rightarrow> workflow_synced \<Rightarrow> graph_editor \<Rightarrow> graph_editor" where
  "settle workflowId replaced store ge = render workflowId False store (render workflowId replaced store ge)"

type_synonym edited = "unit res \<times> graph_editor \<times> workflow_synced"

text \<open>Writing the graph to the store, if the hook has a workflow.\<close>

definition save_graph ::
  "graph_json \<Rightarrow> sync_env \<Rightarrow> flow_node list \<Rightarrow> flow_edge list \<Rightarrow> graph_editor \<Rightarrow> workflow_synced \<Rightarrow> edited" where
  "save_graph G E nodes edges ge store =
     (case ge_workflow ge of
        None \<Rightarrow> (Inr (), ge, store)
      | Some workflow \<Rightarrow>
          (case updateWorkflowGraph G E (wf_id workflow) nodes edges None store of (r, store') \<Rightarrow> (r, ge, store')))"

definition deleteNode :: "graph_json \<Rightarrow> sync_env \<Rightarrow> string \<Rightarrow> graph_editor \<Rightarrow> workflow_synced \<Rightarrow> edited" where
  "deleteNode G E nodeId ge store =
     (case removeServiceFromGraph (ge_nodesRef ge) (ge_edgesRef ge) nodeId of
        (newNodes, newEdges) \<Rightarrow>
          save_graph G E newNodes newEdges (ge\<lparr>ge_nodes := newNodes, ge_edges := newEdges\<rparr>) store)"

definition updateNode :: "graph_json \<Rightarrow> sync_env \<Rightarrow> flow_node \<Rightarrow> graph_editor \<Rightarrow> workflow_synced \<Rightarrow> edited" where
  "updateNode G E updatedNode ge store =
     (let newNodes = map (\<lambda>n. if fn_id n = fn_id updatedNode then updatedNode else n) (ge_nodesRef ge)
      in save_graph G E newNodes (ge_edgesRef ge) (ge\<lparr>ge_nodes := newNodes\<rparr>) store)"

definition addNode :: "graph_json \<Rightarrow> sync_env \<Rightarrow> flow_node \<Rightarrow> graph_editor \<Rightarrow> workflow_synced \<Rightarrow> edited" where
  "addNode G E node ge store =
     (let newNodes = ge_nodesRef ge @ [node]
      in save_graph G E newNodes (ge_edgesRef ge) (ge\<lparr>ge_nodes := newNodes\<rparr>) store)"

definition find_node :: "string \<Rightarrow> flow_node list \<Rightarrow> flow_node option" where
  "find_node i nodes = List.find (\<lambda>n. fn_id n = i) nodes"

definition connectNodes ::
  "flow_lib \<Rightarrow> graph_json \<Rightarrow> sync_env \<Rightarrow> string \<Rightarrow> connection \<Rightarrow> graph_editor \<Rightarrow> workflow_synced \<Rightarrow> edited" where
  "connectNodes R G E now c ge store =
     (case (find_node (cn_source c) (ge_nodesRef ge), find_node (cn_target c) (ge_nodesRef ge)) of
        (Some source, Some target) \<Rightarrow>
          (case inferEdgeData source target of
             Inl e \<Rightarrow> (Inl e, ge, store)
           | Inr data \<Rightarrow>
               (let newEdge = \<lparr>fe_id = ''edge-'' @ now, fe_source = cn_source c, fe_target = cn_target c,
                      fe_type = Some ''dataFlow'', fe_attrs = cn_attrs c, fe_data = Some data\<rparr>;
                    newEdges = addEdge R newEdge (ge_edgesRef ge)
                in case save_graph G E (ge_nodesRef ge) newEdges (ge\<lparr>ge_edges := newEdges\<rparr>) store of
                     (Inl e, ge', store') \<Rightarrow> (Inl e, ge', store')
                   | (Inr _, ge', store') \<Rightarrow> (Inr (), ge'\<lparr>ge_editingEdgeId := Some (fe_id newEdge)\<rparr>, store')))
      | _ \<Rightarrow> (Inr (), ge, store))"

definition updateEdge ::
  "graph_json \<Rightarrow> sync_env \<Rightarrow> string \<Rightarrow> edge_data \<Rightarrow> graph_editor \<Rightarrow> workflow_synced \<Rightarrow> edited" where
  "updateEdge G E edgeId data ge store =
     (let newEdges = map (\<lambda>e. if fe_id e = edgeId
            then e\<lparr>fe_type := Some ''dataFlow'', fe_data := Some (data\<lparr>ed_needsReview := None\<rparr>)\<rparr> else e) (ge_edgesRef ge)
      in save_graph G E (ge_nodesRef ge) newEdges (ge\<lparr>ge_edges := newEdges\<rparr>) store)"

text \<open>\<^verbatim>\<open>{ ...inferred, ...definition.data, needsReview: undefined }\<close>.\<close>

definition guided_data :: "edge_data \<Rightarrow> edge_data option \<Rightarrow> edge_data" where
  "guided_data inferred given =
     (let over = (\<lambda>f. case given of None \<Rightarrow> f inferred | Some d \<Rightarrow> (case f d of None \<Rightarrow> f inferred | v \<Rightarrow> v));
          points = (case given of None \<Rightarrow> ed_layoutPoints inferred
             | Some d \<Rightarrow> (case ed_layoutPoints d of None \<Rightarrow> ed_layoutPoints inferred | v \<Rightarrow> v));
          flag = (case given of None \<Rightarrow> ed_showLabel inferred
             | Some d \<Rightarrow> (case ed_showLabel d of None \<Rightarrow> ed_showLabel inferred | v \<Rightarrow> v))
      in \<lparr>ed_label = over ed_label, ed_description = over ed_description, ed_protocol = over ed_protocol,
          ed_relation = over ed_relation, ed_readiness = over ed_readiness, ed_needsReview = None,
          ed_showLabel = flag, ed_layoutPoints = points\<rparr>)"

definition existing_edge :: "guided_edge \<Rightarrow> edge_data \<Rightarrow> flow_edge list \<Rightarrow> flow_edge option" where
  "existing_edge d data edges =
     (if truthy_opt (gd_edgeId d) then List.find (\<lambda>e. Some (fe_id e) = gd_edgeId d) edges
      else List.find (\<lambda>e. fe_source e = gd_source d \<and> fe_target e = gd_target d \<and>
             ed_relation (data_of e) = ed_relation data) edges)"

definition saveGuidedEdge ::
  "flow_lib \<Rightarrow> graph_json \<Rightarrow> sync_env \<Rightarrow> string \<Rightarrow> guided_edge \<Rightarrow> graph_editor \<Rightarrow> workflow_synced \<Rightarrow> edited" where
  "saveGuidedEdge R G E generated d ge store =
     (case (find_node (gd_source d) (ge_nodesRef ge), find_node (gd_target d) (ge_nodesRef ge)) of
        (Some source, Some target) \<Rightarrow>
          if fn_id source = fn_id target then (Inr (), ge, store)
          else (case inferEdgeData source target of
             Inl e \<Rightarrow> (Inl e, ge, store)
           | Inr inferred \<Rightarrow>
               (let data = guided_data inferred (gd_data d);
                    existing = existing_edge d data (ge_edgesRef ge);
                    nextEdge = \<lparr>fe_id = (case existing of Some e \<Rightarrow> fe_id e | None \<Rightarrow> ''edge-'' @ generated),
                      fe_source = fn_id source, fe_target = fn_id target, fe_type = Some ''dataFlow'',
                      fe_attrs = (case existing of Some e \<Rightarrow> fe_attrs e | None \<Rightarrow> []), fe_data = Some data\<rparr>;
                    newEdges = (case existing of
                        Some old \<Rightarrow> map (\<lambda>e. if fe_id e = fe_id old then nextEdge else e) (ge_edgesRef ge)
                      | None \<Rightarrow> addEdge R nextEdge (ge_edgesRef ge))
                in save_graph G E (ge_nodesRef ge) newEdges (ge\<lparr>ge_edges := newEdges\<rparr>) store))
      | _ \<Rightarrow> (Inr (), ge, store))"

definition deleteEdge :: "graph_json \<Rightarrow> sync_env \<Rightarrow> string \<Rightarrow> graph_editor \<Rightarrow> workflow_synced \<Rightarrow> edited" where
  "deleteEdge G E edgeId ge store =
     (let newEdges = filter (\<lambda>e. fe_id e \<noteq> edgeId) (ge_edgesRef ge)
      in case save_graph G E (ge_nodesRef ge) newEdges (ge\<lparr>ge_edges := newEdges\<rparr>) store of
           (Inl e, ge', store') \<Rightarrow> (Inl e, ge', store')
         | (Inr _, ge', store') \<Rightarrow>
             (Inr (), if ge_editingEdgeId ge' = Some edgeId then ge'\<lparr>ge_editingEdgeId := None\<rparr> else ge', store'))"

definition onEdgesChange ::
  "flow_lib \<Rightarrow> graph_json \<Rightarrow> sync_env \<Rightarrow> edge_change list \<Rightarrow> graph_editor \<Rightarrow> workflow_synced \<Rightarrow> edited" where
  "onEdgesChange R G E changes ge store =
     (let newEdges = applyEdgeChanges R changes (ge_edgesRef ge);
          ge' = ge\<lparr>ge_edges := newEdges\<rparr>
      in if list_ex (\<lambda>c. case c of ERemove _ \<Rightarrow> True | _ \<Rightarrow> False) changes
         then save_graph G E (ge_nodesRef ge) newEdges ge' store
         else (Inr (), ge', store))"

definition moved_nodes :: "node_change list \<Rightarrow> string list" where
  "moved_nodes changes = remdups (concat (map (\<lambda>c. case c of NPosition i _ \<Rightarrow> [i] | _ \<Rightarrow> []) changes))"

definition onNodesChange ::
  "flow_lib \<Rightarrow> graph_json \<Rightarrow> sync_env \<Rightarrow> node_change list \<Rightarrow> graph_editor \<Rightarrow> workflow_synced \<Rightarrow> edited" where
  "onNodesChange R G E changes ge store =
     (let nextNodes = applyNodeChanges R changes (ge_nodesRef ge);
          moved = moved_nodes changes;
          nextEdges = invalidateRoutesForMovedNodes (ge_edgesRef ge) moved;
          ge' = ge\<lparr>ge_nodes := nextNodes\<rparr>;
          ge'' = (if moved = [] then ge' else ge'\<lparr>ge_edges := nextEdges\<rparr>)
      in if list_ex (\<lambda>c. case c of NPosition _ dragging \<Rightarrow> dragging = Some False | _ \<Rightarrow> False) changes
         then save_graph G E nextNodes nextEdges ge'' store
         else (Inr (), ge'', store))"

definition tidyLayout ::
  "(elk_request \<Rightarrow> elk_graph res) \<Rightarrow> graph_json \<Rightarrow> sync_env \<Rightarrow> bool option \<Rightarrow> graph_editor \<Rightarrow> workflow_synced \<Rightarrow> edited" where
  "tidyLayout elk G E persist ge store =
     (case layoutArchitecture elk (ge_nodesRef ge) (ge_edgesRef ge) of
        Inl e \<Rightarrow> (Inl e, ge, store)
      | Inr (nodes, edges) \<Rightarrow>
          (let ge' = ge\<lparr>ge_nodes := nodes, ge_edges := edges\<rparr>
           in if persist = Some False then (Inr (), ge', store) else save_graph G E nodes edges ge' store))"

text \<open>The per-service test order: the hook writes the stored graph back with the new order.\<close>

definition updateTestOrder ::
  "graph_json \<Rightarrow> sync_env \<Rightarrow> (string \<times> string list) list \<Rightarrow> workflow option \<Rightarrow> workflow_synced \<Rightarrow>
   unit res \<times> (string \<times> string list) list \<times> workflow_synced" where
  "updateTestOrder G E newOrder workflow store =
     (case workflow of
        None \<Rightarrow> (Inr (), newOrder, store)
      | Some w \<Rightarrow>
          (case updateWorkflowGraph G E (wf_id w) (wf_nodes w) (wf_edges w) (Some newOrder) store of
             (r, store') \<Rightarrow> (r, newOrder, store')))"

section \<open>The connection form\<close>

record connection_draft =
  cd_edgeId :: "string option"
  cd_source :: string
  cd_target :: string
  cd_relation :: string
  cd_readiness :: string
  cd_protocol :: string

fun first_generic :: "flow_node list \<Rightarrow> flow_node option res" where
  "first_generic [] = Inr None"
| "first_generic (n # ns) =
     bind_res (node_type n) (\<lambda>t. if t = Generic then Inr (Some n) else first_generic ns)"

definition newDraft :: "flow_node list \<Rightarrow> connection_draft res" where
  "newDraft nodes =
     bind_res (first_generic nodes) (\<lambda>generic.
       let source = (case generic of Some n \<Rightarrow> Some n | None \<Rightarrow> (case nodes of [] \<Rightarrow> None | n # _ \<Rightarrow> Some n));
           target = List.find (\<lambda>n. Some (fn_id n) \<noteq> map_option fn_id source) nodes
       in Inr \<lparr>cd_edgeId = None, cd_source = nullish (map_option fn_id source) [],
               cd_target = nullish (map_option fn_id target) [], cd_relation = ''calls'',
               cd_readiness = ''source_requires_target'', cd_protocol = []\<rparr>)"

definition draft_relation :: "string option \<Rightarrow> connection_draft \<Rightarrow> connection_draft" where
  "draft_relation relation draft =
     (let nxt = nullish relation ''calls'' in draft\<lparr>cd_relation := nxt, cd_readiness := defaultReadiness nxt\<rparr>)"

text \<open>What the form hands to \<^verbatim>\<open>onSave\<close>; nothing while it is incomplete.\<close>

definition saveDraft :: "connection_draft option \<Rightarrow> guided_edge option" where
  "saveDraft draft =
     (case draft of
        None \<Rightarrow> None
      | Some d \<Rightarrow>
          if cd_source d = [] \<or> cd_target d = [] \<or> cd_source d = cd_target d then None
          else Some \<lparr>gd_edgeId = cd_edgeId d, gd_source = cd_source d, gd_target = cd_target d,
                 gd_data = Some (no_edge_data\<lparr>ed_relation := Some (cd_relation d), ed_readiness := Some (cd_readiness d),
                   ed_protocol := (let p = trim (cd_protocol d) in if p = [] then None else Some p)\<rparr>)\<rparr>)"

section \<open>Sessions of edits\<close>

text \<open>
  What React Flow documents: \<^verbatim>\<open>addEdge\<close> appends the edge or, for a duplicate, returns the edges; applying
  changes removes the elements named for removal and keeps the others with their ids and ends.
\<close>

definition edge_ends :: "flow_edge \<Rightarrow> string \<times> string \<times> string" where
  "edge_ends e = (fe_id e, fe_source e, fe_target e)"

definition flow_laws :: "flow_lib \<Rightarrow> bool" where
  "flow_laws R \<longleftrightarrow>
     (\<forall>e es. addEdge R e es = es \<or> addEdge R e es = es @ [e]) \<and>
     (\<forall>cs ns. map fn_id (applyNodeChanges R cs ns) = filter (\<lambda>i. NRemove i \<notin> set cs) (map fn_id ns)) \<and>
     (\<forall>cs es. map edge_ends (applyEdgeChanges R cs es) = filter (\<lambda>x. ERemove (fst x) \<notin> set cs) (map edge_ends es))"

datatype graph_op =
    DeleteNode string | UpdateNode flow_node | AddNode flow_node | ConnectNodes string connection
  | UpdateEdge string edge_data | SaveGuidedEdge string guided_edge | DeleteEdge string
  | EdgesChange "edge_change list" | NodesChange "node_change list" | TidyLayout "bool option"

record editor_host =
  eh_flow :: flow_lib
  eh_json :: graph_json
  eh_elk :: "elk_request \<Rightarrow> elk_graph res"

fun edit :: "editor_host \<Rightarrow> sync_env \<Rightarrow> graph_op \<Rightarrow> graph_editor \<Rightarrow> workflow_synced \<Rightarrow> edited" where
  "edit T E (DeleteNode i) ge s = deleteNode (eh_json T) E i ge s"
| "edit T E (UpdateNode n) ge s = updateNode (eh_json T) E n ge s"
| "edit T E (AddNode n) ge s = addNode (eh_json T) E n ge s"
| "edit T E (ConnectNodes now c) ge s = connectNodes (eh_flow T) (eh_json T) E now c ge s"
| "edit T E (UpdateEdge i d) ge s = updateEdge (eh_json T) E i d ge s"
| "edit T E (SaveGuidedEdge g d) ge s = saveGuidedEdge (eh_flow T) (eh_json T) E g d ge s"
| "edit T E (DeleteEdge i) ge s = deleteEdge (eh_json T) E i ge s"
| "edit T E (EdgesChange cs) ge s = onEdgesChange (eh_flow T) (eh_json T) E cs ge s"
| "edit T E (NodesChange cs) ge s = onNodesChange (eh_flow T) (eh_json T) E cs ge s"
| "edit T E (TidyLayout p) ge s = tidyLayout (eh_elk T) (eh_json T) E p ge s"

text \<open>An edit followed by the renders it causes; an exception leaves the state the edit had reached.\<close>

definition edit_and_settle ::
  "editor_host \<Rightarrow> sync_env \<Rightarrow> string \<Rightarrow> graph_op \<Rightarrow> graph_editor \<times> workflow_synced \<Rightarrow> graph_editor \<times> workflow_synced" where
  "edit_and_settle T E workflowId op gs =
     (case gs of (ge, s) \<Rightarrow> (case edit T E op ge s of (_, ge', s') \<Rightarrow>
        (settle workflowId (getWorkflow workflowId s' \<noteq> getWorkflow workflowId s) s' ge', s')))"

text \<open>Node ids are distinct and every edge joins two nodes.\<close>

definition graph_ok :: "flow_node list \<Rightarrow> flow_edge list \<Rightarrow> bool" where
  "graph_ok nodes edges \<longleftrightarrow>
     distinct (map fn_id nodes) \<and>
     (\<forall>e \<in> set edges. fe_source e \<in> fn_id ` set nodes \<and> fe_target e \<in> fn_id ` set nodes)"

text \<open>The editor between two events: its refs hold its state, its graph and the stored one are sound.\<close>

definition in_step :: "string \<Rightarrow> graph_editor \<Rightarrow> workflow_synced \<Rightarrow> bool" where
  "in_step workflowId ge s \<longleftrightarrow>
     ge_nodesRef ge = ge_nodes ge \<and> ge_edgesRef ge = ge_edges ge \<and> graph_ok (ge_nodes ge) (ge_edges ge) \<and>
     ge_workflow ge = getWorkflow workflowId s \<and>
     (\<exists>w. getWorkflow workflowId s = Some w \<and> wf_id w = workflowId \<and> 0 \<le> sm_version (wf_meta w) \<and>
        graph_ok (wf_nodes w) (wf_edges w))"

text \<open>Whether an edit makes sense for the graph shown.\<close>

fun applicable :: "graph_op \<Rightarrow> graph_editor \<Rightarrow> bool" where
  "applicable (AddNode n) ge \<longleftrightarrow> fn_id n \<notin> fn_id ` set (ge_nodes ge)"
| "applicable (NodesChange cs) ge \<longleftrightarrow> (\<forall>i. NRemove i \<notin> set cs)"
| "applicable _ ge \<longleftrightarrow> True"

fun edit_session :: "editor_host \<Rightarrow> string \<Rightarrow> (sync_env \<times> graph_op) list \<Rightarrow> graph_editor \<times> workflow_synced \<Rightarrow>
    (graph_editor \<times> workflow_synced) option" where
  "edit_session T workflowId [] gs = Some gs"
| "edit_session T workflowId ((E, op) # ops) gs =
     (if applicable op (fst gs) then edit_session T workflowId ops (edit_and_settle T E workflowId op gs) else None)"

subsection \<open>Every edit keeps the graph sound\<close>

lemma graph_ok_ends:
  "graph_ok nodes edges \<longleftrightarrow> distinct (map fn_id nodes) \<and>
     (\<forall>x \<in> set (map edge_ends edges). fst (snd x) \<in> set (map fn_id nodes) \<and> snd (snd x) \<in> set (map fn_id nodes))"
  by (auto simp: graph_ok_def edge_ends_def)

lemma graph_ok_mono:
  "graph_ok nodes edges \<Longrightarrow> map fn_id nodes' = map fn_id nodes \<Longrightarrow>
   set (map edge_ends edges') \<subseteq> set (map edge_ends edges) \<Longrightarrow> graph_ok nodes' edges'"
  unfolding graph_ok_ends by auto

lemma graph_ok_edges_map:
  "graph_ok nodes edges \<Longrightarrow> (\<And>e. e \<in> set edges \<Longrightarrow> edge_ends (f e) = edge_ends e) \<Longrightarrow> graph_ok nodes (map f edges)"
  by (erule graph_ok_mono) auto

lemma edge_ends_normalize [simp]: "edge_ends (normalizeEdge e l) = edge_ends e"
  by (simp add: normalizeEdge_def edge_ends_def)

lemma graph_ok_normalize [simp]: "graph_ok nodes edges \<Longrightarrow> graph_ok nodes (normalizeEdges edges l)"
  unfolding normalizeEdges_def by (erule graph_ok_edges_map) simp

lemma graph_ok_invalidate: "graph_ok nodes edges \<Longrightarrow> graph_ok nodes (invalidateRoutesForMovedNodes edges moved)"
  unfolding invalidateRoutesForMovedNodes_def
  by (auto simp: edge_ends_def intro!: graph_ok_edges_map)

lemma graph_ok_remove:
  "graph_ok nodes edges \<Longrightarrow> removeServiceFromGraph nodes edges i = (nodes', edges') \<Longrightarrow> graph_ok nodes' edges'"
  by (fastforce simp: graph_ok_def removeServiceFromGraph_def distinct_map intro: inj_on_subset)

lemma graph_ok_add_node: "graph_ok nodes edges \<Longrightarrow> fn_id n \<notin> fn_id ` set nodes \<Longrightarrow> graph_ok (nodes @ [n]) edges"
  by (auto simp: graph_ok_def)

lemma find_node_Some: "find_node i nodes = Some n \<Longrightarrow> n \<in> set nodes \<and> fn_id n = i \<and> i \<in> fn_id ` set nodes"
  by (auto simp: find_node_def find_Some_iff)

lemma graph_ok_put_edge:
  assumes "graph_ok nodes edges" "fe_source e \<in> fn_id ` set nodes" "fe_target e \<in> fn_id ` set nodes"
  shows "flow_laws R \<Longrightarrow> graph_ok nodes (addEdge R e edges)" "graph_ok nodes (map (\<lambda>x. if P x then e else x) edges)"
proof -
  assume "flow_laws R"
  then have "addEdge R e edges = edges \<or> addEdge R e edges = edges @ [e]" by (simp add: flow_laws_def)
  with assms show "graph_ok nodes (addEdge R e edges)" by (auto simp: graph_ok_def)
next
  show "graph_ok nodes (map (\<lambda>x. if P x then e else x) edges)" using assms by (auto simp: graph_ok_def)
qed

lemma layout_keeps_ends:
  assumes "layoutArchitecture elk nodes edges = Inr (nodes', edges')"
  shows "map fn_id nodes' = map fn_id nodes" "map edge_ends edges' = map edge_ends edges"
proof -
  have sp [simp]: "edge_ends (set_points x e) = edge_ends e" for x e by (simp add: set_points_def edge_ends_def)
  have re [simp]: "edge_ends (route_edge m e) = edge_ends e" for m e by (simp add: route_edge_def split: option.splits)
  have "map fn_id nodes' = map fn_id nodes \<and> map edge_ends edges' = map edge_ends edges"
  proof (cases "layoutWithElk elk nodes edges")
    case (Inl x)
    then show ?thesis using assms place_nodes_sets
      by (auto simp: layoutArchitecture_def layoutByRole_def)
  next
    case (Inr r)
    then show ?thesis using assms
      by (auto simp: layoutArchitecture_def layoutWithElk_def split: option.splits)
  qed
  then show "map fn_id nodes' = map fn_id nodes" "map edge_ends edges' = map edge_ends edges" by simp_all
qed

text \<open>An edit leaves a sound graph in the state, and what it saves, if anything, is that graph.\<close>

definition keeps_or_saves ::
  "editor_host \<Rightarrow> sync_env \<Rightarrow> graph_editor \<Rightarrow> workflow_synced \<Rightarrow> edited \<Rightarrow> bool" where
  "keeps_or_saves T E ge s out \<longleftrightarrow>
     (case out of (r, ge', s') \<Rightarrow>
        graph_ok (ge_nodes ge') (ge_edges ge') \<and>
        (s' = s \<or> (\<exists>w. ge_workflow ge = Some w \<and>
           s' = snd (updateWorkflowGraph (eh_json T) E (wf_id w) (ge_nodes ge') (ge_edges ge') None s))))"

lemma keeps_or_saves_save:
  assumes "graph_ok nodes edges" "ge_nodes ge' = nodes" "ge_edges ge' = edges" "ge_workflow ge' = ge_workflow ge"
  shows "keeps_or_saves T E ge s (save_graph (eh_json T) E nodes edges ge' s)"
  using assms by (auto simp: keeps_or_saves_def save_graph_def split: option.splits prod.splits)

lemma keeps_or_saves_same: "graph_ok (ge_nodes ge') (ge_edges ge') \<Longrightarrow> keeps_or_saves T E ge s (r, ge', s)"
  by (simp add: keeps_or_saves_def)

lemma keeps_or_saves_editing:
  "keeps_or_saves T E ge s (case out of (Inl e, g, s') \<Rightarrow> (Inl e, g, s') | (Inr _, g, s') \<Rightarrow> (Inr (), g\<lparr>ge_editingEdgeId := x g\<rparr>, s'))
   \<longleftrightarrow> keeps_or_saves T E ge s out"
  by (auto simp: keeps_or_saves_def split: prod.splits sum.splits)

lemma keeps_or_saves_cases:
  "keeps_or_saves T E ge s (save_graph G E ns es g s) \<Longrightarrow>
   keeps_or_saves T E ge s (case save_graph G E ns es g s of (Inl e, ge', s') \<Rightarrow> (Inl e, ge', s')
     | (Inr _, ge', s') \<Rightarrow> (Inr (), if ge_editingEdgeId ge' = Some i then ge'\<lparr>ge_editingEdgeId := None\<rparr> else ge', s'))"
  by (auto simp: keeps_or_saves_def split: prod.splits sum.splits)

lemma edit_nodes_keeps:
  assumes ok: "graph_ok (ge_nodes ge) (ge_edges ge)"
    and refs [simp]: "ge_nodesRef ge = ge_nodes ge" "ge_edgesRef ge = ge_edges ge"
  shows "keeps_or_saves T E ge s (edit T E (DeleteNode i) ge s)"
    and "keeps_or_saves T E ge s (edit T E (UpdateNode n) ge s)"
    and "applicable (AddNode n) ge \<Longrightarrow> keeps_or_saves T E ge s (edit T E (AddNode n) ge s)"
    and "keeps_or_saves T E ge s (edit T E (TidyLayout persist) ge s)"
proof -
  show "keeps_or_saves T E ge s (edit T E (DeleteNode i) ge s)"
    using graph_ok_remove [OF ok]
    by (auto simp: deleteNode_def split: prod.splits intro!: keeps_or_saves_save)
  have "graph_ok (map (\<lambda>x. if fn_id x = fn_id n then n else x) (ge_nodes ge)) (ge_edges ge)"
    by (rule graph_ok_mono [OF ok]) auto
  then show "keeps_or_saves T E ge s (edit T E (UpdateNode n) ge s)"
    by (auto simp: updateNode_def intro!: keeps_or_saves_save)
  show "keeps_or_saves T E ge s (edit T E (AddNode n) ge s)" if "applicable (AddNode n) ge"
    using graph_ok_add_node [OF ok] that by (auto simp: addNode_def intro!: keeps_or_saves_save)
  show "keeps_or_saves T E ge s (edit T E (TidyLayout persist) ge s)"
  proof (cases "layoutArchitecture (eh_elk T) (ge_nodes ge) (ge_edges ge)")
    case (Inl e)
    then show ?thesis using ok by (simp add: tidyLayout_def keeps_or_saves_same)
  next
    case (Inr r)
    obtain ns es where r: "r = (ns, es)" by force
    have "graph_ok ns es"
      using layout_keeps_ends [OF Inr [unfolded r]] by (intro graph_ok_mono [OF ok]) simp_all
    then show ?thesis using Inr r
      by (auto simp: tidyLayout_def intro!: keeps_or_saves_save keeps_or_saves_same)
  qed
qed

lemma edit_edges_keeps:
  assumes ok: "graph_ok (ge_nodes ge) (ge_edges ge)" and R: "flow_laws (eh_flow T)"
    and refs [simp]: "ge_nodesRef ge = ge_nodes ge" "ge_edgesRef ge = ge_edges ge"
  shows "keeps_or_saves T E ge s (edit T E (ConnectNodes now c) ge s)"
    and "keeps_or_saves T E ge s (edit T E (UpdateEdge i d) ge s)"
    and "keeps_or_saves T E ge s (edit T E (SaveGuidedEdge g gd) ge s)"
    and "keeps_or_saves T E ge s (edit T E (DeleteEdge i) ge s)"
proof -
  show "keeps_or_saves T E ge s (edit T E (ConnectNodes now c) ge s)"
  proof (cases "find_node (cn_source c) (ge_nodes ge)"; cases "find_node (cn_target c) (ge_nodes ge)")
    fix source target
    assume f: "find_node (cn_source c) (ge_nodes ge) = Some source" "find_node (cn_target c) (ge_nodes ge) = Some target"
    then have "cn_source c \<in> fn_id ` set (ge_nodes ge)" "cn_target c \<in> fn_id ` set (ge_nodes ge)"
      using find_node_Some by blast+
    then have "keeps_or_saves T E ge s (save_graph (eh_json T) E (ge_nodes ge) (addEdge (eh_flow T) e (ge_edges ge))
        (ge\<lparr>ge_edges := addEdge (eh_flow T) e (ge_edges ge)\<rparr>) s)"
      if "fe_source e = cn_source c" "fe_target e = cn_target c" for e
      using that by (intro keeps_or_saves_save graph_ok_put_edge(1) [OF ok _ _ R]) simp_all
    then show ?thesis using f ok
      by (simp add: connectNodes_def keeps_or_saves_editing keeps_or_saves_same split: sum.splits)
  qed (use ok in \<open>simp_all add: connectNodes_def keeps_or_saves_same\<close>)
  show "keeps_or_saves T E ge s (edit T E (UpdateEdge i d) ge s)"
    by (auto simp: updateEdge_def edge_ends_def intro!: keeps_or_saves_save graph_ok_edges_map [OF ok])
  show "keeps_or_saves T E ge s (edit T E (DeleteEdge i) ge s)"
    by (simp add: deleteEdge_def, intro keeps_or_saves_cases keeps_or_saves_save graph_ok_mono [OF ok]) auto
  show "keeps_or_saves T E ge s (edit T E (SaveGuidedEdge g gd) ge s)"
  proof (cases "find_node (gd_source gd) (ge_nodes ge)"; cases "find_node (gd_target gd) (ge_nodes ge)")
    fix source target
    assume f: "find_node (gd_source gd) (ge_nodes ge) = Some source" "find_node (gd_target gd) (ge_nodes ge) = Some target"
    then have e: "fn_id source \<in> fn_id ` set (ge_nodes ge)" "fn_id target \<in> fn_id ` set (ge_nodes ge)"
      using find_node_Some by blast+
    have saved: "keeps_or_saves T E ge s (save_graph (eh_json T) E (ge_nodes ge) es (ge\<lparr>ge_edges := es\<rparr>) s)"
      if "graph_ok (ge_nodes ge) es" for es using that by (intro keeps_or_saves_save) simp_all
    note put = graph_ok_put_edge(1) [OF ok _ _ R] graph_ok_put_edge(2) [OF ok]
    show ?thesis using f ok
      by (simp add: saveGuidedEdge_def keeps_or_saves_same saved put e split: sum.split option.split)
  qed (use ok in \<open>simp_all add: saveGuidedEdge_def keeps_or_saves_same\<close>)
qed

lemma edit_changes_keeps:
  assumes ok: "graph_ok (ge_nodes ge) (ge_edges ge)" and R: "flow_laws (eh_flow T)"
    and refs [simp]: "ge_nodesRef ge = ge_nodes ge" "ge_edgesRef ge = ge_edges ge"
  shows "keeps_or_saves T E ge s (edit T E (EdgesChange es) ge s)"
    and "applicable (NodesChange ns) ge \<Longrightarrow> keeps_or_saves T E ge s (edit T E (NodesChange ns) ge s)"
proof -
  have "graph_ok (ge_nodes ge) (applyEdgeChanges (eh_flow T) es (ge_edges ge))"
    using R by (intro graph_ok_mono [OF ok]) (auto simp: flow_laws_def)
  then show "keeps_or_saves T E ge s (edit T E (EdgesChange es) ge s)"
    by (auto simp: onEdgesChange_def intro!: keeps_or_saves_save keeps_or_saves_same)
  assume "applicable (NodesChange ns) ge"
  then have "map fn_id (applyNodeChanges (eh_flow T) ns (ge_nodes ge)) = map fn_id (ge_nodes ge)"
    using R by (simp add: flow_laws_def)
  then have g: "graph_ok (applyNodeChanges (eh_flow T) ns (ge_nodes ge)) (ge_edges ge)"
    by (intro graph_ok_mono [OF ok]) simp_all
  have n: "invalidateRoutesForMovedNodes (ge_edges ge) [] = ge_edges ge" by (simp add: invalidateRoutesForMovedNodes_def)
  show "keeps_or_saves T E ge s (edit T E (NodesChange ns) ge s)"
    using g graph_ok_invalidate [OF g]
    by (auto simp: onNodesChange_def n intro!: keeps_or_saves_save keeps_or_saves_same)
qed

lemma edit_keeps:
  assumes "in_step workflowId ge s" "flow_laws (eh_flow T)" "applicable op ge"
  shows "keeps_or_saves T E ge s (edit T E op ge s)"
proof -
  have "graph_ok (ge_nodes ge) (ge_edges ge)" "ge_nodesRef ge = ge_nodes ge" "ge_edgesRef ge = ge_edges ge"
    using assms(1) by (simp_all add: in_step_def)
  note keeps = edit_nodes_keeps [OF this] edit_edges_keeps [OF this(1) assms(2) this(2,3)]
    edit_changes_keeps [OF this(1) assms(2) this(2,3)]
  show ?thesis using assms(3) by (cases op) (simp_all only: keeps)
qed

subsection \<open>The editor and the store\<close>

lemma updateWorkflowGraph_effect:
  "getWorkflow i s = Some w \<Longrightarrow>
   getWorkflow j (snd (updateWorkflowGraph G E i nodes edges None s)) =
     (if j = i then Some (case bump_metadata E (wf_meta w) of Inl _ \<Rightarrow> w
        | Inr m \<Rightarrow> w\<lparr>wf_nodes := nodes, wf_edges := edges, wf_meta := m\<rparr>)
      else getWorkflow j s)"
  by (simp add: updateWorkflowGraph_def updateWorkflow_def getWorkflow_def nullish_def split: sum.splits)

text \<open>The stored workflow after an edit and what the editor shows of it.\<close>

definition shows_saved :: "string \<Rightarrow> workflow \<Rightarrow> graph_editor \<Rightarrow> workflow_synced \<Rightarrow> bool" where
  "shows_saved workflowId w ge s \<longleftrightarrow>
     (\<exists>w'. getWorkflow workflowId s = Some w' \<and> sm_version (wf_meta w') = sm_version (wf_meta w) + 1 \<and>
        w' = w\<lparr>wf_nodes := wf_nodes w', wf_edges := wf_edges w', wf_meta := wf_meta w'\<rparr> \<and>
        ge_nodes ge = wf_nodes w' \<and> ge_edges ge = normalizeEdges (wf_edges w') False)"

lemma edit_step:
  assumes step: "in_step workflowId ge s" and R: "flow_laws (eh_flow T)" and app: "applicable op ge"
    and w: "getWorkflow workflowId s = Some w"
    and out: "edit_and_settle T E workflowId op (ge, s) = (ge', s')"
  shows "in_step workflowId ge' s'" "j \<noteq> workflowId \<Longrightarrow> getWorkflow j s' = getWorkflow j s"
    "getWorkflow workflowId s' \<noteq> getWorkflow workflowId s \<Longrightarrow> shows_saved workflowId w ge' s'"
    "edit T E op ge s = (r, g, s') \<Longrightarrow> getWorkflow workflowId s' \<noteq> getWorkflow workflowId s \<Longrightarrow>
       ge_nodes ge' = ge_nodes g \<and> ge_edges ge' = normalizeEdges (ge_edges g) False"
proof -
  have wok: "ge_workflow ge = Some w" "wf_id w = workflowId" "0 \<le> sm_version (wf_meta w)" "graph_ok (wf_nodes w) (wf_edges w)"
    using step w by (auto simp: in_step_def)
  obtain r0 g0 where e: "edit T E op ge s = (r0, g0, s')"
    and g': "ge' = settle workflowId (getWorkflow workflowId s' \<noteq> getWorkflow workflowId s) s' g0"
    using out by (auto simp: edit_and_settle_def split: prod.splits)
  have gok: "graph_ok (ge_nodes g0) (ge_edges g0)"
    and sv: "s' = s \<or> s' = snd (updateWorkflowGraph (eh_json T) E workflowId (ge_nodes g0) (ge_edges g0) None s)"
    using edit_keeps [OF step R app, of E] e wok by (auto simp: keeps_or_saves_def)
  show other: "getWorkflow j s' = getWorkflow j s" if "j \<noteq> workflowId"
    using sv that by (auto simp: updateWorkflowGraph_effect [OF w])
  have changed: "\<exists>m. bump_metadata E (wf_meta w) = Inr m \<and>
      getWorkflow workflowId s' = Some (w\<lparr>wf_nodes := ge_nodes g0, wf_edges := ge_edges g0, wf_meta := m\<rparr>)"
    if "getWorkflow workflowId s' \<noteq> getWorkflow workflowId s"
    using sv that w by (auto simp: updateWorkflowGraph_effect [OF w] split: sum.splits)
  have shown: "ge_nodes ge' = ge_nodes g0 \<and> ge_edges ge' = normalizeEdges (ge_edges g0) False"
    if "getWorkflow workflowId s' \<noteq> getWorkflow workflowId s"
    using changed [OF that] that by (auto simp: g' settle_def render_def)
  then show "ge_nodes ge' = ge_nodes g \<and> ge_edges ge' = normalizeEdges (ge_edges g) False"
    if "edit T E op ge s = (r, g, s')" "getWorkflow workflowId s' \<noteq> getWorkflow workflowId s"
    using that e by simp
  show "shows_saved workflowId w ge' s'" if c: "getWorkflow workflowId s' \<noteq> getWorkflow workflowId s"
    using changed [OF c] shown [OF c] wok(3) by (auto simp: shows_saved_def dest: bump_metadata_eq)
  show "in_step workflowId ge' s'"
  proof (cases "getWorkflow workflowId s' = getWorkflow workflowId s")
    case True
    then show ?thesis using gok w wok by (auto simp: g' settle_def render_def in_step_def)
  next
    case False
    from changed [OF this] show ?thesis using False gok wok
      by (auto simp: g' settle_def render_def in_step_def dest: bump_metadata_eq)
  qed
qed

lemma session_steps:
  assumes "flow_laws (eh_flow T)" "in_step workflowId ge s" "edit_session T workflowId ops (ge, s) = Some (ge', s')"
  shows "in_step workflowId ge' s' \<and> (\<forall>i. i \<noteq> workflowId \<longrightarrow> getWorkflow i s' = getWorkflow i s)"
  using assms(2,3)
proof (induction ops arbitrary: ge s)
  case (Cons eo ops)
  obtain E op where eo: "eo = (E, op)" by force
  obtain ge1 s1 where o: "edit_and_settle T E workflowId op (ge, s) = (ge1, s1)" by force
  obtain w where w: "getWorkflow workflowId s = Some w" using Cons.prems(1) by (auto simp: in_step_def)
  have a: "applicable op ge" and rest: "edit_session T workflowId ops (ge1, s1) = Some (ge', s')"
    using Cons.prems(2) eo o by (auto split: if_splits)
  note st = edit_step [OF Cons.prems(1) assms(1) a w o]
  from Cons.IH [OF st(1) rest] st(2) show ?case by auto
qed simp


definition sample_flow :: flow_lib where
  "sample_flow = \<lparr>addEdge = (\<lambda>e es. if list_ex (\<lambda>x. fe_source x = fe_source e \<and> fe_target x = fe_target e) es then es else es @ [e]),
     applyNodeChanges = (\<lambda>cs ns. filter (\<lambda>n. NRemove (fn_id n) \<notin> set cs) ns),
     applyEdgeChanges = (\<lambda>cs es. filter (\<lambda>e. ERemove (fe_id e) \<notin> set cs) es)\<rparr>"

lemma sample_flow_laws: "flow_laws sample_flow"
  by (auto simp: flow_laws_def sample_flow_def filter_map comp_def edge_ends_def)

definition sample_editor_host :: editor_host where
  "sample_editor_host = \<lparr>eh_flow = sample_flow, eh_json = sample_json, eh_elk = (\<lambda>_. Inl TypeError)\<rparr>"

definition sample_graph_workflow :: workflow where
  "sample_graph_workflow = (sample_workflow 4 ''old'')\<lparr>wf_nodes := [sample_node ''a'' Generic, sample_node ''b'' Kafka],
     wf_edges := [sample_edge]\<rparr>"

definition sample_graph_store :: workflow_synced where
  "sample_graph_store = synced_init (workflow_store_init\<lparr>ws_workflows := [(''w1'', sample_graph_workflow)]\<rparr>)"

lemma sample_graph_facts:
  "flow_laws (eh_flow sample_editor_host)"
  "getWorkflow ''w1'' sample_graph_store = Some sample_graph_workflow" "wf_id sample_graph_workflow = ''w1''"
  "0 \<le> sm_version (wf_meta sample_graph_workflow)"
  "graph_ok (wf_nodes sample_graph_workflow) (wf_edges sample_graph_workflow)"
  by (simp_all add: sample_editor_host_def sample_flow_laws getWorkflow_def sample_graph_store_def synced_init_def
      sample_graph_workflow_def sample_workflow_def graph_ok_def sample_edge_def)


lemma save_graph_store:
  "ge_workflow g = Some w \<Longrightarrow> snd (snd (save_graph G E ns es g s)) = snd (updateWorkflowGraph G E (wf_id w) ns es None s)"
  by (simp add: save_graph_def split: prod.split)

lemma editing_store:
  "snd (snd (case out of (Inl e, g, s') \<Rightarrow> (Inl e, g, s') | (Inr _, g, s') \<Rightarrow> (Inr (), f g, s'))) = snd (snd out)"
  by (simp split: prod.split sum.split)

fun always_saves :: "graph_op \<Rightarrow> bool" where
  "always_saves (DeleteNode _) = True" | "always_saves (UpdateNode _) = True" | "always_saves (AddNode _) = True"
| "always_saves (UpdateEdge _ _) = True" | "always_saves (DeleteEdge _) = True" | "always_saves _ = False"

lemma edit_saves:
  "ge_workflow ge = Some w \<Longrightarrow> always_saves op \<Longrightarrow>
   \<exists>ns es. snd (snd (edit T E op ge s)) = snd (updateWorkflowGraph (eh_json T) E (wf_id w) ns es None s)"
  by (cases op) (force simp: deleteNode_def updateNode_def addNode_def updateEdge_def deleteEdge_def editing_store
      save_graph_store removeServiceFromGraph_def)+

text \<open>
  With a user signed in, an edit that reaches the store is shown as stored: after its renders the editor holds
  exactly the nodes of the stored workflow and its edges normalised, the version is one higher and
  nothing but the graph has changed. Removing, adding and changing a service and changing or removing a connection always
  reach the store; a removed service is gone with all its connections.
\<close>

theorem saved_edit_is_shown:
  assumes "flow_laws (eh_flow T)" "in_step workflowId ge s" "applicable op ge"
    and "getWorkflow workflowId s = Some w" "getUserId (env_browser E) = Inr user"
    and "edit_and_settle T E workflowId op (ge, s) = (ge', s')"
    and "getWorkflow workflowId s' \<noteq> Some w \<or> always_saves op"
  shows "\<exists>w'. getWorkflow workflowId s' = Some w' \<and> sm_version (wf_meta w') = sm_version (wf_meta w) + 1 \<and>
    w' = w\<lparr>wf_nodes := wf_nodes w', wf_edges := wf_edges w', wf_meta := wf_meta w'\<rparr> \<and>
    ge_nodes ge' = wf_nodes w' \<and> ge_edges ge' = normalizeEdges (wf_edges w') False \<and>
    (\<forall>i. op = DeleteNode i \<longrightarrow> i \<notin> fn_id ` set (wf_nodes w') \<and>
       (\<forall>e \<in> set (wf_edges w'). fe_source e \<noteq> i \<and> fe_target e \<noteq> i))"
proof -
  note st = edit_step [OF assms(2,1,3,4,6)]
  have wok: "ge_workflow ge = Some w" "wf_id w = workflowId" "0 \<le> sm_version (wf_meta w)"
    using assms(2,4) by (auto simp: in_step_def)
  obtain m where m: "bump_metadata E (wf_meta w) = Inr m" using bump_metadata_total [OF assms(5)] by blast
  have vm: "wf_meta w \<noteq> m" using bump_metadata_eq [OF m wok(3)] by auto
  have saved: "getWorkflow workflowId (snd (updateWorkflowGraph G E workflowId ns es None s)) =
      Some (w\<lparr>wf_nodes := ns, wf_edges := es, wf_meta := m\<rparr>)" for G ns es
    by (simp add: updateWorkflowGraph_effect [OF assms(4)] m)
  obtain r g where e: "edit T E op ge s = (r, g, s')"
    using assms(6) by (auto simp: edit_and_settle_def split: prod.splits)
  have s': "s' = snd (snd (edit T E op ge s))" using e by simp
  have ch: "getWorkflow workflowId s' \<noteq> getWorkflow workflowId s"
  proof (cases "always_saves op")
    case True
    from edit_saves [OF wok(1) this] obtain ns es where "s' = snd (updateWorkflowGraph (eh_json T) E workflowId ns es None s)"
      unfolding s' wok(2) by blast
    then have "map_option wf_meta (getWorkflow workflowId s') = Some m" by (simp add: saved)
    then show ?thesis using vm assms(4) by auto
  qed (use assms(4,7) in simp)
  obtain w' where w': "getWorkflow workflowId s' = Some w'" "sm_version (wf_meta w') = sm_version (wf_meta w) + 1"
    "w' = w\<lparr>wf_nodes := wf_nodes w', wf_edges := wf_edges w', wf_meta := wf_meta w'\<rparr>"
    "ge_nodes ge' = wf_nodes w'" "ge_edges ge' = normalizeEdges (wf_edges w') False"
    using st(3) [OF ch] by (auto simp: shows_saved_def)
  have "i \<notin> fn_id ` set (wf_nodes w') \<and> (\<forall>e \<in> set (wf_edges w'). fe_source e \<noteq> i \<and> fe_target e \<noteq> i)"
    if d: "op = DeleteNode i" for i
  proof -
    have "s' = snd (updateWorkflowGraph (eh_json T) E workflowId (filter (\<lambda>n. fn_id n \<noteq> i) (ge_nodesRef ge))
        (filter (\<lambda>e. fe_source e \<noteq> i \<and> fe_target e \<noteq> i) (ge_edgesRef ge)) None s)"
      unfolding s' d by (simp add: deleteNode_def removeServiceFromGraph_def save_graph_store wok)
    then show ?thesis using saved w'(1) by auto
  qed
  with w' show ?thesis by blast
qed

lemma sample_in_step: "in_step ''w1'' (settle ''w1'' True sample_graph_store (open_editor ''w1'' sample_graph_store)) sample_graph_store"
  using sample_graph_facts by (simp add: in_step_def settle_def render_def open_editor_def)

theorem saved_edit_is_shown_witness:
  "\<exists>ge' s' w'. edit_and_settle sample_editor_host sample_env ''w1'' (DeleteNode ''b'')
      (settle ''w1'' True sample_graph_store (open_editor ''w1'' sample_graph_store), sample_graph_store) = (ge', s') \<and>
    getWorkflow ''w1'' s' = Some w' \<and> ge_nodes ge' = wf_nodes w' \<and> ''b'' \<notin> fn_id ` set (wf_nodes w')"
proof -
  obtain ge' s' where o: "edit_and_settle sample_editor_host sample_env ''w1'' (DeleteNode ''b'')
      (settle ''w1'' True sample_graph_store (open_editor ''w1'' sample_graph_store), sample_graph_store) = (ge', s')"
    by force
  have "getUserId (env_browser sample_env) = Inr ''u''" by (simp add: sample_env_def sample_browser_def getUserId_def js_opt)
  from saved_edit_is_shown [OF sample_graph_facts(1) sample_in_step _ sample_graph_facts(2) this o] o show ?thesis by auto
qed

text \<open>
  Deleting a connected service with the keyboard: React Flow reports the removed connections and the
  removed node, each to its handler. The node handler saves nothing, the edge handler saves the nodes of its
  refs, and the load that follows shows every service again, the deleted one without its connections.
\<close>

theorem keyboard_deletion_comes_back:
  assumes R: "flow_laws (eh_flow T)" and step: "in_step workflowId ge s"
    and w: "getWorkflow workflowId s = Some w" and u: "getUserId (env_browser E) = Inr user"
    and rm: "changes = map (\<lambda>e. ERemove (fe_id e)) (filter (\<lambda>e. fe_source e = i \<or> fe_target e = i) (ge_edges ge))" "changes \<noteq> []"
    and e1: "edit T E (EdgesChange changes) ge s = (r1, ge1, s1)"
    and e2: "edit T E (NodesChange [NRemove i]) ge1 s1 = (r2, ge2, s2)"
  shows "ge_nodes (settle workflowId True s2 ge2) = ge_nodes ge \<and>
    map fn_id (ge_nodes ge2) = filter (\<lambda>j. j \<noteq> i) (map fn_id (ge_nodes ge)) \<and>
    (\<forall>e \<in> set (ge_edges (settle workflowId True s2 ge2)). fe_source e \<noteq> i \<and> fe_target e \<noteq> i)"
proof -
  have refs: "ge_nodesRef ge = ge_nodes ge" "ge_edgesRef ge = ge_edges ge" "ge_workflow ge = Some w" "wf_id w = workflowId"
    using step w by (auto simp: in_step_def)
  define es where "es = applyEdgeChanges (eh_flow T) changes (ge_edges ge)"
  have removal: "list_ex (\<lambda>c. case c of ERemove _ \<Rightarrow> True | _ \<Rightarrow> False) changes"
    using rm by (cases "filter (\<lambda>e. fe_source e = i \<or> fe_target e = i) (ge_edges ge)") auto
  have o1: "ge1 = ge\<lparr>ge_edges := es\<rparr> \<and> s1 = snd (updateWorkflowGraph (eh_json T) E workflowId (ge_nodes ge) es None s)"
    using e1 removal refs by (auto simp: onEdgesChange_def save_graph_def es_def split: prod.splits)
  have o2: "s2 = s1 \<and> ge2 = ge1\<lparr>ge_nodes := applyNodeChanges (eh_flow T) [NRemove i] (ge_nodes ge)\<rparr>"
    using e2 refs o1 by (auto simp: onNodesChange_def moved_nodes_def)
  obtain m where "bump_metadata E (wf_meta w) = Inr m" using bump_metadata_total [OF u] by blast
  then have "getWorkflow workflowId s2 = Some (w\<lparr>wf_nodes := ge_nodes ge, wf_edges := es, wf_meta := m\<rparr>)"
    using o1 o2 by (simp add: updateWorkflowGraph_effect [OF w])
  then have f: "ge_nodes (settle workflowId True s2 ge2) = ge_nodes ge"
      "ge_edges (settle workflowId True s2 ge2) = normalizeEdges es False"
    by (simp_all add: settle_def render_def)
  have "set (map edge_ends es) = {x \<in> set (map edge_ends (ge_edges ge)). ERemove (fst x) \<notin> set changes}"
    using R by (simp add: flow_laws_def es_def)
  then have "\<forall>x \<in> set (map edge_ends es). fst (snd x) \<noteq> i \<and> snd (snd x) \<noteq> i"
    by (auto simp: rm edge_ends_def)
  then have "\<forall>e \<in> set (normalizeEdges es False). fe_source e \<noteq> i \<and> fe_target e \<noteq> i"
    by (auto simp: normalizeEdges_def normalizeEdge_def edge_ends_def)
  moreover have "map fn_id (ge_nodes ge2) = filter (\<lambda>j. j \<noteq> i) (map fn_id (ge_nodes ge))"
    using R o2 by (simp add: flow_laws_def)
  ultimately show ?thesis using f by simp
qed

text \<open>Editing a connection in the guided form replaces its data: label, description and route are lost.\<close>

theorem guided_edit_drops_label:
  assumes "saveDraft (Some draft) = Some d" "inferEdgeData source target = Inr inferred"
  shows "ed_label (guided_data inferred (gd_data d)) = None \<and> ed_description (guided_data inferred (gd_data d)) = None \<and>
    ed_layoutPoints (guided_data inferred (gd_data d)) = None"
  using assms
  by (auto simp: saveDraft_def guided_data_def inferEdgeData_def no_edge_data_def split: if_splits option.splits)

end
