(* ===== verification/Live_Run.thy ===== *)
theory Live_Run
  imports Hydration
begin

text \<open>
  A run as it happens: \<^verbatim>\<open>src/ui-v2/src/modules/workflow/hooks/useRealtimeLogs.tsx\<close>, which takes the events of the
  runner's stream into the run stores, and \<^verbatim>\<open>useRealTimeTestReults.tsx\<close>, which announces finished tests. An
  effect handles the first event of its queue; what it hands to callbacks and the snapshots it asks for
  are recorded as calls. An exception of a store ends the effect where it stands.
\<close>

section \<open>Events\<close>

record log_event = workflow_log_event +
  le_backendSessionId :: "string option"
  le_result :: "json option"

record test_outcome =
  to_testResultId :: string
  to_testName :: string
  to_testType :: "string option"
  to_status :: test_result_status
  to_resultData :: "json option"
  to_durationMs :: "int option"
  to_executedAt :: "string option"
  to_containerLogs :: "(string \<times> string) list option"
  to_sequence :: int

record result_event =
  rv_workflowRunId :: string
  rv_projectId :: string
  rv_workflowId :: string
  rv_scenarioId :: string
  rv_scenarioName :: string
  rv_backendSessionId :: "string option"
  rv_bulkId :: string
  rv_results :: "test_outcome list"

datatype live_call = OnComplete "json option" | OnError string | Reconcile string string

record live_run =
  lv_stores :: client_stores
  lv_processed :: "string list"
  lv_activities :: "log_event list"
  lv_calls :: "live_call list"

type_synonym live_action = "live_run \<Rightarrow> unit res \<times> live_run"

definition done_live :: live_action where
  "done_live st = (Inr (), st)"

definition seq_live :: "live_action \<Rightarrow> live_action \<Rightarrow> live_action" where
  "seq_live f g st = (case f st of (Inl e, st') \<Rightarrow> (Inl e, st') | (Inr _, st') \<Rightarrow> g st')"

fun each_live :: "('a \<Rightarrow> live_action) \<Rightarrow> 'a list \<Rightarrow> live_action" where
  "each_live f [] = done_live"
| "each_live f (x # xs) = seq_live (f x) (each_live f xs)"

definition on_executions :: "(execution_synced \<Rightarrow> unit res \<times> execution_synced) \<Rightarrow> live_action" where
  "on_executions f st = (case f (cl_executions (lv_stores st)) of
     (r, x) \<Rightarrow> (r, st\<lparr>lv_stores := (lv_stores st)\<lparr>cl_executions := x\<rparr>\<rparr>))"

definition on_scenario_runs :: "(scenario_run_synced \<Rightarrow> unit res \<times> scenario_run_synced) \<Rightarrow> live_action" where
  "on_scenario_runs f st = (case f (cl_scenarioRuns (lv_stores st)) of
     (r, x) \<Rightarrow> (r, st\<lparr>lv_stores := (lv_stores st)\<lparr>cl_scenarioRuns := x\<rparr>\<rparr>))"

definition on_test_results :: "(test_result_synced \<Rightarrow> unit res \<times> test_result_synced) \<Rightarrow> live_action" where
  "on_test_results f st = (case f (cl_testResults (lv_stores st)) of
     (r, x) \<Rightarrow> (r, st\<lparr>lv_stores := (lv_stores st)\<lparr>cl_testResults := x\<rparr>\<rparr>))"

definition call_live :: "live_call \<Rightarrow> live_action" where
  "call_live c st = (Inr (), st\<lparr>lv_calls := lv_calls st @ [c]\<rparr>)"

definition when_live :: "bool \<Rightarrow> live_action \<Rightarrow> live_action" where
  "when_live b f = (if b then f else done_live)"

section \<open>Queues\<close>

text \<open>
  An event of the stream joins its queue, which keeps the last 500. The text is parsed inside the state
  updater, which React runs while rendering and not under the listener's \<^verbatim>\<open>try\<close>: a malformed event throws.
\<close>

definition receive :: "(string \<Rightarrow> 'e option) \<Rightarrow> string \<Rightarrow> string \<Rightarrow> ('e \<times> string) list \<Rightarrow> ('e \<times> string) list res" where
  "receive parse text lastEventId queued =
     (case parse text of None \<Rightarrow> Inl (Err ''SyntaxError'') | Some e \<Rightarrow> Inr (slice_last 500 (queued @ [(e, lastEventId)])))"

section \<open>Handling a log event\<close>

definition log_event_id :: "log_event \<Rightarrow> string" where
  "log_event_id e =
     ''workflowlog:'' @ le_workflowRunId e @ '':'' @ or_str (le_scenarioId e) ''workflow'' @ '':'' @
     show_int (le_timestamp e) @ '':'' @ show_int (le_sequence e)"

definition find_scenario_run :: "string \<Rightarrow> string \<Rightarrow> live_run \<Rightarrow> scenario_run option" where
  "find_scenario_run workflowRunId scenarioId st =
     List.find (\<lambda>run. sr_workflowRunId run = workflowRunId \<and> sr_scenarioId run = scenarioId)
       (map snd (rn_scenarioRuns (sy_state (cl_scenarioRuns (lv_stores st)))))"

definition aggregated_status :: "log_event \<Rightarrow> workflow_run_status option" where
  "aggregated_status e =
     (if truthy_opt (le_scenarioId e) then None
      else case Option.bind (le_result e) (\<lambda>r. get_prop r ''status'') of
        Some (JStr s) \<Rightarrow> isWorkflowRunStatus s
      | _ \<Rightarrow> None)"

definition aggregated_scenarios :: "log_event \<Rightarrow> json list option" where
  "aggregated_scenarios e =
     (case Option.bind (le_result e) (\<lambda>r. get_prop r ''scenarioResults'') of Some (JArr xs) \<Rightarrow> Some xs | _ \<Rightarrow> None)"

definition aggregated_of :: "json \<Rightarrow> aggregated_scenario_result" where
  "aggregated_of j = \<lparr>as_scenarioId = str_prop j ''scenarioId'', as_scenarioName = str_prop j ''scenarioName'',
     as_error = as_string (get_prop j ''error'')\<rparr>"

definition scenario_updates_of :: "json \<Rightarrow> scenario_run \<Rightarrow> scenario_run_updates" where
  "scenario_updates_of j run =
     \<lparr>ru_backendSessionId = (if truthy_json (get_prop j ''backendSessionId'') then as_string (get_prop j ''backendSessionId'')
        else sr_backendSessionId run),
      ru_status = Some (case as_string (get_prop j ''status'') of
          Some s \<Rightarrow> scenario_status_of s
        | None \<Rightarrow> if get_prop j ''success'' = Some (JBool True) then S_completed
                  else if get_prop j ''success'' = Some (JBool False) then S_failed else sr_status run),
      ru_result = None, ru_error = orElse (as_string (get_prop j ''error'')) (sr_error run), ru_finishedAt = None,
      ru_phase = None, ru_checkpointIndex = None\<rparr>"

definition log_updates :: "log_event \<Rightarrow> scenario_run \<Rightarrow> scenario_run_updates" where
  "log_updates e run =
     \<lparr>ru_backendSessionId = le_backendSessionId e, ru_status = Some (resolveScenarioLogStatus (sr_status run) (le_status e)),
      ru_result = None, ru_error = orElse (le_error e) (sr_error run), ru_finishedAt = None,
      ru_phase = orElse (le_stage e) (sr_phase run), ru_checkpointIndex = None\<rparr>"

text \<open>\<open>reconcileWorkflowRunSnapshot\<close> asks for a snapshot when it has a project; \<open>project\<close> is the hook's.\<close>

definition reconcileWorkflowRunSnapshot :: "log_event \<Rightarrow> string option \<Rightarrow> live_action" where
  "reconcileWorkflowRunSnapshot e project =
     (let p = or_str (Some (le_projectId e)) (nullish project [])
      in when_live (p \<noteq> []) (call_live (Reconcile (le_workflowRunId e) p)))"

definition end_of_run ::
  "hydration_host \<Rightarrow> sync_env \<Rightarrow> int \<Rightarrow> string option \<Rightarrow> log_event \<Rightarrow> (string \<Rightarrow> scenario_run option) \<Rightarrow>
   workflow_run_status \<Rightarrow> live_action" where
  "end_of_run X E now project e run_of status =
     (let failure = extractWorkflowError (le_error e) (map_option (map aggregated_of) (aggregated_scenarios e))
      in seq_live (each_live (\<lambda>j. case run_of (str_prop j ''scenarioId'') of
             None \<Rightarrow> done_live
           | Some run \<Rightarrow> on_scenario_runs (updateScenarioRun (hh_toIso X) E now (sr_id run) (scenario_updates_of j run)))
             (nullish (aggregated_scenarios e) []))
         (seq_live (on_executions (updateExecutionStatus (hh_toIso X) E now (le_workflowRunId e) status (le_result e) failure))
         (seq_live (reconcileWorkflowRunSnapshot e project)
           (if status = W_completed then call_live (OnComplete (le_result e))
            else if status = W_failed \<or> status = W_partial_failed
            then call_live (OnError (nullish failure ''Workflow execution failed'')) else done_live))))"

definition status_event ::
  "hydration_host \<Rightarrow> sync_env \<Rightarrow> int \<Rightarrow> string option \<Rightarrow> log_event \<Rightarrow> live_action" where
  "status_event X E now project e =
     (let status = workflowStatusFromLogEvent (le_scenarioId e) (le_status e);
          set_status = (\<lambda>s r er. on_executions (updateExecutionStatus (hh_toIso X) E now (le_workflowRunId e) s r er))
      in if status = Some W_running then set_status W_running None None
         else if status = Some W_cancelling then set_status W_cancelling None None
         else if status = Some W_cancelled
         then seq_live (set_status W_cancelled (le_result e) (le_error e)) (reconcileWorkflowRunSnapshot e project)
         else if status = Some W_completed
         then seq_live (set_status W_completed (le_result e) None)
                (seq_live (reconcileWorkflowRunSnapshot e project) (call_live (OnComplete (le_result e))))
         else if status = Some W_failed
         then seq_live (on_executions (failExecution (hh_toIso X) E now (le_workflowRunId e)
                  (nullish (le_error e) ''Workflow execution failed'')))
                (seq_live (reconcileWorkflowRunSnapshot e project)
                  (call_live (OnError (nullish (le_error e) ''Workflow execution failed''))))
         else done_live)"

definition scenario_log :: "hydration_host \<Rightarrow> sync_env \<Rightarrow> int \<Rightarrow> log_event \<Rightarrow> scenario_run option \<Rightarrow> live_action" where
  "scenario_log X E now e found =
     (case found of
        None \<Rightarrow> done_live
      | Some run \<Rightarrow>
          seq_live (on_scenario_runs (appendScenarioLog (hh_toIso X) E (sr_id run) (le_message e)))
            (on_scenario_runs (updateScenarioRun (hh_toIso X) E now (sr_id run) (log_updates e run))))"

definition apply_log ::
  "hydration_host \<Rightarrow> sync_env \<Rightarrow> int \<Rightarrow> string option \<Rightarrow> log_event \<Rightarrow> string \<Rightarrow> live_action" where
  "apply_log X E now project e lastEventId st =
     (let run_of = (\<lambda>i. find_scenario_run (le_workflowRunId e) i st)
      in seq_live (when_live (lastEventId \<noteq> []) (on_executions (\<lambda>s. (Inr (), updateReplayCursor (hh_toIso X) (le_workflowRunId e) lastEventId s))))
         (seq_live (on_executions (appendLog (hh_toIso X) E (le_workflowRunId e) (le_message e)))
         (seq_live (when_live (truthy_opt (le_stage e) \<or> truthy_opt (le_kind e))
            (\<lambda>s. (Inr (), s\<lparr>lv_activities := slice_last 500 (lv_activities s @ [e])\<rparr>)))
         (seq_live (when_live (truthy_opt (le_scenarioId e)) (scenario_log X E now e (run_of (nullish (le_scenarioId e) []))))
           (case aggregated_status e of
              Some status \<Rightarrow> end_of_run X E now project e run_of status
            | None \<Rightarrow> status_event X E now project e)))) st)"

text \<open>The effect on the first event of the log queue: an event already processed is only dropped.\<close>

definition handle_log ::
  "hydration_host \<Rightarrow> sync_env \<Rightarrow> int \<Rightarrow> string option \<Rightarrow> log_event \<times> string \<Rightarrow> live_action" where
  "handle_log X E now project queued st =
     (case queued of (e, lastEventId) \<Rightarrow>
        if log_event_id e \<in> set (lv_processed st) then (Inr (), st)
        else apply_log X E now project e lastEventId (st\<lparr>lv_processed := log_event_id e # lv_processed st\<rparr>))"

section \<open>Handling test results\<close>

definition outcome_updates :: "sync_env \<Rightarrow> result_event \<Rightarrow> scenario_run option \<Rightarrow> test_outcome \<Rightarrow> test_result_updates" where
  "outcome_updates E e run t =
     \<lparr>tu_projectId = Some (rv_projectId e),
      tu_sessionId = Some (or_str (rv_backendSessionId e) (or_str (Option.bind run sr_backendSessionId)
        (or_str (map_option sr_id run) (rv_scenarioId e)))),
      tu_workflowRunId = Some (rv_workflowRunId e), tu_workflowId = Some (rv_workflowId e),
      tu_scenarioRunId = map_option sr_id run, tu_scenarioId = Some (rv_scenarioId e), tu_scenarioName = Some (rv_scenarioName e),
      tu_testName = Some (to_testName t), tu_testType = Some (or_str (to_testType t) ''database''), tu_status = Some (to_status t),
      tu_resultData = Some (nullish (to_resultData t) JNull), tu_durationMs = Some (nullish (to_durationMs t) 0),
      tu_executedAt = Some (nullish (to_executedAt t) (env_now E)), tu_containerLogs = to_containerLogs t\<rparr>"

definition outcome_order :: "test_outcome \<Rightarrow> test_outcome \<Rightarrow> int" where
  "outcome_order left right = to_sequence left - to_sequence right"

definition results_of_run ::
  "hydration_host \<Rightarrow> sync_env \<Rightarrow> int \<Rightarrow> result_event \<Rightarrow> string \<Rightarrow> scenario_run option \<Rightarrow> live_action" where
  "results_of_run X E now e lastEventId run =
     seq_live (when_live (lastEventId \<noteq> []) (on_executions (\<lambda>s. (Inr (), updateReplayCursor (hh_toIso X) (rv_workflowRunId e) lastEventId s))))
       (seq_live (case run of None \<Rightarrow> done_live
          | Some r \<Rightarrow> on_scenario_runs (updateScenarioRun (hh_toIso X) E now (sr_id r)
              \<lparr>ru_backendSessionId = rv_backendSessionId e,
               ru_status = Some (resolveScenarioTestStatus (sr_status r) (map to_status (rv_results e))),
               ru_result = None, ru_error = None, ru_finishedAt = None, ru_phase = None, ru_checkpointIndex = None\<rparr>))
         (each_live (\<lambda>t. on_test_results (updateTestResult (json_stringify (hh_json X)) E (to_testResultId t) (outcome_updates E e run t)))
            (js_sort outcome_order (rv_results e))))"

definition apply_results :: "hydration_host \<Rightarrow> sync_env \<Rightarrow> int \<Rightarrow> result_event \<Rightarrow> string \<Rightarrow> live_action" where
  "apply_results X E now e lastEventId st =
     results_of_run X E now e lastEventId (find_scenario_run (rv_workflowRunId e) (rv_scenarioId e) st) st"

definition handle_results :: "hydration_host \<Rightarrow> sync_env \<Rightarrow> int \<Rightarrow> result_event \<times> string \<Rightarrow> live_action" where
  "handle_results X E now queued st =
     (case queued of (e, lastEventId) \<Rightarrow>
        if rv_bulkId e \<in> set (lv_processed st) then (Inr (), st)
        else apply_results X E now e lastEventId (st\<lparr>lv_processed := rv_bulkId e # lv_processed st\<rparr>))"

text \<open>A change of the shown run forgets what was processed.\<close>

definition switch_run :: "string option \<Rightarrow> string option \<Rightarrow> live_run \<Rightarrow> live_run" where
  "switch_run processedRun run st =
     (if processedRun = run then st else st\<lparr>lv_processed := [], lv_activities := []\<rparr>)"

section \<open>Redelivered events\<close>

datatype live_event = Log_Event log_event string | Result_Event result_event string

fun live_id :: "live_event \<Rightarrow> string" where
  "live_id (Log_Event e _) = log_event_id e"
| "live_id (Result_Event e _) = rv_bulkId e"

fun handle_event :: "hydration_host \<Rightarrow> string option \<Rightarrow> sync_env \<times> int \<times> live_event \<Rightarrow> live_action" where
  "handle_event X project (E, now, Log_Event e i) = handle_log X E now project (e, i)"
| "handle_event X project (E, now, Result_Event e i) = handle_results X E now (e, i)"

text \<open>The events whose id was not seen before, in order.\<close>

fun first_deliveries :: "string list \<Rightarrow> ('a \<times> 'b \<times> live_event) list \<Rightarrow> ('a \<times> 'b \<times> live_event) list" where
  "first_deliveries seen [] = []"
| "first_deliveries seen ((a, b, e) # evs) =
     (if live_id e \<in> set seen then first_deliveries seen evs
      else (a, b, e) # first_deliveries (live_id e # seen) evs)"

definition keeps_processed :: "live_action \<Rightarrow> bool" where
  "keeps_processed f \<longleftrightarrow> (\<forall>st. lv_processed (snd (f st)) = lv_processed st)"

lemma keeps_processed_basic [simp]:
  "keeps_processed done_live" "keeps_processed (on_executions g)" "keeps_processed (on_scenario_runs h)"
  "keeps_processed (on_test_results k)" "keeps_processed (call_live c)"
  "keeps_processed (\<lambda>s. (Inr (), s\<lparr>lv_activities := x s\<rparr>))"
  by (auto simp: keeps_processed_def done_live_def on_executions_def on_scenario_runs_def on_test_results_def
      call_live_def split: prod.splits)

lemma keeps_processed_seq [simp]: "keeps_processed f \<Longrightarrow> keeps_processed g \<Longrightarrow> keeps_processed (seq_live f g)"
  unfolding keeps_processed_def
proof
  fix st
  assume f: "\<forall>st. lv_processed (snd (f st)) = lv_processed st" and g: "\<forall>st. lv_processed (snd (g st)) = lv_processed st"
  show "lv_processed (snd (seq_live f g st)) = lv_processed st"
    using f [rule_format, of st] g by (auto simp: seq_live_def split: prod.splits sum.splits)
qed

lemma keeps_processed_when [simp]: "(b \<Longrightarrow> keeps_processed f) \<Longrightarrow> keeps_processed (when_live b f)"
  by (simp add: when_live_def)

lemma keeps_processed_each [simp]: "(\<And>x. x \<in> set xs \<Longrightarrow> keeps_processed (f x)) \<Longrightarrow> keeps_processed (each_live f xs)"
  by (induction xs) simp_all

lemma keeps_processed_apply [simp]:
  "lv_processed (snd (apply_log X E now project e i st)) = lv_processed st"
  "lv_processed (snd (apply_results X E now r i st)) = lv_processed st"
proof -
  have rc: "keeps_processed (reconcileWorkflowRunSnapshot e project)"
    by (simp add: reconcileWorkflowRunSnapshot_def)
  have "keeps_processed (status_event X E now project e)" by (simp add: status_event_def rc)
  moreover have "keeps_processed (end_of_run X E now project e run_of s)" for run_of s
    by (auto simp: end_of_run_def rc split: option.splits intro!: keeps_processed_seq keeps_processed_each)
  moreover have "keeps_processed (scenario_log X E now e f)" for f
    by (simp add: scenario_log_def split: option.split)
  ultimately show "lv_processed (snd (apply_log X E now project e i st)) = lv_processed st"
    unfolding apply_log_def Let_def
    by (intro keeps_processed_def [THEN iffD1, rule_format] keeps_processed_seq keeps_processed_when)
      (simp_all split: option.split)
  have "keeps_processed (results_of_run X E now r i run)" for run
    unfolding results_of_run_def by (simp split: option.split)
  then show "lv_processed (snd (apply_results X E now r i st)) = lv_processed st"
    by (simp add: apply_results_def keeps_processed_def)
qed

lemma handle_event_processed:
  "live_id e \<notin> set (lv_processed st) \<Longrightarrow>
     lv_processed (snd (handle_event X project (E, now, e) st)) = live_id e # lv_processed st"
  "live_id e \<in> set (lv_processed st) \<Longrightarrow> handle_event X project (E, now, e) st = (Inr (), st)"
  by (cases e; simp add: handle_log_def handle_results_def)+


section \<open>The log of a run is its stream\<close>

definition run_logs :: "string \<Rightarrow> live_run \<Rightarrow> string list option" where
  "run_logs i st = map_option ex_logs (getExecution i (cl_executions (lv_stores st)))"

text \<open>An action that cannot fail and leaves every log alone.\<close>

definition quiet_live :: "live_action \<Rightarrow> bool" where
  "quiet_live f \<longleftrightarrow> (\<forall>st. fst (f st) = Inr () \<and> (\<forall>i. run_logs i (snd (f st)) = run_logs i st))"

lemma seq_live_ok: "fst (f st) = Inr () \<Longrightarrow> seq_live f g st = g (snd (f st))"
  by (cases "f st") (simp add: seq_live_def)

lemma quiet_seq [simp]: "quiet_live f \<Longrightarrow> quiet_live g \<Longrightarrow> quiet_live (seq_live f g)"
  by (simp add: quiet_live_def seq_live_ok)

lemma quiet_when [simp]: "(b \<Longrightarrow> quiet_live f) \<Longrightarrow> quiet_live (when_live b f)"
  by (simp add: when_live_def quiet_live_def done_live_def)

lemma quiet_each [simp]: "(\<And>x. x \<in> set xs \<Longrightarrow> quiet_live (f x)) \<Longrightarrow> quiet_live (each_live f xs)"
  by (induction xs) (simp_all add: quiet_live_def done_live_def seq_live_ok)

lemma quiet_basic [simp]:
  "quiet_live done_live" "quiet_live (call_live c)" "quiet_live (\<lambda>s. (Inr (), s\<lparr>lv_activities := x s\<rparr>))"
  by (simp_all add: quiet_live_def done_live_def call_live_def run_logs_def)

lemma getExecution_updateExecution:
  assumes "getUserId (env_browser E) = Inr u"
  shows "fst (updateExecution toIso E i change s) = Inr ()"
    "\<exists>m. getExecution j (snd (updateExecution toIso E i change s)) =
       (if j = i then map_option (\<lambda>e. (change e)\<lparr>ex_meta := m e\<rparr>) (getExecution i s) else getExecution j s)"
proof -
  obtain m where m: "\<And>x. bump_metadata E x = Inr (m x)" using bump_metadata_total [OF assms] by metis
  show "fst (updateExecution toIso E i change s) = Inr ()" by (simp add: updateExecution_def m split: option.split)
  show "\<exists>m. getExecution j (snd (updateExecution toIso E i change s)) =
       (if j = i then map_option (\<lambda>e. (change e)\<lparr>ex_meta := m e\<rparr>) (getExecution i s) else getExecution j s)"
    by (rule exI [of _ "\<lambda>e. m (ex_meta e)"]) (simp add: updateExecution_def m getExecution_def split: option.split)
qed

lemma logs_updateExecution:
  assumes "getUserId (env_browser E) = Inr u"
  shows "fst (on_executions (updateExecution toIso E i change) st) = Inr ()"
    "run_logs j (snd (on_executions (updateExecution toIso E i change) st)) =
       (if j = i then map_option (\<lambda>e. ex_logs (change e)) (getExecution i (cl_executions (lv_stores st))) else run_logs j st)"
  using getExecution_updateExecution(1) [OF assms, of toIso i change "cl_executions (lv_stores st)"]
    getExecution_updateExecution(2) [OF assms, of j toIso i change "cl_executions (lv_stores st)"]
  by (auto simp: on_executions_def run_logs_def option.map_comp comp_def split: prod.splits)

lemma quiet_updateExecution:
  "getUserId (env_browser E) = Inr u \<Longrightarrow> (\<And>e. ex_logs (change e) = ex_logs e) \<Longrightarrow>
   quiet_live (on_executions (updateExecution toIso E i change))"
  by (simp add: quiet_live_def logs_updateExecution) (simp add: run_logs_def)

lemma quiet_stores:
  assumes "getUserId (env_browser E) = Inr u"
  shows "quiet_live (on_executions (updateExecutionStatus toIso E now i status result error))"
    "quiet_live (on_executions (failExecution toIso E now i failure))"
    "quiet_live (on_executions (\<lambda>s. (Inr (), updateReplayCursor toIso i ev s)))"
    "quiet_live (on_scenario_runs (updateScenarioRun toIso E now r upd))"
    "quiet_live (on_scenario_runs (appendScenarioLog toIso E r message))"
    "quiet_live (on_test_results (updateTestResult stringify E t tupd))"
proof -
  obtain m where m: "\<And>x. bump_metadata E x = Inr (m x)" using bump_metadata_total [OF assms] by metis
  show "quiet_live (on_executions (updateExecutionStatus toIso E now i status result error))"
    unfolding updateExecutionStatus_def by (rule quiet_updateExecution [OF assms]) simp
  show "quiet_live (on_executions (failExecution toIso E now i failure))"
    unfolding failExecution_def by (rule quiet_updateExecution [OF assms]) simp
  show "quiet_live (on_executions (\<lambda>s. (Inr (), updateReplayCursor toIso i ev s)))"
    by (auto simp: quiet_live_def on_executions_def run_logs_def updateReplayCursor_def getExecution_def split: option.splits)
  show "quiet_live (on_scenario_runs (updateScenarioRun toIso E now r upd))"
    "quiet_live (on_scenario_runs (appendScenarioLog toIso E r message))"
    by (auto simp: quiet_live_def on_scenario_runs_def run_logs_def updateScenarioRun_def appendScenarioLog_def
        update_scenario_run_def m split: prod.splits option.splits)
  have "fst (updateTestResult stringify E t tupd s) = Inr ()" for s
    using assms by (simp add: updateTestResult_def m addSyncMetadata_def split: option.split)
  then show "quiet_live (on_test_results (updateTestResult stringify E t tupd))"
    by (simp add: quiet_live_def on_test_results_def run_logs_def case_prod_unfold)
qed

lemma slice_last_append: "0 < n \<Longrightarrow> slice_last n (slice_last n xs @ ys) = slice_last n (xs @ ys)"
proof (cases "length xs \<le> n")
  case False
  assume "0 < n"
  define k where "k = length xs - n"
  have "drop k xs @ ys = drop k (xs @ ys)" by (simp add: k_def)
  with \<open>0 < n\<close> False show ?thesis by (simp add: slice_last_def k_def [symmetric]) (simp add: k_def add.commute)
qed (simp add: slice_last_def)

text \<open>What an event adds to the log of a run.\<close>

fun log_line :: "string \<Rightarrow> live_event \<Rightarrow> string list" where
  "log_line run (Log_Event e _) = (if le_workflowRunId e = run then [le_message e] else [])"
| "log_line run (Result_Event _ _) = []"

lemma logs_apply:
  assumes "getUserId (env_browser E) = Inr u"
  shows "fst (apply_log X E now project e i st) = Inr ()"
    "run_logs run (snd (apply_log X E now project e i st)) =
       map_option (\<lambda>l. if le_workflowRunId e = run then slice_last 500 (l @ [le_message e]) else l) (run_logs run st)"
    "quiet_live (apply_results X E now r i)"
proof -
  note q = quiet_stores [OF assms]
  have rc: "quiet_live (reconcileWorkflowRunSnapshot e project)" by (simp add: reconcileWorkflowRunSnapshot_def)
  have st1: "quiet_live (status_event X E now project e)" by (simp add: status_event_def rc q)
  have en: "quiet_live (end_of_run X E now project e run_of s)" for run_of s
    by (auto simp: end_of_run_def rc q split: option.splits intro!: quiet_seq quiet_each)
  have sl: "quiet_live (scenario_log X E now e f)" for f by (simp add: scenario_log_def q split: option.split)
  define rest where "rest = (\<lambda>run_of. seq_live (when_live (truthy_opt (le_stage e) \<or> truthy_opt (le_kind e))
            (\<lambda>s. (Inr (), s\<lparr>lv_activities := slice_last 500 (lv_activities s @ [e])\<rparr>)))
         (seq_live (when_live (truthy_opt (le_scenarioId e)) (scenario_log X E now e (run_of (nullish (le_scenarioId e) []))))
           (case aggregated_status e of
              Some status \<Rightarrow> end_of_run X E now project e run_of status
            | None \<Rightarrow> status_event X E now project e)))"
  have rest: "quiet_live (rest run_of)" for run_of unfolding rest_def by (simp add: st1 en sl split: option.split)
  define cursor where "cursor = when_live (i \<noteq> []) (on_executions (\<lambda>s. (Inr (), updateReplayCursor (hh_toIso X) (le_workflowRunId e) i s)))"
  have cursor: "quiet_live cursor" unfolding cursor_def by (simp add: q)
  define app where "app = on_executions (appendLog (hh_toIso X) E (le_workflowRunId e) (le_message e))"
  have app: "fst (app s) = Inr ()" "run_logs run (snd (app s)) =
      map_option (\<lambda>l. if le_workflowRunId e = run then slice_last 500 (l @ [le_message e]) else l) (run_logs run s)" for s
    unfolding app_def appendLog_def
    by (simp_all add: logs_updateExecution [OF assms] option.map_comp comp_def) (simp add: run_logs_def option.map_comp comp_def option.map_ident)
  have "apply_log X E now project e i st = seq_live cursor (seq_live app (rest (\<lambda>i. find_scenario_run (le_workflowRunId e) i st))) st"
    by (simp add: apply_log_def cursor_def app_def rest_def)
  then show "fst (apply_log X E now project e i st) = Inr ()"
    "run_logs run (snd (apply_log X E now project e i st)) =
       map_option (\<lambda>l. if le_workflowRunId e = run then slice_last 500 (l @ [le_message e]) else l) (run_logs run st)"
    using cursor rest app by (simp_all add: quiet_live_def seq_live_ok)
  have "quiet_live (results_of_run X E now r i run)" for run
    unfolding results_of_run_def by (simp add: q split: option.split)
  then show "quiet_live (apply_results X E now r i)" by (simp add: apply_results_def quiet_live_def)
qed

lemma logs_handle:
  assumes "getUserId (env_browser E) = Inr u" "live_id e \<notin> set (lv_processed st)"
  shows "fst (handle_event X project (E, now, e) st) = Inr ()"
    "run_logs run st = Some l \<Longrightarrow>
     \<exists>l'. run_logs run (snd (handle_event X project (E, now, e) st)) = Some l' \<and>
       l' = (if log_line run e = [] then l else slice_last 500 (l @ log_line run e))"
proof -
  have p: "run_logs run (st\<lparr>lv_processed := x\<rparr>) = run_logs run st" for x by (simp add: run_logs_def)
  show "fst (handle_event X project (E, now, e) st) = Inr ()"
    using assms(2) logs_apply [OF assms(1)]
    by (cases e) (simp_all add: handle_log_def handle_results_def quiet_live_def)
  show "\<exists>l'. run_logs run (snd (handle_event X project (E, now, e) st)) = Some l' \<and>
       l' = (if log_line run e = [] then l else slice_last 500 (l @ log_line run e))" if "run_logs run st = Some l"
    using assms(2) that logs_apply [OF assms(1)]
    by (cases e) (simp_all add: handle_log_def handle_results_def quiet_live_def p)
qed


definition sample_log :: "string \<Rightarrow> int \<Rightarrow> log_event" where
  "sample_log message n = \<lparr>le_workflowRunId = ''r'', le_projectId = ''p'', le_workflowId = ''w1'', le_scenarioId = None,
     le_scenarioName = None, le_message = message, le_status = None, le_stage = None, le_kind = None, le_activityStatus = None,
     le_serviceName = None, le_serviceNames = None, le_testName = None, le_timestamp = n, le_sequence = n, le_error = None,
     le_backendSessionId = None, le_result = None\<rparr>"

definition sample_live :: live_run where
  "sample_live = \<lparr>lv_stores = sample_stores\<lparr>cl_executions := sample_executions\<rparr>, lv_processed = [], lv_activities = [], lv_calls = []\<rparr>"


text \<open>
  An event that waits behind 500 others is dropped unseen, and the replay cursor, moved by the later
  ones, asks the runner only for what follows them.
\<close>

theorem overfull_queue_drops_events:
  "parse text = Some e \<Longrightarrow> length waiting = 499 \<Longrightarrow> receive parse text i (oldest # waiting) = Inr (waiting @ [(e, i)])"
  by (simp add: receive_def slice_last_def)

section \<open>Announcing finished tests\<close>

record announcer =
  an_previous :: "(string \<times> test_result_status) list"
  an_observed :: "string list"
  an_notified :: "string list"

record test_summary =
  su_total :: nat
  su_passed :: nat
  su_failed :: nat
  su_duration :: int

datatype announcement = TestComplete test_result | AllTestsComplete string test_summary

definition run_results :: "string option \<Rightarrow> test_result list \<Rightarrow> test_result list" where
  "run_results workflowRunId results =
     (if \<not> truthy_opt workflowRunId then []
      else filter (\<lambda>t. tt_workflowRunId t = workflowRunId \<and> \<not> sm_is_deleted (tt_meta t)) results)"

definition test_finished :: "test_result \<Rightarrow> bool" where
  "test_finished t \<longleftrightarrow> tt_status t = R_passed \<or> tt_status t = R_failed"

fun observe_tests ::
  "test_result list \<Rightarrow> (string \<times> test_result_status) list \<Rightarrow> announcement list \<times> (string \<times> test_result_status) list" where
  "observe_tests [] previous = ([], previous)"
| "observe_tests (t # ts) previous =
     (let before = map_of previous (tt_id t)
      in if before = Some (tt_status t) then observe_tests ts previous
         else case observe_tests ts (AList.update (tt_id t) (tt_status t) previous) of (out, previous') \<Rightarrow>
           ((if before \<noteq> None \<and> test_finished t then [TestComplete t] else []) @ out, previous'))"

definition summarize_tests :: "workflow_execution \<Rightarrow> test_result list \<Rightarrow> test_summary" where
  "summarize_tests execution tests =
     \<lparr>su_total = length tests, su_passed = length (filter (\<lambda>t. tt_status t = R_passed) tests),
      su_failed = length (filter (\<lambda>t. tt_status t = R_failed) tests),
      su_duration = (case ex_finishedAt execution of
          Some f \<Rightarrow> if f = 0 then 0 else f - ex_startedAt execution | None \<Rightarrow> 0)\<rparr>"

text \<open>One run of the effect, for the active execution and all stored results.\<close>

definition announce ::
  "workflow_execution option \<Rightarrow> test_result list \<Rightarrow> announcer \<Rightarrow> announcement list \<times> announcer" where
  "announce activeExecution results st =
     (case activeExecution of
        None \<Rightarrow> ([], st\<lparr>an_previous := []\<rparr>)
      | Some execution \<Rightarrow>
          (let run = ex_workflowRunId execution;
               tests = run_results (Some run) results;
               observed = (if run \<noteq> [] \<and> (ex_status execution = W_pending \<or> ex_status execution = W_running)
                           then set_add (an_observed st) run else an_observed st);
               (out, previous) = observe_tests tests (an_previous st);
               allComplete = (tests \<noteq> [] \<and> list_all test_finished tests);
               st' = st\<lparr>an_previous := previous, an_observed := observed\<rparr>
           in if shouldNotifyTestRunCompletion (Some run) allComplete (run \<noteq> [] \<and> run \<in> set observed) (run \<noteq> [] \<and> run \<in> set (an_notified st))
              then (out @ [AllTestsComplete run (summarize_tests execution tests)], st'\<lparr>an_notified := set_add (an_notified st) run\<rparr>)
              else (out, st')))"

fun announcements ::
  "(workflow_execution option \<times> test_result list) list \<Rightarrow> announcer \<Rightarrow> announcement list" where
  "announcements [] st = []"
| "announcements ((execution, results) # effects) st =
     (case announce execution results st of (out, st') \<Rightarrow> out @ announcements effects st')"

lemma observe_tests_finished:
  "a \<in> set (fst (observe_tests ts previous)) \<Longrightarrow> \<exists>t. a = TestComplete t \<and> test_finished t"
  by (induction ts previous rule: observe_tests.induct) (auto simp: case_prod_unfold split: if_splits)

lemma finished_counts:
  "list_all test_finished ts \<Longrightarrow>
   length (filter (\<lambda>t. tt_status t = R_passed) ts) + length (filter (\<lambda>t. tt_status t = R_failed) ts) = length ts"
  by (induction ts) (auto simp: test_finished_def)

definition seen_active :: "string \<Rightarrow> workflow_execution option \<Rightarrow> bool" where
  "seen_active run execution \<longleftrightarrow> (case execution of None \<Rightarrow> False
     | Some x \<Rightarrow> ex_workflowRunId x = run \<and> (ex_status x = W_pending \<or> ex_status x = W_running))"

text \<open>What one run of the effect can announce.\<close>

lemma announce_step:
  assumes "announce execution results st = (out, st')"
  shows "\<exists>tests extra. out = tests @ extra \<and> (\<forall>a \<in> set tests. \<exists>t. a = TestComplete t \<and> test_finished t) \<and>
    (extra = [] \<and> an_notified st' = an_notified st \<or>
     (\<exists>run s. extra = [AllTestsComplete run s] \<and> run \<notin> set (an_notified st) \<and> set (an_notified st') = insert run (set (an_notified st)) \<and>
        run \<in> set (an_observed st') \<and> 0 < su_total s \<and> su_passed s + su_failed s = su_total s)) \<and>
    (\<forall>r. r \<in> set (an_observed st') \<longrightarrow> r \<in> set (an_observed st) \<or> seen_active r execution)"
proof (cases execution)
  case None
  with assms show ?thesis by (auto simp: announce_def)
next
  case (Some x)
  define tests where "tests = run_results (Some (ex_workflowRunId x)) results"
  obtain o1 p1 where o: "observe_tests tests (an_previous st) = (o1, p1)" by force
  have t: "\<forall>a \<in> set o1. \<exists>t. a = TestComplete t \<and> test_finished t" using observe_tests_finished o by (metis fst_conv)
  have c: "0 < su_total (summarize_tests x tests) \<and> su_passed (summarize_tests x tests) + su_failed (summarize_tests x tests) =
      su_total (summarize_tests x tests)" if "tests \<noteq> [] \<and> list_all test_finished tests"
    using that finished_counts by (simp add: summarize_tests_def)
  define obs where "obs = (if ex_workflowRunId x \<noteq> [] \<and> (ex_status x = W_pending \<or> ex_status x = W_running)
      then set_add (an_observed st) (ex_workflowRunId x) else an_observed st)"
  have ob: "\<forall>r. r \<in> set obs \<longrightarrow> r \<in> set (an_observed st) \<or> seen_active r execution"
    by (auto simp: obs_def seen_active_def Some)
  define notify where "notify \<longleftrightarrow> shouldNotifyTestRunCompletion (Some (ex_workflowRunId x)) (tests \<noteq> [] \<and> list_all test_finished tests)
      (ex_workflowRunId x \<noteq> [] \<and> ex_workflowRunId x \<in> set obs) (ex_workflowRunId x \<noteq> [] \<and> ex_workflowRunId x \<in> set (an_notified st))"
  have eq: "announce execution results st =
      (if notify then (o1 @ [AllTestsComplete (ex_workflowRunId x) (summarize_tests x tests)],
                     st\<lparr>an_previous := p1, an_observed := obs, an_notified := set_add (an_notified st) (ex_workflowRunId x)\<rparr>)
       else (o1, st\<lparr>an_previous := p1, an_observed := obs\<rparr>))"
    by (simp add: announce_def Some tests_def [symmetric] o obs_def [symmetric] notify_def)
  show ?thesis
  proof (cases "notify")
    case True
    then have d: "tests \<noteq> [] \<and> list_all test_finished tests" "ex_workflowRunId x \<in> set obs" "ex_workflowRunId x \<notin> set (an_notified st)"
      by (auto simp: notify_def shouldNotifyTestRunCompletion_def truthy_opt_def)
    show ?thesis using True assms eq t ob d(2,3) c [OF d(1)]
      by (intro exI [of _ o1] exI [of _ "[AllTestsComplete (ex_workflowRunId x) (summarize_tests x tests)]"]) auto
  next
    case False
    then show ?thesis using assms eq t ob by (intro exI [of _ o1] exI [of _ "[]"]) auto
  qed
qed

definition announces :: "string \<Rightarrow> announcement \<Rightarrow> bool" where
  "announces run a \<longleftrightarrow> (case a of AllTestsComplete r _ \<Rightarrow> r = run | TestComplete _ \<Rightarrow> False)"

lemma announces_simps [simp]: "announces run (AllTestsComplete r s) \<longleftrightarrow> r = run" "\<not> announces run (TestComplete t)"
  by (simp_all add: announces_def)

text \<open>
  However often the effect runs, the end of a run's tests is announced at most once, and only for a run seen
  pending or running before; the announced summary counts at least one test and nothing but
  passed and failed ones. A single test is announced only when it has passed or failed.
\<close>

theorem run_end_announced_once:
  "length (filter (announces run) (announcements effects st)) \<le> (if run \<in> set (an_notified st) then 0 else 1) \<and>
   (\<forall>s. AllTestsComplete run s \<in> set (announcements effects st) \<longrightarrow>
      0 < su_total s \<and> su_passed s + su_failed s = su_total s \<and>
      (run \<in> set (an_observed st) \<or> (\<exists>x \<in> set effects. seen_active run (fst x)))) \<and>
   (\<forall>t. TestComplete t \<in> set (announcements effects st) \<longrightarrow> test_finished t)"
proof (induction effects arbitrary: st)
  case (Cons effect effects)
  obtain execution results where e: "effect = (execution, results)" by force
  obtain out st' where a: "announce execution results st = (out, st')" by force
  obtain tests extra where o: "out = tests @ extra" "\<forall>a \<in> set tests. \<exists>t. a = TestComplete t \<and> test_finished t"
    "extra = [] \<and> an_notified st' = an_notified st \<or>
     (\<exists>run s. extra = [AllTestsComplete run s] \<and> run \<notin> set (an_notified st) \<and> set (an_notified st') = insert run (set (an_notified st)) \<and>
        run \<in> set (an_observed st') \<and> 0 < su_total s \<and> su_passed s + su_failed s = su_total s)"
    "\<forall>r. r \<in> set (an_observed st') \<longrightarrow> r \<in> set (an_observed st) \<or> seen_active r execution"
    using announce_step [OF a] by blast
  have t: "filter (announces run) tests = []" using o(2) by (fastforce simp: filter_empty_conv)
  have no: "AllTestsComplete run s \<notin> set tests" for s using o(2) by blast
  note IH = Cons.IH [of st']
  have "length (filter (announces run) (announcements (effect # effects) st)) \<le> (if run \<in> set (an_notified st) then 0 else 1)"
    using IH o(3) by (auto simp: e a o(1) t split: if_splits)
  moreover have "0 < su_total s \<and> su_passed s + su_failed s = su_total s \<and>
      (run \<in> set (an_observed st) \<or> (\<exists>x \<in> set (effect # effects). seen_active run (fst x)))"
    if "AllTestsComplete run s \<in> set (announcements (effect # effects) st)" for s
    using that IH o(3,4) no by (auto simp: e a o(1))
  moreover have "test_finished t" if "TestComplete t \<in> set (announcements (effect # effects) st)" for t
    using that IH o(2,3) by (auto simp: e a o(1))
  ultimately show ?case by blast
qed simp

definition sample_test :: "string \<Rightarrow> test_result_status \<Rightarrow> test_result" where
  "sample_test i status = \<lparr>tt_id = i, tt_projectId = ''p'', tt_sessionId = ''b'', tt_workflowRunId = Some ''r'', tt_workflowId = ''w1'',
     tt_scenarioRunId = None, tt_scenarioId = None, tt_scenarioName = None, tt_testName = i, tt_testType = ''http'',
     tt_status = status, tt_resultData = JNull, tt_durationMs = 1, tt_executedAt = [], tt_containerLogs = None,
     tt_meta = wf_meta (sample_workflow 1 [])\<rparr>"

definition fresh_announcer :: announcer where
  "fresh_announcer = \<lparr>an_previous = [], an_observed = [], an_notified = []\<rparr>"

text \<open>
  The end of the tests is announced as soon as the results stored so far are all finished, while the run
  itself goes on: after one passed result the announcement is made, and a failure that follows
  is never part of it.
\<close>

lemma early_end_announced:
  "announcements
     [(Some sample_execution, [sample_test ''t1'' R_passed]),
      (Some sample_execution, [sample_test ''t1'' R_passed, sample_test ''t2'' R_running]),
      (Some sample_execution, [sample_test ''t1'' R_passed, sample_test ''t2'' R_failed])] fresh_announcer =
   [AllTestsComplete ''r'' \<lparr>su_total = 1, su_passed = 1, su_failed = 0, su_duration = 0\<rparr>,
    TestComplete (sample_test ''t2'' R_failed)]"
  by (simp add: announce_def run_results_def sample_test_def sample_execution_def fresh_announcer_def summarize_tests_def
      test_finished_def shouldNotifyTestRunCompletion_def set_add_def sample_workflow_def js_opt)

theorem run_end_announced_once_witness:
  "length (filter (announces ''r'') (announcements
     [(Some sample_execution, [sample_test ''t1'' R_passed]), (Some sample_execution, [sample_test ''t1'' R_passed])] fresh_announcer)) \<le> 1"
  using run_end_announced_once [of "''r''" "[(Some sample_execution, [sample_test ''t1'' R_passed]),
      (Some sample_execution, [sample_test ''t1'' R_passed])]" fresh_announcer]
  by (simp only: fresh_announcer_def announcer.simps list.set empty_iff if_False)

end
