(* ===== verification/Run_Start.thy ===== *)
theory Run_Start
  imports Hydration Runner_Client Registry_Config Translation_Props Sync_Queue
begin

text \<open>
  Starting a run: \<^verbatim>\<open>src/ui-v2/src/modules/workflow/hooks/useWorkflowExecution.tsx\<close>, and the conditions
  under which \<^verbatim>\<open>components/FlowBuilder/index.tsx\<close> offers it. A start selects scenarios, validates graph,
  credentials and scenarios, delivers pending changes, opens the run and its scenario runs in the stores and submits
  the request. The network behind the sync service, the runner, ids and the clock are arguments; typographic
  quotes in messages are a pair of strings.
\<close>

section \<open>Selection and validation\<close>

definition selectScenariosForRun :: "scenario list \<Rightarrow> string \<Rightarrow> string list option \<Rightarrow> scenario list res" where
  "selectScenariosForRun scenarios workflowId scenarioIds =
     (case scenarioIds of
        None \<Rightarrow> Inr scenarios
      | Some ids \<Rightarrow>
          if ids = [] then Inl (Err ''Select at least one scenario to run.'')
          else if \<not> distinct ids then Inl (Err ''Scenario selection contains duplicate IDs.'')
          else map_res (\<lambda>i.
            let stale = Inl (Err (''Scenario '' @ i @ '' is stale or does not belong to this workflow.''))
            in case map_of (rev (map (\<lambda>s. (sn_id s, s)) scenarios)) i of
                 None \<Rightarrow> stale
               | Some s \<Rightarrow> if sm_is_deleted (sn_meta s) \<or> sn_workflowId s \<noteq> workflowId then stale else Inr s) ids)"

definition runtime_secret :: "string \<times> string \<Rightarrow> registry_runtime_config option \<Rightarrow> registry_secret" where
  "runtime_secret registry secret =
     (case registry of (url, auth) \<Rightarrow>
        \<lparr>rs_url = Some url, rs_auth_type = auth,
         rs_username = (if auth = ''basic'' then Option.bind secret rr_username else None),
         rs_password = (if auth = ''basic'' then Option.bind secret rr_password else None),
         rs_token = (if auth = ''token'' then Option.bind secret rr_token else None)\<rparr>)"

definition service_key :: "flow_node \<Rightarrow> string" where
  "service_key node = sanitizeName (or_str (Some (nd_label (fn_data node))) (fn_id node))"

definition node_secrets :: "(string \<times> registry_runtime_config) list option \<Rightarrow> flow_node \<Rightarrow> (string \<times> registry_secret) list res" where
  "node_secrets registrySecrets node =
     (case nd_service (fn_data node) of
        None \<Rightarrow> Inl TypeError
      | Some service \<Rightarrow>
          Inr (case svc_registry service of
                 None \<Rightarrow> []
               | Some registry \<Rightarrow>
                   [(service_key node, runtime_secret registry (Option.bind registrySecrets (\<lambda>m. map_of m (fn_id node))))]))"

definition normalizedSecrets ::
  "flow_node list \<Rightarrow> (string \<times> registry_runtime_config) list option \<Rightarrow> (string \<times> registry_secret) list res" where
  "normalizedSecrets nodes registrySecrets =
     bind_res (map_res (node_secrets registrySecrets) nodes) (\<lambda>entries.
       Inr (foldl (\<lambda>m (k, v). AList.update k v m) [] (concat entries)))"

definition missing_credentials :: "(string \<times> registry_secret) list \<Rightarrow> flow_node \<Rightarrow> bool" where
  "missing_credentials secrets node =
     (case Option.bind (nd_service (fn_data node)) svc_registry of
        None \<Rightarrow> False
      | Some (_, auth) \<Rightarrow>
          (let runtime = map_of secrets (service_key node)
           in auth = ''basic'' \<and> (\<not> truthy_opt (map_option trim (Option.bind runtime rs_username)) \<or>
                                  \<not> truthy_opt (Option.bind runtime rs_password)) \<or>
              auth = ''token'' \<and> \<not> truthy_opt (Option.bind runtime rs_token)))"

definition invalid_with :: "translation_error \<Rightarrow> validation_result" where
  "invalid_with e = \<lparr>vr_valid = False, vr_errors = [e], vr_warnings = []\<rparr>"

definition credentials_error :: "string \<times> string \<Rightarrow> flow_node \<Rightarrow> translation_error" where
  "credentials_error quotes node =
     \<lparr>te_nodeId = Some (fn_id node),
      te_message = ''Re-enter the session-only registry credentials for '' @ fst quotes @ nd_label (fn_data node) @ snd quotes @
        '' before running.'', te_field = Some ''registry''\<rparr>"

fun first_invalid :: "workflow_service_graph \<Rightarrow> scenario list \<Rightarrow> validation_result option" where
  "first_invalid graph [] = None"
| "first_invalid graph (s # ss) =
     (let result = validateScenario graph (sn_name s) (sn_tests s) (sn_testOrder s)
      in if \<not> vr_valid result then Some result else first_invalid graph ss)"

definition validateSelection ::
  "(string \<Rightarrow> string \<Rightarrow> int) \<Rightarrow> string \<times> string \<Rightarrow> flow_node list \<Rightarrow> flow_edge list \<Rightarrow> (string \<times> registry_secret) list \<Rightarrow>
   scenario list \<Rightarrow> validation_result res" where
  "validateSelection localeCompare quotes nodes edges secrets selected =
     bind_res (validateWorkflowGraph nodes edges) (\<lambda>workflowValidation.
       if \<not> vr_valid workflowValidation then Inr workflowValidation
       else case List.find (missing_credentials secrets) nodes of
         Some node \<Rightarrow> Inr (invalid_with (credentials_error quotes node))
       | None \<Rightarrow>
           bind_res (translateWorkflowGraphToServiceGraph localeCompare nodes edges (Some secrets)) (\<lambda>serviceGraph.
             if selected = []
             then Inr (invalid_with (graph_error ''Create at least one scenario before executing.''))
             else Inr (nullish (first_invalid serviceGraph selected) workflowValidation)))"

section \<open>The request\<close>

definition secret_json :: "registry_secret \<Rightarrow> json" where
  "secret_json r = obj [(''url'', map_option JStr (rs_url r)), (''auth_type'', Some (JStr (rs_auth_type r))),
     (''username'', map_option JStr (rs_username r)), (''password'', map_option JStr (rs_password r)),
     (''token'', map_option JStr (rs_token r))]"

definition submitted_scenario :: "graph_json \<Rightarrow> scenario \<times> string \<Rightarrow> json" where
  "submitted_scenario G p =
     (case p of (s, runId) \<Rightarrow>
        obj [(''id'', Some (JStr (sn_id s))), (''scenarioRunId'', Some (JStr runId)), (''projectId'', Some (JStr (sn_projectId s))),
             (''name'', Some (JStr (sn_name s))), (''description'', map_option JStr (sn_description s)),
             (''tests'', Some (gj_tests G (sn_tests s))), (''testOrder'', Some (str_list (sn_testOrder s))),
             (''user_id'', Some (JStr (sm_user_id (sn_meta s)))), (''client_id'', Some (JStr (sm_client_id (sn_meta s))))])"

definition first_project :: "scenario list \<Rightarrow> string" where
  "first_project selected = (case selected of [] \<Rightarrow> [] | s # _ \<Rightarrow> sn_projectId s)"

definition submission ::
  "graph_json \<Rightarrow> string \<Rightarrow> string \<Rightarrow> string \<Rightarrow> flow_node list \<Rightarrow> flow_edge list \<Rightarrow> (string \<times> registry_secret) list \<Rightarrow>
   scenario list \<Rightarrow> string list \<Rightarrow> json" where
  "submission G workflowRunId workflowId workflowName nodes edges secrets selected runIds =
     obj [(''workflowRunId'', Some (JStr workflowRunId)), (''projectId'', Some (JStr (first_project selected))),
          (''workflowId'', Some (JStr workflowId)), (''workflowName'', Some (JStr workflowName)),
          (''nodes'', Some (gj_nodes G nodes)), (''edges'', Some (gj_edges G edges)),
          (''scenarios'', Some (JArr (map (submitted_scenario G) (zip selected runIds)))),
          (''userId'', Some (JStr (case selected of [] \<Rightarrow> ''demo-user'' | s # _ \<Rightarrow> sm_user_id (sn_meta s)))),
          (''clientId'', (case selected of [] \<Rightarrow> None | s # _ \<Rightarrow> Some (JStr (sm_client_id (sn_meta s))))),
          (''registrySecrets'', Some (JObj (map (\<lambda>(k, v). (k, secret_json v)) secrets))),
          (''executionOptions'', Some (JObj [(''continueOnFailure'', JBool True)]))]"

section \<open>Starting\<close>

record 'w run_host =
  xh_locale :: "string \<Rightarrow> string \<Rightarrow> int"
  xh_quotes :: "string \<times> string"
  xh_graph :: graph_json
  xh_toIso :: "int \<Rightarrow> string"
  xh_sync :: sync_host
  xh_send :: "sync_service \<Rightarrow> sync_change list \<Rightarrow> 'w \<Rightarrow> sync_batch_response res \<times> 'w"
  xh_runner :: runner
  xh_enc :: "string \<Rightarrow> string"

record 'w run_state =
  xs_service :: sync_service
  xs_net :: 'w
  xs_executions :: execution_synced
  xs_scenarioRuns :: scenario_run_synced
  xs_sent :: "runner_request list"
  xs_pushed :: "string option"
  xs_errors :: "string list"

text \<open>The shown workflow, as the hook's arguments give it.\<close>

record run_input =
  ri_workflowId :: string
  ri_workflowName :: string
  ri_nodes :: "flow_node list"
  ri_edges :: "flow_edge list"
  ri_secrets :: "(string \<times> registry_runtime_config) list option"
  ri_scenarios :: "scenario list"

fun start_runs ::
  "(int \<Rightarrow> string) \<Rightarrow> sync_env \<Rightarrow> int \<Rightarrow> string \<Rightarrow> string \<Rightarrow> (scenario \<times> string) list \<Rightarrow> scenario_run_synced \<Rightarrow>
   unit res \<times> scenario_run_synced" where
  "start_runs toIso E now workflowRunId workflowId [] store = (Inr (), store)"
| "start_runs toIso E now workflowRunId workflowId ((s, i) # rest) store =
     (case startScenarioRun toIso E now i (sn_projectId s) workflowRunId workflowId (sn_id s) (sn_name s) store of
        (Inl e, store') \<Rightarrow> (Inl e, store')
      | (Inr _, store') \<Rightarrow> start_runs toIso E now workflowRunId workflowId rest store')"

definition run_url :: "(string \<Rightarrow> string) \<Rightarrow> string \<Rightarrow> string \<Rightarrow> string \<Rightarrow> string" where
  "run_url enc workflowId workflowRunId projectId =
     ''/workflow/'' @ enc workflowId @ ''/runs/'' @ enc workflowRunId @ ''?projectId='' @ enc projectId"

text \<open>The body of the \<^verbatim>\<open>try\<close>; \<open>runIds\<close> are the generated ids of the scenario runs.\<close>

definition start_run ::
  "'w run_host \<Rightarrow> sync_env \<Rightarrow> int \<Rightarrow> string \<Rightarrow> string list \<Rightarrow> run_input \<Rightarrow> (string \<times> registry_secret) list \<Rightarrow> scenario list \<Rightarrow>
   'w run_state \<Rightarrow> unit res \<times> 'w run_state" where
  "start_run X E now workflowRunId runIds I secrets selected st0 =
     (case flushPendingBeforeRun (xh_sync X) (xh_send X) 10 (xs_service st0, xs_net st0) of (service, net) \<Rightarrow>
      let st = st0\<lparr>xs_service := service, xs_net := net\<rparr> in
      if hasBlockingPreRunChanges (ri_workflowId I) service
      then (Inl (Err ''This workflow has not been synchronized yet. Wait for sync or try Force sync before execution.''), st)
      else case start_runs (xh_toIso X) E now workflowRunId (ri_workflowId I) (zip selected runIds) (xs_scenarioRuns st) of
        (Inl e, runs) \<Rightarrow> (Inl e, st\<lparr>xs_scenarioRuns := runs\<rparr>)
      | (Inr _, runs) \<Rightarrow>
          (case startExecution (xh_toIso X) E now (first_project selected) (ri_workflowId I) workflowRunId runIds (xs_executions st) of
             (Inl e, executions) \<Rightarrow> (Inl e, st\<lparr>xs_scenarioRuns := runs, xs_executions := executions\<rparr>)
           | (Inr _, executions) \<Rightarrow>
               (case submitWorkflowRun (xh_runner X) (submission (xh_graph X) workflowRunId (ri_workflowId I) (ri_workflowName I)
                       (ri_nodes I) (ri_edges I) secrets selected runIds) (xs_sent st) of
                  (Inl e, sent) \<Rightarrow> (Inl e, st\<lparr>xs_scenarioRuns := runs, xs_executions := executions, xs_sent := sent\<rparr>)
                | (Inr reply, sent) \<Rightarrow>
                    (Inr (), st\<lparr>xs_scenarioRuns := runs, xs_sent := sent,
                       xs_executions := updateQueueInfo (xh_toIso X) workflowRunId (snapshot_queue reply) executions,
                       xs_pushed := Some (run_url (xh_enc X) (ri_workflowId I) workflowRunId (first_project selected))\<rparr>))))"

definition thrown_message :: "js_error \<Rightarrow> string" where
  "thrown_message e = (case e of Err m \<Rightarrow> m | TypeError \<Rightarrow> ''TypeError'')"

definition note_error :: "string \<Rightarrow> 'w run_state \<Rightarrow> 'w run_state" where
  "note_error m st = st\<lparr>xs_errors := xs_errors st @ [m]\<rparr>"

text \<open>\<open>generated\<close> is the sequence of ids that \<^verbatim>\<open>generateId\<close> returns: the run's, then one for every scenario run.\<close>

definition run_ids :: "(nat \<Rightarrow> string) \<Rightarrow> scenario list \<Rightarrow> string list" where
  "run_ids generated selected = map (\<lambda>n. generated (Suc n)) [0..<length selected]"

definition execute ::
  "'w run_host \<Rightarrow> sync_env \<Rightarrow> int \<Rightarrow> (nat \<Rightarrow> string) \<Rightarrow> run_input \<Rightarrow> string list option \<Rightarrow> 'w run_state \<Rightarrow>
   bool res \<times> 'w run_state" where
  "execute X E now generated I scenarioIds st =
     (case selectScenariosForRun (ri_scenarios I) (ri_workflowId I) scenarioIds of
        Inl e \<Rightarrow> (Inr False, note_error (thrown_message e) st)
      | Inr selected \<Rightarrow>
          (case normalizedSecrets (ri_nodes I) (ri_secrets I) of
             Inl e \<Rightarrow> (Inl e, st)
           | Inr secrets \<Rightarrow>
               (case validateSelection (xh_locale X) (xh_quotes X) (ri_nodes I) (ri_edges I) secrets selected of
                  Inl e \<Rightarrow> (Inl e, st)
                | Inr v \<Rightarrow>
                    if \<not> vr_valid v
                    then (Inr False, note_error (''Workflow validation failed: '' @ join_with ''; '' (map te_message (vr_errors v))) st)
                    else (case start_run X E now (generated 0) (run_ids generated selected) I secrets selected st of
                            (Inr _, st') \<Rightarrow> (Inr True, st')
                          | (Inl e, st') \<Rightarrow>
                              (case failExecution (xh_toIso X) E now (generated 0) (thrown_message e) (xs_executions st') of
                                 (Inl e', executions) \<Rightarrow> (Inl e', st'\<lparr>xs_executions := executions\<rparr>)
                               | (Inr _, executions) \<Rightarrow>
                                   (Inr False, note_error (thrown_message e) (st'\<lparr>xs_executions := executions\<rparr>)))))))"

definition canExecute :: "run_input \<Rightarrow> bool \<Rightarrow> bool" where
  "canExecute I isExecuting \<longleftrightarrow> 0 < length (ri_nodes I) \<and> 0 < length (ri_scenarios I) \<and> \<not> isExecuting"

section \<open>Offering a run\<close>

text \<open>
  \<^verbatim>\<open>FlowBuilder\<close>: \<open>errors\<close> are the messages of the validation, one of each; \<open>queueSize\<close> is the number of
  changes that wait to be synchronised.
\<close>

definition displayed_errors :: "translation_error list \<Rightarrow> translation_error list \<Rightarrow> translation_error list" where
  "displayed_errors guided shown =
     map snd (foldl (\<lambda>m e. AList.update (te_message e) e m) [] (guided @ shown))"

definition guidedValidationErrors ::
  "(string \<Rightarrow> string \<Rightarrow> int) \<Rightarrow> flow_node list \<Rightarrow> flow_edge list \<Rightarrow> scenario list \<Rightarrow> translation_error list res" where
  "guidedValidationErrors localeCompare nodes edges scenarios =
     bind_res (translateWorkflowGraphToServiceGraph localeCompare nodes edges None) (\<lambda>serviceGraph.
       Inr (displayed_errors (concat (map (\<lambda>s. vr_errors (validateScenario serviceGraph (sn_name s) (sn_tests s) (sn_testOrder s))) scenarios)) []))"

definition hasRunnableTest :: "run_input \<Rightarrow> bool" where
  "hasRunnableTest I = list_ex (\<lambda>s. 0 < length (sn_tests s)) (ri_scenarios I)"

definition canLaunchWorkflow :: "bool \<Rightarrow> bool \<Rightarrow> nat \<Rightarrow> nat \<Rightarrow> run_input \<Rightarrow> bool" where
  "canLaunchWorkflow canRun isExecuting errors queueSize I \<longleftrightarrow>
     canRun \<and> canExecute I isExecuting \<and> hasRunnableTest I \<and> errors = 0 \<and> queueSize = 0"

definition runDisabledReason :: "bool \<Rightarrow> bool \<Rightarrow> nat \<Rightarrow> nat \<Rightarrow> run_input \<Rightarrow> string option" where
  "runDisabledReason canRun isExecuting errors queueSize I =
     (if isExecuting then Some ''A workflow run is already starting.''
      else if \<not> canRun then Some ''Your project role does not allow workflow runs.''
      else if 0 < queueSize then Some ''Wait for pending workflow changes to finish syncing.''
      else if length (ri_nodes I) = 0 then Some ''Add at least one service before running.''
      else if length (ri_scenarios I) = 0 then Some ''Create at least one scenario before running.''
      else if \<not> hasRunnableTest I then Some ''Add at least one test step to a scenario before running.''
      else if 0 < errors
      then Some (''Resolve '' @ show_nat errors @ '' validation issue'' @ (if errors = 1 then [] else ''s'') @ '' before running.'')
      else None)"

section \<open>What a request means\<close>

lemma submitWorkflowRun_sends:
  "snd (submitWorkflowRun runner input sent) =
   sent @ [\<lparr>rq_method = ''POST'', rq_path = ''/api/v1/workflow-runs'', rq_query = [], rq_body = Some input\<rparr>]"
  by (simp add: submitWorkflowRun_def then_h_def send_def pure_h_def split: sum.split)

definition stored_run :: "string \<Rightarrow> scenario_run_synced \<Rightarrow> scenario_run option" where
  "stored_run i store = map_of (rn_scenarioRuns (sy_state store)) i"

lemma startScenarioRun_stored:
  "startScenarioRun toIso E now i projectId workflowRunId workflowId scenarioId name store = (Inr x, store') \<Longrightarrow>
   (\<exists>run. stored_run i store' = Some run \<and> sr_scenarioId run = scenarioId \<and> sr_workflowRunId run = workflowRunId \<and> sr_status run = S_pending) \<and>
   (\<forall>j. j \<noteq> i \<longrightarrow> stored_run j store' = stored_run j store)"
  by (auto simp: startScenarioRun_def stored_run_def split: sum.splits)

lemma start_runs_stored:
  "start_runs toIso E now workflowRunId workflowId pairs store = (Inr x, store') \<Longrightarrow> distinct (map snd pairs) \<Longrightarrow>
   (\<forall>p \<in> set pairs. \<exists>run. stored_run (snd p) store' = Some run \<and> sr_scenarioId run = sn_id (fst p) \<and>
      sr_workflowRunId run = workflowRunId \<and> sr_status run = S_pending) \<and>
   (\<forall>j. j \<notin> snd ` set pairs \<longrightarrow> stored_run j store' = stored_run j store)"
proof (induction pairs arbitrary: store)
  case (Cons p rest)
  obtain s i where p: "p = (s, i)" by force
  obtain y store1 where 1: "startScenarioRun toIso E now i (sn_projectId s) workflowRunId workflowId (sn_id s) (sn_name s) store = (Inr y, store1)"
    and 2: "start_runs toIso E now workflowRunId workflowId rest store1 = (Inr x, store')"
    using Cons.prems(1) by (auto simp: p split: prod.splits sum.splits)
  from Cons.IH [OF 2] startScenarioRun_stored [OF 1] Cons.prems(2) show ?case by (auto simp: p)
qed simp

lemma first_invalid_None: "first_invalid graph ss = None \<longleftrightarrow>
    (\<forall>s \<in> set ss. vr_valid (validateScenario graph (sn_name s) (sn_tests s) (sn_testOrder s)))"
  by (induction ss) simp_all

lemma first_invalid_Some: "first_invalid graph ss = Some v \<Longrightarrow> \<not> vr_valid v"
  by (induction ss) (auto split: if_splits)

lemma validateSelection_valid:
  assumes "validateSelection lc quotes nodes edges secrets selected = Inr v" "vr_valid v"
  shows "selected \<noteq> [] \<and> (\<exists>w. validateWorkflowGraph nodes edges = Inr w \<and> vr_valid w) \<and>
    (\<forall>n \<in> set nodes. \<not> missing_credentials secrets n) \<and>
    (\<exists>graph. translateWorkflowGraphToServiceGraph lc nodes edges (Some secrets) = Inr graph \<and>
       (\<forall>s \<in> set selected. vr_valid (validateScenario graph (sn_name s) (sn_tests s) (sn_testOrder s))))"
proof -
  obtain w where w: "validateWorkflowGraph nodes edges = Inr w" "vr_valid w"
    using assms by (auto simp: validateSelection_def split: if_splits)
  have c: "List.find (missing_credentials secrets) nodes = None"
    using assms w by (auto simp: validateSelection_def invalid_with_def split: option.splits)
  then obtain graph where g: "translateWorkflowGraphToServiceGraph lc nodes edges (Some secrets) = Inr graph"
    using assms w by (auto simp: validateSelection_def)
  have f: "selected \<noteq> [] \<and> first_invalid graph selected = None"
    using assms w c g first_invalid_Some [of graph selected v]
    by (cases "first_invalid graph selected") (auto simp: validateSelection_def invalid_with_def nullish_def split: if_splits)
  show ?thesis using w c g f by (auto simp: first_invalid_None find_None_iff)
qed

lemma selected_scenarios:
  assumes "selectScenariosForRun scenarios workflowId scenarioIds = Inr selected"
    and "\<And>s. s \<in> set scenarios \<Longrightarrow> sn_workflowId s = workflowId \<and> \<not> sm_is_deleted (sn_meta s)"
  shows "set selected \<subseteq> set scenarios \<and> (\<forall>ids. scenarioIds = Some ids \<longrightarrow> map sn_id selected = ids)"
proof (cases scenarioIds)
  case None
  with assms show ?thesis by (simp add: selectScenariosForRun_def)
next
  case (Some ids)
  define pick where "pick = (\<lambda>i. let stale = Inl (Err (''Scenario '' @ i @ '' is stale or does not belong to this workflow.''))
            in case map_of (rev (map (\<lambda>s. (sn_id s, s)) scenarios)) i of
                 None \<Rightarrow> stale
               | Some s \<Rightarrow> if sm_is_deleted (sn_meta s) \<or> sn_workflowId s \<noteq> workflowId then stale else Inr s)"
  have "map_res pick ids = Inr selected"
    using assms(1) Some by (auto simp: selectScenariosForRun_def pick_def split: if_splits)
  moreover have "s \<in> set scenarios \<and> sn_id s = i" if "pick i = Inr s" for i s
    using that by (auto simp: pick_def split: option.splits if_splits dest!: map_of_SomeD)
  ultimately have "set selected \<subseteq> set scenarios \<and> map sn_id selected = ids"
  proof (induction ids arbitrary: selected)
    case (Cons i ids)
    obtain s rest where "pick i = Inr s" "map_res pick ids = Inr rest" "selected = s # rest"
      using Cons.prems(1) by (auto simp: bind_res_def split: sum.splits)
    with Cons show ?case by auto
  qed simp
  with Some show ?thesis by simp
qed

lemma run_ids_facts:
  "inj generated \<Longrightarrow> distinct (run_ids generated selected) \<and> generated 0 \<notin> set (run_ids generated selected)"
  "length (run_ids generated selected) = length selected"
  by (auto simp: run_ids_def distinct_map inj_def inj_on_def)

text \<open>What the body of the \<^verbatim>\<open>try\<close> has done when a request has left.\<close>

lemma start_run_sent:
  assumes "start_run X E now run ids I secrets selected st = (r, st')" "xs_sent st' \<noteq> xs_sent st"
    and d: "distinct ids" "length ids = length selected"
  shows "\<not> hasBlockingPreRunChanges (ri_workflowId I) (xs_service st') \<and>
    xs_sent st' = xs_sent st @ [\<lparr>rq_method = ''POST'', rq_path = ''/api/v1/workflow-runs'', rq_query = [],
      rq_body = Some (submission (xh_graph X) run (ri_workflowId I) (ri_workflowName I) (ri_nodes I) (ri_edges I) secrets selected ids)\<rparr>] \<and>
    (\<exists>ex. getExecution run (xs_executions st') = Some ex \<and> ex_scenarioRunIds ex = ids \<and> ex_status ex = W_pending \<and> 0 \<le> sm_version (ex_meta ex)) \<and>
    (\<forall>p \<in> set (zip selected ids). \<exists>x. stored_run (snd p) (xs_scenarioRuns st') = Some x \<and> sr_scenarioId x = sn_id (fst p) \<and>
       sr_workflowRunId x = run \<and> sr_status x = S_pending) \<and>
    xs_errors st' = xs_errors st \<and> (\<exists>m. addSyncMetadata E None None None = Inr m)"
proof -
  obtain service net where f: "flushPendingBeforeRun (xh_sync X) (xh_send X) 10 (xs_service st, xs_net st) = (service, net)" by force
  have nb: "\<not> hasBlockingPreRunChanges (ri_workflowId I) service"
    using assms(1,2) by (auto simp: start_run_def f split: if_splits)
  obtain x runs where rs: "start_runs (xh_toIso X) E now run (ri_workflowId I) (zip selected ids) (xs_scenarioRuns st) = (Inr x, runs)"
    using assms(1,2) nb by (auto simp: start_run_def f split: prod.splits sum.splits)
  obtain y executions where se: "startExecution (xh_toIso X) E now (first_project selected) (ri_workflowId I) run ids (xs_executions st) = (Inr y, executions)"
    using assms(1,2) nb rs by (auto simp: start_run_def f split: prod.splits sum.splits)
  obtain m where m: "addSyncMetadata E None None None = Inr m" using se by (auto simp: startExecution_def split: sum.splits)
  have ex: "\<exists>ex. getExecution run executions = Some ex \<and> ex_scenarioRunIds ex = ids \<and> ex_status ex = W_pending \<and> 0 \<le> sm_version (ex_meta ex)"
    using se m by (auto simp: startExecution_def getExecution_def addSyncMetadata_def)
  obtain z sent where sub: "submitWorkflowRun (xh_runner X) (submission (xh_graph X) run (ri_workflowId I) (ri_workflowName I)
      (ri_nodes I) (ri_edges I) secrets selected ids) (xs_sent st) = (z, sent)" by force
  note sent = submitWorkflowRun_sends [of "xh_runner X" "submission (xh_graph X) run (ri_workflowId I) (ri_workflowName I)
      (ri_nodes I) (ri_edges I) secrets selected ids" "xs_sent st", unfolded sub, simplified]
  have st': "xs_service st' = service" "xs_sent st' = sent" "xs_scenarioRuns st' = runs" "xs_errors st' = xs_errors st"
    "xs_executions st' = executions \<or> (\<exists>q. xs_executions st' = updateQueueInfo (xh_toIso X) run q executions)"
    using assms(1) by (auto simp: start_run_def f nb rs se sub split: sum.splits)
  have "getExecution run (updateQueueInfo t run q executions) = map_option (\<lambda>e. case q of Some v \<Rightarrow> e\<lparr>ex_queue := v\<rparr> | None \<Rightarrow> e) (getExecution run executions)"
    for t q by (auto simp: updateQueueInfo_def getExecution_def option.map_ident split: option.splits)
  then have "\<exists>ex. getExecution run (xs_executions st') = Some ex \<and> ex_scenarioRunIds ex = ids \<and> ex_status ex = W_pending \<and> 0 \<le> sm_version (ex_meta ex)"
    using ex st'(5) by (auto split: option.split)
  moreover have "map snd (zip selected ids) = ids" using d(2) by simp
  ultimately show ?thesis using nb sent start_runs_stored [OF rs] d(1) st' m by auto
qed

text \<open>
  C6. A run is requested only for what was validated and recorded: if any request leaves, it is exactly one, it submits
  scenarios of this workflow that are live, chosen (in the order chosen) and valid against the graph's
  services, the graph is valid and has its registry credentials, and no insertion or deletion of the
  workflow is waiting to be synchronised. The run is then in the store with the ids of its scenario runs, pending
  if the start succeeded and failed if the runner refused it, and every submitted scenario has its stored, pending run.
\<close>

theorem requested_run_is_valid_and_recorded:
  assumes "execute X E now generated I scenarioIds st = (r, st')" "xs_sent st' \<noteq> xs_sent st" "inj generated"
    and "ri_scenarios I = getScenariosByWorkflow (xh_locale X) (ri_workflowId I) store"
  shows "\<exists>selected secrets graph v ex.
    set selected \<subseteq> set (ri_scenarios I) \<and> selected \<noteq> [] \<and> (\<forall>ids. scenarioIds = Some ids \<longrightarrow> map sn_id selected = ids) \<and>
    validateWorkflowGraph (ri_nodes I) (ri_edges I) = Inr v \<and> vr_valid v \<and>
    normalizedSecrets (ri_nodes I) (ri_secrets I) = Inr secrets \<and> (\<forall>n \<in> set (ri_nodes I). \<not> missing_credentials secrets n) \<and>
    translateWorkflowGraphToServiceGraph (xh_locale X) (ri_nodes I) (ri_edges I) (Some secrets) = Inr graph \<and>
    (\<forall>s \<in> set selected. vr_valid (validateScenario graph (sn_name s) (sn_tests s) (sn_testOrder s))) \<and>
    \<not> hasBlockingPreRunChanges (ri_workflowId I) (xs_service st') \<and>
    xs_sent st' = xs_sent st @ [\<lparr>rq_method = ''POST'', rq_path = ''/api/v1/workflow-runs'', rq_query = [],
      rq_body = Some (submission (xh_graph X) (generated 0) (ri_workflowId I) (ri_workflowName I) (ri_nodes I) (ri_edges I)
        secrets selected (run_ids generated selected))\<rparr>] \<and>
    getExecution (generated 0) (xs_executions st') = Some ex \<and> ex_scenarioRunIds ex = run_ids generated selected \<and>
    ((r = Inr True \<and> ex_status ex = W_pending) \<or> (r = Inr False \<and> ex_status ex = W_failed)) \<and>
    (\<forall>p \<in> set (zip selected (run_ids generated selected)). \<exists>x. stored_run (snd p) (xs_scenarioRuns st') = Some x \<and>
       sr_scenarioId x = sn_id (fst p) \<and> sr_workflowRunId x = generated 0 \<and> sr_status x = S_pending)"
proof -
  obtain selected where sel: "selectScenariosForRun (ri_scenarios I) (ri_workflowId I) scenarioIds = Inr selected"
    using assms(1,2) by (cases "selectScenariosForRun (ri_scenarios I) (ri_workflowId I) scenarioIds") (auto simp: execute_def note_error_def)
  obtain secrets where sec: "normalizedSecrets (ri_nodes I) (ri_secrets I) = Inr secrets"
    using assms(1,2) by (cases "normalizedSecrets (ri_nodes I) (ri_secrets I)") (auto simp: execute_def sel)
  obtain v where v: "validateSelection (xh_locale X) (xh_quotes X) (ri_nodes I) (ri_edges I) secrets selected = Inr v"
    using assms(1,2) by (cases "validateSelection (xh_locale X) (xh_quotes X) (ri_nodes I) (ri_edges I) secrets selected") (auto simp: execute_def sel sec)
  have vv: "vr_valid v" using assms(1,2) by (rule_tac ccontr) (auto simp: execute_def sel sec v note_error_def)
  obtain r1 st1 where run: "start_run X E now (generated 0) (run_ids generated selected) I secrets selected st = (r1, st1)" by force
  have keep: "xs_sent st' = xs_sent st1" "xs_service st' = xs_service st1" "xs_scenarioRuns st' = xs_scenarioRuns st1"
    using assms(1) by (auto simp: execute_def sel sec v vv run note_error_def split: sum.splits prod.splits)
  have d: "distinct (run_ids generated selected)" "length (run_ids generated selected) = length selected"
    using run_ids_facts assms(3) by blast+
  note sent = start_run_sent [OF run _ d, unfolded keep [symmetric], OF assms(2)]
  obtain ex where ex: "getExecution (generated 0) (xs_executions st1) = Some ex" "ex_scenarioRunIds ex = run_ids generated selected"
    "ex_status ex = W_pending" "0 \<le> sm_version (ex_meta ex)"
    using sent by blast
  obtain u where u: "getUserId (env_browser E) = Inr u" using sent by (auto simp: addSyncMetadata_def)
  have "\<exists>ex'. getExecution (generated 0) (xs_executions st') = Some ex' \<and> ex_scenarioRunIds ex' = run_ids generated selected \<and>
      ((r = Inr True \<and> ex_status ex' = W_pending) \<or> (r = Inr False \<and> ex_status ex' = W_failed))"
  proof (cases r1)
    case (Inr z)
    then show ?thesis using assms(1) ex by (auto simp: execute_def sel sec v vv run)
  next
    case (Inl e)
    obtain r2 executions where fe: "failExecution (xh_toIso X) E now (generated 0) (thrown_message e) (xs_executions st1) = (r2, executions)" by force
    from updateExecution_get [OF ex(1) u ex(4), of "xh_toIso X" "\<lambda>e'. e'\<lparr>ex_status := W_failed, ex_error := Some (thrown_message e), ex_finishedAt := Some now\<rparr>"]
    obtain m where m: "getExecution (generated 0) executions =
        Some (ex\<lparr>ex_status := W_failed, ex_error := Some (thrown_message e), ex_finishedAt := Some now, ex_meta := m\<rparr>)"
      using fe by (auto simp: failExecution_def)
    obtain b where b: "bump_metadata E (ex_meta ex) = Inr b" using bump_metadata_total [OF u] by blast
    have "r2 = Inr ()" using fe ex(1) b by (auto simp: failExecution_def updateExecution_def getExecution_def)
    then show ?thesis using assms(1) m ex(2) Inl fe by (auto simp: execute_def sel sec v vv run note_error_def)
  qed
  then obtain ex' where ex': "getExecution (generated 0) (xs_executions st') = Some ex'" "ex_scenarioRunIds ex' = run_ids generated selected"
      "(r = Inr True \<and> ex_status ex' = W_pending) \<or> (r = Inr False \<and> ex_status ex' = W_failed)" by blast
  have sub: "set selected \<subseteq> set (ri_scenarios I) \<and> (\<forall>ids. scenarioIds = Some ids \<longrightarrow> map sn_id selected = ids)"
    by (rule selected_scenarios [OF sel]) (auto simp: assms(4) getScenariosByWorkflow_def)
  obtain w graph where g: "selected \<noteq> []" "validateWorkflowGraph (ri_nodes I) (ri_edges I) = Inr w" "vr_valid w"
      "\<forall>n \<in> set (ri_nodes I). \<not> missing_credentials secrets n"
      "translateWorkflowGraphToServiceGraph (xh_locale X) (ri_nodes I) (ri_edges I) (Some secrets) = Inr graph"
      "\<forall>s \<in> set selected. vr_valid (validateScenario graph (sn_name s) (sn_tests s) (sn_testOrder s))"
    using validateSelection_valid [OF v vv] by blast
  note parts = sub [THEN conjunct1] sub [THEN conjunct2] sent [THEN conjunct1] sent [THEN conjunct2, THEN conjunct1]
    sent [THEN conjunct2, THEN conjunct2, THEN conjunct2, THEN conjunct1] g sec ex'
  show ?thesis
    by (rule exI [of _ selected], rule exI [of _ secrets], rule exI [of _ graph], rule exI [of _ w], rule exI [of _ ex'])
      (intro conjI parts)
qed

text \<open>
  The builder offers a run exactly when it shows no reason against it.
\<close>

theorem run_offered_iff_no_reason:
  "canLaunchWorkflow canRun isExecuting errors queueSize I \<longleftrightarrow> runDisabledReason canRun isExecuting errors queueSize I = None"
  by (auto simp: canLaunchWorkflow_def runDisabledReason_def canExecute_def)

definition sample_run_scenario :: scenario where
  "sample_run_scenario = sample_scenario\<lparr>sn_tests := [http_test ''1'' ''first''], sn_testOrder := [''1'']\<rparr>"

definition sample_run_input :: run_input where
  "sample_run_input = \<lparr>ri_workflowId = ''w1'', ri_workflowName = ''flow'', ri_nodes = demo_nodes, ri_edges = demo_edges,
     ri_secrets = None, ri_scenarios = [sample_run_scenario]\<rparr>"

definition sample_run_host :: "unit run_host" where
  "sample_run_host = \<lparr>xh_locale = (\<lambda>_ _. 0), xh_quotes = ([], []), xh_graph = sample_json, xh_toIso = (\<lambda>_. []),
     xh_sync = sample_host, xh_send = (\<lambda>_ _ w. (Inl TypeError, w)), xh_runner = (\<lambda>_ _. Inr \<lparr>rr_status = 202, rr_json = None\<rparr>),
     xh_enc = (\<lambda>s. s)\<rparr>"

definition sample_run_state :: "unit run_state" where
  "sample_run_state = \<lparr>xs_service = new_SyncService sample_host [] None, xs_net = (), xs_executions = synced_init execution_store_init,
     xs_scenarioRuns = synced_init \<lparr>rn_scenarioRuns = [], rn_currentEntityId = None\<rparr>, xs_sent = [], xs_pushed = None, xs_errors = []\<rparr>"

definition sample_ids :: "nat \<Rightarrow> string" where
  "sample_ids n = replicate (Suc n) CHR ''x''"

lemma sample_selection_valid:
  "(case validateSelection (\<lambda>_ _. 0) ([], []) demo_nodes demo_edges [] [sample_run_scenario] of Inr v \<Rightarrow> vr_valid v | _ \<Rightarrow> False)"
  by code_simp

lemma sample_secrets: "normalizedSecrets demo_nodes None = Inr []"
  by code_simp

lemma sample_service_idle:
  "flushPendingBeforeRun H network n (new_SyncService sample_host [] None, w) = (new_SyncService sample_host [] None, w)"
  "\<not> hasBlockingPreRunChanges i (new_SyncService sample_host [] None)"
proof -
  have i: "ss_items (new_SyncService sample_host [] None) = []" by code_simp
  show "flushPendingBeforeRun H network n (new_SyncService sample_host [] None, w) = (new_SyncService sample_host [] None, w)"
    "\<not> hasBlockingPreRunChanges i (new_SyncService sample_host [] None)"
    by (cases n) (simp_all add: hasPendingPreRunChanges_def hasBlockingPreRunChanges_def i)
qed

lemma start_run_sends:
  assumes "flushPendingBeforeRun (xh_sync X) (xh_send X) 10 (xs_service st, xs_net st) = (service, net)"
    and "\<not> hasBlockingPreRunChanges (ri_workflowId I) service"
    and "start_runs (xh_toIso X) E now run (ri_workflowId I) (zip selected ids) (xs_scenarioRuns st) = (Inr x, runs)"
    and "startExecution (xh_toIso X) E now (first_project selected) (ri_workflowId I) run ids (xs_executions st) = (Inr y, executions)"
  shows "xs_sent (snd (start_run X E now run ids I secrets selected st)) \<noteq> xs_sent st"
proof -
  define body where "body = submission (xh_graph X) run (ri_workflowId I) (ri_workflowName I) (ri_nodes I) (ri_edges I) secrets selected ids"
  obtain z sent where sub: "submitWorkflowRun (xh_runner X) body (xs_sent st) = (z, sent)" by force
  have "sent \<noteq> xs_sent st" using submitWorkflowRun_sends [of "xh_runner X" body "xs_sent st"] sub by auto
  then show ?thesis using sub by (simp add: start_run_def assms body_def [symmetric] split: sum.split)
qed

theorem requested_run_is_valid_and_recorded_witness:
  "\<exists>r st' ex. execute sample_run_host sample_env 5 sample_ids sample_run_input (Some [''s1'']) sample_run_state = (r, st') \<and>
     getExecution (sample_ids 0) (xs_executions st') = Some ex \<and> length (xs_sent st') = 1"
proof -
  obtain v where v: "validateSelection (\<lambda>_ _. 0) ([], []) demo_nodes demo_edges [] [sample_run_scenario] = Inr v" "vr_valid v"
    using sample_selection_valid by (auto split: sum.splits)
  have sel: "selectScenariosForRun [sample_run_scenario] ''w1'' (Some [''s1'']) = Inr [sample_run_scenario]"
    by (simp add: selectScenariosForRun_def sample_run_scenario_def sample_scenario_def sample_workflow_def)
  obtain r st' where x: "execute sample_run_host sample_env 5 sample_ids sample_run_input (Some [''s1'']) sample_run_state = (r, st')" by force
  obtain m where m: "addSyncMetadata sample_env None None None = Inr m"
    using sample_store_facts(4) by (simp add: addSyncMetadata_def)
  obtain r1 st1 where run: "start_run sample_run_host sample_env 5 (sample_ids 0) (run_ids sample_ids [sample_run_scenario]) sample_run_input []
      [sample_run_scenario] sample_run_state = (r1, st1)" by force
  have idle: "flushPendingBeforeRun (xh_sync sample_run_host) (xh_send sample_run_host) 10 (xs_service sample_run_state, xs_net sample_run_state) =
      (xs_service sample_run_state, ())" "\<not> hasBlockingPreRunChanges i (xs_service sample_run_state)" for i
    by (simp_all add: sample_run_state_def sample_service_idle)
  have "\<exists>x runs. start_runs t sample_env 5 a w (zip [sample_run_scenario] (run_ids sample_ids [sample_run_scenario])) st = (Inr x, runs)" for t a w st
    by (simp add: run_ids_def startScenarioRun_def m)
  moreover have "\<exists>y e. startExecution t sample_env 5 p w a ids st = (Inr y, e)" for t p w a ids st
    by (simp add: startExecution_def m)
  ultimately have "xs_sent st1 \<noteq> xs_sent sample_run_state"
    using start_run_sends [OF idle] run by (metis snd_conv)
  moreover have "xs_sent st' = xs_sent st1"
    using x v sel run by (auto simp: execute_def sample_run_input_def sample_run_host_def sample_secrets note_error_def split: sum.splits prod.splits)
  ultimately have s: "xs_sent st' \<noteq> xs_sent sample_run_state" by simp
  have i: "inj sample_ids"
  proof (rule injI)
    fix a b assume "sample_ids a = sample_ids b"
    then have "length (sample_ids a) = length (sample_ids b)" by simp
    then show "a = b" by (simp add: sample_ids_def)
  qed
  have g: "ri_scenarios sample_run_input = getScenariosByWorkflow (xh_locale sample_run_host) (ri_workflowId sample_run_input)
      (synced_init (scenario_store_init\<lparr>sn_scenarios := [(''s1'', sample_run_scenario)]\<rparr>))"
    by (simp add: getScenariosByWorkflow_def synced_init_def sample_run_input_def sample_run_scenario_def sample_scenario_def sample_workflow_def)
  from requested_run_is_valid_and_recorded [OF x s i g] obtain ex rq
    where "getExecution (sample_ids 0) (xs_executions st') = Some ex" "xs_sent st' = xs_sent sample_run_state @ [rq]" by blast
  then show ?thesis using x by (intro exI [of _ r] exI [of _ st'] exI [of _ ex]) (simp add: sample_run_state_def)
qed

end
