(* ===== verification/Defaults.thy ===== *)
theory Defaults
  imports Workflow_Bundle Translation_Props Workflow_Store
begin

text \<open>
  Presets: \<^verbatim>\<open>src/ui-v2/src/modules/workflow/lib/workflow-defaults.ts\<close> (new services and tests),
  \<^verbatim>\<open>scenario-recipes.ts\<close> (groups of tests for a service) and \<^verbatim>\<open>workflow-templates.ts\<close> (whole workflows). Generated
  ids are a sequence \<open>ids\<close>, used in order. The theory shows that presets carry the configuration of
  their type, target services of the graph and pass the validation a run goes through.
\<close>

section \<open>Services\<close>

fun labels :: "service_type \<Rightarrow> string" where
  "labels Generic = ''Application''"
| "labels Postgres = ''PostgreSQL''"
| "labels MySQL = ''MySQL''"
| "labels MariaDB = ''MariaDB''"
| "labels Redis = ''Redis''"
| "labels Memcached = ''Memcached''"
| "labels Kafka = ''Kafka''"
| "labels RabbitMQ = ''RabbitMQ''"
| "labels MongoDB = ''MongoDB''"
| "labels Nginx = ''Nginx''"
| "labels MockServer = ''MockServer''"

fun images :: "service_type \<Rightarrow> string" where
  "images Generic = []"
| "images Postgres = ''postgres:16-alpine''"
| "images MySQL = ''mysql:8.4''"
| "images MariaDB = ''mariadb:11''"
| "images Redis = ''redis:7-alpine''"
| "images Memcached = ''memcached:1.6-alpine''"
| "images Kafka = ''confluentinc/confluent-local:7.5.0''"
| "images RabbitMQ = ''rabbitmq:3.13-management-alpine''"
| "images MongoDB = ''mongo:7''"
| "images Nginx = ''nginx:1.30.4-alpine''"
| "images MockServer = ''mockserver/mockserver:5.15.0''"

fun ports :: "service_type \<Rightarrow> string list" where
  "ports Generic = [''8080'']"
| "ports Postgres = [''5432'']"
| "ports MySQL = [''3306'']"
| "ports MariaDB = [''3306'']"
| "ports Redis = [''6379'']"
| "ports Memcached = [''11211'']"
| "ports Kafka = [''9092'']"
| "ports RabbitMQ = [''5672'']"
| "ports MongoDB = [''27017'']"
| "ports Nginx = [''80'', ''443'']"
| "ports MockServer = [''1080'']"

fun environmentPresets :: "service_type \<Rightarrow> (string \<times> string) list" where
  "environmentPresets Postgres = [(''POSTGRES_DB'', ''testdb''), (''POSTGRES_USER'', ''postgres''), (''POSTGRES_PASSWORD'', ''postgres'')]"
| "environmentPresets MySQL = [(''MYSQL_ROOT_PASSWORD'', ''root''), (''MYSQL_DATABASE'', ''testdb''), (''MYSQL_USER'', ''root''), (''MYSQL_PASSWORD'', ''root'')]"
| "environmentPresets MariaDB = [(''MARIADB_DATABASE'', ''testdb''), (''MARIADB_USER'', ''root''), (''MARIADB_PASSWORD'', ''root''), (''MARIADB_ROOT_PASSWORD'', ''root'')]"
| "environmentPresets Kafka = [(''CLUSTER_ID'', ''test-cluster'')]"
| "environmentPresets RabbitMQ = [(''RABBITMQ_DEFAULT_USER'', ''guest''), (''RABBITMQ_DEFAULT_PASS'', ''guest'')]"
| "environmentPresets MongoDB = [(''MONGO_INITDB_DATABASE'', ''testdb''), (''MONGO_INITDB_ROOT_USERNAME'', ''admin''), (''MONGO_INITDB_ROOT_PASSWORD'', ''admin'')]"
| "environmentPresets _ = []"

definition serviceTypeDefaults :: "(nat \<Rightarrow> string) \<Rightarrow> service_type \<Rightarrow> node_data" where
  "serviceTypeDefaults ids type =
     (let env = environmentPresets type; servicePorts = ports type
      in \<lparr>nd_label = labels type, nd_description = None,
          nd_service = Some \<lparr>svc_type = type, svc_image = Some (images type), svc_command = Some [],
            svc_ports = Some (map (\<lambda>(n, p). \<lparr>pm_id = ids n, pm_hostPort = p, pm_containerPort = p\<rparr>) (enumerate (length env) servicePorts)),
            svc_env = Some (map (\<lambda>(n, k, v). \<lparr>ev_id = ids n, ev_key = k, ev_value = v\<rparr>) (enumerate 0 env)),
            svc_wait = Some \<lparr>ws_enabled = True, ws_type = WaitPort, ws_target = Some (hd servicePorts), ws_timeout = Some 30\<rparr>,
            svc_initScripts = Some [], svc_mockServer = (if type = MockServer then Some [] else None), svc_registry = None\<rparr>,
          nd_tests = None\<rparr>)"

definition createDefaultServiceNode :: "(nat \<Rightarrow> string) \<Rightarrow> string \<Rightarrow> int \<times> int \<Rightarrow> service_type \<Rightarrow> flow_node" where
  "createDefaultServiceNode ids i position type =
     \<lparr>fn_id = i, fn_position = position, fn_attrs = [(''type'', JStr ''serviceNode'')], fn_data = serviceTypeDefaults ids type\<rparr>"

section \<open>Tests\<close>

text \<open>\<^verbatim>\<open>nodes.find\<close> reads the services up to the first match.\<close>

fun firstService :: "flow_node list \<Rightarrow> service_type list \<Rightarrow> (flow_node \<times> node_service) option res" where
  "firstService [] types = Inr None"
| "firstService (n # ns) types =
     (case nd_service (fn_data n) of
        None \<Rightarrow> Inl TypeError
      | Some s \<Rightarrow> if svc_type s \<in> set types then Inr (Some (n, s)) else firstService ns types)"

definition environmentValue :: "(flow_node \<times> node_service) option \<Rightarrow> string list \<Rightarrow> string \<Rightarrow> string" where
  "environmentValue node keys fallback =
     nullish (map_option ev_value (List.find (\<lambda>e. ev_key e \<in> set keys) (nullish (Option.bind node (\<lambda>(_, s). svc_env s)) []))) fallback"

definition service_names :: "service_type \<Rightarrow> string" where
  "service_names t =
     (case t of Postgres \<Rightarrow> ''postgres'' | MySQL \<Rightarrow> ''mysql'' | Generic \<Rightarrow> ''generic'' | MariaDB \<Rightarrow> ''mariadb'' | Redis \<Rightarrow> ''redis''
      | Memcached \<Rightarrow> ''memcached'' | Kafka \<Rightarrow> ''kafka'' | RabbitMQ \<Rightarrow> ''rabbitmq'' | MongoDB \<Rightarrow> ''mongodb'' | Nginx \<Rightarrow> ''nginx''
      | MockServer \<Rightarrow> ''mockserver'')"

definition targetName :: "string \<Rightarrow> (flow_node \<times> node_service) option \<Rightarrow> string" where
  "targetName fallback node = (case node of Some (n, _) \<Rightarrow> sanitizeName (nd_label (fn_data n)) | None \<Rightarrow> fallback)"

definition one_target :: "string \<Rightarrow> string list option" where
  "one_target name = Some (if name = [] then [] else [name])"

definition bare_test :: "string \<Rightarrow> string \<Rightarrow> test_type \<Rightarrow> string list option \<Rightarrow> scenario_test" where
  "bare_test i name type targets =
     \<lparr>st_id = i, st_name = name, st_type = type, st_targetServices = targets, st_dependsOnTestIds = None, st_retryPolicy = None,
      st_databaseConfig = None, st_documentConfig = None, st_httpConfig = None, st_shellConfig = None, st_cacheConfig = None,
      st_queueConfig = None, st_delayMs = None\<rparr>"

definition first_port :: "node_service option \<Rightarrow> string \<Rightarrow> string" where
  "first_port s fallback =
     (case nullish (Option.bind s svc_ports) [] of [] \<Rightarrow> fallback | p # _ \<Rightarrow> or_str (Some (pm_containerPort p)) fallback)"

definition http_get :: "string \<Rightarrow> string \<Rightarrow> http_config" where
  "http_get path port =
     \<lparr>http_method = ''GET'', http_path = path, http_port = port, http_headers = None, http_body = None, http_expectedStatus = Some 200,
      http_expectedBody = None\<rparr>"

definition rows_exist :: json where
  "rows_exist = JObj [(''mode'', JStr ''rows''), (''value'', JBool True)]"

definition default_http :: "string \<Rightarrow> string \<Rightarrow> (flow_node \<times> node_service) option \<Rightarrow> scenario_test" where
  "default_http i fallback node =
     (let type = map_option (\<lambda>(_, s). svc_type s) node
      in (bare_test i (if type = Some Nginx then ''Check Nginx response''
             else if type = Some MockServer then ''Check mocked response'' else ''Check application health'')
            THttp (one_target (targetName fallback node)))
         \<lparr>st_httpConfig := Some (http_get (if type = Some Nginx then ''/'' else ''/health'') (first_port (map_option snd node) ''8080''))\<rparr>)"

definition default_database :: "string \<Rightarrow> string \<Rightarrow> (flow_node \<times> node_service) option \<Rightarrow> scenario_test" where
  "default_database i fallback node =
     (let driver = service_names (nullish (map_option (\<lambda>(_, s). svc_type s) node) Postgres);
          account = (if driver = ''postgres'' then ''postgres'' else ''root'')
      in (bare_test i ''Check database connection'' TDatabase (one_target (targetName fallback node)))
         \<lparr>st_databaseConfig := Some \<lparr>dbc_driver = driver,
            dbc_database = environmentValue node [''POSTGRES_DB'', ''MYSQL_DATABASE'', ''MARIADB_DATABASE''] ''testdb'',
            dbc_user = environmentValue node [''POSTGRES_USER'', ''MYSQL_USER'', ''MARIADB_USER''] account,
            dbc_password = environmentValue node [''POSTGRES_PASSWORD'', ''MYSQL_PASSWORD'', ''MARIADB_PASSWORD''] account,
            dbc_query = ''SELECT 1 AS tokyo_ready'', dbc_expectedResult = Some rows_exist\<rparr>\<rparr>)"

definition default_document :: "string \<Rightarrow> string \<Rightarrow> (flow_node \<times> node_service) option \<Rightarrow> scenario_test" where
  "default_document i fallback node =
     (bare_test i ''Check document store'' TDocument (one_target (targetName fallback node)))
       \<lparr>st_documentConfig := Some \<lparr>doc_service = targetName fallback node,
          doc_database = environmentValue node [''MONGO_INITDB_DATABASE''] ''testdb'', doc_collection = ''health_checks'',
          doc_operation = ''exists'', doc_document = None, doc_filter = Some (JObj []), doc_update = None, doc_expectedDocument = None,
          doc_expectedDocuments = None, doc_expectedCount = None, doc_expectedExists = Some True\<rparr>\<rparr>"

definition default_cache :: "string \<Rightarrow> string \<Rightarrow> (flow_node \<times> node_service) option \<Rightarrow> scenario_test" where
  "default_cache i fallback node =
     (bare_test i ''Check cache connection'' TCache (one_target (targetName fallback node)))
       \<lparr>st_cacheConfig := Some \<lparr>cc_service = targetName fallback node,
          cc_cacheType = (if map_option (\<lambda>(_, s). svc_type s) node = Some Memcached then ''memcached'' else ''redis''),
          cc_operation = ''ping'', cc_key = None, cc_value = None, cc_expectedValue = None, cc_expectedExists = None, cc_ttl = None,
          cc_db = Some 0, cc_password = None\<rparr>\<rparr>"

definition default_queue :: "string \<Rightarrow> string \<Rightarrow> (flow_node \<times> node_service) option \<Rightarrow> scenario_test" where
  "default_queue i fallback node =
     (bare_test i ''Check message broker connection'' TQueue (one_target (targetName fallback node)))
       \<lparr>st_queueConfig := Some \<lparr>qc_service = targetName fallback node,
          qc_brokerType = (if map_option (\<lambda>(_, s). svc_type s) node = Some RabbitMQ then ''rabbitmq'' else ''kafka''),
          qc_operation = ''list_topics'', qc_topic = None, qc_message = None, qc_key = None, qc_partition = None, qc_timeout = Some 10,
          qc_fromBeginning = None, qc_expectedCount = None, qc_expectedMessage = None, qc_expectedExists = None\<rparr>\<rparr>"

definition default_shell :: "string \<Rightarrow> string \<Rightarrow> (flow_node \<times> node_service) option \<Rightarrow> scenario_test" where
  "default_shell i fallback node =
     (bare_test i ''Run an application command'' TShell (one_target (targetName fallback node)))
       \<lparr>st_shellConfig := Some \<lparr>sh_command = [], sh_env = Some [], sh_expectedOutput = None, sh_expectedExitCode = Some 0\<rparr>\<rparr>"

definition default_delay :: "string \<Rightarrow> scenario_test" where
  "default_delay i = (bare_test i ''Wait for the next step'' TDelay (Some []))\<lparr>st_delayMs := Some 1000\<rparr>"

definition createDefaultTest :: "test_type \<Rightarrow> flow_node list \<Rightarrow> string list \<Rightarrow> string \<Rightarrow> scenario_test res" where
  "createDefaultTest type nodes fallbackServices i =
     (let fallback = (case fallbackServices of [] \<Rightarrow> [] | s # _ \<Rightarrow> s);
          from = (\<lambda>types make. bind_res (firstService nodes types) (\<lambda>node. Inr (make i fallback node)))
      in case type of
           THttp \<Rightarrow> from [Generic, Nginx, MockServer] default_http
         | TDatabase \<Rightarrow> from [Postgres, MySQL, MariaDB] default_database
         | TDocument \<Rightarrow> from [MongoDB] default_document
         | TCache \<Rightarrow> from [Redis, Memcached] default_cache
         | TQueue \<Rightarrow> from [Kafka, RabbitMQ] default_queue
         | TShell \<Rightarrow> from [Generic] default_shell
         | TDelay \<Rightarrow> Inr (default_delay i))"

section \<open>Recipes\<close>

datatype scenario_recipe_kind = Http_Smoke | Redis_Round_Trip | Database_Check | Queue_Round_Trip

record scenario_recipe =
  rc_kind :: scenario_recipe_kind
  rc_label :: string
  rc_description :: string
  rc_serviceTypes :: "service_type list"

definition SCENARIO_RECIPES :: "scenario_recipe list" where
  "SCENARIO_RECIPES =
     [\<lparr>rc_kind = Http_Smoke, rc_label = ''API smoke check'',
        rc_description = ''Call an application endpoint and expect a successful response.'', rc_serviceTypes = [Generic, Nginx, MockServer]\<rparr>,
      \<lparr>rc_kind = Redis_Round_Trip, rc_label = ''Redis round trip'', rc_description = ''Store a run-scoped value and read it back.'',
        rc_serviceTypes = [Redis]\<rparr>,
      \<lparr>rc_kind = Database_Check, rc_label = ''Database connection'', rc_description = ''Run a safe query that verifies database access.'',
        rc_serviceTypes = [Postgres, MySQL, MariaDB]\<rparr>,
      \<lparr>rc_kind = Queue_Round_Trip, rc_label = ''Message round trip'', rc_description = ''Publish a run-scoped message and consume it.'',
        rc_serviceTypes = [Kafka, RabbitMQ]\<rparr>]"

definition recipeAvailability :: "scenario_recipe \<Rightarrow> flow_node list \<Rightarrow> (bool \<times> string option) res" where
  "recipeAvailability recipe nodes =
     bind_res (firstService nodes (rc_serviceTypes recipe)) (\<lambda>node.
       Inr (if node \<noteq> None then (True, None)
            else (False, Some (''Add a '' @ join_with '' or '' (map service_names (rc_serviceTypes recipe)) @ '' service first.''))))"

definition run_scoped :: "string \<Rightarrow> string \<Rightarrow> string" where
  "run_scoped before after = before @ ''${tokyo.run_suffix}'' @ after"

text \<open>The path of a mock server's first expectation; an expectation without a request throws.\<close>

definition expectation_path :: "node_service \<Rightarrow> string option res" where
  "expectation_path s =
     (case nullish (svc_mockServer s) [] of
        [] \<Rightarrow> Inr None
      | e # _ \<Rightarrow> (case exp_request e of None \<Rightarrow> Inl TypeError | Some r \<Rightarrow> Inr (req_path r)))"

definition redis_step :: "string \<Rightarrow> string \<Rightarrow> string \<Rightarrow> string \<Rightarrow> json option \<Rightarrow> json option \<Rightarrow> int option \<Rightarrow> scenario_test" where
  "redis_step i name service operation v expected ttl =
     (bare_test i name TCache (Some [service]))
       \<lparr>st_cacheConfig := Some \<lparr>cc_service = service, cc_cacheType = ''redis'', cc_operation = operation,
          cc_key = Some (run_scoped ''tokyo:'' '':sample''), cc_value = v, cc_expectedValue = expected, cc_expectedExists = None,
          cc_ttl = ttl, cc_db = Some 0, cc_password = None\<rparr>\<rparr>"

definition recipe_tests :: "(nat \<Rightarrow> string) \<Rightarrow> scenario_recipe_kind \<Rightarrow> flow_node \<Rightarrow> node_service \<Rightarrow> scenario_test list res" where
  "recipe_tests ids kind node s =
     (let label = nd_label (fn_data node); service = sanitizeName label; hello = JStr ''hello from Tokyo Tester''
      in case kind of
           Http_Smoke \<Rightarrow>
             bind_res (expectation_path s) (\<lambda>path.
               Inr [(bare_test (ids 0) (''Check '' @ label) THttp (Some [service]))
                 \<lparr>st_httpConfig := Some (http_get (nullish path ''/'') (first_port (Some s) ''80''))\<rparr>])
         | Redis_Round_Trip \<Rightarrow>
             Inr [redis_step (ids 0) ''Store a run-scoped Redis value'' service ''set'' (Some hello) None (Some 300),
                  redis_step (ids 1) ''Read the Redis value'' service ''get'' None (Some hello) None]
         | Database_Check \<Rightarrow>
             Inr [(bare_test (ids 0) (''Check '' @ label @ '' connection'') TDatabase (Some [service]))
               \<lparr>st_databaseConfig := Some \<lparr>dbc_driver = service_names (svc_type s), dbc_database = [], dbc_user = [], dbc_password = [],
                  dbc_query = ''SELECT 1 AS tokyo_ready'', dbc_expectedResult = Some rows_exist\<rparr>\<rparr>]
         | Queue_Round_Trip \<Rightarrow>
             Inr [(bare_test (ids 0) ''Publish and consume a run-scoped message'' TQueue (Some [service]))
               \<lparr>st_queueConfig := Some \<lparr>qc_service = service, qc_brokerType = (if svc_type s = RabbitMQ then ''rabbitmq'' else ''kafka''),
                  qc_operation = ''produce_and_consume'', qc_topic = Some (run_scoped ''tokyo-'' ''-sample''), qc_message = Some hello,
                  qc_key = None, qc_partition = None, qc_timeout = Some 10, qc_fromBeginning = None, qc_expectedCount = Some 1,
                  qc_expectedMessage = Some hello, qc_expectedExists = None\<rparr>\<rparr>])"

definition createScenarioRecipe :: "(nat \<Rightarrow> string) \<Rightarrow> scenario_recipe_kind \<Rightarrow> flow_node list \<Rightarrow> scenario_test list res" where
  "createScenarioRecipe ids kind nodes =
     (case List.find (\<lambda>r. rc_kind r = kind) SCENARIO_RECIPES of
        None \<Rightarrow> Inl (Err ''Unknown scenario recipe'')
      | Some recipe \<Rightarrow>
          bind_res (firstService nodes (rc_serviceTypes recipe)) (\<lambda>found.
            case found of
              None \<Rightarrow> bind_res (recipeAvailability recipe nodes) (\<lambda>(_, reason). Inl (Err (nullish reason [])))
            | Some (node, s) \<Rightarrow> recipe_tests ids kind node s))"

section \<open>Templates\<close>

record workflow_template =
  wt_id :: string
  wt_name :: string
  wt_description :: string
  wt_serviceSummary :: string
  wt_bundle :: workflow_bundle

definition template_node :: "string \<Rightarrow> int \<times> int \<Rightarrow> string \<Rightarrow> string \<Rightarrow> node_service \<Rightarrow> flow_node" where
  "template_node i position label description service =
     \<lparr>fn_id = i, fn_position = position, fn_attrs = [(''type'', JStr ''serviceNode'')],
      fn_data = \<lparr>nd_label = label, nd_description = Some description, nd_service = Some service, nd_tests = None\<rparr>\<rparr>"

definition template_service :: "service_type \<Rightarrow> string \<Rightarrow> (string \<times> string) list \<Rightarrow> string \<Rightarrow> int \<Rightarrow> node_service" where
  "template_service type img containerPorts target timeout =
     \<lparr>svc_type = type, svc_image = Some img, svc_command = None,
      svc_ports = Some (map (\<lambda>(i, p). \<lparr>pm_id = i, pm_hostPort = [], pm_containerPort = p\<rparr>) containerPorts), svc_env = None,
      svc_wait = Some \<lparr>ws_enabled = True, ws_type = WaitPort, ws_target = Some target, ws_timeout = Some timeout\<rparr>,
      svc_initScripts = None, svc_mockServer = None, svc_registry = None\<rparr>"

definition template_bundle ::
  "string \<Rightarrow> string \<Rightarrow> flow_node list \<Rightarrow> string \<Rightarrow> string \<Rightarrow> scenario_test list \<Rightarrow> string list \<Rightarrow> workflow_bundle" where
  "template_bundle name description nodes scenarioName scenarioDescription tests order =
     \<lparr>wb_schemaVersion = Some 2, wb_kind = Some ''cots.workflow-bundle'',
      wb_workflow = Some \<lparr>bw_name = Some name, bw_description = Some description, bw_nodes = Some nodes, bw_edges = Some []\<rparr>,
      wb_scenarios = Some [Some \<lparr>bs_name = Some scenarioName, bs_description = Some scenarioDescription, bs_tests = Some tests,
        bs_testOrder = Some order\<rparr>]\<rparr>"

definition middle_dot :: string where
  "middle_dot = [CHR '' '', CHR 0xB7, CHR '' '']"

definition nginx_template :: workflow_template where
  "nginx_template =
     \<lparr>wt_id = ''nginx-smoke'', wt_name = ''Nginx smoke test'',
      wt_description = ''Start a real Nginx container and verify its default page over HTTP.'',
      wt_serviceSummary = ''Nginx'' @ middle_dot @ ''HTTP assertion'',
      wt_bundle = template_bundle ''Nginx Smoke Test'' ''A minimal workflow that demonstrates provisioning and testing a web service.''
        [template_node ''nginx-web'' (120, 100) ''Nginx Web'' ''Serves the default Nginx welcome page.''
           (template_service Nginx ''nginx:1.30.4-alpine'' [(''nginx-http'', ''80''), (''nginx-https'', ''443'')] ''80'' 30)]
        ''Default page is available'' ''Calls Nginx and checks its default response.''
        [(bare_test ''nginx-default-page'' ''Nginx returns its welcome page'' THttp (Some [''nginx_web'']))
           \<lparr>st_httpConfig := Some ((http_get ''/'' ''80'')\<lparr>http_expectedBody := Some \<lparr>heb_mode = ''contains'', heb_value = JStr ''Welcome to nginx!''\<rparr>\<rparr>)\<rparr>]
        [''nginx-default-page'']\<rparr>"

definition mock_template :: workflow_template where
  "mock_template =
     \<lparr>wt_id = ''mock-api-contract'', wt_name = ''Mock API contract'',
      wt_description = ''Define an endpoint on MockServer, then verify its status and JSON response.'',
      wt_serviceSummary = ''MockServer'' @ middle_dot @ ''HTTP contract'',
      wt_bundle = template_bundle ''Mock API Contract'' ''Shows how service-owned MockServer expectations become runnable HTTP assertions.''
        [template_node ''mock-api'' (120, 100) ''Mock API'' ''Returns a deterministic user response for contract tests.''
           ((template_service MockServer ''mockserver/mockserver:5.15.0'' [(''mockserver-http'', ''1080'')] ''1080'' 45)
              \<lparr>svc_mockServer := Some [\<lparr>exp_id = Some ''user-by-id'',
                 exp_request = Some \<lparr>req_method = Some ''GET'', req_path = Some ''/api/users/42'', req_headers = None, req_body = None\<rparr>,
                 exp_response = Some \<lparr>rsp_statusCode = Some 200, rsp_headers = Some [(''Content-Type'', ''application/json'')],
                   rsp_body = Some ''{\"id\":42,\"name\":\"Tokyo\"}''\<rparr>\<rparr>]\<rparr>)]
        ''User contract'' ''Verifies the endpoint configured on the MockServer service.''
        [(bare_test ''mock-user-response'' ''Mock API returns the configured user'' THttp (Some [''mock_api'']))
           \<lparr>st_httpConfig := Some ((http_get ''/api/users/42'' ''1080'')\<lparr>http_expectedBody := Some \<lparr>heb_mode = ''json_partial'',
              heb_value = JObj [(''id'', JNum 42), (''name'', JStr ''Tokyo'')]\<rparr>\<rparr>)\<rparr>]
        [''mock-user-response'']\<rparr>"

definition template_cache :: "string \<Rightarrow> string \<Rightarrow> string \<Rightarrow> json option \<Rightarrow> json option \<Rightarrow> int option \<Rightarrow> string list option \<Rightarrow> scenario_test" where
  "template_cache i name operation v expected ttl dependsOn =
     (bare_test i name TCache (Some [''redis'']))
       \<lparr>st_dependsOnTestIds := dependsOn,
        st_cacheConfig := Some \<lparr>cc_service = ''redis'', cc_cacheType = ''redis'', cc_operation = operation,
          cc_key = Some ''tokyo:template:ready'', cc_value = v, cc_expectedValue = expected, cc_expectedExists = None, cc_ttl = ttl,
          cc_db = Some 0, cc_password = None\<rparr>\<rparr>"

definition state_template :: workflow_template where
  "state_template =
     \<lparr>wt_id = ''postgres-redis-state'', wt_name = ''PostgreSQL + Redis state'',
      wt_description = ''Initialize relational data, exercise a cache, and assert both stores in one scenario.'',
      wt_serviceSummary = ''PostgreSQL'' @ middle_dot @ ''Redis'' @ middle_dot @ ''3 assertions'',
      wt_bundle = template_bundle ''PostgreSQL and Redis State'' ''Demonstrates database initialization and an ordered cache round trip.''
        [template_node ''postgres'' (40, 100) ''Postgres'' ''Stores seeded user records.''
           ((template_service Postgres ''postgres:16-alpine'' [(''postgres-port'', ''5432'')] ''5432'' 45)
              \<lparr>svc_env := Some [\<lparr>ev_id = ''pg-db'', ev_key = ''POSTGRES_DB'', ev_value = ''testdb''\<rparr>,
                 \<lparr>ev_id = ''pg-user'', ev_key = ''POSTGRES_USER'', ev_value = ''postgres''\<rparr>,
                 \<lparr>ev_id = ''pg-password'', ev_key = ''POSTGRES_PASSWORD'', ev_value = ''postgres''\<rparr>],
               svc_initScripts := Some [\<lparr>is_id = ''seed-users'', is_order = 1,
                 is_script = ''CREATE TABLE users (id SERIAL PRIMARY KEY, name TEXT NOT NULL); INSERT INTO users (name) VALUES ('' @
                   [CHR 0x27] @ ''Tokyo'' @ [CHR 0x27] @ ''), ('' @ [CHR 0x27] @ ''Tester'' @ [CHR 0x27] @ '');'',
                 is_description = Some ''Create and seed users''\<rparr>]\<rparr>),
         template_node ''redis'' (360, 100) ''Redis'' ''Stores an ephemeral workflow value.''
           (template_service Redis ''redis:7-alpine'' [(''redis-port'', ''6379'')] ''6379'' 30)]
        ''Persistent and cached state'' ''Checks seeded SQL data and a Redis write/read round trip.''
        [(bare_test ''postgres-users'' ''Postgres contains two users'' TDatabase (Some [''postgres'']))
           \<lparr>st_databaseConfig := Some \<lparr>dbc_driver = ''postgres'', dbc_database = ''testdb'', dbc_user = ''postgres'', dbc_password = ''postgres'',
              dbc_query = ''SELECT COUNT(*) FROM users'', dbc_expectedResult = Some (JObj [(''mode'', JStr ''single''), (''value'', JNum 2)])\<rparr>\<rparr>,
         template_cache ''redis-set'' ''Store a value in Redis'' ''set'' (Some (JStr ''yes'')) None (Some 300) None,
         template_cache ''redis-get'' ''Read the value from Redis'' ''get'' None (Some (JStr ''yes'')) None (Some [''redis-set''])]
        [''postgres-users'', ''redis-set'', ''redis-get'']\<rparr>"

definition WORKFLOW_TEMPLATES :: "workflow_template list" where
  "WORKFLOW_TEMPLATES = [nginx_template, mock_template, state_template]"

definition getWorkflowTemplate :: "string \<Rightarrow> workflow_template option" where
  "getWorkflowTemplate i = List.find (\<lambda>t. wt_id t = i) WORKFLOW_TEMPLATES"

section \<open>Presets are well typed\<close>

text \<open>A test carries the configuration of its type and no other.\<close>

definition config_fits :: "scenario_test \<Rightarrow> bool" where
  "config_fits t \<longleftrightarrow>
     (st_databaseConfig t \<noteq> None \<longleftrightarrow> st_type t = TDatabase) \<and> (st_documentConfig t \<noteq> None \<longleftrightarrow> st_type t = TDocument) \<and>
     (st_httpConfig t \<noteq> None \<longleftrightarrow> st_type t = THttp) \<and> (st_shellConfig t \<noteq> None \<longleftrightarrow> st_type t = TShell) \<and>
     (st_cacheConfig t \<noteq> None \<longleftrightarrow> st_type t = TCache) \<and> (st_queueConfig t \<noteq> None \<longleftrightarrow> st_type t = TQueue) \<and>
     (st_delayMs t \<noteq> None \<longleftrightarrow> st_type t = TDelay)"

text \<open>
  Every template passes the validation of an imported bundle (services compared by code units), and
  its tests carry the configuration of their type.
\<close>

theorem templates_pass_validation:
  "list_all (\<lambda>t. validateWorkflowBundle (\<lambda>a b. if str_less a b then -1 else if a = b then 0 else 1) (Some (wt_bundle t)) = Inr () \<and>
     list_all (\<lambda>s. list_all config_fits (nullish (bs_tests (the s)) [])) (nullish (wb_scenarios (wt_bundle t)) [])) WORKFLOW_TEMPLATES"
  by code_simp

lemma trim_starts: "\<not> is_space c \<Longrightarrow> trim (c # s) \<noteq> []"
  by (auto simp: trim_def dropWhile_eq_Nil_conv)

lemma letters_not_space [simp]:
  "\<not> is_space CHR ''C''" "\<not> is_space CHR ''R''" "\<not> is_space CHR ''W''" "\<not> is_space CHR ''S''" "\<not> is_space CHR ''P''"
  by (simp_all add: is_space_def)

lemma firstService_found:
  "firstService nodes types = Inr (Some (n, s)) \<Longrightarrow> n \<in> set nodes \<and> nd_service (fn_data n) = Some s \<and> svc_type s \<in> set types"
  by (induction nodes) (auto split: option.splits if_splits)

lemmas default_tests = default_http_def default_database_def default_document_def default_cache_def default_queue_def
  default_shell_def default_delay_def

text \<open>
  A default test has the asked type and id, a name, the configuration of its type and no other, and targets at most one
  service: the label of a node of the graph as a service name, or the first fallback.
\<close>

theorem default_test_fits_type:
  assumes "createDefaultTest type nodes fallbackServices i = Inr t"
  shows "st_type t = type \<and> st_id t = i \<and> config_fits t \<and> trim (st_name t) \<noteq> [] \<and>
    (\<exists>targets. st_targetServices t = Some targets \<and> length targets \<le> 1 \<and>
       set targets \<subseteq> (\<lambda>n. sanitizeName (nd_label (fn_data n))) ` set nodes \<union> set (take 1 fallbackServices))"
proof (cases "type = TDelay")
  case True
  then show ?thesis using assms
    by (auto simp: createDefaultTest_def default_delay_def bare_test_def config_fits_def trim_starts)
next
  case False
  define fallback where "fallback = (case fallbackServices of [] \<Rightarrow> [] | s # _ \<Rightarrow> s)"
  obtain types make node where m: "firstService nodes types = Inr node" "t = make i fallback node"
    "(type, make) \<in> {(THttp, default_http), (TDatabase, default_database), (TDocument, default_document), (TCache, default_cache),
       (TQueue, default_queue), (TShell, default_shell)}"
    using assms False by (cases type) (auto simp: createDefaultTest_def fallback_def [symmetric])
  have tg: "st_targetServices t = one_target (targetName fallback node)"
    using m(2,3) by (auto simp: default_tests bare_test_def Let_def)
  have "set (nullish (one_target (targetName fallback node)) []) \<subseteq>
      (\<lambda>n. sanitizeName (nd_label (fn_data n))) ` set nodes \<union> set (take 1 fallbackServices)"
    using firstService_found m(1)
    by (auto simp: one_target_def targetName_def fallback_def nullish_def split: option.splits list.splits if_splits)
  then have "\<exists>targets. st_targetServices t = Some targets \<and> length targets \<le> 1 \<and>
       set targets \<subseteq> (\<lambda>n. sanitizeName (nd_label (fn_data n))) ` set nodes \<union> set (take 1 fallbackServices)"
    unfolding tg one_target_def by (simp add: nullish_def)
  moreover have "st_type t = type \<and> st_id t = i \<and> config_fits t \<and> trim (st_name t) \<noteq> []"
    using m(2,3) by (auto simp: default_tests bare_test_def config_fits_def trim_starts split: if_splits)
  ultimately show ?thesis by simp
qed

theorem default_test_fits_type_witness:
  "\<exists>t. createDefaultTest THttp [sample_node ''a'' Generic] [] ''i'' = Inr t \<and> st_type t = THttp \<and> config_fits t"
proof -
  have "\<exists>t. createDefaultTest THttp [sample_node ''a'' Generic] [] ''i'' = Inr t" by (simp add: createDefaultTest_def)
  with default_test_fits_type show ?thesis by blast
qed

text \<open>A default delay targets no service, which the validation of scenarios refuses.\<close>

lemma default_delay_refused: "\<not> vr_valid (validateScenario graph name (ts @ [default_delay i]) order)"
  by (simp add: validateScenario_def default_delay_def bare_test_def test_errors_def)

lemma recipe_tests_shape:
  assumes "recipe_tests ids kind node s = Inr ts" "t \<in> set ts"
  shows "config_fits t \<and> trim (st_name t) \<noteq> [] \<and> st_targetServices t = Some [sanitizeName (nd_label (fn_data node))] \<and>
    st_dependsOnTestIds t = None"
  using assms
  by (cases kind) (auto simp: recipe_tests_def redis_step_def bare_test_def config_fits_def trim_starts)

lemma recipe_tests_ids: "recipe_tests ids kind node s = Inr ts \<Longrightarrow> ids 0 \<noteq> ids 1 \<Longrightarrow> distinct (map st_id ts) \<and> ts \<noteq> []"
  by (cases kind) (auto simp: recipe_tests_def redis_step_def bare_test_def)

text \<open>
  A recipe that is offered for a graph can be run on it: its tests pass the validation of a named scenario against
  the services of the graph without a warning, carry the configuration of their type, and all target one
  service of a type the recipe is for.
\<close>

theorem recipe_is_runnable:
  assumes "createScenarioRecipe ids kind nodes = Inr ts" "ids 0 \<noteq> ids 1" "trim name \<noteq> []"
    and "translateWorkflowGraphToServiceGraph lc nodes edges secrets = Inr graph"
  shows "vr_valid (validateScenario graph name ts (map st_id ts)) \<and> vr_warnings (validateScenario graph name ts (map st_id ts)) = [] \<and>
    list_all config_fits ts \<and>
    (\<exists>n s recipe. n \<in> set nodes \<and> nd_service (fn_data n) = Some s \<and> recipe \<in> set SCENARIO_RECIPES \<and> rc_kind recipe = kind \<and>
       svc_type s \<in> set (rc_serviceTypes recipe) \<and> list_all (\<lambda>t. st_targetServices t = Some [sanitizeName (nd_label (fn_data n))]) ts)"
proof -
  obtain recipe where r: "List.find (\<lambda>r. rc_kind r = kind) SCENARIO_RECIPES = Some recipe"
    using assms(1) by (auto simp: createScenarioRecipe_def split: option.splits)
  obtain n s where f: "firstService nodes (rc_serviceTypes recipe) = Inr (Some (n, s))" and t: "recipe_tests ids kind n s = Inr ts"
    using assms(1) r by (auto simp: createScenarioRecipe_def split: option.splits)
  note fs = firstService_found [OF f]
  have rk: "recipe \<in> set SCENARIO_RECIPES \<and> rc_kind recipe = kind" using r by (auto simp: find_Some_iff)
  have "mset (map cf_name (wg_services graph)) = mset (map node_name nodes)"
    using assms(4) translateServices_names by (auto simp: translateWorkflowGraphToServiceGraph_def)
  then have "set (map cf_name (wg_services graph)) = set (map node_name nodes)" by (metis set_mset_mset)
  then have nm: "sanitizeName (nd_label (fn_data n)) \<in> set (map cf_name (wg_services graph))"
    using fs by (force simp: node_name_def)
  have te: "test_errors (map cf_name (wg_services graph)) ts t = []" if "t \<in> set ts" for t
    using recipe_tests_shape [OF t that] nm by (simp add: test_errors_def nullish_def)
  have d: "distinct (map st_id ts)" "ts \<noteq> []" using recipe_tests_ids [OF t assms(2)] by blast+
  have w: "filter (\<lambda>i. list_ex (\<lambda>t. st_id t = i) ts) (map st_id ts) = map st_id ts"
    by (auto simp: list_ex_iff intro!: filter_True)
  have "concat (map (test_errors (map cf_name (wg_services graph)) ts) ts) = []" using te by simp
  then have v: "vr_valid (validateScenario graph name ts (map st_id ts))" "vr_warnings (validateScenario graph name ts (map st_id ts)) = []"
    using d assms(3) w by (simp_all add: validateScenario_def duplicate_errors_none)
  then show ?thesis using fs rk recipe_tests_shape [OF t] by (auto simp: list_all_iff)
qed

theorem recipe_is_runnable_witness:
  "\<exists>graph ts. translateWorkflowGraphToServiceGraph (\<lambda>_ _. 0) [sample_node ''cache'' Redis] [] None = Inr graph \<and>
     createScenarioRecipe (\<lambda>n. replicate n CHR ''i'') Redis_Round_Trip [sample_node ''cache'' Redis] = Inr ts \<and>
     vr_valid (validateScenario graph ''s'' ts (map st_id ts))"
proof -
  have "\<exists>graph. translateWorkflowGraphToServiceGraph (\<lambda>_ _. 0) [sample_node ''cache'' Redis] [] None = Inr graph"
    by (simp add: translateWorkflowGraphToServiceGraph_def translateServices_def translate_service_def)
  then obtain graph where g: "translateWorkflowGraphToServiceGraph (\<lambda>_ _. 0) [sample_node ''cache'' Redis] [] None = Inr graph" by blast
  have "\<exists>ts. createScenarioRecipe (\<lambda>n. replicate n CHR ''i'') Redis_Round_Trip [sample_node ''cache'' Redis] = Inr ts"
    by (simp add: createScenarioRecipe_def SCENARIO_RECIPES_def recipe_tests_def)
  then obtain ts where t: "createScenarioRecipe (\<lambda>n. replicate n CHR ''i'') Redis_Round_Trip [sample_node ''cache'' Redis] = Inr ts" by blast
  have "trim ''s'' \<noteq> []" by (rule trim_starts) (simp add: is_space_def)
  from recipe_is_runnable [OF t _ this g] g t show ?thesis by auto
qed

end
