(* ===== verification/Draft_Fields.thy ===== *)
theory Draft_Fields
  imports Js_Strings
begin

text \<open>
  \<^verbatim>\<open>src/ui-v2/src/modules/workflow/components/DraftFields.tsx\<close>: the input fields of the forms that
  hold a draft, a text the user is typing, beside the value it stands for. A field is a state machine
  of focus changes, typing and values handed down by the parent; the parent is the function
  \<open>adopt\<close> from a value passed to \<open>onValueChange\<close> to the value it then hands down. \<open>Number\<close>,
  the caller's \<open>parse\<close> and the printer of values are arguments.
\<close>

section \<open>Reading a draft\<close>

datatype 'a json_draft_result = Draft_Valid "'a option" | Draft_Invalid

definition resolveJsonDraft :: "string \<Rightarrow> (string \<Rightarrow> 'a option res) \<Rightarrow> 'a json_draft_result" where
  "resolveJsonDraft draft parse =
     (if trim draft = [] then Draft_Valid None
      else case parse draft of
        Inl _ \<Rightarrow> Draft_Invalid
      | Inr None \<Rightarrow> Draft_Invalid
      | Inr (Some v) \<Rightarrow> Draft_Valid (Some v))"

datatype number_draft_result = Number_Valid int | Number_Incomplete

text \<open>\<open>number\<close> is \<open>Number\<close> where its result is finite.\<close>

definition resolveNumberDraft :: "(string \<Rightarrow> int option) \<Rightarrow> string \<Rightarrow> number_draft_result" where
  "resolveNumberDraft number draft =
     (if trim draft = [] \<or> trim draft \<in> set [''-'', ''+'', ''.'', ''-.'', ''+.''] then Number_Incomplete
      else case number draft of Some v \<Rightarrow> Number_Valid v | None \<Rightarrow> Number_Incomplete)"

text \<open>\<open>print\<close> is \<open>JSON.stringify(value, null, 2)\<close> where it does not throw.\<close>

definition formatJson :: "('a \<Rightarrow> string option) \<Rightarrow> 'a option \<Rightarrow> string" where
  "formatJson print v = (case v of None \<Rightarrow> [] | Some x \<Rightarrow> nullish (print x) [])"

section \<open>The fields\<close>

record 'a json_field =
  jf_value :: "'a option"
  jf_draft :: string
  jf_invalid :: bool
  jf_focused :: bool

datatype 'v field_event = Focus_In | Focus_Out | Typed string | Handed_Down 'v

definition mount_json :: "('a \<Rightarrow> string option) \<Rightarrow> 'a option \<Rightarrow> 'a json_field" where
  "mount_json print v = \<lparr>jf_value = v, jf_draft = formatJson print v, jf_invalid = False, jf_focused = False\<rparr>"

text \<open>The parent hands down a value; the effect runs when its text has changed.\<close>

definition render_json :: "('a \<Rightarrow> string option) \<Rightarrow> 'a option \<Rightarrow> 'a json_field \<Rightarrow> 'a json_field" where
  "render_json print v f =
     (let f' = f\<lparr>jf_value := v\<rparr>
      in if formatJson print v \<noteq> formatJson print (jf_value f) \<and> \<not> jf_focused f
         then f'\<lparr>jf_draft := formatJson print v, jf_invalid := False\<rparr> else f')"

fun DraftJsonTextarea ::
  "('a \<Rightarrow> string option) \<Rightarrow> (string \<Rightarrow> 'a option res) \<Rightarrow> ('a option \<Rightarrow> 'a option) \<Rightarrow> 'a option field_event \<Rightarrow>
   'a json_field \<Rightarrow> 'a json_field" where
  "DraftJsonTextarea print parse adopt Focus_In f = f\<lparr>jf_focused := True\<rparr>"
| "DraftJsonTextarea print parse adopt Focus_Out f =
     (case resolveJsonDraft (jf_draft f) parse of
        Draft_Valid v \<Rightarrow> f\<lparr>jf_focused := False, jf_draft := formatJson print v, jf_invalid := False\<rparr>
      | Draft_Invalid \<Rightarrow> f\<lparr>jf_focused := False\<rparr>)"
| "DraftJsonTextarea print parse adopt (Typed s) f =
     (case resolveJsonDraft s parse of
        Draft_Valid v \<Rightarrow> render_json print (adopt v) (f\<lparr>jf_draft := s, jf_invalid := False\<rparr>)
      | Draft_Invalid \<Rightarrow> f\<lparr>jf_draft := s, jf_invalid := True\<rparr>)"
| "DraftJsonTextarea print parse adopt (Handed_Down v) f = render_json print v f"

record number_field =
  nf_value :: int
  nf_draft :: string
  nf_focused :: bool

definition mount_number :: "int \<Rightarrow> number_field" where
  "mount_number v = \<lparr>nf_value = v, nf_draft = show_int v, nf_focused = False\<rparr>"

definition render_number :: "int \<Rightarrow> number_field \<Rightarrow> number_field" where
  "render_number v f =
     (let f' = f\<lparr>nf_value := v\<rparr>
      in if v \<noteq> nf_value f \<and> \<not> nf_focused f then f'\<lparr>nf_draft := show_int v\<rparr> else f')"

fun DraftNumberInput ::
  "(string \<Rightarrow> int option) \<Rightarrow> (int \<Rightarrow> int) \<Rightarrow> int field_event \<Rightarrow> number_field \<Rightarrow> number_field" where
  "DraftNumberInput number adopt Focus_In f = f\<lparr>nf_focused := True\<rparr>"
| "DraftNumberInput number adopt Focus_Out f =
     f\<lparr>nf_focused := False,
       nf_draft := (case resolveNumberDraft number (nf_draft f) of
         Number_Valid v \<Rightarrow> show_int v | Number_Incomplete \<Rightarrow> show_int (nf_value f))\<rparr>"
| "DraftNumberInput number adopt (Typed s) f =
     (case resolveNumberDraft number s of
        Number_Valid v \<Rightarrow> render_number (adopt v) (f\<lparr>nf_draft := s\<rparr>)
      | Number_Incomplete \<Rightarrow> f\<lparr>nf_draft := s\<rparr>)"
| "DraftNumberInput number adopt (Handed_Down v) f = render_number v f"

section \<open>A field shows its value\<close>

text \<open>
  The user types only into a field that has the focus. The parent takes what it is passed, and hands
  down other values only while the field is left.
\<close>

fun happens :: "bool \<Rightarrow> 'v field_event \<Rightarrow> bool" where
  "happens focused (Typed s) = focused"
| "happens focused (Handed_Down v) = (\<not> focused)"
| "happens focused e = True"

fun field_session :: "('v field_event \<Rightarrow> 'f \<Rightarrow> 'f) \<Rightarrow> ('f \<Rightarrow> bool) \<Rightarrow> 'v field_event list \<Rightarrow> 'f \<Rightarrow> 'f" where
  "field_session react focused [] f = f"
| "field_session react focused (e # evs) f =
     field_session react focused evs (if happens (focused f) e then react e f else f)"

locale draft_field =
  fixes react :: "'v field_event \<Rightarrow> 'f \<Rightarrow> 'f" and focused :: "'f \<Rightarrow> bool" and shows_value :: "'f \<Rightarrow> bool"
  assumes react_shows: "happens (focused f) e \<Longrightarrow> shows_value f \<Longrightarrow> shows_value (react e f)"
begin

lemma session_shows: "shows_value f \<Longrightarrow> shows_value (field_session react focused evs f)"
  by (induction evs arbitrary: f) (simp_all add: react_shows)

end

subsection \<open>JSON fields\<close>

text \<open>Every value prints to a text that reads as the value.\<close>

definition reads_back :: "('a \<Rightarrow> string option) \<Rightarrow> (string \<Rightarrow> 'a option res) \<Rightarrow> bool" where
  "reads_back print parse \<longleftrightarrow> (\<forall>v. \<exists>t. print v = Some t \<and> trim t \<noteq> [] \<and> parse t = Inr (Some v))"

lemma resolve_format: "reads_back print parse \<Longrightarrow> resolveJsonDraft (formatJson print v) parse = Draft_Valid v"
proof (cases v)
  case (Some x)
  assume "reads_back print parse"
  then obtain t where "print x = Some t" "trim t \<noteq> []" "parse t = Inr (Some x)" unfolding reads_back_def by blast
  then show ?thesis by (simp add: Some resolveJsonDraft_def formatJson_def nullish_def)
qed (simp add: resolveJsonDraft_def formatJson_def)

lemma format_inj: "resolveJsonDraft t parse = Draft_Valid a \<Longrightarrow> resolveJsonDraft t parse = Draft_Valid b \<Longrightarrow> a = b"
  by simp

definition json_shows :: "('a \<Rightarrow> string option) \<Rightarrow> (string \<Rightarrow> 'a option res) \<Rightarrow> 'a json_field \<Rightarrow> bool" where
  "json_shows print parse f \<longleftrightarrow>
     resolveJsonDraft (jf_draft f) parse = (if jf_invalid f then Draft_Invalid else Draft_Valid (jf_value f)) \<and>
     (jf_focused f \<or> jf_invalid f \<or> jf_draft f = formatJson print (jf_value f))"

interpretation json_fields: draft_field "DraftJsonTextarea print parse (\<lambda>v. v)" jf_focused
  "\<lambda>f. reads_back print parse \<longrightarrow> json_shows print parse f" for print parse
proof
  fix f :: "'a json_field" and e :: "'a option field_event" and print parse
  assume h: "happens (jf_focused f) e" "reads_back print parse \<longrightarrow> json_shows print parse f"
  show "reads_back print parse \<longrightarrow> json_shows print parse (DraftJsonTextarea print parse (\<lambda>v. v) e f)"
  proof
    assume r: "reads_back print parse"
    note rf = resolve_format [OF r]
    have f: "json_shows print parse f" using h(2) r by simp
    show "json_shows print parse (DraftJsonTextarea print parse (\<lambda>v. v) e f)"
    proof (cases e)
      case (Handed_Down v)
      have "v = jf_value f" if "formatJson print v = formatJson print (jf_value f)"
        using rf [of v, unfolded that] rf [of "jf_value f"] by (rule format_inj)
      with Handed_Down f h(1) show ?thesis by (auto simp: json_shows_def render_json_def rf)
    qed (use f h(1) in \<open>auto simp: json_shows_def render_json_def rf split: json_draft_result.splits if_splits\<close>)
  qed
qed

text \<open>
  A JSON field neither passes on what it does not show nor shows what it did not pass on. Whatever the
  user does in the field and whatever the parent hands down while it is left: unless the field is
  marked as invalid its text reads as the parent's value, and if it is marked the text cannot be read.
  A field that is left and not marked shows the text of the value.
\<close>

theorem json_field_shows_value:
  assumes "reads_back print parse"
    and "f = field_session (DraftJsonTextarea print parse (\<lambda>v. v)) jf_focused evs (mount_json print v)"
  shows "resolveJsonDraft (jf_draft f) parse = (if jf_invalid f then Draft_Invalid else Draft_Valid (jf_value f)) \<and>
    (jf_focused f \<or> jf_invalid f \<or> jf_draft f = formatJson print (jf_value f))"
proof -
  have "json_shows print parse (mount_json print v)"
    by (simp add: json_shows_def mount_json_def resolve_format [OF assms(1)])
  then show ?thesis using json_fields.session_shows [of print parse "mount_json print v" evs] assms
    by (simp add: json_shows_def)
qed

theorem json_field_shows_value_witness:
  "(let f = field_session (DraftJsonTextarea (\<lambda>b. Some (show_bool b))
              (\<lambda>s. Inr (if s = ''true'' then Some True else if s = ''false'' then Some False else None)) (\<lambda>v. v)) jf_focused
              [Focus_In, Typed ''false'', Typed ''fals'', Focus_Out] (mount_json (\<lambda>b. Some (show_bool b)) (Some True))
    in jf_value f = Some False \<and> jf_invalid f \<and> jf_draft f = ''fals'')"
proof -
  let ?parse = "\<lambda>s. Inr (if s = ''true'' then Some True else if s = ''false'' then Some False else None) :: bool option res"
  have "reads_back (\<lambda>b. Some (show_bool b)) ?parse"
    by (auto simp: reads_back_def show_bool_def trim_def is_space_def)
  from json_field_shows_value [OF this refl, of "[Focus_In, Typed ''false'', Typed ''fals'', Focus_Out]" "Some True"]
  show ?thesis
    by (simp add: mount_json_def resolveJsonDraft_def trim_def is_space_def formatJson_def show_bool_def nullish_def render_json_def)
qed

subsection \<open>Number fields\<close>

lemma show_nat_step: "\<not> n < 10 \<Longrightarrow> show_nat n = show_nat (n div 10) @ [char_of (48 + n mod 10)]"
  by (subst show_nat.simps) simp

lemma show_nat_one: "n < 10 \<Longrightarrow> show_nat n = [char_of (48 + n)]"
  by (subst show_nat.simps) simp

lemma digit_code: "d < 10 \<Longrightarrow> (of_char (char_of (48 + d)) :: nat) = 48 + d"
  by simp

lemma show_nat_digits: "c \<in> set (show_nat n) \<Longrightarrow> (of_char c :: nat) \<in> {48..57}"
proof (induction n rule: show_nat.induct)
  case (1 n)
  show ?case
  proof (cases "n < 10")
    case True
    then show ?thesis using "1.prems" by (simp add: show_nat_one)
  next
    case False
    have m: "n mod 10 < 10" by simp
    have "c \<in> set (show_nat (n div 10)) \<or> c = char_of (48 + n mod 10)" using "1.prems" by (auto simp: show_nat_step [OF False])
    then show ?thesis
    proof
      assume "c = char_of (48 + n mod 10)"
      then have "(of_char c :: nat) = 48 + n mod 10" using digit_code [OF m] by simp
      then show ?thesis using m by simp
    qed (use "1.IH" [OF False] in simp)
  qed
qed

lemma show_int_text: "trim (show_int k) = show_int k" "show_int k \<notin> set [[], ''-'', ''+'', ''.'', ''-.'', ''+.'']"
proof -
  have "(of_char c :: nat) \<in> insert 45 {48..57}" if "c \<in> set (show_int k)" for c
    using that show_nat_digits [of c] by (auto simp: show_int_def split: if_splits)
  then have "list_all (\<lambda>c. \<not> is_space c) (show_int k)" by (fastforce simp: list_all_iff is_space_def)
  then show "trim (show_int k) = show_int k" by (rule trim_solid)
  have digit: "\<exists>c \<in> set (show_nat n). (of_char c :: nat) \<ge> 48" for n
    using show_nat_digits [of "last (show_nat n)" n] by (intro bexI [of _ "last (show_nat n)"]) simp_all
  have "\<exists>c \<in> set (show_int k). (of_char c :: nat) \<ge> 48"
    using digit [of "nat k"] digit [of "nat (- k)"] by (simp add: show_int_def)
  then show "show_int k \<notin> set [[], ''-'', ''+'', ''.'', ''-.'', ''+.'']" by auto
qed

text \<open>\<open>Number\<close> reads the text of a number.\<close>

definition reads_numbers :: "(string \<Rightarrow> int option) \<Rightarrow> bool" where
  "reads_numbers number \<longleftrightarrow> (\<forall>k. number (show_int k) = Some k)"

lemma resolve_show_int [simp]: "reads_numbers number \<Longrightarrow> resolveNumberDraft number (show_int k) = Number_Valid k"
  using show_int_text [of k] by (simp add: resolveNumberDraft_def reads_numbers_def)

definition number_shows :: "(string \<Rightarrow> int option) \<Rightarrow> number_field \<Rightarrow> bool" where
  "number_shows number f \<longleftrightarrow>
     resolveNumberDraft number (nf_draft f) \<in> {Number_Valid (nf_value f), Number_Incomplete} \<and>
     (nf_focused f \<or> nf_draft f = show_int (nf_value f))"

interpretation number_fields: draft_field "DraftNumberInput number (\<lambda>v. v)" nf_focused
  "\<lambda>f. reads_numbers number \<longrightarrow> number_shows number f" for number
proof
  fix f and e :: "int field_event" and number
  assume "happens (nf_focused f) e" "reads_numbers number \<longrightarrow> number_shows number f"
  then show "reads_numbers number \<longrightarrow> number_shows number (DraftNumberInput number (\<lambda>v. v) e f)"
    by (cases e) (auto simp: number_shows_def render_number_def resolve_show_int split: number_draft_result.splits)
qed

text \<open>
  A number field keeps the last complete number: whatever the user types and whatever the parent hands
  down while the field is left, the draft reads as the parent's value or is incomplete; a field that is left
  shows exactly the value, whatever was typed.
\<close>

theorem number_field_shows_value:
  assumes "reads_numbers number"
    and "f = field_session (DraftNumberInput number (\<lambda>v. v)) nf_focused evs (mount_number v)"
  shows "resolveNumberDraft number (nf_draft f) \<in> {Number_Valid (nf_value f), Number_Incomplete} \<and>
    (nf_focused f \<or> nf_draft f = show_int (nf_value f))"
proof -
  have "number_shows number (mount_number v)"
    by (simp add: number_shows_def mount_number_def resolve_show_int [OF assms(1)])
  then show ?thesis using number_fields.session_shows [of number "mount_number v" evs] assms
    by (simp add: number_shows_def)
qed

text \<open>A reader of decimal numerals.\<close>

definition read_digits :: "string \<Rightarrow> nat" where
  "read_digits s = foldl (\<lambda>n c. 10 * n + (of_char c - 48)) 0 s"

definition read_numeral :: "string \<Rightarrow> int option" where
  "read_numeral s = (if prefix ''-'' s then Some (- int (read_digits (tl s))) else Some (int (read_digits s)))"

lemma read_digits_show: "read_digits (show_nat n) = n"
proof (induction n rule: show_nat.induct)
  case (1 n)
  show ?case
  proof (cases "n < 10")
    case False
    have m: "n mod 10 < 10" by simp
    from 1 [OF False] show ?thesis
      by (simp add: show_nat_step [OF False] read_digits_def digit_code [OF m] del: of_char_of)
  qed (simp add: show_nat_one read_digits_def)
qed

lemma read_numeral_reads: "reads_numbers read_numeral"
proof -
  have "\<not> prefix ''-'' (show_nat n)" for n
    using show_nat_digits [of "CHR ''-''" n] by (cases "show_nat n") auto
  then show ?thesis by (auto simp: reads_numbers_def read_numeral_def show_int_def read_digits_show)
qed

theorem number_field_shows_value_witness:
  "(let f = field_session (DraftNumberInput read_numeral (\<lambda>v. v)) nf_focused [Focus_In, Typed ''15'', Typed ''-'', Focus_Out] (mount_number 7)
    in nf_value f = 15 \<and> nf_draft f = ''15'')"
proof -
  have n: "resolveNumberDraft read_numeral ''15'' = Number_Valid 15" "resolveNumberDraft read_numeral ''-'' = Number_Incomplete"
    by (simp_all add: resolveNumberDraft_def read_numeral_def read_digits_def trim_def is_space_def)
  have s: "show_int 15 = ''15''" by code_simp
  show ?thesis
    using number_field_shows_value [OF read_numeral_reads refl, of "[Focus_In, Typed ''15'', Typed ''-'', Focus_Out]" 7]
    by (simp add: mount_number_def render_number_def n s)
qed

text \<open>
  A parent that does not take the number as it is: the delay field stores at least 100 milliseconds, and
  after typing 5 and leaving the field it still shows 5.
\<close>

lemma clamped_field_shows_other_value:
  "(let f = foldl (\<lambda>f e. DraftNumberInput read_numeral (max 100) e f) (mount_number 1000) [Focus_In, Typed ''5'', Focus_Out]
    in nf_value f = 100 \<and> nf_draft f = ''5'')"
proof -
  have "resolveNumberDraft read_numeral ''5'' = Number_Valid 5"
    by (simp add: resolveNumberDraft_def read_numeral_def read_digits_def trim_def is_space_def)
  moreover have "show_int 5 = ''5''" by code_simp
  ultimately show ?thesis by (simp add: mount_number_def render_number_def)
qed

end
