(* ===== verification/Test_Form.thy ===== *)
theory Test_Form
  imports Complex_Main Defaults Retry_Policy Draft_Fields
begin

text \<open>
  \<^verbatim>\<open>src/ui-v2/src/modules/workflow/components/TestConfigForm.tsx\<close>: the form in which the tests of a
  scenario are written. Its readers of text, its change handlers (one constructor of an edit type for
  every control) with the conditions under which the controls are shown, and the state of the form:
  the tests it shows, the units of the delays and the calls of \<open>onChange\<close>. \<open>JSON.parse\<close> and
  \<open>Number\<close> are arguments; \<open>Number\<close> has a value where the result is a number, which the model keeps
  as an integer.
\<close>

section \<open>Reading text\<close>

record form_host =
  fh_parse :: "string \<Rightarrow> json option"
  fh_number :: "string \<Rightarrow> int option"

definition newline :: char where
  "newline = CHR 0x0A"

definition inferQueueBrokerType :: "string \<Rightarrow> string" where
  "inferQueueBrokerType serviceName =
     (let lower = toLowerCase serviceName
      in if includes_str lower ''rabbitmq'' \<or> includes_str lower ''rabbit'' then ''rabbitmq'' else ''kafka'')"

definition env_pair :: "string \<Rightarrow> string \<times> string" where
  "env_pair line =
     (if CHR ''='' \<notin> set line then (line, [])
      else (trim (takeWhile (\<lambda>c. c \<noteq> CHR ''='') line), trim (tl (dropWhile (\<lambda>c. c \<noteq> CHR ''='') line))))"

definition from_entries :: "(string \<times> 'a) list \<Rightarrow> (string \<times> 'a) list" where
  "from_entries ps = foldl (\<lambda>m (k, v). AList.update k v m) [] ps"

definition parseEnvLines :: "string \<Rightarrow> (string \<times> string) list" where
  "parseEnvLines s =
     from_entries (filter (\<lambda>(k, _). k \<noteq> []) (map env_pair (filter (\<lambda>l. l \<noteq> []) (map trim (split_on newline s)))))"

definition env_text :: "string \<times> string \<Rightarrow> string" where
  "env_text p = fst p @ CHR ''='' # snd p"

definition formatEnvLines :: "(string \<times> string) list option \<Rightarrow> string" where
  "formatEnvLines env =
     (case env of None \<Rightarrow> [] | Some ps \<Rightarrow> join_with [newline] (map env_text ps))"

definition parseScalarValue :: "form_host \<Rightarrow> string \<Rightarrow> json" where
  "parseScalarValue H s =
     (if s = [] then JStr [] else case fh_number H s of Some n \<Rightarrow> JNum n | None \<Rightarrow> JStr s)"

definition parseScalarList :: "form_host \<Rightarrow> string \<Rightarrow> json list" where
  "parseScalarList H s = map (parseScalarValue H) (filter (\<lambda>i. i \<noteq> []) (map trim (split_on CHR '','' s)))"

definition is_object :: "json \<Rightarrow> bool" where
  "is_object v \<longleftrightarrow> (\<exists>ps. v = JObj ps)"

lemma is_object_code [code, simp]: "is_object v \<longleftrightarrow> (case v of JObj _ \<Rightarrow> True | _ \<Rightarrow> False)"
  by (auto simp: is_object_def split: json.splits)

definition is_scalar :: "json \<Rightarrow> bool" where
  "is_scalar v \<longleftrightarrow> (case v of JStr _ \<Rightarrow> True | JNum _ \<Rightarrow> True | _ \<Rightarrow> False)"

definition parseJSONObject :: "form_host \<Rightarrow> string \<Rightarrow> json option" where
  "parseJSONObject H s =
     (if trim s = [] then None
      else case fh_parse H s of Some v \<Rightarrow> if is_object v then Some v else None | None \<Rightarrow> None)"

definition parseJSONValue :: "form_host \<Rightarrow> string \<Rightarrow> json option" where
  "parseJSONValue H s = (if trim s = [] then None else fh_parse H s)"

text \<open>The inline parser of the field for the expected documents.\<close>

definition parse_documents :: "form_host \<Rightarrow> string \<Rightarrow> json option" where
  "parse_documents H s =
     (case parseJSONValue H s of Some (JArr xs) \<Rightarrow> Some (JArr (filter is_object xs)) | _ \<Rightarrow> None)"

definition column_rules :: "json \<Rightarrow> (string \<times> json) list" where
  "column_rules rules =
     (case get_prop rules ''value'' of Some v \<Rightarrow> if is_scalar v then [(''value'', v)] else [] | None \<Rightarrow> []) @
     (case get_prop rules ''in'' of Some (JArr xs) \<Rightarrow> [(''in'', JArr (filter is_scalar xs))] | _ \<Rightarrow> []) @
     (case get_prop rules ''contains'' of Some (JStr s) \<Rightarrow> [(''contains'', JStr s)] | _ \<Rightarrow> [])"

definition parseColumnRules :: "form_host \<Rightarrow> string \<Rightarrow> json option" where
  "parseColumnRules H s =
     (case parseJSONObject H s of
        Some (JObj ps) \<Rightarrow>
          Some (JObj (from_entries (map (\<lambda>(c, r). (c, JObj (column_rules r))) (filter (\<lambda>(_, r). is_object r) ps))))
      | _ \<Rightarrow> None)"

datatype delay_unit = Unit_ms | Unit_sec | Unit_min

definition inferDelayUnit :: "int \<Rightarrow> delay_unit" where
  "inferDelayUnit ms =
     (if ms \<ge> 60000 \<and> ms mod 60000 = 0 then Unit_min
      else if ms \<ge> 1000 \<and> ms mod 1000 = 0 then Unit_sec else Unit_ms)"

text \<open>The quotient is exact where the inferred unit is used; elsewhere the field shows a fraction.\<close>

definition convertDurationToUnit :: "int \<Rightarrow> delay_unit \<Rightarrow> rat" where
  "convertDurationToUnit ms unit =
     (case unit of Unit_min \<Rightarrow> of_int ms / 60000 | Unit_sec \<Rightarrow> of_int ms / 1000 | Unit_ms \<Rightarrow> of_int ms)"

definition convertUnitToDuration :: "int \<Rightarrow> delay_unit \<Rightarrow> int" where
  "convertUnitToDuration v unit = (case unit of Unit_min \<Rightarrow> v * 60000 | Unit_sec \<Rightarrow> v * 1000 | Unit_ms \<Rightarrow> v)"

section \<open>The type and the service of a test\<close>

definition withTypeDefaults :: "scenario_test \<Rightarrow> test_type \<Rightarrow> flow_node list \<Rightarrow> string list \<Rightarrow> scenario_test res" where
  "withTypeDefaults t type nodes services =
     bind_res (createDefaultTest type nodes services (st_id t)) (\<lambda>d.
       Inr (d\<lparr>st_name := st_name t, st_dependsOnTestIds := st_dependsOnTestIds t,
              st_retryPolicy := map_option (\<lambda>p. \<lparr>rp_mode = rp_mode p, rp_idempotencyConfirmed = False\<rparr>) (st_retryPolicy t)\<rparr>))"

definition no_cache :: cache_config where
  "no_cache = \<lparr>cc_service = [], cc_cacheType = ''redis'', cc_operation = ''ping'', cc_key = None, cc_value = None,
     cc_expectedValue = None, cc_expectedExists = None, cc_ttl = None, cc_db = None, cc_password = None\<rparr>"

definition no_document :: document_config where
  "no_document = \<lparr>doc_service = [], doc_database = ''testdb'', doc_collection = [], doc_operation = ''find_one'',
     doc_document = None, doc_filter = None, doc_update = None, doc_expectedDocument = None, doc_expectedDocuments = None,
     doc_expectedCount = None, doc_expectedExists = None\<rparr>"

definition no_queue :: queue_config where
  "no_queue = \<lparr>qc_service = [], qc_brokerType = [], qc_operation = ''produce'', qc_topic = None, qc_message = None, qc_key = None,
     qc_partition = None, qc_timeout = None, qc_fromBeginning = None, qc_expectedCount = None, qc_expectedMessage = None,
     qc_expectedExists = None\<rparr>"

definition withPrimaryService :: "scenario_test \<Rightarrow> string \<Rightarrow> scenario_test" where
  "withPrimaryService t service =
     (let new = t\<lparr>st_targetServices := Some (if service = [] then [] else [service])\<rparr>
      in case st_type t of
           TCache \<Rightarrow> new\<lparr>st_cacheConfig := Some ((nullish (st_cacheConfig t) no_cache)\<lparr>cc_service := service\<rparr>)\<rparr>
         | TDocument \<Rightarrow> new\<lparr>st_documentConfig := Some ((nullish (st_documentConfig t) no_document)\<lparr>doc_service := service\<rparr>)\<rparr>
         | TQueue \<Rightarrow> new\<lparr>st_queueConfig := Some ((nullish (st_queueConfig t) no_queue)
                         \<lparr>qc_service := service, qc_brokerType := inferQueueBrokerType service\<rparr>)\<rparr>
         | _ \<Rightarrow> new)"

section \<open>The fields of a configuration\<close>

text \<open>
  Every handler builds the configuration anew from what is there, with the defaults below, and
  replaces one property. A handler that spreads the existing configuration (\<open>...current.xConfig!\<close>)
  is modelled on tests that have one, as every test of the form has (\<open>typed_test\<close> below).
\<close>

definition first_target :: "scenario_test \<Rightarrow> string" where
  "first_target t = (case st_targetServices t of Some (s # _) \<Rightarrow> s | _ \<Rightarrow> [])"

subsection \<open>HTTP\<close>

datatype http_edit =
    Http_Method string | Http_Path string | Http_Port string | Http_Headers "(string \<times> string) list option"
  | Http_Body string | Http_Status int | Http_Body_Mode string | Http_Body_Json "json option" | Http_Body_Text string

definition http_of :: "http_config option \<Rightarrow> http_config" where
  "http_of c =
     \<lparr>http_method = or_str (map_option http_method c) ''GET'', http_path = nullish (map_option http_path c) ''/'',
      http_port = nullish (map_option http_port c) ''80'', http_headers = Option.bind c http_headers,
      http_body = Option.bind c http_body, http_expectedStatus = Some (nullish (Option.bind c http_expectedStatus) 200),
      http_expectedBody = Option.bind c http_expectedBody\<rparr>"

fun edit_http :: "http_edit \<Rightarrow> http_config option \<Rightarrow> http_config" where
  "edit_http (Http_Method v) c = (http_of c)\<lparr>http_method := v\<rparr>"
| "edit_http (Http_Path v) c = (http_of c)\<lparr>http_path := v\<rparr>"
| "edit_http (Http_Port v) c = (http_of c)\<lparr>http_port := v\<rparr>"
| "edit_http (Http_Headers v) c = (http_of c)\<lparr>http_headers := v\<rparr>"
| "edit_http (Http_Body v) c = (http_of c)\<lparr>http_body := Some v\<rparr>"
| "edit_http (Http_Status v) c = (http_of c)\<lparr>http_expectedStatus := Some v\<rparr>"
| "edit_http (Http_Body_Mode v) c =
     (http_of c)\<lparr>http_expectedBody := Some \<lparr>heb_mode = v, heb_value = (if v = ''json_partial'' then JObj [] else JStr [])\<rparr>\<rparr>"
| "edit_http (Http_Body_Json v) c =
     (http_of c)\<lparr>http_expectedBody := Some \<lparr>heb_mode = ''json_partial'', heb_value = nullish v (JObj [])\<rparr>\<rparr>"
| "edit_http (Http_Body_Text v) c = (http_of c)\<lparr>http_expectedBody := Some \<lparr>heb_mode = ''contains'', heb_value = JStr v\<rparr>\<rparr>"

definition http_methods :: "string list" where
  "http_methods = [''GET'', ''POST'', ''PUT'', ''DELETE'', ''PATCH'', ''HEAD'', ''OPTIONS'']"

definition body_mode :: "http_config option \<Rightarrow> string option" where
  "body_mode c = map_option heb_mode (Option.bind c http_expectedBody)"

fun http_offered :: "http_edit \<Rightarrow> http_config option \<Rightarrow> bool" where
  "http_offered (Http_Method v) c = (v \<in> set http_methods)"
| "http_offered (Http_Body_Mode v) c = (v \<in> set [''contains'', ''json_partial''])"
| "http_offered (Http_Body_Json v) c = (body_mode c = Some ''json_partial'' \<and> (case v of Some x \<Rightarrow> is_object x | None \<Rightarrow> True))"
| "http_offered (Http_Body_Text v) c = (body_mode c \<noteq> Some ''json_partial'')"
| "http_offered _ c = True"

subsection \<open>Databases\<close>

datatype database_edit =
    Db_Driver string | Db_Database string | Db_User string | Db_Password string | Db_Query string | Db_Mode string
  | Db_Rows bool | Db_Single string | Db_List string | Db_Min_Rows int | Db_Max_Rows int | Db_Columns "json option"

definition database_of :: "database_config option \<Rightarrow> database_config" where
  "database_of c =
     \<lparr>dbc_driver = or_str (map_option dbc_driver c) ''postgres'', dbc_database = or_str (map_option dbc_database c) [],
      dbc_user = or_str (map_option dbc_user c) [], dbc_password = or_str (map_option dbc_password c) [],
      dbc_query = or_str (map_option dbc_query c) [], dbc_expectedResult = Option.bind c dbc_expectedResult\<rparr>"

definition result_mode :: "string \<Rightarrow> json" where
  "result_mode v =
     (if v = ''rows'' then JObj [(''mode'', JStr ''rows''), (''value'', JBool True)]
      else if v = ''single'' then JObj [(''mode'', JStr ''single''), (''value'', JStr [])]
      else if v = ''list'' then JObj [(''mode'', JStr ''list''), (''value'', JArr [])]
      else JObj [(''mode'', JStr ''structured''), (''min_rows'', JNum 1)])"

definition structured_with :: "string \<Rightarrow> json \<Rightarrow> json option \<Rightarrow> json" where
  "structured_with k v result =
     JObj (AList.update k v (AList.update ''mode'' (JStr ''structured'') (case result of Some (JObj ps) \<Rightarrow> ps | _ \<Rightarrow> [])))"

definition with_result :: "(json option \<Rightarrow> json) \<Rightarrow> database_config option \<Rightarrow> database_config" where
  "with_result f c = (let d = the c in d\<lparr>dbc_expectedResult := Some (f (dbc_expectedResult d))\<rparr>)"

fun edit_database :: "form_host \<Rightarrow> database_edit \<Rightarrow> database_config option \<Rightarrow> database_config" where
  "edit_database H (Db_Driver v) c = (database_of c)\<lparr>dbc_driver := v\<rparr>"
| "edit_database H (Db_Database v) c = (database_of c)\<lparr>dbc_database := v\<rparr>"
| "edit_database H (Db_User v) c = (database_of c)\<lparr>dbc_user := v\<rparr>"
| "edit_database H (Db_Password v) c = (database_of c)\<lparr>dbc_password := v\<rparr>"
| "edit_database H (Db_Query v) c = (database_of c)\<lparr>dbc_query := v\<rparr>"
| "edit_database H (Db_Mode v) c = (database_of c)\<lparr>dbc_expectedResult := Some (result_mode v)\<rparr>"
| "edit_database H (Db_Rows v) c = with_result (\<lambda>_. JObj [(''mode'', JStr ''rows''), (''value'', JBool v)]) c"
| "edit_database H (Db_Single v) c = with_result (\<lambda>_. JObj [(''mode'', JStr ''single''), (''value'', parseScalarValue H v)]) c"
| "edit_database H (Db_List v) c = with_result (\<lambda>_. JObj [(''mode'', JStr ''list''), (''value'', JArr (parseScalarList H v))]) c"
| "edit_database H (Db_Min_Rows v) c = with_result (structured_with ''min_rows'' (JNum v)) c"
| "edit_database H (Db_Max_Rows v) c = with_result (structured_with ''max_rows'' (JNum v)) c"
| "edit_database H (Db_Columns v) c = with_result (structured_with ''columns'' (nullish v (JObj []))) c"

text \<open>The controls of a mode are shown while the expected result has that mode.\<close>

definition shown_mode :: "database_config option \<Rightarrow> string option" where
  "shown_mode c = Option.bind (Option.bind c dbc_expectedResult) (\<lambda>r. as_string (get_prop r ''mode''))"

fun database_offered :: "database_edit \<Rightarrow> database_config option \<Rightarrow> bool" where
  "database_offered (Db_Driver v) c = (v \<in> set [''postgres'', ''mysql'', ''mariadb''])"
| "database_offered (Db_Mode v) c = (v \<in> set [''rows'', ''single'', ''list'', ''structured''])"
| "database_offered (Db_Rows v) c = (shown_mode c = Some ''rows'')"
| "database_offered (Db_Single v) c = (shown_mode c = Some ''single'')"
| "database_offered (Db_List v) c = (shown_mode c = Some ''list'')"
| "database_offered (Db_Min_Rows v) c = (shown_mode c = Some ''structured'')"
| "database_offered (Db_Max_Rows v) c = (shown_mode c = Some ''structured'')"
| "database_offered (Db_Columns v) c = (shown_mode c = Some ''structured'' \<and> (case v of Some x \<Rightarrow> is_object x | None \<Rightarrow> True))"
| "database_offered _ c = True"

subsection \<open>Documents\<close>

datatype document_edit =
    Doc_Database string | Doc_Collection string | Doc_Operation string | Doc_Document "json option" | Doc_Filter "json option"
  | Doc_Update "json option" | Doc_Expected "json option" | Doc_Expected_Many "json option" | Doc_Count int | Doc_Exists bool

definition document_of :: "scenario_test \<Rightarrow> document_config" where
  "document_of t =
     (let c = st_documentConfig t
      in \<lparr>doc_service = or_str (map_option doc_service c) (first_target t), doc_database = nullish (map_option doc_database c) ''testdb'',
          doc_collection = or_str (map_option doc_collection c) [], doc_operation = or_str (map_option doc_operation c) ''find_one'',
          doc_document = Option.bind c doc_document, doc_filter = Option.bind c doc_filter, doc_update = Option.bind c doc_update,
          doc_expectedDocument = Option.bind c doc_expectedDocument, doc_expectedDocuments = Option.bind c doc_expectedDocuments,
          doc_expectedCount = Option.bind c doc_expectedCount, doc_expectedExists = Option.bind c doc_expectedExists\<rparr>)"

fun edit_document :: "document_edit \<Rightarrow> scenario_test \<Rightarrow> document_config" where
  "edit_document (Doc_Database v) t = (document_of t)\<lparr>doc_database := v\<rparr>"
| "edit_document (Doc_Collection v) t = (document_of t)\<lparr>doc_collection := v\<rparr>"
| "edit_document (Doc_Operation v) t = (document_of t)\<lparr>doc_operation := v\<rparr>"
| "edit_document (Doc_Document v) t = (the (st_documentConfig t))\<lparr>doc_document := v\<rparr>"
| "edit_document (Doc_Filter v) t = (the (st_documentConfig t))\<lparr>doc_filter := v\<rparr>"
| "edit_document (Doc_Update v) t = (the (st_documentConfig t))\<lparr>doc_update := v\<rparr>"
| "edit_document (Doc_Expected v) t = (the (st_documentConfig t))\<lparr>doc_expectedDocument := v\<rparr>"
| "edit_document (Doc_Expected_Many v) t = (the (st_documentConfig t))\<lparr>doc_expectedDocuments := Some (nullish v (JArr []))\<rparr>"
| "edit_document (Doc_Count v) t = (the (st_documentConfig t))\<lparr>doc_expectedCount := Some v\<rparr>"
| "edit_document (Doc_Exists v) t = (the (st_documentConfig t))\<lparr>doc_expectedExists := Some v\<rparr>"

definition document_operations :: "string list" where
  "document_operations = [''insert_one'', ''find_one'', ''find_many'', ''update_one'', ''delete_one'', ''count_documents'', ''exists'']"

definition object_or_none :: "json option \<Rightarrow> bool" where
  "object_or_none v \<longleftrightarrow> (case v of Some x \<Rightarrow> is_object x | None \<Rightarrow> True)"

definition objects_or_none :: "json option \<Rightarrow> bool" where
  "objects_or_none v \<longleftrightarrow> (case v of Some (JArr xs) \<Rightarrow> list_all is_object xs | Some _ \<Rightarrow> False | None \<Rightarrow> True)"

fun document_offered :: "document_edit \<Rightarrow> scenario_test \<Rightarrow> bool" where
  "document_offered (Doc_Operation v) t = (v \<in> set document_operations)"
| "document_offered (Doc_Document v) t = (map_option doc_operation (st_documentConfig t) = Some ''insert_one'' \<and> object_or_none v)"
| "document_offered (Doc_Filter v) t =
     (or_str (map_option doc_operation (st_documentConfig t)) [] \<in> set (tl document_operations) \<and> object_or_none v)"
| "document_offered (Doc_Update v) t = (map_option doc_operation (st_documentConfig t) = Some ''update_one'' \<and> object_or_none v)"
| "document_offered (Doc_Expected v) t = (map_option doc_operation (st_documentConfig t) = Some ''find_one'' \<and> object_or_none v)"
| "document_offered (Doc_Expected_Many v) t =
     (map_option doc_operation (st_documentConfig t) = Some ''find_many'' \<and> objects_or_none v)"
| "document_offered (Doc_Count v) t = (map_option doc_operation (st_documentConfig t) = Some ''count_documents'')"
| "document_offered (Doc_Exists v) t = (map_option doc_operation (st_documentConfig t) = Some ''exists'')"
| "document_offered _ t = True"

subsection \<open>Commands\<close>

datatype shell_edit = Sh_Command string | Sh_Env string | Sh_Output string | Sh_Exit int

definition shell_of :: "shell_config option \<Rightarrow> shell_config" where
  "shell_of c =
     \<lparr>sh_command = or_str (map_option sh_command c) [], sh_env = Some (nullish (Option.bind c sh_env) []),
      sh_expectedOutput = Some (or_str (Option.bind c sh_expectedOutput) []),
      sh_expectedExitCode = Some (nullish (Option.bind c sh_expectedExitCode) 0)\<rparr>"

fun edit_shell :: "shell_edit \<Rightarrow> shell_config option \<Rightarrow> shell_config" where
  "edit_shell (Sh_Command v) c = (shell_of c)\<lparr>sh_command := v\<rparr>"
| "edit_shell (Sh_Env v) c = (shell_of c)\<lparr>sh_env := Some (parseEnvLines v)\<rparr>"
| "edit_shell (Sh_Output v) c = (shell_of c)\<lparr>sh_expectedOutput := Some v\<rparr>"
| "edit_shell (Sh_Exit v) c = (shell_of c)\<lparr>sh_expectedExitCode := Some v\<rparr>"

subsection \<open>Caches\<close>

datatype cache_edit =
    Cache_Type string | Cache_Operation string | Cache_Key string | Cache_Value string | Cache_Exists bool | Cache_Ttl int
  | Cache_Db int | Cache_Password string

definition cache_of :: "scenario_test \<Rightarrow> cache_config" where
  "cache_of t =
     (let c = st_cacheConfig t
      in \<lparr>cc_service = or_str (map_option cc_service c) (first_target t), cc_cacheType = or_str (map_option cc_cacheType c) ''redis'',
          cc_operation = or_str (map_option cc_operation c) ''ping'', cc_key = Option.bind c cc_key, cc_value = Option.bind c cc_value,
          cc_expectedValue = Option.bind c cc_expectedValue, cc_expectedExists = Option.bind c cc_expectedExists,
          cc_ttl = Option.bind c cc_ttl, cc_db = Option.bind c cc_db, cc_password = Option.bind c cc_password\<rparr>)"

fun edit_cache :: "cache_edit \<Rightarrow> scenario_test \<Rightarrow> cache_config" where
  "edit_cache (Cache_Type v) t = (cache_of t)\<lparr>cc_cacheType := v\<rparr>"
| "edit_cache (Cache_Operation v) t = (cache_of t)\<lparr>cc_operation := v\<rparr>"
| "edit_cache (Cache_Key v) t = (the (st_cacheConfig t))\<lparr>cc_key := Some v\<rparr>"
| "edit_cache (Cache_Value v) t =
     (let c = the (st_cacheConfig t)
      in c\<lparr>cc_value := (if cc_operation c = ''set'' then Some (JStr v) else cc_value c),
           cc_expectedValue := (if cc_operation c = ''get'' then Some (JStr v) else cc_expectedValue c)\<rparr>)"
| "edit_cache (Cache_Exists v) t = (the (st_cacheConfig t))\<lparr>cc_expectedExists := Some v\<rparr>"
| "edit_cache (Cache_Ttl v) t = (the (st_cacheConfig t))\<lparr>cc_ttl := Some v\<rparr>"
| "edit_cache (Cache_Db v) t = (the (st_cacheConfig t))\<lparr>cc_db := Some v\<rparr>"
| "edit_cache (Cache_Password v) t = (the (st_cacheConfig t))\<lparr>cc_password := Some v\<rparr>"

definition cache_operations :: "string list" where
  "cache_operations = [''ping'', ''set'', ''get'', ''exists'', ''delete'', ''del'']"

fun cache_offered :: "cache_edit \<Rightarrow> scenario_test \<Rightarrow> bool" where
  "cache_offered (Cache_Type v) t = (v \<in> set [''redis'', ''memcached''])"
| "cache_offered (Cache_Operation v) t = (v \<in> set cache_operations)"
| "cache_offered (Cache_Key v) t = (or_str (map_option cc_operation (st_cacheConfig t)) ''ping'' \<noteq> ''ping'')"
| "cache_offered (Cache_Value v) t = (or_str (map_option cc_operation (st_cacheConfig t)) [] \<in> set [''set'', ''get''])"
| "cache_offered (Cache_Exists v) t = (map_option cc_operation (st_cacheConfig t) = Some ''exists'')"
| "cache_offered _ t = True"

subsection \<open>Queues\<close>

datatype queue_edit =
    Q_Broker string | Q_Operation string | Q_Topic string | Q_Message string | Q_Key string | Q_Partition int | Q_Timeout int
  | Q_From_Beginning bool | Q_Count int | Q_Expected_Message string | Q_Exists bool

definition queue_service :: "scenario_test \<Rightarrow> string" where
  "queue_service t = or_str (map_option qc_service (st_queueConfig t)) (first_target t)"

definition broker_type :: "scenario_test \<Rightarrow> string" where
  "broker_type t = or_str (map_option qc_brokerType (st_queueConfig t)) (inferQueueBrokerType (queue_service t))"

fun edit_queue :: "queue_edit \<Rightarrow> scenario_test \<Rightarrow> queue_config" where
  "edit_queue (Q_Broker v) t = (the (st_queueConfig t))\<lparr>qc_brokerType := v\<rparr>"
| "edit_queue (Q_Operation v) t =
     (let c = st_queueConfig t
      in \<lparr>qc_service = queue_service t, qc_brokerType = broker_type t, qc_operation = v, qc_topic = Option.bind c qc_topic,
          qc_message = Option.bind c qc_message, qc_key = Option.bind c qc_key,
          qc_partition = Some (nullish (Option.bind c qc_partition) 0), qc_timeout = Some (nullish (Option.bind c qc_timeout) 10),
          qc_fromBeginning = Some (nullish (Option.bind c qc_fromBeginning) False),
          qc_expectedCount = Some (nullish (Option.bind c qc_expectedCount) 1),
          qc_expectedMessage = Option.bind c qc_expectedMessage,
          qc_expectedExists = Some (nullish (Option.bind c qc_expectedExists) True)\<rparr>)"
| "edit_queue (Q_Topic v) t = (the (st_queueConfig t))\<lparr>qc_topic := Some v\<rparr>"
| "edit_queue (Q_Message v) t = (the (st_queueConfig t))\<lparr>qc_message := Some (JStr v)\<rparr>"
| "edit_queue (Q_Key v) t = (the (st_queueConfig t))\<lparr>qc_key := Some v\<rparr>"
| "edit_queue (Q_Partition v) t = (the (st_queueConfig t))\<lparr>qc_partition := Some v\<rparr>"
| "edit_queue (Q_Timeout v) t = (the (st_queueConfig t))\<lparr>qc_timeout := Some v\<rparr>"
| "edit_queue (Q_From_Beginning v) t = (the (st_queueConfig t))\<lparr>qc_fromBeginning := Some v\<rparr>"
| "edit_queue (Q_Count v) t = (the (st_queueConfig t))\<lparr>qc_expectedCount := Some v\<rparr>"
| "edit_queue (Q_Expected_Message v) t = (the (st_queueConfig t))\<lparr>qc_expectedMessage := Some (JStr v)\<rparr>"
| "edit_queue (Q_Exists v) t = (the (st_queueConfig t))\<lparr>qc_expectedExists := Some v\<rparr>"

definition queue_operations :: "string list" where
  "queue_operations = [''produce'', ''consume'', ''produce_and_consume'', ''check_topic'', ''list_topics'']"

definition queue_operation :: "scenario_test \<Rightarrow> string" where
  "queue_operation t = or_str (map_option qc_operation (st_queueConfig t)) []"

text \<open>All but the first two controls are hidden while topics are only listed.\<close>

definition has_topic :: "scenario_test \<Rightarrow> bool" where
  "has_topic t \<longleftrightarrow> or_str (map_option qc_operation (st_queueConfig t)) ''produce'' \<noteq> ''list_topics''"

fun queue_offered :: "queue_edit \<Rightarrow> scenario_test \<Rightarrow> bool" where
  "queue_offered (Q_Broker v) t = (v \<in> set [''kafka'', ''rabbitmq''])"
| "queue_offered (Q_Operation v) t = (v \<in> set queue_operations)"
| "queue_offered (Q_Topic v) t = has_topic t"
| "queue_offered (Q_Message v) t = (has_topic t \<and> queue_operation t \<in> set [''produce'', ''produce_and_consume''])"
| "queue_offered (Q_Key v) t = (has_topic t \<and> queue_operation t \<in> set [''produce'', ''produce_and_consume''])"
| "queue_offered (Q_Partition v) t =
     (has_topic t \<and> broker_type t = ''kafka'' \<and> queue_operation t \<in> set [''produce'', ''consume'', ''produce_and_consume''])"
| "queue_offered (Q_Timeout v) t = (has_topic t \<and> queue_operation t \<in> set [''consume'', ''produce_and_consume''])"
| "queue_offered (Q_From_Beginning v) t = (has_topic t \<and> broker_type t = ''kafka'' \<and> queue_operation t = ''consume'')"
| "queue_offered (Q_Count v) t = (has_topic t \<and> broker_type t = ''kafka'' \<and> queue_operation t = ''consume'')"
| "queue_offered (Q_Expected_Message v) t = (has_topic t \<and> broker_type t = ''kafka'' \<and> queue_operation t = ''consume'')"
| "queue_offered (Q_Exists v) t = (has_topic t \<and> queue_operation t = ''check_topic'')"

section \<open>The form\<close>

datatype test_edit =
    Edit_Name string | Edit_Type test_type | Edit_Service string | Edit_Retry_Mode string | Edit_Confirmed bool
  | Edit_Http http_edit | Edit_Database database_edit | Edit_Document document_edit | Edit_Shell shell_edit
  | Edit_Cache cache_edit | Edit_Queue queue_edit | Edit_Delay int

definition retry_mode :: "string \<Rightarrow> scenario_test \<Rightarrow> retry_policy" where
  "retry_mode mode t =
     (if mode = ''never'' then \<lparr>rp_mode = ''never'', rp_idempotencyConfirmed = False\<rparr>
      else \<lparr>rp_mode = ''transient'',
            rp_idempotencyConfirmed = (case st_retryPolicy t of Some p \<Rightarrow> rp_idempotencyConfirmed p | None \<Rightarrow> False)\<rparr>)"

definition delay_of :: "(string \<times> delay_unit) list \<Rightarrow> int \<Rightarrow> scenario_test \<Rightarrow> int" where
  "delay_of units v t =
     (let unit = nullish (map_of units (st_id t)) (inferDelayUnit (nullish (st_delayMs t) 1000))
      in max 100 (convertUnitToDuration v unit))"

fun edit_test ::
  "form_host \<Rightarrow> flow_node list \<Rightarrow> string list \<Rightarrow> (string \<times> delay_unit) list \<Rightarrow> test_edit \<Rightarrow> scenario_test \<Rightarrow> scenario_test res" where
  "edit_test H nodes services units (Edit_Name v) t = Inr (t\<lparr>st_name := v\<rparr>)"
| "edit_test H nodes services units (Edit_Type v) t = withTypeDefaults (t\<lparr>st_type := v\<rparr>) v nodes services"
| "edit_test H nodes services units (Edit_Service v) t = Inr (withPrimaryService t v)"
| "edit_test H nodes services units (Edit_Retry_Mode v) t = Inr (t\<lparr>st_retryPolicy := Some (retry_mode v t)\<rparr>)"
| "edit_test H nodes services units (Edit_Confirmed v) t =
     Inr (t\<lparr>st_retryPolicy := Some \<lparr>rp_mode = ''transient'', rp_idempotencyConfirmed = v\<rparr>\<rparr>)"
| "edit_test H nodes services units (Edit_Http e) t = Inr (t\<lparr>st_httpConfig := Some (edit_http e (st_httpConfig t))\<rparr>)"
| "edit_test H nodes services units (Edit_Database e) t =
     Inr (t\<lparr>st_databaseConfig := Some (edit_database H e (st_databaseConfig t))\<rparr>)"
| "edit_test H nodes services units (Edit_Document e) t = Inr (t\<lparr>st_documentConfig := Some (edit_document e t)\<rparr>)"
| "edit_test H nodes services units (Edit_Shell e) t = Inr (t\<lparr>st_shellConfig := Some (edit_shell e (st_shellConfig t))\<rparr>)"
| "edit_test H nodes services units (Edit_Cache e) t = Inr (t\<lparr>st_cacheConfig := Some (edit_cache e t)\<rparr>)"
| "edit_test H nodes services units (Edit_Queue e) t = Inr (t\<lparr>st_queueConfig := Some (edit_queue e t)\<rparr>)"
| "edit_test H nodes services units (Edit_Delay v) t = Inr (t\<lparr>st_delayMs := Some (delay_of units v t)\<rparr>)"

text \<open>Which controls a test has; the retry controls are those of the expert mode.\<close>

fun offered :: "bool \<Rightarrow> string list \<Rightarrow> test_edit \<Rightarrow> scenario_test \<Rightarrow> bool" where
  "offered expert services (Edit_Name v) t = True"
| "offered expert services (Edit_Type v) t = True"
| "offered expert services (Edit_Service v) t = (v \<in> set services \<and> st_type t \<noteq> TDelay)"
| "offered expert services (Edit_Retry_Mode v) t = (expert \<and> st_type t \<noteq> TDelay \<and> v \<in> set [''transient'', ''never''])"
| "offered expert services (Edit_Confirmed v) t =
     (expert \<and> st_type t \<noteq> TDelay \<and> map_option rp_mode (st_retryPolicy t) \<noteq> Some ''never'' \<and> \<not> isAutomaticallyRetrySafe t)"
| "offered expert services (Edit_Http e) t = (st_type t = THttp \<and> http_offered e (st_httpConfig t))"
| "offered expert services (Edit_Database e) t = (st_type t = TDatabase \<and> database_offered e (st_databaseConfig t))"
| "offered expert services (Edit_Document e) t = (st_type t = TDocument \<and> document_offered e t)"
| "offered expert services (Edit_Shell e) t = (st_type t = TShell)"
| "offered expert services (Edit_Cache e) t = (st_type t = TCache \<and> cache_offered e t)"
| "offered expert services (Edit_Queue e) t = (st_type t = TQueue \<and> queue_offered e t)"
| "offered expert services (Edit_Delay v) t = (st_type t = TDelay)"

record test_form =
  tf_localTests :: "scenario_test list"
  tf_delayUnits :: "(string \<times> delay_unit) list"
  tf_calls :: "scenario_test list list"

definition updateTests :: "scenario_test list \<Rightarrow> test_form \<Rightarrow> test_form" where
  "updateTests new f = f\<lparr>tf_localTests := new, tf_calls := tf_calls f @ [new]\<rparr>"

definition updateTest :: "string \<Rightarrow> (scenario_test \<Rightarrow> scenario_test res) \<Rightarrow> test_form \<Rightarrow> test_form res" where
  "updateTest testId updater f =
     bind_res (map_res (\<lambda>t. if st_id t = testId
                         then bind_res (updater t) (\<lambda>u. Inr (clearStaleIdempotencyConfirmation t u)) else Inr t) (tf_localTests f))
       (\<lambda>new. Inr (updateTests new f))"

text \<open>The effect that keeps a unit for every delay of the tests handed down.\<close>

definition keep_units :: "scenario_test list \<Rightarrow> (string \<times> delay_unit) list \<Rightarrow> (string \<times> delay_unit) list" where
  "keep_units tests units =
     from_entries (map (\<lambda>t. (st_id t, nullish (map_of units (st_id t)) (inferDelayUnit (nullish (st_delayMs t) 1000))))
       (filter (\<lambda>t. st_type t = TDelay) tests))"

datatype form_step =
    Add_Test string | Remove_Test string | Change_Test string test_edit | Choose_Unit string delay_unit
  | Hand_Down "scenario_test list"

text \<open>
  Rendering reads the first target of every test, so a test without targets makes it throw. An action on
  a control that is not there changes nothing.
\<close>

fun form_action ::
  "form_host \<Rightarrow> bool \<Rightarrow> flow_node list \<Rightarrow> string list \<Rightarrow> form_step \<Rightarrow> test_form \<Rightarrow> test_form res" where
  "form_action H expert nodes services (Add_Test i) f =
     bind_res (createDefaultTest THttp nodes services i) (\<lambda>t. Inr (updateTests (tf_localTests f @ [t]) f))"
| "form_action H expert nodes services (Remove_Test i) f =
     Inr (if i \<in> st_id ` set (tf_localTests f) then updateTests (filter (\<lambda>t. st_id t \<noteq> i) (tf_localTests f)) f else f)"
| "form_action H expert nodes services (Change_Test i e) f =
     (case List.find (\<lambda>t. st_id t = i) (tf_localTests f) of
        None \<Rightarrow> Inr f
      | Some t \<Rightarrow> if offered expert services e t
                  then updateTest i (edit_test H nodes services (tf_delayUnits f) e) f else Inr f)"
| "form_action H expert nodes services (Choose_Unit i u) f =
     Inr (if list_ex (\<lambda>t. st_id t = i \<and> st_type t = TDelay) (tf_localTests f)
          then f\<lparr>tf_delayUnits := AList.update i u (tf_delayUnits f)\<rparr> else f)"
| "form_action H expert nodes services (Hand_Down tests) f =
     Inr (f\<lparr>tf_localTests := tests, tf_delayUnits := keep_units tests (tf_delayUnits f)\<rparr>)"

fun form_run ::
  "form_host \<Rightarrow> bool \<Rightarrow> flow_node list \<Rightarrow> string list \<Rightarrow> form_step list \<Rightarrow> test_form \<Rightarrow> test_form res" where
  "form_run H expert nodes services [] f = Inr f"
| "form_run H expert nodes services (a # as) f =
     (if list_ex (\<lambda>t. st_targetServices t = None) (tf_localTests f) then Inl TypeError
      else bind_res (form_action H expert nodes services a f) (form_run H expert nodes services as))"

section \<open>Tests stay well typed\<close>

definition typed_http :: "http_config \<Rightarrow> bool" where
  "typed_http c \<longleftrightarrow> http_method c \<in> set http_methods \<and>
     (case http_expectedBody c of
        None \<Rightarrow> True
      | Some b \<Rightarrow> (heb_mode b = ''contains'' \<and> as_string (Some (heb_value b)) \<noteq> None) \<or> (heb_mode b = ''json_partial'' \<and> is_object (heb_value b)))"

definition typed_result :: "json \<Rightarrow> bool" where
  "typed_result r \<longleftrightarrow>
     (get_prop r ''mode'' = Some (JStr ''rows'') \<and> (case get_prop r ''value'' of Some (JBool _) \<Rightarrow> True | _ \<Rightarrow> False)) \<or>
     (get_prop r ''mode'' = Some (JStr ''single'') \<and> (case get_prop r ''value'' of Some v \<Rightarrow> is_scalar v | None \<Rightarrow> False)) \<or>
     (get_prop r ''mode'' = Some (JStr ''list'') \<and> (case get_prop r ''value'' of Some (JArr xs) \<Rightarrow> list_all is_scalar xs | _ \<Rightarrow> False)) \<or>
     (get_prop r ''mode'' = Some (JStr ''structured'') \<and> object_or_none (get_prop r ''columns'') \<and>
        list_all (\<lambda>k. case get_prop r k of None \<Rightarrow> True | Some v \<Rightarrow> as_number (Some v) \<noteq> None) [''min_rows'', ''max_rows''])"

definition typed_database :: "database_config \<Rightarrow> bool" where
  "typed_database c \<longleftrightarrow> dbc_driver c \<in> set [''postgres'', ''mysql'', ''mariadb''] \<and>
     (case dbc_expectedResult c of None \<Rightarrow> True | Some r \<Rightarrow> typed_result r)"

definition typed_document :: "document_config \<Rightarrow> bool" where
  "typed_document c \<longleftrightarrow> doc_operation c \<in> set document_operations \<and>
     list_all (\<lambda>f. object_or_none (f c)) [doc_document, doc_filter, doc_update, doc_expectedDocument] \<and>
     objects_or_none (doc_expectedDocuments c)"

definition scalar_or_none :: "json option \<Rightarrow> bool" where
  "scalar_or_none v \<longleftrightarrow> (case v of Some x \<Rightarrow> is_scalar x | None \<Rightarrow> True)"

definition typed_cache :: "cache_config \<Rightarrow> bool" where
  "typed_cache c \<longleftrightarrow> cc_cacheType c \<in> set [''redis'', ''memcached''] \<and> cc_operation c \<in> set cache_operations \<and>
     scalar_or_none (cc_value c) \<and> scalar_or_none (cc_expectedValue c)"

definition typed_queue :: "queue_config \<Rightarrow> bool" where
  "typed_queue c \<longleftrightarrow> qc_brokerType c \<in> set [''kafka'', ''rabbitmq''] \<and> qc_operation c \<in> set queue_operations \<and>
     scalar_or_none (qc_message c) \<and> scalar_or_none (qc_expectedMessage c)"

definition typed_retry :: "retry_policy \<Rightarrow> bool" where
  "typed_retry p \<longleftrightarrow> rp_mode p = ''transient'' \<or> (rp_mode p = ''never'' \<and> \<not> rp_idempotencyConfirmed p)"

definition all_opt :: "('a \<Rightarrow> bool) \<Rightarrow> 'a option \<Rightarrow> bool" where
  "all_opt P x \<longleftrightarrow> (case x of None \<Rightarrow> True | Some v \<Rightarrow> P v)"

lemma all_opt_simps [simp]: "all_opt P None" "all_opt P (Some v) \<longleftrightarrow> P v"
  by (simp_all add: all_opt_def)

text \<open>
  A test as its TypeScript type declares it: the configuration of its type and no other, the values of
  the enumerated properties, the shapes of the expected results; besides, targets, a delay of at
  least 100 milliseconds and no confirmation of a retry that is switched off.
\<close>

definition typed_test :: "scenario_test \<Rightarrow> bool" where
  "typed_test t \<longleftrightarrow> config_fits t \<and> st_targetServices t \<noteq> None \<and> all_opt typed_retry (st_retryPolicy t) \<and>
     all_opt typed_http (st_httpConfig t) \<and> all_opt typed_database (st_databaseConfig t) \<and> all_opt typed_document (st_documentConfig t) \<and>
     all_opt typed_cache (st_cacheConfig t) \<and> all_opt typed_queue (st_queueConfig t) \<and> all_opt (\<lambda>ms. 100 \<le> ms) (st_delayMs t)"

named_theorems typed \<open>what it means for a configuration to be well typed\<close>

declare typed_http_def [typed] typed_result_def [typed] typed_database_def [typed] typed_document_def [typed]
  typed_cache_def [typed] typed_queue_def [typed] typed_retry_def [typed] document_operations_def [typed]
  cache_operations_def [typed] queue_operations_def [typed] object_or_none_def [typed] objects_or_none_def [typed]
  scalar_or_none_def [typed]

lemma parseScalarValue_scalar [simp]: "is_scalar (parseScalarValue H s)"
  by (simp add: parseScalarValue_def is_scalar_def split: option.split)

lemma or_str_Some: "v \<noteq> [] \<Longrightarrow> or_str (Some v) d = v"
  by (simp add: or_str_def)

lemma edit_http_typed:
  assumes "typed_http c" "http_offered e (Some c)"
  shows "typed_http (edit_http e (Some c))"
proof -
  have "http_method c \<noteq> []" using assms(1) by (auto simp: typed_http_def http_methods_def)
  then have "http_method (http_of (Some c)) = http_method c" by (simp add: http_of_def or_str_Some)
  moreover have "http_expectedBody (http_of (Some c)) = http_expectedBody c" by (simp add: http_of_def)
  ultimately have "typed_http (http_of (Some c))" using assms(1) by (simp add: typed_http_def)
  then show ?thesis using assms(2)
    by (cases e) (auto simp: typed_http_def as_string_def nullish_def split: option.splits)
qed

lemma structured_prop:
  assumes "get_prop r ''mode'' = Some m"
  shows "get_prop (structured_with k v (Some r)) j =
    (if j = k then Some v else if j = ''mode'' then Some (JStr ''structured'') else get_prop r j)"
  using assms by (cases r) (simp_all add: structured_with_def get_prop_def)

lemma typed_result_structured:
  assumes "get_prop r ''mode'' = Some (JStr ''structured'')" "typed_result r"
    and "(k \<in> set [''min_rows'', ''max_rows''] \<and> as_number (Some v) \<noteq> None) \<or> (k = ''columns'' \<and> is_object v)"
  shows "typed_result (structured_with k v (Some r))"
proof -
  have old: "object_or_none (get_prop r ''columns'')"
    "list_all (\<lambda>k. case get_prop r k of None \<Rightarrow> True | Some v \<Rightarrow> as_number (Some v) \<noteq> None) [''min_rows'', ''max_rows'']"
    using assms(2) by (simp_all add: typed_result_def assms(1))
  consider "k = ''min_rows''" "as_number (Some v) \<noteq> None" | "k = ''max_rows''" "as_number (Some v) \<noteq> None"
    | "k = ''columns''" "is_object v" using assms(3) by auto
  then show ?thesis by cases (use old in \<open>simp_all add: typed_result_def structured_prop [OF assms(1)] object_or_none_def\<close>)
qed

lemma typed_result_simps:
  "typed_result (JObj [(''mode'', JStr ''rows''), (''value'', JBool b)])"
  "typed_result (JObj [(''mode'', JStr ''single''), (''value'', parseScalarValue H s)])"
  "typed_result (JObj [(''mode'', JStr ''list''), (''value'', JArr (parseScalarList H s))])"
  by (simp_all add: typed_result_def get_prop_def parseScalarList_def list_all_iff)

lemma result_mode_typed: "typed_result (result_mode v)"
  by (simp add: result_mode_def typed_result_def get_prop_def is_scalar_def object_or_none_def as_number_def)

lemma edit_database_typed:
  assumes "typed_database c" "database_offered e (Some c)"
  shows "typed_database (edit_database H e (Some c))"
proof -
  have res: "\<exists>r. dbc_expectedResult c = Some r \<and> get_prop r ''mode'' = Some (JStr m)" if "shown_mode (Some c) = Some m" for m
    using that by (auto simp: shown_mode_def as_string_def split: option.splits json.splits bind_splits)
  have "dbc_driver c \<noteq> []" using assms(1) by (auto simp: typed_database_def)
  then have "dbc_driver (database_of (Some c)) = dbc_driver c" by (simp add: database_of_def or_str_Some)
  moreover have "dbc_expectedResult (database_of (Some c)) = dbc_expectedResult c" by (simp add: database_of_def)
  ultimately have new: "typed_database (database_of (Some c))" using assms(1) by (simp add: typed_database_def)
  have st: "typed_database (with_result (structured_with k v) (Some c))"
    if mode: "shown_mode (Some c) = Some ''structured''"
      and kv: "(k \<in> set [''min_rows'', ''max_rows''] \<and> as_number (Some v) \<noteq> None) \<or> (k = ''columns'' \<and> is_object v)" for k v
  proof -
    obtain r where r: "dbc_expectedResult c = Some r" "get_prop r ''mode'' = Some (JStr ''structured'')" using res [OF mode] by blast
    then have "typed_result (structured_with k v (Some r))"
      using typed_result_structured [OF r(2) _ kv] assms(1) by (simp add: typed_database_def)
    then show ?thesis using assms(1) by (simp add: typed_database_def with_result_def r(1))
  qed
  have put: "typed_database (with_result (\<lambda>_. r) (Some c))" if "typed_result r" for r
    using that assms(1) by (simp add: typed_database_def with_result_def)
  have num: "as_number (Some (JNum v)) \<noteq> None" for v by (simp add: as_number_def)
  show ?thesis
  proof (cases e)
    case (Db_Columns v)
    then show ?thesis using st [of "''columns''" "nullish v (JObj [])"] assms(2) by (simp add: nullish_def split: option.splits)
  qed (use assms(2) new st put num in \<open>simp_all add: typed_result_simps result_mode_typed typed_database_def\<close>)
qed

lemma edit_document_typed:
  assumes "st_documentConfig t = Some c" "typed_document c" "document_offered e t"
  shows "typed_document (edit_document e t)"
proof -
  have "doc_operation c \<noteq> []" using assms(2) by (auto simp: typed_document_def document_operations_def)
  then have "doc_operation (document_of t) = doc_operation c" by (simp add: document_of_def assms(1) or_str_Some)
  then have "typed_document (document_of t)" using assms(2) by (simp add: typed_document_def) (simp add: document_of_def assms(1))
  then show ?thesis using assms by (cases e) (simp_all add: typed_document_def nullish_def objects_or_none_def split: option.splits)
qed

lemma edit_cache_typed:
  assumes "st_cacheConfig t = Some c" "typed_cache c" "cache_offered e t"
  shows "typed_cache (edit_cache e t)"
proof -
  have "cc_operation c \<noteq> []" "cc_cacheType c \<noteq> []" using assms(2) by (auto simp: typed_cache_def cache_operations_def)
  then have "cc_operation (cache_of t) = cc_operation c" "cc_cacheType (cache_of t) = cc_cacheType c"
    by (simp_all add: cache_of_def assms(1) or_str_Some)
  then have "typed_cache (cache_of t)" using assms(2) by (simp add: typed_cache_def) (simp add: cache_of_def assms(1))
  then show ?thesis using assms by (cases e) (simp_all add: typed_cache_def scalar_or_none_def is_scalar_def)
qed

lemma inferQueueBrokerType_broker: "inferQueueBrokerType s \<in> set [''kafka'', ''rabbitmq'']"
  by (simp add: inferQueueBrokerType_def)

lemma edit_queue_typed:
  assumes "st_queueConfig t = Some c" "typed_queue c" "queue_offered e t"
  shows "typed_queue (edit_queue e t)"
proof -
  have "qc_brokerType c \<noteq> []" using assms(2) by (auto simp: typed_queue_def)
  then have "broker_type t = qc_brokerType c" by (simp add: broker_type_def assms(1) or_str_Some)
  then show ?thesis using assms by (cases e) (simp_all add: typed_queue_def scalar_or_none_def is_scalar_def)
qed

lemma firstService_total:
  "list_all (\<lambda>n. nd_service (fn_data n) \<noteq> None) nodes \<Longrightarrow>
   \<exists>node. firstService nodes types = Inr node \<and> (\<forall>n s. node = Some (n, s) \<longrightarrow> svc_type s \<in> set types)"
  by (induction nodes) (auto split: option.splits)

definition default_ok :: "test_type \<Rightarrow> string \<Rightarrow> scenario_test \<Rightarrow> bool" where
  "default_ok type i t \<longleftrightarrow> typed_test t \<and> st_type t = type \<and> st_id t = i \<and> st_retryPolicy t = None"

lemmas default_ok_defs = default_ok_def default_tests bare_test_def typed_test_def config_fits_def one_target_def

lemma default_tests_typed:
  "default_ok THttp i (default_http i fallback node)" "default_ok TDocument i (default_document i fallback node)"
  "default_ok TCache i (default_cache i fallback node)" "default_ok TQueue i (default_queue i fallback node)"
  "default_ok TShell i (default_shell i fallback node)" "default_ok TDelay i (default_delay i)"
  by (simp_all add: default_ok_defs typed http_get_def http_methods_def)

lemma createDefaultTest_typed:
  assumes "list_all (\<lambda>n. nd_service (fn_data n) \<noteq> None) nodes"
  shows "\<exists>t. createDefaultTest type nodes services i = Inr t \<and> default_ok type i t"
proof -
  let ?fallback = "case services of [] \<Rightarrow> [] | s # _ \<Rightarrow> s"
  have found: "\<exists>t. bind_res (firstService nodes types) (\<lambda>node. Inr (make i ?fallback node)) = Inr t \<and> default_ok ty i t"
    if "\<And>node. \<forall>n s. node = Some (n, s) \<longrightarrow> svc_type s \<in> set types \<Longrightarrow> default_ok ty i (make i ?fallback node)" for types ty make
    using firstService_total [OF assms, of types] that by fastforce
  have db: "default_ok TDatabase i (default_database i f node)"
    if "\<forall>n s. node = Some (n, s) \<longrightarrow> svc_type s \<in> set [Postgres, MySQL, MariaDB]" for f node
  proof -
    have "service_names (nullish (map_option (\<lambda>(_, s). svc_type s) node) Postgres) \<in> set [''postgres'', ''mysql'', ''mariadb'']"
      using that by (cases node) (auto simp: nullish_def service_names_def)
    then show ?thesis by (simp add: default_ok_defs typed_database_def rows_exist_def typed_result_simps)
  qed
  show ?thesis
    unfolding createDefaultTest_def Let_def
    by (cases type; simp only: test_type.case; (rule found; simp only: default_tests_typed db)?)
      (simp add: default_tests_typed)
qed

lemma withPrimaryService_typed:
  assumes "typed_test t"
  shows "typed_test (withPrimaryService t service)" "st_id (withPrimaryService t service) = st_id t"
proof -
  have c: "config_fits t" using assms by (simp add: typed_test_def)
  show "typed_test (withPrimaryService t service)"
  proof (cases "st_type t")
    case TDocument
    with c obtain d where "st_documentConfig t = Some d" by (auto simp: config_fits_def)
    with TDocument assms show ?thesis
      by (simp add: withPrimaryService_def typed_test_def config_fits_def nullish_def typed_document_def)
  next
    case TCache
    with c obtain d where "st_cacheConfig t = Some d" by (auto simp: config_fits_def)
    with TCache assms show ?thesis by (simp add: withPrimaryService_def typed_test_def config_fits_def nullish_def typed_cache_def)
  next
    case TQueue
    with c obtain d where "st_queueConfig t = Some d" by (auto simp: config_fits_def)
    with TQueue assms inferQueueBrokerType_broker [of service] show ?thesis
      by (simp add: withPrimaryService_def typed_test_def config_fits_def nullish_def typed_queue_def)
  qed (use assms in \<open>simp_all add: withPrimaryService_def typed_test_def config_fits_def\<close>)
  show "st_id (withPrimaryService t service) = st_id t" by (simp add: withPrimaryService_def split: test_type.split)
qed

lemma clearStale_typed:
  assumes "typed_test previous" "typed_test new"
  shows "typed_test (clearStaleIdempotencyConfirmation previous new)"
    "st_id (clearStaleIdempotencyConfirmation previous new) = st_id new"
proof -
  have "all_opt typed_retry (st_retryPolicy previous)" "all_opt typed_retry (st_retryPolicy new)" using assms by (simp_all add: typed_test_def)
  then have "all_opt typed_retry (st_retryPolicy (clearStaleIdempotencyConfirmation previous new))"
    by (auto simp: clearStaleIdempotencyConfirmation_def typed_retry_def nullish_def all_opt_def split: option.splits)
  moreover have "\<exists>r. clearStaleIdempotencyConfirmation previous new = new\<lparr>st_retryPolicy := r\<rparr>"
    by (cases "st_retryPolicy previous") (auto simp: clearStaleIdempotencyConfirmation_def intro: exI [of _ "st_retryPolicy new"])
  then obtain r where "clearStaleIdempotencyConfirmation previous new = new\<lparr>st_retryPolicy := r\<rparr>" by blast
  ultimately show "typed_test (clearStaleIdempotencyConfirmation previous new)"
    "st_id (clearStaleIdempotencyConfirmation previous new) = st_id new"
    using assms(2) by (simp_all add: typed_test_def config_fits_def)
qed

lemma edit_test_typed:
  assumes "list_all (\<lambda>n. nd_service (fn_data n) \<noteq> None) nodes" "typed_test t" "offered expert services e t"
  shows "\<exists>u. edit_test H nodes services units e t = Inr u \<and> typed_test u \<and> st_id u = st_id t"
proof (cases e)
  case (Edit_Type v)
  obtain d where d: "createDefaultTest v nodes services (st_id t) = Inr d" "typed_test d" "st_id d = st_id t"
    using createDefaultTest_typed [OF assms(1)] unfolding default_ok_def by blast
  moreover have "all_opt typed_retry (map_option (\<lambda>p. \<lparr>rp_mode = rp_mode p, rp_idempotencyConfirmed = False\<rparr>) (st_retryPolicy t))"
    using assms(2) by (cases "st_retryPolicy t") (auto simp: typed_test_def typed_retry_def)
  ultimately show ?thesis
    by (simp add: Edit_Type withTypeDefaults_def typed_test_def config_fits_def)
next
  case (Edit_Service v)
  then show ?thesis using withPrimaryService_typed [OF assms(2)] by simp
next
  case (Edit_Retry_Mode v)
  have "typed_retry (retry_mode v t)" by (simp add: typed_retry_def retry_mode_def)
  then show ?thesis using assms(2) by (simp add: Edit_Retry_Mode typed_test_def config_fits_def)
next
  case (Edit_Http h)
  then obtain c where "st_httpConfig t = Some c" using assms by (auto simp: typed_test_def config_fits_def)
  then show ?thesis using assms edit_http_typed [of c h] by (simp add: Edit_Http typed_test_def config_fits_def)
next
  case (Edit_Database h)
  then obtain c where "st_databaseConfig t = Some c" using assms by (auto simp: typed_test_def config_fits_def)
  then show ?thesis using assms edit_database_typed [of c h H] by (simp add: Edit_Database typed_test_def config_fits_def)
next
  case (Edit_Document h)
  then obtain c where "st_documentConfig t = Some c" using assms by (auto simp: typed_test_def config_fits_def)
  then show ?thesis using assms edit_document_typed [of t c h] by (simp add: Edit_Document typed_test_def config_fits_def)
next
  case (Edit_Cache h)
  then obtain c where "st_cacheConfig t = Some c" using assms by (auto simp: typed_test_def config_fits_def)
  then show ?thesis using assms edit_cache_typed [of t c h] by (simp add: Edit_Cache typed_test_def config_fits_def)
next
  case (Edit_Queue h)
  then obtain c where "st_queueConfig t = Some c" using assms by (auto simp: typed_test_def config_fits_def)
  then show ?thesis using assms edit_queue_typed [of t c h] by (simp add: Edit_Queue typed_test_def config_fits_def)
next
  case (Edit_Delay v)
  have "100 \<le> delay_of units v t" by (simp add: delay_of_def)
  then show ?thesis using assms by (simp add: Edit_Delay typed_test_def config_fits_def)
qed (use assms in \<open>auto simp: typed_test_def config_fits_def typed_retry_def\<close>)

definition form_ok :: "string list \<Rightarrow> test_form \<Rightarrow> bool" where
  "form_ok seen f \<longleftrightarrow> list_all typed_test (tf_localTests f) \<and> distinct (map st_id (tf_localTests f)) \<and>
     st_id ` set (tf_localTests f) \<subseteq> set seen"

text \<open>
  What the parent and the id generator do right: a new id is not one of the tests seen so far, and the
  tests handed down are well typed and have distinct ids.
\<close>

fun surroundings_ok :: "string list \<Rightarrow> form_step list \<Rightarrow> bool" where
  "surroundings_ok seen [] = True"
| "surroundings_ok seen (Add_Test i # as) = (i \<notin> set seen \<and> surroundings_ok (i # seen) as)"
| "surroundings_ok seen (Hand_Down ts # as) =
     (list_all typed_test ts \<and> distinct (map st_id ts) \<and> surroundings_ok (map st_id ts @ seen) as)"
| "surroundings_ok seen (a # as) = surroundings_ok seen as"

fun seen_after :: "form_step \<Rightarrow> string list \<Rightarrow> string list" where
  "seen_after (Add_Test i) seen = i # seen"
| "seen_after (Hand_Down ts) seen = map st_id ts @ seen"
| "seen_after _ seen = seen"

lemma updateTest_typed:
  assumes "form_ok seen f" "\<And>t. t \<in> set (tf_localTests f) \<Longrightarrow> st_id t = i \<Longrightarrow> \<exists>u. g t = Inr u \<and> typed_test u \<and> st_id u = st_id t"
  shows "\<exists>new. updateTest i g f = Inr (updateTests new f) \<and> list_all typed_test new \<and> map st_id new = map st_id (tf_localTests f)"
proof -
  let ?h = "\<lambda>t. if st_id t = i then bind_res (g t) (\<lambda>u. Inr (clearStaleIdempotencyConfirmation t u)) else Inr t"
  have h: "\<exists>u. ?h t = Inr u \<and> typed_test u \<and> st_id u = st_id t" if "t \<in> set (tf_localTests f)" for t
  proof (cases "st_id t = i")
    case True
    have "typed_test t" using assms(1) that by (auto simp: form_ok_def list_all_iff)
    then show ?thesis using True assms(2) [OF that True] clearStale_typed [of t] by auto
  qed (use that assms(1) in \<open>auto simp: form_ok_def list_all_iff\<close>)
  obtain new where new: "map_res ?h (tf_localTests f) = Inr new" using map_res_total [of "tf_localTests f" ?h] h by blast
  then have all: "list_all2 (\<lambda>t u. ?h t = Inr u) (tf_localTests f) new" by (simp add: map_res_Inr)
  have "list_all2 (\<lambda>t u. typed_test u \<and> st_id u = st_id t) (tf_localTests f) new"
    unfolding list_all2_conv_all_nth
  proof (intro conjI allI impI)
    show "length (tf_localTests f) = length new" using all by (rule list_all2_lengthD)
    fix n assume n: "n < length (tf_localTests f)"
    have "?h (tf_localTests f ! n) = Inr (new ! n)" using all n by (rule list_all2_nthD)
    with h [OF nth_mem [OF n]] show "typed_test (new ! n)" "st_id (new ! n) = st_id (tf_localTests f ! n)" by (metis sum.inject(2))+
  qed
  then have "list_all typed_test new \<and> map st_id new = map st_id (tf_localTests f)"
    by (induction rule: list_all2_induct) auto
  then show ?thesis using new by (intro exI [of _ new]) (simp add: updateTest_def)
qed

lemma form_action_ok:
  assumes "list_all (\<lambda>n. nd_service (fn_data n) \<noteq> None) nodes" "form_ok seen f" "surroundings_ok seen (a # as)"
  shows "\<exists>f' cs. form_action H expert nodes services a f = Inr f' \<and> form_ok (seen_after a seen) f' \<and>
    tf_calls f' = tf_calls f @ cs \<and> list_all (\<lambda>c. list_all typed_test c \<and> distinct (map st_id c)) cs \<and>
    (cs \<noteq> [] \<longrightarrow> last cs = tf_localTests f') \<and> surroundings_ok (seen_after a seen) as"
proof (cases a)
  case (Add_Test i)
  obtain t where "createDefaultTest THttp nodes services i = Inr t" "typed_test t" "st_id t = i"
    using createDefaultTest_typed [OF assms(1)] unfolding default_ok_def by blast
  then show ?thesis using assms(2,3)
    by (intro exI [of _ "updateTests (tf_localTests f @ [t]) f"] exI [of _ "[tf_localTests f @ [t]]"])
      (auto simp: Add_Test form_ok_def updateTests_def)
next
  case (Remove_Test i)
  show ?thesis
  proof (cases "i \<in> st_id ` set (tf_localTests f)")
    case True
    let ?new = "filter (\<lambda>t. st_id t \<noteq> i) (tf_localTests f)"
    have "list_all typed_test ?new" "distinct (map st_id ?new)" "st_id ` set ?new \<subseteq> set seen"
      using assms(2) by (auto simp: form_ok_def list_all_iff distinct_map inj_on_def)
    then show ?thesis using True assms(3)
      by (intro exI [of _ "updateTests ?new f"] exI [of _ "[?new]"]) (simp add: Remove_Test form_ok_def updateTests_def)
  next
    case False
    then show ?thesis using assms(2,3) by (intro exI [of _ f] exI [of _ "[]"]) (simp add: Remove_Test)
  qed
next
  case (Change_Test i e)
  have same: ?thesis if "form_action H expert nodes services a f = Inr f"
    using that assms(2,3) by (intro exI [of _ f] exI [of _ "[]"]) (simp add: Change_Test)
  show ?thesis
  proof (cases "List.find (\<lambda>t. st_id t = i) (tf_localTests f)")
    case None
    then show ?thesis by (intro same) (simp add: Change_Test)
  next
    case (Some t)
    then have t: "t \<in> set (tf_localTests f)" "st_id t = i" by (auto simp: find_Some_iff)
    show ?thesis
    proof (cases "offered expert services e t")
      case False
      then show ?thesis using Some by (intro same) (simp add: Change_Test)
    next
      case True
      have "t' = t" if "t' \<in> set (tf_localTests f)" "st_id t' = i" for t'
        using that t assms(2) by (auto simp: form_ok_def distinct_map dest: inj_onD)
      moreover have "typed_test t" using t(1) assms(2) by (auto simp: form_ok_def list_all_iff)
      ultimately obtain new where new: "updateTest i (edit_test H nodes services (tf_delayUnits f) e) f = Inr (updateTests new f)"
        "list_all typed_test new" "map st_id new = map st_id (tf_localTests f)"
        using updateTest_typed [OF assms(2), of i "edit_test H nodes services (tf_delayUnits f) e"]
          edit_test_typed [OF assms(1) _ True] by metis
      have "st_id ` set new = st_id ` set (tf_localTests f)" using new(3) by (metis list.set_map)
      then show ?thesis using assms(2,3) Some True new
        by (intro exI [of _ "updateTests new f"] exI [of _ "[new]"]) (simp add: Change_Test form_ok_def updateTests_def)
    qed
  qed
next
  case (Choose_Unit i u)
  then show ?thesis using assms(2,3)
    by (intro exI [of _ "if list_ex (\<lambda>t. st_id t = i \<and> st_type t = TDelay) (tf_localTests f)
          then f\<lparr>tf_delayUnits := AList.update i u (tf_delayUnits f)\<rparr> else f"] exI [of _ "[]"]) (simp add: form_ok_def)
next
  case (Hand_Down ts)
  then show ?thesis using assms(3)
    by (intro exI [of _ "f\<lparr>tf_localTests := ts, tf_delayUnits := keep_units ts (tf_delayUnits f)\<rparr>"] exI [of _ "[]"])
      (auto simp: form_ok_def)
qed


definition sample_form :: test_form where
  "sample_form = \<lparr>tf_localTests = [default_delay ''a''], tf_delayUnits = [], tf_calls = []\<rparr>"

definition sample_form_host :: form_host where
  "sample_form_host = \<lparr>fh_parse = (\<lambda>_. None), fh_number = read_numeral\<rparr>"


section \<open>A confirmation is for one operation\<close>

definition confirmed :: "scenario_test \<Rightarrow> bool" where
  "confirmed t \<longleftrightarrow> (case st_retryPolicy t of Some p \<Rightarrow> rp_idempotencyConfirmed p | None \<Rightarrow> False)"

lemma edit_keeps_policy:
  assumes "edit_test H nodes services units e t = Inr u" "e \<noteq> Edit_Confirmed True" "confirmed u"
  shows "confirmed t"
proof (cases e)
  case (Edit_Type v)
  with assms show ?thesis by (auto simp: withTypeDefaults_def confirmed_def split: option.splits)
next
  case (Edit_Service v)
  with assms show ?thesis by (auto simp: withPrimaryService_def confirmed_def split: test_type.splits)
next
  case (Edit_Retry_Mode v)
  with assms show ?thesis by (auto simp: retry_mode_def confirmed_def split: if_splits option.splits)
qed (use assms in \<open>auto simp: confirmed_def\<close>)

lemma clearStale_confirmed:
  "confirmed (clearStaleIdempotencyConfirmation t u) \<Longrightarrow> confirmed u \<and> (confirmed t \<longrightarrow> retryOperationSignature u = retryOperationSignature t)"
  by (auto simp: clearStaleIdempotencyConfirmation_def confirmed_def split: option.splits if_splits)

lemma clearStale_operation [simp]:
  "st_type (clearStaleIdempotencyConfirmation t u) = st_type u" "operation (clearStaleIdempotencyConfirmation t u) = operation u"
  by (simp_all add: clearStaleIdempotencyConfirmation_def split: option.split)

text \<open>One test under a sequence of edits, as \<open>updateTest\<close> applies them.\<close>

fun edit_sequence ::
  "form_host \<Rightarrow> flow_node list \<Rightarrow> string list \<Rightarrow> (string \<times> delay_unit) list \<Rightarrow> test_edit list \<Rightarrow> scenario_test \<Rightarrow> scenario_test res" where
  "edit_sequence H nodes services units [] t = Inr t"
| "edit_sequence H nodes services units (e # es) t =
     bind_res (edit_test H nodes services units e t) (\<lambda>u. edit_sequence H nodes services units es (clearStaleIdempotencyConfirmation t u))"


definition confirmed_shell :: scenario_test where
  "confirmed_shell = shell_test ''ls'' True"


text \<open>
  The path of an HTTP call and the service it goes to are not part of the operation: a confirmed
  POST stays confirmed when it is sent somewhere else.
\<close>

lemma confirmation_survives_new_path:
  "(let post = (bare_test ''1'' ''t'' THttp (Some [''api'']))
       \<lparr>st_httpConfig := Some ((http_get ''/ping'' ''80'')\<lparr>http_method := ''POST''\<rparr>),
        st_retryPolicy := Some \<lparr>rp_mode = ''transient'', rp_idempotencyConfirmed = True\<rparr>\<rparr>
    in case edit_sequence sample_form_host [] [] [] [Edit_Http (Http_Path ''/payments''), Edit_Service ''billing''] post of
         Inr u \<Rightarrow> confirmed u \<and> map_option http_path (st_httpConfig u) = Some ''/payments'' | Inl _ \<Rightarrow> False)"
  by code_simp

text \<open>
  The broker of a queue test is guessed from the name of the service: a RabbitMQ service called
  \<open>events\<close> gives a default test for RabbitMQ, and choosing the same service again makes it one for Kafka.
\<close>

lemma chosen_service_changes_broker:
  "(let node = createDefaultServiceNode (\<lambda>_. ''i'') ''n'' (0, 0) RabbitMQ;
        events = node\<lparr>fn_data := (fn_data node)\<lparr>nd_label := ''events''\<rparr>\<rparr>
    in case createDefaultTest TQueue [events] [] ''q'' of
         Inr t \<Rightarrow> map_option qc_brokerType (st_queueConfig t) = Some ''rabbitmq'' \<and>
           map_option qc_brokerType (st_queueConfig (withPrimaryService t ''events'')) = Some ''kafka''
       | Inl _ \<Rightarrow> False)"
  by code_simp

section \<open>Environment variables as text\<close>

definition clean_env :: "(string \<times> string) list \<Rightarrow> bool" where
  "clean_env ps \<longleftrightarrow> distinct (map fst ps) \<and>
     list_all (\<lambda>(k, v). k \<noteq> [] \<and> trim k = k \<and> trim v = v \<and> CHR ''='' \<notin> set k \<and> newline \<notin> set k \<and> newline \<notin> set v) ps"

lemma foldl_update_append:
  "distinct (map fst (m @ ps)) \<Longrightarrow> foldl (\<lambda>m (k, v). AList.update k v m) m ps = m @ ps"
proof (induction ps arbitrary: m)
  case (Cons p ps)
  obtain k v where p: "p = (k, v)" by force
  show ?case using Cons by (simp add: p update_fresh)
qed simp

lemma from_entries_distinct: "distinct (map fst ps) \<Longrightarrow> from_entries ps = ps"
  using foldl_update_append [of "[]" ps] by (simp add: from_entries_def)

lemma split_on_none: "d \<notin> set s \<Longrightarrow> split_on d s = [s]"
  by (induction s) auto

lemma split_lines_append: "d \<notin> set s \<Longrightarrow> split_on d (s @ d # t) = s # split_on d t"
  by (induction s) auto

lemma split_join_lines: "list_all (\<lambda>l. d \<notin> set l) ls \<Longrightarrow> ls \<noteq> [] \<Longrightarrow> split_on d (join_with [d] ls) = ls"
  by (induction "[d]" ls rule: join_with.induct) (simp_all add: split_on_none split_lines_append)

lemma env_line:
  assumes "k \<noteq> []" "trim k = k" "trim v = v" "CHR ''='' \<notin> set k"
  shows "trim (env_text (k, v)) = env_text (k, v)" "env_pair (env_text (k, v)) = (k, v)"
proof -
  have "\<not> is_space (last (env_text (k, v)))" using assms(3) trim_last [of v] by (auto simp: is_space_def env_text_def)
  moreover have "\<not> is_space (hd (env_text (k, v)))" using assms(1,2) trim_hd [of k] by (simp add: env_text_def)
  ultimately show "trim (env_text (k, v)) = env_text (k, v)" by (intro trim_ends) (simp_all add: env_text_def)
  have "\<forall>c \<in> set k. c \<noteq> CHR ''=''" using assms(4) by auto
  then have "takeWhile (\<lambda>c. c \<noteq> CHR ''='') (env_text (k, v)) = k" "dropWhile (\<lambda>c. c \<noteq> CHR ''='') (env_text (k, v)) = CHR ''='' # v"
    by (simp_all add: env_text_def)
  then show "env_pair (env_text (k, v)) = (k, v)" using assms by (simp add: env_pair_def) (simp add: env_text_def)
qed

definition env_lines :: "string list \<Rightarrow> (string \<times> string) list" where
  "env_lines ls = from_entries (filter (\<lambda>(k, _). k \<noteq> []) (map env_pair (filter (\<lambda>l. l \<noteq> []) (map trim ls))))"

lemma parseEnvLines_lines: "parseEnvLines s = env_lines (split_on newline s)"
  by (simp add: parseEnvLines_def env_lines_def)

lemma env_lines_format:
  assumes "clean_env ps"
  shows "env_lines (map env_text ps) = ps"
proof -
  have l: "trim (env_text (k, v)) = env_text (k, v)" "env_pair (env_text (k, v)) = (k, v)" "k \<noteq> []" if "(k, v) \<in> set ps" for k v
    using assms that env_line [of k v] by (auto simp: clean_env_def list_all_iff)
  have "map trim (map env_text ps) = map env_text ps" using l(1) by auto
  moreover have "filter (\<lambda>l. l \<noteq> []) (map env_text ps) = map env_text ps" by (auto simp: filter_id_conv env_text_def)
  moreover have "map env_pair (map env_text ps) = ps" using l(2) by (auto intro: map_idI)
  moreover have "filter (\<lambda>(k, _). k \<noteq> []) ps = ps" using l(3) by (auto simp: filter_id_conv)
  ultimately have "env_lines (map env_text ps) = from_entries ps" by (simp only: env_lines_def)
  also have "from_entries ps = ps" using assms by (intro from_entries_distinct) (simp add: clean_env_def)
  finally show ?thesis .
qed

lemma split_format:
  assumes "clean_env ps" "ps \<noteq> []"
  shows "split_on newline (formatEnvLines (Some ps)) = map env_text ps"
proof -
  have "list_all (\<lambda>l. newline \<notin> set l) (map env_text ps)"
    using assms(1) by (auto simp: clean_env_def list_all_iff newline_def env_text_def)
  then show ?thesis using assms(2) by (simp add: formatEnvLines_def split_join_lines)
qed

lemma parse_format: "clean_env ps \<Longrightarrow> parseEnvLines (formatEnvLines (Some ps)) = ps"
  by (cases "ps = []") (simp_all add: parseEnvLines_lines split_format env_lines_format, simp add: formatEnvLines_def env_lines_def from_entries_def)

lemma split_on_pieces: "l \<in> set (split_on d s) \<Longrightarrow> d \<notin> set l"
  by (induction s arbitrary: l) (auto split: if_splits list.splits)

lemma env_pair_clean:
  assumes "trim l = l" "newline \<notin> set l" "env_pair l = (k, v)"
  shows "trim k = k \<and> trim v = v \<and> CHR ''='' \<notin> set k \<and> newline \<notin> set k \<and> newline \<notin> set v"
proof (cases "CHR ''='' \<in> set l")
  case False
  then show ?thesis using assms by (auto simp: env_pair_def)
next
  case True
  let ?a = "takeWhile (\<lambda>c. c \<noteq> CHR ''='') l" and ?b = "tl (dropWhile (\<lambda>c. c \<noteq> CHR ''='') l)"
  have kv: "k = trim ?a" "v = trim ?b" using assms(3) True by (simp_all add: env_pair_def)
  have "set ?a \<subseteq> set l - {CHR ''=''}" by (auto dest: set_takeWhileD)
  moreover have "set ?b \<subseteq> set l"
  proof
    fix c assume "c \<in> set ?b"
    then have "c \<in> set (dropWhile (\<lambda>c. c \<noteq> CHR ''='') l)" by (cases "dropWhile (\<lambda>c. c \<noteq> CHR ''='') l") simp_all
    then show "c \<in> set l" by (rule set_dropWhileD)
  qed
  ultimately show ?thesis using assms(2) trim_subset [of ?a] trim_subset [of ?b] by (auto simp: kv)
qed

lemma set_update: "set (AList.update k v m) \<subseteq> insert (k, v) (set m)"
  by (induction m) auto

lemma from_entries_set: "distinct (map fst (from_entries ps)) \<and> set (from_entries ps) \<subseteq> set ps"
proof -
  have "distinct (map fst m) \<Longrightarrow> distinct (map fst (foldl (\<lambda>m (k, v). AList.update k v m) m ps)) \<and>
    set (foldl (\<lambda>m (k, v). AList.update k v m) m ps) \<subseteq> set m \<union> set ps" for m
  proof (induction ps arbitrary: m)
    case (Cons p ps)
    obtain k v where p: "p = (k, v)" by force
    show ?case using Cons.IH [of "AList.update k v m"] Cons.prems set_update [of k v m] by (auto simp: p distinct_update)
  qed simp
  from this [of "[]"] show ?thesis by (simp add: from_entries_def)
qed

lemma parseEnvLines_clean: "clean_env (parseEnvLines s)"
proof -
  let ?ps = "filter (\<lambda>(k, _). k \<noteq> []) (map env_pair (filter (\<lambda>l. l \<noteq> []) (map trim (split_on newline s))))"
  have "k \<noteq> [] \<and> trim k = k \<and> trim v = v \<and> CHR ''='' \<notin> set k \<and> newline \<notin> set k \<and> newline \<notin> set v" if "(k, v) \<in> set ?ps" for k v
  proof -
    have "(k, v) \<in> set (map env_pair (map trim (split_on newline s)))" using that by (simp only: set_filter set_map) blast
    then have "(k, v) \<in> env_pair ` trim ` set (split_on newline s)" by (simp only: set_map)
    moreover have "k \<noteq> []" using that by (simp only: set_filter) blast
    ultimately obtain l where l: "l \<in> set (split_on newline s)" "env_pair (trim l) = (k, v)" "k \<noteq> []" by (metis imageE)
    have "newline \<notin> set (trim l)" using split_on_pieces [OF l(1)] trim_subset [of l] by blast
    from env_pair_clean [OF trim_twice this l(2)] show ?thesis using l(3) by blast
  qed
  then show ?thesis using from_entries_set [of ?ps] unfolding clean_env_def parseEnvLines_def list_all_iff by blast
qed

text \<open>
  The text of the environment variables is faithful: whatever is typed, the text the field then shows
  reads as the variables the test has, so showing and reading again changes nothing; and every dictionary of
  clean variables (trimmed, named, one line each) is read back as it was written.
\<close>

theorem env_text_reads_back:
  "parseEnvLines (formatEnvLines (Some (parseEnvLines s))) = parseEnvLines s \<and>
   (clean_env ps \<longrightarrow> parseEnvLines (formatEnvLines (Some ps)) = ps)"
  by (simp add: parse_format parseEnvLines_clean)

theorem env_text_reads_back_witness:
  "parseEnvLines (formatEnvLines (Some [(''A'', ''1''), (''B'', [])])) = [(''A'', ''1''), (''B'', [])]"
proof -
  have "clean_env [(''A'', ''1''), (''B'', [])]" by code_simp
  then show ?thesis using env_text_reads_back by blast
qed

text \<open>
  The field is rewritten at every key: a line break typed behind the last variable is gone at once, so a
  second variable cannot be typed in a new line.
\<close>

lemma typed_line_break_vanishes:
  assumes "clean_env ps"
  shows "formatEnvLines (Some (parseEnvLines (formatEnvLines (Some ps) @ [newline]))) = formatEnvLines (Some ps)"
proof -
  have "split_on d (s @ [d]) = split_on d s @ [[]]" for d and s :: string
    by (induction s) (auto split: list.splits)
  then have "parseEnvLines (formatEnvLines (Some ps) @ [newline]) = parseEnvLines (formatEnvLines (Some ps))"
    by (simp add: parseEnvLines_def)
  then show ?thesis by (simp add: parse_format [OF assms])
qed

section \<open>Delays and their units\<close>

text \<open>
  The unit of a delay is only its presentation: a number entered in a unit is shown as that number in
  the unit, and a stored delay of at least a millisecond is a whole number in the unit inferred
  for it, which stands for that delay.
\<close>

theorem delay_units_agree:
  "convertDurationToUnit (convertUnitToDuration v unit) unit = of_int v \<and>
   (\<exists>n. convertDurationToUnit ms (inferDelayUnit ms) = of_int n \<and> convertUnitToDuration n (inferDelayUnit ms) = ms)"
proof
  show "convertDurationToUnit (convertUnitToDuration v unit) unit = of_int v"
    by (cases unit) (simp_all add: convertDurationToUnit_def convertUnitToDuration_def)
  have exact: "\<exists>n. (of_int ms :: rat) / of_int k = of_int n \<and> n * k = ms" if k: "ms mod k = 0" "k > 0" for k
  proof -
    have "k dvd ms" using k(1) by (rule mod_0_imp_dvd)
    then obtain n where "ms = k * n" by (rule dvdE)
    then show ?thesis using k(2) by (intro exI [of _ n]) simp
  qed
  show "\<exists>n. convertDurationToUnit ms (inferDelayUnit ms) = of_int n \<and> convertUnitToDuration n (inferDelayUnit ms) = ms"
    using exact [of 60000] exact [of 1000] by (auto simp: inferDelayUnit_def convertDurationToUnit_def convertUnitToDuration_def)
qed

end
