(* ===== verification/Run_Page.thy ===== *)
theory Run_Page
  imports Live_Run Runner_Client Names
begin

text \<open>
  The page of a run, \<^verbatim>\<open>src/ui-v2/src/modules/workflow/components/WorkflowRunPage.tsx\<close>: loading and paging its
  log, reconciling it with the runner, the diagnostics found in events and results, what is selected, and
  the states shown for services, tests and the stages of every scenario. An \<open>async\<close> handler is a
  function of the replies it waits for. Diagnostics come from JSON and are kept as JSON.
\<close>

section \<open>Events and diagnostics\<close>

record run_event = log_event +
  le_serviceId :: "string option"
  le_testId :: "string option"
  le_attempt :: "int option"
  le_maxAttempts :: "int option"
  le_diagnostic :: "json option"

definition isDiagnostic :: "json \<Rightarrow> bool" where
  "isDiagnostic v \<longleftrightarrow> list_all (\<lambda>k. truthy_json (get_prop v k)) [''code'', ''source'', ''confidence'', ''stage'', ''summary'']"

definition result_keys :: "string list" where
  "result_keys = [''diagnostic'', ''diagnostics'', ''scenarioResults'', ''testResults'', ''results'']"

lemma map_of_size: "map_of ps k = Some v \<Longrightarrow> size v < Suc (size_list (size_prod (\<lambda>_. 0) size) ps)"
  by (induction ps) (auto split: if_splits)

function diagnosticsFromValue :: "json \<Rightarrow> json list" where
  "diagnosticsFromValue v =
     (if isDiagnostic v then [v]
      else case v of
        JArr xs \<Rightarrow> concat (map diagnosticsFromValue xs)
      | JObj ps \<Rightarrow> concat (map (\<lambda>k. case map_of ps k of Some w \<Rightarrow> diagnosticsFromValue w | None \<Rightarrow> []) result_keys)
      | _ \<Rightarrow> [])"
  by pat_completeness auto
termination
  by (relation "measure size") (auto dest: map_of_size simp: less_Suc_eq_le size_list_estimation')

declare diagnosticsFromValue.simps [simp del]

text \<open>An element of \<open>Array.prototype.join\<close>.\<close>

definition joined_text :: "json option \<Rightarrow> string" where
  "joined_text v = (case v of None \<Rightarrow> [] | Some JNull \<Rightarrow> [] | Some x \<Rightarrow> js_text x)"

definition diagnosticKey :: "json \<Rightarrow> string" where
  "diagnosticKey d =
     join_with '':'' (map (\<lambda>k. joined_text (get_prop d k))
       [''code'', ''scenarioId'', ''testId'', ''testName'', ''serviceNames'', ''summary''])"

definition candidates :: "run_event list \<Rightarrow> scenario_run list \<Rightarrow> test_result list \<Rightarrow> json option \<Rightarrow> json list" where
  "candidates events runs results executionResult =
     concat (map (\<lambda>e. case le_diagnostic e of Some d \<Rightarrow> [d] | None \<Rightarrow> []) events) @
     concat (map (\<lambda>r. case sr_result r of Some v \<Rightarrow> diagnosticsFromValue v | None \<Rightarrow> []) runs) @
     concat (map (\<lambda>t. diagnosticsFromValue (tt_resultData t)) results) @
     (case executionResult of Some v \<Rightarrow> diagnosticsFromValue v | None \<Rightarrow> [])"

definition unique_diagnostics :: "json list \<Rightarrow> json list" where
  "unique_diagnostics ds = map snd (latest_by diagnosticKey ds)"

definition defaultActions :: "json \<Rightarrow> string \<Rightarrow> string list" where
  "defaultActions d runId =
     (let source = get_prop d ''source'' in
      if source = Some (JStr ''tokyo_tester'')
      then [''Retry the run once without changing the application services.'',
            ''If it repeats, report run '' @ runId @ '' with code '' @ joined_text (get_prop d ''code'') @ ''.'']
      else if source = Some (JStr ''host_infrastructure'')
      then [''Check Docker host capacity, networking, and external registry access.'',
            ''Retry after the host condition has been resolved.'']
      else if source = Some (JStr ''service_environment'')
      then [''Inspect the affected service evidence before changing its configuration.'',
            ''Reproduce the observed behavior using the same image and environment.'']
      else [''Inspect the bounded evidence and the events immediately before the failure.'',
            ''Use the complete filtered logs to narrow the source before making changes.''])"

section \<open>Stages, services and tests\<close>

datatype lane_stage = Queued | Provision | Execution | Cleanup | Complete

definition STAGES :: "lane_stage list" where
  "STAGES = [Queued, Provision, Execution, Cleanup, Complete]"

datatype step_state = Step_pending | Step_active | Step_complete | Step_failed

definition eventStage :: "string option \<Rightarrow> lane_stage" where
  "eventStage stage =
     (if stage = Some ''provision'' then Provision
      else if stage = Some ''execution'' then Execution
      else if stage = Some ''cleanup'' then Cleanup
      else if stage = Some ''aggregation'' then Complete
      else Queued)"

fun stage_index :: "lane_stage \<Rightarrow> nat" where
  "stage_index Queued = 0" | "stage_index Provision = 1" | "stage_index Execution = 2" | "stage_index Cleanup = 3"
| "stage_index Complete = 4"

definition stepState :: "lane_stage \<Rightarrow> lane_stage \<Rightarrow> bool \<Rightarrow> bool \<Rightarrow> step_state" where
  "stepState stage current failed terminal =
     (if failed then Step_failed
      else if stage = Complete \<and> terminal then Step_complete
      else if stage_index stage < stage_index current then Step_complete
      else if stage_index stage = stage_index current \<and> \<not> terminal then Step_active
      else if terminal \<and> stage_index stage \<le> stage_index current then Step_complete
      else Step_pending)"

text \<open>One scenario of \<open>ScenarioSwimlanes\<close>: its status and the state of every stage.\<close>

definition scenario_lane ::
  "scenario_run option \<Rightarrow> workflow_run_status option \<Rightarrow> run_event list \<Rightarrow> json list \<Rightarrow> string \<Rightarrow>
   scenario_run_status \<times> step_state list" where
  "scenario_lane run workflowStatus events diagnostics scenarioId =
     (let scenarioEvents = filter (\<lambda>e. le_scenarioId e = Some scenarioId) events;
          latest = (if scenarioEvents = [] then None else le_stage (last scenarioEvents));
          scenarioDiagnostics = filter (\<lambda>d. get_prop d ''scenarioId'' = Some (JStr scenarioId)) diagnostics;
          status = resolveScenarioPresentationStatus (map_option sr_status run) workflowStatus;
          terminal = (status \<notin> {S_pending, S_running, S_cancelling});
          current = (if terminal then Complete else eventStage latest)
      in (status, map (\<lambda>stage. stepState stage current
            (list_ex (\<lambda>d. eventStage (as_string (get_prop d ''stage'')) = stage) scenarioDiagnostics) terminal) STAGES))"

definition event_services :: "run_event \<Rightarrow> string list" where
  "event_services e =
     filter (\<lambda>n. n \<noteq> []) (map (\<lambda>n. nullish n []) [le_serviceId e, le_serviceName e] @ nullish (le_serviceNames e) [])"

definition event_state :: "run_event \<Rightarrow> service_execution_state option" where
  "event_state e =
     (if le_stage e = Some ''provision''
      then Some (if le_activityStatus e = Some ''failed'' then SX_failed
                 else if le_activityStatus e = Some ''ready'' then SX_ready else SX_provisioning)
      else if le_stage e = Some ''execution'' then Some SX_testing
      else if le_stage e = Some ''cleanup''
      then Some (if le_activityStatus e = Some ''failed'' then SX_failed
                 else if le_activityStatus e = Some ''completed'' then SX_complete else SX_cleaning)
      else None)"

definition strings_in :: "json option \<Rightarrow> string list" where
  "strings_in v = (case v of Some (JArr xs) \<Rightarrow> map js_text xs | _ \<Rightarrow> [])"

definition blamed_services :: "run_event \<Rightarrow> string list" where
  "blamed_services e =
     (case le_diagnostic e of
        Some d \<Rightarrow> if get_prop d ''source'' = Some (JStr ''service_environment'') \<and> le_activityStatus e = Some ''failed''
                  then strings_in (get_prop d ''serviceNames'') else []
      | None \<Rightarrow> [])"

type_synonym service_states = "(string \<times> service_execution_state) list"

definition mark :: "service_execution_state \<Rightarrow> service_states \<Rightarrow> string \<Rightarrow> service_states" where
  "mark state states name = AList.update (sanitizeName name) state (AList.update name state states)"

definition queue_node :: "service_states \<Rightarrow> flow_node \<Rightarrow> service_states" where
  "queue_node states node =
     (let label = nd_label (fn_data node)
      in AList.update (fn_id node) SX_queued (AList.update (sanitizeName label) SX_queued
           (AList.update (toLowerCase label) SX_queued (AList.update label SX_queued states))))"

definition apply_event :: "service_states \<Rightarrow> run_event \<Rightarrow> service_states" where
  "apply_event states e =
     foldl (mark SX_failed)
       (case event_state e of Some state \<Rightarrow> foldl (mark state) states (event_services e) | None \<Rightarrow> states)
       (blamed_services e)"

definition serviceStates ::
  "flow_node list \<Rightarrow> run_event list \<Rightarrow> scenario_run_status option \<Rightarrow> workflow_run_status option \<Rightarrow> service_states" where
  "serviceStates nodes events scenarioStatus workflowStatus =
     map (\<lambda>(name, state). (name, reconcileServiceExecutionState state scenarioStatus workflowStatus))
       (foldl apply_event (foldl queue_node [] nodes) events)"

definition concerns_test :: "scenario_test \<Rightarrow> run_event \<Rightarrow> bool" where
  "concerns_test t e \<longleftrightarrow> le_kind e = Some ''test'' \<and> (le_testId e = Some (st_id t) \<or> le_testName e = Some (st_name t))"

definition latest_test_event :: "scenario_test \<Rightarrow> run_event list \<Rightarrow> run_event option" where
  "latest_test_event t events = List.find (concerns_test t) (rev events)"

definition testStatus ::
  "scenario_test \<Rightarrow> run_event list \<Rightarrow> string option \<Rightarrow> scenario_run_status option \<Rightarrow> workflow_run_status option \<Rightarrow> test_display_status" where
  "testStatus t events storedStatus scenarioStatus workflowStatus =
     reconcileTestExecutionStatus (Option.bind (latest_test_event t events) le_activityStatus) storedStatus scenarioStatus workflowStatus"

fun TEST_STATUS_LABELS :: "test_display_status \<Rightarrow> string" where
  "TEST_STATUS_LABELS TD_pending = ''Queued''"
| "TEST_STATUS_LABELS TD_running = ''Executing''"
| "TEST_STATUS_LABELS TD_passed = ''Passed''"
| "TEST_STATUS_LABELS TD_failed = ''Failed''"
| "TEST_STATUS_LABELS TD_not_run = ''Not run''"
| "TEST_STATUS_LABELS TD_not_recorded = ''Result unavailable''"
| "TEST_STATUS_LABELS TD_interrupted = ''Interrupted''"

text \<open>The label of a test; the attempts and the recovery of its stored result are \<open>testRetryResult\<close>.\<close>

definition status_label :: "scenario_test \<Rightarrow> run_event list \<Rightarrow> test_display_status \<Rightarrow> test_attempt list \<times> bool \<Rightarrow> string" where
  "status_label t events status retry =
     (let latest = latest_test_event t events in
      if Option.bind latest le_activityStatus = Some ''retrying''
      then ''Attempt '' @ show_int (nullish (Option.bind latest le_attempt) 2) @ '' of '' @
           show_int (nullish (Option.bind latest le_maxAttempts) 2)
      else if status = TD_passed \<and> snd retry then ''Passed after retry''
      else if status = TD_failed \<and> 1 < length (fst retry) then ''Failed after '' @ show_nat (length (fst retry)) @ '' attempts''
      else TEST_STATUS_LABELS status)"

definition evidence_services :: "json \<Rightarrow> string list" where
  "evidence_services d =
     (case get_prop d ''evidence'' of
        Some (JArr xs) \<Rightarrow> List.map_filter (\<lambda>x. as_string (get_prop x ''serviceName'')) xs | _ \<Rightarrow> [])"

definition eventMatchesService :: "run_event \<Rightarrow> string \<Rightarrow> bool" where
  "eventMatchesService e serviceName \<longleftrightarrow>
     list_ex (\<lambda>n. n \<noteq> [] \<and> sanitizeName n = sanitizeName serviceName)
       (event_services e @
        (case le_diagnostic e of Some d \<Rightarrow> strings_in (get_prop d ''serviceNames'') @ evidence_services d | None \<Rightarrow> []))"

definition run_duration :: "int \<Rightarrow> string" where
  "run_duration milliseconds =
     (let seconds = max 0 (milliseconds div 1000); minutes = seconds div 60; remainder = seconds mod 60
      in if 0 < minutes then show_int minutes @ ''m '' @ show_int remainder @ ''s'' else show_int remainder @ ''s'')"

definition formatEstimate :: "int option \<Rightarrow> string" where
  "formatEstimate seconds =
     (case seconds of
        None \<Rightarrow> ''Collecting history''
      | Some s \<Rightarrow> if s = 0 then ''Collecting history'' else ''~'' @ run_duration (s * 1000))"

definition observedServices :: "run_event list \<Rightarrow> string list" where
  "observedServices events = concat (map (\<lambda>e. if le_kind e = Some ''test'' then nullish (le_serviceNames e) [] else []) events)"

definition structured_events :: "run_event list \<Rightarrow> run_event list" where
  "structured_events events = rev (slice_last 12 (filter (\<lambda>e. truthy_opt (le_stage e) \<or> truthy_opt (le_kind e)) events))"

section \<open>The state of the page\<close>

record run_page =
  pg_snapshot :: "json option"
  pg_events :: "run_event list"
  pg_oldest :: "int option"
  pg_hasMore :: bool
  pg_hydrated :: bool
  pg_loadError :: "string option"
  pg_refreshing :: bool
  pg_stores :: client_stores
  pg_toasts :: "string list"

definition new_run_page :: "client_stores \<Rightarrow> run_page" where
  "new_run_page stores = \<lparr>pg_snapshot = None, pg_events = [], pg_oldest = None, pg_hasMore = False, pg_hydrated = False,
     pg_loadError = None, pg_refreshing = False, pg_stores = stores, pg_toasts = []\<rparr>"

definition thrown_text :: "js_error \<Rightarrow> string" where
  "thrown_text e = (case e of Err m \<Rightarrow> m | TypeError \<Rightarrow> ''TypeError'')"

definition refreshSnapshot :: "hydration_host \<Rightarrow> string \<Rightarrow> json res \<Rightarrow> run_page \<Rightarrow> unit res \<times> run_page" where
  "refreshSnapshot X projectId reply p =
     (if projectId = [] then (Inr (), p)
      else case reply of
        Inl e \<Rightarrow> (Inl e, p)
      | Inr snapshot \<Rightarrow>
          (case hydrateWorkflowRunSnapshot X snapshot (pg_stores p) of
             (Inl e, stores) \<Rightarrow> (Inl e, p\<lparr>pg_stores := stores\<rparr>)
           | (Inr _, stores) \<Rightarrow> (Inr (), p\<lparr>pg_stores := stores, pg_snapshot := Some snapshot\<rparr>)))"

definition set_cursor :: "hydration_host \<Rightarrow> string \<Rightarrow> int option \<Rightarrow> run_page \<Rightarrow> run_page" where
  "set_cursor X workflowRunId newest p =
     (if nullish newest 0 = 0 then p
      else p\<lparr>pg_stores := (pg_stores p)\<lparr>cl_executions :=
             updateReplayCursor (hh_toIso X) workflowRunId (show_int (the newest)) (cl_executions (pg_stores p))\<rparr>\<rparr>)"

text \<open>The cursor the replay starts at; \<open>number\<close> is \<open>Number\<close> where its result is an integer.\<close>

definition replay_after :: "(string \<Rightarrow> int option) \<Rightarrow> workflow_execution option \<Rightarrow> int" where
  "replay_after number execution =
     (case number (or_str (Option.bind execution ex_lastEventId) ''0'') of
        Some n \<Rightarrow> if \<bar>n\<bar> < 2 ^ 53 then n else 0
      | None \<Rightarrow> 0)"

text \<open>One reconciliation, from the reply of \<open>fetchWorkflowRunEventsSince\<close> to the snapshot.\<close>

definition reconcileDurableRun ::
  "hydration_host \<Rightarrow> string \<Rightarrow> string \<Rightarrow> ((int \<times> run_event) list \<times> int option) res \<Rightarrow> json res \<Rightarrow> run_page \<Rightarrow> unit res \<times> run_page" where
  "reconcileDurableRun X workflowRunId projectId replay snapshot p =
     (if projectId = [] then (Inr (), p)
      else case replay of
        Inl e \<Rightarrow> (Inl e, p)
      | Inr (events, newest) \<Rightarrow>
          refreshSnapshot X projectId snapshot
            (set_cursor X workflowRunId newest
              (if events = [] then p else p\<lparr>pg_events := mergeWorkflowRunEvents [pg_events p, map snd events]\<rparr>)))"

definition readable_events :: "(string \<Rightarrow> run_event option) \<Rightarrow> stored_event list \<Rightarrow> (int \<times> run_event) list" where
  "readable_events parse events = js_sort by_id (List.map_filter (parseStoredWorkflowLogEvent parse) events)"

definition first_id :: "(int \<times> 'e) list \<Rightarrow> int option" where
  "first_id parsed = (case parsed of [] \<Rightarrow> None | x # _ \<Rightarrow> Some (fst x))"

definition newest_id :: "stored_event list \<Rightarrow> int" where
  "newest_id events = foldl (\<lambda>newest e. max newest (se_id e)) 0 events"

definition loadInitialRun ::
  "hydration_host \<Rightarrow> (string \<Rightarrow> run_event option) \<Rightarrow> string \<Rightarrow> string \<Rightarrow> json res \<Rightarrow> log_page res \<Rightarrow> run_page \<Rightarrow> run_page" where
  "loadInitialRun X parse workflowRunId projectId snapshot page p =
     (if projectId = []
      then p\<lparr>pg_loadError := Some ''A project ID is required to open this workflow run.'', pg_hydrated := True\<rparr>
      else case refreshSnapshot X projectId snapshot (p\<lparr>pg_loadError := None\<rparr>) of
        (Inl e, p') \<Rightarrow> p'\<lparr>pg_loadError := Some (thrown_text e), pg_hydrated := True\<rparr>
      | (Inr _, p') \<Rightarrow>
          (case page of
             Inl e \<Rightarrow> p'\<lparr>pg_loadError := Some (thrown_text e), pg_hydrated := True\<rparr>
           | Inr pg \<Rightarrow>
               let parsed = readable_events parse (lp_events pg)
               in set_cursor X workflowRunId (Some (newest_id (lp_events pg)))
                    (p'\<lparr>pg_events := map snd parsed, pg_oldest := orElse (lp_nextBefore pg) (first_id parsed),
                        pg_hasMore := lp_hasMore pg, pg_hydrated := True\<rparr>)))"

definition loadEarlierEvents :: "(string \<Rightarrow> run_event option) \<Rightarrow> log_page res \<Rightarrow> run_page \<Rightarrow> run_page" where
  "loadEarlierEvents parse page p =
     (if nullish (pg_oldest p) 0 = 0 then p
      else case page of
        Inl e \<Rightarrow> p\<lparr>pg_toasts := pg_toasts p @ [thrown_text e]\<rparr>
      | Inr pg \<Rightarrow>
          let parsed = readable_events parse (lp_events pg)
          in p\<lparr>pg_events := map snd parsed @ pg_events p,
               pg_oldest := orElse (lp_nextBefore pg) (orElse (first_id parsed) (pg_oldest p)), pg_hasMore := lp_hasMore pg\<rparr>)"

definition handleRefresh ::
  "hydration_host \<Rightarrow> string \<Rightarrow> string \<Rightarrow> ((int \<times> run_event) list \<times> int option) res \<Rightarrow> json res \<Rightarrow> run_page \<Rightarrow> run_page" where
  "handleRefresh X workflowRunId projectId replay snapshot p =
     (case reconcileDurableRun X workflowRunId projectId replay snapshot (p\<lparr>pg_refreshing := True\<rparr>) of
        (Inl e, p') \<Rightarrow> p'\<lparr>pg_toasts := pg_toasts p' @ [thrown_text e], pg_refreshing := False\<rparr>
      | (Inr _, p') \<Rightarrow> p'\<lparr>pg_refreshing := False\<rparr>)"

definition canCancel :: "workflow_run_status option \<Rightarrow> (string \<times> string list) list \<Rightarrow> string \<Rightarrow> bool" where
  "canCancel status projects projectId \<longleftrightarrow>
     isWorkflowRunActive status \<and> list_ex (\<lambda>(i, actions). i = projectId \<and> ''run'' \<in> set actions) projects"

definition handleCancel ::
  "hydration_host \<Rightarrow> sync_env \<Rightarrow> int \<Rightarrow> string \<Rightarrow> workflow_run_status res \<Rightarrow> run_page \<Rightarrow> run_page" where
  "handleCancel X E now workflowRunId reply p =
     (case reply of
        Inl e \<Rightarrow> p\<lparr>pg_toasts := pg_toasts p @ [thrown_text e]\<rparr>
      | Inr status \<Rightarrow>
          (case updateExecutionStatus (hh_toIso X) E now workflowRunId status None None (cl_executions (pg_stores p)) of
             (r, executions) \<Rightarrow>
               let p' = p\<lparr>pg_stores := (pg_stores p)\<lparr>cl_executions := executions\<rparr>\<rparr>
               in p'\<lparr>pg_toasts := pg_toasts p @ [case r of
                    Inl e \<Rightarrow> thrown_text e
                  | Inr _ \<Rightarrow> if status = W_cancelled then ''Workflow cancelled'' else ''Cancellation requested; cleanup is continuing'']\<rparr>))"

definition polls :: "run_page \<Rightarrow> string \<Rightarrow> bool \<Rightarrow> workflow_run_status option \<Rightarrow> bool" where
  "polls p projectId isConnected status \<longleftrightarrow>
     pg_hydrated p \<and> projectId \<noteq> [] \<and> \<not> isConnected \<and> isWorkflowRunActive status"

text \<open>The reconciliation at the end of a run; \<open>seen\<close> is the run it was last made for.\<close>

definition reconciles_at_end :: "run_page \<Rightarrow> string \<Rightarrow> workflow_run_status option \<Rightarrow> string option \<Rightarrow> bool \<times> string option" where
  "reconciles_at_end p workflowRunId status seen =
     (if \<not> pg_hydrated p \<or> status = None \<or> isWorkflowRunActive status \<or> seen = Some workflowRunId then (False, seen)
      else (True, Some workflowRunId))"

section \<open>What is selected\<close>

record selection =
  sl_scenario :: "string option"
  sl_diagnostic :: "string option"
  sl_service :: "string option"
  sl_rawOpen :: bool

definition scenario_of :: "json \<Rightarrow> string option" where
  "scenario_of d = drop_falsy (as_string (get_prop d ''scenarioId''))"

definition first_service :: "json \<Rightarrow> string option" where
  "first_service d = (case strings_in (get_prop d ''serviceNames'') of [] \<Rightarrow> None | s # _ \<Rightarrow> Some s)"

definition selected_diagnostic :: "json list \<Rightarrow> selection \<Rightarrow> json option" where
  "selected_diagnostic diagnostics s = List.find (\<lambda>d. Some (diagnosticKey d) = sl_diagnostic s) diagnostics"

definition choose_scenario :: "string list \<Rightarrow> json list \<Rightarrow> selection \<Rightarrow> selection" where
  "choose_scenario scenarios diagnostics s =
     (if truthy_opt (sl_scenario s) \<and> the (sl_scenario s) \<in> set scenarios then s
      else s\<lparr>sl_scenario := orElse (Option.bind (List.find (\<lambda>d. scenario_of d \<noteq> None) diagnostics) scenario_of)
             (drop_falsy (case scenarios of [] \<Rightarrow> None | i # _ \<Rightarrow> Some i))\<rparr>)"

definition choose_diagnostic :: "json list \<Rightarrow> selection \<Rightarrow> selection" where
  "choose_diagnostic diagnostics s =
     (case diagnostics of d # _ \<Rightarrow> if truthy_opt (sl_diagnostic s) then s else s\<lparr>sl_diagnostic := Some (diagnosticKey d)\<rparr> | [] \<Rightarrow> s)"

definition follow_diagnostic :: "json \<Rightarrow> selection \<Rightarrow> selection" where
  "follow_diagnostic d s =
     s\<lparr>sl_rawOpen := True, sl_scenario := orElse (scenario_of d) (sl_scenario s), sl_service := first_service d\<rparr>"

text \<open>
  The effects after a render, in their order. The third one runs when the selected diagnostic is not the one
  of the render before (\<open>seen\<close>); it is the diagnostic of the render, which the second effect has not changed yet.
\<close>

definition selection_effects :: "string list \<Rightarrow> json list \<Rightarrow> json option \<times> selection \<Rightarrow> json option \<times> selection" where
  "selection_effects scenarios diagnostics st =
     (case st of (seen, s) \<Rightarrow>
        let rendered = selected_diagnostic diagnostics s;
            s' = choose_diagnostic diagnostics (choose_scenario scenarios diagnostics s)
        in (rendered, case rendered of Some d \<Rightarrow> if rendered = seen then s' else follow_diagnostic d s' | None \<Rightarrow> s'))"

definition onSelectScenario :: "json list \<Rightarrow> string \<Rightarrow> selection \<Rightarrow> selection" where
  "onSelectScenario diagnostics scenarioId s =
     (let first = List.find (\<lambda>d. get_prop d ''scenarioId'' = Some (JStr scenarioId)) diagnostics
      in s\<lparr>sl_scenario := Some scenarioId, sl_diagnostic := map_option diagnosticKey first, sl_service := Option.bind first first_service\<rparr>)"

definition onSelectService :: "json list \<Rightarrow> string \<Rightarrow> selection \<Rightarrow> selection" where
  "onSelectService diagnostics serviceName s =
     (let relevant = List.find (\<lambda>d. list_ex (\<lambda>n. sanitizeName n = sanitizeName serviceName) (strings_in (get_prop d ''serviceNames''))) diagnostics
      in s\<lparr>sl_service := Some serviceName, sl_rawOpen := True,
           sl_diagnostic := (case relevant of Some d \<Rightarrow> Some (diagnosticKey d) | None \<Rightarrow> sl_diagnostic s)\<rparr>)"

definition onSelectDiagnostic :: "json \<Rightarrow> selection \<Rightarrow> selection" where
  "onSelectDiagnostic d s =
     s\<lparr>sl_diagnostic := Some (diagnosticKey d), sl_scenario := orElse (scenario_of d) (sl_scenario s), sl_service := first_service d\<rparr>"

definition onSelectTest :: "json option \<Rightarrow> string list \<Rightarrow> selection \<Rightarrow> selection" where
  "onSelectTest diagnostic services s =
     s\<lparr>sl_diagnostic := (case diagnostic of Some d \<Rightarrow> Some (diagnosticKey d) | None \<Rightarrow> sl_diagnostic s),
       sl_service := (case services of [] \<Rightarrow> None | x # _ \<Rightarrow> Some x), sl_rawOpen := (diagnostic \<noteq> None)\<rparr>"

definition onSelectEvent :: "run_event \<Rightarrow> selection \<Rightarrow> selection" where
  "onSelectEvent e s =
     s\<lparr>sl_diagnostic := (case le_diagnostic e of Some d \<Rightarrow> Some (diagnosticKey d) | None \<Rightarrow> sl_diagnostic s),
       sl_service := (if truthy_opt (le_serviceName e) then le_serviceName e
                      else case nullish (le_serviceNames e) [] of [] \<Rightarrow> None | x # _ \<Rightarrow> Some x)\<rparr>"

section \<open>Services show their latest event\<close>

definition names_of :: "string list \<Rightarrow> string list" where
  "names_of names = names @ map sanitizeName names"

lemma mark_lookup: "map_of (foldl (mark state) m names) k = (if k \<in> set (names_of names) then Some state else map_of m k)"
  by (induction names arbitrary: m) (auto simp: mark_def names_of_def update_conv')

text \<open>What one event says of a service: evidence against it, or the stage it is in.\<close>

definition event_mark :: "string \<Rightarrow> run_event \<Rightarrow> service_execution_state option" where
  "event_mark k e =
     (if k \<in> set (names_of (blamed_services e)) then Some SX_failed
      else if k \<in> set (names_of (event_services e)) then event_state e else None)"

lemma apply_event_lookup: "map_of (apply_event m e) k = orElse (event_mark k e) (map_of m k)"
  by (simp add: apply_event_def event_mark_def mark_lookup orElse_def split: option.split)

lemma apply_events_lookup:
  "map_of (foldl apply_event m events) k =
   orElse (Option.bind (List.find (\<lambda>e. event_mark k e \<noteq> None) (rev events)) (event_mark k)) (map_of m k)"
  by (induction events rule: rev_induct) (auto simp: apply_event_lookup orElse_def split: option.splits)

definition node_names :: "flow_node \<Rightarrow> string list" where
  "node_names n = (let label = nd_label (fn_data n) in [label, toLowerCase label, sanitizeName label, fn_id n])"

lemma queue_nodes_lookup:
  "map_of (foldl queue_node m nodes) k = (if k \<in> set (concat (map node_names nodes)) then Some SX_queued else map_of m k)"
  by (induction nodes arbitrary: m) (auto simp: queue_node_def node_names_def update_conv')

text \<open>
  A service is shown in the state of its latest event: under any name, the state before reconciliation
  is the one the last event that says something of the service gives it, and \<open>queued\<close> when there is none and
  the name is the label, the lower-case label, the service name or the id of a node.
\<close>

theorem service_shows_latest_event:
  "map_of (serviceStates nodes events scenarioStatus workflowStatus) k =
   map_option (\<lambda>s. reconcileServiceExecutionState s scenarioStatus workflowStatus)
     (case List.find (\<lambda>e. event_mark k e \<noteq> None) (rev events) of
        Some e \<Rightarrow> event_mark k e
      | None \<Rightarrow> if k \<in> set (concat (map node_names nodes)) then Some SX_queued else None)"
proof -
  have "map_of (map (\<lambda>(n, s). (n, f s)) m) k = map_option f (map_of m k)" for f :: "service_execution_state \<Rightarrow> service_execution_state" and m
    by (induction m) auto
  moreover have "event_mark k e \<noteq> None" if "List.find (\<lambda>e. event_mark k e \<noteq> None) (rev events) = Some e" for e
    using that by (simp add: find_Some_iff) blast
  ultimately show ?thesis
    by (auto simp: serviceStates_def apply_events_lookup queue_nodes_lookup orElse_def split: option.splits)
qed

text \<open>
  The latest event need not be the telling one: a service that failed to start is cleaned up afterwards,
  and is then shown as complete.
\<close>

definition service_event :: "string \<Rightarrow> string \<Rightarrow> run_event" where
  "service_event stage status =
     \<lparr>le_workflowRunId = ''r'', le_projectId = ''p'', le_workflowId = ''w'', le_scenarioId = None, le_scenarioName = None, le_message = [],
      le_status = None, le_stage = Some stage, le_kind = Some ''service'', le_activityStatus = Some status, le_serviceName = Some ''db'',
      le_serviceNames = None, le_testName = None, le_timestamp = 0, le_sequence = 0, le_error = None, le_backendSessionId = None,
      le_result = None, le_serviceId = None, le_testId = None, le_attempt = None, le_maxAttempts = None, le_diagnostic = None\<rparr>"

lemma failed_service_shown_complete:
  "map_of (serviceStates [] [service_event ''provision'' ''failed'', service_event ''cleanup'' ''completed'']
     (Some S_failed) (Some W_failed)) ''db'' = Some SX_complete"
  by (simp add: serviceStates_def apply_event_def blamed_services_def event_state_def event_services_def service_event_def mark_def
      reconcileServiceExecutionState_def resolveScenarioPresentationStatus_def isTerminalScenarioStatus_def nullish_def update_conv')

section \<open>An ended run shows no progress\<close>

lemma terminal_presentation:
  "isTerminalWorkflowStatus ws \<Longrightarrow> isTerminalScenarioStatus (Some (resolveScenarioPresentationStatus ss ws))"
proof -
  assume "isTerminalWorkflowStatus ws"
  then obtain w where "ws = Some w" "w \<in> {W_cancelled, W_completed, W_failed, W_partial_failed, W_cleanup_failed}"
    by (cases ws; cases "the ws") (auto simp: isTerminalWorkflowStatus_def)
  then show ?thesis by (auto simp: resolveScenarioPresentationStatus_def isTerminalScenarioStatus_def split: option.splits)
qed

lemma terminal_service: "isTerminalWorkflowStatus ws \<Longrightarrow> reconcileServiceExecutionState s ss ws \<in> {SX_complete, SX_failed}"
  by (auto simp: reconcileServiceExecutionState_def)

lemma terminal_test: "isTerminalWorkflowStatus ws \<Longrightarrow> reconcileTestExecutionStatus ev st ss ws \<notin> {TD_pending, TD_running}"
  by (auto simp: reconcileTestExecutionStatus_def)

lemma terminal_steps: "stepState stage Complete failed True \<in> {Step_complete, Step_failed}"
  by (cases stage) (simp_all add: stepState_def)

text \<open>
  When a run has ended the page shows nothing in progress: whatever events arrived in whatever order,
  every service is complete or failed, no test is queued or executing, and every scenario's stages are all
  complete or failed, under a status that is final.
\<close>

theorem ended_page_shows_no_progress:
  assumes "isTerminalWorkflowStatus workflowStatus"
  shows "list_all (\<lambda>(_, s). s \<in> {SX_complete, SX_failed}) (serviceStates nodes events scenarioStatus workflowStatus) \<and>
    testStatus t events stored scenarioStatus workflowStatus \<notin> {TD_pending, TD_running} \<and>
    (case scenario_lane run workflowStatus events diagnostics scenarioId of
       (status, steps) \<Rightarrow> isTerminalScenarioStatus (Some status) \<and> list_all (\<lambda>s. s \<in> {Step_complete, Step_failed}) steps)"
proof (intro conjI)
  show "list_all (\<lambda>(_, s). s \<in> {SX_complete, SX_failed}) (serviceStates nodes events scenarioStatus workflowStatus)"
    using terminal_service [OF assms] by (auto simp: serviceStates_def list_all_iff)
  show "testStatus t events stored scenarioStatus workflowStatus \<notin> {TD_pending, TD_running}"
    unfolding testStatus_def by (rule terminal_test [OF assms])
  have "isTerminalScenarioStatus (Some (resolveScenarioPresentationStatus (map_option sr_status run) workflowStatus))"
    by (rule terminal_presentation [OF assms])
  then show "case scenario_lane run workflowStatus events diagnostics scenarioId of
      (status, steps) \<Rightarrow> isTerminalScenarioStatus (Some status) \<and> list_all (\<lambda>s. s \<in> {Step_complete, Step_failed}) steps"
    using terminal_steps by (auto simp: scenario_lane_def isTerminalScenarioStatus_def list_all_iff)
qed

theorem ended_page_shows_no_progress_witness:
  "list_all (\<lambda>(_, s). s \<in> {SX_complete, SX_failed}) (serviceStates [] [service_event ''execution'' ''started''] None (Some W_cancelled))"
  using ended_page_shows_no_progress [of "Some W_cancelled" "[]" "[service_event ''execution'' ''started'']" None]
  by (simp add: isTerminalWorkflowStatus_def)

section \<open>Diagnostics are found and listed once\<close>

text \<open>
  Where diagnostics are looked for: at a value that is one, else in the elements of an array and below the
  five properties of an object.
\<close>

inductive located :: "json \<Rightarrow> json \<Rightarrow> bool" where
  here: "isDiagnostic v \<Longrightarrow> located v v"
| in_array: "x \<in> set xs \<Longrightarrow> located x d \<Longrightarrow> located (JArr xs) d"
| in_property: "\<not> isDiagnostic (JObj ps) \<Longrightarrow> k \<in> set result_keys \<Longrightarrow> map_of ps k = Some w \<Longrightarrow> located w d \<Longrightarrow> located (JObj ps) d"

lemma array_no_diagnostic [simp]: "\<not> isDiagnostic (JArr xs)"
  by (simp add: isDiagnostic_def get_prop_def truthy_json_def)

lemma diagnostics_in:
  "isDiagnostic v \<Longrightarrow> diagnosticsFromValue v = [v]"
  "diagnosticsFromValue (JArr xs) = concat (map diagnosticsFromValue xs)"
  "\<not> isDiagnostic (JObj ps) \<Longrightarrow> diagnosticsFromValue (JObj ps) =
     concat (map (\<lambda>k. case map_of ps k of Some w \<Rightarrow> diagnosticsFromValue w | None \<Rightarrow> []) result_keys)"
  "\<not> isDiagnostic v \<Longrightarrow> v \<in> {JNull, JBool b, JNum x, JStr s} \<Longrightarrow> diagnosticsFromValue v = []"
  by (subst diagnosticsFromValue.simps, auto)+

lemma located_found: "located v d \<Longrightarrow> d \<in> set (diagnosticsFromValue v)"
proof (induction rule: located.induct)
  case (in_property ps k w d)
  then show ?case by (auto simp: diagnostics_in intro!: bexI [of _ k])
qed (auto simp: diagnostics_in)

lemma found_located: "d \<in> set (diagnosticsFromValue v) \<Longrightarrow> located v d"
proof (induction v arbitrary: d rule: diagnosticsFromValue.induct)
  case (1 v)
  show ?case
  proof (cases "isDiagnostic v")
    case True
    then show ?thesis using "1.prems" by (simp add: diagnostics_in located.here)
  next
    case False
    show ?thesis
    proof (cases v)
      case (JArr xs)
      then obtain x where "x \<in> set xs" "d \<in> set (diagnosticsFromValue x)" using "1.prems" by (auto simp: diagnostics_in)
      then show ?thesis using "1.IH"(1) [OF False JArr] located.in_array JArr by blast
    next
      case (JObj ps)
      then obtain k where k: "k \<in> set result_keys"
          "d \<in> set (case map_of ps k of Some w \<Rightarrow> diagnosticsFromValue w | None \<Rightarrow> [])"
        using "1.prems" False by (simp add: diagnostics_in) blast
      from k(2) obtain w where "map_of ps k = Some w" "d \<in> set (diagnosticsFromValue w)"
        by (cases "map_of ps k") simp_all
      with k(1) show ?thesis using "1.IH"(2) [OF False JObj] located.in_property False JObj by blast
    qed (use "1.prems" False in \<open>simp_all add: diagnostics_in(4)\<close>)
  qed
qed

lemma located_diagnostic: "located v d \<Longrightarrow> isDiagnostic d"
  by (induction rule: located.induct)

text \<open>
  The page lists every diagnostic once: the search in a result finds exactly the diagnostics located
  in it; of all candidates the list has one per key, the last one, and nothing else.
\<close>

theorem diagnostics_listed_once:
  "set (diagnosticsFromValue v) = {d. located v d} \<and>
   distinct (map diagnosticKey (unique_diagnostics ds)) \<and>
   set (unique_diagnostics ds) = {d \<in> set ds. last (filter (\<lambda>x. diagnosticKey x = diagnosticKey d) ds) = d} \<and>
   diagnosticKey ` set (unique_diagnostics ds) = diagnosticKey ` set ds"
proof (intro conjI)
  show "set (diagnosticsFromValue v) = {d. located v d}" using located_found found_located by blast
  show "distinct (map diagnosticKey (unique_diagnostics ds))" unfolding unique_diagnostics_def by (rule latest_by_distinct)
  show members: "set (unique_diagnostics ds) = {d \<in> set ds. last (filter (\<lambda>x. diagnosticKey x = diagnosticKey d) ds) = d}"
    using latest_by_member [of _ diagnosticKey ds] by (auto simp: unique_diagnostics_def)
  have "diagnosticKey d \<in> diagnosticKey ` set (unique_diagnostics ds)" if "d \<in> set ds" for d
  proof -
    let ?ys = "filter (\<lambda>x. diagnosticKey x = diagnosticKey d) ds"
    have "last ?ys \<in> set ?ys" using that by (intro last_in_set) (auto simp: filter_empty_conv)
    then have "last ?ys \<in> set (unique_diagnostics ds)" "diagnosticKey (last ?ys) = diagnosticKey d" by (simp_all add: members)
    then show ?thesis by (metis imageI)
  qed
  then show "diagnosticKey ` set (unique_diagnostics ds) = diagnosticKey ` set ds" by (auto simp: members)
qed

section \<open>Paging shows the whole log\<close>

text \<open>What the page shows of stored events that are sorted newest first.\<close>

definition shown_events :: "(string \<Rightarrow> run_event option) \<Rightarrow> stored_event list \<Rightarrow> run_event list" where
  "shown_events parse events = List.map_filter (\<lambda>e. parse (se_payload e)) (rev events)"

lemma shown_append: "shown_events parse (xs @ ys) = shown_events parse ys @ shown_events parse xs"
  by (simp add: shown_events_def map_filter_def)

lemma insort_last: "(\<And>y. y \<in> set ys \<Longrightarrow> 0 < cmp x y) \<Longrightarrow> insort_cmp cmp x ys = ys @ [x]"
  by (induction ys) force+

lemma sort_descending: "sorted_wrt (\<lambda>x y. fst y < fst x) xs \<Longrightarrow> js_sort by_id xs = rev xs"
  by (induction xs) (force simp: by_id_def intro!: insort_last)+

lemma readable_page:
  assumes "sorted_wrt (\<lambda>a b. se_id b < se_id a) events"
  shows "map snd (readable_events parse events) = shown_events parse events"
proof -
  let ?xs = "List.map_filter (parseStoredWorkflowLogEvent parse) events"
  have "fst ` set (List.map_filter (parseStoredWorkflowLogEvent parse) ys) \<subseteq> se_id ` set ys" for ys
    by (induction ys) (auto simp: map_filter_simps parseStoredWorkflowLogEvent_def split: option.splits)
  then have "sorted_wrt (\<lambda>x y. fst y < fst x) ?xs" using assms
    by (induction events) (fastforce simp: map_filter_simps parseStoredWorkflowLogEvent_def split: option.splits)+
  then have "map snd (readable_events parse events) = rev (map snd ?xs)" by (simp add: readable_events_def sort_descending rev_map)
  also have "map snd (List.map_filter (parseStoredWorkflowLogEvent parse) ys) = List.map_filter (\<lambda>e. parse (se_payload e)) ys" for ys
    by (induction ys) (auto simp: map_filter_simps parseStoredWorkflowLogEvent_def split: option.splits)
  finally show ?thesis by (simp add: shown_events_def map_filter_def rev_map rev_filter)
qed

text \<open>The page after the newest \<open>k\<close> events of the log are on it.\<close>

definition paged :: "(string \<Rightarrow> run_event option) \<Rightarrow> stored_event list \<Rightarrow> nat \<Rightarrow> run_page \<Rightarrow> bool" where
  "paged parse T k p \<longleftrightarrow>
     pg_events p = shown_events parse (take k T) \<and> pg_hasMore p = (k < length T) \<and>
     (0 < k \<and> T \<noteq> [] \<and> pg_oldest p = cursor T (min k (length T)) \<or> length T \<le> k \<and> pg_oldest p = Some 0)"

text \<open>Pressing the button \<open>n\<close> times; \<open>added i\<close> are events stored before the press \<open>i\<close>.\<close>

primrec load_earlier :: "(string \<Rightarrow> run_event option) \<Rightarrow> stored_event list \<Rightarrow> (nat \<Rightarrow> stored_event list) \<Rightarrow> nat \<Rightarrow> run_page \<Rightarrow> run_page" where
  "load_earlier parse table added 0 p = p"
| "load_earlier parse table added (Suc n) p =
     (let q = load_earlier parse table added n p
      in loadEarlierEvents parse (Inr (ListWorkflowRunLogs (table @ added n) (nullish (pg_oldest q) 0) 200)) q)"

lemma last_of_page: "0 < n \<Longrightarrow> k < length T \<Longrightarrow> last (take n (drop k T)) = T ! (min (k + n) (length T) - 1)"
  by (auto simp: last_conv_nth min_def intro!: arg_cong [of _ _ "(!) T"])

text \<open>The page that follows the newest \<open>k\<close> events.\<close>

lemma following_page:
  assumes T: "T = js_sort newest_first table" "sorted_wrt (\<lambda>a b. se_id b < se_id a) T" "\<And>x. x \<in> set table \<Longrightarrow> 0 < se_id x"
    and "0 < k" "k \<le> length T" "\<And>x y. x \<in> set table \<Longrightarrow> y \<in> set new \<Longrightarrow> se_id x < se_id y"
  shows "ListWorkflowRunLogs (table @ new) (nullish (cursor T k) 0) 200 =
    \<lparr>lp_events = take 200 (drop k T), lp_hasMore = 200 < length T - k,
     lp_nextBefore = (if k = length T then Some 0 else cursor T (min (k + 200) (length T)))\<rparr>"
proof -
  have rest: "filter (\<lambda>e. 0 < nullish (cursor T k) 0 \<longrightarrow> se_id e < nullish (cursor T k) 0) (js_sort newest_first (table @ new)) = drop k T"
    using rest_after_cursor(3) [OF T(1,2) _ assms(4,5), of new] T(3) assms(6) by blast
  have size: "page_size 200 = 200" by (simp add: page_size_def)
  show ?thesis using assms(4,5) last_of_page [of 200 k T]
    unfolding listing_page Let_def rest size by (auto simp: cursor_def)
qed

lemma load_earlier_paged:
  assumes T: "T = js_sort newest_first table" "sorted_wrt (\<lambda>a b. se_id b < se_id a) T" "\<And>x. x \<in> set table \<Longrightarrow> 0 < se_id x"
    and new: "\<And>x y. x \<in> set table \<Longrightarrow> y \<in> set new \<Longrightarrow> se_id x < se_id y" and p: "paged parse T k p"
  shows "paged parse T (k + 200) (loadEarlierEvents parse (Inr (ListWorkflowRunLogs (table @ new) (nullish (pg_oldest p) 0) 200)) p)"
proof (cases "pg_oldest p = Some 0")
  case True
  have "length T \<le> k"
  proof (rule ccontr)
    assume "\<not> length T \<le> k"
    then have "0 < k" "cursor T k = Some 0" "k < length T" using p True by (auto simp: paged_def)
    moreover from this have "T ! (k - 1) \<in> set table" by (metis T(1) less_imp_diff_less nth_mem set_js_sort)
    ultimately show False using T(3) by (force simp: cursor_def)
  qed
  then show ?thesis using p True by (simp add: loadEarlierEvents_def nullish_def paged_def)
next
  case False
  define j where "j = min k (length T)"
  have j: "0 < j" "j \<le> length T" "pg_oldest p = cursor T j" using p False by (auto simp: paged_def j_def)
  have "T ! (j - 1) \<in> set table" using j by (metis Suc_diff_1 T(1) less_eq_Suc_le nth_mem set_js_sort)
  then have pos: "nullish (pg_oldest p) 0 \<noteq> 0" using j T(3) by (force simp: cursor_def nullish_def)
  have "sorted_wrt (\<lambda>a b. se_id b < se_id a) (take 200 (drop j T))" using T(2) by (simp add: sorted_wrt_drop sorted_wrt_take)
  note read = readable_page [OF this, of parse]
  have take: "take (k + 200) T = take k T @ take 200 (drop j T)" by (simp add: j_def take_add min_def)
  have page: "ListWorkflowRunLogs (table @ new) (nullish (pg_oldest p) 0) 200 =
      \<lparr>lp_events = take 200 (drop j T), lp_hasMore = 200 < length T - j,
       lp_nextBefore = (if j = length T then Some 0 else cursor T (min (j + 200) (length T)))\<rparr>"
    unfolding j(3) by (rule following_page [OF T j(1,2) new])
  have "orElse (if j = length T then Some 0 else cursor T (min (j + 200) (length T))) x =
      (if length T \<le> k then Some 0 else cursor T (min (k + 200) (length T)))" for x :: "int option"
    using j(1,2) by (auto simp: j_def cursor_def orElse_def)
  moreover have "(200 < length T - j) = (k + 200 < length T)" "T \<noteq> []" using j(1,2) by (auto simp: j_def)
  ultimately show ?thesis using p pos unfolding loadEarlierEvents_def page by (simp add: read take shown_append paged_def)
qed

text \<open>
  C36. Paging shows the log without gaps or repetitions: after the page has loaded and earlier events were
  loaded \<open>n\<close> times, it holds the readable ones of the newest \<open>200 * (n + 1)\<close> events that were stored at the
  beginning, oldest first, and offers to load more exactly when older ones are left. Events stored
  meanwhile do not disturb it.
\<close>

theorem paging_shows_whole_log:
  assumes table: "distinct (map se_id table)" "\<And>x. x \<in> set table \<Longrightarrow> 0 < se_id x"
    and added: "\<And>i x y. x \<in> set table \<Longrightarrow> y \<in> set (added i) \<Longrightarrow> se_id x < se_id y"
    and loaded: "projectId \<noteq> []" "fst (refreshSnapshot X projectId snapshot (p\<lparr>pg_loadError := None\<rparr>)) = Inr ()"
  shows "let q = load_earlier parse table added n
               (loadInitialRun X parse workflowRunId projectId snapshot (Inr (ListWorkflowRunLogs table 0 200)) p)
         in pg_events q = shown_events parse (take (200 * (n + 1)) (js_sort newest_first table)) \<and>
            pg_hasMore q = (200 * (n + 1) < length table)"
proof -
  define T where "T = js_sort newest_first table"
  note T = T_def sorted_log [OF table(1), folded T_def] table(2)
  let ?q = "\<lambda>n. load_earlier parse table added n
     (loadInitialRun X parse workflowRunId projectId snapshot (Inr (ListWorkflowRunLogs table 0 200)) p)"
  have "paged parse T (200 * (n + 1)) (?q n)" for n
  proof (induction n)
    case 0
    have "sorted_wrt (\<lambda>a b. se_id b < se_id a) (take 200 T)" using T(2) by (rule sorted_wrt_take)
    moreover have "last (take 200 T) = T ! (min 200 (length T) - 1)" if "T \<noteq> []" using last_of_page [of 200 0 T] that by simp
    moreover have "min 200 (length T) = 0 \<longleftrightarrow> T = []" by (cases T) (simp_all add: min_def)
    moreover have "filter (\<lambda>e. (0::int) < 0 \<longrightarrow> se_id e < 0) T = T" by simp
    ultimately show ?case using loaded
      by (cases "refreshSnapshot X projectId snapshot (p\<lparr>pg_loadError := None\<rparr>)")
         (auto simp: loadInitialRun_def listing_page page_size_def readable_page T_def [symmetric] paged_def orElse_def cursor_def set_cursor_def)
  next
    case (Suc n)
    from load_earlier_paged [OF T added [where i = n] this] show ?case by (simp add: algebra_simps)
  qed
  from this [of n] show ?thesis by (simp add: paged_def T_def)
qed

definition sample_page_log :: "stored_event list" where
  "sample_page_log = [\<lparr>se_id = 4, se_payload = ''late''\<rparr>, \<lparr>se_id = 2, se_payload = ''early''\<rparr>, \<lparr>se_id = 3, se_payload = ''torn''\<rparr>]"

definition sample_parse :: "string \<Rightarrow> run_event option" where
  "sample_parse s = (if s = ''torn'' then None else Some (service_event ''provision'' s))"

theorem paging_shows_whole_log_witness:
  "pg_events (load_earlier sample_parse sample_page_log (\<lambda>_. [\<lparr>se_id = 5, se_payload = ''new''\<rparr>]) 1
     (loadInitialRun sample_view sample_parse ''r'' ''p'' (Inr (JObj [(''workflowRun'', JObj [])])) (Inr (ListWorkflowRunLogs sample_page_log 0 200))
       (new_run_page sample_stores))) = [service_event ''provision'' ''early'', service_event ''provision'' ''late'']"
proof -
  have r: "fst (refreshSnapshot sample_view ''p'' (Inr (JObj [(''workflowRun'', JObj [])])) ((new_run_page sample_stores)\<lparr>pg_loadError := None\<rparr>)) = Inr ()"
    by (simp add: refreshSnapshot_def hydrateWorkflowRunSnapshot_def snapshot_workflow_run_def snapshot_parseJSON_def parseJSON_def rows_of_def
        split: prod.split)
  have "take (200 * (1 + 1)) (js_sort newest_first sample_page_log) = js_sort newest_first sample_page_log"
    by (rule take_all) (simp add: sample_page_log_def)
  moreover have "shown_events sample_parse (js_sort newest_first sample_page_log) = [service_event ''provision'' ''early'', service_event ''provision'' ''late'']"
    by (simp add: sample_page_log_def shown_events_def map_filter_def sample_parse_def newest_first_def)
  moreover have "distinct (map se_id sample_page_log)" "\<And>x. x \<in> set sample_page_log \<Longrightarrow> 0 < se_id x \<and> se_id x < 5"
    by (auto simp: sample_page_log_def)
  ultimately show ?thesis
    using paging_shows_whole_log [of sample_page_log "\<lambda>_. [\<lparr>se_id = 5, se_payload = ''new''\<rparr>]" "''p''", OF _ _ _ _ r, of sample_parse 1 "''r''"]
    unfolding Let_def by force
qed

section \<open>Selecting a scenario\<close>

text \<open>
  A scenario without diagnostics cannot be looked at while another one has some: selecting it clears the
  selected diagnostic, the effects after the render select the first diagnostic again, and the effects
  after the next render go back to its scenario.
\<close>

lemma scenario_selection_jumps_back:
  assumes "clicked \<in> set scenarios" "clicked \<noteq> []" "\<And>x. x \<in> set (d # ds) \<Longrightarrow> get_prop x ''scenarioId'' \<noteq> Some (JStr clicked)"
    and "get_prop d ''scenarioId'' = Some (JStr other)" "other \<noteq> []" "diagnosticKey d \<noteq> []"
  shows "sl_scenario (snd (selection_effects scenarios (d # ds) (selection_effects scenarios (d # ds)
           (seen, onSelectScenario (d # ds) clicked s)))) = Some other"
proof -
  have none: "List.find (\<lambda>x. get_prop x ''scenarioId'' = Some (JStr clicked)) (d # ds) = None"
    using assms(3) by (auto simp: find_None_iff)
  have "List.find (\<lambda>_. False) xs = None" for xs :: "json list" by (simp add: find_None_iff)
  then have first: "selection_effects scenarios (d # ds) (seen, onSelectScenario (d # ds) clicked s) =
      (None, s\<lparr>sl_scenario := Some clicked, sl_diagnostic := Some (diagnosticKey d), sl_service := None\<rparr>)"
    using assms(1,2) unfolding onSelectScenario_def none
    by (simp add: selection_effects_def choose_scenario_def choose_diagnostic_def selected_diagnostic_def truthy_opt_def)
  show ?thesis using assms(4-6) unfolding first
    by (simp add: selection_effects_def selected_diagnostic_def follow_diagnostic_def scenario_of_def as_string_def orElse_def drop_falsy_def truthy_opt_def)
qed

end
