(* ===== verification/Run_Inspector.thy ===== *)
theory Run_Inspector
  imports Run_Page
begin

text \<open>
  What the run page shows beside the graph: the inspector of diagnostics with its advice, the events of the
  selected scenario, the log panel with its filter, and the badges and metrics of the header, all of
  \<^verbatim>\<open>src/ui-v2/src/modules/workflow/components/WorkflowRunPage.tsx\<close>. Shown are values; their layout is left out.
\<close>

section \<open>Labels\<close>

fun STAGE_LABELS :: "lane_stage \<Rightarrow> string" where
  "STAGE_LABELS Queued = ''Queued''"
| "STAGE_LABELS Provision = ''Provisioning''"
| "STAGE_LABELS Execution = ''Testing''"
| "STAGE_LABELS Cleanup = ''Cleanup''"
| "STAGE_LABELS Complete = ''Complete''"

definition DIAGNOSTIC_STAGE_LABELS :: "(string \<times> string) list" where
  "DIAGNOSTIC_STAGE_LABELS =
     [(''validation'', ''Validation''), (''translation'', ''Translation''), (''provision'', ''Provisioning''),
      (''execution'', ''Testing''), (''cleanup'', ''Cleanup''), (''aggregation'', ''Aggregation'')]"

definition SOURCE_LABELS :: "(string \<times> string) list" where
  "SOURCE_LABELS =
     [(''tokyo_tester'', ''Tokyo Tester''), (''workflow_configuration'', ''Workflow configuration''),
      (''service_environment'', ''Service environment''), (''host_infrastructure'', ''Host infrastructure''),
      (''undetermined'', ''Undetermined'')]"

datatype badge_variant = Badge_default | Badge_destructive | Badge_outline | Badge_secondary

definition runStatusBadge :: "workflow_run_status option \<Rightarrow> badge_variant \<times> string" where
  "runStatusBadge status =
     (let label = map (\<lambda>c. if c = CHR ''_'' then CHR '' '' else c) (case status of None \<Rightarrow> ''pending'' | Some s \<Rightarrow> workflow_status_name s) in
      if status \<in> {Some W_failed, Some W_partial_failed, Some W_cleanup_failed} then (Badge_destructive, label)
      else if status = Some W_completed then (Badge_outline, label)
      else if status = Some W_cancelled then (Badge_secondary, ''Cancelled'')
      else (Badge_default, label))"

definition elapsed :: "workflow_execution option \<Rightarrow> int \<Rightarrow> int" where
  "elapsed execution now =
     (case execution of
        None \<Rightarrow> 0
      | Some e \<Rightarrow> (if nullish (ex_finishedAt e) 0 = 0 then now else the (ex_finishedAt e)) - ex_startedAt e)"

definition connection_metric :: "workflow_run_status option \<Rightarrow> bool \<Rightarrow> string" where
  "connection_metric status isConnected =
     (if isWorkflowRunActive status then if isConnected then ''Live stream'' else ''Polling fallback'' else ''Durable snapshot'')"

section \<open>Advice\<close>

definition CODE_ACTIONS :: "(string \<times> string list) list" where
  "CODE_ACTIONS =
     [(''VALIDATION_ERROR'', [''Return to the workflow and repair the highlighted definition.'',
        ''Run the affected scenario again after the revision is saved.'']),
      (''INVALID_REQUEST'', [''Review the scenario and service fields in this immutable revision.'',
        ''Correct the definition in the workflow builder, then start a new run.'']),
      (''MISSING_FIELD'', [''Add the missing configuration value in the workflow builder.'',
        ''Save the workflow before retrying the scenario.'']),
      (''DEPENDENCY_CYCLE_ERROR'', [''Break the circular service or test dependency in the workflow.'',
        ''Confirm the revised dependency order before running again.'']),
      (''DEPENDENCY_MISSING'', [''Restore the referenced service or test, or remove the stale dependency.'',
        ''Save a new workflow revision and retry.'']),
      (''REGISTRY_AUTH_ERROR'', [''Re-enter the session-only registry credentials in the workflow builder.'',
        ''Confirm that the credential can pull the configured image.'']),
      (''IMAGE_PULL_ERROR'', [''Verify the image name, tag, registry availability, and host access.'',
        ''Retry after registry access is restored.'']),
      (''NETWORK_CREATE_ERROR'', [''Check Docker host capacity and network availability.'',
        ''Retry the run after the host condition is resolved.'']),
      (''NETWORK_CLEANUP_ERROR'', [''Check whether the Docker host can remove the isolated run network.'',
        ''Report the run ID if the network remains after a retry.'']),
      (''CONTAINER_START_ERROR'', [''Inspect the bounded container evidence below for the startup failure.'',
        ''Verify the image command, environment, ports, and readiness settings.'']),
      (''SERVICE_PROVISION_ERROR'', [''Inspect the affected service evidence and readiness configuration.'',
        ''Reproduce with the same image and environment before changing the test.'']),
      (''TEST_EXECUTION_ERROR'', [''Compare the assertion with the observed response in the evidence below.'',
        ''Inspect the targeted service logs before assigning fault.'']),
      (''TEST_TIMEOUT'', [''Inspect service readiness and latency around the timed-out test.'',
        ''Adjust the timeout only if the observed behavior is expected.'']),
      (''TEST_TRANSPORT_CONNECTION_RESET'', [''Inspect the targeted service and host around the reset before assigning fault.'',
        ''Retry the run after checking container restarts, readiness, and host pressure.'']),
      (''TEST_TRANSPORT_CONNECTION_REFUSED'', [''Confirm the targeted service remained ready and listening on the configured port.'',
        ''Inspect container lifecycle and host capacity before retrying the run.'']),
      (''TEST_TRANSPORT_BROKEN_PIPE'', [''Inspect the targeted service and network path for an interrupted response.'',
        ''Retry once after checking container restarts and host pressure.'']),
      (''TEST_TRANSPORT_CLOSED'', [''Check whether the service or Docker network closed while the request was active.'',
        ''Inspect lifecycle evidence before changing the application assertion.'']),
      (''TEST_TRANSPORT_UNEXPECTED_EOF'', [''Inspect the service response and lifecycle evidence for an incomplete connection.'',
        ''Retry after verifying readiness and available host resources.'']),
      (''TEST_TRANSPORT_EOF'', [''Check whether the target closed the connection without a complete response.'',
        ''Inspect service and host evidence before retrying.'']),
      (''TEST_TRANSPORT_BAD_CONNECTION'', [''Inspect the database connection and host evidence around the interruption.'',
        ''Retry once if the driver discarded a stale connection without other provider evidence.'']),
      (''SERVICE_CLEANUP_ERROR'', [''Confirm the Docker host can stop and remove the listed resource.'',
        ''Retry cleanup or report the run ID if the resource remains allocated.'']),
      (''INTERNAL_ERROR'', [''Retry the run once to rule out a transient worker failure.'',
        ''If it repeats, report this run ID with the diagnostic code.''])]"

text \<open>The diagnostic in the inspector: the selected one, or the first.\<close>

definition inspected :: "json list \<Rightarrow> string option \<Rightarrow> json option" where
  "inspected diagnostics selectedKey =
     orElse (List.find (\<lambda>d. Some (diagnosticKey d) = selectedKey) diagnostics)
       (case diagnostics of [] \<Rightarrow> None | d # _ \<Rightarrow> Some d)"

text \<open>Its place; the parts are shown with arrows between them.\<close>

definition inspected_path :: "(string \<times> string) list \<Rightarrow> json option \<Rightarrow> string list" where
  "inspected_path scenarios selected =
     (case selected of
        None \<Rightarrow> []
      | Some d \<Rightarrow>
          filter (\<lambda>part. part \<noteq> [])
            [or_str (Option.bind (as_string (get_prop d ''scenarioId'')) (map_of scenarios)) ''Workflow'',
             nullish (Option.bind (as_string (get_prop d ''stage'')) (map_of DIAGNOSTIC_STAGE_LABELS)) [],
             or_str (first_service d) (nullish (as_string (get_prop d ''testName'')) [])])"

definition inspected_actions :: "string \<Rightarrow> json option \<Rightarrow> string list" where
  "inspected_actions runId selected =
     (case selected of
        None \<Rightarrow> []
      | Some d \<Rightarrow> nullish (Option.bind (as_string (get_prop d ''code'')) (map_of CODE_ACTIONS)) (defaultActions d runId))"

section \<open>Events and logs shown\<close>

definition rawEvents :: "run_page \<Rightarrow> run_event list \<Rightarrow> run_event list" where
  "rawEvents p activities = mergeWorkflowRunEvents [pg_events p, activities]"

definition allEvents :: "run_page \<Rightarrow> run_event list \<Rightarrow> run_event list" where
  "allEvents p activities = operationalWorkflowRunEvents (rawEvents p activities) None"

definition selectedScenarioEvents :: "selection \<Rightarrow> run_event list \<Rightarrow> run_event list" where
  "selectedScenarioEvents s events = filter (\<lambda>e. \<not> truthy_opt (le_scenarioId e) \<or> le_scenarioId e = sl_scenario s) events"

definition filteredEvents :: "string option \<Rightarrow> run_event list \<Rightarrow> run_event list" where
  "filteredEvents serviceFilter events =
     (if truthy_opt serviceFilter then filter (\<lambda>e. eventMatchesService e (the serviceFilter)) events else events)"

definition containerLogs :: "string option \<Rightarrow> test_result list \<Rightarrow> (string \<times> string) list" where
  "containerLogs serviceFilter results =
     concat (map (\<lambda>r. filter (\<lambda>(name, _). \<not> truthy_opt serviceFilter \<or> sanitizeName name = sanitizeName (the serviceFilter))
       (nullish (tt_containerLogs r) [])) results)"

definition clear_service :: "selection \<Rightarrow> selection" where
  "clear_service s = s\<lparr>sl_service := None\<rparr>"

section \<open>Selecting a service\<close>

lemma two_actions: "length (inspected_actions runId (Some d)) = 2"
proof -
  have "list_all (\<lambda>(_, actions). length actions = 2) CODE_ACTIONS" by (simp add: CODE_ACTIONS_def)
  then have "length actions = 2" if "map_of CODE_ACTIONS k = Some actions" for k actions
    using map_of_SomeD [OF that] by (auto simp: list_all_iff)
  then show ?thesis
    by (auto simp: inspected_actions_def defaultActions_def nullish_def bind_eq_Some_conv split: option.split)
qed

definition names_service :: "string \<Rightarrow> json \<Rightarrow> bool" where
  "names_service serviceName d \<longleftrightarrow>
     list_ex (\<lambda>n. sanitizeName n = sanitizeName serviceName) (strings_in (get_prop d ''serviceNames''))"

text \<open>
  Selecting a service on the graph explains it: if any of the listed diagnostics names it, the inspector
  then shows the first one that does, with two actions to take, and the logs are open with only the events
  and container logs that name the service.
\<close>

theorem selected_service_explained:
  assumes "d \<in> set (unique_diagnostics ds)" "names_service serviceName d" "serviceName \<noteq> []"
  shows "let diagnostics = unique_diagnostics ds; s' = onSelectService diagnostics serviceName s;
             shown = inspected diagnostics (sl_diagnostic s')
         in shown = List.find (names_service serviceName) diagnostics \<and> shown \<noteq> None \<and>
            length (inspected_actions runId shown) = 2 \<and> sl_rawOpen s' \<and>
            set (filteredEvents (sl_service s') events) = {e \<in> set events. eventMatchesService e serviceName} \<and>
            set (containerLogs (sl_service s') results) \<subseteq> {(name, log). sanitizeName name = sanitizeName serviceName}"
proof -
  let ?ds = "unique_diagnostics ds"
  have keys: "distinct (map diagnosticKey ?ds)" unfolding unique_diagnostics_def by (rule latest_by_distinct)
  obtain f where f: "List.find (names_service serviceName) ?ds = Some f"
    using assms(1,2) by (cases "List.find (names_service serviceName) ?ds") (auto simp: find_None_iff)
  then have "f \<in> set ?ds" by (auto simp: find_Some_iff)
  then have "inspected ?ds (Some (diagnosticKey f)) = Some f" using find_key [OF keys] by (simp add: inspected_def orElse_def)
  moreover have "onSelectService ?ds serviceName s = s\<lparr>sl_service := Some serviceName, sl_rawOpen := True, sl_diagnostic := Some (diagnosticKey f)\<rparr>"
    using f by (simp add: onSelectService_def names_service_def [abs_def])
  ultimately show ?thesis using two_actions [of runId f] assms(3) f
    by (auto simp: filteredEvents_def containerLogs_def truthy_opt_def)
qed

definition sample_diagnostic :: json where
  "sample_diagnostic = JObj [(''code'', JStr ''TEST_TIMEOUT''), (''serviceNames'', JArr [JStr ''api'', JStr ''db''])]"

theorem selected_service_explained_witness:
  "inspected (unique_diagnostics [sample_diagnostic]) (sl_diagnostic (onSelectService (unique_diagnostics [sample_diagnostic]) ''db''
     \<lparr>sl_scenario = None, sl_diagnostic = None, sl_service = None, sl_rawOpen = False\<rparr>)) = Some sample_diagnostic"
proof -
  have d: "unique_diagnostics [sample_diagnostic] = [sample_diagnostic]" by (simp add: unique_diagnostics_def latest_by_def)
  have "names_service ''db'' sample_diagnostic"
    by (simp add: names_service_def sample_diagnostic_def get_prop_def strings_in_def)
  then show ?thesis
    using selected_service_explained [of sample_diagnostic "[sample_diagnostic]" "''db''"
        "\<lparr>sl_scenario = None, sl_diagnostic = None, sl_service = None, sl_rawOpen = False\<rparr>"]
    by (simp add: d)
qed

text \<open>
  What is selected does not stay: the effect that follows a newly selected diagnostic replaces the clicked
  service by the first service of the diagnostic, so the logs of \<open>api\<close> are shown after a click on \<open>db\<close>.
\<close>

lemma service_selection_moves:
  "sl_service (snd (selection_effects [] [sample_diagnostic] (None, onSelectService [sample_diagnostic] ''db''
     \<lparr>sl_scenario = None, sl_diagnostic = None, sl_service = None, sl_rawOpen = False\<rparr>))) = Some ''api''"
proof -
  have "names_service ''db'' sample_diagnostic" "first_service sample_diagnostic = Some ''api''"
    by (simp_all add: names_service_def first_service_def sample_diagnostic_def get_prop_def strings_in_def)
  then show ?thesis
    by (simp add: onSelectService_def names_service_def selection_effects_def selected_diagnostic_def follow_diagnostic_def)
qed

end
