(* ===== verification/Scenario_Manager.thy ===== *)
theory Scenario_Manager
  imports Test_Form Scenario_Store Translation_Props
begin

text \<open>
  The editor of a workflow's scenarios, \<^verbatim>\<open>src/ui-v2/src/modules/workflow/components/ScenarioManager.tsx\<close>: which
  scenario is shown, its tests and their order, recipes, dragging, and the form of every test. A handler is a
  function of the component's state and the scenario store; it is cut off where a call throws.
  \<open>arrayMove\<close> of dnd-kit and \<open>localeCompare\<close> are parameters.
\<close>

section \<open>State\<close>

record manager_host =
  mh_compare :: "string \<Rightarrow> string \<Rightarrow> int"
  mh_arrayMove :: "scenario_test list \<Rightarrow> nat \<Rightarrow> nat \<Rightarrow> scenario_test list"
  mh_json :: graph_json
  mh_workflows :: workflow_synced
  mh_nodes :: "flow_node list"
  mh_workflowId :: string

record scenario_manager =
  mn_store :: scenario_synced
  mn_expanded :: "string list"
  mn_dragged :: "string option"
  mn_shown :: "string option"

definition manager_scenarios :: "manager_host \<Rightarrow> scenario_manager \<Rightarrow> scenario list" where
  "manager_scenarios H m =
     js_sort (\<lambda>a b. mh_compare H (sm_updated_at (sn_meta b)) (sm_updated_at (sn_meta a)))
       (filter (\<lambda>s. sn_workflowId s = mh_workflowId H \<and> \<not> sm_is_deleted (sn_meta s)) (map snd (sn_scenarios (sy_state (mn_store m)))))"

definition activeScenarioId :: "manager_host \<Rightarrow> scenario_manager \<Rightarrow> string option" where
  "activeScenarioId H m = Option.bind (map_of (sn_activeByWorkflow (sy_state (mn_store m))) (mh_workflowId H)) (\<lambda>a. a)"

definition activeScenario :: "manager_host \<Rightarrow> scenario_manager \<Rightarrow> scenario option" where
  "activeScenario H m =
     orElse (if truthy_opt (activeScenarioId H m) then getScenario (the (activeScenarioId H m)) (mn_store m) else None)
       (case manager_scenarios H m of [] \<Rightarrow> None | s # _ \<Rightarrow> Some s)"

text \<open>The two effects after a render: a scenario is made the active one, and the open rows are closed.\<close>

definition activate_first :: "manager_host \<Rightarrow> scenario_manager \<Rightarrow> scenario_manager" where
  "activate_first H m =
     (case (activeScenario H m, manager_scenarios H m) of
        (None, s # _) \<Rightarrow> m\<lparr>mn_store := setActiveScenario (mh_json H) (mh_workflowId H) (Some (sn_id s)) (mn_store m)\<rparr>
      | _ \<Rightarrow> m)"

definition close_rows :: "manager_host \<Rightarrow> scenario_manager \<Rightarrow> scenario_manager" where
  "close_rows H m =
     (let shown = map_option sn_id (activeScenario H m)
      in if shown = mn_shown m then m else m\<lparr>mn_expanded := [], mn_shown := shown\<rparr>)"

definition toggleTest :: "string \<Rightarrow> scenario_manager \<Rightarrow> scenario_manager" where
  "toggleTest testId m =
     m\<lparr>mn_expanded := if testId \<in> set (mn_expanded m) then set_delete (mn_expanded m) testId else set_add (mn_expanded m) testId\<rparr>"

section \<open>Handlers\<close>

definition with_store :: "scenario_manager \<Rightarrow> unit res \<times> scenario_synced \<Rightarrow> unit res \<times> scenario_manager" where
  "with_store m r = (fst r, m\<lparr>mn_store := snd r\<rparr>)"

text \<open>The update every edit of the tests makes: the tests and their ids as the order.\<close>

definition put_tests :: "manager_host \<Rightarrow> sync_env \<Rightarrow> scenario \<Rightarrow> scenario_test list \<Rightarrow> scenario_manager \<Rightarrow> unit res \<times> scenario_manager" where
  "put_tests H E s tests m =
     with_store m (updateScenario (mh_json H) E (sn_id s)
       \<lparr>up_name = None, up_description = None, up_tests = Some tests, up_testOrder = Some (map st_id tests)\<rparr> (mn_store m))"

definition new_scenario :: "manager_host \<Rightarrow> sync_env \<Rightarrow> string \<Rightarrow> scenario_manager \<Rightarrow> unit res \<times> scenario_manager" where
  "new_scenario H E generated m =
     (case createScenario (mh_json H) E (mh_workflows H) generated (mh_workflowId H)
        (Some (''Scenario '' @ show_nat (length (manager_scenarios H m) + 1))) (mn_store m) of
        (Inl e, store) \<Rightarrow> (Inl e, m\<lparr>mn_store := store\<rparr>)
      | (Inr i, store) \<Rightarrow> (Inr (), m\<lparr>mn_store := setActiveScenario (mh_json H) (mh_workflowId H) (Some i) store\<rparr>))"

definition use_recipe :: "manager_host \<Rightarrow> sync_env \<Rightarrow> scenario \<Rightarrow> scenario_recipe_kind \<Rightarrow> (nat \<Rightarrow> string) \<Rightarrow> scenario_manager \<Rightarrow>
    unit res \<times> scenario_manager" where
  "use_recipe H E s kind generated m =
     (case createScenarioRecipe generated kind (mh_nodes H) of
        Inl e \<Rightarrow> (Inl e, m)
      | Inr recipeTests \<Rightarrow>
          (case put_tests H E s (sn_tests s @ recipeTests) m of
             (Inl e, m') \<Rightarrow> (Inl e, m')
           | (Inr _, m') \<Rightarrow> (Inr (), m'\<lparr>mn_expanded := []\<rparr>)))"

definition add_step :: "manager_host \<Rightarrow> sync_env \<Rightarrow> scenario \<Rightarrow> string \<Rightarrow> scenario_manager \<Rightarrow> unit res \<times> scenario_manager" where
  "add_step H E s generated m =
     (case createDefaultTest THttp (mh_nodes H) [] generated of
        Inl e \<Rightarrow> (Inl e, m)
      | Inr newTest \<Rightarrow>
          (case put_tests H E s (sn_tests s @ [newTest]) m of
             (Inl e, m') \<Rightarrow> (Inl e, m')
           | (Inr _, m') \<Rightarrow> (Inr (), m'\<lparr>mn_expanded := set_add (mn_expanded m') (st_id newTest)\<rparr>)))"

definition delete_step :: "manager_host \<Rightarrow> sync_env \<Rightarrow> scenario \<Rightarrow> string \<Rightarrow> scenario_manager \<Rightarrow> unit res \<times> scenario_manager" where
  "delete_step H E s testId m = put_tests H E s (filter (\<lambda>t. st_id t \<noteq> testId) (sn_tests s)) m"

text \<open>The form of a row has the row's test as its only test; of the tests it passes on the first one is taken.\<close>

definition row_change :: "manager_host \<Rightarrow> sync_env \<Rightarrow> scenario \<Rightarrow> string \<Rightarrow> scenario_test list \<Rightarrow> scenario_manager \<Rightarrow>
    unit res \<times> scenario_manager" where
  "row_change H E s testId updated m =
     (case updated of
        [] \<Rightarrow> (Inr (), m)
      | u # _ \<Rightarrow> put_tests H E s (map (\<lambda>t. if st_id t = testId then u else t) (sn_tests s)) m)"

definition handleDragEnd :: "manager_host \<Rightarrow> sync_env \<Rightarrow> scenario option \<Rightarrow> string \<Rightarrow> string option \<Rightarrow> scenario_manager \<Rightarrow>
    unit res \<times> scenario_manager" where
  "handleDragEnd H E active dragged over m =
     (let m' = m\<lparr>mn_dragged := None\<rparr> in
      case (over, active) of
        (Some target, Some s) \<Rightarrow>
          if dragged = target then (Inr (), m')
          else (case (findIndex (\<lambda>t. st_id t = dragged) (sn_tests s), findIndex (\<lambda>t. st_id t = target) (sn_tests s)) of
                  (Some oldIndex, Some newIndex) \<Rightarrow> put_tests H E s (mh_arrayMove H (sn_tests s) oldIndex newIndex) m'
                | _ \<Rightarrow> (Inr (), m'))
      | _ \<Rightarrow> (Inr (), m'))"

datatype manager_action =
    New_Scenario string
  | Choose_Scenario string
  | Rename_Scenario string
  | Describe_Scenario string
  | Delete_Scenario
  | Use_Recipe scenario_recipe_kind "nat \<Rightarrow> string"
  | Add_Step string
  | Delete_Step string
  | Row_Change string "scenario_test list"
  | Toggle_Row string
  | Drag_Start string
  | Drag_End string "string option"

text \<open>A control of the details is there only with a scenario to show.\<close>

definition in_scenario :: "manager_host \<Rightarrow> scenario_manager \<Rightarrow> (scenario \<Rightarrow> unit res \<times> scenario_manager) \<Rightarrow> unit res \<times> scenario_manager" where
  "in_scenario H m f = (case activeScenario H m of None \<Rightarrow> (Inr (), m) | Some s \<Rightarrow> f s)"

definition manager_step :: "manager_host \<Rightarrow> sync_env \<Rightarrow> manager_action \<Rightarrow> scenario_manager \<Rightarrow> unit res \<times> scenario_manager" where
  "manager_step H E action m =
     (case action of
        New_Scenario i \<Rightarrow> new_scenario H E i m
      | Choose_Scenario i \<Rightarrow>
          if i \<in> set (map sn_id (manager_scenarios H m))
          then (Inr (), m\<lparr>mn_store := setActiveScenario (mh_json H) (mh_workflowId H) (Some i) (mn_store m)\<rparr>) else (Inr (), m)
      | Rename_Scenario name \<Rightarrow>
          in_scenario H m (\<lambda>s. with_store m (updateScenario (mh_json H) E (sn_id s)
            \<lparr>up_name = Some name, up_description = None, up_tests = None, up_testOrder = None\<rparr> (mn_store m)))
      | Describe_Scenario text \<Rightarrow>
          in_scenario H m (\<lambda>s. with_store m (updateScenario (mh_json H) E (sn_id s)
            \<lparr>up_name = None, up_description = Some text, up_tests = None, up_testOrder = None\<rparr> (mn_store m)))
      | Delete_Scenario \<Rightarrow>
          in_scenario H m (\<lambda>s. (Inr (), m\<lparr>mn_store := deleteScenario (mh_json H) E (sn_id s) (mn_store m)\<rparr>))
      | Use_Recipe kind ids \<Rightarrow> in_scenario H m (\<lambda>s. use_recipe H E s kind ids m)
      | Add_Step i \<Rightarrow> in_scenario H m (\<lambda>s. add_step H E s i m)
      | Delete_Step i \<Rightarrow> in_scenario H m (\<lambda>s. delete_step H E s i m)
      | Row_Change i updated \<Rightarrow> in_scenario H m (\<lambda>s. row_change H E s i updated m)
      | Toggle_Row i \<Rightarrow> (Inr (), toggleTest i m)
      | Drag_Start i \<Rightarrow> (Inr (), m\<lparr>mn_dragged := Some i\<rparr>)
      | Drag_End dragged over \<Rightarrow> handleDragEnd H E (activeScenario H m) dragged over m)"

definition settle_manager :: "manager_host \<Rightarrow> scenario_manager \<Rightarrow> scenario_manager" where
  "settle_manager H m = close_rows H (activate_first H m)"

section \<open>What an edit does to the store\<close>

text \<open>A scenario whose order is the order its tests are listed in.\<close>

definition listed_in_order :: "scenario \<Rightarrow> bool" where
  "listed_in_order s \<longleftrightarrow> distinct (map st_id (sn_tests s)) \<and> sn_testOrder s = map st_id (sn_tests s)"

lemma deriveOrder_listed: "deriveOrder tests (Some (map st_id tests)) = map st_id tests"
proof -
  have "filter (\<lambda>i. list_ex (\<lambda>t. st_id t = i) tests) (map st_id tests) = map st_id tests"
    by (auto simp: list_ex_iff intro!: filter_True)
  then show ?thesis by (simp add: deriveOrder_def nullish_def)
qed

lemma in_step_runs_as_listed:
  assumes "listed_in_order s"
  shows "ordered_tests (sn_tests s) (sn_testOrder s) = sn_tests s"
proof -
  have d: "distinct (map st_id (sn_tests s))" and o: "sn_testOrder s = map st_id (sn_tests s)" using assms by (simp_all add: listed_in_order_def)
  have "List.find (\<lambda>u. st_id u = st_id t) (sn_tests s) = Some t" if "t \<in> set (sn_tests s)" for t
    using find_key [OF d that] .
  then have "concat (map (\<lambda>i. case List.find (\<lambda>t. st_id t = i) (sn_tests s) of None \<Rightarrow> [] | Some t \<Rightarrow> [t]) (map st_id ts)) = ts"
    if "set ts \<subseteq> set (sn_tests s)" for ts
    using that by (induction ts) auto
  moreover have "filter (\<lambda>i. list_ex (\<lambda>t. st_id t = i) (sn_tests s)) (map st_id (sn_tests s)) = map st_id (sn_tests s)"
    by (auto simp: list_ex_iff intro!: filter_True)
  ultimately show ?thesis by (simp add: ordered_tests_def o)
qed

definition store_ok :: "scenario_manager \<Rightarrow> bool" where
  "store_ok m \<longleftrightarrow> distinct (map fst (sn_scenarios (sy_state (mn_store m)))) \<and>
     list_all (\<lambda>(i, s). sn_id s = i) (sn_scenarios (sy_state (mn_store m)))"

text \<open>A manager on a store whose active scenario is one of the workflow.\<close>

definition manager_ok :: "manager_host \<Rightarrow> scenario_manager \<Rightarrow> bool" where
  "manager_ok H m \<longleftrightarrow> store_ok m \<and>
     (\<forall>i s. activeScenarioId H m = Some i \<longrightarrow> getScenario i (mn_store m) = Some s \<longrightarrow> sn_workflowId s = mh_workflowId H)"

lemma active_found:
  assumes "manager_ok H m" "activeScenario H m = Some s"
  shows "getScenario (sn_id s) (mn_store m) = Some s \<and> sn_workflowId s = mh_workflowId H"
proof -
  have d: "distinct (map fst (sn_scenarios (sy_state (mn_store m))))"
    "list_all (\<lambda>(i, s). sn_id s = i) (sn_scenarios (sy_state (mn_store m)))" using assms(1) by (simp_all add: manager_ok_def store_ok_def)
  have key: "sn_id s = i" if "getScenario i (mn_store m) = Some s" for i
    using map_of_SomeD [of _ i s] that d(2) by (auto simp: getScenario_def list_all_iff)
  have listed: "getScenario (sn_id s) (mn_store m) = Some s \<and> sn_workflowId s = mh_workflowId H" if "s \<in> set (manager_scenarios H m)"
    using that d by (auto simp: manager_scenarios_def getScenario_def list_all_iff)
  consider i where "activeScenarioId H m = Some i" "getScenario i (mn_store m) = Some s" | "s \<in> set (manager_scenarios H m)"
    using assms(2) by (auto simp: activeScenario_def orElse_def truthy_opt_def split: option.splits list.splits if_splits)
  then show ?thesis
  proof cases
    case 1
    then show ?thesis using key [OF 1(2)] assms(1) by (auto simp: manager_ok_def)
  qed (rule listed)
qed

text \<open>
  The shape of every edit: at most one scenario of the workflow is written, in step if it was in step, and the
  active scenario stays, is none, or is one of the workflow.
\<close>

definition writes :: "manager_host \<Rightarrow> scenario_manager \<Rightarrow> scenario \<Rightarrow> scenario_manager \<Rightarrow> bool" where
  "writes H m x m' \<longleftrightarrow>
     sn_scenarios (sy_state (mn_store m')) = AList.update (sn_id x) x (sn_scenarios (sy_state (mn_store m))) \<and>
     sn_workflowId x = mh_workflowId H \<and>
     (\<forall>s. getScenario (sn_id x) (mn_store m) = Some s \<longrightarrow> sn_workflowId s = mh_workflowId H) \<and>
     ((\<forall>s. getScenario (sn_id x) (mn_store m) = Some s \<longrightarrow> listed_in_order s) \<longrightarrow> listed_in_order x)"

definition manager_edited :: "manager_host \<Rightarrow> scenario_manager \<Rightarrow> scenario_manager \<Rightarrow> bool" where
  "manager_edited H m m' \<longleftrightarrow>
     (sn_scenarios (sy_state (mn_store m')) = sn_scenarios (sy_state (mn_store m)) \<or> (\<exists>x. writes H m x m')) \<and>
     (\<forall>i. activeScenarioId H m' = Some i \<longrightarrow> activeScenarioId H m = Some i \<or>
        (\<exists>s. getScenario i (mn_store m') = Some s \<and> sn_workflowId s = mh_workflowId H))"

lemma edited_same: "mn_store m' = mn_store m \<Longrightarrow> manager_edited H m m'"
  by (simp add: manager_edited_def activeScenarioId_def)

lemma edited_keeps:
  assumes "manager_ok H m" "manager_edited H m m'"
  shows "manager_ok H m'"
    "(\<forall>s. getScenario k (mn_store m) = Some s \<longrightarrow> listed_in_order s) \<Longrightarrow> getScenario k (mn_store m') = Some s' \<Longrightarrow> listed_in_order s'"
    "getScenario k (mn_store m) = Some s \<Longrightarrow> sn_workflowId s \<noteq> mh_workflowId H \<Longrightarrow> getScenario k (mn_store m') = Some s"
proof -
  consider "sn_scenarios (sy_state (mn_store m')) = sn_scenarios (sy_state (mn_store m))" | x where "writes H m x m'"
    using assms(2) by (auto simp: manager_edited_def)
  then have all: "store_ok m' \<and> (\<forall>k s'. getScenario k (mn_store m') = Some s' \<longrightarrow>
       getScenario k (mn_store m) = Some s' \<or> sn_workflowId s' = mh_workflowId H \<and>
         ((\<forall>s. getScenario k (mn_store m) = Some s \<longrightarrow> listed_in_order s) \<longrightarrow> listed_in_order s')) \<and>
     (\<forall>k s. getScenario k (mn_store m) = Some s \<longrightarrow> getScenario k (mn_store m') = Some s \<or>
        sn_workflowId s = mh_workflowId H \<and> (\<exists>s'. getScenario k (mn_store m') = Some s' \<and> sn_workflowId s' = mh_workflowId H))"
  proof cases
    case 1
    then show ?thesis using assms(1) by (simp add: manager_ok_def store_ok_def getScenario_def)
  next
    case (2 x)
    let ?al = "sn_scenarios (sy_state (mn_store m))"
    have g: "getScenario k (mn_store m') = (if k = sn_id x then Some x else getScenario k (mn_store m))" for k
      using 2 by (simp add: writes_def getScenario_def update_conv')
    have "set (AList.update (sn_id x) x ?al) \<subseteq> insert (sn_id x, x) (set ?al)" using update_member by fastforce
    then have "store_ok m'" using assms(1) 2 by (auto simp: writes_def manager_ok_def store_ok_def distinct_update list_all_iff)
    then show ?thesis using 2 by (auto simp: g writes_def)
  qed
  show "manager_ok H m'" using all assms by (fastforce simp: manager_ok_def manager_edited_def)
  show "(\<forall>s. getScenario k (mn_store m) = Some s \<longrightarrow> listed_in_order s) \<Longrightarrow> getScenario k (mn_store m') = Some s' \<Longrightarrow> listed_in_order s'"
    using all by blast
  show "getScenario k (mn_store m) = Some s \<Longrightarrow> sn_workflowId s \<noteq> mh_workflowId H \<Longrightarrow> getScenario k (mn_store m') = Some s"
    using all by blast
qed

section \<open>The shown order is the order of the run\<close>

lemma update_edited:
  assumes "manager_ok H m" "activeScenario H m = Some s"
    and "listed_in_order s \<Longrightarrow> distinct (map st_id (nullish (up_tests u) (sn_tests s)))"
    and "listed_in_order s \<Longrightarrow> nullish (up_testOrder u) (sn_testOrder s) = map st_id (nullish (up_tests u) (sn_tests s))"
  shows "manager_edited H m (snd (with_store m (updateScenario (mh_json H) E (sn_id s) u (mn_store m))))"
proof -
  note s = active_found [OF assms(1,2)]
  let ?st = "snd (updateScenario (mh_json H) E (sn_id s) u (mn_store m))"
  let ?tests = "nullish (up_tests u) (sn_tests s)"
  have active: "sn_activeByWorkflow (sy_state ?st) = sn_activeByWorkflow (sy_state (mn_store m))"
    using s by (simp add: updateScenario_def getScenario_def split: sum.split)
  have "orElse (up_testOrder u) (Some (sn_testOrder s)) = Some (nullish (up_testOrder u) (sn_testOrder s))"
    by (simp add: orElse_def nullish_def split: option.split)
  then have order: "listed_in_order s \<Longrightarrow> deriveOrder ?tests (orElse (up_testOrder u) (Some (sn_testOrder s))) = map st_id ?tests"
    using assms(4) by (simp add: deriveOrder_listed)
  show ?thesis
  proof (cases "bump_metadata E (sn_meta s)")
    case (Inl e)
    then have "sn_scenarios (sy_state ?st) = sn_scenarios (sy_state (mn_store m))"
      using s by (simp add: updateScenario_def getScenario_def)
    then show ?thesis using active by (simp add: manager_edited_def with_store_def activeScenarioId_def)
  next
    case (Inr meta)
    define x where "x = s\<lparr>sn_name := nullish (up_name u) (sn_name s), sn_description := orElse (up_description u) (sn_description s),
      sn_tests := ?tests, sn_testOrder := deriveOrder ?tests (orElse (up_testOrder u) (Some (sn_testOrder s))), sn_meta := meta\<rparr>"
    have x: "sn_id x = sn_id s" "sn_workflowId x = mh_workflowId H" "listed_in_order s \<Longrightarrow> listed_in_order x"
      using s assms(3) order by (simp_all add: x_def listed_in_order_def)
    have "sn_scenarios (sy_state ?st) = AList.update (sn_id s) x (sn_scenarios (sy_state (mn_store m)))"
      using s Inr by (simp add: updateScenario_def getScenario_def x_def)
    then have "writes H m x (snd (with_store m (updateScenario (mh_json H) E (sn_id s) u (mn_store m))))"
      using s x by (simp add: writes_def with_store_def)
    then show ?thesis using active by (auto simp: manager_edited_def with_store_def activeScenarioId_def)
  qed
qed

lemma put_tests_edited:
  assumes "manager_ok H m" "activeScenario H m = Some s" "listed_in_order s \<Longrightarrow> distinct (map st_id tests)" "mn_store m' = mn_store m"
  shows "manager_edited H m (snd (put_tests H E s tests m'))"
proof -
  let ?u = "\<lparr>up_name = None, up_description = None, up_tests = Some tests, up_testOrder = Some (map st_id tests)\<rparr>"
  have "manager_edited H m (snd (with_store m (updateScenario (mh_json H) E (sn_id s) ?u (mn_store m))))"
    using assms by (intro update_edited) (simp_all add: nullish_def)
  then show ?thesis using assms(4) by (simp add: put_tests_def with_store_def manager_edited_def writes_def activeScenarioId_def)
qed

lemma edited_view: "manager_edited H m m' \<Longrightarrow> mn_store m'' = mn_store m' \<Longrightarrow> manager_edited H m m''"
  by (simp add: manager_edited_def writes_def activeScenarioId_def)

text \<open>Ids that are generated are new; the form of a row passes on a test with the row's id or a new one.\<close>

definition new_ids :: "scenario \<Rightarrow> scenario_test list \<Rightarrow> bool" where
  "new_ids s ts \<longleftrightarrow> distinct (map st_id ts) \<and> st_id ` set ts \<inter> st_id ` set (sn_tests s) = {}"

definition sound_action :: "manager_host \<Rightarrow> scenario_manager \<Rightarrow> manager_action \<Rightarrow> bool" where
  "sound_action H m action \<longleftrightarrow>
     (case action of
        New_Scenario i \<Rightarrow> getScenario i (mn_store m) = None
      | Use_Recipe kind ids \<Rightarrow>
          (\<forall>s ts. activeScenario H m = Some s \<longrightarrow> createScenarioRecipe ids kind (mh_nodes H) = Inr ts \<longrightarrow> new_ids s ts)
      | Add_Step i \<Rightarrow> (\<forall>s. activeScenario H m = Some s \<longrightarrow> i \<notin> st_id ` set (sn_tests s))
      | Row_Change i (u # _) \<Rightarrow> (\<forall>s. activeScenario H m = Some s \<longrightarrow> st_id u = i \<or> st_id u \<notin> st_id ` set (sn_tests s))
      | _ \<Rightarrow> True)"

text \<open>What dnd-kit documents of \<open>arrayMove\<close>: an item changes its place.\<close>

definition moves :: "manager_host \<Rightarrow> bool" where
  "moves H \<longleftrightarrow> (\<forall>xs i j. mset (mh_arrayMove H xs i j) = mset xs)"

lemma default_http_id: "createDefaultTest THttp nodes services i = Inr t \<Longrightarrow> st_id t = i"
  by (auto simp: createDefaultTest_def default_http_def bare_test_def bind_res_Inr split: option.splits)

lemma distinct_replace:
  "distinct (map st_id ts) \<Longrightarrow> st_id u = i \<or> st_id u \<notin> st_id ` set ts \<Longrightarrow>
   distinct (map st_id (map (\<lambda>t. if st_id t = i then u else t) ts))"
  by (induction ts) (auto simp: image_iff split: if_splits)

lemma new_scenario_edited:
  assumes "getScenario i (mn_store m) = None"
  shows "manager_edited H m (snd (new_scenario H E i m))"
proof -
  let ?r = "createScenario (mh_json H) E (mh_workflows H) i (mh_workflowId H)
    (Some (''Scenario '' @ show_nat (length (manager_scenarios H m) + 1))) (mn_store m)"
  show ?thesis
  proof (cases "addSyncMetadata E None None None")
    case (Inl e)
    then have "mn_store (snd (new_scenario H E i m)) = mn_store m" by (simp add: new_scenario_def createScenario_def)
    then show ?thesis by (rule edited_same)
  next
    case (Inr meta)
    define x where "x = \<lparr>sn_id = i, sn_projectId = (case getWorkflow (mh_workflowId H) (mh_workflows H) of Some w \<Rightarrow> wf_projectId w | None \<Rightarrow> []),
      sn_workflowId = mh_workflowId H, sn_name = ''Scenario '' @ show_nat (length (manager_scenarios H m) + 1), sn_description = Some [],
      sn_tests = [], sn_testOrder = [], sn_meta = meta\<rparr>"
    obtain st where r: "?r = (Inr i, st)" "sn_id x = i" "sn_workflowId x = mh_workflowId H" "listed_in_order x"
      "sn_scenarios (sy_state st) = AList.update i x (sn_scenarios (sy_state (mn_store m)))"
      using Inr by (simp add: createScenario_def listed_in_order_def x_def nullish_def)
    then have "writes H m x (snd (new_scenario H E i m))"
      using assms by (simp add: writes_def new_scenario_def setActiveScenario_def)
    moreover have "getScenario i (mn_store (snd (new_scenario H E i m))) = Some x"
      using r by (simp add: getScenario_def new_scenario_def setActiveScenario_def update_conv')
    moreover have "activeScenarioId H (snd (new_scenario H E i m)) = Some i"
      using r by (simp add: activeScenarioId_def new_scenario_def setActiveScenario_def update_conv')
    ultimately show ?thesis using r(3) by (auto simp: manager_edited_def)
  qed
qed

lemma chosen_edited:
  assumes "manager_ok H m" "i \<in> set (map sn_id (manager_scenarios H m))"
  shows "manager_edited H m (m\<lparr>mn_store := setActiveScenario (mh_json H) (mh_workflowId H) (Some i) (mn_store m)\<rparr>)"
proof -
  obtain s where "s \<in> set (manager_scenarios H m)" "sn_id s = i" using assms(2) by auto
  then have "getScenario i (mn_store m) = Some s" "sn_workflowId s = mh_workflowId H"
    using assms(1) by (auto simp: manager_scenarios_def getScenario_def manager_ok_def store_ok_def list_all_iff)
  then show ?thesis by (auto simp: manager_edited_def activeScenarioId_def setActiveScenario_def getScenario_def update_conv')
qed

lemma deleted_edited:
  assumes "manager_ok H m" "activeScenario H m = Some s"
  shows "manager_edited H m (m\<lparr>mn_store := deleteScenario (mh_json H) E (sn_id s) (mn_store m)\<rparr>)" (is "manager_edited H m ?m")
proof -
  note s = active_found [OF assms]
  let ?x = "s\<lparr>sn_meta := markAsDeleted E (sn_meta s)\<rparr>"
  have "writes H m ?x ?m" using s by (simp add: writes_def deleteScenario_def getScenario_def listed_in_order_def)
  moreover have "activeScenarioId H ?m = Some i \<Longrightarrow> activeScenarioId H m = Some i" for i
    using s by (auto simp: activeScenarioId_def deleteScenario_def getScenario_def update_conv' split: if_splits)
  ultimately show ?thesis by (auto simp: manager_edited_def)
qed

lemma drag_edited:
  assumes "manager_ok H m" "moves H"
  shows "manager_edited H m (snd (handleDragEnd H E (activeScenario H m) dragged over m))"
proof -
  have "distinct (map st_id (mh_arrayMove H ts i j)) = distinct (map st_id ts)" for ts i j
    using assms(2) by (metis moves_def mset_eq_imp_distinct_iff mset_map)
  then show ?thesis using assms(1)
    by (auto simp: handleDragEnd_def listed_in_order_def intro: edited_same put_tests_edited split: option.split)
qed

lemma step_edited:
  assumes ok: "manager_ok H m" and "moves H" and sound: "sound_action H m action"
  shows "manager_edited H m (snd (manager_step H E action m))"
proof -
  have details: "manager_edited H m (snd (in_scenario H m f))" if "\<And>s. activeScenario H m = Some s \<Longrightarrow> manager_edited H m (snd (f s))" for f
    using that by (auto simp: in_scenario_def intro: edited_same split: option.split)
  have wording: "manager_edited H m (snd (with_store m (updateScenario (mh_json H) E (sn_id s) u (mn_store m))))"
    if "activeScenario H m = Some s" "up_tests u = None" "up_testOrder u = None" for s u
    using that ok by (intro update_edited) (simp_all add: listed_in_order_def nullish_def)
  have more: "manager_edited H m (snd (put_tests H E s (sn_tests s @ ts) m))" if "activeScenario H m = Some s" "new_ids s ts" for s ts
    using that ok by (intro put_tests_edited) (auto simp: listed_in_order_def new_ids_def)
  show ?thesis
  proof (cases action)
    case (Use_Recipe kind ids)
    have "manager_edited H m (snd (use_recipe H E s kind ids m))" if "activeScenario H m = Some s" for s
    proof (cases "createScenarioRecipe ids kind (mh_nodes H)")
      case (Inr ts)
      then have "new_ids s ts" using sound that by (auto simp: Use_Recipe sound_action_def)
      from more [OF that this] show ?thesis by (auto simp: use_recipe_def Inr intro: edited_view split: sum.split prod.split)
    qed (simp add: use_recipe_def edited_same)
    then show ?thesis by (simp add: Use_Recipe manager_step_def details)
  next
    case (Add_Step i)
    have "manager_edited H m (snd (add_step H E s i m))" if "activeScenario H m = Some s" for s
    proof (cases "createDefaultTest THttp (mh_nodes H) [] i")
      case (Inr t)
      then have "new_ids s [t]" using default_http_id sound that by (auto simp: Add_Step sound_action_def new_ids_def)
      from more [OF that this] show ?thesis by (auto simp: add_step_def Inr intro: edited_view split: sum.split prod.split)
    qed (simp add: add_step_def edited_same)
    then show ?thesis by (simp add: Add_Step manager_step_def details)
  next
    case (Delete_Step i)
    have "manager_edited H m (snd (delete_step H E s i m))" if "activeScenario H m = Some s" for s
      using that ok by (auto simp: delete_step_def listed_in_order_def distinct_map_filter intro!: put_tests_edited)
    then show ?thesis by (simp add: Delete_Step manager_step_def details)
  next
    case (Row_Change i updated)
    have "manager_edited H m (snd (row_change H E s i updated m))" if "activeScenario H m = Some s" for s
    proof (cases updated)
      case (Cons u us)
      then have "listed_in_order s \<Longrightarrow> distinct (map st_id (map (\<lambda>t. if st_id t = i then u else t) (sn_tests s)))"
        using sound that by (intro distinct_replace) (auto simp: Row_Change sound_action_def listed_in_order_def)
      from put_tests_edited [OF ok that this] show ?thesis by (simp add: row_change_def Cons)
    qed (simp add: row_change_def edited_same)
    then show ?thesis by (simp add: Row_Change manager_step_def details)
  qed (use assms in \<open>auto simp: manager_step_def sound_action_def toggleTest_def intro!: details wording deleted_edited drag_edited
      new_scenario_edited chosen_edited intro: edited_same\<close>)
qed

text \<open>A session: renders with their effects, and sound actions, failed ones included.\<close>

inductive manager_session :: "manager_host \<Rightarrow> scenario_manager \<Rightarrow> scenario_manager \<Rightarrow> bool" for H where
  opened: "manager_session H m m"
| settled: "manager_session H m m' \<Longrightarrow> manager_session H m (settle_manager H m')"
| acted: "manager_session H m m' \<Longrightarrow> sound_action H m' action \<Longrightarrow> manager_session H m (snd (manager_step H E action m'))"

lemma none_active: "activeScenario H m = None \<Longrightarrow> manager_scenarios H m = []"
  by (auto simp: activeScenario_def orElse_def split: option.splits list.splits)

lemma activate_first_idle: "activate_first H m = m"
  using none_active [of H m] by (auto simp: activate_first_def split: option.split list.split)

lemma settle_store: "mn_store (settle_manager H m) = mn_store m"
  by (simp add: settle_manager_def activate_first_idle close_rows_def)

lemma manager_ok_store: "mn_store m' = mn_store m \<Longrightarrow> manager_ok H m' = manager_ok H m"
  by (simp add: manager_ok_def store_ok_def activeScenarioId_def)


definition sample_manager_host :: manager_host where
  "sample_manager_host = \<lparr>mh_compare = (\<lambda>_ _. 0), mh_arrayMove = (\<lambda>xs i j. let x = xs ! i; ys = take i xs @ drop (Suc i) xs in
       if i < length xs then take j ys @ [x] @ drop j ys else xs),
     mh_json = sample_json, mh_workflows = sample_store, mh_nodes = [], mh_workflowId = ''w1''\<rparr>"

definition sample_manager :: scenario_manager where
  "sample_manager = \<lparr>mn_store = sample_scenarios, mn_expanded = [], mn_dragged = None, mn_shown = None\<rparr>"

lemma sample_moves: "moves sample_manager_host"
proof -
  have "mset (take j (take i xs @ drop (Suc i) xs) @ [xs ! i] @ drop j (take i xs @ drop (Suc i) xs)) = mset xs"
    if "i < length xs" for xs :: "scenario_test list" and i j
  proof -
    have "mset (take j ys @ [x] @ drop j ys) = add_mset x (mset ys)" for ys and x :: scenario_test
      by (metis append_take_drop_id mset.simps(2) mset_append union_mset_add_mset_left union_mset_add_mset_right append_Cons append_Nil)
    then show ?thesis using that by (metis id_take_nth_drop mset.simps(2) mset_append union_mset_add_mset_right)
  qed
  then show ?thesis by (simp add: moves_def sample_manager_host_def)
qed

lemma sample_manager_shows:
  "\<not> Option.is_none (activeScenario sample_manager_host (snd (manager_step sample_manager_host sample_env (Add_Step ''a'') sample_manager)))"
  by code_simp


section \<open>The form of a row\<close>

text \<open>
  The form of a step has buttons to add and to remove a test, and neither works there: an added test is
  dropped, because only the first test the form passes on is taken, and a removal passes on no test.
\<close>

lemma row_form_adds_nothing:
  assumes "form_action F expert nodes services (Add_Test i) \<lparr>tf_localTests = [t], tf_delayUnits = units, tf_calls = []\<rparr> = Inr f"
    and "listed_in_order s" "t \<in> set (sn_tests s)" "tf_calls f = [passed]"
  shows "row_change H E s (st_id t) passed m = put_tests H E s (sn_tests s) m"
proof -
  obtain u where "passed = [t, u]" using assms(1,4) by (auto simp: updateTests_def bind_res_Inr)
  moreover have "map (\<lambda>x. if st_id x = st_id t then t else x) (sn_tests s) = sn_tests s"
    using assms(2,3) by (intro map_idI) (auto simp: listed_in_order_def distinct_map inj_on_def)
  ultimately show ?thesis by (simp add: row_change_def)
qed

lemma row_form_removes_nothing:
  assumes "form_action F expert nodes services (Remove_Test (st_id t)) \<lparr>tf_localTests = [t], tf_delayUnits = units, tf_calls = []\<rparr> = Inr f"
    and "tf_calls f = [passed]"
  shows "row_change H E s (st_id t) passed m = (Inr (), m)"
  using assms by (auto simp: updateTests_def row_change_def)

end
