(* ===== verification/Service_Form.thy ===== *)
theory Service_Form
  imports Defaults Run_Start
begin

text \<open>
  The configuration of a service: the editor of MockServer expectations
  (\<^verbatim>\<open>MockServerExpectationEditor.tsx\<close>), the form (\<^verbatim>\<open>ServiceConfigForm.tsx\<close>) and the dialog that
  holds it (\<^verbatim>\<open>NodeConfigDialog.tsx\<close>), all under \<^verbatim>\<open>src/ui-v2/src/modules/workflow/components\<close>. Of
  react-hook-form the form uses the values it reports and the calls it takes: the handlers return the list of
  calls they make, and what is passed on is a function of the reported values.
\<close>

section \<open>MockServer expectations\<close>

type_synonym header_list = "(string \<times> string) list"

definition moveExpectation :: "nat \<Rightarrow> int \<Rightarrow> 'a list \<Rightarrow> 'a list option" where
  "moveExpectation index offset expectations =
     (let target = int index + offset
      in if target < 0 \<or> int (length expectations) \<le> target then None
         else Some (expectations[index := expectations ! nat target, nat target := expectations ! index]))"

definition updateExpectation :: "string option \<Rightarrow> (mock_expectation \<Rightarrow> mock_expectation) \<Rightarrow> mock_expectation list \<Rightarrow> mock_expectation list" where
  "updateExpectation i update expectations = map (\<lambda>e. if exp_id e = i then update e else e) expectations"

definition quote :: string where
  "quote = [CHR 0x22]"

definition addExpectation :: "string \<Rightarrow> mock_expectation list \<Rightarrow> mock_expectation list" where
  "addExpectation generated expectations =
     expectations @
     [\<lparr>exp_id = Some generated,
       exp_request = Some \<lparr>req_method = Some ''GET'', req_path = Some ''/api/example'', req_headers = Some [], req_body = None\<rparr>,
       exp_response = Some \<lparr>rsp_statusCode = Some 200, rsp_headers = Some [(''Content-Type'', ''application/json'')],
         rsp_body = Some (''{'' @ quote @ ''message'' @ quote @ '':'' @ quote @ ''ok'' @ quote @ ''}'')\<rparr>\<rparr>]"

definition removeExpectation :: "string option \<Rightarrow> mock_expectation list \<Rightarrow> mock_expectation list" where
  "removeExpectation i expectations = filter (\<lambda>e. exp_id e \<noteq> i) expectations"

text \<open>The loop that looks for an unused header name.\<close>

definition numbered_header :: "nat \<Rightarrow> string" where
  "numbered_header n = ''X-Header-'' @ show_nat n"

lemma finite_numbered: "finite {n. numbered_header n \<in> dom h}" if "finite (dom h)" for h :: "string \<rightharpoonup> string"
proof (rule finite_imageD)
  show "finite (numbered_header ` {n. numbered_header n \<in> dom h})" by (rule finite_subset [of _ "dom h"]) (use that in auto)
  show "inj_on numbered_header {n. numbered_header n \<in> dom h}" by (auto simp: inj_on_def numbered_header_def dest: show_nat_inj)
qed

function header_suffix :: "header_list \<Rightarrow> nat \<Rightarrow> nat" where
  "header_suffix headers n = (if map_of headers (numbered_header n) \<noteq> None then header_suffix headers (n + 1) else n)"
  by auto
termination
proof (relation "measure (\<lambda>(headers, n). card {m. n \<le> m \<and> numbered_header m \<in> dom (map_of headers)})")
  fix headers :: header_list and n :: nat
  assume "map_of headers (numbered_header n) \<noteq> None"
  then have "n \<in> {m. n \<le> m \<and> numbered_header m \<in> dom (map_of headers)}" by auto
  moreover have "{m. n + 1 \<le> m \<and> numbered_header m \<in> dom (map_of headers)} =
      {m. n \<le> m \<and> numbered_header m \<in> dom (map_of headers)} - {n}" by auto
  moreover have "finite {m. n \<le> m \<and> numbered_header m \<in> dom (map_of headers)}"
    by (rule finite_subset [OF _ finite_numbered [OF finite_dom_map_of]]) blast
  ultimately have "card {m. n + 1 \<le> m \<and> numbered_header m \<in> dom (map_of headers)} <
      card {m. n \<le> m \<and> numbered_header m \<in> dom (map_of headers)}" by (metis card_Diff1_less)
  then show "((headers, n + 1), headers, n) \<in> measure (\<lambda>(headers, n). card {m. n \<le> m \<and> numbered_header m \<in> dom (map_of headers)})" by simp
qed simp

declare header_suffix.simps [simp del]

definition new_header :: "header_list \<Rightarrow> string" where
  "new_header headers =
     (if map_of headers ''X-Header'' = None then ''X-Header'' else numbered_header (header_suffix headers 2))"

datatype header_edit = Header_Add | Header_Name string string | Header_Value string string | Header_Remove string

text \<open>The controls of a header are there for the headers that are listed.\<close>

definition HeaderFields :: "header_edit \<Rightarrow> header_list \<Rightarrow> header_list" where
  "HeaderFields edit headers =
     (case edit of
        Header_Add \<Rightarrow> AList.update (new_header headers) [] headers
      | Header_Name name typed \<Rightarrow>
          (case map_of headers name of None \<Rightarrow> headers | Some v \<Rightarrow> AList.update typed v (AList.delete name headers))
      | Header_Value name v \<Rightarrow> if map_of headers name = None then headers else AList.update name v headers
      | Header_Remove name \<Rightarrow> AList.delete name headers)"

datatype expectation_edit =
    Request_Method "string option" | Request_Path string | Request_Headers header_edit | Request_Body string
  | Response_Status int | Response_Headers header_edit | Response_Body string

definition empty_request :: expectation_request where
  "empty_request = \<lparr>req_method = None, req_path = None, req_headers = None, req_body = None\<rparr>"

definition empty_response :: expectation_response where
  "empty_response = \<lparr>rsp_statusCode = None, rsp_headers = None, rsp_body = None\<rparr>"

definition on_request :: "(expectation_request \<Rightarrow> expectation_request) \<Rightarrow> mock_expectation \<Rightarrow> mock_expectation" where
  "on_request f e = e\<lparr>exp_request := Some (f (nullish (exp_request e) empty_request))\<rparr>"

definition on_response :: "(expectation_response \<Rightarrow> expectation_response) \<Rightarrow> mock_expectation \<Rightarrow> mock_expectation" where
  "on_response f e = e\<lparr>exp_response := Some (f (nullish (exp_response e) empty_response))\<rparr>"

text \<open>The status is what \<open>Number\<close> makes of the text, where that is an integer.\<close>

definition edit_expectation :: "expectation_edit \<Rightarrow> mock_expectation \<Rightarrow> mock_expectation" where
  "edit_expectation edit =
     (case edit of
        Request_Method m \<Rightarrow> on_request (\<lambda>r. r\<lparr>req_method := Some (nullish m ''GET'')\<rparr>)
      | Request_Path p \<Rightarrow> on_request (\<lambda>r. r\<lparr>req_path := Some p\<rparr>)
      | Request_Headers h \<Rightarrow> on_request (\<lambda>r. r\<lparr>req_headers := Some (HeaderFields h (nullish (req_headers r) []))\<rparr>)
      | Request_Body b \<Rightarrow> on_request (\<lambda>r. r\<lparr>req_body := Some b\<rparr>)
      | Response_Status n \<Rightarrow> on_response (\<lambda>r. r\<lparr>rsp_statusCode := Some n\<rparr>)
      | Response_Headers h \<Rightarrow> on_response (\<lambda>r. r\<lparr>rsp_headers := Some (HeaderFields h (nullish (rsp_headers r) []))\<rparr>)
      | Response_Body b \<Rightarrow> on_response (\<lambda>r. r\<lparr>rsp_body := Some b\<rparr>))"

datatype mock_action =
    Add_Expectation string | Move_Expectation nat int | Remove_Expectation "string option"
  | Edit_Expectation "string option" expectation_edit

definition MockServerExpectationEditor :: "mock_action \<Rightarrow> mock_expectation list \<Rightarrow> mock_expectation list" where
  "MockServerExpectationEditor action expectations =
     (case action of
        Add_Expectation i \<Rightarrow> addExpectation i expectations
      | Move_Expectation index offset \<Rightarrow> nullish (moveExpectation index offset expectations) expectations
      | Remove_Expectation i \<Rightarrow> removeExpectation i expectations
      | Edit_Expectation i edit \<Rightarrow> updateExpectation i (edit_expectation edit) expectations)"

subsection \<open>What the editor keeps\<close>

lemma header_suffix_free: "map_of headers (numbered_header (header_suffix headers n)) = None"
  by (induction headers n rule: header_suffix.induct) (subst header_suffix.simps, simp)

lemma new_header_free: "map_of headers (new_header headers) = None"
  by (simp add: new_header_def header_suffix_free)

definition request_method :: "mock_expectation \<Rightarrow> string option" where
  "request_method e = Option.bind (exp_request e) req_method"

text \<open>Header names are the keys of an object; ids and methods are what the controls produce.\<close>

definition expectation_ok :: "mock_expectation \<Rightarrow> bool" where
  "expectation_ok e \<longleftrightarrow>
     truthy_opt (map_option trim (exp_id e)) \<and> request_method e \<in> set (map Some HTTP_METHODS) \<and>
     distinct (header_names (Option.bind (exp_request e) req_headers)) \<and>
     distinct (header_names (Option.bind (exp_response e) rsp_headers))"

definition editor_ok :: "mock_expectation list \<Rightarrow> bool" where
  "editor_ok es \<longleftrightarrow> distinct (map exp_id es) \<and> list_all expectation_ok es"

text \<open>What can be typed wrongly: the path, the status and the names of headers.\<close>

definition typed_well :: "mock_expectation \<Rightarrow> bool" where
  "typed_well e \<longleftrightarrow>
     (case Option.bind (exp_request e) req_path of Some p \<Rightarrow> prefix ''/'' p | None \<Rightarrow> False) \<and>
     (case Option.bind (exp_response e) rsp_statusCode of Some n \<Rightarrow> 100 \<le> n \<and> n \<le> 599 | None \<Rightarrow> True) \<and>
     list_all header_name_ok (header_names (Option.bind (exp_request e) req_headers) @
       header_names (Option.bind (exp_response e) rsp_headers))"

fun sound_mock :: "mock_action \<Rightarrow> mock_expectation list \<Rightarrow> bool" where
  "sound_mock (Add_Expectation i) es = (trim i \<noteq> [] \<and> Some i \<notin> exp_id ` set es)"
| "sound_mock (Move_Expectation index offset) es = (index < length es)"
| "sound_mock (Edit_Expectation i (Request_Method m)) es = (nullish m ''GET'' \<in> set HTTP_METHODS)"
| "sound_mock _ es = True"

fun mock_session :: "mock_action list \<Rightarrow> mock_expectation list \<Rightarrow> mock_expectation list \<Rightarrow> bool" where
  "mock_session [] es es' = (es' = es)"
| "mock_session (a # as) es es' = (sound_mock a es \<and> mock_session as (MockServerExpectationEditor a es) es')"

lemma HeaderFields_distinct: "distinct (map fst headers) \<Longrightarrow> distinct (map fst (HeaderFields edit headers))"
  by (auto simp: HeaderFields_def distinct_update distinct_delete split: header_edit.split option.split)

lemma edit_expectation_id: "exp_id (edit_expectation edit e) = exp_id e"
  by (simp add: edit_expectation_def on_request_def on_response_def split: expectation_edit.split)

lemma edit_expectation_ok:
  assumes "expectation_ok e" "sound_mock (Edit_Expectation i edit) es"
  shows "expectation_ok (edit_expectation edit e)"
proof -
  obtain r where r: "exp_request e = Some r" using assms(1) by (cases "exp_request e") (auto simp: expectation_ok_def request_method_def)
  have "distinct (map fst (nullish (rsp_headers (nullish (exp_response e) empty_response)) []))"
    using assms(1) by (cases "exp_response e") (auto simp: expectation_ok_def header_names_def empty_response_def nullish_def)
  then show ?thesis using assms
    by (cases edit) (auto simp: edit_expectation_def on_request_def on_response_def expectation_ok_def request_method_def header_names_def r
        nullish_def empty_response_def intro!: HeaderFields_distinct split: option.splits)
qed

lemma expectation_errors_none:
  assumes "expectation_ok e"
  shows "expectation_errors node seen e = [] \<longleftrightarrow> exp_id e \<notin> set seen \<and> typed_well e"
proof -
  have "Option.bind (exp_request e) req_method \<in> set (map Some HTTP_METHODS)" "truthy_opt (map_option trim (exp_id e))"
    using assms by (simp_all add: expectation_ok_def request_method_def)
  moreover have "(case Option.bind (exp_request e) req_path of
      Some (c # x) \<Rightarrow> if c = CHR ''/'' then [] else [v] | _ \<Rightarrow> [v]) = [] \<longleftrightarrow>
      (case Option.bind (exp_request e) req_path of Some p \<Rightarrow> prefix ''/'' p | None \<Rightarrow> False)" for v :: translation_error
    by (auto split: option.splits list.splits)
  ultimately show ?thesis
    unfolding expectation_errors_def typed_well_def Let_def
    by (auto simp: filter_empty_conv list_all_iff not_less split: option.splits)
qed

lemma expectations_errors_none:
  "editor_ok es \<Longrightarrow> expectations_errors node seen es = [] \<longleftrightarrow> exp_id ` set es \<inter> set seen = {} \<and> list_all typed_well es"
proof (induction es arbitrary: seen)
  case (Cons e es)
  then show ?case using Cons.IH [of "set_add seen (exp_id e)"]
    by (auto simp: editor_ok_def expectation_errors_none)
qed simp

lemma editor_keeps: "editor_ok es \<Longrightarrow> sound_mock a es \<Longrightarrow> editor_ok (MockServerExpectationEditor a es)"
proof (cases a)
  case (Move_Expectation index offset)
  assume ok: "editor_ok es" and sound: "sound_mock a es"
  have "mset (nullish (moveExpectation index offset es) es) = mset es"
    using sound by (auto simp: Move_Expectation moveExpectation_def nullish_def nat_less_iff intro: mset_swap)
  then have "distinct (map exp_id (nullish (moveExpectation index offset es) es)) = distinct (map exp_id es)"
    "set (nullish (moveExpectation index offset es) es) = set es"
    by (metis mset_eq_imp_distinct_iff mset_map, metis set_mset_mset)
  then show ?thesis using ok by (simp add: editor_ok_def MockServerExpectationEditor_def Move_Expectation list_all_iff)
next
  case (Edit_Expectation i edit)
  assume ok: "editor_ok es" and sound: "sound_mock a es"
  have "map exp_id (updateExpectation i (edit_expectation edit) es) = map exp_id es"
    by (simp add: updateExpectation_def edit_expectation_id)
  moreover have "list_all expectation_ok (updateExpectation i (edit_expectation edit) es)"
    using ok sound edit_expectation_ok by (auto simp: editor_ok_def updateExpectation_def list_all_iff Edit_Expectation)
  ultimately show ?thesis using ok by (simp add: editor_ok_def MockServerExpectationEditor_def Edit_Expectation)
qed (auto simp: editor_ok_def MockServerExpectationEditor_def addExpectation_def removeExpectation_def expectation_ok_def request_method_def
    HTTP_METHODS_def header_names_def nullish_def truthy_opt_def list_all_iff distinct_map_filter)

text \<open>
  The editor of mocked endpoints produces sound expectations: whatever is added, moved, removed and edited,
  ids stay distinct and not blank, methods known and header names distinct, so that validating the service
  can object to nothing but a typed path, status or header name.
\<close>

theorem mock_editor_is_sound:
  assumes "mock_session as es es'" "editor_ok es"
  shows "editor_ok es' \<and> (expectations_errors node [] es' = [] \<longleftrightarrow> list_all typed_well es')"
proof -
  have "editor_ok es'" using assms by (induction as arbitrary: es) (auto simp: editor_keeps)
  then show ?thesis using expectations_errors_none [of es' node "[]"] by simp
qed

theorem mock_editor_is_sound_witness:
  "expectations_errors (sample_node ''mock'' MockServer) [] (MockServerExpectationEditor (Add_Expectation ''e'') []) = []"
proof -
  have "trim ''e'' \<noteq> []" by (rule trim_starts) (simp add: is_space_def)
  then have "mock_session [Add_Expectation ''e''] [] (MockServerExpectationEditor (Add_Expectation ''e'') [])" by simp
  moreover have "list_all typed_well (MockServerExpectationEditor (Add_Expectation ''e'') [])" by code_simp
  moreover have "editor_ok []" by (simp add: editor_ok_def)
  ultimately show ?thesis using mock_editor_is_sound by blast
qed

text \<open>
  A header that is given the name of another one takes its place: typing over a name loses every header whose
  name is met on the way.
\<close>

lemma renamed_header_replaces_other:
  "HeaderFields (Header_Name ''X-Header'' ''Accept'') [(''Accept'', ''json''), (''X-Header'', ''1'')] = [(''Accept'', ''1'')]"
  by (simp add: HeaderFields_def)

section \<open>References that are suggested\<close>

definition toReferenceToken :: "json option \<Rightarrow> string option" where
  "toReferenceToken v =
     (case v of
        Some (JStr s) \<Rightarrow> (if trim s = [] then None else Some (trim s))
      | Some (JNum n) \<Rightarrow> Some (js_text (JNum n))
      | _ \<Rightarrow> None)"

record available_service =
  av_name :: string
  av_ports :: "port_mapping list"
  av_env :: "env_var list"

text \<open>The other services of the graph, as the dialog hands them to the form.\<close>

definition availableServices :: "flow_node list \<Rightarrow> string \<Rightarrow> available_service list" where
  "availableServices nodes edited =
     map (\<lambda>n. \<lparr>av_name = sanitizeName (if nd_label (fn_data n) = [] then fn_id n else nd_label (fn_data n)),
               av_ports = nullish (Option.bind (nd_service (fn_data n)) svc_ports) [],
               av_env = nullish (Option.bind (nd_service (fn_data n)) svc_env) []\<rparr>)
       (filter (\<lambda>n. fn_id n \<noteq> edited \<and> map_of (fn_attrs n) ''type'' = Some (JStr ''serviceNode'')) nodes)"

definition text_token :: "string \<Rightarrow> string option" where
  "text_token s = toReferenceToken (Some (JStr s))"

definition service_suggestions :: "available_service \<Rightarrow> string list" where
  "service_suggestions service =
     (case text_token (av_name service) of
        None \<Rightarrow> []
      | Some name \<Rightarrow>
          (''${'' @ name @ ''.host}'') #
          List.map_filter (\<lambda>p. map_option (\<lambda>port. ''${'' @ name @ ''.port.'' @ port @ ''}'') (text_token (pm_containerPort p))) (av_ports service) @
          List.map_filter (\<lambda>e. map_option (\<lambda>k. ''${'' @ name @ ''.env.'' @ k @ ''}'') (text_token (ev_key e))) (av_env service))"

definition all_suggestions :: "available_service list \<Rightarrow> string list" where
  "all_suggestions services = set_of (concat (map service_suggestions services))"

definition filteredSuggestions :: "available_service list \<Rightarrow> string \<Rightarrow> string list" where
  "filteredSuggestions services v = filter (\<lambda>s. includes_str (toLowerCase s) (toLowerCase v)) (all_suggestions services)"

section \<open>The form\<close>

record service_form_data =
  sf_label :: "string option"
  sf_description :: "string option"
  sf_serviceType :: "service_type option"
  sf_image :: "string option"
  sf_command :: "(string \<times> string) list"
  sf_env :: "env_var list"
  sf_ports :: "port_mapping list"
  sf_waitEnabled :: bool
  sf_waitType :: "wait_type option"
  sf_waitTarget :: "string option"
  sf_waitTimeout :: "int option"
  sf_initScripts :: "init_script list"

definition form_values :: "(nat \<Rightarrow> string) \<Rightarrow> node_data \<Rightarrow> node_service \<Rightarrow> service_form_data" where
  "form_values ids d service =
     \<lparr>sf_label = Some (nd_label d), sf_description = nd_description d, sf_serviceType = Some (svc_type service), sf_image = svc_image service,
      sf_command = map (\<lambda>(n, c). (ids n, c)) (enumerate 0 (nullish (svc_command service) [])),
      sf_env = nullish (svc_env service) [], sf_ports = nullish (svc_ports service) [],
      sf_waitEnabled = (case svc_wait service of Some w \<Rightarrow> ws_enabled w | None \<Rightarrow> False),
      sf_waitType = Some (case svc_wait service of Some w \<Rightarrow> ws_type w | None \<Rightarrow> WaitLog),
      sf_waitTarget = Option.bind (svc_wait service) ws_target, sf_waitTimeout = Option.bind (svc_wait service) ws_timeout,
      sf_initScripts = nullish (svc_initScripts service) []\<rparr>"

text \<open>What the form passes on when it reports values.\<close>

definition form_change :: "node_data \<Rightarrow> node_service \<Rightarrow> service_form_data \<Rightarrow> node_data" where
  "form_change d service v =
     d\<lparr>nd_label := nullish (sf_label v) (nd_label d), nd_description := sf_description v,
       nd_service := Some (service\<lparr>svc_type := nullish (sf_serviceType v) (svc_type service), svc_image := sf_image v,
         svc_command := Some (filter (\<lambda>c. trim c \<noteq> []) (map snd (sf_command v))),
         svc_env := Some (sf_env v), svc_ports := Some (sf_ports v),
         svc_wait := (if sf_waitEnabled v
           then Some \<lparr>ws_enabled = True, ws_type = nullish (sf_waitType v) WaitLog, ws_target = sf_waitTarget v, ws_timeout = sf_waitTimeout v\<rparr>
           else None),
         svc_initScripts := Some (sf_initScripts v),
         svc_mockServer := (if sf_serviceType v = Some MockServer then Some (nullish (svc_mockServer service) []) else None)\<rparr>)\<rparr>"

definition mock_change :: "node_data \<Rightarrow> node_service \<Rightarrow> mock_expectation list \<Rightarrow> node_data" where
  "mock_change d service expectations =
     d\<lparr>nd_service := Some (service\<lparr>svc_type := MockServer, svc_mockServer := Some expectations\<rparr>)\<rparr>"

fun getPresetsForServiceType :: "service_type \<Rightarrow> (string \<times> string) list" where
  "getPresetsForServiceType Postgres = [(''POSTGRES_USER'', ''postgres''), (''POSTGRES_PASSWORD'', ''postgres''), (''POSTGRES_DB'', ''mydb'')]"
| "getPresetsForServiceType MySQL =
     [(''MYSQL_ROOT_PASSWORD'', ''root''), (''MYSQL_DATABASE'', ''mydb''), (''MYSQL_USER'', ''user''), (''MYSQL_PASSWORD'', ''password'')]"
| "getPresetsForServiceType MariaDB = [(''MARIA_DB'', ''mydb''), (''MARIA_USER'', ''root''), (''MARIA_PASSWORD'', ''root'')]"
| "getPresetsForServiceType Redis = [(''REDIS_PASSWORD'', [])]"
| "getPresetsForServiceType Kafka =
     [(''CLUSTER_ID'', ''test-cluster''), (''KAFKA_BROKERS'', ''Broker1,Broker2''), (''KAFKA_PROTOCOL'', ''PLAINTEXT'')]"
| "getPresetsForServiceType RabbitMQ = [(''RABBITMQ_DEFAULT_USER'', ''guest''), (''RABBITMQ_DEFAULT_PASS'', ''guest'')]"
| "getPresetsForServiceType MongoDB =
     [(''MONGO_INITDB_DATABASE'', ''testdb''), (''MONGO_INITDB_ROOT_USERNAME'', ''admin''), (''MONGO_INITDB_ROOT_PASSWORD'', ''admin'')]"
| "getPresetsForServiceType _ = []"

text \<open>The calls of \<open>appendEnv\<close> and \<open>setValue\<close> a handler makes.\<close>

datatype form_call =
    Append_Env env_var
  | Set_Type service_type
  | Set_Image "string option"
  | Set_Env "env_var list"
  | Set_Ports "port_mapping list"
  | Set_Wait bool wait_type "string option" "int option"

definition handleLoadPresets :: "(nat \<Rightarrow> string) \<Rightarrow> service_type \<Rightarrow> env_var list \<Rightarrow> form_call list" where
  "handleLoadPresets ids type envFields =
     map (\<lambda>(n, k, v). Append_Env \<lparr>ev_id = ids n, ev_key = k, ev_value = v\<rparr>)
       (enumerate 0 (filter (\<lambda>(k, _). k \<notin> ev_key ` set envFields) (getPresetsForServiceType type)))"

record dirty_fields =
  dirty_image :: bool
  dirty_env :: bool
  dirty_ports :: bool
  dirty_wait :: bool

definition handleServiceTypeChange :: "(nat \<Rightarrow> string) \<Rightarrow> dirty_fields \<Rightarrow> service_type \<Rightarrow> form_call list" where
  "handleServiceTypeChange ids dirty type =
     (let defaults = nd_service (serviceTypeDefaults ids type) in
      Set_Type type #
      (if dirty_image dirty then [] else [Set_Image (Option.bind defaults svc_image)]) @
      (if dirty_env dirty then [] else [Set_Env (nullish (Option.bind defaults svc_env) [])]) @
      (if dirty_ports dirty then [] else [Set_Ports (nullish (Option.bind defaults svc_ports) [])]) @
      (if dirty_wait dirty then []
       else [Set_Wait True WaitPort (Option.bind (Option.bind defaults svc_wait) ws_target) (Option.bind (Option.bind defaults svc_wait) ws_timeout)]))"

definition image_missing :: "service_type option \<Rightarrow> string option \<Rightarrow> bool" where
  "image_missing type img \<longleftrightarrow> type = Some Generic \<and> (case img of None \<Rightarrow> True | Some i \<Rightarrow> trim i = [])"

section \<open>The dialog\<close>

datatype dialog_tab = Service_Tab | Registry_Tab

record node_dialog =
  dl_tab :: dialog_tab
  dl_node :: "flow_node option"
  dl_registry :: registry_form_value

fun auth_name :: "registry_auth_type \<Rightarrow> string" where
  "auth_name Auth_none = ''none''"
| "auth_name Auth_basic = ''basic''"
| "auth_name Auth_token = ''token''"

definition auth_of :: "string \<Rightarrow> registry_auth_type" where
  "auth_of s = (if s = ''basic'' then Auth_basic else if s = ''token'' then Auth_token else Auth_none)"

definition dialog_config :: "(string \<times> string) option \<Rightarrow> registry_runtime_config option \<Rightarrow> registry_runtime_config option" where
  "dialog_config metadata runtimeSecret =
     (case metadata of
        None \<Rightarrow> runtimeSecret
      | Some (url, auth) \<Rightarrow>
          Some \<lparr>rr_url = url, rr_auth_type = auth_of auth, rr_username = Option.bind runtimeSecret rr_username,
                rr_password = Option.bind runtimeSecret rr_password, rr_token = Option.bind runtimeSecret rr_token\<rparr>)"

definition open_dialog :: "string \<Rightarrow> secret_store \<Rightarrow> flow_node \<Rightarrow> node_dialog \<Rightarrow> node_dialog res" where
  "open_dialog workflowId secrets node dialog =
     (case nd_service (fn_data node) of
        None \<Rightarrow> Inl TypeError
      | Some service \<Rightarrow>
          Inr \<lparr>dl_tab = Service_Tab, dl_node = Some node,
               dl_registry = registryFormFromConfig (dialog_config (svc_registry service) (getSecret workflowId (fn_id node) secrets))\<rparr>)"

definition handleDataChange :: "node_data \<Rightarrow> node_dialog \<Rightarrow> node_dialog" where
  "handleDataChange newData dialog = dialog\<lparr>dl_node := map_option (\<lambda>n. n\<lparr>fn_data := newData\<rparr>) (dl_node dialog)\<rparr>"

definition registry_refused :: "registry_form_value \<Rightarrow> string option \<Rightarrow> bool" where
  "registry_refused draft img \<longleftrightarrow>
     rf_enabled draft \<and> (case resolveRegistryImage (rf_url draft) (nullish img []) of Inl _ \<Rightarrow> True | Inr _ \<Rightarrow> False)"

definition saved_registry :: "registry_runtime_config option \<Rightarrow> (string \<times> string) option" where
  "saved_registry config = map_option (\<lambda>c. (rr_url c, auth_name (rr_auth_type c))) config"

definition keep_secret :: "string \<Rightarrow> string \<Rightarrow> registry_runtime_config option \<Rightarrow> secret_store \<Rightarrow> secret_store" where
  "keep_secret workflowId nodeId config secrets =
     (case config of
        Some c \<Rightarrow> if rr_auth_type c \<noteq> Auth_none then setSecret workflowId nodeId c secrets else clearSecret workflowId nodeId secrets
      | None \<Rightarrow> clearSecret workflowId nodeId secrets)"

text \<open>
  The node handed to \<open>onSave\<close>, if it gets that far, with the secrets and the dialog afterwards. A node
  without a service throws.
\<close>

definition handleSave :: "string \<Rightarrow> node_dialog \<Rightarrow> secret_store \<Rightarrow> flow_node option res \<times> secret_store \<times> node_dialog" where
  "handleSave workflowId dialog secrets =
     (case dl_node dialog of
        None \<Rightarrow> (Inr None, secrets, dialog)
      | Some node \<Rightarrow>
          (case nd_service (fn_data node) of
             None \<Rightarrow> (Inl TypeError, secrets, dialog)
           | Some service \<Rightarrow>
               if image_missing (Some (svc_type service)) (svc_image service)
               then (Inr None, secrets, dialog\<lparr>dl_tab := Service_Tab\<rparr>)
               else if validateRegistryForm (dl_registry dialog) \<noteq> None \<or> registry_refused (dl_registry dialog) (svc_image service)
               then (Inr None, secrets, dialog\<lparr>dl_tab := Registry_Tab\<rparr>)
               else (case registryConfigFromForm (dl_registry dialog) of
                       Inl e \<Rightarrow> (Inl e, secrets, dialog)
                     | Inr config \<Rightarrow>
                         (Inr (Some (node\<lparr>fn_data := (fn_data node)\<lparr>nd_service := Some (service\<lparr>svc_registry := saved_registry config\<rparr>)\<rparr>\<rparr>)),
                          keep_secret workflowId (fn_id node) config secrets, dialog))))"

section \<open>A saved service can be run\<close>

lemma keep_secret_get:
  "getSecret w i (keep_secret w i config secrets) = (case config of Some c \<Rightarrow> if rr_auth_type c = Auth_none then None else Some c | None \<Rightarrow> None)"
  by (auto simp: keep_secret_def getSecret_def setSecret_def clearSecret_def update_conv' delete_conv' nullish_def split: option.split)

lemma node_secrets_own:
  "node_secrets (map_of secrets w) node = Inr found \<Longrightarrow> nd_service (fn_data node) = Some service \<Longrightarrow> svc_registry service = Some r \<Longrightarrow>
   found = [(service_key node, runtime_secret r (getSecret w (fn_id node) secrets))]"
  by (simp add: node_secrets_def getSecret_def)

text \<open>
  C38. A service that could be saved can be run with what was entered: the saved node is the edited one with
  the registry's address and kind of sign-in and no credentials; these are in the session's secrets, complete
  for a run, if the kind of sign-in needs any, and are cleared otherwise. An application service has an
  image, and the image belongs to the registry.
\<close>

theorem saved_service_is_runnable:
  assumes "handleSave workflowId dialog secrets = (Inr (Some saved), secrets', dialog')"
  shows "\<exists>node service config.
    dl_node dialog = Some node \<and> nd_service (fn_data node) = Some service \<and> registryConfigFromForm (dl_registry dialog) = Inr config \<and>
    saved = node\<lparr>fn_data := (fn_data node)\<lparr>nd_service := Some (service\<lparr>svc_registry := saved_registry config\<rparr>)\<rparr>\<rparr> \<and>
    (svc_type service = Generic \<longrightarrow> trim (nullish (svc_image service) []) \<noteq> []) \<and>
    (rf_enabled (dl_registry dialog) \<longrightarrow> (\<exists>img. resolveRegistryImage (rf_url (dl_registry dialog)) (nullish (svc_image service) []) = Inr img)) \<and>
    (\<exists>found. node_secrets (map_of secrets' workflowId) saved = Inr found \<and> \<not> missing_credentials found saved) \<and>
    (getSecret workflowId (fn_id node) secrets' \<noteq> None \<longleftrightarrow> (\<exists>c. config = Some c \<and> rr_auth_type c \<noteq> Auth_none))"
proof -
  obtain node service where n: "dl_node dialog = Some node" "nd_service (fn_data node) = Some service"
    "\<not> image_missing (Some (svc_type service)) (svc_image service)" "validateRegistryForm (dl_registry dialog) = None"
    "\<not> registry_refused (dl_registry dialog) (svc_image service)"
    using assms by (auto simp: handleSave_def simp del: not_None_eq split: option.splits if_splits)
  then obtain config where c: "registryConfigFromForm (dl_registry dialog) = Inr config"
    "saved = node\<lparr>fn_data := (fn_data node)\<lparr>nd_service := Some (service\<lparr>svc_registry := saved_registry config\<rparr>)\<rparr>\<rparr>"
    "secrets' = keep_secret workflowId (fn_id node) config secrets"
    using assms by (auto simp: handleSave_def split: sum.splits)
  have complete: "\<not> missing_credentials found saved" if "node_secrets (map_of secrets' workflowId) saved = Inr found" for found
  proof (cases config)
    case None
    then show ?thesis by (simp add: c(2) missing_credentials_def saved_registry_def)
  next
    case (Some cf)
    have "found = [(service_key saved, runtime_secret (rr_url cf, auth_name (rr_auth_type cf))
        (if rr_auth_type cf = Auth_none then None else Some cf))]"
      using node_secrets_own [OF that] by (simp add: c(2,3) Some saved_registry_def keep_secret_get)
    moreover have "trim (rf_username (dl_registry dialog)) \<noteq> [] \<and> rf_password (dl_registry dialog) \<noteq> []"
      if "rf_auth_type (dl_registry dialog) = Auth_basic" "rf_enabled (dl_registry dialog)"
      using n(4) that by (auto simp: validateRegistryForm_def split: sum.splits js_error.splits if_splits)
    moreover have "rf_token (dl_registry dialog) \<noteq> []" if "rf_auth_type (dl_registry dialog) = Auth_token" "rf_enabled (dl_registry dialog)"
      using n(4) that by (auto simp: validateRegistryForm_def split: sum.splits js_error.splits if_splits)
    ultimately show ?thesis using c(1) Some
      by (cases "rf_auth_type (dl_registry dialog)")
        (auto simp: registryConfigFromForm_def missing_credentials_def c(2) saved_registry_def runtime_secret_def truthy_opt_def bind_res_Inr
          split: if_splits)
  qed
  moreover have "\<exists>found. node_secrets (map_of secrets' workflowId) saved = Inr found"
    by (simp add: node_secrets_def c(2))
  moreover have "svc_type service = Generic \<longrightarrow> trim (nullish (svc_image service) []) \<noteq> []"
    using n(3) by (auto simp: image_missing_def nullish_def split: option.splits)
  moreover have "rf_enabled (dl_registry dialog) \<longrightarrow> (\<exists>img. resolveRegistryImage (rf_url (dl_registry dialog)) (nullish (svc_image service) []) = Inr img)"
    using n(5) by (auto simp: registry_refused_def split: sum.splits)
  moreover have "getSecret workflowId (fn_id node) secrets' \<noteq> None \<longleftrightarrow> (\<exists>c. config = Some c \<and> rr_auth_type c \<noteq> Auth_none)"
    by (auto simp: c(3) keep_secret_get split: option.splits)
  ultimately show ?thesis using n(1,2) c(1,2) by blast
qed

definition sample_dialog :: node_dialog where
  "sample_dialog = \<lparr>dl_tab = Service_Tab, dl_node = Some (sample_node ''cache'' Redis), dl_registry = EMPTY_REGISTRY_FORM\<rparr>"

theorem saved_service_is_runnable_witness:
  "\<exists>saved. handleSave ''w'' sample_dialog [] = (Inr (Some saved), [], sample_dialog) \<and>
     (\<exists>found. node_secrets (map_of [] ''w'') saved = Inr found \<and> \<not> missing_credentials found saved)"
proof -
  obtain saved where s: "handleSave ''w'' sample_dialog [] = (Inr (Some saved), [], sample_dialog)"
    by (simp add: handleSave_def sample_dialog_def image_missing_def validateRegistryForm_def registry_refused_def registryConfigFromForm_def
        EMPTY_REGISTRY_FORM_def keep_secret_def clearSecret_def nullish_def)
  from saved_service_is_runnable [OF s] show ?thesis using s by blast
qed

section \<open>Suggestions are references\<close>

lemma name_char_plain: "name_char c \<Longrightarrow> c \<noteq> CHR ''}'' \<and> c \<noteq> CHR ''.'' \<and> \<not> is_space c"
  by (auto simp: name_char_def is_space_def)

lemma token_of_name: "text_token (sanitizeName s) = (if sanitizeName s = [] then None else Some (sanitizeName s))"
proof -
  have "list_all (\<lambda>c. \<not> is_space c) (sanitizeName s)"
    using sanitizeName_clean [of s] name_char_plain by (auto simp: clean_name_def list_all_iff)
  from trim_solid [OF this] show ?thesis by (simp add: text_token_def toReferenceToken_def)
qed

lemma reference_token:
  assumes "list_all (\<lambda>c. c \<noteq> CHR ''}'' \<and> c \<noteq> CHR ''.'') name" "name \<noteq> []" "body \<noteq> []" "CHR ''}'' \<notin> set body"
  shows "runtime_tokens (''${'' @ name @ ''.'' @ body @ ''}'') = [name]"
proof -
  have stop: "takeWhile (\<lambda>x. x \<noteq> CHR ''}'' \<and> x \<noteq> CHR ''.'') (name @ CHR ''.'' # r) = name"
    "dropWhile (\<lambda>x. x \<noteq> CHR ''}'' \<and> x \<noteq> CHR ''.'') (name @ CHR ''.'' # r) = CHR ''.'' # r" for r
    using assms(1) by (auto simp: list_all_iff takeWhile_append dropWhile_append)
  have close: "takeWhile (\<lambda>x. x \<noteq> CHR ''}'') (body @ ''}'') = body" "dropWhile (\<lambda>x. x \<noteq> CHR ''}'') (body @ ''}'') = ''}''"
    using assms(4) by (auto simp: takeWhile_append dropWhile_append)
  have "runtime_ref_at (''${'' @ name @ ''.'' @ body @ ''}'') = Some (name, [])"
    using assms(2,3) stop [of "body @ ''}''"] close by (simp add: runtime_ref_at_def)
  then show ?thesis by (subst runtime_tokens.simps) (simp add: runtime_tokens.simps [of "[]"])
qed

text \<open>
  What the form suggests is what validation understands: every suggested value holds one reference, to the
  service name of one of the other services of the graph. Ports and variable names with a closing brace are
  left out.
\<close>

theorem suggestion_is_reference:
  assumes "s \<in> set (all_suggestions (availableServices nodes edited))"
    and "\<And>n service. n \<in> set nodes \<Longrightarrow> nd_service (fn_data n) = Some service \<Longrightarrow>
      list_all (\<lambda>p. CHR ''}'' \<notin> set (pm_containerPort p)) (nullish (svc_ports service) []) \<and>
      list_all (\<lambda>e. CHR ''}'' \<notin> set (ev_key e)) (nullish (svc_env service) [])"
  shows "\<exists>n \<in> set nodes. fn_id n \<noteq> edited \<and> runtime_tokens s = [service_key n] \<and> service_key n \<noteq> []"
proof -
  from assms(1) obtain n where n: "n \<in> set nodes" "fn_id n \<noteq> edited"
    "s \<in> set (service_suggestions \<lparr>av_name = service_key n, av_ports = nullish (Option.bind (nd_service (fn_data n)) svc_ports) [],
       av_env = nullish (Option.bind (nd_service (fn_data n)) svc_env) []\<rparr>)"
    by (auto simp: all_suggestions_def availableServices_def service_key_def or_str_def split: if_splits)
  let ?name = "service_key n"
  have plain: "list_all (\<lambda>c. c \<noteq> CHR ''}'' \<and> c \<noteq> CHR ''.'') ?name"
    using sanitizeName_clean name_char_plain by (auto simp: clean_name_def list_all_iff service_key_def)
  have tok: "text_token ?name = (if ?name = [] then None else Some ?name)" by (simp add: service_key_def token_of_name)
  have sub: "text_token x = Some y \<Longrightarrow> y \<noteq> [] \<and> set y \<subseteq> set x" for x y
    using trim_subset by (auto simp: text_token_def toReferenceToken_def split: if_splits)
  have port: "CHR ''}'' \<notin> set (pm_containerPort p)" if "p \<in> set (nullish (Option.bind (nd_service (fn_data n)) svc_ports) [])" for p
    using that assms(2) [OF n(1)] by (cases "nd_service (fn_data n)") (auto simp: list_all_iff nullish_def)
  have env: "CHR ''}'' \<notin> set (ev_key e)" if "e \<in> set (nullish (Option.bind (nd_service (fn_data n)) svc_env) [])" for e
    using that assms(2) [OF n(1)] by (cases "nd_service (fn_data n)") (auto simp: list_all_iff nullish_def)
  from n(3) consider "s = ''${'' @ ?name @ ''.'' @ ''host'' @ ''}''"
    | p port where "p \<in> set (nullish (Option.bind (nd_service (fn_data n)) svc_ports) [])" "text_token (pm_containerPort p) = Some port"
        "s = ''${'' @ ?name @ ''.'' @ (''port.'' @ port) @ ''}''"
    | e k where "e \<in> set (nullish (Option.bind (nd_service (fn_data n)) svc_env) [])" "text_token (ev_key e) = Some k"
        "s = ''${'' @ ?name @ ''.'' @ (''env.'' @ k) @ ''}''"
    by (auto simp: service_suggestions_def tok map_filter_def split: if_splits)
  then have "\<exists>body. body \<noteq> [] \<and> CHR ''}'' \<notin> set body \<and> s = ''${'' @ ?name @ ''.'' @ body @ ''}''"
  proof cases
    case 1
    then show ?thesis by (intro exI [of _ "''host''"]) simp
  next
    case (2 p port)
    then show ?thesis using port sub by (intro exI [of _ "''port.'' @ port"]) auto
  next
    case (3 e k)
    then show ?thesis using env sub by (intro exI [of _ "''env.'' @ k"]) auto
  qed
  moreover have "?name \<noteq> []" using n(3) tok by (auto simp: service_suggestions_def split: if_splits)
  ultimately show ?thesis using reference_token [OF plain] n(1,2) by blast
qed

theorem suggestion_is_reference_witness:
  "\<exists>n \<in> set [createDefaultServiceNode (\<lambda>_. []) ''n'' (0, 0) Redis]. fn_id n \<noteq> ''x'' \<and> runtime_tokens ''${redis.host}'' = [service_key n] \<and>
     service_key n \<noteq> []"
proof (rule suggestion_is_reference)
  show "''${redis.host}'' \<in> set (all_suggestions (availableServices [createDefaultServiceNode (\<lambda>_. []) ''n'' (0, 0) Redis] ''x''))" by code_simp
qed (auto simp: createDefaultServiceNode_def serviceTypeDefaults_def nullish_def)

section \<open>Opening the form changes nothing\<close>

text \<open>
  The form passes on what it was given: values that are reported unchanged give back the service with
  absent lists as empty ones and without blank arguments, a disabled wait strategy, or expectations of a service
  that is no MockServer.
\<close>

theorem service_form_reads_back:
  "form_change d service (form_values ids d service) =
   d\<lparr>nd_service := Some (service\<lparr>svc_command := Some (filter (\<lambda>c. trim c \<noteq> []) (nullish (svc_command service) [])),
       svc_env := Some (nullish (svc_env service) []), svc_ports := Some (nullish (svc_ports service) []),
       svc_wait := (case svc_wait service of Some w \<Rightarrow> if ws_enabled w then Some w else None | None \<Rightarrow> None),
       svc_initScripts := Some (nullish (svc_initScripts service) []),
       svc_mockServer := (if svc_type service = MockServer then Some (nullish (svc_mockServer service) []) else None)\<rparr>)\<rparr>"
proof -
  have "map snd (map (\<lambda>(n, c). (ids n, c)) (enumerate k xs)) = xs" for k and xs :: "string list"
    by (induction xs arbitrary: k) auto
  then show ?thesis
    by (cases "svc_wait service") (auto simp: form_change_def form_values_def nullish_def)
qed

text \<open>
  The presets of the form are not the ones a new service starts with: for MariaDB none of the variables it adds
  is one the defaults set.
\<close>

lemma mariadb_presets_differ:
  "set (map fst (getPresetsForServiceType MariaDB)) \<inter> set (map fst (environmentPresets MariaDB)) = {}"
  by simp

end
