(* ===== verification/Workflow_List.thy ===== *)
theory Workflow_List
  imports Hydration Workflow_Bundle Builder_Views Defaults
begin

text \<open>
  The list of a project's workflows, \<^verbatim>\<open>src/ui-v2/src/modules/workflow/components/Workflowlist.tsx\<close>: what is
  listed, and creating, importing, cloning, exporting and deleting workflows over the five stores. An \<open>async\<close>
  handler is a function of what it waits for: the text of the file, and whether the flush failed.
\<close>

section \<open>The list\<close>

record list_host =
  lh_compare :: "string \<Rightarrow> string \<Rightarrow> int"
  lh_getTime :: "string \<Rightarrow> int"
  lh_json :: graph_json
  lh_toIso :: "int \<Rightarrow> string"
  lh_stringify :: "json \<Rightarrow> string"
  lh_parse :: "string \<Rightarrow> workflow_bundle option option"

record list_page =
  wl_stores :: client_stores
  wl_project :: "string option"
  wl_canEdit :: bool
  wl_isCreating :: bool
  wl_isImporting :: bool
  wl_pendingDelete :: "(string \<times> string) option"
  wl_isDeleting :: bool
  wl_galleryOpen :: bool
  wl_pendingTemplate :: "string option"
  wl_pushed :: "string list"
  wl_toasts :: "(string \<times> string) list"

definition workflowsList :: "list_host \<Rightarrow> list_page \<Rightarrow> workflow list" where
  "workflowsList H p =
     js_sort (\<lambda>a b. lh_getTime H (sm_created_at (wf_meta b)) - lh_getTime H (sm_created_at (wf_meta a)))
       (filter (\<lambda>w. \<not> sm_is_deleted (wf_meta w) \<and> truthy_opt (wl_project p) \<and> wl_project p = Some (wf_projectId w))
         (map snd (ws_workflows (sy_state (cl_workflows (wl_stores p))))))"

definition live_scenarios :: "string \<Rightarrow> list_page \<Rightarrow> scenario list" where
  "live_scenarios workflowId p =
     filter (\<lambda>s. sn_workflowId s = workflowId \<and> \<not> sm_is_deleted (sn_meta s)) (map snd (sn_scenarios (sy_state (cl_scenarios (wl_stores p)))))"

definition formatDate :: "(string \<Rightarrow> string) \<Rightarrow> list_host \<Rightarrow> int \<Rightarrow> string \<Rightarrow> string" where
  "formatDate toLocaleDateString H now date =
     (let diffMs = now - lh_getTime H date; diffMins = diffMs div 60000; diffHours = diffMs div 3600000; diffDays = diffMs div 86400000
      in if diffMins < 1 then ''Just now''
         else if diffMins < 60 then show_int diffMins @ ''m ago''
         else if diffHours < 24 then show_int diffHours @ ''h ago''
         else if diffDays < 7 then show_int diffDays @ ''d ago''
         else toLocaleDateString date)"

definition executionStatusLabel :: "string \<Rightarrow> string" where
  "executionStatusLabel status =
     (case map (\<lambda>c. if c = CHR ''_'' then CHR '' '' else c) status of
        [] \<Rightarrow> []
      | c # cs \<Rightarrow> (if 97 \<le> (of_char c :: nat) \<and> (of_char c :: nat) \<le> 122 then char_of ((of_char c :: nat) - 32) else c) # cs)"

datatype status_variant = Variant_destructive | Variant_default | Variant_secondary | Variant_outline

definition executionStatusVariant :: "string \<Rightarrow> status_variant" where
  "executionStatusVariant status =
     (if status \<in> {''failed'', ''partial_failed'', ''cleanup_failed''} then Variant_destructive
      else if status \<in> {''running'', ''pending'', ''cancelling''} then Variant_default
      else if status = ''completed'' then Variant_secondary
      else Variant_outline)"

section \<open>New workflows\<close>

definition thrown :: "js_error \<Rightarrow> string" where
  "thrown e = (case e of Err m \<Rightarrow> m | TypeError \<Rightarrow> ''TypeError'')"

definition handleCreate :: "list_host \<Rightarrow> sync_env \<Rightarrow> string \<Rightarrow> list_page \<Rightarrow> list_page" where
  "handleCreate H E generated p =
     (case wl_project p of
        Some project \<Rightarrow>
          if project = [] \<or> \<not> wl_canEdit p then p
          else (case createWorkflow (lh_json H) E generated project ''New Workflow'' None (cl_workflows (wl_stores p)) of
                  (Inl e, _) \<Rightarrow> p\<lparr>wl_isCreating := False\<rparr>
                | (Inr i, store) \<Rightarrow>
                    p\<lparr>wl_stores := (wl_stores p)\<lparr>cl_workflows := setActiveWorkflow (lh_json H) (Some i) store\<rparr>,
                      wl_pushed := wl_pushed p @ [''/workflow/'' @ i], wl_isCreating := False\<rparr>)
      | None \<Rightarrow> p)"

text \<open>The scenarios of a bundle, one after the other; \<open>ids n\<close> is the id \<open>createScenario\<close> generates for the \<open>n\<close>th.\<close>

fun add_scenarios :: "list_host \<Rightarrow> sync_env \<Rightarrow> workflow_synced \<Rightarrow> string \<Rightarrow> (nat \<Rightarrow> string) \<Rightarrow> nat \<Rightarrow> bundle_scenario list \<Rightarrow>
    scenario_synced \<Rightarrow> unit res \<times> scenario_synced" where
  "add_scenarios H E workflows workflowId ids n [] store = (Inr (), store)"
| "add_scenarios H E workflows workflowId ids n (b # bs) store =
     (case createScenario (lh_json H) E workflows (ids n) workflowId (bs_name b) store of
        (Inl e, store') \<Rightarrow> (Inl e, store')
      | (Inr scenarioId, store') \<Rightarrow>
          (case updateScenario (lh_json H) E scenarioId
             \<lparr>up_name = bs_name b, up_description = Some (or_str (bs_description b) []), up_tests = bs_tests b, up_testOrder = bs_testOrder b\<rparr> store' of
             (Inl e, store'') \<Rightarrow> (Inl e, store'')
           | (Inr _, store'') \<Rightarrow> add_scenarios H E workflows workflowId ids (n + 1) bs store''))"

text \<open>\<open>firstScenarioId\<close> at the end of the loop.\<close>

definition first_scenario :: "(nat \<Rightarrow> string) \<Rightarrow> bundle_scenario list \<Rightarrow> string option" where
  "first_scenario ids scenarios = List.find (\<lambda>i. i \<noteq> []) (map ids [0..<length scenarios])"

text \<open>\<open>wid\<close> is the id generated for the workflow, \<open>flushed\<close> what \<open>flushPendingBeforeRun\<close> came to.\<close>

definition createWorkflowFromBundle ::
  "list_host \<Rightarrow> sync_env \<Rightarrow> string \<Rightarrow> (nat \<Rightarrow> string) \<Rightarrow> exportable_workflow \<Rightarrow> bundle_scenario list \<Rightarrow> unit res \<Rightarrow> list_page \<Rightarrow> string res \<times> list_page" where
  "createWorkflowFromBundle H E wid ids w scenarios flushed p =
     (if \<not> truthy_opt (wl_project p) then (Inl (Err ''Select a project before importing a workflow.''), p)
      else case createWorkflow (lh_json H) E wid (the (wl_project p)) (ew_name w) (Some (or_str (ew_description w) [])) (cl_workflows (wl_stores p)) of
        (Inl e, _) \<Rightarrow> (Inl e, p)
      | (Inr workflowId, ws) \<Rightarrow>
          (case updateWorkflowGraph (lh_json H) E workflowId (ew_nodes w) (ew_edges w) None ws of
             (Inl e, ws') \<Rightarrow> (Inl e, p\<lparr>wl_stores := (wl_stores p)\<lparr>cl_workflows := ws'\<rparr>\<rparr>)
           | (Inr _, ws') \<Rightarrow>
               (case add_scenarios H E ws' workflowId ids 0 scenarios (cl_scenarios (wl_stores p)) of
                  (Inl e, ss) \<Rightarrow> (Inl e, p\<lparr>wl_stores := (wl_stores p)\<lparr>cl_workflows := ws', cl_scenarios := ss\<rparr>\<rparr>)
                | (Inr _, ss) \<Rightarrow>
                    let ss' = (case first_scenario ids scenarios of Some i \<Rightarrow> setActiveScenario (lh_json H) workflowId (Some i) ss | None \<Rightarrow> ss);
                        p' = p\<lparr>wl_stores := (wl_stores p)\<lparr>cl_workflows := setActiveWorkflow (lh_json H) (Some workflowId) ws', cl_scenarios := ss'\<rparr>\<rparr>
                    in (case flushed of
                          Inl e \<Rightarrow> (Inl e, p')
                        | Inr _ \<Rightarrow> (Inr workflowId, p'\<lparr>wl_pushed := wl_pushed p @ [''/workflow/'' @ workflowId]\<rparr>)))))"

definition toast :: "string \<Rightarrow> string \<Rightarrow> list_page \<Rightarrow> list_page" where
  "toast title description p = p\<lparr>wl_toasts := wl_toasts p @ [(title, description)]\<rparr>"

text \<open>\<open>pending\<close> is \<open>hasPendingPreRunChanges()\<close> after the flush.\<close>

definition handleImport ::
  "list_host \<Rightarrow> sync_env \<Rightarrow> (nat \<Rightarrow> string) \<Rightarrow> string \<Rightarrow> (nat \<Rightarrow> string) \<Rightarrow> string option \<Rightarrow> unit res \<Rightarrow> bool \<Rightarrow> list_page \<Rightarrow> list_page" where
  "handleImport H E fresh wid ids file flushed pending p =
     (case file of
        None \<Rightarrow> p
      | Some content \<Rightarrow>
          if \<not> truthy_opt (wl_project p) \<or> \<not> wl_canEdit p then p
          else
            (case bind_res (parseWorkflowBundle (lh_compare H) (lh_parse H) content) (\<lambda>b.
                    materializeWorkflowBundle (lh_compare H) fresh b (map wf_name (workflowsList H p))) of
               Inl e \<Rightarrow> (toast ''Import failed'' (thrown e) p)\<lparr>wl_isImporting := False\<rparr>
             | Inr m \<Rightarrow>
                 (case createWorkflowFromBundle H E wid ids (ib_workflow m) (ib_scenarios m) flushed p of
                    (Inl e, p') \<Rightarrow> (toast ''Import failed'' (thrown e) p')\<lparr>wl_isImporting := False\<rparr>
                  | (Inr _, p') \<Rightarrow>
                      (toast ''Workflow imported''
                        (if pending
                         then ew_name (ib_workflow m) @ '' was created. Sync is still catching up, so wait for the status to clear before running.''
                         else ew_name (ib_workflow m) @ '' is synced and ready to edit.'') p')\<lparr>wl_isImporting := False\<rparr>)))"

definition handleCreateFromTemplate ::
  "list_host \<Rightarrow> sync_env \<Rightarrow> (nat \<Rightarrow> string) \<Rightarrow> string \<Rightarrow> (nat \<Rightarrow> string) \<Rightarrow> workflow_template \<Rightarrow> unit res \<Rightarrow> list_page \<Rightarrow> list_page" where
  "handleCreateFromTemplate H E fresh wid ids template flushed p =
     (if \<not> truthy_opt (wl_project p) \<or> \<not> wl_canEdit p then p
      else
        (case materializeWorkflowBundle (lh_compare H) fresh (wt_bundle template) (map wf_name (workflowsList H p)) of
           Inl e \<Rightarrow> (toast ''Template creation failed'' (thrown e) p)\<lparr>wl_pendingTemplate := None\<rparr>
         | Inr m \<Rightarrow>
             (case createWorkflowFromBundle H E wid ids (ib_workflow m) (ib_scenarios m) flushed p of
                (Inl e, p') \<Rightarrow> (toast ''Template creation failed'' (thrown e) p')\<lparr>wl_pendingTemplate := None\<rparr>
              | (Inr _, p') \<Rightarrow>
                  (toast ''Workflow created from template'' (ew_name (ib_workflow m) @ '' is synced and ready to edit.'') p')
                    \<lparr>wl_galleryOpen := False, wl_pendingTemplate := None\<rparr>)))"

definition exported_workflow :: "workflow \<Rightarrow> exportable_workflow" where
  "exported_workflow w = \<lparr>ew_name = wf_name w, ew_description = wf_description w, ew_nodes = wf_nodes w, ew_edges = wf_edges w\<rparr>"

definition exported_scenario :: "scenario \<Rightarrow> exportable_scenario" where
  "exported_scenario s = \<lparr>es_name = sn_name s, es_description = sn_description s, es_tests = sn_tests s, es_testOrder = sn_testOrder s\<rparr>"

definition handleClone ::
  "list_host \<Rightarrow> sync_env \<Rightarrow> (nat \<Rightarrow> string) \<Rightarrow> string \<Rightarrow> (nat \<Rightarrow> string) \<Rightarrow> string \<Rightarrow> unit res \<Rightarrow> list_page \<Rightarrow> list_page" where
  "handleClone H E fresh wid ids workflowId flushed p =
     (case getWorkflow workflowId (cl_workflows (wl_stores p)) of
        None \<Rightarrow> p
      | Some w \<Rightarrow>
          (case createClonedWorkflowBundle (lh_compare H) fresh (exported_workflow w) (map exported_scenario (live_scenarios workflowId p))
                  (map wf_name (workflowsList H p)) of
             Inl e \<Rightarrow> toast ''Clone failed'' (thrown e) p
           | Inr m \<Rightarrow>
               (case createWorkflowFromBundle H E wid ids (ib_workflow m) (ib_scenarios m) flushed p of
                  (Inl e, p') \<Rightarrow> toast ''Clone failed'' (thrown e) p'
                | (Inr _, p') \<Rightarrow> toast ''Workflow cloned'' (ew_name (ib_workflow m) @ '' was created from '' @ wf_name w @ ''.'') p')))"

text \<open>The file's name: runs of other characters become one dash.\<close>

fun dash_runs :: "bool \<Rightarrow> string \<Rightarrow> string" where
  "dash_runs in_run [] = []"
| "dash_runs in_run (c # cs) =
     (if name_char c \<and> c \<noteq> CHR ''_'' \<and> c \<noteq> CHR ''-'' then c # dash_runs False cs
      else if in_run then dash_runs True cs else CHR ''-'' # dash_runs True cs)"

definition export_file :: "workflow \<Rightarrow> string" where
  "export_file w = or_str (Some (dash_runs False (toLowerCase (wf_name w)))) ''workflow'' @ ''.workflow-bundle.json''"

definition handleExport :: "list_host \<Rightarrow> string \<Rightarrow> list_page \<Rightarrow> (string \<times> workflow_bundle) option \<times> list_page" where
  "handleExport H workflowId p =
     (case getWorkflow workflowId (cl_workflows (wl_stores p)) of
        None \<Rightarrow> (None, p)
      | Some w \<Rightarrow>
          (case createWorkflowBundle (lh_compare H) (exported_workflow w) (map exported_scenario (live_scenarios workflowId p)) of
             Inl e \<Rightarrow> (None, toast ''Export failed'' (thrown e) p)
           | Inr b \<Rightarrow> (Some (export_file w, b), toast ''Workflow exported'' (wf_name w @ '' was saved as a workflow bundle.'') p)))"

section \<open>Deleting a workflow\<close>

text \<open>The ids of the live entities of a workflow, in the order of the store.\<close>

definition related :: "('x \<Rightarrow> string) \<Rightarrow> ('x \<Rightarrow> string) \<Rightarrow> ('x \<Rightarrow> sync_meta) \<Rightarrow> string \<Rightarrow> (string \<times> 'x) list \<Rightarrow> string list" where
  "related i workflow meta workflowId entities =
     map i (filter (\<lambda>x. workflow x = workflowId \<and> \<not> sm_is_deleted (meta x)) (map snd entities))"

definition delete_related :: "list_host \<Rightarrow> sync_env \<Rightarrow> string \<Rightarrow> client_stores \<Rightarrow> client_stores" where
  "delete_related H E workflowId st =
     \<lparr>cl_workflows = deleteWorkflow (lh_json H) E workflowId (cl_workflows st),
      cl_scenarios = foldl (\<lambda>s i. deleteScenario (lh_json H) E i s) (cl_scenarios st)
        (related sn_id sn_workflowId sn_meta workflowId (sn_scenarios (sy_state (cl_scenarios st)))),
      cl_executions = foldl (\<lambda>s i. clearExecution (lh_toIso H) E i s) (cl_executions st)
        (related ex_workflowRunId ex_workflowId ex_meta workflowId (es_executions (sy_state (cl_executions st)))),
      cl_scenarioRuns = foldl (\<lambda>s i. clearScenarioRun (lh_toIso H) E i s) (cl_scenarioRuns st)
        (related sr_id sr_workflowId sr_meta workflowId (rn_scenarioRuns (sy_state (cl_scenarioRuns st)))),
      cl_testResults = foldl (\<lambda>s i. deleteTestResult (lh_stringify H) E i s) (cl_testResults st)
        (related tt_id tt_workflowId tt_meta workflowId (tr_testResults (sy_state (cl_testResults st))))\<rparr>"

definition handleDeleteWorkflow :: "list_host \<Rightarrow> sync_env \<Rightarrow> list_page \<Rightarrow> list_page" where
  "handleDeleteWorkflow H E p =
     (case wl_pendingDelete p of
        None \<Rightarrow> p
      | Some (workflowId, name) \<Rightarrow>
          (toast ''Workflow deleted'' (name @ '' and its related data were removed.'')
             (p\<lparr>wl_stores := delete_related H E workflowId (wl_stores p), wl_pendingDelete := None\<rparr>))\<lparr>wl_isDeleting := False\<rparr>)"

definition ask_delete :: "string \<Rightarrow> string \<Rightarrow> list_page \<Rightarrow> list_page" where
  "ask_delete workflowId name p = p\<lparr>wl_pendingDelete := Some (workflowId, name)\<rparr>"

definition dismiss_delete :: "list_page \<Rightarrow> list_page" where
  "dismiss_delete p = (if wl_isDeleting p then p else p\<lparr>wl_pendingDelete := None\<rparr>)"

subsection \<open>Soft deletion\<close>

definition keyed :: "('x \<Rightarrow> string) \<Rightarrow> (string \<times> 'x) list \<Rightarrow> bool" where
  "keyed key al \<longleftrightarrow> distinct (map fst al) \<and> list_all (\<lambda>(k, x). key x = k) al"

text \<open>
  What the four stores have in common: a call marks one entity as deleted and leaves the others; entities are
  stored under their own ids.
\<close>

locale soft_delete =
  fixes entities :: "'s \<Rightarrow> (string \<times> 'x) list"
    and clear :: "string \<Rightarrow> 's \<Rightarrow> 's"
    and mark :: "'x \<Rightarrow> 'x"
    and key :: "'x \<Rightarrow> string"
    and workflow :: "'x \<Rightarrow> string"
    and meta :: "'x \<Rightarrow> sync_meta"
  assumes cleared: "map_of (entities (clear i s)) k = (if k = i then map_option mark (map_of (entities s) k) else map_of (entities s) k)"
    and marked: "sm_is_deleted (meta (mark x))" "workflow (mark x) = workflow x"
begin

lemma all_cleared:
  "distinct is \<Longrightarrow> map_of (entities (foldl (\<lambda>s i. clear i s) s is)) k =
     (if k \<in> set is then map_option mark (map_of (entities s) k) else map_of (entities s) k)"
  by (induction "is" arbitrary: s) (auto simp: cleared)

lemma related_gone:
  assumes k: "keyed key (entities s)"
    and s': "s' = foldl (\<lambda>s i. clear i s) s (related key workflow meta w (entities s))"
  shows "map_of (entities s') k = Some x \<Longrightarrow> workflow x = w \<Longrightarrow> sm_is_deleted (meta x)"
    and "map_of (entities s) k = Some x \<Longrightarrow> workflow x \<noteq> w \<Longrightarrow> map_of (entities s') k = Some x"
proof -
  let ?is = "related key workflow meta w (entities s)"
  have al: "distinct (map fst (entities s))" "list_all (\<lambda>(k, x). key x = k) (entities s)" using k by (simp_all add: keyed_def)
  have keys: "map key (filter P (map snd al)) = map fst (filter (P \<circ> snd) al)" if "list_all (\<lambda>(k, x). key x = k) al" for P al
    using that by (induction al) auto
  have d: "distinct ?is" using al(1) unfolding related_def keys [OF al(2)] by (rule distinct_map_filter)
  have mem: "k \<in> set ?is \<longleftrightarrow> (\<exists>x. map_of (entities s) k = Some x \<and> workflow x = w \<and> \<not> sm_is_deleted (meta x))" for k
    using al(1) unfolding related_def keys [OF al(2)] by (force simp: map_of_eq_Some_iff)
  note all = all_cleared [OF d, of s, folded s']
  show "map_of (entities s') k = Some x \<Longrightarrow> workflow x = w \<Longrightarrow> sm_is_deleted (meta x)"
    using all [of k] mem [of k] marked by (auto split: if_splits)
  show "map_of (entities s) k = Some x \<Longrightarrow> workflow x \<noteq> w \<Longrightarrow> map_of (entities s') k = Some x"
    using all [of k] mem [of k] by auto
qed

end

interpretation scenario_deletion: soft_delete "\<lambda>s. sn_scenarios (sy_state s)" "deleteScenario G E"
    "\<lambda>x. x\<lparr>sn_meta := markAsDeleted E (sn_meta x)\<rparr>" sn_id sn_workflowId sn_meta for G E
  by unfold_locales (auto simp: deleteScenario_def update_conv' markAsDeleted_def split: option.split)

interpretation execution_deletion: soft_delete "\<lambda>s. es_executions (sy_state s)" "clearExecution toIso E"
    "\<lambda>x. x\<lparr>ex_meta := markAsDeleted E (ex_meta x)\<rparr>" ex_workflowRunId ex_workflowId ex_meta for toIso E
  by unfold_locales (auto simp: clearExecution_def update_conv' markAsDeleted_def split: option.split)

interpretation scenario_run_deletion: soft_delete "\<lambda>s. rn_scenarioRuns (sy_state s)" "clearScenarioRun toIso E"
    "\<lambda>x. x\<lparr>sr_meta := markAsDeleted E (sr_meta x)\<rparr>" sr_id sr_workflowId sr_meta for toIso E
  by unfold_locales (auto simp: clearScenarioRun_def update_conv' markAsDeleted_def split: option.split)

interpretation test_result_deletion: soft_delete "\<lambda>s. tr_testResults (sy_state s)" "deleteTestResult stringify E"
    "\<lambda>x. x\<lparr>tt_meta := markAsDeleted E (tt_meta x)\<rparr>" tt_id tt_workflowId tt_meta for stringify E
  by unfold_locales (auto simp: deleteTestResult_def update_conv' markAsDeleted_def split: option.split)

definition stores_keyed :: "client_stores \<Rightarrow> bool" where
  "stores_keyed st \<longleftrightarrow> keyed sn_id (sn_scenarios (sy_state (cl_scenarios st))) \<and>
     keyed ex_workflowRunId (es_executions (sy_state (cl_executions st))) \<and>
     keyed sr_id (rn_scenarioRuns (sy_state (cl_scenarioRuns st))) \<and> keyed tt_id (tr_testResults (sy_state (cl_testResults st)))"

text \<open>
  C37. Deleting a workflow deletes what belongs to it and nothing else: of the workflow no scenario, run,
  scenario run or test result stays alive, the workflow itself is marked as deleted, and every entity of
  another workflow is as before.
\<close>

theorem deleted_workflow_leaves_nothing:
  assumes "stores_keyed (wl_stores p)" "wl_pendingDelete p = Some (w, name)" "st' = wl_stores (handleDeleteWorkflow H E p)"
  shows "(\<forall>x. getScenario k (cl_scenarios st') = Some x \<and> sn_workflowId x = w \<longrightarrow> sm_is_deleted (sn_meta x)) \<and>
    (\<forall>x. getExecution k (cl_executions st') = Some x \<and> ex_workflowId x = w \<longrightarrow> sm_is_deleted (ex_meta x)) \<and>
    (\<forall>x. map_of (rn_scenarioRuns (sy_state (cl_scenarioRuns st'))) k = Some x \<and> sr_workflowId x = w \<longrightarrow> sm_is_deleted (sr_meta x)) \<and>
    (\<forall>x. map_of (tr_testResults (sy_state (cl_testResults st'))) k = Some x \<and> tt_workflowId x = w \<longrightarrow> sm_is_deleted (tt_meta x)) \<and>
    (\<forall>x. getWorkflow w (cl_workflows st') = Some x \<longrightarrow> sm_is_deleted (wf_meta x)) \<and>
    (k \<noteq> w \<longrightarrow> getWorkflow k (cl_workflows st') = getWorkflow k (cl_workflows (wl_stores p))) \<and>
    (\<forall>x. getScenario k (cl_scenarios (wl_stores p)) = Some x \<and> sn_workflowId x \<noteq> w \<longrightarrow> getScenario k (cl_scenarios st') = Some x) \<and>
    (\<forall>x. getExecution k (cl_executions (wl_stores p)) = Some x \<and> ex_workflowId x \<noteq> w \<longrightarrow> getExecution k (cl_executions st') = Some x)"
proof -
  have st': "st' = delete_related H E w (wl_stores p)" using assms(2,3) by (simp add: handleDeleteWorkflow_def toast_def)
  note k = assms(1) [unfolded stores_keyed_def, THEN conjunct1] assms(1) [unfolded stores_keyed_def, THEN conjunct2, THEN conjunct1]
    assms(1) [unfolded stores_keyed_def, THEN conjunct2, THEN conjunct2, THEN conjunct1]
    assms(1) [unfolded stores_keyed_def, THEN conjunct2, THEN conjunct2, THEN conjunct2]
  have s: "cl_scenarios st' = foldl (\<lambda>s i. deleteScenario (lh_json H) E i s) (cl_scenarios (wl_stores p))
      (related sn_id sn_workflowId sn_meta w (sn_scenarios (sy_state (cl_scenarios (wl_stores p)))))" by (simp add: st' delete_related_def)
  have e: "cl_executions st' = foldl (\<lambda>s i. clearExecution (lh_toIso H) E i s) (cl_executions (wl_stores p))
      (related ex_workflowRunId ex_workflowId ex_meta w (es_executions (sy_state (cl_executions (wl_stores p)))))" by (simp add: st' delete_related_def)
  have r: "cl_scenarioRuns st' = foldl (\<lambda>s i. clearScenarioRun (lh_toIso H) E i s) (cl_scenarioRuns (wl_stores p))
      (related sr_id sr_workflowId sr_meta w (rn_scenarioRuns (sy_state (cl_scenarioRuns (wl_stores p)))))" by (simp add: st' delete_related_def)
  have t: "cl_testResults st' = foldl (\<lambda>s i. deleteTestResult (lh_stringify H) E i s) (cl_testResults (wl_stores p))
      (related tt_id tt_workflowId tt_meta w (tr_testResults (sy_state (cl_testResults (wl_stores p)))))" by (simp add: st' delete_related_def)
  have workflows: "getWorkflow i (cl_workflows st') = (if i = w then map_option (\<lambda>x. x\<lparr>wf_meta := markAsDeleted E (wf_meta x)\<rparr>)
      (getWorkflow i (cl_workflows (wl_stores p))) else getWorkflow i (cl_workflows (wl_stores p)))" for i
    by (auto simp: st' delete_related_def getWorkflow_def deleteWorkflow_def update_conv' split: option.split)
  show ?thesis
    using scenario_deletion.related_gone [OF k(1) s] execution_deletion.related_gone [OF k(2) e]
      scenario_run_deletion.related_gone [OF k(3) r] test_result_deletion.related_gone [OF k(4) t] workflows
    unfolding getScenario_def getExecution_def by (auto simp: markAsDeleted_def)
qed

definition sample_list_host :: list_host where
  "sample_list_host = \<lparr>lh_compare = (\<lambda>_ _. 0), lh_getTime = (\<lambda>_. 0), lh_json = sample_json, lh_toIso = (\<lambda>_. []),
     lh_stringify = (\<lambda>_. []), lh_parse = (\<lambda>_. None)\<rparr>"

definition sample_list :: list_page where
  "sample_list = \<lparr>wl_stores = sample_stores, wl_project = Some ''p'', wl_canEdit = True, wl_isCreating = False,
     wl_isImporting = False, wl_pendingDelete = Some (''w1'', ''old''), wl_isDeleting = False, wl_galleryOpen = False,
     wl_pendingTemplate = None, wl_pushed = [], wl_toasts = []\<rparr>"

theorem deleted_workflow_leaves_nothing_witness:
  "getScenario ''s1'' (cl_scenarios (wl_stores sample_list)) = Some sample_scenario \<and> \<not> sm_is_deleted (sn_meta sample_scenario) \<and>
   (\<exists>x. getScenario ''s1'' (cl_scenarios (wl_stores (handleDeleteWorkflow sample_list_host sample_env sample_list))) = Some x
     \<and> sm_is_deleted (sn_meta x))"
proof -
  note sample = sample_list_def sample_stores_def sample_scenarios_def synced_init_def scenario_store_init_def
    execution_store_init_def sample_scenario_def
  have keyed: "stores_keyed (wl_stores sample_list)" by (simp add: stores_keyed_def keyed_def sample)
  have pending: "wl_pendingDelete sample_list = Some (''w1'', ''old'')" by (simp add: sample_list_def)
  have before: "getScenario ''s1'' (cl_scenarios (wl_stores sample_list)) = Some sample_scenario" "\<not> sm_is_deleted (sn_meta sample_scenario)"
    by (simp_all add: getScenario_def sample sample_workflow_def)
  have "\<exists>x. getScenario ''s1'' (cl_scenarios (wl_stores (handleDeleteWorkflow sample_list_host sample_env sample_list))) = Some x \<and>
      sn_workflowId x = ''w1''"
    by (simp add: handleDeleteWorkflow_def toast_def delete_related_def related_def getScenario_def deleteScenario_def update_conv' sample)
  then show ?thesis
    using before deleted_workflow_leaves_nothing [OF keyed pending refl, of "''s1''" sample_list_host sample_env] by blast
qed

end
