(* ===== verification/Spec2Isabelle.thy ===== *)
theory Spec2Isabelle
  imports Translation_Props Workflow_Bundle Workflow_Store Scenario_Store Run_Stores Projects Retry_Policy
    Registry_Config Agent_Props Api_Routes Runner_Client Hydration Client_State Builder_Views
    Graph_Editor Live_Run Run_Start Test_Form Run_Inspector Scenario_Manager Service_Form Workflow_List
begin

text \<open>
  \<^bold>\<open>Tokyo Tester: the browser application, verified.\<close>

  The application (\<^verbatim>\<open>src/ui-v2\<close>, TypeScript) lets a team draw a workflow of services, write
  test scenarios against it and hand both to a runner (\<^verbatim>\<open>src/runner-v2\<close>, Go). This library
  models the modules that carry its logic, under \<^verbatim>\<open>src/ui-v2/src/modules\<close>, and proves what
  makes them correct. The runner, the database server and the browser are its environment.

  \<^bold>\<open>How the parts interact.\<close> A user edits a workflow or a scenario in a client store. The store's
  \<open>set\<close> is wrapped by the sync middleware, which turns the operations of one turn into one change and
  hands it to the sync service. The service keeps changes in a circular buffer with a copy in
  \<open>localStorage\<close>, joins and orders them, and sends batches to the server on a timer, before a run and when
  the page is hidden; remote rows come back through the stores' \<open>FromSync\<close> actions. For a run, the
  workflow graph is validated and translated to service definitions, the scenario to test
  definitions, and the events of the run are merged into the states that are shown. Projects decide who
  may do what. Workflows leave and enter the application as bundles. Accounts sign in with sessions;
  agents act for an account and a project with tokens and signed assertions, through the same checks.

  \<^bold>\<open>Theories.\<close>
  \<^item> \<open>Js_Prelude\<close>: the JavaScript the modules use. Exceptions are left values of a sum, dictionaries
    are association lists in insertion order, strings are Latin-1, \<open>sort\<close> is a stable sort with
    the laws of a consistent comparator as the locale \<open>js_comparator\<close>.
  \<^item> \<open>Fast_Queue\<close> (\<^verbatim>\<open>sync/fast-queue.ts\<close>): buffer, head, tail and size with every method. It
    refines a list under any sequence of calls; the locale \<open>deque_laws\<close> is the interface the sync
    service relies on.
  \<^item> \<open>Flow_Types\<close> (\<^verbatim>\<open>workflow/types/react-flow-cots.ts\<close>): nodes, edges, services, tests and the
    runner's configuration as records.
  \<^item> \<open>Edge_Model\<close> (\<^verbatim>\<open>workflow/lib/edge-model.ts\<close>): relations and readiness of edges; normal forms
    and the direction of inferred readiness.
  \<^item> \<open>Names\<close>, \<open>Dependency_Graph\<close>, \<open>Service_References\<close>, \<open>Graph_Validation\<close>, \<open>Service_Translation\<close>,
    \<open>Translation_Props\<close> (\<^verbatim>\<open>utils/scenario-translator.ts\<close>,
    \<^verbatim>\<open>utils/react-flow-translator.ts\<close>): service names, the dependency graph with its depth-first
    cycle search, references between services, validation with every message, translation to the
    runner's configuration. The cycle search is exact, a validated graph can be started, the bundle
    sent to the runner is closed and minimal, and tests are sent once and in order.
  \<^item> \<open>Client_Identity\<close> (\<^verbatim>\<open>sync/client-id.ts\<close>, \<^verbatim>\<open>lib/generate-id.ts\<close>): client, user and
    project ids; generated ids are version 4 UUIDs (bytes are 8-bit words).
  \<^item> \<open>Sync_Types\<close>, \<open>Sync_Service\<close> (\<^verbatim>\<open>sync/sync-types.ts\<close>, \<^verbatim>\<open>sync/sync-service.ts\<close>,
    \<^verbatim>\<open>sync/sync-init.ts\<close>): the service's state and methods. An \<open>async\<close> method is split at its
    \<open>await\<close>: one definition runs up to the request, others handle the reply; their sequential
    composition (\<open>flush\<close>, \<open>flushPending\<close>, \<open>flushPendingBeforeRun\<close>) takes the server as a function.
  \<^item> \<open>Sync_Queue\<close>: what the methods do to the queue seen as a list, in sequential use. Flushing loses
    nothing whatever the server answers; with a server that accepts everything is delivered.
  \<^item> \<open>Sync_Protocol\<close>: the step relation in which calls, timer ticks, page events and replies interleave
    in any order, and its invariants: payloads are conserved, the latest one is always held, the
    stored copy is the queue.
  \<^item> \<open>Sync_Middleware\<close> (\<^verbatim>\<open>sync/sync-middleware.ts\<close>): the operation tracker, the wrapped \<open>set\<close>
    and its microtasks.
  \<^item> \<open>Workflow_Store\<close>, \<open>Scenario_Store\<close>, \<open>Run_Stores\<close> (\<^verbatim>\<open>workflow/stores/*.store.sync.ts\<close>,
    \<^verbatim>\<open>test-result.store.ts\<close>): all actions of the synced stores. Pulling remote rows is a
    last-writer-wins register (locale \<open>lww_store\<close>, interpreted for both stores).
  \<^item> \<open>Run_Events\<close> (\<^verbatim>\<open>workflow/lib/realtime-events.ts\<close>, \<^verbatim>\<open>workflow-run-events.ts\<close>),
    \<open>Retry_Policy\<close> (\<^verbatim>\<open>test-retry-policy.ts\<close>): the statuses of runs, services and tests, the replay
    cursor, the merging of events; which operations are retried.
  \<^item> \<open>Workflow_Bundle\<close> (\<^verbatim>\<open>workflow/lib/workflow-bundle.ts\<close>): export, validation, import, cloning.
  \<^item> \<open>Projects\<close> (\<^verbatim>\<open>projects/server/service.ts\<close>, \<^verbatim>\<open>projects/actions.ts\<close>): tables, roles,
    memberships and permissions. Reads and writes of one call are separate definitions, because the code
    does not make them atomic.

  \<^item> \<open>Js_Strings\<close>: splitting, joining, trimming and comparing of strings as the server modules use them.
  \<^item> \<open>Registry_Config\<close> (\<^verbatim>\<open>workflow/lib/registry-config.ts\<close>, \<^verbatim>\<open>registry-secret-store.ts\<close>): image references, registry hosts and the secrets that go
    with a run.
  \<^item> \<open>Accounts\<close> (\<^verbatim>\<open>auth/server\<close>, \<^verbatim>\<open>admin/actions.ts\<close>, \<^verbatim>\<open>proxy.ts\<close>): sessions, passwords, first
    set-up, administration, the redirects of the request proxy.
  \<^item> \<open>Agent_Access\<close>, \<open>Runner_Requests\<close>, \<open>Agent_Service\<close>, \<open>Agent_Props\<close> (\<^verbatim>\<open>agent/server\<close>): agent
    tokens, signed assertions, grants and the operations an agent may call; no operation acts outside
    the grant's project and scopes.
  \<^item> \<open>Api_Routes\<close>, \<open>Runner_Client\<close> (\<^verbatim>\<open>app/api\<close>, \<^verbatim>\<open>workflow/lib/runner-client.ts\<close>): the sync and run routes
    between the browser and the runner.
  \<^item> \<open>Hydration\<close> (\<^verbatim>\<open>sync/sync-hydration.tsx\<close>, \<^verbatim>\<open>sync/SyncProvider.tsx\<close>,
    \<^verbatim>\<open>workflow-run-snapshot.ts\<close>): decoding of remote rows, pulling them into the stores, the two ways
    a conflict is settled. \<open>Client_State\<close> (\<^verbatim>\<open>auth/client-state.ts\<close>): what a sign-out and a change of
    project clear.
  \<^item> \<open>Architecture_View\<close>, \<open>Builder_Views\<close> (\<^verbatim>\<open>architecture-layout.ts\<close>,
    \<^verbatim>\<open>workflow-presentation.ts\<close>, \<^verbatim>\<open>edge-suggestions.ts\<close> and their neighbours): layouts, frames,
    suggestions, the journey of a scenario, the impact of removing a service.
  \<^item> \<open>Graph_Editor\<close> (\<^verbatim>\<open>useWorkflowGraph.tsx\<close>, \<^verbatim>\<open>useTestOrderManager.tsx\<close>,
    \<^verbatim>\<open>GuidedConnections.tsx\<close>): the handlers of the canvas over a React Flow that keeps the laws
    \<open>flow_laws\<close>; edits keep the drawn and the stored graph sound.
  \<^item> \<open>Run_Start\<close> (\<^verbatim>\<open>useWorkflowExecution.tsx\<close>) and \<open>Live_Run\<close> (\<^verbatim>\<open>useRealtimeLogs.tsx\<close>,
    \<^verbatim>\<open>useRealTimeTestReults.tsx\<close>): from the run button to the request, and from the event stream to the
    run stores, with replays of the stream.
  \<^item> \<open>Defaults\<close> (\<^verbatim>\<open>workflow-defaults.ts\<close>, \<^verbatim>\<open>scenario-recipes.ts\<close>,
    \<^verbatim>\<open>workflow-templates.ts\<close>): new nodes and tests, recipes and templates, and that they can be run.
  \<^item> \<open>Draft_Fields\<close> (\<^verbatim>\<open>DraftFields.tsx\<close>): the text of a JSON or a number field while it is edited, against
    the value it stands for (locale \<open>draft_field\<close>, interpreted for both). \<open>Test_Form\<close>
    (\<^verbatim>\<open>TestConfigForm.tsx\<close>): every control of the test form as an edit of a test, with the condition under
    which it is shown; a test keeps the configuration of its type, and a confirmed retry is for the
    operation that was confirmed.
  \<^item> \<open>Run_Page\<close>, \<open>Run_Inspector\<close> (\<^verbatim>\<open>WorkflowRunPage.tsx\<close>): loading, paging and reconciling the log of a run,
    diagnostics, selection, and what is shown of services, tests, stages and logs.
  \<^item> \<open>Scenario_Manager\<close> (\<^verbatim>\<open>ScenarioManager.tsx\<close>): which scenario is shown and every edit of its tests;
    tests run in the order they are listed. \<open>Service_Form\<close> (\<^verbatim>\<open>MockServerExpectationEditor.tsx\<close>,
    \<^verbatim>\<open>ServiceConfigForm.tsx\<close>, \<^verbatim>\<open>NodeConfigDialog.tsx\<close>): mocked endpoints, the form of a service and the
    dialog that saves it; a saved service has what a run needs, and its credentials stay in the session.
  \<^item> \<open>Workflow_List\<close> (\<^verbatim>\<open>Workflowlist.tsx\<close>): creating, importing, cloning, exporting and deleting workflows over
    the five stores; the locale \<open>soft_delete\<close>, interpreted for four of them, is what deletion relies on.

  \<^bold>\<open>Parameters.\<close> \<open>JSON.parse\<close>, \<open>JSON.stringify\<close>, \<open>localeCompare\<close>, the clock, random values and
  generated ids, the conversion of times to text, whether \<open>localStorage\<close> and \<open>sendBeacon\<close> work, the
  replies of the server and of the runner, the hash, MAC and password functions of \<open>node:crypto\<close>, the
  layout engine ELK, React Flow, the \<open>arrayMove\<close> of dnd-kit and the values react-hook-form reports are arguments. Properties that need something of them say so as
  hypotheses.

  \<^bold>\<open>Loops.\<close> Searches over graphs terminate by the number of unvisited names; the search for an unused
  workflow or header name by the number of taken names; the flush loops by the \<open>maxAttempts\<close> the code itself
  counts. The loop that reads a replayed stream page by page may run for ever against a server that
  stops naming new cursors: it is a partial function, and it is proved to return with every runner
  whose cursors come from a finite set. No fuel is used.

  \<^bold>\<open>Not modelled.\<close> The rendering of React components, documentation pages and Drizzle's SQL are interface
  code; \<open>getStatus\<close> and \<open>pull\<close> of the sync service are single requests without local state.
  What the controls of react-hook-form and dnd-kit do between the calls the code makes of them is theirs.
  The pages that lay out the modelled components, keyboard shortcuts and the marketing pages are left out.

  \<^bold>\<open>This theory\<close> adds what spans the components.
\<close>

section \<open>From an edit to the server\<close>

lemma enqueue_change_holds: "change_payload c \<in> change_payload ` set (enqueue_change c xs)"
proof (cases "findIndex (\<lambda>x. change_key x = change_key c) xs")
  case (Some i)
  then have "i < length xs" using findIndex_Some by blast
  then show ?thesis
    using Some by (auto simp: enqueue_change_def change_payload_def change_key_def image_iff set_update_memI
        intro!: bexI [of _ "c\<lparr>sc_change_type := Insert, sc_client_version := 0\<rparr>"])
qed (simp add: enqueue_change_def)

lemma enqueue_change_length: "length (enqueue_change c xs) \<le> Suc (length xs)"
  by (simp add: enqueue_change_def split: option.splits)

lemma orderSyncChanges_set: "set (orderSyncChanges cs) = set cs"
  by (metis mset_orderSyncChanges set_mset_mset)

lemma pre_run_payload: "change_payload c = ((Workflow, i), d) \<Longrightarrow> pre_run c"
  by (simp add: change_payload_def change_key_def pre_run_def)

text \<open>
  C12. What a user has just edited is what the run uses: after renaming a workflow in an idle store, once
  the microtasks have run and \<open>flushPendingBeforeRun\<close> has sent the pending changes to a server that
  accepts, the server has received a change of that workflow that carries the new name, and no workflow
  or scenario change is left behind. The attempts allowed must cover the queue.
\<close>

theorem renamed_workflow_synced_before_run:
  assumes "sy_microtasks store = []" "sy_tracker store i = None" "i \<noteq> []"
    and "getWorkflow i store = Some flow" "getUserId (env_browser E) = Inr u" "getProjectId (env_browser E) = Inr p"
    and "ss_inv service" "ss_enabled service" "0 < ss_maxBatchSize service"
    and "length (ss_items service) < attempts * ss_maxBatchSize service"
  shows "\<exists>store' service' service'' sent data.
    run_microtasks (workflow_options G) H now (snd (updateWorkflowName G E i name store), service) = (store', service') \<and>
    flushPendingBeforeRun H (sendBatch logging_server (env_browser E) now uuid) attempts (service', earlier) =
      (service'', earlier @ sent) \<and>
    list_ex (list_ex (\<lambda>c. change_payload c = ((Workflow, i), data))) sent \<and>
    json_member ''name'' data = Some (JStr name) \<and> \<not> hasPendingPreRunChanges service''"
proof -
  obtain m where m: "bump_metadata E (wf_meta flow) = Inr m" using bump_metadata_total [OF assms(5)] by blast
  from updateWorkflow_queues [OF assms(1,3,4) m refl, of G H now "\<lambda>w. w\<lparr>wf_name := name\<rparr>" service]
  obtain ct data store' where r: "run_microtasks (workflow_options G) H now
      (snd (updateWorkflowName G E i name store), service) = (store', queueChange H now Workflow i ct data service)"
    and d: "json_member ''name'' data = Some (JStr name)"
    by (auto simp: updateWorkflowName_def)
  let ?c = "full_change now Workflow i ct data" and ?s = "queueChange H now Workflow i ct data service"
  have items: "ss_items ?s = enqueue_change ?c (ss_items service)"
    using queueChange_items(2) [OF assms(7)] assms(8) by simp
  have "length (filter pre_run (ss_items ?s)) \<le> attempts * ss_maxBatchSize ?s"
    using assms(10) enqueue_change_length [of ?c "ss_items service"] length_filter_le [of pre_run "ss_items ?s"]
    by (simp add: items del: length_filter_le)
  with flushPendingBeforeRun_accepting [OF sendBatch_accepting [OF assms(5,6)] queueChange_items(1) [OF assms(7)]] assms(9)
  obtain s' batches where f: "flushPendingBeforeRun H (sendBatch logging_server (env_browser E) now uuid) attempts (?s, earlier) =
      (s', earlier @ map orderSyncChanges batches)" "\<not> hasPendingPreRunChanges s'"
      "concat batches = filter pre_run (ss_items ?s)"
    by fastforce
  obtain c where "c \<in> set (ss_items ?s)" "change_payload c = ((Workflow, i), data)"
    using enqueue_change_holds [of ?c "ss_items service"] by (auto simp: items)
  then have "c \<in> set (concat batches)" using pre_run_payload f(3) by simp
  then have "list_ex (list_ex (\<lambda>c. change_payload c = ((Workflow, i), data))) (map orderSyncChanges batches)"
    using \<open>change_payload c = _\<close> by (auto simp: list_ex_iff orderSyncChanges_set)
  then show ?thesis using r f d by blast
qed

theorem renamed_workflow_synced_before_run_witness:
  "\<exists>store' service' service'' sent data.
    run_microtasks (workflow_options sample_json) sample_host ''t''
      (snd (updateWorkflowName sample_json sample_env ''w1'' ''new'' sample_store), sample_sync) = (store', service') \<and>
    flushPendingBeforeRun sample_host (sendBatch logging_server (env_browser sample_env) ''t'' ''i'') 10 (service', []) =
      (service'', [] @ sent) \<and>
    list_ex (list_ex (\<lambda>c. change_payload c = ((Workflow, ''w1''), data))) sent \<and>
    json_member ''name'' data = Some (JStr ''new'') \<and> \<not> hasPendingPreRunChanges service''"
  by (rule renamed_workflow_synced_before_run [OF sample_store_facts(1,2) _ sample_store_facts(3,4)])
    (simp_all add: sample_env_def sample_browser_ids sample_sync_inv sample_sync_items)

end
